(* ===== verification/EviPrelude.thy ===== *)
theory EviPrelude
  imports Complex_Main "HOL-Library.List_Lexorder" "HOL-Library.Char_ord"
    "HOL-Library.Product_Lexorder" "HOL-Library.Multiset"
begin

text \<open>
  Shared vocabulary of the development: exceptions as values, the environment of a run
  (PostgreSQL text order, SHA-256, canonical JSON), Unicode text as code points, stable sorting,
  and database tables as lists of rows with their keyed access. The interface every component
  has with a table is the locale \<open>keyed_table\<close>, interpreted once on the operations below.
\<close>

named_theorems table_simps "lookup after insert and update on tables"
named_theorems frame_simps "fields an operation leaves alone"

section \<open>Exceptions and results\<close>

text \<open>Messages are dropped; the machine-readable code and the retry flag are kept.\<close>

datatype ModelErrorCode = ME_TIMEOUT | ME_RATE_LIMITED | ME_OUTPUT_INVALID | ME_UNAVAILABLE

datatype exn =
    GovernanceError string
  | AgentRuntimeError string
  | ModelError ModelErrorCode bool
  | PolicyError
  | PolicyVersionError string
  | JobHandlerError string bool
  | JobServiceError string
  | TriageError string bool
  | ValueError
  | LookupErr
  | RuntimeErr
  | KeyErr
  | IntegrityError
  | MediaProbeError string
  | OtherErr string

type_synonym 'a res = "exn + 'a"

definition bindE :: "'a res \<Rightarrow> ('a \<Rightarrow> 'b res) \<Rightarrow> 'b res" where
  "bindE m f = (case m of Inl e \<Rightarrow> Inl e | Inr a \<Rightarrow> f a)"

lemma bindE_simps [simp]:
  "bindE (Inl e) f = Inl e"
  "bindE (Inr a) f = f a"
  by (simp_all add: bindE_def)

lemma bindE_Inr_iff: "bindE m f = Inr b \<longleftrightarrow> (\<exists>a. m = Inr a \<and> f a = Inr b)"
  by (cases m) auto

lemma bindE_Inl_iff: "bindE m f = Inl e \<longleftrightarrow> m = Inl e \<or> (\<exists>a. m = Inr a \<and> f a = Inl e)"
  by (cases m) auto

text \<open>
  \<open>Database.session\<close>: the body runs on a snapshot; a normal exit commits it and an exception
  rolls it back and propagates.
\<close>

definition run_session :: "('s \<Rightarrow> ('a \<times> 's) res) \<Rightarrow> 's \<Rightarrow> 'a res \<times> 's" where
  "run_session body s = (case body s of Inl e \<Rightarrow> (Inl e, s) | Inr (a, s') \<Rightarrow> (Inr a, s'))"

lemma run_session_Inl [simp]: "body s = Inl e \<Longrightarrow> run_session body s = (Inl e, s)"
  by (simp add: run_session_def)

lemma run_session_Inr [simp]: "body s = Inr (a, s') \<Longrightarrow> run_session body s = (Inr a, s')"
  by (simp add: run_session_def)

lemma run_session_Inr_iff: "run_session body s = (Inr a, s') \<longleftrightarrow> body s = Inr (a, s')"
  by (auto simp: run_session_def split: sum.splits)

lemma run_session_rollback: "fst (run_session body s) = Inl e \<Longrightarrow> snd (run_session body s) = s"
  by (auto simp: run_session_def split: sum.splits)

section \<open>Text, time and JSON\<close>

text \<open>
  Identifiers and codes are ASCII \<open>string\<close>s. Human text, which the code strips, lowers and
  splits, is a list of Unicode code points.
\<close>

type_synonym utext = "nat list"

definition u :: "string \<Rightarrow> utext" where
  "u s = map of_char s"

definition py_isspace :: "nat \<Rightarrow> bool" where
  "py_isspace c \<longleftrightarrow> (9 \<le> c \<and> c \<le> 13) \<or> (28 \<le> c \<and> c \<le> 32) \<or> c = 133 \<or> c = 160 \<or> c = 5760
     \<or> (8192 \<le> c \<and> c \<le> 8202) \<or> c = 8232 \<or> c = 8233 \<or> c = 8239 \<or> c = 8287 \<or> c = 12288"

definition py_strip :: "utext \<Rightarrow> utext" where
  "py_strip s = rev (dropWhile py_isspace (rev (dropWhile py_isspace s)))"

definition is_blank :: "utext \<Rightarrow> bool" where
  "is_blank s \<longleftrightarrow> py_strip s = []"

lemma py_strip_Nil [simp]: "py_strip [] = []"
  by (simp add: py_strip_def)

lemma is_blank_iff: "is_blank s \<longleftrightarrow> (\<forall>c\<in>set s. py_isspace c)"
proof -
  have "dropWhile py_isspace (rev (dropWhile py_isspace s)) = [] \<longleftrightarrow> (\<forall>c\<in>set s. py_isspace c)"
    by (metis dropWhile_eq_Nil_conv set_rev set_dropWhileD dropWhile_eq_Cons_conv
        list.set_intros(1) neq_Nil_conv)
  then show ?thesis by (simp add: is_blank_def py_strip_def)
qed

text \<open>Timestamps are microseconds since the epoch.\<close>

type_synonym time = int

definition seconds :: "int \<Rightarrow> time" where
  "seconds n = n * 1000000"

datatype json =
    JNull
  | JBool bool
  | JInt int
  | JNum rat
  | JStr string
  | JText utext
  | JList "json list"
  | JObj "(string \<times> json) list"

definition jopt :: "('a \<Rightarrow> json) \<Rightarrow> 'a option \<Rightarrow> json" where
  "jopt f x = (case x of None \<Rightarrow> JNull | Some a \<Rightarrow> f a)"

text \<open>
  What a run takes from outside the repository: the collation PostgreSQL orders text columns by,
  SHA-256 of a text, the canonical (compact, key-sorted) JSON text of a value, and the JSON text
  with the default separators that request keys are made of. Nothing is assumed of them unless a
  theorem says so.
\<close>

record env =
  coll :: "string \<Rightarrow> string \<Rightarrow> bool"
  sha :: "string \<Rightarrow> string"
  dumps :: "json \<Rightarrow> string"
  dumps_spaced :: "json \<Rightarrow> string"

definition hash_json :: "env \<Rightarrow> json \<Rightarrow> string" where
  "hash_json E j = sha E (dumps E j)"

fun digits :: "nat \<Rightarrow> string" where
  "digits n = (if n < 10 then [char_of (48 + n)] else digits (n div 10) @ [char_of (48 + n mod 10)])"

declare digits.simps [simp del]

text \<open>The decimal text an f-string gives of an integer.\<close>

definition str_int :: "int \<Rightarrow> string" where
  "str_int i = (if i < 0 then ''-'' @ digits (nat (- i)) else digits (nat i))"

definition join :: "string \<Rightarrow> string list \<Rightarrow> string" where
  "join sep xs = (case xs of [] \<Rightarrow> [] | y # ys \<Rightarrow> y @ concat (map (\<lambda>z. sep @ z) ys))"

section \<open>Stable sorting by a comparison\<close>

fun insort_by :: "('a \<Rightarrow> 'a \<Rightarrow> bool) \<Rightarrow> 'a \<Rightarrow> 'a list \<Rightarrow> 'a list" where
  "insort_by le x [] = [x]"
| "insort_by le x (y # ys) = (if le x y then x # y # ys else y # insort_by le x ys)"

definition sort_by :: "('a \<Rightarrow> 'a \<Rightarrow> bool) \<Rightarrow> 'a list \<Rightarrow> 'a list" where
  "sort_by le xs = foldr (insort_by le) xs []"

lemma sort_by_simps [simp]:
  "sort_by le [] = []"
  "sort_by le (x # xs) = insort_by le x (sort_by le xs)"
  by (simp_all add: sort_by_def)

lemma mset_insort_by [simp]: "mset (insort_by le x xs) = add_mset x (mset xs)"
  by (induction xs) auto

lemma mset_sort_by [simp]: "mset (sort_by le xs) = mset xs"
  by (induction xs) auto

lemma set_sort_by [simp]: "set (sort_by le xs) = set xs"
  by (metis mset_sort_by set_mset_mset)

lemma length_sort_by [simp]: "length (sort_by le xs) = length xs"
  by (metis mset_sort_by size_mset)

lemma distinct_sort_by [simp]: "distinct (map f (sort_by le xs)) = distinct (map f xs)"
  by (metis mset_map mset_sort_by mset_eq_imp_distinct_iff)

lemma sort_by_eq_Nil [simp]: "sort_by le xs = [] \<longleftrightarrow> xs = []"
  by (metis length_0_conv length_sort_by)

definition total_preorder :: "('a \<Rightarrow> 'a \<Rightarrow> bool) \<Rightarrow> bool" where
  "total_preorder le \<longleftrightarrow> (\<forall>x y. le x y \<or> le y x) \<and> (\<forall>x y z. le x y \<longrightarrow> le y z \<longrightarrow> le x z)"

lemma sorted_insort_by:
  assumes "total_preorder le" and "sorted_wrt le xs"
  shows "sorted_wrt le (insort_by le x xs)"
  using assms(2)
proof (induction xs)
  case Nil
  then show ?case by simp
next
  case (Cons y ys)
  have s: "set (insort_by le x ys) = insert x (set ys)"
    by (metis mset_insort_by set_mset_add_mset_insert set_mset_mset)
  show ?case
    using Cons assms(1) unfolding total_preorder_def by (auto simp: s)
qed

lemma sorted_sort_by: "total_preorder le \<Longrightarrow> sorted_wrt le (sort_by le xs)"
  by (induction xs) (auto intro: sorted_insort_by)

lemma sort_by_cong: "(\<And>x y. le x y = le' x y) \<Longrightarrow> sort_by le xs = sort_by le' xs"
proof -
  assume "\<And>x y. le x y = le' x y"
  then have "le = le'" by (intro ext)
  then show ?thesis by simp
qed

lemma insort_by_key: "insort_by (\<lambda>a b. f a \<le> f b) x xs = insort_key f x xs"
  by (induction xs) auto

lemma sort_by_key: "sort_by (\<lambda>a b. f a \<le> f b) xs = sort_key f xs"
  by (induction xs) (auto simp: insort_by_key)

text \<open>\<open>sorted(set(xs))\<close> of Python.\<close>

definition sorted_uniq :: "'a::linorder list \<Rightarrow> 'a list" where
  "sorted_uniq xs = sort (remdups xs)"

lemma set_sorted_uniq [simp]: "set (sorted_uniq xs) = set xs"
  by (simp add: sorted_uniq_def)

lemma distinct_sorted_uniq [simp]: "distinct (sorted_uniq xs)"
  by (simp add: sorted_uniq_def)

lemma sorted_sorted_uniq [simp]: "sorted (sorted_uniq xs)"
  by (simp add: sorted_uniq_def)

lemma sorted_uniq_Nil [simp]: "sorted_uniq xs = [] \<longleftrightarrow> xs = []"
  by (metis set_empty2 set_sorted_uniq)

lemma sorted_uniq_set: "sorted_uniq xs = sorted_list_of_set (set xs)"
  unfolding sorted_uniq_def by (rule sorted_list_of_set_sort_remdups [symmetric])

lemma sorted_uniq_cong: "set xs = set ys \<Longrightarrow> sorted_uniq xs = sorted_uniq ys"
  by (simp only: sorted_uniq_set)

section \<open>Tables\<close>

text \<open>
  A table is the list of its rows in insertion order. \<open>session.get\<close> is \<open>t_get\<close>, assigning to
  the attributes of a row is \<open>t_upd\<close>, and \<open>session.add\<close> with the flush that checks the
  primary key is \<open>t_add\<close>.
\<close>

definition t_get :: "('r \<Rightarrow> 'k) \<Rightarrow> 'k \<Rightarrow> 'r list \<Rightarrow> 'r option" where
  "t_get key k t = find (\<lambda>r. key r = k) t"

definition t_upd :: "('r \<Rightarrow> 'k) \<Rightarrow> 'k \<Rightarrow> ('r \<Rightarrow> 'r) \<Rightarrow> 'r list \<Rightarrow> 'r list" where
  "t_upd key k f t = map (\<lambda>r. if key r = k then f r else r) t"

definition t_add :: "('r \<Rightarrow> 'k) \<Rightarrow> 'r \<Rightarrow> 'r list \<Rightarrow> 'r list res" where
  "t_add key r t = (if key r \<in> set (map key t) then Inl IntegrityError else Inr (t @ [r]))"

text \<open>\<open>session.add_all\<close>: each row in turn, the whole transaction failing at the first clash.\<close>

fun t_add_all :: "('r \<Rightarrow> 'k) \<Rightarrow> 'r list \<Rightarrow> 'r list \<Rightarrow> 'r list res" where
  "t_add_all key [] t = Inr t"
| "t_add_all key (r # rs) t = bindE (t_add key r t) (t_add_all key rs)"

definition keys_distinct :: "('r \<Rightarrow> 'k) \<Rightarrow> 'r list \<Rightarrow> bool" where
  "keys_distinct key t \<longleftrightarrow> distinct (map key t)"

text \<open>The interface a component has with a table, and what it may rely on.\<close>

locale keyed_table =
  fixes key :: "'r \<Rightarrow> 'k"
    and get :: "'k \<Rightarrow> 'r list \<Rightarrow> 'r option"
    and upd :: "'k \<Rightarrow> ('r \<Rightarrow> 'r) \<Rightarrow> 'r list \<Rightarrow> 'r list"
    and add :: "'r \<Rightarrow> 'r list \<Rightarrow> 'r list res"
    and wf :: "'r list \<Rightarrow> bool"
  assumes get_sound: "get k t = Some r \<Longrightarrow> r \<in> set t \<and> key r = k"
    and get_complete: "wf t \<Longrightarrow> r \<in> set t \<Longrightarrow> get (key r) t = Some r"
    and get_None_iff: "get k t = None \<longleftrightarrow> (\<forall>r\<in>set t. key r \<noteq> k)"
    and get_upd: "(\<And>r. key (f r) = key r) \<Longrightarrow>
          get k (upd k' f t) = (if k = k' then map_option f (get k t) else get k t)"
    and get_add: "add r t = Inr t' \<Longrightarrow> get k t' = (if k = key r then Some r else get k t)"
    and add_rows: "add r t = Inr t' \<Longrightarrow> t' = t @ [r]"
    and add_ok_iff: "(\<exists>t'. add r t = Inr t') \<longleftrightarrow> get (key r) t = None"
    and wf_add: "wf t \<Longrightarrow> add r t = Inr t' \<Longrightarrow> wf t'"
    and wf_upd: "(\<And>r. key (f r) = key r) \<Longrightarrow> wf t \<Longrightarrow> wf (upd k f t)"
begin

lemma get_upd_same: "(\<And>r. key (f r) = key r) \<Longrightarrow> get k t = Some r \<Longrightarrow> get k (upd k f t) = Some (f r)"
  by (simp add: get_upd)

lemma get_upd_other: "(\<And>r. key (f r) = key r) \<Longrightarrow> k \<noteq> k' \<Longrightarrow> get k (upd k' f t) = get k t"
  by (simp add: get_upd)

lemma get_upd_None: "(\<And>r. key (f r) = key r) \<Longrightarrow> get k (upd k' f t) = None \<longleftrightarrow> get k t = None"
  by (simp add: get_upd)

lemma add_keeps: "add r t = Inr t' \<Longrightarrow> get k t = Some x \<Longrightarrow> get k t' = Some x"
  using add_ok_iff [of r t] by (auto simp: get_add)

lemma wf_unique: "wf t \<Longrightarrow> r \<in> set t \<Longrightarrow> r' \<in> set t \<Longrightarrow> key r = key r' \<Longrightarrow> r = r'"
  by (metis get_complete option.inject)

end

lemma t_get_None: "t_get key k t = None \<longleftrightarrow> (\<forall>r\<in>set t. key r \<noteq> k)"
  by (auto simp: t_get_def find_None_iff)

lemma t_get_Some: "t_get key k t = Some r \<Longrightarrow> r \<in> set t \<and> key r = k"
  by (auto simp: t_get_def find_Some_iff)

lemma t_get_append: "t_get key k (t @ t') = (case t_get key k t of None \<Rightarrow> t_get key k t' | Some r \<Rightarrow> Some r)"
  by (induction t) (auto simp: t_get_def)

lemma t_get_Cons: "t_get key k (r # t) = (if key r = k then Some r else t_get key k t)"
  by (simp add: t_get_def)

lemma t_get_Nil [simp]: "t_get key k [] = None"
  by (simp add: t_get_def)

lemma t_get_upd: "(\<And>r. key (f r) = key r) \<Longrightarrow>
  t_get key k (t_upd key k' f t) = (if k = k' then map_option f (t_get key k t) else t_get key k t)"
  by (induction t) (auto simp: t_get_def t_upd_def)

lemma t_get_complete: "keys_distinct key t \<Longrightarrow> r \<in> set t \<Longrightarrow> t_get key (key r) t = Some r"
proof (induction t)
  case Nil
  then show ?case by simp
next
  case (Cons x t)
  then show ?case
    by (cases "r = x") (auto simp: t_get_Cons keys_distinct_def rev_image_eqI)
qed

lemma map_key_upd: "(\<And>r. key (f r) = key r) \<Longrightarrow> map key (t_upd key k f t) = map key t"
  by (induction t) (auto simp: t_upd_def)

lemma t_add_Inr: "t_add key r t = Inr t' \<longleftrightarrow> t_get key (key r) t = None \<and> t' = t @ [r]"
  by (auto simp: t_add_def t_get_None image_iff split: if_splits)

lemma t_upd_Nil [simp]: "t_upd key k f [] = []"
  by (simp add: t_upd_def)

lemma t_upd_Cons: "t_upd key k f (r # t) = (if key r = k then f r else r) # t_upd key k f t"
  by (simp add: t_upd_def)

lemma find_append_Cons: "find P (xs @ [y]) = (case find P xs of Some x \<Rightarrow> Some x | None \<Rightarrow> if P y then Some y else None)"
  by (induction xs) auto

lemma find_t_upd:
  assumes "\<And>x. P (f x) = P x"
  shows "find P (t_upd key k f t) = map_option (\<lambda>x. if key x = k then f x else x) (find P t)"
  using assms by (induction t) (auto simp: t_upd_Cons)

lemma length_t_upd [simp]: "length (t_upd key k f t) = length t"
  by (simp add: t_upd_def)

lemma map_t_upd [frame_simps]: "(\<And>r. g (f r) = g r) \<Longrightarrow> map g (t_upd key k f t) = map g t"
  by (induction t) (auto simp: t_upd_def)

lemma t_add_all_Inr: "t_add_all key rs t = Inr t' \<Longrightarrow> t' = t @ rs"
  by (induction rs arbitrary: t) (fastforce simp: bindE_Inr_iff t_add_Inr)+

lemma t_add_all_distinct:
  "t_add_all key rs t = Inr t' \<Longrightarrow> keys_distinct key t \<Longrightarrow> keys_distinct key t'"
  by (induction rs arbitrary: t)
     (auto simp: bindE_Inr_iff t_add_def keys_distinct_def split: if_splits)

lemma t_add_all_ok_iff:
  "(\<exists>t'. t_add_all key rs t = Inr t') \<longleftrightarrow> distinct (map key rs) \<and> set (map key rs) \<inter> set (map key t) = {}"
proof (induction rs arbitrary: t)
  case Nil
  then show ?case by simp
next
  case (Cons r rs)
  show ?case
    by (cases "key r \<in> set (map key t)") (auto simp: t_add_def Cons.IH)
qed

interpretation tbl: keyed_table key "t_get key" "t_upd key" "t_add key" "keys_distinct key" for key
proof (unfold_locales, goal_cases)
  case (1 k t r) then show ?case by (rule t_get_Some)
next
  case (2 t r) then show ?case by (rule t_get_complete)
next
  case (3 k t) show ?case by (rule t_get_None)
next
  case (4 f k k' t) then show ?case by (rule t_get_upd)
next
  case (5 r t t' k) then show ?case
    by (auto simp: t_add_Inr t_get_append t_get_Cons split: option.splits)
next
  case (6 r t t') then show ?case by (simp add: t_add_Inr)
next
  case (7 r t) show ?case by (simp add: t_add_Inr)
next
  case (8 t r t') then show ?case
    by (auto simp: t_add_def keys_distinct_def split: if_splits)
next
  case (9 f t k) then show ?case by (simp add: keys_distinct_def map_key_upd)
qed

declare t_get_upd [table_simps] t_add_Inr [table_simps] bindE_Inr_iff [table_simps]

text \<open>\<open>select(func.coalesce(func.max(..), 0))\<close> over a list of sequence numbers.\<close>

definition max_or_0 :: "int list \<Rightarrow> int" where
  "max_or_0 xs = (if xs = [] then 0 else Max (set xs))"

lemma max_or_0_ge: "x \<in> set xs \<Longrightarrow> x \<le> max_or_0 xs"
  by (auto simp: max_or_0_def)

lemma max_or_0_fresh: "max_or_0 xs + 1 \<notin> set xs"
  using max_or_0_ge [of "max_or_0 xs + 1" xs] by auto

lemma max_or_0_append: "xs \<noteq> [] \<Longrightarrow> max_or_0 (xs @ [y]) = max (max_or_0 xs) y"
  by (simp add: max_or_0_def max.commute)

lemma max_or_0_upt: "xs = [1..int n] \<Longrightarrow> max_or_0 xs = int n"
  by (cases n) (auto simp: max_or_0_def intro: Max_eqI)

text \<open>A sequence column that numbers its rows \<open>1, 2, ..\<close> in insertion order.\<close>

definition numbered :: "int list \<Rightarrow> bool" where
  "numbered xs \<longleftrightarrow> xs = map int [1..<Suc (length xs)]"

lemma numbered_Nil [simp]: "numbered []"
  by (simp add: numbered_def)

lemma numbered_max: "numbered xs \<Longrightarrow> max_or_0 xs = int (length xs)"
proof -
  assume n: "numbered xs"
  have "set xs = set (map int [1..<Suc (length xs)])" using n by (metis numbered_def)
  then have s: "set xs = int ` {1..<Suc (length xs)}" by (simp only: set_map set_upt)
  show ?thesis
  proof (cases "xs = []")
    case False
    then have "Max (set xs) = int (length xs)"
      unfolding s by (intro Max_eqI) (auto intro!: image_eqI [of _ _ "length xs"] simp: Suc_le_eq)
    with False show ?thesis by (simp add: max_or_0_def)
  qed (simp add: max_or_0_def)
qed

lemma numbered_snoc: "numbered xs \<Longrightarrow> numbered (xs @ [max_or_0 xs + 1])"
  by (simp add: numbered_max) (simp add: numbered_def)

text \<open>
  The interface of an append-only log whose rows are numbered within groups: results within a
  requirement, decisions within a case. A step of its provider adds at most one row, whose number
  is one more than the largest of its group.
\<close>

locale sequence_log =
  fixes rows :: "'s \<Rightarrow> 'r list" and grp :: "'r \<Rightarrow> 'g" and sq :: "'r \<Rightarrow> int"
    and lstep :: "'s \<Rightarrow> 's \<Rightarrow> bool"
  assumes step_appends: "lstep s s' \<Longrightarrow> rows s' = rows s
      \<or> (\<exists>r. rows s' = rows s @ [r] \<and> sq r = max_or_0 (map sq (filter (\<lambda>x. grp x = grp r) (rows s))) + 1)"
begin

definition log_numbered :: "'s \<Rightarrow> bool" where
  "log_numbered s \<longleftrightarrow> (\<forall>g. numbered (map sq (filter (\<lambda>x. grp x = g) (rows s))))"

lemma step_prefix: "lstep s s' \<Longrightarrow> \<exists>new. rows s' = rows s @ new"
  by (drule step_appends) (metis append.right_neutral)

lemma step_numbered:
  assumes "lstep s s'" and "log_numbered s"
  shows "log_numbered s'"
  using step_appends [OF assms(1)]
proof
  assume "rows s' = rows s"
  then show ?thesis using assms(2) by (simp add: log_numbered_def)
next
  assume "\<exists>r. rows s' = rows s @ [r] \<and> sq r = max_or_0 (map sq (filter (\<lambda>x. grp x = grp r) (rows s))) + 1"
  then obtain r where r: "rows s' = rows s @ [r]"
      "sq r = max_or_0 (map sq (filter (\<lambda>x. grp x = grp r) (rows s))) + 1" by blast
  show ?thesis
    unfolding log_numbered_def
  proof
    fix g
    have "numbered (map sq (filter (\<lambda>x. grp x = g) (rows s)))" using assms(2) by (simp add: log_numbered_def)
    then show "numbered (map sq (filter (\<lambda>x. grp x = g) (rows s')))"
      using numbered_snoc by (cases "grp r = g") (auto simp: r)
  qed
qed

lemma steps_log: "lstep\<^sup>*\<^sup>* s s' \<Longrightarrow> (\<exists>new. rows s' = rows s @ new) \<and> (log_numbered s \<longrightarrow> log_numbered s')"
proof (induction rule: rtranclp_induct)
  case base
  then show ?case by simp
next
  case (step y z)
  then show ?case using step_prefix [of y z] step_numbered [of y z] by auto
qed

end

text \<open>Options that must hold, as a column that is not null.\<close>

definition opt_all :: "('a \<Rightarrow> bool) \<Rightarrow> 'a option \<Rightarrow> bool" where
  "opt_all P x \<longleftrightarrow> (case x of None \<Rightarrow> True | Some a \<Rightarrow> P a)"

lemma opt_all_simps [simp]: "opt_all P None" "opt_all P (Some a) = P a"
  by (simp_all add: opt_all_def)

text \<open>
  A concrete environment for the worked instances of the theorems: code-point order, a hash that is
  the text itself, and a JSON text that keeps scalars apart.
\<close>

primrec demo_dumps :: "json \<Rightarrow> string" where
  "demo_dumps JNull = ''null''"
| "demo_dumps (JBool b) = (if b then ''true'' else ''false'')"
| "demo_dumps (JInt i) = str_int i"
| "demo_dumps (JNum r) = str_int (fst (quotient_of r)) @ ''/'' @ str_int (snd (quotient_of r))"
| "demo_dumps (JStr s) = s"
| "demo_dumps (JText t) = ''text''"
| "demo_dumps (JList js) = ''['' @ concat (map (\<lambda>x. x @ '','') (map demo_dumps js)) @ '']''"
| "demo_dumps (JObj kvs) = ''{'' @ concat (map (\<lambda>x. fst x @ '':'' @ snd x @ '','')
     (map (map_prod id demo_dumps) kvs)) @ ''}''"

definition demo_env :: env where
  "demo_env = \<lparr> coll = (\<lambda>a b. a \<le> b), sha = (\<lambda>s. s), dumps = demo_dumps,
     dumps_spaced = demo_dumps \<rparr>"

end
