(* ===== verification/DomainModels.thy ===== *)
theory DomainModels
  imports EviPrelude
begin

text \<open>
  Enumerations and public value types: \<open>evistream/domain/models.py\<close>,
  \<open>evistream/governance/types.py\<close>, \<open>evistream/application/types.py\<close> and the enumerations of
  \<open>evistream/agent/types.py\<close> and \<open>evistream/media/types.py\<close>. Constructors carry a prefix where two
  enumerations of the source share a member name. Length and pattern constraints of the pydantic
  fields are stated where a component relies on them.
\<close>

section \<open>Domain enumerations\<close>

datatype PolicyLifecycle = PL_DRAFT | PL_PUBLISHED

datatype Severity = SEV_LOW | SEV_MEDIUM | SEV_HIGH | SEV_CRITICAL

datatype CaseStatus =
  CS_READY | CS_INVESTIGATING | CS_INVESTIGATED | CS_NEEDS_HUMAN_REVIEW | CS_DECIDED | CS_CANCELLED

datatype RequirementStatus = RS_PENDING | RS_SATISFIED | RS_NOT_SATISFIED | RS_CONFLICTED | RS_UNKNOWN

datatype EvidenceStance = ST_SUPPORT | ST_CONTRADICT | ST_NEUTRAL | ST_UNCERTAIN

datatype ToolRunStatus = TR_RUNNING | TR_SUCCESS | TR_PARTIAL | TR_FAILED

datatype Verdict = V_APPROVE | V_REJECT | V_NEEDS_HUMAN_REVIEW

datatype DecisionSource = DS_MACHINE | DS_HUMAN

text \<open>The status texts of \<open>model_calls\<close>, which the source writes as plain strings.\<close>

datatype ModelCallStatus = MC_RUNNING | MC_SUCCESS | MC_FAILED

section \<open>Jobs, media and agent enumerations\<close>

datatype JobStatus = JS_PENDING | JS_RUNNING | JS_SUCCEEDED | JS_RETRY_WAIT | JS_FAILED | JS_CANCELLED

datatype VideoStatus = VS_UPLOADED | VS_PROCESSING | VS_READY | VS_FAILED

datatype ArtifactType =
  AT_SOURCE_VIDEO | AT_KEYFRAME | AT_CLIP | AT_TRANSCRIPT | AT_OCR | AT_VISUAL_DESCRIPTION

datatype AgentNode = N_PLAN | N_RETRIEVE | N_INSPECT | N_VERIFY | N_CHALLENGE | N_DECIDE

datatype InvestigationStatus =
  IS_PENDING | IS_RUNNING | IS_COMPLETED | IS_NEEDS_HUMAN_REVIEW | IS_FAILED | IS_CANCELLED

datatype AgentRunKind = RK_INVESTIGATION | RK_MANUAL_TOOL

text \<open>Source kind of a requirement: \<open>Literal["requirement", "exception"]\<close>.\<close>

datatype SourceKind = SK_requirement | SK_exception

section \<open>Enumeration texts\<close>

text \<open>The values of the string enumerations, as they enter hashes and messages.\<close>

fun str_requirement_status :: "RequirementStatus \<Rightarrow> string" where
  "str_requirement_status RS_PENDING = ''PENDING''"
| "str_requirement_status RS_SATISFIED = ''SATISFIED''"
| "str_requirement_status RS_NOT_SATISFIED = ''NOT_SATISFIED''"
| "str_requirement_status RS_CONFLICTED = ''CONFLICTED''"
| "str_requirement_status RS_UNKNOWN = ''UNKNOWN''"

fun str_stance :: "EvidenceStance \<Rightarrow> string" where
  "str_stance ST_SUPPORT = ''support''"
| "str_stance ST_CONTRADICT = ''contradict''"
| "str_stance ST_NEUTRAL = ''neutral''"
| "str_stance ST_UNCERTAIN = ''uncertain''"

fun str_tool_status :: "ToolRunStatus \<Rightarrow> string" where
  "str_tool_status TR_RUNNING = ''running''"
| "str_tool_status TR_SUCCESS = ''success''"
| "str_tool_status TR_PARTIAL = ''partial''"
| "str_tool_status TR_FAILED = ''failed''"

fun str_model_status :: "ModelCallStatus \<Rightarrow> string" where
  "str_model_status MC_RUNNING = ''running''"
| "str_model_status MC_SUCCESS = ''success''"
| "str_model_status MC_FAILED = ''failed''"

fun str_verdict :: "Verdict \<Rightarrow> string" where
  "str_verdict V_APPROVE = ''APPROVE''"
| "str_verdict V_REJECT = ''REJECT''"
| "str_verdict V_NEEDS_HUMAN_REVIEW = ''NEEDS_HUMAN_REVIEW''"

fun str_severity :: "Severity \<Rightarrow> string" where
  "str_severity SEV_LOW = ''LOW''"
| "str_severity SEV_MEDIUM = ''MEDIUM''"
| "str_severity SEV_HIGH = ''HIGH''"
| "str_severity SEV_CRITICAL = ''CRITICAL''"

fun str_node :: "AgentNode \<Rightarrow> string" where
  "str_node N_PLAN = ''PLAN''"
| "str_node N_RETRIEVE = ''RETRIEVE''"
| "str_node N_INSPECT = ''INSPECT''"
| "str_node N_VERIFY = ''VERIFY''"
| "str_node N_CHALLENGE = ''CHALLENGE''"
| "str_node N_DECIDE = ''DECIDE''"

fun str_kind :: "SourceKind \<Rightarrow> string" where
  "str_kind SK_requirement = ''requirement''"
| "str_kind SK_exception = ''exception''"

section \<open>Governance contracts\<close>

text \<open>Confidences are finite floats, compared and never computed with, hence rationals.\<close>

record AggregationConfig =
  minimum_confidence :: rat
  minimum_supporting_evidence :: int
  minimum_contradicting_evidence :: int

definition default_aggregation :: AggregationConfig where
  "default_aggregation = \<lparr> minimum_confidence = 3/5, minimum_supporting_evidence = 1,
     minimum_contradicting_evidence = 1 \<rparr>"

definition valid_aggregation :: "AggregationConfig \<Rightarrow> bool" where
  "valid_aggregation c \<longleftrightarrow> 0 \<le> minimum_confidence c \<and> minimum_confidence c \<le> 1
     \<and> 1 \<le> minimum_supporting_evidence c \<and> minimum_supporting_evidence c \<le> 20
     \<and> 1 \<le> minimum_contradicting_evidence c \<and> minimum_contradicting_evidence c \<le> 20"

definition json_aggregation :: "AggregationConfig \<Rightarrow> json" where
  "json_aggregation c = JObj [(''minimum_confidence'', JNum (minimum_confidence c)),
     (''minimum_supporting_evidence'', JInt (minimum_supporting_evidence c)),
     (''minimum_contradicting_evidence'', JInt (minimum_contradicting_evidence c))]"

record AggregationOutcome =
  ao_result_id :: string
  ao_requirement_id :: string
  ao_requirement_key :: string
  ao_status :: RequirementStatus
  ao_reason_code :: string
  ao_evidence_ids :: "string list"
  ao_valid_evidence_ids :: "string list"
  ao_ignored_evidence_ids :: "string list"
  ao_aggregator_version :: string
  ao_input_sha256 :: string

datatype RuleTruthValue = T_TRUE | T_FALSE | T_UNKNOWN

record RuleEvaluation =
  re_verdict :: Verdict
  re_reason_code :: string
  re_explanation :: string
  re_requirement_result_ids :: "string list"
  re_evidence_ids :: "string list"
  re_evaluator_version :: string
  re_input_sha256 :: string

datatype AppealStatus = AS_OPEN | AS_RESOLVED

record Review =
  rv_review_id :: string
  rv_case_id :: string
  rv_reviewer :: utext
  rv_reviewed_decision_id :: "string option"
  rv_decision_id :: string
  rv_note :: utext
  rv_request_key :: string
  rv_created_at :: time

record Appeal =
  av_appeal_id :: string
  av_case_id :: string
  av_submitter :: utext
  av_statement :: utext
  av_challenged_decision_id :: string
  av_status :: AppealStatus
  av_resolution_review_id :: "string option"
  av_created_at :: time
  av_resolved_at :: "time option"

datatype ReplayMode = RM_REEVALUATE | RM_REINVESTIGATE

datatype ReplayItemStatus =
  RI_PENDING | RI_MATERIALIZED | RI_INVESTIGATING | RI_COMPLETED | RI_NEEDS_HUMAN_REVIEW | RI_FAILED

datatype ReplayLineageAction = LA_REUSED | LA_INVALIDATED | LA_RECREATED

record PolicyDiff =
  pd_policy_id :: string
  pd_source_version :: int
  pd_target_version :: int
  pd_mode :: ReplayMode
  pd_unchanged_requirement_keys :: "string list"
  pd_added_requirement_keys :: "string list"
  pd_removed_requirement_keys :: "string list"
  pd_modified_requirement_keys :: "string list"
  pd_aggregation_changed :: bool
  pd_evaluator_changed :: bool

text \<open>An invalidation is the dictionary \<open>{requirement_key, reason}\<close>.\<close>

record ReplayCasePlan =
  cp_source_case_id :: string
  cp_source_decision_id :: "string option"
  cp_mode :: ReplayMode
  cp_reusable_requirement_keys :: "string list"
  cp_investigate_requirement_keys :: "string list"
  cp_invalidations :: "(string \<times> string) list"
  cp_blocked_reason :: "string option"

record ReplayPreview =
  pv_policy_id :: string
  pv_source_version :: int
  pv_target_version :: int
  pv_mode :: ReplayMode
  pv_cases :: "ReplayCasePlan list"
  pv_affected_case_count :: int
  pv_reusable_evidence_count :: int
  pv_reusable_result_count :: int
  pv_estimated_investigation_count :: int
  pv_preview_sha256 :: string

text \<open>
  \<open>decision_metadata\<close>: the machine writes the provisional verdict, the stop reason and the status
  of every requirement; a human decision writes the reviewer.
\<close>

datatype DecisionMetadata =
    MachineMeta "Verdict option" "string option" "(string \<times> RequirementStatus) list"
  | HumanMeta utext

record Decision =
  dv_decision_id :: string
  dv_case_id :: string
  dv_policy_id :: string
  dv_policy_version :: int
  dv_verdict :: Verdict
  dv_reason_code :: string
  dv_source :: DecisionSource
  dv_explanation :: utext
  dv_evidence_ids :: "string list"
  dv_metadata :: DecisionMetadata
  dv_sequence :: int
  dv_evaluator_version :: string
  dv_input_sha256 :: string
  dv_agent_run_id :: "string option"
  dv_supersedes_decision_id :: "string option"
  dv_replay_item_id :: "string option"
  dv_created_at :: time
  dv_updated_at :: time

text \<open>Whether a requirement is settled either way.\<close>

abbreviation unresolved :: "RequirementStatus \<Rightarrow> bool" where
  "unresolved s \<equiv> s = RS_UNKNOWN \<or> s = RS_CONFLICTED"

end
