(* ===== verification/PolicySchema.thy ===== *)
theory PolicySchema
  imports DomainModels
begin

text \<open>
  \<open>evistream/policies/schema.py\<close>, \<open>catalog.py\<close> and \<open>compiler.py\<close>: boolean expressions, the
  validation of a policy document, the catalog of exceptions and the compilation of a document into
  executable requirement templates. The YAML parser is third-party code: it is the argument
  \<open>parse\<close> of \<open>load_policy_source\<close>, which yields the fields of the document.
\<close>

section \<open>Boolean expressions\<close>

datatype bexpr = BExpr (be_all: "bitem list option") (be_any: "bitem list option")
  and bitem = Key string | Sub bexpr

text \<open>\<open>a or b or []\<close> on optional lists: an empty list is falsy.\<close>

definition py_or :: "'a list option \<Rightarrow> 'a list option \<Rightarrow> 'a list" where
  "py_or a b = (case a of Some (x # xs) \<Rightarrow> x # xs
     | _ \<Rightarrow> (case b of Some ys \<Rightarrow> ys | None \<Rightarrow> []))"

definition truthy :: "'a list option \<Rightarrow> bool" where
  "truthy a \<longleftrightarrow> a \<noteq> None \<and> a \<noteq> Some []"

definition exactly_one_operator :: "'a list option \<Rightarrow> 'b list option \<Rightarrow> bool" where
  "exactly_one_operator a b \<longleftrightarrow> (if truthy a then 1 else 0) + (if truthy b then 1 else 0) = (1::nat)"

primrec valid_expr :: "bexpr \<Rightarrow> bool" and valid_item :: "bitem \<Rightarrow> bool" where
  "valid_expr (BExpr a b) \<longleftrightarrow>
     exactly_one_operator (map_option (map valid_item) a) (map_option (map valid_item) b)
     \<and> opt_all (list_all id) (map_option (map valid_item) a)
     \<and> opt_all (list_all id) (map_option (map valid_item) b)"
| "valid_item (Key k) \<longleftrightarrow> True"
| "valid_item (Sub e) \<longleftrightarrow> valid_expr e"

primrec references :: "bexpr \<Rightarrow> string list" and item_references :: "bitem \<Rightarrow> string list" where
  "references (BExpr a b) =
     concat (py_or (map_option (map item_references) a) (map_option (map item_references) b))"
| "item_references (Key k) = [k]"
| "item_references (Sub e) = references e"

primrec json_expr :: "bexpr \<Rightarrow> json" and json_item :: "bitem \<Rightarrow> json" where
  "json_expr (BExpr a b) = JObj
     [(''all'', case map_option (map json_item) a of None \<Rightarrow> JNull | Some js \<Rightarrow> JList js),
      (''any'', case map_option (map json_item) b of None \<Rightarrow> JNull | Some js \<Rightarrow> JList js)]"
| "json_item (Key k) = JStr k"
| "json_item (Sub e) = json_expr e"

section \<open>Policy documents\<close>

datatype RequirementType =
  RT_visual_presence | RT_temporal_context | RT_speech_content | RT_text_presence

fun str_requirement_type :: "RequirementType \<Rightarrow> string" where
  "str_requirement_type RT_visual_presence = ''visual_presence''"
| "str_requirement_type RT_temporal_context = ''temporal_context''"
| "str_requirement_type RT_speech_content = ''speech_content''"
| "str_requirement_type RT_text_presence = ''text_presence''"

record RequirementSpec =
  rq_id :: string
  rq_type :: RequirementType
  rq_required :: bool
  rq_description :: utext

record PolicyDocument =
  doc_id :: string
  doc_version :: int
  doc_name :: utext
  doc_enabled :: bool
  doc_severity :: Severity
  doc_trigger_terms :: "utext list"
  doc_requirements :: "RequirementSpec list"
  doc_exceptions :: "string list"
  doc_aggregation :: AggregationConfig
  doc_reject_when :: bexpr
  doc_escalate_when :: bexpr

definition is_lower :: "char \<Rightarrow> bool" where
  "is_lower c \<longleftrightarrow> CHR ''a'' \<le> c \<and> c \<le> CHR ''z''"

definition is_word :: "char \<Rightarrow> bool" where
  "is_word c \<longleftrightarrow> is_lower c \<or> (CHR ''0'' \<le> c \<and> c \<le> CHR ''9'') \<or> c = CHR ''_''"

text \<open>\<open>^[a-z][a-z0-9_]*$\<close>\<close>

definition requirement_id_pattern :: "string \<Rightarrow> bool" where
  "requirement_id_pattern s = (case s of [] \<Rightarrow> False | c # cs \<Rightarrow> is_lower c \<and> list_all is_word cs)"

fun split_dot :: "string \<Rightarrow> string list" where
  "split_dot [] = [[]]"
| "split_dot (c # cs) = (if c = CHR ''.'' then [] # split_dot cs
     else (case split_dot cs of [] \<Rightarrow> [[c]] | p # ps \<Rightarrow> (c # p) # ps))"

text \<open>\<open>^[a-z][a-z0-9_]*(?:\.[a-z0-9_]+)+$\<close>: at least two segments, the first an identifier.\<close>

definition policy_id_pattern :: "string \<Rightarrow> bool" where
  "policy_id_pattern s = (case split_dot s of
     p # q # qs \<Rightarrow> requirement_id_pattern p \<and> list_all (\<lambda>r. r \<noteq> [] \<and> list_all is_word r) (q # qs)
   | _ \<Rightarrow> False)"

definition starts_with :: "string \<Rightarrow> string \<Rightarrow> bool" where
  "starts_with p s \<longleftrightarrow> take (length p) s = p"

definition valid_spec :: "RequirementSpec \<Rightarrow> bool" where
  "valid_spec r \<longleftrightarrow> requirement_id_pattern (rq_id r)
     \<and> 1 \<le> length (rq_description r) \<and> length (rq_description r) \<le> 1000
     \<and> \<not> starts_with ''exception'' (rq_id r)"

section \<open>Catalog\<close>

record RequirementCapability =
  cap_modalities :: "string list"
  cap_tools :: "string list"

record ExceptionDefinition =
  ed_description :: utext
  ed_requirement_type :: RequirementType
  ed_query_terms :: "utext list"

fun requirement_capability :: "RequirementType \<Rightarrow> RequirementCapability" where
  "requirement_capability RT_visual_presence =
     \<lparr> cap_modalities = [''vision''], cap_tools = [''search_visual_caption'', ''inspect_clip''] \<rparr>"
| "requirement_capability RT_temporal_context =
     \<lparr> cap_modalities = [''vision'', ''transcript''],
       cap_tools = [''expand_temporal_context'', ''get_neighbor_segments''] \<rparr>"
| "requirement_capability RT_speech_content =
     \<lparr> cap_modalities = [''transcript''], cap_tools = [''search_transcript''] \<rparr>"
| "requirement_capability RT_text_presence =
     \<lparr> cap_modalities = [''ocr''], cap_tools = [''search_ocr''] \<rparr>"

definition exception_catalog :: "(string \<times> ExceptionDefinition) list" where
  "exception_catalog = [
   (''news_report'', \<lparr> ed_description = [20869, 23481, 26159, 21542, 23646, 20110, 26032,
        38395, 25253, 36947, 25110, 32426, 23454, 35828, 26126],
      ed_requirement_type = RT_temporal_context,
      ed_query_terms = [[26032, 38395],
        [25253, 36947],
        u ''news report''] \<rparr>),
   (''educational_context'', \<lparr> ed_description = [20869, 23481, 26159, 21542, 23646,
        20110, 26126, 30830, 30340, 25945, 32946, 12289, 31185, 26222, 25110, 23433, 20840, 35828,
        26126],
      ed_requirement_type = RT_temporal_context,
      ed_query_terms = [[25945, 32946],
        [31185, 26222],
        [23433, 20840, 35828, 26126],
        u ''educational context''] \<rparr>),
   (''fictional_prop_context'', \<lparr> ed_description = [27494, 22120, 25110, 26292, 21147,
        20869, 23481, 26159, 21542, 26126, 30830, 23646, 20110, 24433, 35270, 36947, 20855, 25110,
        34394, 26500, 34920, 28436],
      ed_requirement_type = RT_temporal_context,
      ed_query_terms = [[36947, 20855],
        [34394, 26500],
        [24433, 35270, 25293, 25668],
        u ''fictional prop''] \<rparr>),
   (''professional_supervision'', \<lparr> ed_description = [21361, 38505, 21160, 20316, 26159,
        21542, 30001, 19987, 19994, 20154, 21592, 22312, 21463, 25511, 26465, 20214, 19979, 23454,
        26045],
      ed_requirement_type = RT_temporal_context,
      ed_query_terms = [[19987, 19994, 30417, 30563],
        [23433, 20840, 35013, 22791],
        [21463, 25511, 29615, 22659],
        u ''professional supervision''] \<rparr>),
   (''emergency_response'', \<lparr> ed_description = [30456, 20851, 34892, 20026, 26159, 21542,
        23646, 20110, 24517, 35201, 30340, 32039, 24613, 22788, 32622],
      ed_requirement_type = RT_temporal_context,
      ed_query_terms = [[32039, 24613, 22788, 32622],
        [25937, 25588],
        u ''emergency response''] \<rparr>),
   (''incidental_background'', \<lparr> ed_description = [21463, 38480, 21830, 21697, 26159,
        21542, 21482, 22312, 32972, 26223, 20013, 20598, 28982, 20986, 29616, 19988, 26410, 34987,
        25512, 20171],
      ed_requirement_type = RT_temporal_context,
      ed_query_terms = [[32972, 26223],
        [20598, 28982, 20986, 29616],
        u ''incidental background''] \<rparr>)]"

definition exception_definition :: "string \<Rightarrow> ExceptionDefinition option" where
  "exception_definition k = map_of exception_catalog k"

section \<open>Validation\<close>

definition max_policy_bytes :: nat where
  "max_policy_bytes = 256 * 1024"

definition escalation_sentinels :: "string list" where
  "escalation_sentinels = [''unresolved_exception'', ''contradictory_evidence'']"

definition exception_key :: "string \<Rightarrow> string" where
  "exception_key x = ''exception.'' @ x"

text \<open>The field constraints of \<open>PolicyDocument\<close> and of the models nested in it.\<close>

definition valid_fields :: "PolicyDocument \<Rightarrow> bool" where
  "valid_fields d \<longleftrightarrow> policy_id_pattern (doc_id d) \<and> 1 \<le> doc_version d
     \<and> 1 \<le> length (doc_name d) \<and> length (doc_name d) \<le> 255
     \<and> doc_trigger_terms d \<noteq> [] \<and> doc_requirements d \<noteq> []
     \<and> list_all valid_spec (doc_requirements d) \<and> valid_aggregation (doc_aggregation d)
     \<and> valid_expr (doc_reject_when d) \<and> valid_expr (doc_escalate_when d)"

text \<open>The model validator \<open>validate_references\<close>, its checks in order.\<close>

definition validate_references :: "PolicyDocument \<Rightarrow> PolicyDocument res" where
  "validate_references d =
    (let ids = map rq_id (doc_requirements d) in
     if \<not> distinct ids then Inl ValueError
     else if \<not> distinct (doc_trigger_terms d) then Inl ValueError
     else if \<not> distinct (doc_exceptions d) then Inl ValueError
     else if \<not> set (doc_exceptions d) \<subseteq> set (map fst exception_catalog) then Inl ValueError
     else if \<not> set (references (doc_reject_when d)) \<subseteq> set ids then Inl ValueError
     else if \<not> set (references (doc_escalate_when d)) \<subseteq>
         set ids \<union> set (map exception_key (doc_exceptions d)) \<union> set escalation_sentinels
       then Inl ValueError
     else Inr d)"

definition validate_document :: "PolicyDocument \<Rightarrow> PolicyDocument res" where
  "validate_document d = (if valid_fields d then validate_references d else Inl ValueError)"

record LoadedPolicy =
  lp_document :: PolicyDocument
  lp_source_yaml :: utext
  lp_source_sha256 :: string

definition utf8_char :: "nat \<Rightarrow> nat list" where
  "utf8_char c = (if c < 128 then [c]
     else if c < 2048 then [192 + c div 64, 128 + c mod 64]
     else if c < 65536 then [224 + c div 4096, 128 + (c div 64) mod 64, 128 + c mod 64]
     else [240 + c div 262144, 128 + (c div 4096) mod 64, 128 + (c div 64) mod 64, 128 + c mod 64])"

definition utf8_encode :: "utext \<Rightarrow> string" where
  "utf8_encode s = map char_of (concat (map utf8_char s))"

text \<open>\<open>_construct_mapping\<close> of the duplicate-key-safe loader, on already constructed pairs.\<close>

fun construct_mapping :: "('k \<times> 'v) list \<Rightarrow> ('k \<times> 'v) list \<Rightarrow> ('k \<times> 'v) list res" where
  "construct_mapping mapping [] = Inr mapping"
| "construct_mapping mapping ((k, v) # rest) =
     (if k \<in> set (map fst mapping) then Inl PolicyError
      else construct_mapping (mapping @ [(k, v)]) rest)"

text \<open>
  \<open>load_policy_source\<close>. The result of the parser is \<open>None\<close> where YAML is malformed, its root is no
  mapping, or a field is missing, unknown or of the wrong type.
\<close>

definition load_policy_source ::
    "env \<Rightarrow> (utext \<Rightarrow> PolicyDocument option) \<Rightarrow> utext \<Rightarrow> LoadedPolicy res" where
  "load_policy_source E parse source =
    (if length (utf8_encode source) > max_policy_bytes then Inl PolicyError
     else case parse source of None \<Rightarrow> Inl PolicyError
       | Some payload \<Rightarrow> (case validate_document payload of Inl e \<Rightarrow> Inl PolicyError
         | Inr document \<Rightarrow> Inr \<lparr> lp_document = document, lp_source_yaml = source,
             lp_source_sha256 = sha E (utf8_encode source) \<rparr>))"

section \<open>Compilation\<close>

record RequirementTemplate =
  tp_requirement_key :: string
  tp_requirement_type :: RequirementType
  tp_source_kind :: SourceKind
  tp_required :: bool
  tp_description :: utext
  tp_suggested_queries :: "utext list"
  tp_modalities :: "string list"
  tp_tool_capabilities :: "string list"
  tp_semantic_sha256 :: string

record CompiledPolicy =
  pol_policy_id :: string
  pol_version :: int
  pol_name :: utext
  pol_enabled :: bool
  pol_severity :: Severity
  pol_trigger_terms :: "utext list"
  pol_requirements :: "RequirementTemplate list"
  pol_aggregation :: AggregationConfig
  pol_reject_when :: bexpr
  pol_escalate_when :: bexpr
  pol_compiler_version :: string
  pol_semantic_sha256 :: string

definition compiler_version :: string where
  "compiler_version = ''2''"

text \<open>\<open>_unique\<close>: strip, drop blanks, keep first occurrences in order.\<close>

definition unique_terms :: "utext list \<Rightarrow> utext list" where
  "unique_terms values = rev (remdups (rev (filter (\<lambda>v. v \<noteq> []) (map py_strip values))))"

text \<open>The dictionary a template is hashed over, which is the template without its hash.\<close>

definition json_template_payload :: "RequirementTemplate \<Rightarrow> (string \<times> json) list" where
  "json_template_payload t =
     [(''requirement_key'', JStr (tp_requirement_key t)),
      (''requirement_type'', JStr (str_requirement_type (tp_requirement_type t))),
      (''source_kind'', JStr (str_kind (tp_source_kind t))),
      (''required'', JBool (tp_required t)),
      (''description'', JText (tp_description t)),
      (''suggested_queries'', JList (map JText (tp_suggested_queries t))),
      (''modalities'', JList (map JStr (tp_modalities t))),
      (''tool_capabilities'', JList (map JStr (tp_tool_capabilities t)))]"

definition seal_template :: "env \<Rightarrow> RequirementTemplate \<Rightarrow> RequirementTemplate" where
  "seal_template E t = t\<lparr>tp_semantic_sha256 := hash_json E (JObj (json_template_payload t))\<rparr>"

definition compile_ordinary :: "env \<Rightarrow> utext list \<Rightarrow> RequirementSpec \<Rightarrow> RequirementTemplate" where
  "compile_ordinary E trigger_terms spec =
    (let capability = requirement_capability (rq_type spec) in
     seal_template E \<lparr> tp_requirement_key = rq_id spec, tp_requirement_type = rq_type spec,
       tp_source_kind = SK_requirement, tp_required = rq_required spec,
       tp_description = rq_description spec,
       tp_suggested_queries = unique_terms (rq_description spec # trigger_terms),
       tp_modalities = cap_modalities capability, tp_tool_capabilities = cap_tools capability,
       tp_semantic_sha256 = [] \<rparr>)"

definition compile_exception :: "env \<Rightarrow> string \<Rightarrow> RequirementTemplate res" where
  "compile_exception E exception_id = (case exception_definition exception_id of
     None \<Rightarrow> Inl KeyErr
   | Some d \<Rightarrow>
      (let capability = requirement_capability (ed_requirement_type d) in
       Inr (seal_template E \<lparr> tp_requirement_key = exception_key exception_id,
         tp_requirement_type = ed_requirement_type d, tp_source_kind = SK_exception,
         tp_required = True, tp_description = ed_description d,
         tp_suggested_queries = ed_query_terms d,
         tp_modalities = cap_modalities capability, tp_tool_capabilities = cap_tools capability,
         tp_semantic_sha256 = [] \<rparr>)))"

fun map_res :: "('a \<Rightarrow> 'b res) \<Rightarrow> 'a list \<Rightarrow> 'b list res" where
  "map_res f [] = Inr []"
| "map_res f (x # xs) = bindE (f x) (\<lambda>y. bindE (map_res f xs) (\<lambda>ys. Inr (y # ys)))"

definition json_template :: "RequirementTemplate \<Rightarrow> json" where
  "json_template t = JObj (json_template_payload t @
     [(''semantic_sha256'', JStr (tp_semantic_sha256 t))])"

definition json_policy_base :: "CompiledPolicy \<Rightarrow> json" where
  "json_policy_base p = JObj
     [(''policy_id'', JStr (pol_policy_id p)), (''version'', JInt (pol_version p)),
      (''name'', JText (pol_name p)), (''enabled'', JBool (pol_enabled p)),
      (''severity'', JStr (str_severity (pol_severity p))),
      (''trigger_terms'', JList (map JText (pol_trigger_terms p))),
      (''requirements'', JList (map json_template (pol_requirements p))),
      (''aggregation'', json_aggregation (pol_aggregation p)),
      (''reject_when'', json_expr (pol_reject_when p)),
      (''escalate_when'', json_expr (pol_escalate_when p)),
      (''compiler_version'', JStr (pol_compiler_version p))]"

definition compile_policy :: "env \<Rightarrow> PolicyDocument \<Rightarrow> CompiledPolicy res" where
  "compile_policy E d =
    bindE (map_res (compile_exception E) (doc_exceptions d)) (\<lambda>exceptions.
      let base = \<lparr> pol_policy_id = doc_id d, pol_version = doc_version d, pol_name = doc_name d,
            pol_enabled = doc_enabled d, pol_severity = doc_severity d,
            pol_trigger_terms = doc_trigger_terms d,
            pol_requirements =
              map (compile_ordinary E (doc_trigger_terms d)) (doc_requirements d) @ exceptions,
            pol_aggregation = doc_aggregation d, pol_reject_when = doc_reject_when d,
            pol_escalate_when = doc_escalate_when d, pol_compiler_version = compiler_version,
            pol_semantic_sha256 = [] \<rparr>
      in Inr (base\<lparr>pol_semantic_sha256 := hash_json E (json_policy_base base)\<rparr>))"

section \<open>What validation and compilation establish\<close>

lemma map_res_Inr_iff: "map_res f xs = Inr ys \<longleftrightarrow> list_all2 (\<lambda>x y. f x = Inr y) xs ys"
  by (induction xs arbitrary: ys) (auto simp: bindE_Inr_iff list_all2_Cons1)

lemma map_res_total: "\<forall>x\<in>set xs. \<exists>y. f x = Inr y \<Longrightarrow> \<exists>ys. map_res f xs = Inr ys"
  by (induction xs) (auto simp: bindE_Inr_iff)

lemma compile_exception_Inr:
  "compile_exception E x = Inr t \<Longrightarrow>
     tp_requirement_key t = exception_key x \<and> tp_source_kind t = SK_exception \<and> tp_required t
     \<and> x \<in> set (map fst exception_catalog)"
  by (auto simp: compile_exception_def seal_template_def exception_definition_def Let_def
      split: option.splits dest!: map_of_SomeD intro: rev_image_eqI)

lemma compile_exception_total:
  assumes "x \<in> set (map fst exception_catalog)"
  shows "\<exists>t. compile_exception E x = Inr t"
proof -
  from assms obtain d where "exception_definition x = Some d"
    unfolding exception_definition_def by (metis map_of_eq_None_iff not_None_eq set_map)
  then show ?thesis by (simp add: compile_exception_def Let_def)
qed

lemma compile_exceptions_keys:
  "map_res (compile_exception E) xs = Inr ts \<Longrightarrow>
     map tp_requirement_key ts = map exception_key xs
     \<and> (\<forall>t\<in>set ts. tp_source_kind t = SK_exception \<and> tp_required t)"
proof (induction xs arbitrary: ts)
  case Nil
  then show ?case by simp
next
  case (Cons x xs)
  then obtain t ts' where "compile_exception E x = Inr t" "map_res (compile_exception E) xs = Inr ts'"
    "ts = t # ts'" by (auto simp: bindE_Inr_iff)
  with Cons.IH [of ts'] show ?case by (auto dest: compile_exception_Inr)
qed

lemma compile_ordinary_simps [simp]:
  "tp_requirement_key (compile_ordinary E ts r) = rq_id r"
  "tp_source_kind (compile_ordinary E ts r) = SK_requirement"
  "tp_required (compile_ordinary E ts r) = rq_required r"
  by (simp_all add: compile_ordinary_def seal_template_def Let_def)

lemma exception_key_not_id: "requirement_id_pattern k \<Longrightarrow> k \<noteq> exception_key x"
  by (auto simp: requirement_id_pattern_def exception_key_def is_word_def is_lower_def)

lemma validate_document_Inr:
  assumes "validate_document d = Inr d'"
  shows "d' = d" and "valid_fields d" and "distinct (map rq_id (doc_requirements d))"
    and "distinct (doc_exceptions d)" and "set (doc_exceptions d) \<subseteq> set (map fst exception_catalog)"
    and "set (references (doc_reject_when d)) \<subseteq> set (map rq_id (doc_requirements d))"
    and "set (references (doc_escalate_when d)) \<subseteq> set (map rq_id (doc_requirements d))
       \<union> set (map exception_key (doc_exceptions d)) \<union> set escalation_sentinels"
  using assms
  by (simp_all only: validate_document_def validate_references_def Let_def split: if_splits) blast+

definition policy_keys :: "CompiledPolicy \<Rightarrow> string list" where
  "policy_keys p = map tp_requirement_key (pol_requirements p)"

lemma compile_policy_total:
  "map_res (compile_exception E) (doc_exceptions d) = Inr ts \<Longrightarrow> \<exists>p. compile_policy E d = Inr p"
  by (simp add: compile_policy_def Let_def)

lemma compile_policy_Inr:
  assumes "compile_policy E d = Inr p"
  obtains ts where "map_res (compile_exception E) (doc_exceptions d) = Inr ts"
    and "pol_requirements p = map (compile_ordinary E (doc_trigger_terms d)) (doc_requirements d) @ ts"
    and "pol_reject_when p = doc_reject_when d" and "pol_escalate_when p = doc_escalate_when d"
    and "pol_policy_id p = doc_id d" and "pol_version p = doc_version d"
  using assms by (auto simp: compile_policy_def bindE_Inr_iff Let_def)

text \<open>
  C11. A document that passes validation compiles; the compiled requirement keys are pairwise
  distinct, the rejection expression refers only to ordinary requirements, the escalation
  expression only to compiled requirements and the two sentinels, and exceptions compile to
  required requirements.
\<close>

theorem compile_validated_document:
  assumes "validate_document d = Inr d'"
  shows "\<exists>p. compile_policy E d' = Inr p
    \<and> policy_keys p = map rq_id (doc_requirements d) @ map exception_key (doc_exceptions d)
    \<and> distinct (policy_keys p)
    \<and> set (references (pol_reject_when p)) \<subseteq>
        tp_requirement_key ` {t \<in> set (pol_requirements p). tp_source_kind t = SK_requirement}
    \<and> set (references (pol_escalate_when p)) \<subseteq> set (policy_keys p) \<union> set escalation_sentinels
    \<and> (\<forall>t\<in>set (pol_requirements p). tp_source_kind t = SK_exception \<longrightarrow> tp_required t)"
proof -
  note v = validate_document_Inr [OF assms]
  have "\<forall>x\<in>set (doc_exceptions d). \<exists>t. compile_exception E x = Inr t"
    using v(5) compile_exception_total by blast
  then obtain p where p: "compile_policy E d = Inr p"
    using map_res_total compile_policy_total by metis
  from p obtain ts where ts: "map_res (compile_exception E) (doc_exceptions d) = Inr ts"
    and rq: "pol_requirements p = map (compile_ordinary E (doc_trigger_terms d)) (doc_requirements d) @ ts"
    and ex: "pol_reject_when p = doc_reject_when d" "pol_escalate_when p = doc_escalate_when d"
    by (rule compile_policy_Inr)
  note tk = compile_exceptions_keys [OF ts]
  have ks: "policy_keys p = map rq_id (doc_requirements d) @ map exception_key (doc_exceptions d)"
    by (simp add: policy_keys_def rq tk)
  have ids: "\<forall>r\<in>set (doc_requirements d). requirement_id_pattern (rq_id r)"
    using v(2) by (auto simp: valid_fields_def valid_spec_def list_all_iff)
  have "inj exception_key" by (simp add: exception_key_def inj_def)
  then have di: "distinct (policy_keys p)"
    using v(3,4) ids by (auto simp: ks distinct_map inj_def inj_on_def dest: exception_key_not_id)
  have sub: "set (references (pol_reject_when p)) \<subseteq>
      tp_requirement_key ` {t \<in> set (pol_requirements p). tp_source_kind t = SK_requirement}"
    using v(6) by (force simp: ex rq)
  show ?thesis using p v(1,7) ks di sub tk by (auto simp: ex ks rq)
qed

text \<open>A document in the shape of the seeded policies, and its compilation.\<close>

definition demo_document :: PolicyDocument where
  "demo_document = \<lparr> doc_id = ''safety.weapon'', doc_version = 1, doc_name = u ''Weapons'',
     doc_enabled = True, doc_severity = SEV_HIGH, doc_trigger_terms = [u ''knife''],
     doc_requirements = [\<lparr> rq_id = ''weapon_visible'', rq_type = RT_visual_presence,
       rq_required = True, rq_description = u ''a weapon is visible'' \<rparr>],
     doc_exceptions = [''news_report''], doc_aggregation = default_aggregation,
     doc_reject_when = BExpr (Some [Key ''weapon_visible'']) None,
     doc_escalate_when = BExpr None (Some [Key ''contradictory_evidence'']) \<rparr>"

lemma catalog_ids: "map fst exception_catalog = [''news_report'', ''educational_context'',
  ''fictional_prop_context'', ''professional_supervision'', ''emergency_response'',
  ''incidental_background'']"
  by (simp add: exception_catalog_def)

lemma compile_validated_document_witness:
  "validate_document demo_document = Inr demo_document
   \<and> (\<exists>p. compile_policy demo_env demo_document = Inr p \<and> distinct (policy_keys p))"
proof -
  have "valid_fields demo_document" by code_simp
  moreover have "validate_references demo_document = Inr demo_document"
    by (simp add: validate_references_def catalog_ids demo_document_def Let_def py_or_def
        escalation_sentinels_def del: set_map)
  ultimately have "validate_document demo_document = Inr demo_document"
    by (simp add: validate_document_def)
  then show ?thesis using compile_validated_document [of demo_document demo_document demo_env] by blast
qed
end
