(* ===== verification/AgentTypes.thy ===== *)
theory AgentTypes
  imports PolicySchema
begin

text \<open>
  Contracts of the investigation runtime and of the tools it calls: \<open>evistream/agent/types.py\<close>,
  \<open>evistream/tools/types.py\<close> and \<open>evistream/triage/types.py\<close>. Every model validator is a
  bool-valued predicate of the same name as its class, prefixed with \<open>valid_\<close>.
\<close>

section \<open>Tools\<close>

record ToolRequest =
  tq_correlation_id :: string
  tq_run_id :: string
  tq_case_id :: string
  tq_requirement_id :: string
  tq_query :: utext
  tq_start_ms :: "int option"
  tq_end_ms :: "int option"
  tq_limit :: int

text \<open>\<open>start_ms: int | None = Field(ge=0)\<close>, \<open>end_ms: int | None = Field(gt=0)\<close>, and the validator
  that wants both or none and a non-empty range. Tools, actions and retrieval share it.\<close>

definition valid_time_range :: "int option \<Rightarrow> int option \<Rightarrow> bool" where
  "valid_time_range start_ms end_ms \<longleftrightarrow> opt_all (\<lambda>s. 0 \<le> s) start_ms \<and> opt_all (\<lambda>e. 0 < e) end_ms
     \<and> (case (start_ms, end_ms) of (None, None) \<Rightarrow> True | (Some s, Some e) \<Rightarrow> s < e | _ \<Rightarrow> False)"

definition valid_ToolRequest :: "ToolRequest \<Rightarrow> bool" where
  "valid_ToolRequest r \<longleftrightarrow> tq_correlation_id r \<noteq> [] \<and> tq_run_id r \<noteq> [] \<and> tq_case_id r \<noteq> []
     \<and> tq_requirement_id r \<noteq> [] \<and> valid_time_range (tq_start_ms r) (tq_end_ms r)
     \<and> 1 \<le> tq_limit r \<and> tq_limit r \<le> 50"

record ToolItem =
  ti_source_ref :: string
  ti_artifact_id :: "string option"
  ti_modality :: string
  ti_start_ms :: int
  ti_end_ms :: int
  ti_content :: utext
  ti_score :: "rat option"

record ToolResult =
  tl_tool_run_id :: string
  tl_request_key :: string
  tl_status :: ToolRunStatus
  tl_items :: "ToolItem list"
  tl_latency_ms :: int
  tl_estimated_cost :: rat
  tl_error_code :: "string option"

record ToolOutput =
  to_status :: ToolRunStatus
  to_items :: "ToolItem list"
  to_estimated_cost :: rat
  to_error_code :: "string option"

section \<open>Model outputs\<close>

record InvestigationRequirement =
  ir_requirement_id :: string
  ir_requirement_key :: string
  ir_source_kind :: SourceKind
  ir_required :: bool
  ir_description :: utext
  ir_suggested_queries :: "utext list"
  ir_modalities :: "string list"
  ir_tool_capabilities :: "string list"

record Hypothesis =
  hy_requirement_id :: string
  hy_statement :: utext
  hy_confidence :: rat

record AgentAction =
  aa_requirement_id :: string
  aa_tool_name :: string
  aa_query :: utext
  aa_start_ms :: "int option"
  aa_end_ms :: "int option"
  aa_limit :: int
  aa_rationale :: utext

definition unit_interval :: "rat \<Rightarrow> bool" where
  "unit_interval c \<longleftrightarrow> 0 \<le> c \<and> c \<le> 1"

definition valid_AgentAction :: "AgentAction \<Rightarrow> bool" where
  "valid_AgentAction a \<longleftrightarrow> aa_requirement_id a \<noteq> [] \<and> aa_tool_name a \<noteq> []
     \<and> valid_time_range (aa_start_ms a) (aa_end_ms a) \<and> 1 \<le> aa_limit a \<and> aa_limit a \<le> 50
     \<and> aa_rationale a \<noteq> []"

record PlanOutput =
  po_hypothesis :: Hypothesis
  po_action :: AgentAction

definition valid_PlanOutput :: "PlanOutput \<Rightarrow> bool" where
  "valid_PlanOutput p \<longleftrightarrow> hy_requirement_id (po_hypothesis p) \<noteq> []
     \<and> hy_statement (po_hypothesis p) \<noteq> [] \<and> unit_interval (hy_confidence (po_hypothesis p))
     \<and> valid_AgentAction (po_action p)"

record InspectionObservation =
  io_source_ref :: string
  io_summary :: utext
  io_visible_entities :: "utext list"
  io_uncertainty :: rat

definition valid_InspectionObservation :: "InspectionObservation \<Rightarrow> bool" where
  "valid_InspectionObservation p \<longleftrightarrow> io_source_ref p \<noteq> [] \<and> length (io_source_ref p) \<le> 255
     \<and> io_summary p \<noteq> [] \<and> unit_interval (io_uncertainty p)"

record EvidenceDraft =
  ef_source_ref :: string
  ef_stance :: EvidenceStance
  ef_start_ms :: int
  ef_end_ms :: int
  ef_summary :: utext
  ef_confidence :: "rat option"

definition valid_EvidenceDraft :: "EvidenceDraft \<Rightarrow> bool" where
  "valid_EvidenceDraft d \<longleftrightarrow> ef_source_ref d \<noteq> [] \<and> length (ef_source_ref d) \<le> 255
     \<and> 0 \<le> ef_start_ms d \<and> 0 < ef_end_ms d \<and> ef_summary d \<noteq> []
     \<and> opt_all unit_interval (ef_confidence d) \<and> ef_start_ms d < ef_end_ms d"

record VerificationOutput =
  vo_evidence :: "EvidenceDraft list"

record ChallengeOutput =
  co_actions :: "AgentAction list"
  co_unresolved_exception :: bool
  co_contradictory_evidence :: bool
  co_continue_investigation :: bool
  co_rationale :: utext

definition valid_ChallengeOutput :: "ChallengeOutput \<Rightarrow> bool" where
  "valid_ChallengeOutput c \<longleftrightarrow> length (co_actions c) \<le> 8
     \<and> list_all valid_AgentAction (co_actions c) \<and> co_rationale c \<noteq> []"

record ProvisionalDecision =
  pr_verdict :: Verdict
  pr_reason_code :: string
  pr_explanation :: utext
  pr_evidence_ids :: "string list"

definition valid_ProvisionalDecision :: "ProvisionalDecision \<Rightarrow> bool" where
  "valid_ProvisionalDecision p \<longleftrightarrow> pr_reason_code p \<noteq> [] \<and> length (pr_reason_code p) \<le> 64
     \<and> pr_explanation p \<noteq> []"

datatype TriageAction = TA_SKIP | TA_CREATE_CASE | TA_NEEDS_HUMAN_REVIEW

record TriageOutput =
  tg_action :: TriageAction
  tg_confidence :: rat
  tg_reason_code :: string
  tg_matched_terms :: "utext list"
  tg_matched_requirement_keys :: "string list"
  tg_summary :: utext

text \<open>
  \<open>ModelResponse.data\<close> after validation against the response schema of the request, one
  constructor per schema.
\<close>

datatype ModelData =
    MD_Plan PlanOutput
  | MD_Inspection InspectionObservation
  | MD_Verification VerificationOutput
  | MD_Challenge ChallengeOutput
  | MD_Provisional ProvisionalDecision
  | MD_Triage TriageOutput

section \<open>Investigation state\<close>

text \<open>\<open>selected_items\<close>: the dictionary of a tool item with its tool run and requirement.\<close>

record SelectedItem = ToolItem +
  si_tool_run_id :: string
  si_requirement_id :: string

record InvestigationState =
  is_run_id :: string
  is_job_id :: string
  is_case_id :: string
  is_policy_id :: string
  is_policy_version :: int
  is_model_profile :: string
  is_requirements :: "InvestigationRequirement list"
  is_hypotheses :: "Hypothesis list"
  is_selected_items :: "SelectedItem list"
  is_observations :: "InspectionObservation list"
  is_evidence_ids :: "string list"
  is_missing_requirement_ids :: "string list"
  is_contradictory_requirement_ids :: "string list"
  is_pending_action :: "AgentAction option"
  is_iteration :: int
  is_vlm_calls :: int
  is_consecutive_tool_failures :: int
  is_total_tool_failures :: int
  is_stagnant_iterations :: int
  is_last_evidence_count :: int
  is_current_node :: AgentNode
  is_next_node :: "AgentNode option"
  is_state_version :: int
  is_deadline_at :: time
  is_last_checkpoint_at :: time
  is_status :: InvestigationStatus
  is_provisional_decision :: "ProvisionalDecision option"
  is_stop_reason :: "string option"

record InvestigationResult =
  ires_run_id :: string
  ires_job_id :: "string option"
  ires_case_id :: string
  ires_status :: InvestigationStatus
  ires_provisional_decision :: "ProvisionalDecision option"
  ires_stop_reason :: "string option"
  ires_state_version :: int
  ires_node_count :: nat
  ires_tool_count :: nat
  ires_model_call_count :: nat
  ires_evidence_count :: nat

end
