(* ===== verification/Records.thy ===== *)
theory Records
  imports AgentTypes
begin

text \<open>
  The rows of \<open>evistream/storage/models.py\<close>, one record per table, with the columns the source
  declares in their order. Status columns that hold an enumeration have its type; JSON columns
  that hold a dumped model hold the model. \<open>created_at\<close> and \<open>updated_at\<close> of the timestamp mixin
  come last. The state of the database is the record \<open>db\<close> of its tables.
\<close>

section \<open>Media and jobs\<close>

record VideoRecord =
  vd_id :: string
  vd_original_name :: utext
  vd_artifact_uri :: string
  vd_fingerprint :: "string option"
  vd_duration_ms :: int
  vd_width :: int
  vd_height :: int
  vd_container :: string
  vd_video_codec :: string
  vd_has_audio :: bool
  vd_audio_codec :: "string option"
  vd_status :: VideoStatus
  vd_model_profile :: string
  vd_triage_status :: string
  vd_created_at :: time
  vd_updated_at :: time

record SegmentRecord =
  sg_id :: string
  sg_video_id :: string
  sg_start_ms :: int
  sg_end_ms :: int
  sg_sequence :: int
  sg_created_at :: time
  sg_updated_at :: time

record ArtifactRecord =
  ar_id :: string
  ar_video_id :: string
  ar_segment_id :: "string option"
  ar_type :: ArtifactType
  ar_uri :: string
  ar_metadata :: json
  ar_created_at :: time
  ar_updated_at :: time

text \<open>\<open>search_vector\<close> is computed by PostgreSQL from \<open>keyword_lexemes\<close> and has no field.\<close>

record SearchDocumentRecord =
  sd_id :: string
  sd_video_id :: string
  sd_segment_id :: "string option"
  sd_artifact_id :: string
  sd_modality :: string
  sd_start_ms :: int
  sd_end_ms :: int
  sd_text :: utext
  sd_normalized_text :: utext
  sd_keyword_lexemes :: utext
  sd_embedding :: "rat list option"
  sd_embedding_space :: "string option"
  sd_embedding_model :: "string option"
  sd_embedding_source_sha256 :: "string option"
  sd_embedding_updated_at :: "time option"
  sd_created_at :: time
  sd_updated_at :: time

record ProcessingJobRecord =
  jb_id :: string
  jb_type :: string
  jb_subject_id :: string
  jb_request_key :: string
  jb_correlation_id :: string
  jb_status :: JobStatus
  jb_attempt :: int
  jb_max_attempts :: int
  jb_error_code :: "string option"
  jb_error_message :: "utext option"
  jb_retryable :: bool
  jb_payload :: "(string \<times> json) list"
  jb_next_attempt_at :: "time option"
  jb_last_enqueued_at :: "time option"
  jb_lease_until :: "time option"
  jb_started_at :: "time option"
  jb_finished_at :: "time option"
  jb_created_at :: time
  jb_updated_at :: time

section \<open>Policies, cases and evidence\<close>

record PolicyRecord =
  pc_policy_id :: string
  pc_version :: int
  pc_name :: utext
  pc_severity :: Severity
  pc_enabled :: bool
  pc_lifecycle :: PolicyLifecycle
  pc_source_yaml :: utext
  pc_compiled_policy :: CompiledPolicy
  pc_source_sha256 :: string
  pc_semantic_sha256 :: string
  pc_compiler_version :: string
  pc_created_at :: time
  pc_updated_at :: time

record CaseRecord =
  ca_id :: string
  ca_video_id :: string
  ca_policy_id :: string
  ca_policy_version :: int
  ca_model_profile :: string
  ca_status :: CaseStatus
  ca_current_decision_id :: "string option"
  ca_created_at :: time
  ca_updated_at :: time

record RequirementRecord =
  rm_id :: string
  rm_case_id :: string
  rm_requirement_key :: string
  rm_requirement_type :: RequirementType
  rm_source_kind :: SourceKind
  rm_required :: bool
  rm_description :: utext
  rm_suggested_queries :: "utext list"
  rm_modalities :: "string list"
  rm_tool_capabilities :: "string list"
  rm_semantic_sha256 :: string
  rm_status :: RequirementStatus
  rm_current_result_id :: "string option"
  rm_created_at :: time
  rm_updated_at :: time

record ToolRunRecord =
  tr_id :: string
  tr_run_id :: "string option"
  tr_case_id :: string
  tr_requirement_id :: "string option"
  tr_correlation_id :: string
  tr_tool_name :: string
  tr_request_key :: string
  tr_request_payload :: ToolRequest
  tr_response_payload :: "ToolResult option"
  tr_status :: ToolRunStatus
  tr_latency_ms :: int
  tr_estimated_cost :: rat
  tr_error_code :: "string option"
  tr_created_at :: time
  tr_updated_at :: time

record EvidenceRecord =
  ev_id :: string
  ev_case_id :: string
  ev_requirement_id :: string
  ev_stance :: EvidenceStance
  ev_modality :: string
  ev_start_ms :: int
  ev_end_ms :: int
  ev_artifact_id :: "string option"
  ev_tool_run_id :: "string option"
  ev_model_call_id :: "string option"
  ev_model_name :: "string option"
  ev_source_ref :: string
  ev_summary :: utext
  ev_confidence :: "rat option"
  ev_origin_evidence_id :: "string option"
  ev_replay_item_id :: "string option"
  ev_created_at :: time
  ev_updated_at :: time

record RequirementResultRecord =
  rs_id :: string
  rs_requirement_id :: string
  rs_case_id :: string
  rs_sequence :: int
  rs_status :: RequirementStatus
  rs_reason_code :: string
  rs_aggregator_version :: string
  rs_input_sha256 :: string
  rs_aggregation_config :: AggregationConfig
  rs_origin_result_id :: "string option"
  rs_replay_item_id :: "string option"
  rs_created_at :: time
  rs_updated_at :: time

record RequirementResultEvidenceRecord =
  rl_result_id :: string
  rl_evidence_id :: string
  rl_requirement_id :: string

section \<open>Decisions, reviews and appeals\<close>

record DecisionRecord =
  dc_id :: string
  dc_case_id :: string
  dc_policy_id :: string
  dc_policy_version :: int
  dc_verdict :: Verdict
  dc_reason_code :: string
  dc_source :: DecisionSource
  dc_explanation :: utext
  dc_metadata :: DecisionMetadata
  dc_sequence :: int
  dc_evaluator_version :: string
  dc_input_sha256 :: string
  dc_agent_run_id :: "string option"
  dc_supersedes_decision_id :: "string option"
  dc_replay_item_id :: "string option"
  dc_created_at :: time
  dc_updated_at :: time

record DecisionEvidenceRecord =
  de_decision_id :: string
  de_evidence_id :: string
  de_case_id :: string

record DecisionRequirementResultRecord =
  dr_decision_id :: string
  dr_result_id :: string
  dr_case_id :: string

record ReviewRecord =
  rw_id :: string
  rw_case_id :: string
  rw_request_key :: string
  rw_reviewer :: utext
  rw_reviewed_decision_id :: "string option"
  rw_decision_id :: string
  rw_note :: utext
  rw_created_at :: time

record AppealRecord =
  ap_id :: string
  ap_case_id :: string
  ap_request_key :: string
  ap_submitter :: utext
  ap_statement :: utext
  ap_challenged_decision_id :: string
  ap_status :: AppealStatus
  ap_resolution_review_id :: "string option"
  ap_resolved_at :: "time option"
  ap_created_at :: time
  ap_updated_at :: time

datatype AppealEventType = AE_SUBMITTED | AE_RESOLVED

record AppealEventRecord =
  ae_id :: string
  ae_appeal_id :: string
  ae_sequence :: int
  ae_event_type :: AppealEventType
  ae_actor :: utext
  ae_note :: utext
  ae_decision_id :: "string option"
  ae_created_at :: time

end
