(* ===== verification/Store.thy ===== *)
theory Store
  imports Records
begin

text \<open>
  The rows of the agent runtime, of triage and of replay, and the database as a record of
  tables: the second half of \<open>evistream/storage/models.py\<close>, with the triggers that guard an insert
  into \<open>evidence\<close> (migrations 0005 and 0006).
\<close>

section \<open>Agent runtime and triage\<close>

text \<open>
  \<open>result_payload\<close> of a run: a decision, or the dictionary \<open>{last_tool_run_id}\<close> that the tool
  executor stores in a manual run.
\<close>

datatype RunPayload = RP_Decision ProvisionalDecision | RP_Manual string

record AgentRunRecord =
  rn_id :: string
  rn_run_kind :: AgentRunKind
  rn_job_id :: "string option"
  rn_case_id :: string
  rn_model_profile :: string
  rn_current_node :: "AgentNode option"
  rn_next_node :: "AgentNode option"
  rn_state_snapshot :: "InvestigationState option"
  rn_state_version :: int
  rn_status :: InvestigationStatus
  rn_iteration :: int
  rn_vlm_calls :: int
  rn_consecutive_tool_failures :: int
  rn_total_tool_failures :: int
  rn_stagnant_iterations :: int
  rn_deadline_at :: "time option"
  rn_last_checkpoint_at :: "time option"
  rn_lease_until :: "time option"
  rn_provisional_verdict :: "Verdict option"
  rn_stop_reason :: "string option"
  rn_result_payload :: "RunPayload option"
  rn_scope_requirement_ids :: "string list"
  rn_created_at :: time
  rn_updated_at :: time

record AgentStepRecord =
  st_id :: string
  st_run_id :: string
  st_node :: AgentNode
  st_iteration :: int
  st_state_version :: int
  st_input_payload :: json
  st_output_payload :: json
  st_latency_ms :: int
  st_status :: string
  st_error_code :: "string option"
  st_created_at :: time

record ModelResponse =
  mr_data :: ModelData
  mr_actual_model :: string
  mr_prompt_tokens :: int
  mr_completion_tokens :: int
  mr_total_tokens :: int
  mr_latency_ms :: int
  mr_finish_reason :: "string option"
  mr_provider_request_id :: "string option"

record ModelCallRecord =
  ml_id :: string
  ml_job_id :: "string option"
  ml_run_id :: "string option"
  ml_case_id :: "string option"
  ml_video_id :: "string option"
  ml_node :: string
  ml_state_version :: int
  ml_role :: string
  ml_profile :: string
  ml_requested_model :: string
  ml_actual_model :: "string option"
  ml_request_key :: string
  ml_request_summary :: json
  ml_response_payload :: "ModelResponse option"
  ml_status :: ModelCallStatus
  ml_attempt :: int
  ml_lease_until :: "time option"
  ml_prompt_tokens :: int
  ml_completion_tokens :: int
  ml_total_tokens :: int
  ml_latency_ms :: int
  ml_provider_request_id :: "string option"
  ml_error_code :: "ModelErrorCode option"
  ml_created_at :: time
  ml_updated_at :: time

datatype TriageStatus = TS_PENDING | TS_RUNNING | TS_SUCCEEDED | TS_RETRY_WAIT | TS_FAILED

record VideoTriageCheckRecord =
  vt_id :: string
  vt_job_id :: string
  vt_video_id :: string
  vt_policy_id :: string
  vt_policy_version :: int
  vt_model_profile :: string
  vt_request_key :: string
  vt_status :: TriageStatus
  vt_action :: "TriageAction option"
  vt_confidence :: "rat option"
  vt_reason_code :: "string option"
  vt_matched_terms :: "utext list"
  vt_matched_requirement_keys :: "string list"
  vt_summary :: "utext option"
  vt_case_id :: "string option"
  vt_model_call_id :: "string option"
  vt_attempt :: int
  vt_error_code :: "string option"
  vt_created_at :: time
  vt_updated_at :: time

section \<open>Replay\<close>

text \<open>The closed vocabulary of \<open>model_change_policy\<close>.\<close>

datatype ModelChangePolicy = MCP_keep | MCP_invalidate_visual

record ReplayJobRecord =
  rj_id :: string
  rj_processing_job_id :: string
  rj_policy_id :: string
  rj_source_version :: int
  rj_target_version :: int
  rj_mode :: ReplayMode
  rj_preview_sha256 :: string
  rj_model_profile :: "string option"
  rj_model_change_policy :: ModelChangePolicy
  rj_status :: JobStatus
  rj_result_payload :: "json option"
  rj_created_at :: time
  rj_updated_at :: time

record ReplayItemRecord =
  rp_id :: string
  rp_replay_job_id :: string
  rp_source_case_id :: string
  rp_target_case_id :: "string option"
  rp_target_policy_version :: int
  rp_mode :: ReplayMode
  rp_status :: ReplayItemStatus
  rp_plan_payload :: ReplayCasePlan
  rp_result_payload :: "json option"
  rp_source_decision_id :: "string option"
  rp_target_decision_id :: "string option"
  rp_created_at :: time
  rp_updated_at :: time

record ReplayLineageRecord =
  rg_id :: string
  rg_replay_item_id :: string
  rg_entity_type :: string
  rg_action :: ReplayLineageAction
  rg_source_id :: "string option"
  rg_target_id :: "string option"
  rg_reason_code :: string
  rg_created_at :: time

section \<open>The database\<close>

record db =
  db_videos :: "VideoRecord list"
  db_segments :: "SegmentRecord list"
  db_artifacts :: "ArtifactRecord list"
  db_documents :: "SearchDocumentRecord list"
  db_jobs :: "ProcessingJobRecord list"
  db_policies :: "PolicyRecord list"
  db_cases :: "CaseRecord list"
  db_requirements :: "RequirementRecord list"
  db_tools :: "ToolRunRecord list"
  db_evidence :: "EvidenceRecord list"
  db_results :: "RequirementResultRecord list"
  db_result_evidence :: "RequirementResultEvidenceRecord list"
  db_decisions :: "DecisionRecord list"
  db_decision_evidence :: "DecisionEvidenceRecord list"
  db_decision_results :: "DecisionRequirementResultRecord list"
  db_runs :: "AgentRunRecord list"
  db_steps :: "AgentStepRecord list"
  db_calls :: "ModelCallRecord list"
  db_checks :: "VideoTriageCheckRecord list"
  db_reviews :: "ReviewRecord list"
  db_appeals :: "AppealRecord list"
  db_appeal_events :: "AppealEventRecord list"
  db_replay_jobs :: "ReplayJobRecord list"
  db_replay_items :: "ReplayItemRecord list"
  db_lineage :: "ReplayLineageRecord list"

definition empty_db :: db where
  "empty_db = \<lparr> db_videos = [], db_segments = [], db_artifacts = [], db_documents = [],
     db_jobs = [], db_policies = [], db_cases = [], db_requirements = [], db_tools = [],
     db_evidence = [], db_results = [], db_result_evidence = [], db_decisions = [],
     db_decision_evidence = [], db_decision_results = [], db_runs = [], db_steps = [],
     db_calls = [], db_checks = [], db_reviews = [], db_appeals = [], db_appeal_events = [],
     db_replay_jobs = [], db_replay_items = [], db_lineage = [] \<rparr>"

text \<open>Primary keys that are pairs.\<close>

definition pc_key :: "PolicyRecord \<Rightarrow> string \<times> int" where
  "pc_key r = (pc_policy_id r, pc_version r)"

definition rl_key :: "RequirementResultEvidenceRecord \<Rightarrow> string \<times> string" where
  "rl_key r = (rl_result_id r, rl_evidence_id r)"

definition de_key :: "DecisionEvidenceRecord \<Rightarrow> string \<times> string" where
  "de_key r = (de_decision_id r, de_evidence_id r)"

definition dr_key :: "DecisionRequirementResultRecord \<Rightarrow> string \<times> string" where
  "dr_key r = (dr_decision_id r, dr_result_id r)"

section \<open>Guards of an insert into evidence\<close>

text \<open>\<open>ck_evidence_time\<close>, \<open>ck_evidence_confidence\<close> and the composite foreign key.\<close>

definition evidence_checks :: "db \<Rightarrow> EvidenceRecord \<Rightarrow> bool" where
  "evidence_checks s e \<longleftrightarrow> 0 \<le> ev_start_ms e \<and> ev_start_ms e < ev_end_ms e
     \<and> opt_all unit_interval (ev_confidence e)
     \<and> list_ex (\<lambda>r. rm_id r = ev_requirement_id e \<and> rm_case_id r = ev_case_id e) (db_requirements s)"

text \<open>\<open>evistream_validate_evidence_sources\<close>: the trigger on the source columns.\<close>

definition evidence_sources_ok :: "db \<Rightarrow> EvidenceRecord \<Rightarrow> bool" where
  "evidence_sources_ok s e \<longleftrightarrow>
     opt_all (\<lambda>i. list_ex (\<lambda>a. ar_id a = i \<and> list_ex (\<lambda>c. ca_id c = ev_case_id e
         \<and> ar_video_id a = ca_video_id c) (db_cases s)) (db_artifacts s)) (ev_artifact_id e)
     \<and> opt_all (\<lambda>i. list_ex (\<lambda>t. tr_id t = i \<and> tr_case_id t = ev_case_id e
         \<and> tr_requirement_id t = Some (ev_requirement_id e)) (db_tools s)) (ev_tool_run_id e)
     \<and> opt_all (\<lambda>i. list_ex (\<lambda>m. ml_id m = i \<and> ml_case_id m = Some (ev_case_id e)
         \<and> ml_status m = MC_SUCCESS) (db_calls s)) (ev_model_call_id e)"

text \<open>\<open>evistream_validate_replay_evidence\<close>: a replayed row keeps the video and the semantics.\<close>

definition replay_evidence_ok :: "db \<Rightarrow> EvidenceRecord \<Rightarrow> bool" where
  "replay_evidence_ok s e = (case ev_origin_evidence_id e of None \<Rightarrow> True
   | Some i \<Rightarrow>
     (case t_get ev_id i (db_evidence s) of None \<Rightarrow> False
      | Some se \<Rightarrow>
        (case (t_get ca_id (ev_case_id se) (db_cases s), t_get rm_id (ev_requirement_id se) (db_requirements s),
               t_get ca_id (ev_case_id e) (db_cases s), t_get rm_id (ev_requirement_id e) (db_requirements s)) of
           (Some sc, Some sr, Some tc, Some trq) \<Rightarrow>
             rm_case_id trq = ca_id tc \<and> ca_video_id sc = ca_video_id tc
             \<and> rm_semantic_sha256 sr = rm_semantic_sha256 trq
         | _ \<Rightarrow> False)))"

definition insert_evidence :: "EvidenceRecord \<Rightarrow> db \<Rightarrow> db res" where
  "insert_evidence e s =
    (if \<not> (evidence_checks s e \<and> evidence_sources_ok s e \<and> replay_evidence_ok s e)
     then Inl IntegrityError
     else bindE (t_add ev_id e (db_evidence s)) (\<lambda>t. Inr (s\<lparr>db_evidence := t\<rparr>)))"

lemma insert_evidence_Inr:
  "insert_evidence e s = Inr s' \<Longrightarrow>
     s' = s\<lparr>db_evidence := db_evidence s @ [e]\<rparr> \<and> t_get ev_id (ev_id e) (db_evidence s) = None"
  by (auto simp: insert_evidence_def table_simps split: if_splits)

end
