(* ===== verification/PolicyVersions.thy ===== *)
theory PolicyVersions
  imports Store
begin

text \<open>
  \<open>evistream/policies/versioning.py\<close>: the version line of a policy, its immutable published
  versions, and the instantiation of a case with one requirement per compiled template. The public
  projections \<open>Policy\<close>, \<open>Case\<close> and \<open>Requirement\<close> of \<open>evistream/domain/models.py\<close> are here too.
\<close>

section \<open>Public projections\<close>

record Policy =
  pm_policy_id :: string
  pm_version :: int
  pm_name :: utext
  pm_severity :: Severity
  pm_enabled :: bool
  pm_lifecycle :: PolicyLifecycle
  pm_source_yaml :: utext
  pm_compiled :: CompiledPolicy
  pm_source_sha256 :: string
  pm_semantic_sha256 :: string
  pm_compiler_version :: string
  pm_created_at :: time
  pm_updated_at :: time

record Case =
  cm_case_id :: string
  cm_video_id :: string
  cm_policy_id :: string
  cm_policy_version :: int
  cm_model_profile :: string
  cm_status :: CaseStatus
  cm_created_at :: time
  cm_updated_at :: time

record Requirement =
  qm_requirement_id :: string
  qm_case_id :: string
  qm_requirement_key :: string
  qm_requirement_type :: RequirementType
  qm_source_kind :: SourceKind
  qm_required :: bool
  qm_description :: utext
  qm_suggested_queries :: "utext list"
  qm_modalities :: "string list"
  qm_tool_capabilities :: "string list"
  qm_semantic_sha256 :: string
  qm_status :: RequirementStatus
  qm_created_at :: time
  qm_updated_at :: time

definition policy_from_record :: "PolicyRecord \<Rightarrow> Policy" where
  "policy_from_record r = \<lparr> pm_policy_id = pc_policy_id r, pm_version = pc_version r,
     pm_name = pc_name r, pm_severity = pc_severity r, pm_enabled = pc_enabled r,
     pm_lifecycle = pc_lifecycle r, pm_source_yaml = pc_source_yaml r,
     pm_compiled = pc_compiled_policy r, pm_source_sha256 = pc_source_sha256 r,
     pm_semantic_sha256 = pc_semantic_sha256 r, pm_compiler_version = pc_compiler_version r,
     pm_created_at = pc_created_at r, pm_updated_at = pc_updated_at r \<rparr>"

definition case_from_record :: "CaseRecord \<Rightarrow> Case" where
  "case_from_record r = \<lparr> cm_case_id = ca_id r, cm_video_id = ca_video_id r,
     cm_policy_id = ca_policy_id r, cm_policy_version = ca_policy_version r,
     cm_model_profile = ca_model_profile r, cm_status = ca_status r,
     cm_created_at = ca_created_at r, cm_updated_at = ca_updated_at r \<rparr>"

definition requirement_from_record :: "RequirementRecord \<Rightarrow> Requirement" where
  "requirement_from_record r = \<lparr> qm_requirement_id = rm_id r, qm_case_id = rm_case_id r,
     qm_requirement_key = rm_requirement_key r, qm_requirement_type = rm_requirement_type r,
     qm_source_kind = rm_source_kind r, qm_required = rm_required r,
     qm_description = rm_description r, qm_suggested_queries = rm_suggested_queries r,
     qm_modalities = rm_modalities r, qm_tool_capabilities = rm_tool_capabilities r,
     qm_semantic_sha256 = rm_semantic_sha256 r, qm_status = rm_status r,
     qm_created_at = rm_created_at r, qm_updated_at = rm_updated_at r \<rparr>"

section \<open>Saving a version\<close>

text \<open>\<open>select(max(version)).where(policy_id)\<close>, with \<open>None\<close> for no row.\<close>

definition versions_of :: "string \<Rightarrow> db \<Rightarrow> int list" where
  "versions_of pid s = map pc_version (filter (\<lambda>r. pc_policy_id r = pid) (db_policies s))"

definition expected_version :: "string \<Rightarrow> db \<Rightarrow> int" where
  "expected_version pid s = (case versions_of pid s of [] \<Rightarrow> 1 | vs \<Rightarrow> Max (set vs) + 1)"

text \<open>The assignments at the end of \<open>save_policy\<close>.\<close>

definition fill_policy ::
    "time \<Rightarrow> LoadedPolicy \<Rightarrow> CompiledPolicy \<Rightarrow> PolicyLifecycle \<Rightarrow> PolicyRecord \<Rightarrow> PolicyRecord" where
  "fill_policy now source compiled lifecycle r = r\<lparr>pc_name := pol_name compiled,
     pc_severity := pol_severity compiled, pc_enabled := pol_enabled compiled,
     pc_lifecycle := lifecycle, pc_source_yaml := lp_source_yaml source,
     pc_compiled_policy := compiled, pc_source_sha256 := lp_source_sha256 source,
     pc_semantic_sha256 := pol_semantic_sha256 compiled,
     pc_compiler_version := pol_compiler_version compiled, pc_updated_at := now\<rparr>"

definition new_policy_row ::
    "time \<Rightarrow> LoadedPolicy \<Rightarrow> CompiledPolicy \<Rightarrow> PolicyLifecycle \<Rightarrow> PolicyRecord" where
  "new_policy_row now source compiled lifecycle = \<lparr> pc_policy_id = pol_policy_id compiled,
     pc_version = pol_version compiled, pc_name = pol_name compiled,
     pc_severity = pol_severity compiled, pc_enabled = pol_enabled compiled,
     pc_lifecycle = lifecycle, pc_source_yaml = lp_source_yaml source,
     pc_compiled_policy = compiled, pc_source_sha256 = lp_source_sha256 source,
     pc_semantic_sha256 = pol_semantic_sha256 compiled,
     pc_compiler_version = pol_compiler_version compiled, pc_created_at = now,
     pc_updated_at = now \<rparr>"

definition save_policy ::
    "time \<Rightarrow> LoadedPolicy \<Rightarrow> CompiledPolicy \<Rightarrow> PolicyLifecycle \<Rightarrow> db \<Rightarrow> (PolicyRecord \<times> db) res" where
  "save_policy now source compiled lifecycle s =
    (let key = (pol_policy_id compiled, pol_version compiled) in
     case t_get pc_key key (db_policies s) of
       Some existing \<Rightarrow>
         if pc_lifecycle existing = PL_PUBLISHED then
           (if lifecycle = PL_PUBLISHED \<and> pc_semantic_sha256 existing = pol_semantic_sha256 compiled
            then Inr (existing, s)
            else Inl (PolicyVersionError ''POLICY_VERSION_CONFLICT''))
         else Inr (fill_policy now source compiled lifecycle existing,
           s\<lparr>db_policies := t_upd pc_key key (fill_policy now source compiled lifecycle) (db_policies s)\<rparr>)
     | None \<Rightarrow>
         if pol_version compiled \<noteq> expected_version (pol_policy_id compiled) s
         then Inl (PolicyVersionError ''POLICY_VERSION_CONFLICT'')
         else let row = new_policy_row now source compiled lifecycle
              in bindE (t_add pc_key row (db_policies s)) (\<lambda>t. Inr (row, s\<lparr>db_policies := t\<rparr>)))"

text \<open>\<open>PolicyVersionService\<close>: compile outside the transaction, save inside it.\<close>

definition save_version ::
    "env \<Rightarrow> time \<Rightarrow> LoadedPolicy \<Rightarrow> PolicyLifecycle \<Rightarrow> db \<Rightarrow> Policy res \<times> db" where
  "save_version E now source lifecycle s = (case compile_policy E (lp_document source) of
     Inl e \<Rightarrow> (Inl e, s)
   | Inr compiled \<Rightarrow> run_session (\<lambda>s. bindE (save_policy now source compiled lifecycle s)
       (\<lambda>(r, s'). Inr (policy_from_record r, s'))) s)"

definition save_draft :: "env \<Rightarrow> time \<Rightarrow> LoadedPolicy \<Rightarrow> db \<Rightarrow> Policy res \<times> db" where
  "save_draft E now source s = save_version E now source PL_DRAFT s"

definition publish :: "env \<Rightarrow> time \<Rightarrow> LoadedPolicy \<Rightarrow> db \<Rightarrow> Policy res \<times> db" where
  "publish E now source s = save_version E now source PL_PUBLISHED s"

definition get_version :: "string \<Rightarrow> int \<Rightarrow> db \<Rightarrow> Policy res" where
  "get_version pid v s = (case t_get pc_key (pid, v) (db_policies s) of
     None \<Rightarrow> Inl (PolicyVersionError ''POLICY_NOT_FOUND'')
   | Some r \<Rightarrow> Inr (policy_from_record r))"

definition list_versions :: "string \<Rightarrow> db \<Rightarrow> Policy list" where
  "list_versions pid s = map policy_from_record
     (sort_key pc_version (filter (\<lambda>r. pc_policy_id r = pid) (db_policies s)))"

section \<open>Instantiating a case\<close>

record CaseBundle =
  cb_case :: Case
  cb_requirements :: "Requirement list"

definition new_requirement_row ::
    "string \<Rightarrow> string \<Rightarrow> time \<Rightarrow> RequirementTemplate \<Rightarrow> RequirementRecord" where
  "new_requirement_row rid case_id now item = \<lparr> rm_id = rid, rm_case_id = case_id,
     rm_requirement_key = tp_requirement_key item, rm_requirement_type = tp_requirement_type item,
     rm_source_kind = tp_source_kind item, rm_required = tp_required item,
     rm_description = tp_description item, rm_suggested_queries = tp_suggested_queries item,
     rm_modalities = tp_modalities item, rm_tool_capabilities = tp_tool_capabilities item,
     rm_semantic_sha256 = tp_semantic_sha256 item, rm_status = RS_PENDING,
     rm_current_result_id = None, rm_created_at = now, rm_updated_at = now \<rparr>"

definition find_case :: "string \<Rightarrow> string \<Rightarrow> int \<Rightarrow> db \<Rightarrow> CaseRecord option" where
  "find_case vid pid v s = find (\<lambda>c. ca_video_id c = vid \<and> ca_policy_id c = pid
     \<and> ca_policy_version c = v) (db_cases s)"

text \<open>\<open>select(RequirementRecord).where(case_id).order_by(requirement_key)\<close>, in the order of the
  database.\<close>

definition requirements_of :: "env \<Rightarrow> string \<Rightarrow> db \<Rightarrow> RequirementRecord list" where
  "requirements_of E cid s = sort_by (\<lambda>a b. coll E (rm_requirement_key a) (rm_requirement_key b))
     (filter (\<lambda>r. rm_case_id r = cid) (db_requirements s))"

text \<open>\<open>hex\<close> is the supply of \<open>uuid4().hex\<close> values, one per call in order.\<close>

definition requirement_rows ::
    "(nat \<Rightarrow> string) \<Rightarrow> string \<Rightarrow> time \<Rightarrow> RequirementTemplate list \<Rightarrow> RequirementRecord list" where
  "requirement_rows hex case_id now items = map (\<lambda>(i, item).
     new_requirement_row (''req_'' @ hex (Suc i)) case_id now item) (enumerate 0 items)"

text \<open>\<open>case_id or f"case_{uuid4().hex}"\<close>: an empty identifier counts as none.\<close>

definition fresh_case_id :: "(nat \<Rightarrow> string) \<Rightarrow> string option \<Rightarrow> string" where
  "fresh_case_id hex case_id = (if truthy case_id then the case_id else ''case_'' @ hex 0)"

definition new_case_row :: "string \<Rightarrow> string \<Rightarrow> string \<Rightarrow> int \<Rightarrow> string \<Rightarrow> time \<Rightarrow> CaseRecord" where
  "new_case_row cid video_id policy_id policy_version model_profile now = \<lparr> ca_id = cid,
     ca_video_id = video_id, ca_policy_id = policy_id, ca_policy_version = policy_version,
     ca_model_profile = model_profile, ca_status = CS_READY, ca_current_decision_id = None,
     ca_created_at = now, ca_updated_at = now \<rparr>"

definition instantiate_case ::
    "(nat \<Rightarrow> string) \<Rightarrow> time \<Rightarrow> RequirementTemplate list \<Rightarrow> CaseRecord \<Rightarrow> db \<Rightarrow> (CaseBundle \<times> db) res" where
  "instantiate_case hex now items rec s =
    (let rows = requirement_rows hex (ca_id rec) now items in
     bindE (t_add ca_id rec (db_cases s)) (\<lambda>cases.
     bindE (t_add_all rm_id rows (db_requirements s)) (\<lambda>reqs.
       Inr (\<lparr> cb_case = case_from_record rec, cb_requirements = map requirement_from_record rows \<rparr>,
            s\<lparr>db_cases := cases, db_requirements := reqs\<rparr>))))"

definition create_case ::
    "env \<Rightarrow> time \<Rightarrow> (nat \<Rightarrow> string) \<Rightarrow> string \<Rightarrow> string \<Rightarrow> int \<Rightarrow> string \<Rightarrow> string option \<Rightarrow> db
       \<Rightarrow> (CaseBundle \<times> db) res" where
  "create_case E now hex video_id policy_id policy_version model_profile case_id s =
    (case t_get vd_id video_id (db_videos s) of
       None \<Rightarrow> Inl (PolicyVersionError ''VIDEO_NOT_FOUND'')
     | Some video \<Rightarrow>
     if vd_status video \<noteq> VS_READY then Inl (PolicyVersionError ''VIDEO_NOT_READY'')
     else case t_get pc_key (policy_id, policy_version) (db_policies s) of
       None \<Rightarrow> Inl (PolicyVersionError ''POLICY_NOT_FOUND'')
     | Some policy \<Rightarrow>
     if pc_lifecycle policy \<noteq> PL_PUBLISHED then Inl (PolicyVersionError ''POLICY_NOT_PUBLISHED'')
     else case find_case video_id policy_id policy_version s of
       Some existing \<Rightarrow> Inr (\<lparr> cb_case = case_from_record existing,
         cb_requirements = map requirement_from_record (requirements_of E (ca_id existing) s) \<rparr>, s)
     | None \<Rightarrow> instantiate_case hex now (pol_requirements (pc_compiled_policy policy))
         (new_case_row (fresh_case_id hex case_id) video_id policy_id policy_version model_profile now) s)"

definition create_case_session ::
    "env \<Rightarrow> time \<Rightarrow> (nat \<Rightarrow> string) \<Rightarrow> string \<Rightarrow> string \<Rightarrow> int \<Rightarrow> string \<Rightarrow> string option \<Rightarrow> db
       \<Rightarrow> CaseBundle res \<times> db" where
  "create_case_session E now hex video_id policy_id policy_version model_profile case_id s =
     run_session (create_case E now hex video_id policy_id policy_version model_profile case_id) s"

section \<open>Immutability and contiguity of versions\<close>

text \<open>The versions of every policy are \<open>1..n\<close>, each once.\<close>

definition policy_line_ok :: "db \<Rightarrow> bool" where
  "policy_line_ok s \<longleftrightarrow> keys_distinct pc_key (db_policies s)
     \<and> (\<forall>r\<in>set (db_policies s). set (versions_of (pc_policy_id r) s) = {1..int (length (versions_of (pc_policy_id r) s))})"

lemma fill_policy_key [simp]: "pc_key (fill_policy now source compiled lc r) = pc_key r"
  by (simp add: fill_policy_def pc_key_def)

lemma new_policy_row_key [simp]:
  "pc_key (new_policy_row now source compiled lc) = (pol_policy_id compiled, pol_version compiled)"
  by (simp add: new_policy_row_def pc_key_def)

lemma save_policy_cases:
  assumes "save_policy now source compiled lc s = Inr (r, s')"
  obtains (same) "s' = s" and "t_get pc_key (pol_policy_id compiled, pol_version compiled) (db_policies s) = Some r"
      and "pc_lifecycle r = PL_PUBLISHED"
  | (redraft) old where "t_get pc_key (pol_policy_id compiled, pol_version compiled) (db_policies s) = Some old"
      and "pc_lifecycle old = PL_DRAFT" and "r = fill_policy now source compiled lc old"
      and "s' = s\<lparr>db_policies := t_upd pc_key (pol_policy_id compiled, pol_version compiled)
             (fill_policy now source compiled lc) (db_policies s)\<rparr>"
  | (fresh) "t_get pc_key (pol_policy_id compiled, pol_version compiled) (db_policies s) = None"
      and "r = new_policy_row now source compiled lc"
      and "pol_version compiled = expected_version (pol_policy_id compiled) s"
      and "s' = s\<lparr>db_policies := db_policies s @ [r]\<rparr>"
proof (cases "t_get pc_key (pol_policy_id compiled, pol_version compiled) (db_policies s)")
  case None
  with assms show ?thesis
    by (intro fresh) (auto simp: save_policy_def Let_def table_simps split: if_splits)
next
  case (Some old)
  show ?thesis
  proof (cases "pc_lifecycle old")
    case PL_PUBLISHED
    with Some assms show ?thesis
      by (intro same) (auto simp: save_policy_def Let_def split: if_splits)
  next
    case PL_DRAFT
    with Some assms show ?thesis
      by (intro redraft) (auto simp: save_policy_def Let_def split: if_splits)
  qed
qed

lemma versions_of_upd:
  "versions_of pid (s\<lparr>db_policies := t_upd pc_key k (fill_policy now source compiled lc) (db_policies s)\<rparr>)
     = versions_of pid s"
proof -
  have "map pc_version (filter (\<lambda>r. pc_policy_id r = pid) (t_upd pc_key k (fill_policy now source compiled lc) t))
     = map pc_version (filter (\<lambda>r. pc_policy_id r = pid) t)" for t
    by (induction t) (auto simp: t_upd_Cons fill_policy_def)
  then show ?thesis by (simp add: versions_of_def)
qed

lemma versions_of_snoc:
  "versions_of pid (s\<lparr>db_policies := db_policies s @ [r]\<rparr>) =
     versions_of pid s @ (if pc_policy_id r = pid then [pc_version r] else [])"
  by (simp add: versions_of_def)

lemma versions_of_row: "versions_of pid s \<noteq> [] \<Longrightarrow> \<exists>r\<in>set (db_policies s). pc_policy_id r = pid"
  by (auto simp: versions_of_def filter_empty_conv)

lemma expected_version_next:
  assumes "policy_line_ok s"
  shows "expected_version pid s = int (length (versions_of pid s)) + 1
    \<and> set (versions_of pid s) = {1..int (length (versions_of pid s))}"
proof (cases "versions_of pid s")
  case Nil
  then show ?thesis by (simp add: expected_version_def)
next
  case (Cons v vs)
  then obtain r where "r \<in> set (db_policies s)" "pc_policy_id r = pid"
    using versions_of_row by force
  then have "set (versions_of pid s) = {1..int (length (versions_of pid s))}"
    using assms by (auto simp: policy_line_ok_def)
  then have "Max (set (versions_of pid s)) = int (length (versions_of pid s))"
    using Cons by (simp add: Max_eq_iff)
  then show ?thesis
    using Cons \<open>set (versions_of pid s) = _\<close> by (simp add: expected_version_def del: set_simps)
qed

lemma save_policy_immutable:
  assumes "save_policy now source compiled lc s = Inr (r, s')" and "policy_line_ok s"
  shows "policy_line_ok s' \<and> r \<in> set (db_policies s')
    \<and> (\<forall>p\<in>set (db_policies s). pc_lifecycle p = PL_PUBLISHED \<longrightarrow> p \<in> set (db_policies s'))"
  using assms(1)
proof (cases rule: save_policy_cases)
  case same
  then show ?thesis using assms(2) by (auto dest: t_get_Some)
next
  case (redraft old)
  let ?k = "(pol_policy_id compiled, pol_version compiled)"
  let ?f = "fill_policy now source compiled lc"
  have kd: "keys_distinct pc_key (db_policies s)" using assms(2) by (simp add: policy_line_ok_def)
  have ids: "set (map pc_policy_id (t_upd pc_key ?k ?f (db_policies s))) = set (map pc_policy_id (db_policies s))"
    by (simp add: map_t_upd fill_policy_def)
  have "policy_line_ok s'"
    unfolding policy_line_ok_def
  proof (intro conjI ballI)
    show "keys_distinct pc_key (db_policies s')"
      using tbl.wf_upd [of pc_key ?f, OF _ kd] by (simp add: redraft(4))
  next
    fix p assume "p \<in> set (db_policies s')"
    then have "pc_policy_id p \<in> set (map pc_policy_id (db_policies s))"
      using ids imageI [of p "set (db_policies s')" pc_policy_id] by (simp add: redraft(4))
    then show "set (versions_of (pc_policy_id p) s') = {1..int (length (versions_of (pc_policy_id p) s'))}"
      using assms(2) by (auto simp: policy_line_ok_def redraft(4) versions_of_upd)
  qed
  moreover have "p \<in> set (db_policies s')" if "p \<in> set (db_policies s)" "pc_lifecycle p = PL_PUBLISHED" for p
    using that redraft(1,2) t_get_complete [OF kd that(1)] by (auto simp: redraft(4) t_upd_def)
  moreover have "r \<in> set (db_policies s')"
    using t_get_Some [OF redraft(1)] by (auto simp: redraft(3,4) t_upd_def)
  ultimately show ?thesis by blast
next
  case fresh
  have kd: "keys_distinct pc_key (db_policies s)" using assms(2) by (simp add: policy_line_ok_def)
  have key: "pc_policy_id r = pol_policy_id compiled" "pc_version r = pol_version compiled"
    by (simp_all add: fresh(2) new_policy_row_def)
  have "keys_distinct pc_key (db_policies s')"
    using fresh(1) kd by (auto simp: fresh(2,4) keys_distinct_def t_get_None)
  moreover have "set (versions_of (pc_policy_id p) s') = {1..int (length (versions_of (pc_policy_id p) s'))}"
    if "p \<in> set (db_policies s')" for p
    using expected_version_next [OF assms(2), of "pc_policy_id p"] fresh(3)
    by (auto simp: fresh(4) versions_of_snoc key)
  ultimately show ?thesis by (auto simp: policy_line_ok_def fresh(4))
qed

lemma save_policy_row_key:
  "save_policy now source compiled lc s = Inr (r, s') \<Longrightarrow>
     pc_key r = (pol_policy_id compiled, pol_version compiled)"
  by (erule save_policy_cases) (auto dest: t_get_Some)

text \<open>
  C10. Saving a version, as a draft or as a publication, succeeding or not, keeps every published
  row of the table exactly as it is and keeps the versions of every policy contiguous from 1; the
  version it returns is the one \<open>get_version\<close> then reads back.
\<close>

theorem save_version_immutable:
  assumes "policy_line_ok s"
  shows "policy_line_ok (snd (save_version E now source lc s))
    \<and> {p \<in> set (db_policies s). pc_lifecycle p = PL_PUBLISHED} \<subseteq> set (db_policies (snd (save_version E now source lc s)))
    \<and> (\<forall>pm. fst (save_version E now source lc s) = Inr pm \<longrightarrow>
          get_version (pm_policy_id pm) (pm_version pm) (snd (save_version E now source lc s)) = Inr pm)"
proof (cases "compile_policy E (lp_document source)")
  case (Inl e)
  then show ?thesis using assms by (simp add: save_version_def)
next
  case (Inr compiled)
  show ?thesis
  proof (cases "save_policy now source compiled lc s")
    case (Inl e)
    then show ?thesis using assms Inr by (simp add: save_version_def run_session_def)
  next
    case sv: (Inr x)
    obtain r s' where x: "x = (r, s')" by (cases x)
    note im = save_policy_immutable [OF sv [unfolded x] assms]
    have "t_get pc_key (pc_key r) (db_policies s') = Some r"
      by (rule t_get_complete) (use im in \<open>auto simp: policy_line_ok_def\<close>)
    then have "get_version (pc_policy_id r) (pc_version r) s' = Inr (policy_from_record r)"
      by (simp add: get_version_def pc_key_def)
    then show ?thesis
      using im Inr sv x by (auto simp: save_version_def run_session_def policy_from_record_def)
  qed
qed

section \<open>Cases\<close>

definition case_table_ok :: "db \<Rightarrow> bool" where
  "case_table_ok s \<longleftrightarrow> keys_distinct ca_id (db_cases s) \<and> keys_distinct rm_id (db_requirements s)
     \<and> rm_case_id ` set (db_requirements s) \<subseteq> ca_id ` set (db_cases s)"

lemma new_requirement_row_simps [simp]:
  "rm_id (new_requirement_row i c now t) = i"
  "rm_case_id (new_requirement_row i c now t) = c"
  "rm_requirement_key (new_requirement_row i c now t) = tp_requirement_key t"
  "rm_status (new_requirement_row i c now t) = RS_PENDING"
  by (simp_all add: new_requirement_row_def)

lemma requirement_rows_keys:
  "map rm_requirement_key (requirement_rows hex cid now items) = map tp_requirement_key items"
proof -
  have "map rm_requirement_key (requirement_rows hex cid now items)
      = map tp_requirement_key (map snd (enumerate 0 items))"
    unfolding requirement_rows_def map_map
    by (rule map_cong [OF refl]) (simp add: case_prod_beta)
  then show ?thesis by simp
qed

lemma requirement_rows_case:
  "r \<in> set (requirement_rows hex cid now items) \<Longrightarrow> rm_case_id r = cid \<and> rm_status r = RS_PENDING"
  by (auto simp: requirement_rows_def)

lemma instantiate_case_Inr:
  "instantiate_case hex now items c s = Inr (b, s') \<Longrightarrow>
    t_get ca_id (ca_id c) (db_cases s) = None
    \<and> (let rows = requirement_rows hex (ca_id c) now items in
       t_add_all rm_id rows (db_requirements s) = Inr (db_requirements s @ rows)
       \<and> s' = s\<lparr>db_cases := db_cases s @ [c], db_requirements := db_requirements s @ rows\<rparr>
       \<and> b = \<lparr> cb_case = case_from_record c, cb_requirements = map requirement_from_record rows \<rparr>)"
  by (auto simp: instantiate_case_def Let_def table_simps dest: t_add_all_Inr)

lemma create_case_cases:
  assumes "create_case E now hex vid pid v prof cid s = Inr (b, s')"
  obtains (found) c where "find_case vid pid v s = Some c" and "s' = s"
      and "b = \<lparr> cb_case = case_from_record c,
        cb_requirements = map requirement_from_record (requirements_of E (ca_id c) s) \<rparr>"
  | (created) p where "find_case vid pid v s = None"
      and "t_get pc_key (pid, v) (db_policies s) = Some p" and "pc_lifecycle p = PL_PUBLISHED"
      and "instantiate_case hex now (pol_requirements (pc_compiled_policy p))
         (new_case_row (fresh_case_id hex cid) vid pid v prof now) s = Inr (b, s')"
  using assms by (auto simp: create_case_def split: option.splits if_splits)

lemma create_case_guards:
  "create_case E now hex vid pid v prof cid s = Inr (b, s') \<Longrightarrow>
    (\<exists>video p. t_get vd_id vid (db_videos s) = Some video \<and> vd_status video = VS_READY
       \<and> t_get pc_key (pid, v) (db_policies s) = Some p \<and> pc_lifecycle p = PL_PUBLISHED)"
  by (auto simp: create_case_def split: option.splits if_splits)

lemma find_case_same_db:
  "db_cases s' = db_cases s \<Longrightarrow> find_case vid pid v s' = find_case vid pid v s"
  by (simp add: find_case_def)

lemma new_case_row_simps [simp]:
  "ca_id (new_case_row c vid pid v prof now) = c"
  "ca_video_id (new_case_row c vid pid v prof now) = vid"
  "ca_policy_id (new_case_row c vid pid v prof now) = pid"
  "ca_policy_version (new_case_row c vid pid v prof now) = v"
  "ca_status (new_case_row c vid pid v prof now) = CS_READY"
  "ca_current_decision_id (new_case_row c vid pid v prof now) = None"
  by (simp_all add: new_case_row_def)

text \<open>
  Creating a case instantiates exactly one pending requirement per template of the published
  policy, in the order of the templates, keeps the case tables well formed, and is idempotent: any
  later creation for the same video and policy version, whatever profile, identifier or fresh
  values it brings, returns the same case and the same requirements and changes nothing.
\<close>

theorem create_case_idempotent:
  assumes "create_case E now hex vid pid v prof cid s = Inr (b, s')"
    and "case_table_ok s" and "find_case vid pid v s = None"
  shows "case_table_ok s'
    \<and> (\<exists>p. t_get pc_key (pid, v) (db_policies s) = Some p \<and> pc_lifecycle p = PL_PUBLISHED
         \<and> map qm_requirement_key (cb_requirements b) = policy_keys (pc_compiled_policy p))
    \<and> (\<forall>q\<in>set (cb_requirements b). qm_status q = RS_PENDING \<and> qm_case_id q = cm_case_id (cb_case b))
    \<and> (\<exists>b'. create_case E now' hex' vid pid v prof' cid' s' = Inr (b', s')
         \<and> cb_case b' = cb_case b \<and> mset (cb_requirements b') = mset (cb_requirements b))"
proof -
  from assms(1,3) obtain p where p: "t_get pc_key (pid, v) (db_policies s) = Some p" "pc_lifecycle p = PL_PUBLISHED"
    and i: "instantiate_case hex now (pol_requirements (pc_compiled_policy p))
         (new_case_row (fresh_case_id hex cid) vid pid v prof now) s = Inr (b, s')"
    by (auto elim: create_case_cases)
  define c where "c = new_case_row (fresh_case_id hex cid) vid pid v prof now"
  define rows where "rows = requirement_rows hex (ca_id c) now (pol_requirements (pc_compiled_policy p))"
  have cr: "t_get ca_id (ca_id c) (db_cases s) = None"
      "t_add_all rm_id rows (db_requirements s) = Inr (db_requirements s @ rows)"
    and s': "s' = s\<lparr>db_cases := db_cases s @ [c], db_requirements := db_requirements s @ rows\<rparr>"
    and b: "b = \<lparr> cb_case = case_from_record c, cb_requirements = map requirement_from_record rows \<rparr>"
    using instantiate_case_Inr [OF i] by (auto simp: c_def rows_def Let_def)
  have row: "r \<in> set rows \<Longrightarrow> rm_case_id r = ca_id c \<and> rm_status r = RS_PENDING" for r
    by (auto simp: rows_def dest: requirement_rows_case)
  have old: "r \<in> set (db_requirements s) \<Longrightarrow> rm_case_id r \<noteq> ca_id c" for r
    using assms(2) cr(1) by (auto simp: case_table_ok_def t_get_None)
  have ok: "case_table_ok s'"
    using assms(2) cr t_add_all_distinct [OF cr(2)] row
    by (auto simp: case_table_ok_def s' keys_distinct_def t_get_None)
  have keys: "map qm_requirement_key (cb_requirements b) = policy_keys (pc_compiled_policy p)"
    using requirement_rows_keys [of hex "ca_id c" now "pol_requirements (pc_compiled_policy p)"]
    by (simp add: b rows_def policy_keys_def comp_def requirement_from_record_def)
  have fc: "find_case vid pid v s' = Some c"
    using assms(3) by (auto simp: find_case_def s' find_None_iff find_Some_iff c_def nth_append
        intro!: exI [of _ "length (db_cases s)"])
  have "filter (\<lambda>r. rm_case_id r = ca_id c) (db_requirements s') = rows"
    using old row by (auto simp: s' filter_empty_conv intro!: filter_True)
  then have ms: "mset (requirements_of E (ca_id c) s') = mset rows"
    by (simp add: requirements_of_def)
  obtain video where "t_get vd_id vid (db_videos s') = Some video" "vd_status video = VS_READY"
    using create_case_guards [OF assms(1)] by (auto simp: s')
  then have again: "create_case E now' hex' vid pid v prof' cid' s' = Inr (\<lparr> cb_case = case_from_record c,
      cb_requirements = map requirement_from_record (requirements_of E (ca_id c) s') \<rparr>, s')"
    using p fc by (simp add: create_case_def s')
  have "mset (map requirement_from_record (requirements_of E (ca_id c) s')) = mset (map requirement_from_record rows)"
    by (simp only: mset_map ms)
  then show ?thesis
    using ok keys p again row
    by (auto simp: b requirement_from_record_def case_from_record_def)
qed

text \<open>Worked instances: the seeded policy published, and a case of a ready video.\<close>

definition demo_source :: LoadedPolicy where
  "demo_source = \<lparr> lp_document = demo_document, lp_source_yaml = [], lp_source_sha256 = ''s'' \<rparr>"

definition demo_video :: VideoRecord where
  "demo_video = \<lparr> vd_id = ''v1'', vd_original_name = u ''a.mp4'', vd_artifact_uri = ''f'',
     vd_fingerprint = None, vd_duration_ms = 10000, vd_width = 16, vd_height = 9,
     vd_container = ''mp4'', vd_video_codec = ''h264'', vd_has_audio = False, vd_audio_codec = None,
     vd_status = VS_READY, vd_model_profile = ''mock'', vd_triage_status = ''PENDING'',
     vd_created_at = 0, vd_updated_at = 0 \<rparr>"

definition demo_policy :: CompiledPolicy where
  "demo_policy = \<lparr> pol_policy_id = ''safety.weapon'', pol_version = 1, pol_name = u ''Weapons'',
     pol_enabled = True, pol_severity = SEV_HIGH, pol_trigger_terms = [u ''knife''],
     pol_requirements = [compile_ordinary demo_env [u ''knife''] \<lparr> rq_id = ''weapon_visible'',
       rq_type = RT_visual_presence, rq_required = True, rq_description = u ''a weapon is visible'' \<rparr>],
     pol_aggregation = default_aggregation,
     pol_reject_when = BExpr (Some [Key ''weapon_visible'']) None,
     pol_escalate_when = BExpr None (Some [Key ''contradictory_evidence'']),
     pol_compiler_version = compiler_version, pol_semantic_sha256 = ''sem'' \<rparr>"

definition demo_db :: db where
  "demo_db = empty_db\<lparr>db_videos := [demo_video],
     db_policies := [new_policy_row 0 demo_source demo_policy PL_PUBLISHED]\<rparr>"

lemma save_version_immutable_witness:
  "policy_line_ok (snd (save_version demo_env 7 demo_source PL_PUBLISHED demo_db))"
proof -
  have "policy_line_ok demo_db"
    by (simp add: policy_line_ok_def demo_db_def empty_db_def versions_of_def new_policy_row_def
        demo_policy_def keys_distinct_def)
  then show ?thesis using save_version_immutable by blast
qed

lemma create_case_idempotent_witness:
  "\<exists>b s'. create_case demo_env 5 (\<lambda>i. digits i) ''v1'' ''safety.weapon'' 1 ''mock'' None demo_db = Inr (b, s')
     \<and> case_table_ok s' \<and> map qm_requirement_key (cb_requirements b) = [''weapon_visible'']"
proof -
  have ex: "\<exists>b s'. create_case demo_env 5 (\<lambda>i. digits i) ''v1'' ''safety.weapon'' 1 ''mock'' None demo_db = Inr (b, s')"
    by (simp add: create_case_def demo_db_def empty_db_def demo_video_def t_get_def new_policy_row_def
        pc_key_def demo_policy_def find_case_def instantiate_case_def t_add_def requirement_rows_def Let_def)
  have t: "case_table_ok demo_db" "find_case ''v1'' ''safety.weapon'' 1 demo_db = None"
    by (simp_all add: case_table_ok_def demo_db_def empty_db_def keys_distinct_def find_case_def)
  have k: "t_get pc_key (''safety.weapon'', 1) (db_policies demo_db) = Some p \<Longrightarrow>
      policy_keys (pc_compiled_policy p) = [''weapon_visible'']" for p
    by (auto simp: demo_db_def t_get_def new_policy_row_def pc_key_def demo_policy_def policy_keys_def)
  from ex obtain b s' where c: "create_case demo_env 5 (\<lambda>i. digits i) ''v1'' ''safety.weapon'' 1 ''mock'' None demo_db = Inr (b, s')"
    by blast
  show ?thesis using create_case_idempotent [OF c t, of 0 "\<lambda>_. []" "[]" None] c k by auto
qed

end
