(* ===== verification/Evidence.thy ===== *)
theory Evidence
  imports PolicyVersions
begin

text \<open>
  \<open>evistream/governance/evidence.py\<close>: appending evidence under a stable identifier, listing the
  evidence of a requirement, and the classification that decides which evidence may count.
\<close>

section \<open>Appending\<close>

text \<open>\<open>PendingEvidence\<close> of \<open>evistream/agent/service.py\<close>, what a verifier hands over.\<close>

record PendingEvidence =
  pe_evidence_id :: string
  pe_requirement_id :: string
  pe_stance :: EvidenceStance
  pe_modality :: string
  pe_start_ms :: int
  pe_end_ms :: int
  pe_artifact_id :: "string option"
  pe_tool_run_id :: string
  pe_model_call_id :: string
  pe_model_name :: string
  pe_source_ref :: string
  pe_summary :: utext
  pe_confidence :: "rat option"

definition evidence_row :: "string \<Rightarrow> time \<Rightarrow> PendingEvidence \<Rightarrow> EvidenceRecord" where
  "evidence_row case_id now item = \<lparr> ev_id = pe_evidence_id item, ev_case_id = case_id,
     ev_requirement_id = pe_requirement_id item, ev_stance = pe_stance item,
     ev_modality = pe_modality item, ev_start_ms = pe_start_ms item, ev_end_ms = pe_end_ms item,
     ev_artifact_id = pe_artifact_id item, ev_tool_run_id = Some (pe_tool_run_id item),
     ev_model_call_id = Some (pe_model_call_id item), ev_model_name = Some (pe_model_name item),
     ev_source_ref = pe_source_ref item, ev_summary = pe_summary item,
     ev_confidence = pe_confidence item, ev_origin_evidence_id = None, ev_replay_item_id = None,
     ev_created_at = now, ev_updated_at = now \<rparr>"

definition append_pending :: "string \<Rightarrow> PendingEvidence \<Rightarrow> time \<Rightarrow> db \<Rightarrow> (EvidenceRecord \<times> db) res" where
  "append_pending case_id item now s = (case t_get ev_id (pe_evidence_id item) (db_evidence s) of
     Some existing \<Rightarrow>
       if ev_case_id existing \<noteq> case_id \<or> ev_requirement_id existing \<noteq> pe_requirement_id item
       then Inl (GovernanceError ''EVIDENCE_SOURCE_INVALID'')
       else Inr (existing, s)
   | None \<Rightarrow> bindE (insert_evidence (evidence_row case_id now item) s)
       (\<lambda>s'. Inr (evidence_row case_id now item, s')))"

fun append_all :: "string \<Rightarrow> time \<Rightarrow> PendingEvidence list \<Rightarrow> db \<Rightarrow> db res" where
  "append_all case_id now [] s = Inr s"
| "append_all case_id now (item # items) s =
     bindE (append_pending case_id item now s) (\<lambda>(r, s'). append_all case_id now items s')"

section \<open>Listing\<close>

text \<open>\<open>order_by(created_at, id)\<close>, text in the order of the database.\<close>

definition created_then :: "env \<Rightarrow> ('r \<Rightarrow> time) \<Rightarrow> ('r \<Rightarrow> string) \<Rightarrow> 'r \<Rightarrow> 'r \<Rightarrow> bool" where
  "created_then E tm i a b \<longleftrightarrow> tm a < tm b \<or> (tm a = tm b \<and> coll E (i a) (i b))"

definition list_for_requirement :: "env \<Rightarrow> string \<Rightarrow> db \<Rightarrow> EvidenceRecord list" where
  "list_for_requirement E rid s = sort_by (created_then E ev_created_at ev_id)
     (filter (\<lambda>e. ev_requirement_id e = rid) (db_evidence s))"

section \<open>Classification\<close>

record EvidenceValidity =
  vl_evidence :: EvidenceRecord
  vl_valid :: bool
  vl_reason_code :: "string option"
  vl_tool_status :: "ToolRunStatus option"
  vl_model_status :: "ModelCallStatus option"
  vl_artifact_available :: "bool option"

definition invalid_evidence ::
    "EvidenceRecord \<Rightarrow> ToolRunStatus option \<Rightarrow> ModelCallStatus option \<Rightarrow> bool option \<Rightarrow> EvidenceValidity" where
  "invalid_evidence e tool model artifact = \<lparr> vl_evidence = e, vl_valid = False,
     vl_reason_code = Some ''EVIDENCE_SOURCE_INVALID'', vl_tool_status = tool,
     vl_model_status = model, vl_artifact_available = artifact \<rparr>"

definition vision_modalities :: "string list" where
  "vision_modalities = [''vision'', ''visual_caption'', ''clip'', ''keyframe'']"

definition modality_allowed :: "string \<Rightarrow> string list \<Rightarrow> bool" where
  "modality_allowed modality allowed \<longleftrightarrow>
     (if modality \<in> set vision_modalities then ''vision'' else modality) \<in> set allowed"

text \<open>The last two tests of \<open>classify\<close>, on a row whose sources are in order.\<close>

definition classify_origin :: "db \<Rightarrow> EvidenceRecord \<Rightarrow> ToolRunStatus option \<Rightarrow> ModelCallStatus option
    \<Rightarrow> bool option \<Rightarrow> EvidenceValidity" where
  "classify_origin s e tool_status model_status artifact_available =
    (let ok = \<lparr> vl_evidence = e, vl_valid = True, vl_reason_code = None,
        vl_tool_status = tool_status, vl_model_status = model_status,
        vl_artifact_available = artifact_available \<rparr> in
     case ev_origin_evidence_id e of
       Some i \<Rightarrow> (case t_get ev_id i (db_evidence s) of None \<Rightarrow> invalid_evidence e None None None
                  | Some _ \<Rightarrow> ok)
     | None \<Rightarrow> if ev_artifact_id e = None \<and> ev_tool_run_id e = None \<and> ev_model_call_id e = None
         then invalid_evidence e None None None else ok)"

definition classify_model :: "db \<Rightarrow> EvidenceRecord \<Rightarrow> ToolRunStatus option \<Rightarrow> bool option
    \<Rightarrow> EvidenceValidity" where
  "classify_model s e tool_status artifact_available = (case ev_model_call_id e of
     None \<Rightarrow> classify_origin s e tool_status None artifact_available
   | Some i \<Rightarrow> (case t_get ml_id i (db_calls s) of
       None \<Rightarrow> invalid_evidence e tool_status None artifact_available
     | Some m \<Rightarrow> if ml_case_id m \<noteq> Some (ev_case_id e) \<or> ml_status m \<noteq> MC_SUCCESS
         then invalid_evidence e tool_status (Some (ml_status m)) artifact_available
         else classify_origin s e tool_status (Some (ml_status m)) artifact_available))"

definition classify_tool :: "db \<Rightarrow> EvidenceRecord \<Rightarrow> bool option \<Rightarrow> EvidenceValidity" where
  "classify_tool s e artifact_available = (case ev_tool_run_id e of
     None \<Rightarrow> classify_model s e None artifact_available
   | Some i \<Rightarrow> (case t_get tr_id i (db_tools s) of
       None \<Rightarrow> invalid_evidence e None None artifact_available
     | Some t \<Rightarrow> if tr_case_id t \<noteq> ev_case_id e \<or> tr_requirement_id t \<noteq> Some (ev_requirement_id e)
           \<or> \<not> tr_status t \<in> {TR_SUCCESS, TR_PARTIAL}
         then invalid_evidence e (Some (tr_status t)) None artifact_available
         else classify_model s e (Some (tr_status t)) artifact_available))"

definition classify :: "db \<Rightarrow> RequirementRecord \<Rightarrow> EvidenceRecord \<Rightarrow> EvidenceValidity" where
  "classify s requirement e =
    (if ev_case_id e \<noteq> rm_case_id requirement \<or> ev_requirement_id e \<noteq> rm_id requirement
     then invalid_evidence e None None None
     else if ev_start_ms e < 0 \<or> ev_end_ms e \<le> ev_start_ms e then invalid_evidence e None None None
     else if \<not> modality_allowed (ev_modality e) (rm_modalities requirement)
     then invalid_evidence e None None None
     else case t_get ca_id (rm_case_id requirement) (db_cases s) of
       None \<Rightarrow> invalid_evidence e None None None
     | Some case_rec \<Rightarrow> (case ev_artifact_id e of
         None \<Rightarrow> classify_tool s e None
       | Some i \<Rightarrow>
          (let available = (case t_get ar_id i (db_artifacts s) of None \<Rightarrow> False
             | Some a \<Rightarrow> ar_video_id a = ca_video_id case_rec) in
           if \<not> available then invalid_evidence e None None (Some available)
           else classify_tool s e (Some available))))"

section \<open>What a valid classification certifies\<close>

lemma invalid_evidence_simps [simp]:
  "vl_evidence (invalid_evidence e t m a) = e"
  "vl_valid (invalid_evidence e t m a) = False"
  "vl_reason_code (invalid_evidence e t m a) = Some ''EVIDENCE_SOURCE_INVALID''"
  by (simp_all add: invalid_evidence_def)

text \<open>A classification of \<open>e\<close> that is valid exactly when \<open>P\<close>.\<close>

definition classifies :: "EvidenceRecord \<Rightarrow> bool \<Rightarrow> EvidenceValidity \<Rightarrow> bool" where
  "classifies e P v \<longleftrightarrow> vl_evidence v = e \<and> (vl_valid v \<longleftrightarrow> P)
     \<and> vl_reason_code v = (if P then None else Some ''EVIDENCE_SOURCE_INVALID'')"

lemma classifies_invalid [simp]: "classifies e P (invalid_evidence e t m a) \<longleftrightarrow> \<not> P"
  by (auto simp: classifies_def)

definition origin_ok :: "db \<Rightarrow> EvidenceRecord \<Rightarrow> bool" where
  "origin_ok s e \<longleftrightarrow> (case ev_origin_evidence_id e of
     Some i \<Rightarrow> t_get ev_id i (db_evidence s) \<noteq> None
   | None \<Rightarrow> ev_artifact_id e \<noteq> None \<or> ev_tool_run_id e \<noteq> None \<or> ev_model_call_id e \<noteq> None)"

definition model_ok :: "db \<Rightarrow> EvidenceRecord \<Rightarrow> bool" where
  "model_ok s e \<longleftrightarrow> opt_all (\<lambda>i. \<exists>m. t_get ml_id i (db_calls s) = Some m
     \<and> ml_case_id m = Some (ev_case_id e) \<and> ml_status m = MC_SUCCESS) (ev_model_call_id e)"

definition tool_ok :: "db \<Rightarrow> EvidenceRecord \<Rightarrow> bool" where
  "tool_ok s e \<longleftrightarrow> opt_all (\<lambda>i. \<exists>t. t_get tr_id i (db_tools s) = Some t
     \<and> tr_case_id t = ev_case_id e \<and> tr_requirement_id t = Some (ev_requirement_id e)
     \<and> tr_status t \<in> {TR_SUCCESS, TR_PARTIAL}) (ev_tool_run_id e)"

definition artifact_ok :: "db \<Rightarrow> CaseRecord \<Rightarrow> EvidenceRecord \<Rightarrow> bool" where
  "artifact_ok s c e \<longleftrightarrow> opt_all (\<lambda>i. \<exists>a. t_get ar_id i (db_artifacts s) = Some a
     \<and> ar_video_id a = ca_video_id c) (ev_artifact_id e)"

lemma classify_origin_classifies: "classifies e (origin_ok s e) (classify_origin s e t m a)"
proof (cases "ev_origin_evidence_id e")
  case None
  then show ?thesis by (auto simp: classify_origin_def origin_ok_def Let_def classifies_def)
next
  case (Some i)
  then show ?thesis
    by (cases "t_get ev_id i (db_evidence s)") (auto simp: classify_origin_def origin_ok_def Let_def classifies_def)
qed

lemma classify_model_classifies:
  "classifies e (model_ok s e \<and> origin_ok s e) (classify_model s e t a)"
proof (cases "ev_model_call_id e")
  case None
  then show ?thesis using classify_origin_classifies by (simp add: classify_model_def model_ok_def)
next
  case (Some i)
  then show ?thesis using classify_origin_classifies
    by (cases "t_get ml_id i (db_calls s)") (auto simp: classify_model_def model_ok_def)
qed

lemma classify_tool_classifies:
  "classifies e (tool_ok s e \<and> model_ok s e \<and> origin_ok s e) (classify_tool s e a)"
proof (cases "ev_tool_run_id e")
  case None
  then show ?thesis using classify_model_classifies by (simp add: classify_tool_def tool_ok_def)
next
  case (Some i)
  then show ?thesis using classify_model_classifies
    by (cases "t_get tr_id i (db_tools s)") (auto simp: classify_tool_def tool_ok_def)
qed

text \<open>The provenance a valid row has, as a specification over the tables.\<close>

definition provenance_ok :: "db \<Rightarrow> RequirementRecord \<Rightarrow> EvidenceRecord \<Rightarrow> bool" where
  "provenance_ok s r e \<longleftrightarrow> ev_case_id e = rm_case_id r \<and> ev_requirement_id e = rm_id r
     \<and> 0 \<le> ev_start_ms e \<and> ev_start_ms e < ev_end_ms e
     \<and> modality_allowed (ev_modality e) (rm_modalities r)
     \<and> (\<exists>c. t_get ca_id (rm_case_id r) (db_cases s) = Some c \<and> artifact_ok s c e)
     \<and> tool_ok s e \<and> model_ok s e \<and> origin_ok s e"

lemma classify_classifies: "classifies e (provenance_ok s r e) (classify s r e)"
proof (cases "ev_case_id e = rm_case_id r \<and> ev_requirement_id e = rm_id r
     \<and> 0 \<le> ev_start_ms e \<and> ev_start_ms e < ev_end_ms e
     \<and> modality_allowed (ev_modality e) (rm_modalities r)")
  case False
  then show ?thesis by (auto simp: classify_def provenance_ok_def)
next
  case True
  show ?thesis
  proof (cases "t_get ca_id (rm_case_id r) (db_cases s)")
    case None
    with True show ?thesis by (simp add: classify_def provenance_ok_def)
  next
    case (Some c)
    have "classify s r e = (case ev_artifact_id e of None \<Rightarrow> classify_tool s e None
        | Some i \<Rightarrow> if artifact_ok s c e then classify_tool s e (Some True)
            else invalid_evidence e None None (Some False))"
      using True Some by (auto simp: classify_def artifact_ok_def Let_def split: option.splits)
    then show ?thesis
      using True Some classify_tool_classifies
      by (auto simp: provenance_ok_def artifact_ok_def split: option.splits)
  qed
qed

lemma classify_evidence [simp]: "vl_evidence (classify s r e) = e"
  using classify_classifies by (simp add: classifies_def)

lemma classify_valid: "vl_valid (classify s r e) \<longleftrightarrow> provenance_ok s r e"
  using classify_classifies by (simp add: classifies_def)

text \<open>
  C2. \<open>classify\<close> accepts a row exactly when its provenance is in order: it belongs to the case and
  the requirement, has a non-empty time range and an allowed modality, and every source it names
  exists, belongs to the same case (the artifact to its video) and succeeded. A rejected row always
  carries the reason \<open>EVIDENCE_SOURCE_INVALID\<close>.
\<close>

theorem classify_valid_iff:
  "(vl_valid (classify s r e) \<longleftrightarrow> provenance_ok s r e)
   \<and> vl_reason_code (classify s r e) = (if provenance_ok s r e then None else Some ''EVIDENCE_SOURCE_INVALID'')"
  using classify_classifies by (simp add: classifies_def)

lemma list_for_requirement_set:
  "set (list_for_requirement E rid s) = {e \<in> set (db_evidence s). ev_requirement_id e = rid}"
  by (auto simp: list_for_requirement_def)

lemma append_pending_cases:
  assumes "append_pending cid item now s = Inr (r, s')"
  obtains (known) "s' = s" and "t_get ev_id (pe_evidence_id item) (db_evidence s) = Some r"
      and "ev_case_id r = cid" and "ev_requirement_id r = pe_requirement_id item"
  | (new) "s' = s\<lparr>db_evidence := db_evidence s @ [r]\<rparr>" and "r = evidence_row cid now item"
      and "t_get ev_id (pe_evidence_id item) (db_evidence s) = None"
      and "insert_evidence (evidence_row cid now item) s = Inr s'"
proof (cases "t_get ev_id (pe_evidence_id item) (db_evidence s)")
  case None
  with assms have "insert_evidence (evidence_row cid now item) s = Inr s'" "r = evidence_row cid now item"
    by (auto simp: append_pending_def bindE_Inr_iff)
  with None show ?thesis using insert_evidence_Inr by (intro new) auto
next
  case (Some e)
  with assms show ?thesis by (intro known) (auto simp: append_pending_def split: if_splits)
qed

text \<open>Appending a batch only extends the evidence table, and leaves every item readable.\<close>

lemma append_all_extends:
  "append_all cid now items s = Inr s' \<Longrightarrow>
     \<exists>new. s' = s\<lparr>db_evidence := db_evidence s @ new\<rparr>
       \<and> set (map pe_evidence_id items) \<subseteq> set (map ev_id (db_evidence s @ new))
       \<and> set new \<subseteq> evidence_row cid now ` set items"
proof (induction items arbitrary: s)
  case Nil
  then show ?case by (auto intro: exI [of _ "[]"])
next
  case (Cons item items)
  then obtain r s1 where a: "append_pending cid item now s = Inr (r, s1)"
    and rest: "append_all cid now items s1 = Inr s'"
    by (auto simp: bindE_Inr_iff)
  from Cons.IH [OF rest] obtain new where new: "s' = s1\<lparr>db_evidence := db_evidence s1 @ new\<rparr>"
      "set (map pe_evidence_id items) \<subseteq> set (map ev_id (db_evidence s1 @ new))"
      "set new \<subseteq> evidence_row cid now ` set items"
    by blast
  from a show ?case
  proof (cases rule: append_pending_cases)
    case known
    then have "pe_evidence_id item \<in> ev_id ` set (db_evidence s)"
      using t_get_Some [OF known(2)] by (metis image_eqI)
    then show ?thesis using new known by (intro exI [of _ new]) auto
  next
    case new': new
    have "ev_id r = pe_evidence_id item" by (simp add: new' evidence_row_def)
    then show ?thesis using new new' by (intro exI [of _ "r # new"]) auto
  qed
qed

end
