(* ===== verification/Demo.thy ===== *)
theory Demo
  imports Evidence
begin

text \<open>
  A small concrete database for the worked instances of the theorems: the published demo policy, a
  ready video with a frame artifact, one case with its requirement, a finished investigation, and one
  supporting and one weak piece of evidence with their tool run and model call.
\<close>

definition demo_artifact :: ArtifactRecord where
  "demo_artifact = \<lparr> ar_id = ''a1'', ar_video_id = ''v1'', ar_segment_id = None,
     ar_type = AT_KEYFRAME, ar_uri = ''frame'', ar_metadata = JNull, ar_created_at = 0,
     ar_updated_at = 0 \<rparr>"

definition demo_requirement :: RequirementRecord where
  "demo_requirement = new_requirement_row ''r1'' ''c1'' 0
     (compile_ordinary demo_env [u ''knife''] \<lparr> rq_id = ''weapon_visible'',
       rq_type = RT_visual_presence, rq_required = True, rq_description = u ''a weapon is visible'' \<rparr>)"

definition demo_case :: CaseRecord where
  "demo_case = new_case_row ''c1'' ''v1'' ''safety.weapon'' 1 ''mock'' 0"

definition demo_tool_request :: ToolRequest where
  "demo_tool_request = \<lparr> tq_correlation_id = ''k'', tq_run_id = ''run1'', tq_case_id = ''c1'',
     tq_requirement_id = ''r1'', tq_query = u ''knife'', tq_start_ms = None, tq_end_ms = None,
     tq_limit = 5 \<rparr>"

definition demo_tool :: ToolRunRecord where
  "demo_tool = \<lparr> tr_id = ''t1'', tr_run_id = Some ''run1'', tr_case_id = ''c1'',
     tr_requirement_id = Some ''r1'', tr_correlation_id = ''k'', tr_tool_name = ''search_visual_caption'',
     tr_request_key = ''q'', tr_request_payload = demo_tool_request, tr_response_payload = None,
     tr_status = TR_SUCCESS, tr_latency_ms = 3, tr_estimated_cost = 0, tr_error_code = None,
     tr_created_at = 1, tr_updated_at = 1 \<rparr>"

definition demo_call :: ModelCallRecord where
  "demo_call = \<lparr> ml_id = ''m1'', ml_job_id = Some ''j1'', ml_run_id = Some ''run1'',
     ml_case_id = Some ''c1'', ml_video_id = None, ml_node = ''VERIFY'', ml_state_version = 3,
     ml_role = ''verifier'', ml_profile = ''mock'', ml_requested_model = ''mock'', ml_actual_model = None,
     ml_request_key = ''mk'', ml_request_summary = JNull, ml_response_payload = None,
     ml_status = MC_SUCCESS, ml_attempt = 1, ml_lease_until = None, ml_prompt_tokens = 0,
     ml_completion_tokens = 0, ml_total_tokens = 0, ml_latency_ms = 0, ml_provider_request_id = None,
     ml_error_code = None, ml_created_at = 2, ml_updated_at = 2 \<rparr>"

definition demo_pending :: "string \<Rightarrow> EvidenceStance \<Rightarrow> rat \<Rightarrow> PendingEvidence" where
  "demo_pending i st c = \<lparr> pe_evidence_id = i, pe_requirement_id = ''r1'', pe_stance = st,
     pe_modality = ''vision'', pe_start_ms = 0, pe_end_ms = 1000, pe_artifact_id = Some ''a1'',
     pe_tool_run_id = ''t1'', pe_model_call_id = ''m1'', pe_model_name = ''mock'',
     pe_source_ref = ''src'', pe_summary = u ''a knife'', pe_confidence = Some c \<rparr>"

definition demo_evidence :: "EvidenceRecord list" where
  "demo_evidence = [evidence_row ''c1'' 3 (demo_pending ''e1'' ST_SUPPORT (9/10)),
     evidence_row ''c1'' 4 (demo_pending ''e2'' ST_CONTRADICT (1/10))]"

definition demo_run :: AgentRunRecord where
  "demo_run = \<lparr> rn_id = ''run1'', rn_run_kind = RK_INVESTIGATION, rn_job_id = Some ''j1'',
     rn_case_id = ''c1'', rn_model_profile = ''mock'', rn_current_node = Some N_DECIDE,
     rn_next_node = None, rn_state_snapshot = None, rn_state_version = 6,
     rn_status = IS_COMPLETED, rn_iteration = 1, rn_vlm_calls = 2, rn_consecutive_tool_failures = 0,
     rn_total_tool_failures = 0, rn_stagnant_iterations = 0, rn_deadline_at = None,
     rn_last_checkpoint_at = Some 5, rn_lease_until = None, rn_provisional_verdict = Some V_REJECT,
     rn_stop_reason = Some ''PROVISIONAL_DECISION'', rn_result_payload = None,
     rn_scope_requirement_ids = [], rn_created_at = 0, rn_updated_at = 5 \<rparr>"

definition demo_case_db :: db where
  "demo_case_db = demo_db\<lparr>db_cases := [demo_case], db_requirements := [demo_requirement],
     db_artifacts := [demo_artifact], db_tools := [demo_tool], db_calls := [demo_call],
     db_evidence := demo_evidence, db_runs := [demo_run]\<rparr>"

lemma demo_requirement_simps [simp]:
  "rm_id demo_requirement = ''r1''" "rm_case_id demo_requirement = ''c1''"
  "rm_requirement_key demo_requirement = ''weapon_visible''"
  "rm_modalities demo_requirement = [''vision'']" "rm_source_kind demo_requirement = SK_requirement"
  "rm_required demo_requirement" "rm_current_result_id demo_requirement = None"
  by (simp_all add: demo_requirement_def new_requirement_row_def compile_ordinary_def
      seal_template_def Let_def)

lemma demo_case_db_simps [simp]:
  "db_cases demo_case_db = [demo_case]" "db_requirements demo_case_db = [demo_requirement]"
  "db_artifacts demo_case_db = [demo_artifact]" "db_tools demo_case_db = [demo_tool]"
  "db_calls demo_case_db = [demo_call]" "db_evidence demo_case_db = demo_evidence"
  "db_runs demo_case_db = [demo_run]" "db_results demo_case_db = []"
  "db_result_evidence demo_case_db = []" "db_decisions demo_case_db = []"
  "db_decision_evidence demo_case_db = []" "db_decision_results demo_case_db = []"
  "db_reviews demo_case_db = []" "db_appeals demo_case_db = []" "db_appeal_events demo_case_db = []"
  "db_videos demo_case_db = [demo_video]"
  "db_policies demo_case_db = [new_policy_row 0 demo_source demo_policy PL_PUBLISHED]"
  by (simp_all add: demo_case_db_def demo_db_def empty_db_def)

lemma demo_pending_simps [simp]:
  "ev_id (evidence_row c t (demo_pending i st q)) = i"
  "ev_case_id (evidence_row c t (demo_pending i st q)) = c"
  "ev_requirement_id (evidence_row c t (demo_pending i st q)) = ''r1''"
  "ev_stance (evidence_row c t (demo_pending i st q)) = st"
  "ev_confidence (evidence_row c t (demo_pending i st q)) = Some q"
  by (simp_all add: evidence_row_def demo_pending_def)

lemma demo_provenance: "provenance_ok demo_case_db demo_requirement (evidence_row ''c1'' t (demo_pending i st q))"
  by (simp add: provenance_ok_def tool_ok_def model_ok_def origin_ok_def artifact_ok_def
      t_get_Cons demo_tool_def demo_call_def demo_artifact_def demo_case_def new_case_row_def
      modality_allowed_def vision_modalities_def evidence_row_def demo_pending_def)

end
