(* ===== verification/Aggregation.thy ===== *)
theory Aggregation
  imports Demo
begin

text \<open>
  \<open>evistream/governance/aggregation.py\<close>: the deterministic aggregation of the evidence of a
  requirement into a result, its content hash, and its idempotent persistence.
\<close>

definition aggregator_version :: string where
  "aggregator_version = ''1''"

section \<open>The decision table\<close>

text \<open>The counts the table is read from, and the thresholds of the configuration.\<close>

definition valid_items :: "EvidenceValidity list \<Rightarrow> EvidenceValidity list" where
  "valid_items classified = filter vl_valid classified"

definition quality_items :: "AggregationConfig \<Rightarrow> EvidenceValidity list \<Rightarrow> EvidenceValidity list" where
  "quality_items config classified = filter (\<lambda>i. case ev_confidence (vl_evidence i) of None \<Rightarrow> False
     | Some c \<Rightarrow> minimum_confidence config \<le> c) (valid_items classified)"

definition stance_items :: "EvidenceStance \<Rightarrow> AggregationConfig \<Rightarrow> EvidenceValidity list \<Rightarrow> EvidenceValidity list" where
  "stance_items st config classified =
     filter (\<lambda>i. ev_stance (vl_evidence i) = st) (quality_items config classified)"

definition aggregate_status ::
    "AggregationConfig \<Rightarrow> EvidenceValidity list \<Rightarrow> RequirementStatus \<times> string" where
  "aggregate_status config classified =
    (let support_met = minimum_supporting_evidence config \<le> int (length (stance_items ST_SUPPORT config classified));
         contradict_met = minimum_contradicting_evidence config \<le> int (length (stance_items ST_CONTRADICT config classified))
     in if support_met \<and> contradict_met then (RS_CONFLICTED, ''EVIDENCE_CONFLICT'')
        else if support_met then (RS_SATISFIED, ''EVIDENCE_SUPPORT_THRESHOLD_MET'')
        else if contradict_met then (RS_NOT_SATISFIED, ''EVIDENCE_CONTRADICT_THRESHOLD_MET'')
        else if classified = [] then (RS_UNKNOWN, ''EVIDENCE_MISSING'')
        else if valid_items classified = [] then (RS_UNKNOWN, ''EVIDENCE_SOURCE_INVALID'')
        else if quality_items config classified = [] then (RS_UNKNOWN, ''EVIDENCE_LOW_QUALITY'')
        else (RS_UNKNOWN, ''EVIDENCE_UNCERTAIN''))"

section \<open>The input hash\<close>

definition json_validity :: "EvidenceValidity \<Rightarrow> json" where
  "json_validity v = (let e = vl_evidence v in JObj
     [(''id'', JStr (ev_id e)), (''stance'', JStr (str_stance (ev_stance e))),
      (''modality'', JStr (ev_modality e)), (''start_ms'', JInt (ev_start_ms e)),
      (''end_ms'', JInt (ev_end_ms e)), (''confidence'', jopt JNum (ev_confidence e)),
      (''source_ref'', JStr (ev_source_ref e)), (''artifact_id'', jopt JStr (ev_artifact_id e)),
      (''tool_run_id'', jopt JStr (ev_tool_run_id e)),
      (''model_call_id'', jopt JStr (ev_model_call_id e)),
      (''origin_evidence_id'', jopt JStr (ev_origin_evidence_id e)),
      (''valid'', JBool (vl_valid v)), (''reason_code'', jopt JStr (vl_reason_code v)),
      (''tool_status'', jopt (JStr \<circ> str_tool_status) (vl_tool_status v)),
      (''model_status'', jopt (JStr \<circ> str_model_status) (vl_model_status v)),
      (''artifact_available'', jopt JBool (vl_artifact_available v))])"

definition input_hash :: "env \<Rightarrow> RequirementRecord \<Rightarrow> AggregationConfig \<Rightarrow> EvidenceValidity list \<Rightarrow> string" where
  "input_hash E requirement config classified = hash_json E (JObj
     [(''requirement_semantic_sha256'', JStr (rm_semantic_sha256 requirement)),
      (''aggregator_version'', JStr aggregator_version),
      (''config'', json_aggregation config),
      (''evidence'', JList (map json_validity (sort_key (\<lambda>v. ev_id (vl_evidence v)) classified)))])"

section \<open>Outcomes\<close>

definition result_evidence_ids :: "env \<Rightarrow> string \<Rightarrow> db \<Rightarrow> string list" where
  "result_evidence_ids E result_id s = sort_by (coll E)
     (map rl_evidence_id (filter (\<lambda>l. rl_result_id l = result_id) (db_result_evidence s)))"

definition aggregation_outcome ::
    "env \<Rightarrow> db \<Rightarrow> RequirementResultRecord \<Rightarrow> EvidenceValidity list \<Rightarrow> AggregationOutcome res" where
  "aggregation_outcome E s record classified =
    (case t_get rm_id (rs_requirement_id record) (db_requirements s) of None \<Rightarrow> Inl RuntimeErr
     | Some requirement \<Rightarrow>
        (let evidence_ids = result_evidence_ids E (rs_id record) s;
             all_ids = map (\<lambda>v. ev_id (vl_evidence v)) classified
         in Inr \<lparr> ao_result_id = rs_id record, ao_requirement_id = rs_requirement_id record,
              ao_requirement_key = rm_requirement_key requirement, ao_status = rs_status record,
              ao_reason_code = rs_reason_code record, ao_evidence_ids = evidence_ids,
              ao_valid_evidence_ids = evidence_ids,
              ao_ignored_evidence_ids = sorted_uniq (filter (\<lambda>i. i \<notin> set evidence_ids) all_ids),
              ao_aggregator_version = rs_aggregator_version record,
              ao_input_sha256 = rs_input_sha256 record \<rparr>))"

section \<open>Aggregating a requirement\<close>

text \<open>
  The row update of a flush: \<open>updated_at\<close> moves by its \<open>onupdate\<close> default when another column
  changed.
\<close>

definition touch_requirement :: "time \<Rightarrow> RequirementStatus \<Rightarrow> string \<Rightarrow> RequirementRecord \<Rightarrow> RequirementRecord" where
  "touch_requirement now status result_id r =
    (if rm_status r = status \<and> rm_current_result_id r = Some result_id then r
     else r\<lparr>rm_status := status, rm_current_result_id := Some result_id, rm_updated_at := now\<rparr>)"

definition find_result :: "string \<Rightarrow> string \<Rightarrow> db \<Rightarrow> RequirementResultRecord option" where
  "find_result rid h s = find (\<lambda>r. rs_requirement_id r = rid \<and> rs_aggregator_version r = aggregator_version
     \<and> rs_input_sha256 r = h) (db_results s)"

definition result_sequences :: "string \<Rightarrow> db \<Rightarrow> int list" where
  "result_sequences rid s = map rs_sequence (filter (\<lambda>r. rs_requirement_id r = rid) (db_results s))"

definition result_id_of :: "env \<Rightarrow> string \<Rightarrow> string \<Rightarrow> string" where
  "result_id_of E rid h = ''rr_'' @ take 32 (sha E (rid @ '':'' @ aggregator_version @ '':'' @ h))"

definition classified_evidence :: "env \<Rightarrow> RequirementRecord \<Rightarrow> db \<Rightarrow> EvidenceValidity list" where
  "classified_evidence E requirement s =
     map (classify s requirement) (list_for_requirement E (rm_id requirement) s)"

definition new_result_row ::
    "env \<Rightarrow> time \<Rightarrow> RequirementRecord \<Rightarrow> AggregationConfig \<Rightarrow> string option \<Rightarrow> string option
       \<Rightarrow> EvidenceValidity list \<Rightarrow> db \<Rightarrow> RequirementResultRecord" where
  "new_result_row E now requirement config origin_result_id replay_item_id classified s =
    (let h = input_hash E requirement config classified;
         st = aggregate_status config classified
     in \<lparr> rs_id = result_id_of E (rm_id requirement) h, rs_requirement_id = rm_id requirement,
          rs_case_id = rm_case_id requirement,
          rs_sequence = max_or_0 (result_sequences (rm_id requirement) s) + 1, rs_status = fst st,
          rs_reason_code = snd st, rs_aggregator_version = aggregator_version,
          rs_input_sha256 = h, rs_aggregation_config = config,
          rs_origin_result_id = origin_result_id, rs_replay_item_id = replay_item_id,
          rs_created_at = now, rs_updated_at = now \<rparr>)"

definition used_rows :: "string \<Rightarrow> string \<Rightarrow> EvidenceValidity list \<Rightarrow> RequirementResultEvidenceRecord list" where
  "used_rows result_id rid classified = map (\<lambda>v. \<lparr> rl_result_id = result_id,
     rl_evidence_id = ev_id (vl_evidence v), rl_requirement_id = rid \<rparr>) (valid_items classified)"

definition aggregate ::
    "env \<Rightarrow> time \<Rightarrow> RequirementRecord \<Rightarrow> AggregationConfig \<Rightarrow> string option \<Rightarrow> string option \<Rightarrow> db
       \<Rightarrow> (AggregationOutcome \<times> db) res" where
  "aggregate E now requirement config origin_result_id replay_item_id s =
    (let classified = classified_evidence E requirement s;
         h = input_hash E requirement config classified;
         rid = rm_id requirement
     in case find_result rid h s of
       Some existing \<Rightarrow>
        (let s' = s\<lparr>db_requirements := t_upd rm_id rid
               (touch_requirement now (rs_status existing) (rs_id existing)) (db_requirements s)\<rparr>
         in bindE (aggregation_outcome E s' existing classified) (\<lambda>out. Inr (out, s')))
     | None \<Rightarrow>
        (let record = new_result_row E now requirement config origin_result_id replay_item_id classified s
         in bindE (t_add rs_id record (db_results s)) (\<lambda>results.
            bindE (t_add_all rl_key (used_rows (rs_id record) rid classified) (db_result_evidence s)) (\<lambda>links.
            let s' = s\<lparr>db_results := results, db_result_evidence := links,
                  db_requirements := t_upd rm_id rid (\<lambda>r. r\<lparr>rm_status := rs_status record,
                    rm_current_result_id := Some (rs_id record), rm_updated_at := now\<rparr>)
                    (db_requirements s)\<rparr>
            in bindE (aggregation_outcome E s' record classified) (\<lambda>out. Inr (out, s'))))))"

text \<open>
  The requirements of a case in turn. The row objects were loaded by the query, so each aggregation
  reads its own requirement as loaded.
\<close>

fun aggregate_all ::
    "env \<Rightarrow> time \<Rightarrow> AggregationConfig \<Rightarrow> (string \<Rightarrow> string option) \<Rightarrow> string option
       \<Rightarrow> RequirementRecord list \<Rightarrow> db \<Rightarrow> (AggregationOutcome list \<times> db) res" where
  "aggregate_all E now config origin item [] s = Inr ([], s)"
| "aggregate_all E now config origin item (r # rs) s =
     bindE (aggregate E now r config (origin (rm_requirement_key r)) item s) (\<lambda>(out, s1).
     bindE (aggregate_all E now config origin item rs s1) (\<lambda>(outs, s2). Inr (out # outs, s2)))"

section \<open>The decision table\<close>

lemma aggregate_status_not_pending: "fst (aggregate_status config classified) \<noteq> RS_PENDING"
  by (simp add: aggregate_status_def Let_def)

lemma aggregate_status_mset:
  assumes "mset xs = mset ys"
  shows "aggregate_status config xs = aggregate_status config ys"
proof -
  have l: "length (filter P xs) = length (filter P ys)" for P
    using assms by (metis mset_filter size_mset)
  have "length (stance_items st config xs) = length (stance_items st config ys)" for st
    by (simp add: stance_items_def quality_items_def valid_items_def l)
  moreover have "(valid_items xs = []) = (valid_items ys = [])" "(quality_items config xs = []) = (quality_items config ys = [])"
    by (simp_all only: valid_items_def quality_items_def filter_filter length_0_conv [symmetric] l)
  moreover have "(xs = []) = (ys = [])" using assms by auto
  ultimately show ?thesis by (simp add: aggregate_status_def)
qed

lemma stance_items_sub:
  "set (stance_items st config classified) \<subseteq> set (valid_items classified)"
  by (auto simp: stance_items_def quality_items_def)

lemma stance_items_iff:
  "v \<in> set (stance_items st config classified) \<longleftrightarrow> v \<in> set classified \<and> vl_valid v
     \<and> ev_stance (vl_evidence v) = st
     \<and> (\<exists>c. ev_confidence (vl_evidence v) = Some c \<and> minimum_confidence config \<le> c)"
  by (auto simp: stance_items_def quality_items_def valid_items_def split: option.splits)

text \<open>How a status is read off the two thresholds, as an equivalence for each.\<close>

definition supported :: "AggregationConfig \<Rightarrow> EvidenceValidity list \<Rightarrow> bool" where
  "supported config classified \<longleftrightarrow>
     minimum_supporting_evidence config \<le> int (length (stance_items ST_SUPPORT config classified))"

definition contradicted :: "AggregationConfig \<Rightarrow> EvidenceValidity list \<Rightarrow> bool" where
  "contradicted config classified \<longleftrightarrow>
     minimum_contradicting_evidence config \<le> int (length (stance_items ST_CONTRADICT config classified))"

lemma aggregate_status_table:
  "fst (aggregate_status config classified) =
     (if supported config classified then (if contradicted config classified then RS_CONFLICTED else RS_SATISFIED)
      else if contradicted config classified then RS_NOT_SATISFIED else RS_UNKNOWN)"
  by (simp add: aggregate_status_def supported_def contradicted_def Let_def)

section \<open>Independence of the database order\<close>

lemma sort_key_unique:
  assumes "mset xs = mset ys" and "inj_on f (set xs)"
  shows "sort_key f xs = sort_key f ys"
  by (rule sort_key_inj_key_eq) (use assms in simp_all)

lemma list_for_requirement_distinct:
  "keys_distinct ev_id (db_evidence s) \<Longrightarrow> distinct (map ev_id (list_for_requirement E rid s))"
  by (simp add: list_for_requirement_def keys_distinct_def distinct_map_filter)

lemma classified_mset:
  "mset (classified_evidence E r s) = image_mset (classify s r) (mset (filter (\<lambda>e. ev_requirement_id e = rm_id r) (db_evidence s)))"
  by (simp add: classified_evidence_def list_for_requirement_def)

lemma input_hash_mset:
  assumes "sha E = sha E'" "dumps E = dumps E'" and "keys_distinct ev_id (db_evidence s)"
  shows "input_hash E r cfg (classified_evidence E r s) = input_hash E' r cfg (classified_evidence E' r s)"
proof -
  let ?c = "classified_evidence E r s" and ?c' = "classified_evidence E' r s"
  have ids: "distinct (map (\<lambda>v. ev_id (vl_evidence v)) ?c)"
    using list_for_requirement_distinct [OF assms(3)] by (simp add: classified_evidence_def comp_def)
  then have "inj_on (\<lambda>v. ev_id (vl_evidence v)) (set ?c)"
    by (auto simp: distinct_map)
  moreover have "mset ?c = mset ?c'" by (simp add: classified_mset)
  ultimately have "sort_key (\<lambda>v. ev_id (vl_evidence v)) ?c = sort_key (\<lambda>v. ev_id (vl_evidence v)) ?c'"
    by (intro sort_key_unique) auto
  then show ?thesis by (simp add: input_hash_def hash_json_def assms)
qed

text \<open>
  The status, the reason and the content hash of an aggregation do not depend on the order in
  which the database returns the evidence (its collation): two environments that hash alike agree.
\<close>

theorem aggregation_order_independent:
  assumes "sha E = sha E'" and "dumps E = dumps E'" and "keys_distinct ev_id (db_evidence s)"
  shows "aggregate_status cfg (classified_evidence E r s) = aggregate_status cfg (classified_evidence E' r s)
    \<and> input_hash E r cfg (classified_evidence E r s) = input_hash E' r cfg (classified_evidence E' r s)"
  using aggregate_status_mset [of "classified_evidence E r s" "classified_evidence E' r s"]
    input_hash_mset [OF assms] by (simp add: classified_mset)

section \<open>Frame and idempotence\<close>

lemma classify_frame:
  assumes "db_cases s' = db_cases s" "db_artifacts s' = db_artifacts s" "db_tools s' = db_tools s"
    "db_calls s' = db_calls s" "db_evidence s' = db_evidence s"
  shows "classify s' r e = classify s r e"
  unfolding classify_def classify_tool_def classify_model_def classify_origin_def assms by (rule refl)

lemma classified_frame:
  assumes "db_cases s' = db_cases s" "db_artifacts s' = db_artifacts s" "db_tools s' = db_tools s"
    "db_calls s' = db_calls s" "db_evidence s' = db_evidence s"
  shows "classified_evidence E r s' = classified_evidence E r s"
  by (simp add: classified_evidence_def list_for_requirement_def assms classify_frame [OF assms])

lemma touch_requirement_id [simp]: "rm_id (touch_requirement now st i r) = rm_id r"
  by (simp add: touch_requirement_def)

lemma touch_requirement_touch:
  "touch_requirement now' st i (touch_requirement now st i r) = touch_requirement now st i r"
  by (simp add: touch_requirement_def)

lemma touch_requirement_key [simp]:
  "rm_requirement_key (touch_requirement now st i r) = rm_requirement_key r"
  by (simp add: touch_requirement_def)

lemma t_upd_id_cong: "(\<And>r. r \<in> set t \<Longrightarrow> key r = k \<Longrightarrow> f r = r) \<Longrightarrow> t_upd key k f t = t"
  by (induction t) (auto simp: t_upd_Cons)

lemma aggregate_cases:
  assumes "aggregate E now r cfg o' i s = Inr (out, s')"
  obtains (cached) rec where
      "find_result (rm_id r) (input_hash E r cfg (classified_evidence E r s)) s = Some rec"
      and "s' = s\<lparr>db_requirements := t_upd rm_id (rm_id r)
             (touch_requirement now (rs_status rec) (rs_id rec)) (db_requirements s)\<rparr>"
      and "aggregation_outcome E s' rec (classified_evidence E r s) = Inr out"
  | (fresh) rec links where
      "find_result (rm_id r) (input_hash E r cfg (classified_evidence E r s)) s = None"
      and "rec = new_result_row E now r cfg o' i (classified_evidence E r s) s"
      and "t_get rs_id (rs_id rec) (db_results s) = None"
      and "links = used_rows (rs_id rec) (rm_id r) (classified_evidence E r s)"
      and "s' = s\<lparr>db_results := db_results s @ [rec], db_result_evidence := db_result_evidence s @ links,
             db_requirements := t_upd rm_id (rm_id r) (\<lambda>q. q\<lparr>rm_status := rs_status rec,
               rm_current_result_id := Some (rs_id rec), rm_updated_at := now\<rparr>) (db_requirements s)\<rparr>"
      and "aggregation_outcome E s' rec (classified_evidence E r s) = Inr out"
proof (cases "find_result (rm_id r) (input_hash E r cfg (classified_evidence E r s)) s")
  case None
  define rec where "rec = new_result_row E now r cfg o' i (classified_evidence E r s) s"
  show ?thesis
    by (rule fresh [OF None rec_def _ refl]; insert assms None)
       (auto simp: aggregate_def Let_def rec_def [symmetric] table_simps dest!: t_add_all_Inr)
next
  case (Some rec)
  show ?thesis
    by (rule cached [OF Some]; insert assms Some) (auto simp: aggregate_def Let_def bindE_Inr_iff)
qed


lemma aggregate_frame:
  assumes "aggregate E now r cfg o' i s = Inr (out, s')"
  shows "db_cases s' = db_cases s" "db_artifacts s' = db_artifacts s" "db_tools s' = db_tools s"
    "db_calls s' = db_calls s" "db_evidence s' = db_evidence s" "db_decisions s' = db_decisions s"
    "db_decision_evidence s' = db_decision_evidence s" "db_decision_results s' = db_decision_results s"
    "db_runs s' = db_runs s" "db_reviews s' = db_reviews s" "db_appeals s' = db_appeals s"
    "db_appeal_events s' = db_appeal_events s" "db_policies s' = db_policies s"
    "db_videos s' = db_videos s" "db_jobs s' = db_jobs s"
    "map rm_id (db_requirements s') = map rm_id (db_requirements s)"
  using assms by (cases rule: aggregate_cases; simp add: map_t_upd)+

lemma find_result_sound:
  "find_result rid h s = Some rec \<Longrightarrow> rec \<in> set (db_results s) \<and> rs_requirement_id rec = rid
     \<and> rs_aggregator_version rec = aggregator_version \<and> rs_input_sha256 rec = h"
  by (auto simp: find_result_def find_Some_iff)

lemma find_append: "find P (xs @ ys) = (case find P xs of None \<Rightarrow> find P ys | Some x \<Rightarrow> Some x)"
  by (induction xs) auto

lemma new_result_row_simps [simp]:
  "rs_requirement_id (new_result_row E now r cfg o' i cl s) = rm_id r"
  "rs_case_id (new_result_row E now r cfg o' i cl s) = rm_case_id r"
  "rs_aggregator_version (new_result_row E now r cfg o' i cl s) = aggregator_version"
  "rs_input_sha256 (new_result_row E now r cfg o' i cl s) = input_hash E r cfg cl"
  "rs_status (new_result_row E now r cfg o' i cl s) = fst (aggregate_status cfg cl)"
  "rs_reason_code (new_result_row E now r cfg o' i cl s) = snd (aggregate_status cfg cl)"
  "rs_sequence (new_result_row E now r cfg o' i cl s) = max_or_0 (result_sequences (rm_id r) s) + 1"
  by (simp_all add: new_result_row_def Let_def)

lemma aggregation_outcome_Inr:
  "aggregation_outcome E s rec cl = Inr out \<Longrightarrow> ao_result_id out = rs_id rec
     \<and> ao_requirement_id out = rs_requirement_id rec \<and> ao_status out = rs_status rec
     \<and> ao_reason_code out = rs_reason_code rec \<and> ao_input_sha256 out = rs_input_sha256 rec
     \<and> ao_evidence_ids out = result_evidence_ids E (rs_id rec) s
     \<and> (\<exists>q. t_get rm_id (rs_requirement_id rec) (db_requirements s) = Some q
            \<and> ao_requirement_key out = rm_requirement_key q)"
  by (auto simp: aggregation_outcome_def Let_def split: option.splits)

text \<open>What the caller holds after an aggregation: the result row and the pointer to it.\<close>

lemma aggregate_result:
  assumes "aggregate E now r cfg o' i s = Inr (out, s')"
  obtains rec where "rec \<in> set (db_results s')" and "find_result (rm_id r)
        (input_hash E r cfg (classified_evidence E r s)) s' = Some rec"
    and "aggregation_outcome E s' rec (classified_evidence E r s) = Inr out"
    and "\<forall>q\<in>set (db_requirements s'). rm_id q = rm_id r \<longrightarrow>
        rm_status q = rs_status rec \<and> rm_current_result_id q = Some (rs_id rec)"
  using assms
proof (cases rule: aggregate_cases)
  case (cached rec)
  have "\<forall>q\<in>set (db_requirements s'). rm_id q = rm_id r \<longrightarrow>
        rm_status q = rs_status rec \<and> rm_current_result_id q = Some (rs_id rec)"
    by (auto simp: cached(2) t_upd_def touch_requirement_def)
  moreover have "find_result (rm_id r) (input_hash E r cfg (classified_evidence E r s)) s' = Some rec"
    using cached(1) by (simp add: cached(2) find_result_def)
  ultimately show ?thesis using cached find_result_sound that by blast
next
  case (fresh rec links)
  have "find_result (rm_id r) (input_hash E r cfg (classified_evidence E r s)) s' = Some rec"
    using fresh(1) by (simp add: fresh(2,5) find_result_def find_append)
  moreover have "\<forall>q\<in>set (db_requirements s'). rm_id q = rm_id r \<longrightarrow>
        rm_status q = rs_status rec \<and> rm_current_result_id q = Some (rs_id rec)"
    by (auto simp: fresh(5) t_upd_def)
  ultimately show ?thesis using fresh find_result_sound that by blast
qed

text \<open>
  Aggregation is idempotent: aggregating the same requirement again, at any later time and with
  any replay provenance, returns the same outcome and leaves the database exactly as it is.
\<close>

theorem aggregate_idempotent:
  assumes "aggregate E now r cfg o' i s = Inr (out, s')"
  shows "aggregate E now2 r cfg o2 i2 s' = Inr (out, s')"
proof -
  from assms obtain rec where rec: "find_result (rm_id r)
        (input_hash E r cfg (classified_evidence E r s)) s' = Some rec"
    and out: "aggregation_outcome E s' rec (classified_evidence E r s) = Inr out"
    and q: "\<forall>q\<in>set (db_requirements s'). rm_id q = rm_id r \<longrightarrow>
        rm_status q = rs_status rec \<and> rm_current_result_id q = Some (rs_id rec)"
    by (rule aggregate_result)
  have cl: "classified_evidence E r s' = classified_evidence E r s"
    using aggregate_frame [OF assms] by (intro classified_frame) auto
  have "t_upd rm_id (rm_id r) (touch_requirement now2 (rs_status rec) (rs_id rec)) (db_requirements s')
      = db_requirements s'"
    using q by (intro t_upd_id_cong) (auto simp: touch_requirement_def)
  then show ?thesis using rec out by (simp add: aggregate_def Let_def cl)
qed

section \<open>Results are an append-only numbered log\<close>

definition aggregate_step :: "db \<Rightarrow> db \<Rightarrow> bool" where
  "aggregate_step s s' \<longleftrightarrow> (\<exists>E now r cfg o' i out. aggregate E now r cfg o' i s = Inr (out, s'))"

interpretation rlog: sequence_log db_results rs_requirement_id rs_sequence aggregate_step
proof
  fix s s' assume "aggregate_step s s'"
  then obtain E now r cfg o' i out where a: "aggregate E now r cfg o' i s = Inr (out, s')"
    by (auto simp: aggregate_step_def)
  then show "db_results s' = db_results s \<or> (\<exists>r. db_results s' = db_results s @ [r]
      \<and> rs_sequence r = max_or_0 (map rs_sequence (filter (\<lambda>x. rs_requirement_id x = rs_requirement_id r) (db_results s))) + 1)"
    by (cases rule: aggregate_cases) (auto simp: result_sequences_def)
qed

lemma aggregate_all_steps:
  "aggregate_all E now cfg org i rs s = Inr (outs, s') \<Longrightarrow> aggregate_step\<^sup>*\<^sup>* s s'"
proof (induction rs arbitrary: s outs)
  case Nil
  then show ?case by simp
next
  case (Cons r rs)
  then obtain out s1 outs' where a: "aggregate E now r cfg (org (rm_requirement_key r)) i s = Inr (out, s1)"
    and b: "aggregate_all E now cfg org i rs s1 = Inr (outs', s')"
    by (auto simp: bindE_Inr_iff)
  have "aggregate_step s s1" unfolding aggregate_step_def using a by blast
  then show ?case using Cons.IH [OF b] by (rule converse_rtranclp_into_rtranclp)
qed

text \<open>The results of each requirement are numbered \<open>1, 2, ..\<close>.\<close>

definition results_numbered :: "db \<Rightarrow> bool" where
  "results_numbered s \<longleftrightarrow> (\<forall>rid. numbered (result_sequences rid s))"

lemma results_numbered_log: "results_numbered s \<longleftrightarrow> rlog.log_numbered s"
  by (simp add: results_numbered_def rlog.log_numbered_def result_sequences_def)

text \<open>
  The results are history: aggregating all the requirements of a case only appends result
  rows, never rewrites one, and keeps the sequence of each requirement 1, 2, 3, ..
\<close>

theorem aggregate_all_append_only:
  assumes "aggregate_all E now cfg org i rs s = Inr (outs, s')"
  shows "(\<exists>new. db_results s' = db_results s @ new) \<and> (results_numbered s \<longrightarrow> results_numbered s')"
  using rlog.steps_log [OF aggregate_all_steps [OF assms]] by (simp add: results_numbered_log)

section \<open>What a settled status rests on\<close>

text \<open>The evidence rows of \<open>r\<close> that count for a stance.\<close>

definition counting_evidence :: "db \<Rightarrow> RequirementRecord \<Rightarrow> AggregationConfig \<Rightarrow> EvidenceStance \<Rightarrow> EvidenceRecord set" where
  "counting_evidence s r cfg st = {e \<in> set (db_evidence s). provenance_ok s r e \<and> ev_stance e = st
     \<and> (\<exists>c. ev_confidence e = Some c \<and> minimum_confidence cfg \<le> c)}"

lemma stance_items_filter:
  "stance_items st cfg cl = filter (\<lambda>v. vl_valid v \<and> ev_stance (vl_evidence v) = st
     \<and> (\<exists>c. ev_confidence (vl_evidence v) = Some c \<and> minimum_confidence cfg \<le> c)) cl"
  unfolding stance_items_def quality_items_def valid_items_def filter_filter
  by (rule filter_cong) (auto split: option.splits)

lemma stance_items_counting:
  assumes "keys_distinct ev_id (db_evidence s)"
  shows "int (length (stance_items st cfg (classified_evidence E r s))) = int (card (counting_evidence s r cfg st))"
proof -
  let ?l = "list_for_requirement E (rm_id r) s"
  let ?P = "\<lambda>e. provenance_ok s r e \<and> ev_stance e = st \<and> (\<exists>c. ev_confidence e = Some c \<and> minimum_confidence cfg \<le> c)"
  have "stance_items st cfg (classified_evidence E r s) = map (classify s r) (filter ?P ?l)"
    by (simp add: stance_items_filter classified_evidence_def filter_map comp_def classify_valid)
  then have "length (stance_items st cfg (classified_evidence E r s)) = length (filter ?P ?l)" by simp
  moreover have "distinct ?l"
    using list_for_requirement_distinct [OF assms] unfolding distinct_map by blast
  then have "length (filter ?P ?l) = card (set (filter ?P ?l))"
    by (simp only: distinct_card distinct_filter)
  moreover have "set (filter ?P ?l) = counting_evidence s r cfg st"
  proof -
    have "provenance_ok s r e \<Longrightarrow> ev_requirement_id e = rm_id r" for e by (simp add: provenance_ok_def)
    then show ?thesis unfolding set_filter list_for_requirement_set counting_evidence_def by blast
  qed
  ultimately show ?thesis by (simp only:)
qed

text \<open>
  C5. A first aggregation settles a requirement exactly by its countable evidence: satisfied iff
  enough distinct rows with sound provenance and sufficient confidence support it and fewer than the
  threshold contradict it, and dually; with both it is conflicted, with neither unknown. The
  requirement row is updated to that status and points at the new result.
\<close>

theorem aggregate_decides:
  assumes "aggregate E now r cfg o' i s = Inr (out, s')"
    and "keys_distinct ev_id (db_evidence s)"
    and "find_result (rm_id r) (input_hash E r cfg (classified_evidence E r s)) s = None"
  shows "ao_status out =
      (if minimum_supporting_evidence cfg \<le> int (card (counting_evidence s r cfg ST_SUPPORT))
       then (if minimum_contradicting_evidence cfg \<le> int (card (counting_evidence s r cfg ST_CONTRADICT))
             then RS_CONFLICTED else RS_SATISFIED)
       else (if minimum_contradicting_evidence cfg \<le> int (card (counting_evidence s r cfg ST_CONTRADICT))
             then RS_NOT_SATISFIED else RS_UNKNOWN))
    \<and> (\<exists>q. t_get rm_id (rm_id r) (db_requirements s') = Some q \<and> rm_status q = ao_status out
         \<and> rm_current_result_id q = Some (ao_result_id out))"
  using assms(1)
proof (cases rule: aggregate_cases)
  case (cached rec)
  then show ?thesis using assms(3) by simp
next
  case (fresh rec links)
  from aggregation_outcome_Inr [OF fresh(6)] obtain q where
    q: "t_get rm_id (rm_id r) (db_requirements s') = Some q" and o: "ao_status out = rs_status rec"
      "ao_result_id out = rs_id rec" by (auto simp: fresh(2))
  have "q \<in> set (db_requirements s')" "rm_id q = rm_id r" using t_get_Some [OF q] by auto
  then have "rm_status q = rs_status rec \<and> rm_current_result_id q = Some (rs_id rec)"
    by (auto simp: fresh(5) t_upd_def)
  moreover have "rs_status rec = fst (aggregate_status cfg (classified_evidence E r s))"
    by (simp add: fresh(2))
  ultimately show ?thesis
    using q o by (simp add: aggregate_status_table supported_def contradicted_def
        stance_items_counting [OF assms(2)])
qed

section \<open>Aggregation succeeds\<close>

lemma used_rows_distinct:
  "distinct (map (\<lambda>v. ev_id (vl_evidence v)) cl) \<Longrightarrow> distinct (map rl_key (used_rows i rid cl))"
  by (auto simp: used_rows_def rl_key_def valid_items_def distinct_map comp_def inj_on_def)

text \<open>
  With unique evidence identifiers and an unused result identifier, aggregating a requirement of
  the table succeeds.
\<close>

lemma aggregate_total:
  assumes "keys_distinct ev_id (db_evidence s)" and "rm_id r \<in> rm_id ` set (db_requirements s)"
    and fresh: "find_result (rm_id r) (input_hash E r cfg (classified_evidence E r s)) s = None \<Longrightarrow>
      result_id_of E (rm_id r) (input_hash E r cfg (classified_evidence E r s)) \<notin>
        rs_id ` set (db_results s) \<union> rl_result_id ` set (db_result_evidence s)"
  shows "\<exists>out s'. aggregate E now r cfg o' i s = Inr (out, s')"
proof -
  have upd: "\<exists>q. t_get rm_id (rm_id r) (t_upd rm_id (rm_id r) f (db_requirements s)) = Some q"
    if "\<And>q. rm_id (f q) = rm_id q" for f
    using assms(2) t_get_None [of rm_id "rm_id r" "db_requirements s"] that
    by (force simp: t_get_upd)
  show ?thesis
  proof (cases "find_result (rm_id r) (input_hash E r cfg (classified_evidence E r s)) s")
    case (Some rec)
    then have "rs_requirement_id rec = rm_id r" using find_result_sound by blast
    then show ?thesis
      using Some upd [of "touch_requirement now (rs_status rec) (rs_id rec)"]
      by (auto simp: aggregate_def Let_def aggregation_outcome_def)
  next
    case None
    define cl where "cl = classified_evidence E r s"
    define rec where "rec = new_result_row E now r cfg o' i cl s"
    have rid: "rs_id rec = result_id_of E (rm_id r) (input_hash E r cfg cl)"
      by (simp add: rec_def new_result_row_def Let_def)
    have "distinct (map (\<lambda>v. ev_id (vl_evidence v)) cl)"
      using list_for_requirement_distinct [OF assms(1)] by (simp add: cl_def classified_evidence_def comp_def)
    then have "\<exists>links. t_add_all rl_key (used_rows (rs_id rec) (rm_id r) cl) (db_result_evidence s) = Inr links"
      unfolding t_add_all_ok_iff using fresh [OF None] used_rows_distinct
      by (auto simp: rid cl_def used_rows_def rl_key_def)
    moreover have "t_add rs_id rec (db_results s) = Inr (db_results s @ [rec])"
      using fresh [OF None] by (auto simp: t_add_def rid cl_def)
    ultimately show ?thesis
      using None upd [of "\<lambda>q. q\<lparr>rm_status := rs_status rec, rm_current_result_id := Some (rs_id rec), rm_updated_at := now\<rparr>"]
      by (auto simp: aggregate_def Let_def cl_def [symmetric] rec_def [symmetric] aggregation_outcome_def)
        (auto simp: rec_def Let_def)
  qed
qed

lemma demo_evidence_distinct: "keys_distinct ev_id (db_evidence demo_case_db)"
  by (simp add: keys_distinct_def demo_evidence_def)

lemma aggregation_order_independent_witness:
  "input_hash demo_env demo_requirement default_aggregation (classified_evidence demo_env demo_requirement demo_case_db)
   = input_hash (demo_env\<lparr>coll := (\<lambda>a b. b \<le> a)\<rparr>) demo_requirement default_aggregation
       (classified_evidence (demo_env\<lparr>coll := (\<lambda>a b. b \<le> a)\<rparr>) demo_requirement demo_case_db)"
  using aggregation_order_independent [of demo_env "demo_env\<lparr>coll := (\<lambda>a b. b \<le> a)\<rparr>",
      OF _ _ demo_evidence_distinct] by simp

lemma demo_aggregates:
  "\<exists>out s'. aggregate demo_env 9 demo_requirement default_aggregation None None demo_case_db = Inr (out, s')"
  by (rule aggregate_total [OF demo_evidence_distinct]) simp_all

lemma aggregate_idempotent_witness:
  "\<exists>out s'. aggregate demo_env 9 demo_requirement default_aggregation None None demo_case_db = Inr (out, s')
     \<and> aggregate demo_env 11 demo_requirement default_aggregation (Some ''x'') None s' = Inr (out, s')"
  using demo_aggregates aggregate_idempotent by blast

lemma aggregate_all_append_only_witness:
  "\<exists>outs s'. aggregate_all demo_env 9 default_aggregation (\<lambda>_. None) None [demo_requirement] demo_case_db = Inr (outs, s')
     \<and> results_numbered s'"
proof -
  obtain out s' where "aggregate demo_env 9 demo_requirement default_aggregation None None demo_case_db = Inr (out, s')"
    using demo_aggregates by blast
  then have a: "aggregate_all demo_env 9 default_aggregation (\<lambda>_. None) None [demo_requirement] demo_case_db = Inr ([out], s')"
    by simp
  have "results_numbered demo_case_db" by (simp add: results_numbered_def result_sequences_def)
  with aggregate_all_append_only [OF a] a show ?thesis by blast
qed

lemma demo_counting:
  "counting_evidence demo_case_db demo_requirement default_aggregation ST_SUPPORT = {hd demo_evidence}"
  "counting_evidence demo_case_db demo_requirement default_aggregation ST_CONTRADICT = {}"
  by (auto simp: counting_evidence_def demo_evidence_def demo_provenance default_aggregation_def intro: exI [of _ "9/10 :: rat"])

lemma aggregate_decides_witness:
  "\<exists>out s'. aggregate demo_env 9 demo_requirement default_aggregation None None demo_case_db = Inr (out, s')
     \<and> ao_status out = RS_SATISFIED"
proof -
  obtain out s' where a: "aggregate demo_env 9 demo_requirement default_aggregation None None demo_case_db = Inr (out, s')"
    using demo_aggregates by blast
  have "find_result (rm_id demo_requirement) (input_hash demo_env demo_requirement default_aggregation
      (classified_evidence demo_env demo_requirement demo_case_db)) demo_case_db = None"
    by (simp add: find_result_def)
  from aggregate_decides [OF a demo_evidence_distinct this] a show ?thesis
    by (simp add: demo_counting) (simp add: default_aggregation_def)
qed

end
