(* ===== verification/RuleEval.thy ===== *)
theory RuleEval
  imports Aggregation
begin

text \<open>
  \<open>evistream/governance/rule_evaluator.py\<close>: three-valued evaluation of the policy expressions and
  the ladder of guards from the investigation status to a verdict.
\<close>

definition evaluator_version :: string where
  "evaluator_version = ''1''"

section \<open>Expressions\<close>

text \<open>A dictionary is an association list, last write wins at construction.\<close>

definition leaf_value :: "string \<Rightarrow> (string \<rightharpoonup> RequirementStatus) \<Rightarrow> (string \<rightharpoonup> RuleTruthValue) \<Rightarrow> RuleTruthValue" where
  "leaf_value key values sentinels = (case sentinels key of Some t \<Rightarrow> t
   | None \<Rightarrow> (case values key of
       Some RS_SATISFIED \<Rightarrow> T_TRUE
     | Some RS_NOT_SATISFIED \<Rightarrow> T_FALSE
     | _ \<Rightarrow> T_UNKNOWN))"

definition conj3 :: "RuleTruthValue list \<Rightarrow> RuleTruthValue" where
  "conj3 evaluated = (if T_FALSE \<in> set evaluated then T_FALSE
     else if list_all (\<lambda>v. v = T_TRUE) evaluated then T_TRUE else T_UNKNOWN)"

definition disj3 :: "RuleTruthValue list \<Rightarrow> RuleTruthValue" where
  "disj3 evaluated = (if T_TRUE \<in> set evaluated then T_TRUE
     else if list_all (\<lambda>v. v = T_FALSE) evaluated then T_FALSE else T_UNKNOWN)"

text \<open>
  \<open>evaluate_expression\<close>. The children are \<open>all or any or []\<close>; the connective is decided by
  \<open>all is not None\<close>.
\<close>

primrec evaluate_expression ::
      "bexpr \<Rightarrow> (string \<rightharpoonup> RequirementStatus) \<Rightarrow> (string \<rightharpoonup> RuleTruthValue) \<Rightarrow> RuleTruthValue"
  and evaluate_child ::
      "bitem \<Rightarrow> (string \<rightharpoonup> RequirementStatus) \<Rightarrow> (string \<rightharpoonup> RuleTruthValue) \<Rightarrow> RuleTruthValue" where
  "evaluate_expression (BExpr a b) values sentinels =
     (let evaluated = map (\<lambda>f. f values sentinels)
            (py_or (map_option (map evaluate_child) a) (map_option (map evaluate_child) b))
      in if a \<noteq> None then conj3 evaluated else disj3 evaluated)"
| "evaluate_child (Key k) values sentinels = leaf_value k values sentinels"
| "evaluate_child (Sub e) values sentinels = evaluate_expression e values sentinels"

section \<open>Evaluation of a policy\<close>

text \<open>\<open>{outcome.requirement_key: outcome.status for outcome in outcomes}\<close>\<close>

definition outcome_values :: "AggregationOutcome list \<Rightarrow> (string \<rightharpoonup> RequirementStatus)" where
  "outcome_values outcomes = map_of (rev (map (\<lambda>o'. (ao_requirement_key o', ao_status o')) outcomes))"

text \<open>\<open>_investigation_reason\<close>: every non-completed status gives the same reason.\<close>

definition investigation_reason :: "InvestigationStatus \<Rightarrow> string option \<Rightarrow> string option" where
  "investigation_reason status stop_reason =
    (if status = IS_COMPLETED then None
     else if status = IS_NEEDS_HUMAN_REVIEW then
       (case stop_reason of
          None \<Rightarrow> Some ''INVESTIGATION_INCOMPLETE''
        | Some r \<Rightarrow>
            if r \<noteq> [] \<and> (starts_with ''BUDGET_'' r \<or> r \<in> {''TOOL_FAILURE_LIMIT'', ''STAGNATION_LIMIT''})
            then Some ''INVESTIGATION_INCOMPLETE''
            else Some ''INVESTIGATION_INCOMPLETE'')
     else Some ''INVESTIGATION_INCOMPLETE'')"

definition status_of :: "(string \<rightharpoonup> RequirementStatus) \<Rightarrow> string \<Rightarrow> RequirementStatus" where
  "status_of values k = (case values k of Some s \<Rightarrow> s | None \<Rightarrow> RS_UNKNOWN)"

definition required_unresolved :: "CompiledPolicy \<Rightarrow> (string \<rightharpoonup> RequirementStatus) \<Rightarrow> string list" where
  "required_unresolved policy values = map tp_requirement_key (filter (\<lambda>t. tp_required t
     \<and> unresolved (status_of values (tp_requirement_key t))) (pol_requirements policy))"

definition rule_sentinels :: "CompiledPolicy \<Rightarrow> (string \<rightharpoonup> RequirementStatus) \<Rightarrow> string list \<Rightarrow> (string \<rightharpoonup> RuleTruthValue)" where
  "rule_sentinels policy values keys =
     [''unresolved_exception'' \<mapsto>
        (if list_ex (\<lambda>t. tp_source_kind t = SK_exception
            \<and> unresolved (status_of values (tp_requirement_key t))) (pol_requirements policy)
         then T_TRUE else T_FALSE),
      ''contradictory_evidence'' \<mapsto>
        (if list_ex (\<lambda>k. values k = Some RS_CONFLICTED) keys then T_TRUE else T_FALSE)]"

definition exception_satisfied :: "CompiledPolicy \<Rightarrow> (string \<rightharpoonup> RequirementStatus) \<Rightarrow> bool" where
  "exception_satisfied policy values \<longleftrightarrow> list_ex (\<lambda>t. tp_source_kind t = SK_exception
     \<and> status_of values (tp_requirement_key t) = RS_SATISFIED) (pol_requirements policy)"

definition json_outcome :: "AggregationOutcome \<Rightarrow> json" where
  "json_outcome o' = JObj [(''result_id'', JStr (ao_result_id o')),
     (''status'', JStr (str_requirement_status (ao_status o'))),
     (''input_sha256'', JStr (ao_input_sha256 o'))]"

definition rule_result ::
    "env \<Rightarrow> CompiledPolicy \<Rightarrow> AggregationOutcome list \<Rightarrow> Verdict \<Rightarrow> string \<Rightarrow> string \<Rightarrow> RuleEvaluation" where
  "rule_result E policy outcomes verdict reason explanation =
    (let payload = JObj [(''policy_id'', JStr (pol_policy_id policy)),
           (''policy_version'', JInt (pol_version policy)),
           (''policy_semantic_sha256'', JStr (pol_semantic_sha256 policy)),
           (''evaluator_version'', JStr evaluator_version),
           (''verdict'', JStr (str_verdict verdict)),
           (''reason_code'', JStr reason),
           (''results'', JList (map json_outcome (sort_key ao_requirement_id outcomes)))]
     in \<lparr> re_verdict = verdict, re_reason_code = reason, re_explanation = explanation,
          re_requirement_result_ids = sort (map ao_result_id outcomes),
          re_evidence_ids = sorted_uniq (concat (map ao_evidence_ids outcomes)),
          re_evaluator_version = evaluator_version, re_input_sha256 = hash_json E payload \<rparr>)"

text \<open>The verdict once no guard has stopped the evaluation.\<close>

definition conclude :: "CompiledPolicy \<Rightarrow> (string \<rightharpoonup> RequirementStatus) \<Rightarrow> RuleTruthValue \<Rightarrow> string list
    \<Rightarrow> Verdict \<times> string \<times> string" where
  "conclude policy values rejection evidence_ids =
    (let (v, r, x) =
       (if rejection = T_TRUE \<and> \<not> exception_satisfied policy values
        then (V_REJECT, ''RULE_REJECT_MATCHED'',
              ''The rejection expression is satisfied and no exception applies.'')
        else if exception_satisfied policy values
        then (V_APPROVE, ''RULE_EXCEPTION_APPLIED'', ''A compiled policy exception is satisfied.'')
        else (V_APPROVE, ''RULE_APPROVE_NO_REJECT_MATCH'', ''The rejection expression is not satisfied.''))
     in if evidence_ids = []
        then (V_NEEDS_HUMAN_REVIEW, ''RULE_REQUIRED_UNKNOWN'',
              ''A conclusive machine verdict requires at least one valid Evidence.'')
        else (v, r, x))"

definition rule_verdict ::
    "CompiledPolicy \<Rightarrow> AggregationOutcome list \<Rightarrow> InvestigationStatus \<Rightarrow> string option
       \<Rightarrow> Verdict \<times> string \<times> string" where
  "rule_verdict policy outcomes status stop_reason =
    (let values = outcome_values outcomes;
         evidence_ids = sorted_uniq (concat (map ao_evidence_ids outcomes))
     in case investigation_reason status stop_reason of
       Some forced \<Rightarrow> (V_NEEDS_HUMAN_REVIEW, forced,
         ''The investigation did not establish a complete automatic basis.'')
     | None \<Rightarrow>
       (let missing = required_unresolved policy values in
        if list_ex (\<lambda>k. status_of values k = RS_CONFLICTED) missing
        then (V_NEEDS_HUMAN_REVIEW, ''RULE_EVIDENCE_CONFLICT'',
              ''At least one mandatory requirement is unresolved.'')
        else if missing \<noteq> []
        then (V_NEEDS_HUMAN_REVIEW, ''RULE_REQUIRED_UNKNOWN'',
              ''At least one mandatory requirement is unresolved.'')
        else
        (let sentinels = rule_sentinels policy values (map ao_requirement_key outcomes);
             escalation = evaluate_expression (pol_escalate_when policy) values sentinels
         in if escalation \<noteq> T_FALSE
            then (V_NEEDS_HUMAN_REVIEW,
              (if escalation = T_TRUE then ''RULE_ESCALATION_MATCHED'' else ''RULE_EXPRESSION_UNKNOWN''),
              ''The policy escalation expression requires human review.'')
            else
            (let rejection = evaluate_expression (pol_reject_when policy) values sentinels
             in if rejection = T_UNKNOWN
                then (V_NEEDS_HUMAN_REVIEW, ''RULE_EXPRESSION_UNKNOWN'',
                      ''The rejection expression could not be resolved.'')
                else conclude policy values rejection evidence_ids))))"

definition evaluate ::
    "env \<Rightarrow> CompiledPolicy \<Rightarrow> AggregationOutcome list \<Rightarrow> InvestigationStatus \<Rightarrow> string option
       \<Rightarrow> RuleEvaluation res" where
  "evaluate E policy outcomes status stop_reason =
    (if set (map ao_requirement_key outcomes) \<noteq> set (policy_keys policy) then Inl ValueError
     else case rule_verdict policy outcomes status stop_reason of
       (v, r, x) \<Rightarrow> Inr (rule_result E policy outcomes v r x))"

section \<open>Three-valued evaluation is sound\<close>

text \<open>
  The two-valued reading of an expression under an assignment of its leaves, with the connective
  the evaluator uses.
\<close>

primrec bool_expr :: "bexpr \<Rightarrow> (string \<Rightarrow> bool) \<Rightarrow> bool" and bool_item :: "bitem \<Rightarrow> (string \<Rightarrow> bool) \<Rightarrow> bool" where
  "bool_expr (BExpr a b) \<beta> =
     (let vs = map (\<lambda>f. f \<beta>) (py_or (map_option (map bool_item) a) (map_option (map bool_item) b))
      in if a \<noteq> None then list_all id vs else list_ex id vs)"
| "bool_item (Key k) \<beta> = \<beta> k"
| "bool_item (Sub e) \<beta> = bool_expr e \<beta>"

text \<open>An assignment completes the known leaves when it agrees with every settled one.\<close>

definition completes :: "(string \<Rightarrow> bool) \<Rightarrow> (string \<rightharpoonup> RequirementStatus) \<Rightarrow> (string \<rightharpoonup> RuleTruthValue) \<Rightarrow> bool" where
  "completes \<beta> values sentinels \<longleftrightarrow> (\<forall>k. (leaf_value k values sentinels = T_TRUE \<longrightarrow> \<beta> k)
     \<and> (leaf_value k values sentinels = T_FALSE \<longrightarrow> \<not> \<beta> k))"

lemma map_py_or:
  "map f (py_or (map_option (map g) a) (map_option (map g) b)) = map (\<lambda>x. f (g x)) (py_or a b)"
  by (auto simp: py_or_def split: option.splits list.splits)

lemma concat_map_py_or:
  "concat (py_or (map_option (map g) a) (map_option (map g) b)) = concat (map g (py_or a b))"
  using map_py_or [of id g a b] by simp

lemma set_py_or: "x \<in> set (py_or a b) \<Longrightarrow> (\<exists>xs. a = Some xs \<and> x \<in> set xs) \<or> (\<exists>xs. b = Some xs \<and> x \<in> set xs)"
  by (auto simp: py_or_def split: option.splits list.splits)

lemma evaluate_BExpr: "evaluate_expression (BExpr a b) v s =
    (if a \<noteq> None then conj3 else disj3) (map (\<lambda>i. evaluate_child i v s) (py_or a b))"
  by (simp add: Let_def map_py_or)

lemma bool_BExpr: "bool_expr (BExpr a b) \<beta> =
    (if a \<noteq> None then list_all id else list_ex id) (map (\<lambda>i. bool_item i \<beta>) (py_or a b))"
  by (simp add: Let_def map_py_or)

declare evaluate_expression.simps [simp del] bool_expr.simps [simp del]

lemma bexpr_induct [case_names BExpr Key Sub]:
  assumes "\<And>a b. (\<And>i. i \<in> set (py_or a b) \<Longrightarrow> Q i) \<Longrightarrow> P (BExpr a b)"
    and "\<And>k. Q (Key k)" and "\<And>e. P e \<Longrightarrow> Q (Sub e)"
  shows "P e" and "Q i"
proof (induct e and i)
  case (BExpr a b)
  show ?case
  proof (rule assms(1))
    fix i assume "i \<in> set (py_or a b)"
    from set_py_or [OF this]
    consider xs where "a = Some xs" "i \<in> set xs" | xs where "b = Some xs" "i \<in> set xs"
      by blast
    then show "Q i"
    proof cases
      case 1
      then show ?thesis using BExpr(1) [of xs i] by simp
    next
      case 2
      then show ?thesis using BExpr(2) [of xs i] by simp
    qed
  qed
next
  case (Key k)
  show ?case by (rule assms(2))
next
  case (Sub e)
  then show ?case by (rule assms(3))
qed

lemma conj3_iff:
  "conj3 vs = T_TRUE \<longleftrightarrow> (\<forall>v\<in>set vs. v = T_TRUE)" "conj3 vs = T_FALSE \<longleftrightarrow> T_FALSE \<in> set vs"
  by (auto simp: conj3_def list_all_iff)

lemma disj3_iff:
  "disj3 vs = T_TRUE \<longleftrightarrow> T_TRUE \<in> set vs" "disj3 vs = T_FALSE \<longleftrightarrow> (\<forall>v\<in>set vs. v = T_FALSE)"
  by (auto simp: disj3_def list_all_iff)

lemma conj3_sound:
  assumes "\<And>i. i \<in> set xs \<Longrightarrow> (f i = T_TRUE \<longrightarrow> g i) \<and> (f i = T_FALSE \<longrightarrow> \<not> g i)"
  shows "(conj3 (map f xs) = T_TRUE \<longrightarrow> list_all id (map g xs))
    \<and> (conj3 (map f xs) = T_FALSE \<longrightarrow> \<not> list_all id (map g xs))"
  using assms by (auto simp: conj3_iff list_all_iff) (metis)+

lemma disj3_sound:
  assumes "\<And>i. i \<in> set xs \<Longrightarrow> (f i = T_TRUE \<longrightarrow> g i) \<and> (f i = T_FALSE \<longrightarrow> \<not> g i)"
  shows "(disj3 (map f xs) = T_TRUE \<longrightarrow> list_ex id (map g xs))
    \<and> (disj3 (map f xs) = T_FALSE \<longrightarrow> \<not> list_ex id (map g xs))"
  using assms by (auto simp: disj3_iff list_ex_iff) (metis)+

lemma evaluate_expression_settled:
  assumes "completes \<beta> values sentinels"
  shows "(evaluate_expression e values sentinels = T_TRUE \<longrightarrow> bool_expr e \<beta>)
    \<and> (evaluate_expression e values sentinels = T_FALSE \<longrightarrow> \<not> bool_expr e \<beta>)"
proof (induct rule: bexpr_induct(1) [where Q = "\<lambda>i. (evaluate_child i values sentinels = T_TRUE \<longrightarrow> bool_item i \<beta>)
    \<and> (evaluate_child i values sentinels = T_FALSE \<longrightarrow> \<not> bool_item i \<beta>)"])
  case (BExpr a b)
  show ?case
    unfolding evaluate_BExpr bool_BExpr using conj3_sound [OF BExpr] disj3_sound [OF BExpr]
    by (cases a) simp_all
next
  case (Key k)
  then show ?case using assms by (simp add: completes_def)
next
  case (Sub e)
  then show ?case by simp
qed

text \<open>
  C9. The three-valued evaluator is sound: when it says TRUE (FALSE), the expression is true (false)
  under every way the unresolved requirements could still turn out.
\<close>

theorem evaluate_expression_sound:
  assumes "completes \<beta> values sentinels"
  shows "(evaluate_expression e values sentinels = T_TRUE \<longrightarrow> bool_expr e \<beta>)
    \<and> (evaluate_expression e values sentinels = T_FALSE \<longrightarrow> \<not> bool_expr e \<beta>)"
  using evaluate_expression_settled [OF assms] .

text \<open>Information order: UNKNOWN may become anything, a settled value stays.\<close>

definition refines3 :: "RuleTruthValue \<Rightarrow> RuleTruthValue \<Rightarrow> bool" where
  "refines3 x y \<longleftrightarrow> x = T_UNKNOWN \<or> x = y"

lemma refines3I: "(x = T_TRUE \<Longrightarrow> y = T_TRUE) \<Longrightarrow> (x = T_FALSE \<Longrightarrow> y = T_FALSE) \<Longrightarrow> refines3 x y"
  by (cases x) (auto simp: refines3_def)

lemma refines3D: "refines3 x y \<Longrightarrow> (x = T_TRUE \<longrightarrow> y = T_TRUE) \<and> (x = T_FALSE \<longrightarrow> y = T_FALSE)"
  by (auto simp: refines3_def)

lemma conj3_mono:
  assumes "\<And>i. i \<in> set xs \<Longrightarrow> refines3 (f i) (g i)"
  shows "refines3 (conj3 (map f xs)) (conj3 (map g xs))"
  by (rule refines3I; use assms in \<open>auto simp: conj3_iff image_iff dest: refines3D\<close>) (metis refines3D)

lemma disj3_mono:
  assumes "\<And>i. i \<in> set xs \<Longrightarrow> refines3 (f i) (g i)"
  shows "refines3 (disj3 (map f xs)) (disj3 (map g xs))"
  by (rule refines3I; use assms in \<open>auto simp: disj3_iff image_iff dest: refines3D\<close>) (metis refines3D)

text \<open>
  Evaluation is monotone in what is known: resolving further requirements never changes a
  TRUE or FALSE the evaluator has already given.
\<close>

theorem evaluate_expression_monotone:
  assumes "\<forall>k\<in>set (references e). refines3 (leaf_value k v s) (leaf_value k v' s')"
  shows "refines3 (evaluate_expression e v s) (evaluate_expression e v' s')"
  using assms
proof (induct rule: bexpr_induct(1) [where Q = "\<lambda>i. (\<forall>k\<in>set (item_references i).
      refines3 (leaf_value k v s) (leaf_value k v' s')) \<longrightarrow> refines3 (evaluate_child i v s) (evaluate_child i v' s')"])
  case (BExpr a b)
  have "refines3 (evaluate_child i v s) (evaluate_child i v' s')" if "i \<in> set (py_or a b)" for i
  proof -
    have "set (item_references i) \<subseteq> set (references (BExpr a b))"
      using that by (auto simp: concat_map_py_or)
    then show ?thesis using BExpr that by blast
  qed
  note m = conj3_mono [OF this] disj3_mono [OF this]
  show ?case unfolding evaluate_BExpr using m by (cases a) simp_all
qed auto

text \<open>
  An expression whose \<open>all\<close> list is present but empty beside a non-empty \<open>any\<close> passes
  validation, and is evaluated as the conjunction of its \<open>any\<close> list.
\<close>

theorem empty_all_turns_any_into_all:
  assumes "xs \<noteq> []" and "list_all valid_item xs"
  shows "valid_expr (BExpr (Some []) (Some xs))
    \<and> evaluate_expression (BExpr (Some []) (Some xs)) v s = evaluate_expression (BExpr (Some xs) None) v s"
proof -
  have "valid_expr (BExpr (Some []) (Some xs))"
    using assms by (auto simp: exactly_one_operator_def truthy_def list_all_iff)
  moreover have "py_or (Some []) (Some xs) = py_or (Some xs) None"
    using assms(1) by (cases xs) (simp_all add: py_or_def)
  ultimately show ?thesis by (simp add: evaluate_BExpr)
qed

section \<open>When a verdict is conclusive\<close>

lemma investigation_reason_None: "investigation_reason status stop = None \<longleftrightarrow> status = IS_COMPLETED"
  by (auto simp: investigation_reason_def split: option.splits)

definition outcome_evidence :: "AggregationOutcome list \<Rightarrow> string set" where
  "outcome_evidence outcomes = \<Union> (set ` ao_evidence_ids ` set outcomes)"

lemma evidence_ids_Nil: "sorted_uniq (concat (map ao_evidence_ids outcomes)) = [] \<longleftrightarrow> outcome_evidence outcomes = {}"
  by (auto simp: outcome_evidence_def)

lemma outcome_evidence_empty: "outcome_evidence outcomes = {} \<longleftrightarrow> (\<forall>o'\<in>set outcomes. ao_evidence_ids o' = [])"
  by (auto simp: outcome_evidence_def)

text \<open>The escalation and the rejection value the evaluator computes for the outcomes.\<close>

definition escalation_value :: "CompiledPolicy \<Rightarrow> AggregationOutcome list \<Rightarrow> RuleTruthValue" where
  "escalation_value policy outcomes = evaluate_expression (pol_escalate_when policy)
     (outcome_values outcomes)
     (rule_sentinels policy (outcome_values outcomes) (map ao_requirement_key outcomes))"

definition rejection_value :: "CompiledPolicy \<Rightarrow> AggregationOutcome list \<Rightarrow> RuleTruthValue" where
  "rejection_value policy outcomes = evaluate_expression (pol_reject_when policy)
     (outcome_values outcomes)
     (rule_sentinels policy (outcome_values outcomes) (map ao_requirement_key outcomes))"

text \<open>The basis every conclusive verdict needs.\<close>

definition conclusive_basis :: "CompiledPolicy \<Rightarrow> AggregationOutcome list \<Rightarrow> InvestigationStatus \<Rightarrow> bool" where
  "conclusive_basis policy outcomes status \<longleftrightarrow> status = IS_COMPLETED
     \<and> required_unresolved policy (outcome_values outcomes) = []
     \<and> escalation_value policy outcomes = T_FALSE \<and> rejection_value policy outcomes \<noteq> T_UNKNOWN
     \<and> outcome_evidence outcomes \<noteq> {}"

lemma rule_verdict_basis:
  "rule_verdict policy outcomes status stop =
    (if conclusive_basis policy outcomes status
     then conclude policy (outcome_values outcomes) (rejection_value policy outcomes)
       (sorted_uniq (concat (map ao_evidence_ids outcomes)))
     else (V_NEEDS_HUMAN_REVIEW, fst (snd (rule_verdict policy outcomes status stop)),
       snd (snd (rule_verdict policy outcomes status stop))))"
proof (cases "investigation_reason status stop")
  case (Some r)
  then have "status \<noteq> IS_COMPLETED" using investigation_reason_None [of status stop] by auto
  then show ?thesis by (simp add: Some rule_verdict_def Let_def conclusive_basis_def)
next
  case None
  then have st: "status = IS_COMPLETED" by (simp add: investigation_reason_None)
  show ?thesis
  proof (cases "outcome_evidence outcomes = {}")
    case True
    then show ?thesis using st None
      by (simp add: rule_verdict_def conclusive_basis_def conclude_def Let_def outcome_evidence_empty
          escalation_value_def [symmetric] rejection_value_def [symmetric] split: prod.splits)
  next
    case False
    then show ?thesis using st None
      by (simp add: rule_verdict_def conclusive_basis_def Let_def
          escalation_value_def [symmetric] rejection_value_def [symmetric])
  qed
qed

lemma conclude_verdict:
  "evidence_ids \<noteq> [] \<Longrightarrow> fst (conclude policy values rejection evidence_ids) =
     (if rejection = T_TRUE \<and> \<not> exception_satisfied policy values then V_REJECT else V_APPROVE)"
  by (simp add: conclude_def Let_def)

lemma evaluate_Inr:
  "evaluate E policy outcomes status stop = Inr ev \<longleftrightarrow>
     set (map ao_requirement_key outcomes) = set (policy_keys policy)
     \<and> ev = rule_result E policy outcomes (fst (rule_verdict policy outcomes status stop))
         (fst (snd (rule_verdict policy outcomes status stop))) (snd (snd (rule_verdict policy outcomes status stop)))"
  by (auto simp: evaluate_def split: prod.splits if_splits)

lemma rule_result_simps [simp]:
  "re_verdict (rule_result E p os v r x) = v" "re_reason_code (rule_result E p os v r x) = r"
  "re_evaluator_version (rule_result E p os v r x) = evaluator_version"
  "re_requirement_result_ids (rule_result E p os v r x) = sort (map ao_result_id os)"
  "re_evidence_ids (rule_result E p os v r x) = sorted_uniq (concat (map ao_evidence_ids os))"
  by (simp_all add: rule_result_def Let_def)

lemma evaluate_verdict:
  assumes "evaluate E policy outcomes status stop = Inr ev"
  shows "re_verdict ev = (if conclusive_basis policy outcomes status then
      (if rejection_value policy outcomes = T_TRUE \<and> \<not> exception_satisfied policy (outcome_values outcomes)
       then V_REJECT else V_APPROVE) else V_NEEDS_HUMAN_REVIEW)"
proof -
  have "re_verdict ev = fst (rule_verdict policy outcomes status stop)"
    using assms by (simp add: evaluate_Inr)
  moreover have "conclusive_basis policy outcomes status \<Longrightarrow> sorted_uniq (concat (map ao_evidence_ids outcomes)) \<noteq> []"
    by (simp only: conclusive_basis_def evidence_ids_Nil simp_thms)
  ultimately show ?thesis
    by (subst (asm) rule_verdict_basis) (simp add: conclude_verdict)
qed

lemma required_unresolved_Nil:
  "required_unresolved policy values = [] \<longleftrightarrow> (\<forall>t\<in>set (pol_requirements policy). tp_required t \<longrightarrow>
     status_of values (tp_requirement_key t) \<notin> {RS_UNKNOWN, RS_CONFLICTED})"
  by (auto simp: required_unresolved_def filter_empty_conv)

text \<open>
  C3. A machine rejection is safe. It is given exactly when the investigation completed, every
  required requirement is settled, the escalation expression is FALSE, the rejection expression is
  TRUE, no exception is satisfied and there is evidence; and then the rejection expression holds and
  the escalation expression fails however the requirements still open could turn out.
\<close>

theorem machine_reject_safe:
  assumes "evaluate E policy outcomes status stop = Inr ev"
  shows "(re_verdict ev = V_REJECT \<longleftrightarrow> conclusive_basis policy outcomes status
      \<and> rejection_value policy outcomes = T_TRUE \<and> \<not> exception_satisfied policy (outcome_values outcomes))
    \<and> (re_verdict ev = V_REJECT \<longrightarrow> (\<forall>\<beta>. completes \<beta> (outcome_values outcomes)
         (rule_sentinels policy (outcome_values outcomes) (map ao_requirement_key outcomes)) \<longrightarrow>
         bool_expr (pol_reject_when policy) \<beta> \<and> \<not> bool_expr (pol_escalate_when policy) \<beta>))"
  using evaluate_verdict [OF assms] evaluate_expression_settled
  by (auto simp: conclusive_basis_def rejection_value_def escalation_value_def)

text \<open>
  C4. A machine approval is safe. It needs the same basis as a rejection, and either the rejection
  expression is FALSE, whatever the open requirements turn out to be, or a satisfied exception
  overrides it.
\<close>

theorem machine_approve_safe:
  assumes "evaluate E policy outcomes status stop = Inr ev" and "re_verdict ev = V_APPROVE"
  shows "status = IS_COMPLETED \<and> outcome_evidence outcomes \<noteq> {}
    \<and> (\<forall>t\<in>set (pol_requirements policy). tp_required t \<longrightarrow>
         status_of (outcome_values outcomes) (tp_requirement_key t) \<notin> {RS_UNKNOWN, RS_CONFLICTED})
    \<and> (exception_satisfied policy (outcome_values outcomes)
       \<or> (\<forall>\<beta>. completes \<beta> (outcome_values outcomes)
            (rule_sentinels policy (outcome_values outcomes) (map ao_requirement_key outcomes)) \<longrightarrow>
            \<not> bool_expr (pol_reject_when policy) \<beta>))"
proof -
  have b: "conclusive_basis policy outcomes status"
    and r: "rejection_value policy outcomes = T_TRUE \<Longrightarrow> exception_satisfied policy (outcome_values outcomes)"
    using evaluate_verdict [OF assms(1)] assms(2) by (auto split: if_splits)
  then show ?thesis
    using evaluate_expression_settled [of _ "outcome_values outcomes"]
    by (cases "rejection_value policy outcomes")
       (auto simp: conclusive_basis_def required_unresolved_Nil rejection_value_def)
qed

section \<open>Exceptions\<close>

text \<open>
  For a compiled policy an unresolved exception always sends a completed investigation to human
  review as an unresolved requirement, before the escalation expression is read: the sentinel
  \<open>unresolved_exception\<close> is never the reason.
\<close>

theorem unresolved_exception_is_required:
  assumes "compile_policy E d = Inr p" and "t \<in> set (pol_requirements p)"
    and "tp_source_kind t = SK_exception"
    and "unresolved (status_of (outcome_values outcomes) (tp_requirement_key t))"
  shows "fst (rule_verdict p outcomes IS_COMPLETED stop) = V_NEEDS_HUMAN_REVIEW
    \<and> fst (snd (rule_verdict p outcomes IS_COMPLETED stop)) \<in> {''RULE_EVIDENCE_CONFLICT'', ''RULE_REQUIRED_UNKNOWN''}"
proof -
  from assms(1) obtain ts where "map_res (compile_exception E) (doc_exceptions d) = Inr ts"
    "pol_requirements p = map (compile_ordinary E (doc_trigger_terms d)) (doc_requirements d) @ ts"
    by (rule compile_policy_Inr)
  then have "tp_required t"
    using assms(2,3) compile_exceptions_keys by fastforce
  then have "required_unresolved p (outcome_values outcomes) \<noteq> []"
    using assms(2,4) by (auto simp: required_unresolved_Nil)
  then show ?thesis
    by (simp add: rule_verdict_def investigation_reason_def Let_def)
qed

section \<open>Worked instances\<close>

lemma evaluate_expression_sound_witness:
  "evaluate_expression (BExpr None (Some [Key ''a'', Key ''b''])) [''a'' \<mapsto> RS_SATISFIED] Map.empty = T_TRUE
   \<and> bool_expr (BExpr None (Some [Key ''a'', Key ''b''])) (\<lambda>k. k = ''a'')"
proof -
  have c: "completes (\<lambda>k. k = ''a'') [''a'' \<mapsto> RS_SATISFIED] Map.empty"
    by (simp add: completes_def leaf_value_def)
  have "evaluate_expression (BExpr None (Some [Key ''a'', Key ''b''])) [''a'' \<mapsto> RS_SATISFIED] Map.empty = T_TRUE"
    by (simp add: evaluate_BExpr py_or_def disj3_iff leaf_value_def)
  with evaluate_expression_sound [OF c] show ?thesis by blast
qed

lemma evaluate_expression_monotone_witness:
  "refines3 (evaluate_expression (BExpr (Some [Key ''a'', Key ''b'']) None) Map.empty Map.empty)
     (evaluate_expression (BExpr (Some [Key ''a'', Key ''b'']) None) [''a'' \<mapsto> RS_NOT_SATISFIED] Map.empty)"
  by (rule evaluate_expression_monotone) (simp add: refines3_def leaf_value_def)

lemma empty_all_turns_any_into_all_witness:
  "evaluate_expression (BExpr (Some []) (Some [Key ''a'', Key ''b''])) [''a'' \<mapsto> RS_SATISFIED, ''b'' \<mapsto> RS_NOT_SATISFIED] Map.empty = T_FALSE
   \<and> evaluate_expression (BExpr None (Some [Key ''a'', Key ''b''])) [''a'' \<mapsto> RS_SATISFIED, ''b'' \<mapsto> RS_NOT_SATISFIED] Map.empty = T_TRUE"
  using empty_all_turns_any_into_all [of "[Key ''a'', Key ''b'']" "[''a'' \<mapsto> RS_SATISFIED, ''b'' \<mapsto> RS_NOT_SATISFIED]" Map.empty]
  by (simp add: evaluate_BExpr py_or_def conj3_iff disj3_iff leaf_value_def)

definition demo_outcome :: "RequirementStatus \<Rightarrow> AggregationOutcome" where
  "demo_outcome st = \<lparr> ao_result_id = ''rr'', ao_requirement_id = ''r1'',
     ao_requirement_key = ''weapon_visible'', ao_status = st, ao_reason_code = ''x'',
     ao_evidence_ids = [''e1''], ao_valid_evidence_ids = [''e1''], ao_ignored_evidence_ids = [],
     ao_aggregator_version = aggregator_version, ao_input_sha256 = ''h'' \<rparr>"

lemma demo_policy_keys: "policy_keys demo_policy = [''weapon_visible'']"
  by (simp add: policy_keys_def demo_policy_def)

lemma demo_basis:
  "st = RS_SATISFIED \<or> st = RS_NOT_SATISFIED \<Longrightarrow> conclusive_basis demo_policy [demo_outcome st] IS_COMPLETED"
  "rejection_value demo_policy [demo_outcome RS_SATISFIED] = T_TRUE"
  "\<not> exception_satisfied demo_policy (outcome_values [demo_outcome st])"
  by (auto simp: conclusive_basis_def required_unresolved_Nil demo_policy_def outcome_values_def
      demo_outcome_def status_of_def escalation_value_def rejection_value_def evaluate_BExpr py_or_def
      conj3_def disj3_def leaf_value_def rule_sentinels_def outcome_evidence_empty exception_satisfied_def)

lemma machine_reject_safe_witness:
  "\<exists>ev. evaluate demo_env demo_policy [demo_outcome RS_SATISFIED] IS_COMPLETED None = Inr ev \<and> re_verdict ev = V_REJECT"
proof -
  obtain ev where e: "evaluate demo_env demo_policy [demo_outcome RS_SATISFIED] IS_COMPLETED None = Inr ev"
    by (simp add: evaluate_Inr demo_policy_keys) (simp add: demo_outcome_def)
  then show ?thesis using machine_reject_safe [OF e] demo_basis by auto
qed

lemma machine_approve_safe_witness:
  "\<exists>ev. evaluate demo_env demo_policy [demo_outcome RS_NOT_SATISFIED] IS_COMPLETED None = Inr ev
     \<and> outcome_evidence [demo_outcome RS_NOT_SATISFIED] \<noteq> {}"
proof -
  obtain ev where e: "evaluate demo_env demo_policy [demo_outcome RS_NOT_SATISFIED] IS_COMPLETED None = Inr ev"
    by (simp add: evaluate_Inr demo_policy_keys) (simp add: demo_outcome_def)
  have "rejection_value demo_policy [demo_outcome RS_NOT_SATISFIED] \<noteq> T_TRUE"
    by (simp add: rejection_value_def demo_policy_def outcome_values_def demo_outcome_def evaluate_BExpr
        py_or_def conj3_iff leaf_value_def rule_sentinels_def)
  then have "re_verdict ev = V_APPROVE" using evaluate_verdict [OF e] demo_basis(1) by simp
  with machine_approve_safe [OF e] e show ?thesis by blast
qed

lemma unresolved_exception_is_required_witness:
  "\<exists>p. compile_policy demo_env demo_document = Inr p
     \<and> fst (rule_verdict p [] IS_COMPLETED None) = V_NEEDS_HUMAN_REVIEW"
proof -
  obtain p where p: "compile_policy demo_env demo_document = Inr p"
    using compile_policy_total [of demo_env demo_document] map_res_total [of "[''news_report'']" "compile_exception demo_env"]
      compile_exception_total [of "''news_report''" demo_env] by (auto simp: catalog_ids demo_document_def simp del: set_map)
  from p obtain ts where "map_res (compile_exception demo_env) (doc_exceptions demo_document) = Inr ts"
    "pol_requirements p = map (compile_ordinary demo_env (doc_trigger_terms demo_document)) (doc_requirements demo_document) @ ts"
    by (rule compile_policy_Inr)
  moreover from this have "ts \<noteq> []" using compile_exceptions_keys by (fastforce simp: demo_document_def)
  ultimately have "hd ts \<in> set (pol_requirements p)" "tp_source_kind (hd ts) = SK_exception"
    using compile_exceptions_keys by fastforce+
  from unresolved_exception_is_required [OF p this, of "[]" None] p show ?thesis
    by (auto simp: status_of_def outcome_values_def)
qed

end
