(* ===== verification/Finalize.thy ===== *)
theory Finalize
  imports RuleEval
begin

text \<open>
  \<open>evistream/governance/service.py\<close>: the transaction that turns a terminal investigation into a
  formal machine decision, and the projection of a decision row.
\<close>

section \<open>Decisions\<close>

definition decision_evidence_ids :: "env \<Rightarrow> string \<Rightarrow> db \<Rightarrow> string list" where
  "decision_evidence_ids E did s = sort_by (coll E)
     (map de_evidence_id (filter (\<lambda>l. de_decision_id l = did) (db_decision_evidence s)))"

definition decision_view :: "env \<Rightarrow> db \<Rightarrow> DecisionRecord \<Rightarrow> Decision" where
  "decision_view E s r = \<lparr> dv_decision_id = dc_id r, dv_case_id = dc_case_id r,
     dv_policy_id = dc_policy_id r, dv_policy_version = dc_policy_version r,
     dv_verdict = dc_verdict r, dv_reason_code = dc_reason_code r, dv_source = dc_source r,
     dv_explanation = dc_explanation r, dv_evidence_ids = decision_evidence_ids E (dc_id r) s,
     dv_metadata = dc_metadata r, dv_sequence = dc_sequence r,
     dv_evaluator_version = dc_evaluator_version r, dv_input_sha256 = dc_input_sha256 r,
     dv_agent_run_id = dc_agent_run_id r, dv_supersedes_decision_id = dc_supersedes_decision_id r,
     dv_replay_item_id = dc_replay_item_id r, dv_created_at = dc_created_at r,
     dv_updated_at = dc_updated_at r \<rparr>"

definition decision_sequences :: "string \<Rightarrow> db \<Rightarrow> int list" where
  "decision_sequences cid s = map dc_sequence (filter (\<lambda>d. dc_case_id d = cid) (db_decisions s))"

definition decision_link_rows :: "string \<Rightarrow> string \<Rightarrow> string list \<Rightarrow> DecisionRequirementResultRecord list" where
  "decision_link_rows did cid rids = map (\<lambda>r. \<lparr> dr_decision_id = did, dr_result_id = r, dr_case_id = cid \<rparr>) rids"

definition decision_evidence_rows :: "string \<Rightarrow> string \<Rightarrow> string list \<Rightarrow> DecisionEvidenceRecord list" where
  "decision_evidence_rows did cid eids = map (\<lambda>e. \<lparr> de_decision_id = did, de_evidence_id = e, de_case_id = cid \<rparr>) eids"

text \<open>
  The insert of a decision with its links, and the case row that follows it: the tail both of
  \<open>finalize_case\<close> and of \<open>_create_review\<close>.
\<close>

definition case_status_for :: "Verdict \<Rightarrow> CaseStatus" where
  "case_status_for v = (if v = V_NEEDS_HUMAN_REVIEW then CS_NEEDS_HUMAN_REVIEW else CS_DECIDED)"

definition store_decision ::
    "time \<Rightarrow> DecisionRecord \<Rightarrow> string list \<Rightarrow> string list \<Rightarrow> db \<Rightarrow> db res" where
  "store_decision now record result_ids evidence_ids s =
    bindE (t_add dc_id record (db_decisions s)) (\<lambda>ds.
    bindE (t_add_all dr_key (decision_link_rows (dc_id record) (dc_case_id record) result_ids)
        (db_decision_results s)) (\<lambda>drs.
    bindE (t_add_all de_key (decision_evidence_rows (dc_id record) (dc_case_id record) evidence_ids)
        (db_decision_evidence s)) (\<lambda>des.
      Inr (s\<lparr>db_decisions := ds, db_decision_results := drs, db_decision_evidence := des,
        db_cases := t_upd ca_id (dc_case_id record) (\<lambda>c. c\<lparr>ca_current_decision_id := Some (dc_id record),
          ca_status := case_status_for (dc_verdict record), ca_updated_at := now\<rparr>) (db_cases s)\<rparr>))))"

section \<open>Finalizing a case\<close>

definition investigation_of :: "string \<Rightarrow> db \<Rightarrow> AgentRunRecord option" where
  "investigation_of cid s = find (\<lambda>r. rn_case_id r = cid \<and> rn_run_kind r = RK_INVESTIGATION) (db_runs s)"

definition terminal_ok :: "bool \<Rightarrow> AgentRunRecord option \<Rightarrow> bool" where
  "terminal_ok allow_without_investigation run = (case run of None \<Rightarrow> allow_without_investigation
     | Some r \<Rightarrow> rn_status r = IS_COMPLETED \<or> rn_status r = IS_NEEDS_HUMAN_REVIEW)"

definition find_machine_decision :: "string \<Rightarrow> RuleEvaluation \<Rightarrow> db \<Rightarrow> DecisionRecord option" where
  "find_machine_decision cid ev s = find (\<lambda>d. dc_case_id d = cid \<and> dc_source d = DS_MACHINE
     \<and> dc_evaluator_version d = re_evaluator_version ev \<and> dc_input_sha256 d = re_input_sha256 ev)
     (db_decisions s)"

definition current_decision :: "CaseRecord \<Rightarrow> db \<Rightarrow> DecisionRecord option" where
  "current_decision c s = (case ca_current_decision_id c of None \<Rightarrow> None
     | Some i \<Rightarrow> if i = [] then None else t_get dc_id i (db_decisions s))"

definition machine_decision_row ::
    "string \<Rightarrow> time \<Rightarrow> CaseRecord \<Rightarrow> AgentRunRecord option \<Rightarrow> AggregationOutcome list \<Rightarrow> RuleEvaluation
       \<Rightarrow> int \<Rightarrow> DecisionRecord option \<Rightarrow> string option \<Rightarrow> DecisionRecord" where
  "machine_decision_row hex now c run outcomes ev sequence current replay_item_id =
     \<lparr> dc_id = ''decision_'' @ hex, dc_case_id = ca_id c, dc_policy_id = ca_policy_id c,
       dc_policy_version = ca_policy_version c, dc_verdict = re_verdict ev,
       dc_reason_code = re_reason_code ev, dc_source = DS_MACHINE,
       dc_explanation = u (re_explanation ev),
       dc_metadata = MachineMeta (Option.bind run rn_provisional_verdict) (Option.bind run rn_stop_reason)
         (map (\<lambda>o'. (ao_requirement_id o', ao_status o')) outcomes),
       dc_sequence = sequence, dc_evaluator_version = re_evaluator_version ev,
       dc_input_sha256 = re_input_sha256 ev, dc_agent_run_id = map_option rn_id run,
       dc_supersedes_decision_id = map_option dc_id current, dc_replay_item_id = replay_item_id,
       dc_created_at = now, dc_updated_at = now \<rparr>"

text \<open>From the evaluation on: reuse the decision of equal inputs, or write a new one.\<close>

definition conclude_case ::
    "env \<Rightarrow> time \<Rightarrow> string \<Rightarrow> CaseRecord \<Rightarrow> AgentRunRecord option \<Rightarrow> AggregationOutcome list
       \<Rightarrow> RuleEvaluation \<Rightarrow> string option \<Rightarrow> db \<Rightarrow> (Decision \<times> db) res" where
  "conclude_case E now hex c run outcomes ev replay_item_id s =
    (case find_machine_decision (ca_id c) ev s of
       Some existing \<Rightarrow>
         (let s' = s\<lparr>db_cases := t_upd ca_id (ca_id c) (\<lambda>r.
                if ca_current_decision_id r = Some (dc_id existing) then r
                else r\<lparr>ca_current_decision_id := Some (dc_id existing), ca_updated_at := now\<rparr>) (db_cases s)\<rparr>
          in Inr (decision_view E s' existing, s'))
     | None \<Rightarrow>
         (case current_decision c s of
            Some current \<Rightarrow>
              if dc_source current = DS_HUMAN then Inl (GovernanceError ''DECISION_INPUT_INVALID'')
              else (let record = machine_decision_row hex now c run outcomes ev
                        (max_or_0 (decision_sequences (ca_id c) s) + 1) (Some current) replay_item_id
                    in bindE (store_decision now record (re_requirement_result_ids ev) (re_evidence_ids ev) s)
                         (\<lambda>s'. Inr (decision_view E s' record, s')))
          | None \<Rightarrow>
              (let record = machine_decision_row hex now c run outcomes ev
                     (max_or_0 (decision_sequences (ca_id c) s) + 1) None replay_item_id
               in bindE (store_decision now record (re_requirement_result_ids ev) (re_evidence_ids ev) s)
                    (\<lambda>s'. Inr (decision_view E s' record, s')))))"

definition finalize_body ::
    "env \<Rightarrow> time \<Rightarrow> string \<Rightarrow> string \<Rightarrow> string option \<Rightarrow> bool \<Rightarrow> (string \<rightharpoonup> string) \<Rightarrow> db
       \<Rightarrow> (Decision \<times> db) res" where
  "finalize_body E now hex case_id replay_item_id allow_without_investigation origin_result_ids s =
    (case t_get ca_id case_id (db_cases s) of
       None \<Rightarrow> Inl (GovernanceError ''CASE_NOT_FOUND'')
     | Some c \<Rightarrow>
    (case t_get pc_key (ca_policy_id c, ca_policy_version c) (db_policies s) of
       None \<Rightarrow> Inl (GovernanceError ''POLICY_NOT_FOUND'')
     | Some policy_record \<Rightarrow>
    if \<not> pc_enabled policy_record then Inl (GovernanceError ''POLICY_DISABLED'')
    else
    (let run = investigation_of (ca_id c) s in
     if \<not> terminal_ok allow_without_investigation run
     then Inl (GovernanceError ''CASE_NOT_READY_FOR_EVALUATION'')
     else
     (let requirements = requirements_of E (ca_id c) s;
          policy = pc_compiled_policy policy_record;
          templates = sort_key tp_requirement_key (pol_requirements policy)
      in if map rm_requirement_key requirements \<noteq> map tp_requirement_key templates
         then Inl (GovernanceError ''DECISION_INPUT_INVALID'')
         else bindE (aggregate_all E now (pol_aggregation policy) origin_result_ids replay_item_id requirements s)
           (\<lambda>(outcomes, s1).
            bindE (evaluate E policy outcomes
                (case run of Some r \<Rightarrow> rn_status r | None \<Rightarrow> IS_COMPLETED) (Option.bind run rn_stop_reason))
              (\<lambda>ev. conclude_case E now hex c run outcomes ev replay_item_id s1))))))"

definition finalize_case ::
    "env \<Rightarrow> time \<Rightarrow> string \<Rightarrow> string \<Rightarrow> string option \<Rightarrow> bool \<Rightarrow> (string \<rightharpoonup> string) \<Rightarrow> db
       \<Rightarrow> Decision res \<times> db" where
  "finalize_case E now hex case_id replay_item_id allow_without_investigation origin_result_ids s =
     run_session (finalize_body E now hex case_id replay_item_id allow_without_investigation origin_result_ids) s"

definition get_current_decision :: "env \<Rightarrow> string \<Rightarrow> db \<Rightarrow> Decision res" where
  "get_current_decision E case_id s = (case t_get ca_id case_id (db_cases s) of
     None \<Rightarrow> Inl (GovernanceError ''CASE_NOT_FOUND'')
   | Some c \<Rightarrow> (case ca_current_decision_id c of
       None \<Rightarrow> Inl (GovernanceError ''DECISION_NOT_FOUND'')
     | Some i \<Rightarrow> (case t_get dc_id i (db_decisions s) of
         None \<Rightarrow> Inl (GovernanceError ''DECISION_NOT_FOUND'')
       | Some d \<Rightarrow> Inr (decision_view E s d))))"

section \<open>Storing a decision\<close>

lemma decision_view_simps [simp]:
  "dv_decision_id (decision_view E s r) = dc_id r" "dv_case_id (decision_view E s r) = dc_case_id r"
  "dv_verdict (decision_view E s r) = dc_verdict r" "dv_source (decision_view E s r) = dc_source r"
  "dv_sequence (decision_view E s r) = dc_sequence r"
  "dv_supersedes_decision_id (decision_view E s r) = dc_supersedes_decision_id r"
  "dv_evidence_ids (decision_view E s r) = decision_evidence_ids E (dc_id r) s"
  by (simp_all add: decision_view_def)

lemma store_decision_Inr:
  assumes "store_decision now record rids eids s = Inr s'"
  shows "s' = s\<lparr>db_decisions := db_decisions s @ [record],
      db_decision_results := db_decision_results s @ decision_link_rows (dc_id record) (dc_case_id record) rids,
      db_decision_evidence := db_decision_evidence s @ decision_evidence_rows (dc_id record) (dc_case_id record) eids,
      db_cases := t_upd ca_id (dc_case_id record) (\<lambda>c. c\<lparr>ca_current_decision_id := Some (dc_id record),
          ca_status := case_status_for (dc_verdict record), ca_updated_at := now\<rparr>) (db_cases s)\<rparr>"
    and "t_get dc_id (dc_id record) (db_decisions s) = None"
  using assms by (auto simp: store_decision_def table_simps dest!: t_add_all_Inr)

lemma store_decision_total:
  assumes "dc_id record \<notin> dc_id ` set (db_decisions s)" and "dc_id record \<notin> dr_decision_id ` set (db_decision_results s)"
    and "dc_id record \<notin> de_decision_id ` set (db_decision_evidence s)" and "distinct rids" and "distinct eids"
  shows "\<exists>s'. store_decision now record rids eids s = Inr s'"
proof -
  have "\<exists>t. t_add_all dr_key (decision_link_rows (dc_id record) (dc_case_id record) rids) (db_decision_results s) = Inr t"
    unfolding t_add_all_ok_iff using assms(2,4)
    by (auto simp: decision_link_rows_def dr_key_def comp_def distinct_map inj_on_def)
  moreover have "\<exists>t. t_add_all de_key (decision_evidence_rows (dc_id record) (dc_case_id record) eids) (db_decision_evidence s) = Inr t"
    unfolding t_add_all_ok_iff using assms(3,5)
    by (auto simp: decision_evidence_rows_def de_key_def comp_def distinct_map inj_on_def)
  ultimately show ?thesis using assms(1) by (auto simp: store_decision_def t_add_def)
qed

lemma machine_decision_row_simps [simp]:
  "dc_id (machine_decision_row hex now c run os ev q cur item) = ''decision_'' @ hex"
  "dc_case_id (machine_decision_row hex now c run os ev q cur item) = ca_id c"
  "dc_source (machine_decision_row hex now c run os ev q cur item) = DS_MACHINE"
  "dc_verdict (machine_decision_row hex now c run os ev q cur item) = re_verdict ev"
  "dc_sequence (machine_decision_row hex now c run os ev q cur item) = q"
  "dc_supersedes_decision_id (machine_decision_row hex now c run os ev q cur item) = map_option dc_id cur"
  "dc_evaluator_version (machine_decision_row hex now c run os ev q cur item) = re_evaluator_version ev"
  "dc_input_sha256 (machine_decision_row hex now c run os ev q cur item) = re_input_sha256 ev"
  "dc_policy_id (machine_decision_row hex now c run os ev q cur item) = ca_policy_id c"
  "dc_policy_version (machine_decision_row hex now c run os ev q cur item) = ca_policy_version c"
  by (simp_all add: machine_decision_row_def)

lemma conclude_case_cases:
  assumes "conclude_case E now hex c run os ev item s = Inr (d, s')"
  obtains (reused) existing where "find_machine_decision (ca_id c) ev s = Some existing"
      and "s' = s\<lparr>db_cases := t_upd ca_id (ca_id c) (\<lambda>r.
                if ca_current_decision_id r = Some (dc_id existing) then r
                else r\<lparr>ca_current_decision_id := Some (dc_id existing), ca_updated_at := now\<rparr>) (db_cases s)\<rparr>"
      and "d = decision_view E s' existing"
  | (written) rec where "find_machine_decision (ca_id c) ev s = None"
      and "rec = machine_decision_row hex now c run os ev (max_or_0 (decision_sequences (ca_id c) s) + 1)
             (current_decision c s) item"
      and "\<forall>cur. current_decision c s = Some cur \<longrightarrow> dc_source cur \<noteq> DS_HUMAN"
      and "store_decision now rec (re_requirement_result_ids ev) (re_evidence_ids ev) s = Inr s'"
      and "d = decision_view E s' rec"
proof (cases "find_machine_decision (ca_id c) ev s")
  case None
  show ?thesis
  proof (cases "current_decision c s")
    case cn: None
    show ?thesis by (rule written [OF None refl]; insert assms None cn)
        (auto simp: conclude_case_def Let_def bindE_Inr_iff)
  next
    case (Some cur)
    show ?thesis by (rule written [OF None refl]; insert assms None Some)
        (auto simp: conclude_case_def Let_def bindE_Inr_iff split: if_splits)
  qed
next
  case (Some existing)
  show ?thesis by (rule reused [OF Some]; insert assms Some) (auto simp: conclude_case_def Let_def)
qed

lemma finalize_body_cases:
  assumes "finalize_body E now hex cid item allow org s = Inr (d, s')"
  obtains c p os s1 ev where "t_get ca_id cid (db_cases s) = Some c"
    and "t_get pc_key (ca_policy_id c, ca_policy_version c) (db_policies s) = Some p" and "pc_enabled p"
    and "terminal_ok allow (investigation_of (ca_id c) s)"
    and "map rm_requirement_key (requirements_of E (ca_id c) s)
       = map tp_requirement_key (sort_key tp_requirement_key (pol_requirements (pc_compiled_policy p)))"
    and "aggregate_all E now (pol_aggregation (pc_compiled_policy p)) org item (requirements_of E (ca_id c) s) s = Inr (os, s1)"
    and "evaluate E (pc_compiled_policy p) os (case investigation_of (ca_id c) s of Some r \<Rightarrow> rn_status r | None \<Rightarrow> IS_COMPLETED)
           (Option.bind (investigation_of (ca_id c) s) rn_stop_reason) = Inr ev"
    and "conclude_case E now hex c (investigation_of (ca_id c) s) os ev item s1 = Inr (d, s')"
  using assms by (auto simp: finalize_body_def Let_def bindE_Inr_iff split: option.splits if_splits)

lemma aggregate_all_frame:
  assumes "aggregate_all E now cfg org i rs s = Inr (os, s')"
  shows "db_cases s' = db_cases s \<and> db_artifacts s' = db_artifacts s \<and> db_tools s' = db_tools s
    \<and> db_calls s' = db_calls s \<and> db_evidence s' = db_evidence s \<and> db_decisions s' = db_decisions s
    \<and> db_decision_evidence s' = db_decision_evidence s \<and> db_decision_results s' = db_decision_results s
    \<and> db_runs s' = db_runs s \<and> db_policies s' = db_policies s
    \<and> map rm_id (db_requirements s') = map rm_id (db_requirements s)"
  using assms
proof (induction rs arbitrary: s os)
  case Nil
  then show ?case by simp
next
  case (Cons r rs)
  then obtain out s1 os' where a: "aggregate E now r cfg (org (rm_requirement_key r)) i s = Inr (out, s1)"
    and b: "aggregate_all E now cfg org i rs s1 = Inr (os', s')"
    by (auto simp: bindE_Inr_iff)
  show ?case using Cons.IH [OF b] aggregate_frame [OF a] by simp
qed

section \<open>Decisions are an append-only numbered log\<close>

definition finalize_step :: "db \<Rightarrow> db \<Rightarrow> bool" where
  "finalize_step s s' \<longleftrightarrow> (\<exists>E now hex cid item allow org d. finalize_body E now hex cid item allow org s = Inr (d, s'))"

lemma conclude_case_log:
  assumes "conclude_case E now hex c run os ev item s = Inr (d, s')"
  shows "db_decisions s' = db_decisions s \<or> (\<exists>r. db_decisions s' = db_decisions s @ [r]
      \<and> dc_sequence r = max_or_0 (map dc_sequence (filter (\<lambda>x. dc_case_id x = dc_case_id r) (db_decisions s))) + 1)"
  using assms
proof (cases rule: conclude_case_cases)
  case (reused existing)
  then show ?thesis by simp
next
  case (written rec)
  then show ?thesis using store_decision_Inr [OF written(4)] by (auto simp: decision_sequences_def)
qed

interpretation flog: sequence_log db_decisions dc_case_id dc_sequence finalize_step
proof
  fix s s' assume "finalize_step s s'"
  then obtain E now hex cid item allow org d where "finalize_body E now hex cid item allow org s = Inr (d, s')"
    by (auto simp: finalize_step_def)
  then show "db_decisions s' = db_decisions s \<or> (\<exists>r. db_decisions s' = db_decisions s @ [r]
      \<and> dc_sequence r = max_or_0 (map dc_sequence (filter (\<lambda>x. dc_case_id x = dc_case_id r) (db_decisions s))) + 1)"
    by (cases rule: finalize_body_cases) (use conclude_case_log aggregate_all_frame in metis)
qed

section \<open>Settled requirements stay settled\<close>

text \<open>The part of a requirement row an aggregation reads.\<close>

definition same_requirement :: "RequirementRecord \<Rightarrow> RequirementRecord \<Rightarrow> bool" where
  "same_requirement r r' \<longleftrightarrow> rm_id r = rm_id r' \<and> rm_case_id r = rm_case_id r' \<and> rm_requirement_key r = rm_requirement_key r'
     \<and> rm_modalities r = rm_modalities r' \<and> rm_semantic_sha256 r = rm_semantic_sha256 r'"

text \<open>The part of the database a classification reads.\<close>

definition same_sources :: "db \<Rightarrow> db \<Rightarrow> bool" where
  "same_sources s s' \<longleftrightarrow> db_artifacts s' = db_artifacts s \<and> db_tools s' = db_tools s \<and> db_calls s' = db_calls s
     \<and> db_evidence s' = db_evidence s
     \<and> (\<forall>k. map_option ca_video_id (t_get ca_id k (db_cases s')) = map_option ca_video_id (t_get ca_id k (db_cases s)))"

lemma same_sources_refl [simp]: "same_sources s s"
  by (simp add: same_sources_def)

lemma same_sources_trans: "same_sources s s' \<Longrightarrow> same_sources s' s'' \<Longrightarrow> same_sources s s''"
  by (simp add: same_sources_def)

lemma provenance_cong:
  assumes "same_sources s s'" and "same_requirement r r'"
  shows "classify s' r' e = classify s r e"
proof -
  have s: "db_artifacts s' = db_artifacts s" "db_tools s' = db_tools s" "db_calls s' = db_calls s" "db_evidence s' = db_evidence s"
    using assms(1) by (simp_all add: same_sources_def)
  have r: "rm_id r' = rm_id r" "rm_case_id r' = rm_case_id r" "rm_modalities r' = rm_modalities r"
    using assms(2) by (simp_all add: same_requirement_def)
  have t: "classify_tool s' e a = classify_tool s e a" for a
    unfolding classify_tool_def classify_model_def classify_origin_def s by (rule refl)
  have c: "map_option ca_video_id (t_get ca_id k (db_cases s')) = map_option ca_video_id (t_get ca_id k (db_cases s))" for k
    using assms(1) by (simp add: same_sources_def)
  show ?thesis
  proof (cases "t_get ca_id (rm_case_id r) (db_cases s)")
    case None
    then have "t_get ca_id (rm_case_id r) (db_cases s') = None" using c [of "rm_case_id r"] by simp
    with None show ?thesis by (simp add: classify_def r)
  next
    case (Some x)
    then obtain y where "t_get ca_id (rm_case_id r) (db_cases s') = Some y" "ca_video_id y = ca_video_id x"
      using c [of "rm_case_id r"] by (cases "t_get ca_id (rm_case_id r) (db_cases s')") auto
    with Some show ?thesis
      by (cases "ev_artifact_id e") (auto simp: classify_def r s t Let_def split: option.split)
  qed
qed

lemma classified_cong:
  assumes "same_sources s s'" and "same_requirement r r'"
  shows "classified_evidence E r' s' = classified_evidence E r s"
  using assms(2)
  by (simp add: classified_evidence_def list_for_requirement_def provenance_cong [OF assms] same_requirement_def
      assms(1) [unfolded same_sources_def])

lemma input_hash_cong: "same_requirement r r' \<Longrightarrow> input_hash E r' cfg cl = input_hash E r cfg cl"
  by (simp add: input_hash_def same_requirement_def)

definition settled :: "env \<Rightarrow> AggregationConfig \<Rightarrow> RequirementRecord \<Rightarrow> AggregationOutcome \<Rightarrow> db \<Rightarrow> bool" where
  "settled E cfg r out s \<longleftrightarrow> (\<exists>rec. rec \<in> set (db_results s)
     \<and> find_result (rm_id r) (input_hash E r cfg (classified_evidence E r s)) s = Some rec
     \<and> aggregation_outcome E s rec (classified_evidence E r s) = Inr out
     \<and> (\<forall>q\<in>set (db_requirements s). rm_id q = rm_id r \<longrightarrow>
          rm_status q = rs_status rec \<and> rm_current_result_id q = Some (rs_id rec)))"

lemma aggregate_settles: "aggregate E now r cfg o' i s = Inr (out, s') \<Longrightarrow> settled E cfg r out s'"
proof -
  assume a: "aggregate E now r cfg o' i s = Inr (out, s')"
  then have "classified_evidence E r s' = classified_evidence E r s"
    using aggregate_frame [OF a] by (intro classified_frame) auto
  with a show ?thesis unfolding settled_def by (elim aggregate_result) (simp only:, blast)
qed

lemma settled_aggregate:
  assumes "settled E cfg r out s" and "same_requirement r r'"
  shows "aggregate E now r' cfg o' i s = Inr (out, s)"
proof -
  from assms(1) obtain rec where rec: "find_result (rm_id r) (input_hash E r cfg (classified_evidence E r s)) s = Some rec"
    and out: "aggregation_outcome E s rec (classified_evidence E r s) = Inr out"
    and q: "\<forall>q\<in>set (db_requirements s). rm_id q = rm_id r \<longrightarrow>
        rm_status q = rs_status rec \<and> rm_current_result_id q = Some (rs_id rec)"
    by (auto simp: settled_def)
  have i: "rm_id r' = rm_id r" using assms(2) by (simp add: same_requirement_def)
  have "t_upd rm_id (rm_id r) (touch_requirement now (rs_status rec) (rs_id rec)) (db_requirements s) = db_requirements s"
    using q by (intro t_upd_id_cong) (auto simp: touch_requirement_def)
  then show ?thesis
    using rec out classified_cong [OF same_sources_refl assms(2)] input_hash_cong [OF assms(2)]
    by (simp add: aggregate_def Let_def i)
qed

lemma find_result_snoc:
  "find_result k h s = Some rec \<Longrightarrow> db_results s' = db_results s @ new \<Longrightarrow> find_result k h s' = Some rec"
  by (simp add: find_result_def find_append)

lemma result_evidence_ids_other:
  assumes "db_result_evidence s' = db_result_evidence s @ new" and "\<forall>l\<in>set new. rl_result_id l \<noteq> i"
  shows "result_evidence_ids E i s' = result_evidence_ids E i s"
proof -
  have "filter (\<lambda>l. rl_result_id l = i) new = []" using assms(2) by (simp add: filter_empty_conv)
  then show ?thesis by (simp add: result_evidence_ids_def assms(1))
qed

lemma settled_aggregate_other:
  assumes "settled E cfg r out s" and "aggregate E now r2 cfg o' i s = Inr (out2, s')" and "rm_id r2 \<noteq> rm_id r"
  shows "settled E cfg r out s'"
proof -
  from assms(1) obtain rec where rec: "rec \<in> set (db_results s)"
      "find_result (rm_id r) (input_hash E r cfg (classified_evidence E r s)) s = Some rec"
      "aggregation_outcome E s rec (classified_evidence E r s) = Inr out"
    and q: "\<forall>q\<in>set (db_requirements s). rm_id q = rm_id r \<longrightarrow>
        rm_status q = rs_status rec \<and> rm_current_result_id q = Some (rs_id rec)"
    by (auto simp: settled_def)
  have rid: "rs_requirement_id rec = rm_id r" using find_result_sound [OF rec(2)] by simp
  have cl: "classified_evidence E r s' = classified_evidence E r s"
    using aggregate_frame [OF assms(2)] by (intro classified_frame) auto
  obtain f new links where s': "db_requirements s' = t_upd rm_id (rm_id r2) f (db_requirements s)"
      "\<And>q. rm_id (f q) = rm_id q" "\<And>q. rm_requirement_key (f q) = rm_requirement_key q"
      "db_results s' = db_results s @ new" "db_result_evidence s' = db_result_evidence s @ links"
      "\<forall>l\<in>set links. rl_result_id l \<notin> rs_id ` set (db_results s)"
    using assms(2)
  proof (cases rule: aggregate_cases)
    case (cached rec2)
    then show ?thesis by (intro that [of "touch_requirement now (rs_status rec2) (rs_id rec2)" "[]" "[]"]) auto
  next
    case (fresh rec2 ls)
    then have "\<forall>l\<in>set ls. rl_result_id l \<notin> rs_id ` set (db_results s)"
      by (auto simp: used_rows_def t_get_None)
    then show ?thesis using fresh
      by (intro that [of "\<lambda>q. q\<lparr>rm_status := rs_status rec2, rm_current_result_id := Some (rs_id rec2), rm_updated_at := now\<rparr>" "[rec2]" ls]) auto
  qed
  have t: "t_get rm_id (rm_id r) (db_requirements s') = t_get rm_id (rm_id r) (db_requirements s)"
    using assms(3) by (simp add: s'(1) t_get_upd s'(2))
  have e: "result_evidence_ids E (rs_id rec) s' = result_evidence_ids E (rs_id rec) s"
    using s'(6) rec(1) by (intro result_evidence_ids_other [OF s'(5)]) auto
  have "aggregation_outcome E s' rec (classified_evidence E r s) = Inr out"
    using rec(3) by (simp add: aggregation_outcome_def rid t e cong: option.case_cong)
  moreover have "\<forall>q\<in>set (db_requirements s'). rm_id q = rm_id r \<longrightarrow>
        rm_status q = rs_status rec \<and> rm_current_result_id q = Some (rs_id rec)"
    using q assms(3) by (auto simp: s'(1,2) t_upd_def)
  ultimately show ?thesis
    using rec(1) find_result_snoc [OF rec(2) s'(4)] s'(4) by (auto simp: settled_def cl)
qed

text \<open>After the requirements of a case have been aggregated, each is settled with its outcome.\<close>

lemma settled_aggregate_all_other:
  "aggregate_all E now cfg org i rs s = Inr (outs, s') \<Longrightarrow> settled E cfg r out s \<Longrightarrow>
     rm_id r \<notin> rm_id ` set rs \<Longrightarrow> settled E cfg r out s'"
proof (induction rs arbitrary: s outs)
  case Nil
  then show ?case by simp
next
  case (Cons q rs)
  then obtain out1 s1 outs' where a: "aggregate E now q cfg (org (rm_requirement_key q)) i s = Inr (out1, s1)"
    and b: "aggregate_all E now cfg org i rs s1 = Inr (outs', s')"
    by (auto simp: bindE_Inr_iff)
  show ?case using Cons.IH [OF b] settled_aggregate_other [OF Cons.prems(2) a] Cons.prems(3) by auto
qed

lemma aggregate_all_settles:
  "aggregate_all E now cfg org i rs s = Inr (outs, s') \<Longrightarrow> distinct (map rm_id rs) \<Longrightarrow>
     list_all2 (\<lambda>r out. settled E cfg r out s') rs outs"
proof (induction rs arbitrary: s outs)
  case Nil
  then show ?case by simp
next
  case (Cons q rs)
  then obtain out1 s1 outs' where a: "aggregate E now q cfg (org (rm_requirement_key q)) i s = Inr (out1, s1)"
    and b: "aggregate_all E now cfg org i rs s1 = Inr (outs', s')" and o: "outs = out1 # outs'"
    by (auto simp: bindE_Inr_iff)
  show ?case
    using Cons.IH [OF b] settled_aggregate_all_other [OF b aggregate_settles [OF a]] Cons.prems(2) by (simp add: o)
qed

lemma settled_aggregate_all:
  "list_all2 (\<lambda>r out. settled E cfg r out s) rs outs \<Longrightarrow> list_all2 same_requirement rs rs' \<Longrightarrow>
     aggregate_all E now cfg org i rs' s = Inr (outs, s)"
proof (induction rs arbitrary: rs' outs)
  case Nil
  then show ?case by simp
next
  case (Cons r rs)
  then show ?case by (auto simp: list_all2_Cons1 settled_aggregate)
qed

section \<open>The decision tables are well formed\<close>

text \<open>
  Decision identifiers are unique, every link belongs to a stored decision, the decisions of each
  case are numbered from 1, and the current decision of every case is a decision of that case.
\<close>

definition decisions_ok :: "db \<Rightarrow> bool" where
  "decisions_ok s \<longleftrightarrow> keys_distinct dc_id (db_decisions s) \<and> flog.log_numbered s
     \<and> de_decision_id ` set (db_decision_evidence s) \<subseteq> dc_id ` set (db_decisions s)
     \<and> dr_decision_id ` set (db_decision_results s) \<subseteq> dc_id ` set (db_decisions s)
     \<and> (\<forall>c\<in>set (db_cases s). \<forall>i. ca_current_decision_id c = Some i \<longrightarrow>
          (\<exists>d\<in>set (db_decisions s). dc_id d = i \<and> dc_case_id d = ca_id c))"

lemma decisions_ok_get:
  "decisions_ok s \<Longrightarrow> d \<in> set (db_decisions s) \<Longrightarrow> t_get dc_id (dc_id d) (db_decisions s) = Some d"
  by (simp add: decisions_ok_def t_get_complete)

lemma store_decision_ok:
  assumes "store_decision now rec rids eids s = Inr s'" and "decisions_ok s"
    and "dc_sequence rec = max_or_0 (decision_sequences (dc_case_id rec) s) + 1"
  shows "decisions_ok s'"
proof -
  note s' = store_decision_Inr [OF assms(1)]
  have "flog.log_numbered s'"
    unfolding flog.log_numbered_def
  proof
    fix g
    have "numbered (map dc_sequence (filter (\<lambda>x. dc_case_id x = g) (db_decisions s)))"
      using assms(2) by (simp add: decisions_ok_def flog.log_numbered_def)
    then show "numbered (map dc_sequence (filter (\<lambda>x. dc_case_id x = g) (db_decisions s')))"
      using numbered_snoc assms(3) by (cases "dc_case_id rec = g") (auto simp: s'(1) decision_sequences_def)
  qed
  moreover have "keys_distinct dc_id (db_decisions s')"
    using assms(2) s'(2) by (auto simp: decisions_ok_def keys_distinct_def s'(1) t_get_None)
  ultimately show ?thesis
    using assms(2) by (auto simp: decisions_ok_def s'(1) decision_evidence_rows_def decision_link_rows_def t_upd_def)
qed

lemma decisions_ok_frame:
  assumes "db_decisions s' = db_decisions s" "db_decision_evidence s' = db_decision_evidence s"
    "db_decision_results s' = db_decision_results s" "db_cases s' = db_cases s"
  shows "decisions_ok s' = decisions_ok s"
  by (simp add: decisions_ok_def flog.log_numbered_def assms)

lemma find_machine_decision_sound:
  "find_machine_decision cid ev s = Some d \<Longrightarrow> d \<in> set (db_decisions s) \<and> dc_case_id d = cid
     \<and> dc_source d = DS_MACHINE"
  by (auto simp: find_machine_decision_def find_Some_iff)

lemma conclude_case_ok:
  assumes "conclude_case E now hex c run os ev item s = Inr (d, s')" and "decisions_ok s"
  shows "decisions_ok s'"
  using assms(1)
proof (cases rule: conclude_case_cases)
  case (reused existing)
  then show ?thesis using assms(2) find_machine_decision_sound [OF reused(1)]
    by (fastforce simp: decisions_ok_def flog.log_numbered_def t_upd_def)
next
  case (written rec)
  then show ?thesis using store_decision_ok [OF written(4) assms(2)] by simp
qed

text \<open>What \<open>conclude_case\<close> leaves: the decision it returns is stored and is the current one.\<close>

lemma conclude_case_current:
  assumes "conclude_case E now hex c run os ev item s = Inr (d, s')" and "decisions_ok s"
    and "t_get ca_id (ca_id c) (db_cases s) = Some c"
  shows "get_current_decision E (ca_id c) s' = Inr d \<and> dv_source d = DS_MACHINE \<and> dv_case_id d = ca_id c"
  using assms(1)
proof (cases rule: conclude_case_cases)
  case (reused existing)
  note f = find_machine_decision_sound [OF reused(1)]
  have g: "t_get dc_id (dc_id existing) (db_decisions s') = Some existing"
    using decisions_ok_get [OF assms(2)] f by (simp add: reused(2))
  show ?thesis using assms(3) f g
    by (simp add: get_current_decision_def reused(3)) (simp add: reused(2) t_get_upd)
next
  case (written rec)
  note s' = store_decision_Inr [OF written(4)]
  have ids: "dc_case_id rec = ca_id c" by (simp add: written(2))
  have "t_get dc_id (dc_id rec) (db_decisions s') = Some rec"
    using s'(2) by (simp add: s'(1) t_get_append t_get_Cons)
  then show ?thesis using assms(3) ids
    by (simp add: get_current_decision_def written(5)) (simp add: written(2) s'(1) t_get_upd)
qed

lemma finalize_case_result:
  assumes "finalize_case E now hex cid item allow org s = (r, s')" and "decisions_ok s"
  shows "decisions_ok s' \<and> (\<exists>new. db_decisions s' = db_decisions s @ new)
    \<and> (case r of Inl e \<Rightarrow> s' = s
       | Inr d \<Rightarrow> get_current_decision E cid s' = Inr d \<and> dv_source d = DS_MACHINE \<and> dv_case_id d = cid)"
proof (cases "finalize_body E now hex cid item allow org s")
  case (Inl e)
  then show ?thesis using assms by (auto simp: finalize_case_def)
next
  case (Inr x)
  then obtain d s2 where x: "finalize_body E now hex cid item allow org s = Inr (d, s2)" by (cases x) auto
  then have rs: "r = Inr d" "s' = s2" using assms(1) by (simp_all add: finalize_case_def)
  have "finalize_step s s2" unfolding finalize_step_def by (intro exI) (rule x)
  then have ap: "\<exists>new. db_decisions s2 = db_decisions s @ new" by (rule flog.step_prefix)
  from x obtain c p os s1 ev where c: "t_get ca_id cid (db_cases s) = Some c"
    and "t_get pc_key (ca_policy_id c, ca_policy_version c) (db_policies s) = Some p" and "pc_enabled p"
    and "terminal_ok allow (investigation_of (ca_id c) s)"
    and "map rm_requirement_key (requirements_of E (ca_id c) s)
       = map tp_requirement_key (sort_key tp_requirement_key (pol_requirements (pc_compiled_policy p)))"
    and ag: "aggregate_all E now (pol_aggregation (pc_compiled_policy p)) org item (requirements_of E (ca_id c) s) s = Inr (os, s1)"
    and "evaluate E (pc_compiled_policy p) os (case investigation_of (ca_id c) s of Some r \<Rightarrow> rn_status r | None \<Rightarrow> IS_COMPLETED)
           (Option.bind (investigation_of (ca_id c) s) rn_stop_reason) = Inr ev"
    and cc: "conclude_case E now hex c (investigation_of (ca_id c) s) os ev item s1 = Inr (d, s2)"
    by (rule finalize_body_cases)
  note fr = aggregate_all_frame [OF ag]
  have ok1: "decisions_ok s1" using assms(2) fr decisions_ok_frame [of s1 s] by blast
  have id: "ca_id c = cid" using t_get_Some [OF c] by simp
  then have "t_get ca_id (ca_id c) (db_cases s1) = Some c" using c fr by simp
  from conclude_case_current [OF cc ok1 this]
  have "get_current_decision E cid s2 = Inr d \<and> dv_source d = DS_MACHINE \<and> dv_case_id d = cid"
    unfolding id .
  with conclude_case_ok [OF cc ok1] ap show ?thesis by (simp only: rs sum.case simp_thms)
qed

text \<open>
  Finalizing a case keeps the decision tables well formed, only ever appends decision rows, and
  on success makes the decision it returns the machine decision that \<open>get_current_decision\<close> reads; on
  any error it leaves the database as it was.
\<close>

theorem finalize_case_current:
  assumes "finalize_case E now hex cid item allow org s = (r, s')" and "decisions_ok s"
  shows "decisions_ok s' \<and> (\<exists>new. db_decisions s' = db_decisions s @ new)
    \<and> (case r of Inl e \<Rightarrow> s' = s
       | Inr d \<Rightarrow> get_current_decision E cid s' = Inr d \<and> dv_source d = DS_MACHINE \<and> dv_case_id d = cid)"
  by (rule finalize_case_result [OF assms])

section \<open>Finalizing twice\<close>

lemma sort_by_map:
  "(\<And>x y. le' (f x) (f y) = le x y) \<Longrightarrow> sort_by le' (map f xs) = map f (sort_by le xs)"
proof -
  assume c: "\<And>x y. le' (f x) (f y) = le x y"
  have i: "insort_by le' (f x) (map f ys) = map f (insort_by le x ys)" for x ys
    by (induction ys) (auto simp: c)
  show ?thesis by (induction xs) (simp_all add: i)
qed

text \<open>Aggregation updates only statuses and pointers of requirement rows.\<close>

lemma aggregate_requirements:
  assumes "aggregate E now r cfg o' i s = Inr (out, s')"
  shows "\<exists>f. db_requirements s' = map f (db_requirements s) \<and> (\<forall>q. same_requirement q (f q))"
  using assms
proof (cases rule: aggregate_cases)
  case (cached rec)
  then show ?thesis
    by (intro exI [of _ "\<lambda>q. if rm_id q = rm_id r then touch_requirement now (rs_status rec) (rs_id rec) q else q"])
       (simp add: t_upd_def same_requirement_def touch_requirement_def)
next
  case (fresh rec links)
  then show ?thesis
    by (intro exI [of _ "\<lambda>q. if rm_id q = rm_id r then q\<lparr>rm_status := rs_status rec,
        rm_current_result_id := Some (rs_id rec), rm_updated_at := now\<rparr> else q"])
       (simp add: t_upd_def same_requirement_def)
qed

lemma same_requirement_trans: "same_requirement a b \<Longrightarrow> same_requirement b c \<Longrightarrow> same_requirement a c"
  by (simp add: same_requirement_def)

lemma aggregate_all_requirements:
  "aggregate_all E now cfg org i rs s = Inr (outs, s') \<Longrightarrow>
     \<exists>f. db_requirements s' = map f (db_requirements s) \<and> (\<forall>q. same_requirement q (f q))"
proof (induction rs arbitrary: s outs)
  case Nil
  then show ?case by (auto intro: exI [of _ id] simp: same_requirement_def)
next
  case (Cons q rs)
  then obtain out1 s1 outs' where a: "aggregate E now q cfg (org (rm_requirement_key q)) i s = Inr (out1, s1)"
    and b: "aggregate_all E now cfg org i rs s1 = Inr (outs', s')"
    by (auto simp: bindE_Inr_iff)
  obtain f where f: "db_requirements s1 = map f (db_requirements s)" "\<forall>q. same_requirement q (f q)"
    using aggregate_requirements [OF a] by blast
  obtain g where g: "db_requirements s' = map g (db_requirements s1)" "\<forall>q. same_requirement q (g q)"
    using Cons.IH [OF b] by blast
  have "same_requirement q (g (f q))" for q using f(2) g(2) same_requirement_trans [of q "f q" "g (f q)"] by blast
  then show ?case using f(1) g(1) by (intro exI [of _ "g \<circ> f"]) auto
qed

lemma requirements_of_map:
  assumes "db_requirements s' = map f (db_requirements s)" and "\<forall>q. same_requirement q (f q)"
  shows "requirements_of E cid s' = map f (requirements_of E cid s)"
proof -
  have "filter (\<lambda>r. rm_case_id r = cid) (db_requirements s') = map f (filter (\<lambda>r. rm_case_id r = cid) (db_requirements s))"
    using assms(2) by (simp add: assms(1) filter_map comp_def same_requirement_def)
  then show ?thesis
    using assms(2) by (simp add: requirements_of_def same_requirement_def
        sort_by_map [where le = "\<lambda>a b. coll E (rm_requirement_key a) (rm_requirement_key b)"])
qed

lemma settled_frame:
  assumes "settled E cfg r out s" and "same_sources s s'" and "db_results s' = db_results s"
    "db_result_evidence s' = db_result_evidence s" "db_requirements s' = db_requirements s"
  shows "settled E cfg r out s'"
proof -
  have "classified_evidence E r s' = classified_evidence E r s"
    by (rule classified_cong [OF assms(2)]) (simp add: same_requirement_def)
  moreover have "aggregation_outcome E s' rec cl = aggregation_outcome E s rec cl" for rec cl
    by (simp add: aggregation_outcome_def result_evidence_ids_def assms cong: option.case_cong)
  ultimately show ?thesis using assms(1) by (simp add: settled_def find_result_def assms(3,5))
qed

lemma conclude_case_frame:
  assumes "conclude_case E now hex c run os ev item s = Inr (d, s')"
  shows "same_sources s s' \<and> db_results s' = db_results s \<and> db_result_evidence s' = db_result_evidence s
    \<and> db_requirements s' = db_requirements s \<and> db_policies s' = db_policies s \<and> db_runs s' = db_runs s
    \<and> (\<exists>f. db_cases s' = t_upd ca_id (ca_id c) f (db_cases s) \<and> (\<forall>x. ca_id (f x) = ca_id x
          \<and> ca_video_id (f x) = ca_video_id x \<and> ca_policy_id (f x) = ca_policy_id x \<and> ca_policy_version (f x) = ca_policy_version x))"
proof -
  have src: "same_sources s s'" if "db_artifacts s' = db_artifacts s" "db_tools s' = db_tools s" "db_calls s' = db_calls s"
      "db_evidence s' = db_evidence s" "db_cases s' = t_upd ca_id (ca_id c) f (db_cases s)"
      "\<forall>x. ca_id (f x) = ca_id x \<and> ca_video_id (f x) = ca_video_id x" for f
    using that by (simp add: same_sources_def t_get_upd option.map_comp comp_def)
  from assms show ?thesis
  proof (cases rule: conclude_case_cases)
    case (reused existing)
    let ?f = "\<lambda>r. if ca_current_decision_id r = Some (dc_id existing) then r
        else r\<lparr>ca_current_decision_id := Some (dc_id existing), ca_updated_at := now\<rparr>"
    show ?thesis using src [of ?f] by (auto simp: reused(2) intro!: exI [of _ ?f])
  next
    case (written rec)
    let ?f = "\<lambda>c. c\<lparr>ca_current_decision_id := Some (dc_id rec),
        ca_status := case_status_for (dc_verdict rec), ca_updated_at := now\<rparr>"
    have "dc_case_id rec = ca_id c" by (simp add: written(2))
    then show ?thesis using src [of ?f] store_decision_Inr(1) [OF written(4)] by (auto intro!: exI [of _ ?f])
  qed
qed

text \<open>
  Running the transaction again on any later state that kept what it reads: the same outcomes, the
  same evaluation, and a conclusion that finds the decision of the first run.
\<close>

definition same_basis :: "db \<Rightarrow> db \<Rightarrow> bool" where
  "same_basis s s' \<longleftrightarrow> same_sources s s' \<and> db_results s' = db_results s \<and> db_result_evidence s' = db_result_evidence s
     \<and> db_requirements s' = db_requirements s \<and> db_policies s' = db_policies s \<and> db_runs s' = db_runs s"

lemma finalize_body_again:
  assumes x: "finalize_body E now hex cid item allow org s = Inr (d, s')"
    and kd: "keys_distinct rm_id (db_requirements s)" and dk: "keys_distinct dc_id (db_decisions s)"
    and sb: "same_basis s' s2" and c2: "t_get ca_id cid (db_cases s2) = Some c2"
    and pol: "\<And>c. t_get ca_id cid (db_cases s') = Some c \<Longrightarrow> ca_policy_id c2 = ca_policy_id c \<and> ca_policy_version c2 = ca_policy_version c"
  obtains os ev existing where "find_machine_decision cid ev s' = Some existing" and "d = decision_view E s' existing"
    and "\<And>r. r \<in> set (db_cases s') \<Longrightarrow> ca_id r = cid \<Longrightarrow> ca_current_decision_id r = Some (dc_id existing)"
    and "\<And>now2 hex2 item2 org2. finalize_body E now2 hex2 cid item2 allow org2 s2
       = conclude_case E now2 hex2 c2 (investigation_of cid s2) os ev item2 s2"
proof -
  from x obtain c p os s1 ev where c: "t_get ca_id cid (db_cases s) = Some c"
    and p: "t_get pc_key (ca_policy_id c, ca_policy_version c) (db_policies s) = Some p" "pc_enabled p"
    and t: "terminal_ok allow (investigation_of (ca_id c) s)"
    and keys: "map rm_requirement_key (requirements_of E (ca_id c) s)
       = map tp_requirement_key (sort_key tp_requirement_key (pol_requirements (pc_compiled_policy p)))"
    and ag: "aggregate_all E now (pol_aggregation (pc_compiled_policy p)) org item (requirements_of E (ca_id c) s) s = Inr (os, s1)"
    and ev: "evaluate E (pc_compiled_policy p) os (case investigation_of (ca_id c) s of Some r \<Rightarrow> rn_status r | None \<Rightarrow> IS_COMPLETED)
           (Option.bind (investigation_of (ca_id c) s) rn_stop_reason) = Inr ev"
    and cc: "conclude_case E now hex c (investigation_of (ca_id c) s) os ev item s1 = Inr (d, s')"
    by (rule finalize_body_cases)
  note f1 = aggregate_all_frame [OF ag] and f2 = conclude_case_frame [OF cc]
  note eqs = sb [unfolded same_basis_def]
  have id: "ca_id c = cid" "ca_id c2 = cid" using t_get_Some [OF c] t_get_Some [OF c2] by auto
  obtain g where g: "db_requirements s1 = map g (db_requirements s)" "\<forall>q. same_requirement q (g q)"
    using aggregate_all_requirements [OF ag] by blast
  have rq: "requirements_of E cid s2 = map g (requirements_of E cid s)"
    using f2 eqs requirements_of_map [OF g] by (simp add: requirements_of_def)
  obtain f where f: "db_cases s' = t_upd ca_id (ca_id c) f (db_cases s1)" "\<forall>x. ca_id (f x) = ca_id x
       \<and> ca_video_id (f x) = ca_video_id x \<and> ca_policy_id (f x) = ca_policy_id x \<and> ca_policy_version (f x) = ca_policy_version x"
    using f2 by blast
  have "t_get ca_id cid (db_cases s') = Some (f c)" using c f f1 id by (simp add: t_get_upd)
  then have pc2: "ca_policy_id c2 = ca_policy_id c" "ca_policy_version c2 = ca_policy_version c" using pol f(2) by auto
  have "distinct (map rm_id (requirements_of E (ca_id c) s))"
    using kd by (simp add: requirements_of_def keys_distinct_def distinct_map_filter)
  from aggregate_all_settles [OF ag this]
  have "list_all2 (\<lambda>r out. settled E (pol_aggregation (pc_compiled_policy p)) r out s2) (requirements_of E (ca_id c) s) os"
  proof (rule list_all2_mono)
    fix r out assume st: "settled E (pol_aggregation (pc_compiled_policy p)) r out s1"
    have "same_sources s1 s2" using eqs f2 same_sources_trans [of s1 s' s2] by blast
    then show "settled E (pol_aggregation (pc_compiled_policy p)) r out s2"
      by (rule settled_frame [OF st]) (use eqs f2 in simp_all)
  qed
  then have ag': "aggregate_all E now2 (pol_aggregation (pc_compiled_policy p)) org2 item2 (requirements_of E cid s2) s2 = Inr (os, s2)"
    for now2 org2 item2
    by (rule settled_aggregate_all) (use g(2) in \<open>simp add: rq id list_all2_map2 list_all2_same\<close>)
  have inv: "investigation_of cid s2 = investigation_of cid s" using f1 f2 eqs by (simp add: investigation_of_def)
  have "map rm_requirement_key (requirements_of E cid s2) = map rm_requirement_key (requirements_of E cid s)"
    using g(2) by (simp add: rq same_requirement_def)
  then have again: "finalize_body E now2 hex2 cid item2 allow org2 s2 = conclude_case E now2 hex2 c2 (investigation_of cid s2) os ev item2 s2"
    for now2 hex2 item2 org2
    using c2 pc2 f1 f2 eqs p t keys ag' ev inv id by (simp add: finalize_body_def Let_def)
  obtain existing where e: "find_machine_decision cid ev s' = Some existing" "d = decision_view E s' existing"
    "\<And>r. r \<in> set (db_cases s') \<Longrightarrow> ca_id r = cid \<Longrightarrow> ca_current_decision_id r = Some (dc_id existing)"
    using cc
  proof (cases rule: conclude_case_cases)
    case (reused existing)
    then show ?thesis using id by (intro that [of existing]) (auto simp: find_machine_decision_def t_upd_def)
  next
    case (written rec)
    note s' = store_decision_Inr [OF written(4)]
    show ?thesis using written(1) id
      by (intro that [of rec]) (auto simp: s'(1) written(5) find_machine_decision_def find_append written(2) t_upd_def)
  qed
  show ?thesis by (rule that [OF e again])
qed

lemma conclude_case_found:
  assumes "find_machine_decision (ca_id c) ev s = Some existing"
  shows "conclude_case E now hex c run os ev item s =
    (let s' = s\<lparr>db_cases := t_upd ca_id (ca_id c) (\<lambda>r.
                if ca_current_decision_id r = Some (dc_id existing) then r
                else r\<lparr>ca_current_decision_id := Some (dc_id existing), ca_updated_at := now\<rparr>) (db_cases s)\<rparr>
     in Inr (decision_view E s' existing, s'))"
  using assms by (simp add: conclude_case_def)


section \<open>What a conclusive decision cites\<close>

lemma aggregate_all_outcome:
  "aggregate_all E now cfg org i rs s = Inr (outs, s') \<Longrightarrow> distinct (map rm_id rs) \<Longrightarrow> out \<in> set outs \<Longrightarrow>
     e \<in> set (ao_evidence_ids out) \<Longrightarrow>
     \<exists>l\<in>set (db_result_evidence s'). rl_evidence_id l = e \<and> rl_result_id l = ao_result_id out"
proof -
  assume a: "aggregate_all E now cfg org i rs s = Inr (outs, s')" "distinct (map rm_id rs)" and o: "out \<in> set outs"
    and e: "e \<in> set (ao_evidence_ids out)"
  from aggregate_all_settles [OF a] o obtain r where "settled E cfg r out s'"
    by (auto simp: list_all2_conv_all_nth in_set_conv_nth)
  then obtain rec where "aggregation_outcome E s' rec (classified_evidence E r s') = Inr out"
    by (auto simp: settled_def)
  from aggregation_outcome_Inr [OF this] e show ?thesis by (auto simp: result_evidence_ids_def)
qed

text \<open>
  C1. A new conclusive machine decision (approve or reject) is grounded: the investigation, where
  there is one, completed; the decision cites at least one piece of evidence, and every piece it
  cites is linked to a requirement result that the decision cites too.
\<close>

theorem finalize_case_grounded:
  assumes "finalize_case E now hex cid item allow org s = (Inr d, s')"
    and "decisions_ok s" and "keys_distinct rm_id (db_requirements s)"
    and "t_get dc_id (dv_decision_id d) (db_decisions s) = None"
  shows "(dv_verdict d \<noteq> V_NEEDS_HUMAN_REVIEW \<longrightarrow> dv_evidence_ids d \<noteq> []
      \<and> (case investigation_of cid s of None \<Rightarrow> allow | Some run \<Rightarrow> rn_status run = IS_COMPLETED))
    \<and> (\<forall>e\<in>set (dv_evidence_ids d). \<exists>l\<in>set (db_result_evidence s'). rl_evidence_id l = e
         \<and> (\<exists>k\<in>set (db_decision_results s'). dr_decision_id k = dv_decision_id d \<and> dr_result_id k = rl_result_id l))"
proof -
  have x: "finalize_body E now hex cid item allow org s = Inr (d, s')"
    using assms(1) by (auto simp: finalize_case_def run_session_def split: sum.splits)
  from x obtain c p os s1 ev where c: "t_get ca_id cid (db_cases s) = Some c"
    and p: "t_get pc_key (ca_policy_id c, ca_policy_version c) (db_policies s) = Some p" "pc_enabled p"
    and t: "terminal_ok allow (investigation_of (ca_id c) s)"
    and keys: "map rm_requirement_key (requirements_of E (ca_id c) s)
       = map tp_requirement_key (sort_key tp_requirement_key (pol_requirements (pc_compiled_policy p)))"
    and ag: "aggregate_all E now (pol_aggregation (pc_compiled_policy p)) org item (requirements_of E (ca_id c) s) s = Inr (os, s1)"
    and ev: "evaluate E (pc_compiled_policy p) os (case investigation_of (ca_id c) s of Some r \<Rightarrow> rn_status r | None \<Rightarrow> IS_COMPLETED)
           (Option.bind (investigation_of (ca_id c) s) rn_stop_reason) = Inr ev"
    and cc: "conclude_case E now hex c (investigation_of (ca_id c) s) os ev item s1 = Inr (d, s')"
    by (rule finalize_body_cases)
  note f1 = aggregate_all_frame [OF ag] and f2 = conclude_case_frame [OF cc]
  have id: "ca_id c = cid" using t_get_Some [OF c] by simp
  have dist: "distinct (map rm_id (requirements_of E (ca_id c) s))"
    using assms(3) by (simp add: requirements_of_def keys_distinct_def distinct_map_filter)
  from cc obtain rec where rec: "rec = machine_decision_row hex now c (investigation_of (ca_id c) s) os ev
         (max_or_0 (decision_sequences (ca_id c) s1) + 1) (current_decision c s1) item"
    and st: "store_decision now rec (re_requirement_result_ids ev) (re_evidence_ids ev) s1 = Inr s'"
    and d: "d = decision_view E s' rec"
  proof (cases rule: conclude_case_cases)
    case (reused existing)
    then have "existing \<in> set (db_decisions s)" using find_machine_decision_sound [OF reused(1)] f1 by simp
    then have False using assms(4) unfolding reused(3) t_get_None decision_view_simps by blast
    then show ?thesis ..
  qed (rule that)
  note s' = store_decision_Inr [OF st]
  have "filter (\<lambda>l. de_decision_id l = dc_id rec) (db_decision_evidence s1) = []"
    using assms(2,4) f1 by (auto simp: filter_empty_conv decisions_ok_def d t_get_None)
  then have eids: "set (dv_evidence_ids d) = set (re_evidence_ids ev)"
    by (force simp: d decision_evidence_ids_def s'(1) decision_evidence_rows_def)
  have evr: "re_evidence_ids ev = sorted_uniq (concat (map ao_evidence_ids os))"
      "set (re_requirement_result_ids ev) = ao_result_id ` set os"
    using ev by (auto simp: evaluate_Inr)
  have "\<exists>l\<in>set (db_result_evidence s'). rl_evidence_id l = e
         \<and> (\<exists>k\<in>set (db_decision_results s'). dr_decision_id k = dv_decision_id d \<and> dr_result_id k = rl_result_id l)"
    if e: "e \<in> set (dv_evidence_ids d)" for e
  proof -
    from e obtain out where out: "out \<in> set os" "e \<in> set (ao_evidence_ids out)" using eids evr(1) by auto
    then obtain l where l: "l \<in> set (db_result_evidence s1)" "rl_evidence_id l = e" "rl_result_id l = ao_result_id out"
      using aggregate_all_outcome [OF ag dist] by blast
    let ?k = "\<lparr> dr_decision_id = dc_id rec, dr_result_id = rl_result_id l, dr_case_id = dc_case_id rec \<rparr>"
    have "ao_result_id out \<in> set (re_requirement_result_ids ev)" using out evr(2) by blast
    then have "?k \<in> set (db_decision_results s')" using l(3) by (simp add: s'(1) decision_link_rows_def)
    then show ?thesis using l f2 by (intro bexI [of _ l] conjI bexI [of _ ?k]) (simp_all add: d)
  qed
  moreover have "dv_evidence_ids d \<noteq> [] \<and> (case investigation_of cid s of None \<Rightarrow> allow | Some run \<Rightarrow> rn_status run = IS_COMPLETED)"
    if "dv_verdict d \<noteq> V_NEEDS_HUMAN_REVIEW"
  proof -
    have "re_verdict ev \<noteq> V_NEEDS_HUMAN_REVIEW" using that by (simp add: d rec)
    then have b: "conclusive_basis (pc_compiled_policy p) os (case investigation_of (ca_id c) s of Some r \<Rightarrow> rn_status r | None \<Rightarrow> IS_COMPLETED)"
      using evaluate_verdict [OF ev] by (auto split: if_splits)
    have "set (dv_evidence_ids d) \<noteq> {}"
      using b evr(1) eids evidence_ids_Nil [of os] by (auto simp: conclusive_basis_def)
    with b t show ?thesis by (auto simp: conclusive_basis_def id terminal_ok_def split: option.splits)
  qed
  ultimately show ?thesis by blast
qed

section \<open>Worked instances\<close>

lemma demo_decisions_ok: "decisions_ok demo_case_db"
  by (simp add: decisions_ok_def keys_distinct_def flog.log_numbered_def demo_case_def)

lemma demo_finalized:
  "\<exists>d s' c. finalize_case demo_env 9 ''x'' ''c1'' None False Map.empty demo_case_db = (Inr d, s')
     \<and> decisions_ok s' \<and> map dc_id (db_decisions s') = [''decision_x''] \<and> db_evidence s' = demo_evidence
     \<and> db_reviews s' = [] \<and> db_appeals s' = [] \<and> db_appeal_events s' = [] \<and> length (db_requirements s') = 1
     \<and> db_cases s' = [c] \<and> ca_id c = ''c1'' \<and> ca_current_decision_id c = Some ''decision_x''"
proof -
  obtain out s1 where a: "aggregate demo_env 9 demo_requirement default_aggregation None None demo_case_db = Inr (out, s1)"
    using demo_aggregates by blast
  then obtain rec where "aggregation_outcome demo_env s1 rec (classified_evidence demo_env demo_requirement demo_case_db) = Inr out"
    "rs_requirement_id rec = ''r1''"
    by (auto elim!: aggregate_result dest!: find_result_sound)
  with aggregation_outcome_Inr obtain q where q: "t_get rm_id ''r1'' (db_requirements s1) = Some q"
    "ao_requirement_key out = rm_requirement_key q" by metis
  obtain f where "db_requirements s1 = map f [demo_requirement]" "\<forall>q. same_requirement q (f q)"
    using aggregate_requirements [OF a] by auto
  with q have key: "ao_requirement_key out = ''weapon_visible''"
    by (auto simp: t_get_Cons same_requirement_def split: if_splits)
  have rq: "requirements_of demo_env ''c1'' demo_case_db = [demo_requirement]" by (simp add: requirements_of_def)
  have pol: "pol_aggregation demo_policy = default_aggregation"
      "map tp_requirement_key (sort_key tp_requirement_key (pol_requirements demo_policy)) = [''weapon_visible'']"
    by (simp_all add: demo_policy_def)
  obtain ev where ev: "evaluate demo_env demo_policy [out] IS_COMPLETED (Some ''PROVISIONAL_DECISION'') = Inr ev"
    by (simp add: evaluate_Inr demo_policy_keys key)
  then have evr: "re_requirement_result_ids ev = [ao_result_id out]" "distinct (re_evidence_ids ev)"
    by (simp_all add: evaluate_Inr)
  note fr = aggregate_frame [OF a]
  let ?rec = "machine_decision_row ''x'' 9 demo_case (Some demo_run) [out] ev 1 None None"
  obtain s2 where st: "store_decision 9 ?rec (re_requirement_result_ids ev) (re_evidence_ids ev) s1 = Inr s2"
    using store_decision_total [of ?rec s1 "[ao_result_id out]" "re_evidence_ids ev" 9] fr(6-8) evr by auto
  then have cc: "conclude_case demo_env 9 ''x'' demo_case (Some demo_run) [out] ev None s1 = Inr (decision_view demo_env s2 ?rec, s2)"
    using fr by (simp add: conclude_case_def find_machine_decision_def current_decision_def Let_def
        demo_case_def decision_sequences_def max_or_0_def)
  have "finalize_body demo_env 9 ''x'' ''c1'' None False Map.empty demo_case_db = Inr (decision_view demo_env s2 ?rec, s2)"
    using a ev cc rq pol
    by (simp add: finalize_body_def t_get_Cons demo_case_def new_policy_row_def demo_policy_def pc_key_def
        investigation_of_def demo_run_def terminal_ok_def)
  then have fin: "finalize_case demo_env 9 ''x'' ''c1'' None False Map.empty demo_case_db = (Inr (decision_view demo_env s2 ?rec), s2)"
    by (simp add: finalize_case_def)
  have "decisions_ok s1" using demo_decisions_ok decisions_ok_frame [of s1 demo_case_db] fr by blast
  then have ok: "decisions_ok s2" by (rule conclude_case_ok [OF cc])
  have len: "length (db_requirements s1) = 1" using fr(16) by (metis One_nat_def demo_case_db_simps(2) length_Cons length_map list.size(3))
  have cid: "ca_id demo_case = ''c1''" by (simp add: demo_case_def)
  show ?thesis
    using fin ok store_decision_Inr(1) [OF st] fr len
    by (intro exI [of _ "decision_view demo_env s2 ?rec"] exI [of _ s2] exI [of _ "hd (db_cases s2)"])
       (simp add: t_upd_Cons cid)
qed

lemma demo_finalizes:
  "\<exists>d s'. finalize_case demo_env 9 ''x'' ''c1'' None False Map.empty demo_case_db = (Inr d, s')"
  using demo_finalized by blast

lemma finalize_case_current_witness:
  "\<exists>d s'. finalize_case demo_env 9 ''x'' ''c1'' None False Map.empty demo_case_db = (Inr d, s')
     \<and> get_current_decision demo_env ''c1'' s' = Inr d"
proof -
  obtain d s' where f: "finalize_case demo_env 9 ''x'' ''c1'' None False Map.empty demo_case_db = (Inr d, s')"
    using demo_finalizes by blast
  from finalize_case_current [OF f demo_decisions_ok] f show ?thesis by auto
qed


lemma finalize_case_grounded_witness:
  "\<exists>d s'. finalize_case demo_env 9 ''x'' ''c1'' None False Map.empty demo_case_db = (Inr d, s')
     \<and> (dv_verdict d \<noteq> V_NEEDS_HUMAN_REVIEW \<longrightarrow> dv_evidence_ids d \<noteq> [])"
proof -
  obtain d s' where f: "finalize_case demo_env 9 ''x'' ''c1'' None False Map.empty demo_case_db = (Inr d, s')"
    using demo_finalizes by blast
  have "keys_distinct rm_id (db_requirements demo_case_db)" by (simp add: keys_distinct_def)
  from finalize_case_grounded [OF f demo_decisions_ok this] f show ?thesis by auto
qed

end
