(* ===== verification/HumanReview.thy ===== *)
theory HumanReview
  imports Finalize
begin

text \<open>
  \<open>evistream/governance/review.py\<close>: human reviews and appeals, each an idempotent transaction keyed
  by its request. Fresh \<open>uuid4().hex\<close> values are arguments.
\<close>

definition human_evaluator_version :: string where
  "human_evaluator_version = ''human-review-v1''"

section \<open>Request keys\<close>

definition request_key_of :: "env \<Rightarrow> json list \<Rightarrow> string" where
  "request_key_of E values = sha E (dumps_spaced E (JList values))"

text \<open>\<open>request_key or _request_key(..)\<close>\<close>

definition key_or :: "string option \<Rightarrow> string \<Rightarrow> string" where
  "key_or given computed = (if truthy given then the given else computed)"

definition json_ids :: "string list option \<Rightarrow> json" where
  "json_ids ids = JList (map JStr (sort (case ids of None \<Rightarrow> [] | Some xs \<Rightarrow> xs)))"

section \<open>Projections\<close>

definition review_view :: "ReviewRecord \<Rightarrow> Review" where
  "review_view r = \<lparr> rv_review_id = rw_id r, rv_case_id = rw_case_id r, rv_reviewer = rw_reviewer r,
     rv_reviewed_decision_id = rw_reviewed_decision_id r, rv_decision_id = rw_decision_id r,
     rv_note = rw_note r, rv_request_key = rw_request_key r, rv_created_at = rw_created_at r \<rparr>"

definition appeal_view :: "AppealRecord \<Rightarrow> Appeal" where
  "appeal_view r = \<lparr> av_appeal_id = ap_id r, av_case_id = ap_case_id r, av_submitter = ap_submitter r,
     av_statement = ap_statement r, av_challenged_decision_id = ap_challenged_decision_id r,
     av_status = ap_status r, av_resolution_review_id = ap_resolution_review_id r,
     av_created_at = ap_created_at r, av_resolved_at = ap_resolved_at r \<rparr>"

section \<open>A review\<close>

definition decision_evidence :: "string \<Rightarrow> db \<Rightarrow> string list" where
  "decision_evidence did s = map de_evidence_id (filter (\<lambda>l. de_decision_id l = did) (db_decision_evidence s))"

definition selected_evidence :: "string list option \<Rightarrow> string \<Rightarrow> db \<Rightarrow> string list" where
  "selected_evidence evidence_ids did s =
     sorted_uniq (if truthy evidence_ids then the evidence_ids else decision_evidence did s)"

definition case_result_ids :: "string \<Rightarrow> db \<Rightarrow> string list" where
  "case_result_ids cid s = List.map_filter (\<lambda>r. if rm_case_id r = cid then rm_current_result_id r else None)
     (db_requirements s)"

definition human_decision_row ::
    "env \<Rightarrow> string \<Rightarrow> time \<Rightarrow> CaseRecord \<Rightarrow> utext \<Rightarrow> Verdict \<Rightarrow> utext \<Rightarrow> string list \<Rightarrow> string \<Rightarrow> int
       \<Rightarrow> DecisionRecord \<Rightarrow> DecisionRecord" where
  "human_decision_row E hex now c reviewer verdict note selected request_key sequence current =
     \<lparr> dc_id = ''decision_'' @ hex, dc_case_id = ca_id c, dc_policy_id = ca_policy_id c,
       dc_policy_version = ca_policy_version c, dc_verdict = verdict, dc_reason_code = ''HUMAN_REVIEW'',
       dc_source = DS_HUMAN, dc_explanation = note, dc_metadata = HumanMeta reviewer,
       dc_sequence = sequence, dc_evaluator_version = human_evaluator_version,
       dc_input_sha256 = request_key_of E [JStr ''HUMAN_DECISION'', JStr (ca_id c), JText reviewer,
         JStr (str_verdict verdict), JText note, JList (map JStr selected), JStr request_key],
       dc_agent_run_id = None, dc_supersedes_decision_id = Some (dc_id current),
       dc_replay_item_id = None, dc_created_at = now, dc_updated_at = now \<rparr>"

definition create_review ::
    "env \<Rightarrow> time \<Rightarrow> (nat \<Rightarrow> string) \<Rightarrow> CaseRecord \<Rightarrow> utext \<Rightarrow> Verdict \<Rightarrow> utext \<Rightarrow> string list option
       \<Rightarrow> string \<Rightarrow> db \<Rightarrow> (ReviewRecord \<times> db) res" where
  "create_review E now hex c reviewer verdict note evidence_ids request_key s =
    (if is_blank reviewer \<or> is_blank note then Inl (GovernanceError ''REVIEW_INPUT_INVALID'')
     else case current_decision c s of
       None \<Rightarrow> Inl (GovernanceError ''DECISION_NOT_FOUND'')
     | Some current \<Rightarrow>
      (let selected = selected_evidence evidence_ids (dc_id current) s in
       if verdict \<noteq> V_NEEDS_HUMAN_REVIEW \<and> selected = [] then Inl (GovernanceError ''REVIEW_INPUT_INVALID'')
       else if selected \<noteq> [] \<and> length (filter (\<lambda>e. ev_case_id e = ca_id c \<and> ev_id e \<in> set selected)
           (db_evidence s)) \<noteq> length selected
       then Inl (GovernanceError ''REVIEW_INPUT_INVALID'')
       else
        (let decision = human_decision_row E (hex 0) now c reviewer verdict note selected request_key
               (max_or_0 (decision_sequences (ca_id c) s) + 1) current;
             review = \<lparr> rw_id = ''review_'' @ hex 1, rw_case_id = ca_id c, rw_request_key = request_key,
               rw_reviewer = reviewer, rw_reviewed_decision_id = Some (dc_id current),
               rw_decision_id = dc_id decision, rw_note = note, rw_created_at = now \<rparr>
         in bindE (store_decision now decision (case_result_ids (ca_id c) s) selected s) (\<lambda>s1.
            bindE (t_add rw_id review (db_reviews s1)) (\<lambda>t. Inr (review, s1\<lparr>db_reviews := t\<rparr>))))))"

definition find_review :: "string \<Rightarrow> db \<Rightarrow> ReviewRecord option" where
  "find_review k s = find (\<lambda>r. rw_request_key r = k) (db_reviews s)"

definition review_request_key :: "env \<Rightarrow> string \<Rightarrow> utext \<Rightarrow> Verdict \<Rightarrow> utext \<Rightarrow> string list option \<Rightarrow> string option \<Rightarrow> string" where
  "review_request_key E case_id reviewer verdict note evidence_ids request_key =
     key_or request_key (request_key_of E [JStr ''REVIEW'', JStr case_id, JText reviewer,
       JStr (str_verdict verdict), JText note, json_ids evidence_ids])"

definition submit_review_body ::
    "env \<Rightarrow> time \<Rightarrow> (nat \<Rightarrow> string) \<Rightarrow> string \<Rightarrow> utext \<Rightarrow> Verdict \<Rightarrow> utext \<Rightarrow> string list option
       \<Rightarrow> string option \<Rightarrow> db \<Rightarrow> (Review \<times> db) res" where
  "submit_review_body E now hex case_id reviewer verdict note evidence_ids request_key s =
    (let k = review_request_key E case_id reviewer verdict note evidence_ids request_key in
     case find_review k s of
       Some existing \<Rightarrow> Inr (review_view existing, s)
     | None \<Rightarrow> (case t_get ca_id case_id (db_cases s) of
         None \<Rightarrow> Inl (GovernanceError ''CASE_NOT_FOUND'')
       | Some c \<Rightarrow> bindE (create_review E now hex c reviewer verdict note evidence_ids k s)
           (\<lambda>(r, s'). Inr (review_view r, s'))))"

definition submit_review ::
    "env \<Rightarrow> time \<Rightarrow> (nat \<Rightarrow> string) \<Rightarrow> string \<Rightarrow> utext \<Rightarrow> Verdict \<Rightarrow> utext \<Rightarrow> string list option
       \<Rightarrow> string option \<Rightarrow> db \<Rightarrow> Review res \<times> db" where
  "submit_review E now hex case_id reviewer verdict note evidence_ids request_key s =
     run_session (submit_review_body E now hex case_id reviewer verdict note evidence_ids request_key) s"

section \<open>Appeals\<close>

definition find_appeal :: "string \<Rightarrow> db \<Rightarrow> AppealRecord option" where
  "find_appeal k s = find (\<lambda>r. ap_request_key r = k) (db_appeals s)"

definition new_appeal :: "string \<Rightarrow> time \<Rightarrow> CaseRecord \<Rightarrow> string \<Rightarrow> utext \<Rightarrow> utext \<Rightarrow> string \<Rightarrow> AppealRecord" where
  "new_appeal hex now c k submitter statement current = \<lparr> ap_id = ''appeal_'' @ hex, ap_case_id = ca_id c,
     ap_request_key = k, ap_submitter = submitter, ap_statement = statement,
     ap_challenged_decision_id = current, ap_status = AS_OPEN, ap_resolution_review_id = None,
     ap_resolved_at = None, ap_created_at = now, ap_updated_at = now \<rparr>"

definition appeal_event_row ::
    "string \<Rightarrow> string \<Rightarrow> int \<Rightarrow> AppealEventType \<Rightarrow> utext \<Rightarrow> utext \<Rightarrow> string \<Rightarrow> time \<Rightarrow> AppealEventRecord" where
  "appeal_event_row hex appeal_id sequence event_type actor note decision_id now =
     \<lparr> ae_id = ''appeal_event_'' @ hex, ae_appeal_id = appeal_id, ae_sequence = sequence,
       ae_event_type = event_type, ae_actor = actor, ae_note = note,
       ae_decision_id = Some decision_id, ae_created_at = now \<rparr>"

definition close_appeal :: "time \<Rightarrow> string \<Rightarrow> AppealRecord \<Rightarrow> AppealRecord" where
  "close_appeal now review_id a = a\<lparr>ap_status := AS_RESOLVED, ap_resolution_review_id := Some review_id,
     ap_resolved_at := Some now, ap_updated_at := now\<rparr>"

definition submit_appeal_body ::
    "env \<Rightarrow> time \<Rightarrow> (nat \<Rightarrow> string) \<Rightarrow> string \<Rightarrow> utext \<Rightarrow> utext \<Rightarrow> string option \<Rightarrow> db
       \<Rightarrow> (Appeal \<times> db) res" where
  "submit_appeal_body E now hex case_id submitter statement request_key s =
    (let k = key_or request_key (request_key_of E [JStr ''APPEAL'', JStr case_id, JText submitter, JText statement]) in
     case find_appeal k s of
       Some existing \<Rightarrow> Inr (appeal_view existing, s)
     | None \<Rightarrow> (case t_get ca_id case_id (db_cases s) of
         None \<Rightarrow> Inl (GovernanceError ''CASE_NOT_FOUND'')
       | Some c \<Rightarrow> (case ca_current_decision_id c of
           None \<Rightarrow> Inl (GovernanceError ''DECISION_NOT_FOUND'')
         | Some current \<Rightarrow>
            (let appeal = new_appeal (hex 0) now c k submitter statement current;
                 event = appeal_event_row (hex 1) (ap_id appeal) 1 AE_SUBMITTED submitter statement current now
             in bindE (t_add ap_id appeal (db_appeals s)) (\<lambda>as.
                bindE (t_add ae_id event (db_appeal_events s)) (\<lambda>es.
                Inr (appeal_view appeal, s\<lparr>db_appeals := as, db_appeal_events := es,
                  db_cases := t_upd ca_id (ca_id c) (\<lambda>r. r\<lparr>ca_status := CS_NEEDS_HUMAN_REVIEW,
                    ca_updated_at := now\<rparr>) (db_cases s)\<rparr>)))))))"

definition submit_appeal ::
    "env \<Rightarrow> time \<Rightarrow> (nat \<Rightarrow> string) \<Rightarrow> string \<Rightarrow> utext \<Rightarrow> utext \<Rightarrow> string option \<Rightarrow> db \<Rightarrow> Appeal res \<times> db" where
  "submit_appeal E now hex case_id submitter statement request_key s =
     run_session (submit_appeal_body E now hex case_id submitter statement request_key) s"

definition resolution_key :: "env \<Rightarrow> string \<Rightarrow> utext \<Rightarrow> Verdict \<Rightarrow> utext \<Rightarrow> string list option \<Rightarrow> string option \<Rightarrow> string" where
  "resolution_key E appeal_id reviewer verdict note evidence_ids request_key =
     key_or request_key (request_key_of E [JStr ''APPEAL_RESOLUTION'', JStr appeal_id, JText reviewer,
       JStr (str_verdict verdict), JText note, json_ids evidence_ids])"

definition resolve_appeal_body ::
    "env \<Rightarrow> time \<Rightarrow> (nat \<Rightarrow> string) \<Rightarrow> string \<Rightarrow> utext \<Rightarrow> Verdict \<Rightarrow> utext \<Rightarrow> string list option
       \<Rightarrow> string option \<Rightarrow> db \<Rightarrow> (Review \<times> db) res" where
  "resolve_appeal_body E now hex appeal_id reviewer verdict note evidence_ids request_key s =
    (let k = resolution_key E appeal_id reviewer verdict note evidence_ids request_key in
     case find_review k s of
       Some existing \<Rightarrow> Inr (review_view existing, s)
     | None \<Rightarrow> (case t_get ap_id appeal_id (db_appeals s) of
         None \<Rightarrow> Inl (GovernanceError ''APPEAL_NOT_FOUND'')
       | Some appeal \<Rightarrow>
          if ap_status appeal = AS_RESOLVED then Inl (GovernanceError ''APPEAL_ALREADY_RESOLVED'')
          else (case t_get ca_id (ap_case_id appeal) (db_cases s) of
            None \<Rightarrow> Inl (GovernanceError ''CASE_NOT_FOUND'')
          | Some c \<Rightarrow> bindE (create_review E now hex c reviewer verdict note evidence_ids k s)
             (\<lambda>(review, s1).
              let event = appeal_event_row (hex 2) (ap_id appeal) 2 AE_RESOLVED reviewer note (rw_decision_id review) now
              in bindE (t_add ae_id event (db_appeal_events s1)) (\<lambda>es.
                 Inr (review_view review, s1\<lparr>db_appeal_events := es,
                   db_appeals := t_upd ap_id (ap_id appeal) (close_appeal now (rw_id review)) (db_appeals s1)\<rparr>))))))"

definition resolve_appeal ::
    "env \<Rightarrow> time \<Rightarrow> (nat \<Rightarrow> string) \<Rightarrow> string \<Rightarrow> utext \<Rightarrow> Verdict \<Rightarrow> utext \<Rightarrow> string list option
       \<Rightarrow> string option \<Rightarrow> db \<Rightarrow> Review res \<times> db" where
  "resolve_appeal E now hex appeal_id reviewer verdict note evidence_ids request_key s =
     run_session (resolve_appeal_body E now hex appeal_id reviewer verdict note evidence_ids request_key) s"

record AppealEvent =
  aw_event_id :: string
  aw_appeal_id :: string
  aw_sequence :: int
  aw_event_type :: AppealEventType
  aw_actor :: utext
  aw_note :: utext
  aw_decision_id :: "string option"
  aw_created_at :: time

definition appeal_event :: "AppealEventRecord \<Rightarrow> AppealEvent" where
  "appeal_event r = \<lparr> aw_event_id = ae_id r, aw_appeal_id = ae_appeal_id r, aw_sequence = ae_sequence r,
     aw_event_type = ae_event_type r, aw_actor = ae_actor r, aw_note = ae_note r,
     aw_decision_id = ae_decision_id r, aw_created_at = ae_created_at r \<rparr>"

section \<open>What a review does\<close>

lemma create_review_Inr:
  assumes "create_review E now hex c reviewer verdict note eids k s = Inr (r, s')"
  obtains cur dec s1 where "current_decision c s = Some cur"
    and "dec = human_decision_row E (hex 0) now c reviewer verdict note (selected_evidence eids (dc_id cur) s) k
           (max_or_0 (decision_sequences (ca_id c) s) + 1) cur"
    and "store_decision now dec (case_result_ids (ca_id c) s) (selected_evidence eids (dc_id cur) s) s = Inr s1"
    and "r = \<lparr> rw_id = ''review_'' @ hex 1, rw_case_id = ca_id c, rw_request_key = k,
               rw_reviewer = reviewer, rw_reviewed_decision_id = Some (dc_id cur),
               rw_decision_id = dc_id dec, rw_note = note, rw_created_at = now \<rparr>"
    and "s' = s1\<lparr>db_reviews := db_reviews s1 @ [r]\<rparr>" and "\<forall>x\<in>set (db_reviews s). rw_id x \<noteq> rw_id r"
    and "\<not> is_blank reviewer" and "\<not> is_blank note"
    and "verdict \<noteq> V_NEEDS_HUMAN_REVIEW \<longrightarrow> selected_evidence eids (dc_id cur) s \<noteq> []"
    and "selected_evidence eids (dc_id cur) s \<noteq> [] \<longrightarrow>
           length (filter (\<lambda>e. ev_case_id e = ca_id c \<and> ev_id e \<in> set (selected_evidence eids (dc_id cur) s)) (db_evidence s))
             = length (selected_evidence eids (dc_id cur) s)"
proof -
  have b: "\<not> is_blank reviewer" "\<not> is_blank note" using assms by (auto simp: create_review_def split: if_splits)
  obtain cur where cur: "current_decision c s = Some cur"
    using assms b by (auto simp: create_review_def split: option.splits)
  let ?sel = "selected_evidence eids (dc_id cur) s"
  define dec where "dec = human_decision_row E (hex 0) now c reviewer verdict note ?sel k
           (max_or_0 (decision_sequences (ca_id c) s) + 1) cur"
  have g: "verdict \<noteq> V_NEEDS_HUMAN_REVIEW \<longrightarrow> ?sel \<noteq> []" "?sel \<noteq> [] \<longrightarrow>
      length (filter (\<lambda>e. ev_case_id e = ca_id c \<and> ev_id e \<in> set ?sel) (db_evidence s)) = length ?sel"
    using assms b cur by (auto simp: create_review_def Let_def split: if_splits)
  obtain s1 where s1: "store_decision now dec (case_result_ids (ca_id c) s) ?sel s = Inr s1"
    and t: "r = \<lparr> rw_id = ''review_'' @ hex 1, rw_case_id = ca_id c, rw_request_key = k,
               rw_reviewer = reviewer, rw_reviewed_decision_id = Some (dc_id cur),
               rw_decision_id = dc_id dec, rw_note = note, rw_created_at = now \<rparr>"
      "t_get rw_id (rw_id r) (db_reviews s1) = None" "s' = s1\<lparr>db_reviews := db_reviews s1 @ [r]\<rparr>"
    using assms b cur g
    by (auto simp: create_review_def Let_def bindE_Inr_iff t_add_Inr dec_def [symmetric] split: if_splits)
  have "db_reviews s1 = db_reviews s" using store_decision_Inr(1) [OF s1] by simp
  then show ?thesis using that [OF cur dec_def s1 t(1,3)] t(2) b g by (simp add: t_get_None)
qed

lemma human_decision_row_simps [simp]:
  "dc_id (human_decision_row E h now c rv v n sel k q cur) = ''decision_'' @ h"
  "dc_case_id (human_decision_row E h now c rv v n sel k q cur) = ca_id c"
  "dc_source (human_decision_row E h now c rv v n sel k q cur) = DS_HUMAN"
  "dc_verdict (human_decision_row E h now c rv v n sel k q cur) = v"
  "dc_sequence (human_decision_row E h now c rv v n sel k q cur) = q"
  "dc_supersedes_decision_id (human_decision_row E h now c rv v n sel k q cur) = Some (dc_id cur)"
  by (simp_all add: human_decision_row_def)

lemma create_review_ok:
  assumes "create_review E now hex c reviewer verdict note eids k s = Inr (r, s')" and "decisions_ok s"
  shows "decisions_ok s'"
proof -
  obtain cur dec s1 where st: "store_decision now dec (case_result_ids (ca_id c) s) (selected_evidence eids (dc_id cur) s) s = Inr s1"
    and d: "dec = human_decision_row E (hex 0) now c reviewer verdict note (selected_evidence eids (dc_id cur) s) k
           (max_or_0 (decision_sequences (ca_id c) s) + 1) cur"
    and s': "s' = s1\<lparr>db_reviews := db_reviews s1 @ [r]\<rparr>"
    using assms(1) by (elim create_review_Inr) blast
  have "decisions_ok s1" by (rule store_decision_ok [OF st assms(2)]) (simp add: d)
  then show ?thesis using decisions_ok_frame [of s' s1] by (simp add: s')
qed

lemma submit_review_body_cases:
  assumes "submit_review_body E now hex cid reviewer verdict note eids k s = Inr (rv, s')"
  obtains (again) r where "find_review (review_request_key E cid reviewer verdict note eids k) s = Some r"
      and "rv = review_view r" and "s' = s"
  | (new) c r where "find_review (review_request_key E cid reviewer verdict note eids k) s = None"
      and "t_get ca_id cid (db_cases s) = Some c" and "rv = review_view r"
      and "create_review E now hex c reviewer verdict note eids (review_request_key E cid reviewer verdict note eids k) s = Inr (r, s')"
  using assms by (auto simp: submit_review_body_def Let_def bindE_Inr_iff split: option.splits)

lemma run_session_fst_Inr: "run_session body s = (Inr a, s') \<longleftrightarrow> body s = Inr (a, s')"
  by (auto simp: run_session_def split: sum.splits)

lemma selected_covered:
  assumes "keys_distinct ev_id es" and "distinct sel"
    and "length (filter (\<lambda>e. ev_case_id e = cid \<and> ev_id e \<in> set sel) es) = length sel" and "i \<in> set sel"
  shows "\<exists>x\<in>set es. ev_id x = i \<and> ev_case_id x = cid"
proof -
  let ?F = "filter (\<lambda>e. ev_case_id e = cid \<and> ev_id e \<in> set sel) es"
  have "distinct (map ev_id ?F)" using assms(1) by (simp add: keys_distinct_def distinct_map_filter)
  then have "card (set (map ev_id ?F)) = card (set sel)"
    using assms(2,3) by (metis distinct_card length_map)
  moreover have "set (map ev_id ?F) \<subseteq> set sel" by auto
  ultimately have "set (map ev_id ?F) = set sel" by (simp add: card_subset_eq)
  with assms(4) have "i \<in> set (map ev_id ?F)" by simp
  then show ?thesis by auto
qed

lemma stored_evidence_ids:
  assumes "store_decision now rec rids eids s = Inr s'" and "decisions_ok s"
  shows "set (decision_evidence_ids E (dc_id rec) s') = set eids"
proof -
  note s' = store_decision_Inr [OF assms(1)]
  have "filter (\<lambda>l. de_decision_id l = dc_id rec) (db_decision_evidence s) = []"
    using assms(2) s'(2) by (auto simp: filter_empty_conv decisions_ok_def t_get_None)
  then show ?thesis by (force simp: decision_evidence_ids_def s'(1) decision_evidence_rows_def)
qed

lemma stored_is_current:
  assumes "store_decision now rec rids eids s = Inr s'" and "t_get ca_id (dc_case_id rec) (db_cases s) = Some c"
  shows "get_current_decision E (dc_case_id rec) s' = Inr (decision_view E s' rec)"
proof -
  note s' = store_decision_Inr [OF assms(1)]
  have "t_get dc_id (dc_id rec) (db_decisions s') = Some rec"
    using s'(2) by (simp add: s'(1) t_get_append t_get_Cons)
  then show ?thesis using assms(2) by (simp add: get_current_decision_def) (simp add: s'(1) t_get_upd)
qed

text \<open>
  A review that is not a repetition writes one human decision for the case: it becomes the
  current one, is numbered next, supersedes the decision that was current, and a conclusive one
  rests on evidence rows that all belong to the case. The decision tables stay well formed.
\<close>

theorem submit_review_decides:
  assumes "submit_review E now hex cid reviewer verdict note eids k s = (Inr rv, s')" and "decisions_ok s"
    and "find_review (review_request_key E cid reviewer verdict note eids k) s = None"
    and "keys_distinct ev_id (db_evidence s)"
  shows "decisions_ok s' \<and> (\<exists>c cur d. t_get ca_id cid (db_cases s) = Some c \<and> current_decision c s = Some cur
    \<and> db_decisions s' = db_decisions s @ [d] \<and> dc_source d = DS_HUMAN \<and> dc_verdict d = verdict
    \<and> dc_sequence d = int (length (decision_sequences cid s)) + 1 \<and> dc_supersedes_decision_id d = Some (dc_id cur)
    \<and> get_current_decision E cid s' = Inr (decision_view E s' d)
    \<and> rv_decision_id rv = dc_id d
    \<and> (verdict \<noteq> V_NEEDS_HUMAN_REVIEW \<longrightarrow> dv_evidence_ids (decision_view E s' d) \<noteq> [])
    \<and> (\<forall>e\<in>set (dv_evidence_ids (decision_view E s' d)). \<exists>x\<in>set (db_evidence s). ev_id x = e \<and> ev_case_id x = cid))"
proof -
  let ?k = "review_request_key E cid reviewer verdict note eids k"
  have "submit_review_body E now hex cid reviewer verdict note eids k s = Inr (rv, s')"
    using assms(1) by (simp add: submit_review_def run_session_fst_Inr)
  with assms(3) obtain c r where c: "t_get ca_id cid (db_cases s) = Some c" and rv: "rv = review_view r"
    and cr: "create_review E now hex c reviewer verdict note eids ?k s = Inr (r, s')"
    by (auto elim: submit_review_body_cases)
  have id: "ca_id c = cid" using t_get_Some [OF c] by simp
  from cr obtain cur dec s1 where cur: "current_decision c s = Some cur"
    and dec: "dec = human_decision_row E (hex 0) now c reviewer verdict note (selected_evidence eids (dc_id cur) s) ?k
           (max_or_0 (decision_sequences (ca_id c) s) + 1) cur"
    and st: "store_decision now dec (case_result_ids (ca_id c) s) (selected_evidence eids (dc_id cur) s) s = Inr s1"
    and r: "r = \<lparr> rw_id = ''review_'' @ hex 1, rw_case_id = ca_id c, rw_request_key = ?k,
               rw_reviewer = reviewer, rw_reviewed_decision_id = Some (dc_id cur),
               rw_decision_id = dc_id dec, rw_note = note, rw_created_at = now \<rparr>"
    and s': "s' = s1\<lparr>db_reviews := db_reviews s1 @ [r]\<rparr>" and "\<forall>x\<in>set (db_reviews s). rw_id x \<noteq> rw_id r"
    and "\<not> is_blank reviewer" and "\<not> is_blank note"
    and v: "verdict \<noteq> V_NEEDS_HUMAN_REVIEW \<longrightarrow> selected_evidence eids (dc_id cur) s \<noteq> []"
    and cnt: "selected_evidence eids (dc_id cur) s \<noteq> [] \<longrightarrow>
           length (filter (\<lambda>e. ev_case_id e = ca_id c \<and> ev_id e \<in> set (selected_evidence eids (dc_id cur) s)) (db_evidence s))
             = length (selected_evidence eids (dc_id cur) s)"
    by (rule create_review_Inr)
  let ?sel = "selected_evidence eids (dc_id cur) s"
  have ci: "dc_case_id dec = cid" by (simp add: dec id)
  have dist: "distinct ?sel" by (simp add: selected_evidence_def)
  have view: "decision_view E s' dec = decision_view E s1 dec"
    and evs: "set (dv_evidence_ids (decision_view E s' dec)) = set ?sel"
    using stored_evidence_ids [OF st assms(2), of E] by (simp_all add: s' decision_view_def decision_evidence_ids_def)
  have "get_current_decision E cid s' = get_current_decision E cid s1"
    by (simp add: s' get_current_decision_def decision_view_def decision_evidence_ids_def cong: option.case_cong)
  then have gc: "get_current_decision E cid s' = Inr (decision_view E s' dec)"
    using stored_is_current [OF st] c view by (simp add: ci)
  have sq: "dc_sequence dec = int (length (decision_sequences cid s)) + 1"
    using assms(2) numbered_max [of "decision_sequences cid s"]
    by (simp add: dec id decisions_ok_def flog.log_numbered_def decision_sequences_def)
  have mem: "\<exists>x\<in>set (db_evidence s). ev_id x = e \<and> ev_case_id x = cid" if "e \<in> set ?sel" for e
    using selected_covered [OF assms(4) dist _ that, of cid] cnt that by (auto simp: id)
  have "db_decisions s' = db_decisions s @ [dec]" using store_decision_Inr(1) [OF st] by (simp add: s')
  moreover have "verdict \<noteq> V_NEEDS_HUMAN_REVIEW \<longrightarrow> dv_evidence_ids (decision_view E s' dec) \<noteq> []"
    using v evs by fastforce
  moreover have "rv_decision_id rv = dc_id dec" by (simp add: rv r review_view_def)
  ultimately show ?thesis
    using create_review_ok [OF cr assms(2)] c cur gc sq mem evs
    by (intro conjI exI [of _ c] exI [of _ cur] exI [of _ dec]) (simp_all add: dec)
qed

section \<open>Repeated requests\<close>

lemma create_review_request_key:
  "create_review E now hex c reviewer verdict note eids k s = Inr (r, s') \<Longrightarrow>
     rw_request_key r = k \<and> db_reviews s' = db_reviews s @ [r] \<and> db_appeals s' = db_appeals s
     \<and> db_appeal_events s' = db_appeal_events s \<and> rw_id r \<notin> rw_id ` set (db_reviews s)"
  by (elim create_review_Inr) (auto dest: store_decision_Inr(1))

lemma review_again:
  assumes "create_review E now hex c reviewer verdict note eids k s = Inr (r, s')" and "find_review k s = None"
    and "db_reviews s2 = db_reviews s'"
  shows "find_review k s2 = Some r"
  using create_review_request_key [OF assms(1)] assms(2,3) by (simp add: find_review_def find_append)

lemma submit_appeal_body_cases:
  assumes "submit_appeal_body E now hex cid submitter statement k s = Inr (av, s')"
  obtains (again) "s' = s"
  | (new) c cur k' where "t_get ca_id cid (db_cases s) = Some c" and "ca_current_decision_id c = Some cur"
      and "ap_id (new_appeal (hex 0) now c k' submitter statement cur) \<notin> ap_id ` set (db_appeals s)"
      and "s' = s\<lparr>db_appeals := db_appeals s @ [new_appeal (hex 0) now c k' submitter statement cur],
                  db_appeal_events := db_appeal_events s @ [appeal_event_row (hex 1)
                    (ap_id (new_appeal (hex 0) now c k' submitter statement cur)) 1 AE_SUBMITTED submitter statement cur now],
                  db_cases := t_upd ca_id (ca_id c) (\<lambda>r. r\<lparr>ca_status := CS_NEEDS_HUMAN_REVIEW,
                    ca_updated_at := now\<rparr>) (db_cases s)\<rparr>"
proof (cases "find_appeal (key_or k (request_key_of E [JStr ''APPEAL'', JStr cid, JText submitter, JText statement])) s")
  case (Some a)
  then show ?thesis using assms again by (simp add: submit_appeal_body_def)
next
  case None
  then obtain c cur where c: "t_get ca_id cid (db_cases s) = Some c" "ca_current_decision_id c = Some cur"
    using assms by (auto simp: submit_appeal_body_def Let_def split: option.splits)
  show ?thesis
    by (rule new [OF c]; insert None assms c) (auto simp: submit_appeal_body_def Let_def table_simps t_get_None)
qed

lemma resolve_appeal_body_cases:
  assumes "resolve_appeal_body E now hex aid reviewer verdict note eids k s = Inr (rv, s')"
  obtains (again) r where "s' = s" and "find_review (resolution_key E aid reviewer verdict note eids k) s = Some r"
      and "rv = review_view r"
  | (new) a c r s1 where "find_review (resolution_key E aid reviewer verdict note eids k) s = None"
      and "t_get ap_id aid (db_appeals s) = Some a" and "ap_status a = AS_OPEN"
      and "t_get ca_id (ap_case_id a) (db_cases s) = Some c"
      and "create_review E now hex c reviewer verdict note eids (resolution_key E aid reviewer verdict note eids k) s = Inr (r, s1)"
      and "rv = review_view r"
      and "s' = s1\<lparr>db_appeal_events := db_appeal_events s1 @ [appeal_event_row (hex 2) aid 2 AE_RESOLVED
                     reviewer note (rw_decision_id r) now],
                   db_appeals := t_upd ap_id aid (close_appeal now (rw_id r)) (db_appeals s1)\<rparr>"
proof (cases "find_review (resolution_key E aid reviewer verdict note eids k) s")
  case (Some r)
  show ?thesis by (rule again [OF _ Some]; insert assms Some) (auto simp: resolve_appeal_body_def Let_def)
next
  case None
  then obtain a c where ac: "t_get ap_id aid (db_appeals s) = Some a" "ap_status a \<noteq> AS_RESOLVED"
      "t_get ca_id (ap_case_id a) (db_cases s) = Some c"
    using assms by (auto simp: resolve_appeal_body_def Let_def split: option.splits if_splits)
  then have op: "ap_status a = AS_OPEN" by (cases "ap_status a") auto
  have "ap_id a = aid" using t_get_Some [OF ac(1)] by simp
  then obtain r s1 where "create_review E now hex c reviewer verdict note eids (resolution_key E aid reviewer verdict note eids k) s = Inr (r, s1)"
    "rv = review_view r" "s' = s1\<lparr>db_appeal_events := db_appeal_events s1 @ [appeal_event_row (hex 2) aid 2 AE_RESOLVED
                     reviewer note (rw_decision_id r) now],
                   db_appeals := t_upd ap_id aid (close_appeal now (rw_id r)) (db_appeals s1)\<rparr>"
    using None ac op assms by (auto simp: resolve_appeal_body_def Let_def bindE_Inr_iff t_add_Inr)
  then show ?thesis by (rule new [OF None ac(1) op ac(3)])
qed

text \<open>
  Reviews and appeals are idempotent by request: repeating a successful submission, at any time
  and with any fresh values, returns the same review or appeal and leaves the database unchanged.
\<close>

theorem human_requests_idempotent:
  shows "(submit_review E now hex cid reviewer verdict note eids k s = (Inr rv, s') \<longrightarrow>
      submit_review E now2 hex2 cid reviewer verdict note eids k s' = (Inr rv, s'))
    \<and> (submit_appeal E now hex cid submitter statement k s = (Inr av, s') \<longrightarrow>
      fst (submit_appeal E now2 hex2 cid submitter statement k s') = Inr av
      \<and> snd (submit_appeal E now2 hex2 cid submitter statement k s') = s')
    \<and> (resolve_appeal E now hex aid reviewer verdict note eids k s = (Inr rv, s') \<longrightarrow>
      resolve_appeal E now2 hex2 aid reviewer verdict note eids k s' = (Inr rv, s'))"
proof (intro conjI impI)
  assume "submit_review E now hex cid reviewer verdict note eids k s = (Inr rv, s')"
  then have b: "submit_review_body E now hex cid reviewer verdict note eids k s = Inr (rv, s')"
    by (simp add: submit_review_def run_session_fst_Inr)
  then show "submit_review E now2 hex2 cid reviewer verdict note eids k s' = (Inr rv, s')"
  proof (cases rule: submit_review_body_cases)
    case (again r)
    then show ?thesis by (simp add: submit_review_def run_session_fst_Inr submit_review_body_def Let_def)
  next
    case (new c r)
    then show ?thesis using review_again [OF new(4,1) refl]
      by (simp add: submit_review_def run_session_fst_Inr submit_review_body_def Let_def)
  qed
next
  let ?k = "key_or k (request_key_of E [JStr ''APPEAL'', JStr cid, JText submitter, JText statement])"
  assume "submit_appeal E now hex cid submitter statement k s = (Inr av, s')"
  then have b: "submit_appeal_body E now hex cid submitter statement k s = Inr (av, s')"
    by (simp add: submit_appeal_def run_session_fst_Inr)
  have "\<exists>a. find_appeal ?k s' = Some a \<and> av = appeal_view a"
  proof (cases "find_appeal ?k s")
    case (Some a)
    then show ?thesis using b by (auto simp: submit_appeal_body_def)
  next
    case None
    then show ?thesis using b
      by (auto simp: submit_appeal_body_def Let_def table_simps find_appeal_def find_append new_appeal_def split: option.splits)
  qed
  then have "submit_appeal_body E now2 hex2 cid submitter statement k s' = Inr (av, s')"
    by (auto simp: submit_appeal_body_def)
  then show "fst (submit_appeal E now2 hex2 cid submitter statement k s') = Inr av"
    and "snd (submit_appeal E now2 hex2 cid submitter statement k s') = s'"
    by (simp_all add: submit_appeal_def)
next
  let ?k = "resolution_key E aid reviewer verdict note eids k"
  assume "resolve_appeal E now hex aid reviewer verdict note eids k s = (Inr rv, s')"
  then have b: "resolve_appeal_body E now hex aid reviewer verdict note eids k s = Inr (rv, s')"
    by (simp add: resolve_appeal_def run_session_fst_Inr)
  have "\<exists>r. find_review ?k s' = Some r \<and> rv = review_view r"
    using b
  proof (cases rule: resolve_appeal_body_cases)
    case (again r)
    then show ?thesis by blast
  next
    case (new a c r s1)
    then show ?thesis using review_again [OF new(5,1), of s'] by simp
  qed
  then show "resolve_appeal E now2 hex2 aid reviewer verdict note eids k s' = (Inr rv, s')"
    by (auto simp: resolve_appeal_def run_session_fst_Inr resolve_appeal_body_def)
qed

section \<open>The governance machine\<close>

text \<open>The operations that write formal decisions and appeals, as steps of one machine.\<close>

inductive gov_step :: "db \<Rightarrow> db \<Rightarrow> bool" where
  gov_finalize: "finalize_body E1 n1 h1 c1 item allow org s = Inr (d, s') \<Longrightarrow> gov_step s s'"
| gov_review: "submit_review_body E2 n2 h2 c2 rv2 v2 note2 ids2 k2 s = Inr (r2, s') \<Longrightarrow> gov_step s s'"
| gov_appeal: "submit_appeal_body E3 n3 h3 c3 sub3 st3 k3 s = Inr (a3, s') \<Longrightarrow> gov_step s s'"
| gov_resolve: "resolve_appeal_body E4 n4 h4 a4 rv4 v4 note4 ids4 k4 s = Inr (r4, s') \<Longrightarrow> gov_step s s'"

inductive_cases gov_stepE: "gov_step s s'"

lemma finalize_body_frame:
  assumes "finalize_body E now hex cid item allow org s = Inr (d, s')"
  shows "db_appeals s' = db_appeals s \<and> db_appeal_events s' = db_appeal_events s \<and> db_reviews s' = db_reviews s"
proof -
  have ag: "db_appeals s' = db_appeals s \<and> db_appeal_events s' = db_appeal_events s \<and> db_reviews s' = db_reviews s"
    if "aggregate_all E now cfg org item rs s = Inr (os, s')" for cfg rs s os s'
    using that
  proof (induction rs arbitrary: s os)
    case Nil
    then show ?case by simp
  next
    case (Cons r rs)
    then obtain out s1 os' where a: "aggregate E now r cfg (org (rm_requirement_key r)) item s = Inr (out, s1)"
      and b: "aggregate_all E now cfg org item rs s1 = Inr (os', s')"
      by (auto simp: bindE_Inr_iff)
    show ?case using Cons.IH [OF b] aggregate_frame [OF a] by simp
  qed
  have cc: "db_appeals s' = db_appeals s \<and> db_appeal_events s' = db_appeal_events s \<and> db_reviews s' = db_reviews s"
    if "conclude_case E now hex c run os ev item s = Inr (d, s')" for c run os ev s s'
    using that by (cases rule: conclude_case_cases) (auto dest: store_decision_Inr(1))
  from assms show ?thesis
    by (cases rule: finalize_body_cases) (metis ag cc)
qed

text \<open>Decisions as the log of this larger machine.\<close>

lemma store_decision_log:
  assumes "store_decision now rec rids eids s = Inr s'"
    and "dc_sequence rec = max_or_0 (decision_sequences (dc_case_id rec) s) + 1"
  shows "\<exists>r. db_decisions s' = db_decisions s @ [r]
      \<and> dc_sequence r = max_or_0 (map dc_sequence (filter (\<lambda>x. dc_case_id x = dc_case_id r) (db_decisions s))) + 1"
  using store_decision_Inr(1) [OF assms(1)] assms(2) by (simp add: decision_sequences_def)

lemma create_review_log:
  assumes "create_review E now hex c reviewer verdict note eids k s = Inr (r, s')"
  shows "\<exists>r. db_decisions s' = db_decisions s @ [r]
      \<and> dc_sequence r = max_or_0 (map dc_sequence (filter (\<lambda>x. dc_case_id x = dc_case_id r) (db_decisions s))) + 1"
  using assms by (elim create_review_Inr) (drule store_decision_log, simp_all)

interpretation glog: sequence_log db_decisions dc_case_id dc_sequence gov_step
proof
  fix s s' assume "gov_step s s'"
  then show "db_decisions s' = db_decisions s \<or> (\<exists>r. db_decisions s' = db_decisions s @ [r]
      \<and> dc_sequence r = max_or_0 (map dc_sequence (filter (\<lambda>x. dc_case_id x = dc_case_id r) (db_decisions s))) + 1)"
  proof cases
    case gov_finalize
    note f = this
    have "finalize_step s s'" unfolding finalize_step_def by (intro exI) (rule f)
    then show ?thesis by (rule flog.step_appends)
  next
    case gov_review
    then show ?thesis by (cases rule: submit_review_body_cases) (use create_review_log in blast)+
  next
    case gov_appeal
    then show ?thesis by (cases rule: submit_appeal_body_cases) simp_all
  next
    case gov_resolve
    then show ?thesis
    proof (cases rule: resolve_appeal_body_cases)
      case (new a c r s1)
      then show ?thesis using create_review_log [OF new(5)] by simp
    qed simp
  qed
qed

text \<open>
  C7. Formal decisions are history. Over any run of finalizations, reviews, appeals and resolutions
  no decision row is rewritten or removed, and the decisions of each case are numbered 1, 2, 3, ..
\<close>

theorem decisions_append_only:
  assumes "gov_step\<^sup>*\<^sup>* s s'"
  shows "(\<exists>new. db_decisions s' = db_decisions s @ new)
    \<and> ((\<forall>cid. numbered (decision_sequences cid s)) \<longrightarrow> (\<forall>cid. numbered (decision_sequences cid s')))"
  using glog.steps_log [OF assms] by (simp add: glog.log_numbered_def decision_sequences_def)

section \<open>The life of an appeal\<close>

text \<open>The events of an appeal, as pairs of number and type.\<close>

definition events_of :: "string \<Rightarrow> db \<Rightarrow> (int \<times> AppealEventType) list" where
  "events_of aid s = map (\<lambda>e. (ae_sequence e, ae_event_type e)) (filter (\<lambda>e. ae_appeal_id e = aid) (db_appeal_events s))"

definition appeal_ok :: "db \<Rightarrow> AppealRecord \<Rightarrow> bool" where
  "appeal_ok s a \<longleftrightarrow> (case ap_status a of
     AS_OPEN \<Rightarrow> events_of (ap_id a) s = [(1, AE_SUBMITTED)] \<and> ap_resolution_review_id a = None
   | AS_RESOLVED \<Rightarrow> events_of (ap_id a) s = [(1, AE_SUBMITTED), (2, AE_RESOLVED)]
       \<and> (\<exists>r\<in>set (db_reviews s). ap_resolution_review_id a = Some (rw_id r) \<and> rw_case_id r = ap_case_id a))"

definition appeals_ok :: "db \<Rightarrow> bool" where
  "appeals_ok s \<longleftrightarrow> keys_distinct ap_id (db_appeals s) \<and> (\<forall>a\<in>set (db_appeals s). appeal_ok s a)
     \<and> ae_appeal_id ` set (db_appeal_events s) \<subseteq> ap_id ` set (db_appeals s)"

lemma appeal_ok_frame:
  "appeal_ok s a \<Longrightarrow> db_appeal_events s' = db_appeal_events s \<Longrightarrow> set (db_reviews s) \<subseteq> set (db_reviews s') \<Longrightarrow> appeal_ok s' a"
  by (auto simp: appeal_ok_def events_of_def split: AppealStatus.splits)

lemma appeals_ok_frame:
  assumes "appeals_ok s" "db_appeals s' = db_appeals s" "db_appeal_events s' = db_appeal_events s"
    "set (db_reviews s) \<subseteq> set (db_reviews s')"
  shows "appeals_ok s'"
  using assms appeal_ok_frame by (auto simp: appeals_ok_def)

lemma events_of_snoc:
  "db_appeal_events s' = db_appeal_events s @ [e] \<Longrightarrow>
     events_of i s' = events_of i s @ (if ae_appeal_id e = i then [(ae_sequence e, ae_event_type e)] else [])"
  by (simp add: events_of_def)

lemma events_of_unknown:
  "appeals_ok s \<Longrightarrow> i \<notin> ap_id ` set (db_appeals s) \<Longrightarrow> events_of i s = []"
  by (auto simp: appeals_ok_def events_of_def filter_empty_conv)

lemma new_appeal_simps [simp]:
  "ap_status (new_appeal h now c k sb st cur) = AS_OPEN"
  "ap_resolution_review_id (new_appeal h now c k sb st cur) = None"
  by (simp_all add: new_appeal_def)

lemma appeal_event_row_simps [simp]:
  "ae_appeal_id (appeal_event_row h i q ty ac n d now) = i"
  "ae_sequence (appeal_event_row h i q ty ac n d now) = q"
  "ae_event_type (appeal_event_row h i q ty ac n d now) = ty"
  "ae_decision_id (appeal_event_row h i q ty ac n d now) = Some d"
  by (simp_all add: appeal_event_row_def)

lemma close_appeal_simps [simp]:
  "ap_id (close_appeal now r a) = ap_id a" "ap_status (close_appeal now r a) = AS_RESOLVED"
  "ap_case_id (close_appeal now r a) = ap_case_id a"
  "ap_resolution_review_id (close_appeal now r a) = Some r"
  by (simp_all add: close_appeal_def)

lemma submit_appeal_ok:
  assumes "submit_appeal_body E now hex cid submitter statement k s = Inr (av, s')" and "appeals_ok s"
  shows "appeals_ok s'"
  using assms(1)
proof (cases rule: submit_appeal_body_cases)
  case again
  then show ?thesis using assms(2) by simp
next
  case (new c cur k')
  let ?a = "new_appeal (hex 0) now c k' submitter statement cur"
  let ?e = "appeal_event_row (hex 1) (ap_id ?a) 1 AE_SUBMITTED submitter statement cur now"
  have ev: "db_appeal_events s' = db_appeal_events s @ [?e]" and rvs: "db_reviews s' = db_reviews s" by (simp_all add: new(4))
  have old: "appeal_ok s' a" if a: "a \<in> set (db_appeals s)" for a
  proof -
    have "ap_id a \<noteq> ap_id ?a" using new(3) a by (auto simp: rev_image_eqI)
    moreover have "appeal_ok s a" using assms(2) a by (simp add: appeals_ok_def)
    ultimately show ?thesis
      by (simp add: appeal_ok_def events_of_snoc [OF ev] rvs split: AppealStatus.splits)
  qed
  have "appeal_ok s' ?a"
    using events_of_unknown [OF assms(2) new(3)] by (simp add: appeal_ok_def events_of_snoc [OF ev])
  then show ?thesis using old assms(2) new(3) by (auto simp: appeals_ok_def new(4) keys_distinct_def)
qed

lemma resolve_appeal_ok:
  assumes "resolve_appeal_body E now hex aid reviewer verdict note eids k s = Inr (rv, s')" and "appeals_ok s"
  shows "appeals_ok s'"
  using assms(1)
proof (cases rule: resolve_appeal_body_cases)
  case (again r)
  then show ?thesis using assms(2) by simp
next
  case (new a c r s1)
  note fr = create_review_request_key [OF new(5)]
  have aid: "a \<in> set (db_appeals s)" "ap_id a = aid" using t_get_Some [OF new(2)] by auto
  have rc: "rw_case_id r = ap_case_id a"
    using new(5) t_get_Some [OF new(4)] by (elim create_review_Inr) simp
  let ?e = "appeal_event_row (hex 2) aid 2 AE_RESOLVED reviewer note (rw_decision_id r) now"
  have ev: "db_appeal_events s' = db_appeal_events s @ [?e]" using fr by (simp add: new(7))
  have ap: "db_appeals s' = t_upd ap_id aid (close_appeal now (rw_id r)) (db_appeals s)" using fr by (simp add: new(7))
  have rvs: "db_reviews s' = db_reviews s @ [r]" using fr by (simp add: new(7))
  have kd: "keys_distinct ap_id (db_appeals s)" using assms(2) by (simp add: appeals_ok_def)
  have "appeal_ok s' b" if b: "b \<in> set (db_appeals s')" for b
  proof -
    from b obtain x where x: "x \<in> set (db_appeals s)" "b = (if ap_id x = aid then close_appeal now (rw_id r) x else x)"
      by (auto simp: ap t_upd_def)
    have ok: "appeal_ok s x" using x assms(2) by (simp add: appeals_ok_def)
    show ?thesis
    proof (cases "ap_id x = aid")
      case True
      then have "x = a" using tbl.wf_unique [OF kd x(1) aid(1)] aid(2) by simp
      then show ?thesis using ok True new(3) x(2) rc by (simp add: appeal_ok_def events_of_snoc [OF ev] rvs)
    next
      case False
      then show ?thesis using ok x(2)
        by (auto simp: appeal_ok_def events_of_snoc [OF ev] rvs split: AppealStatus.splits)
    qed
  qed
  moreover have "keys_distinct ap_id (db_appeals s')" using kd by (simp add: ap keys_distinct_def map_key_upd)
  moreover have "ae_appeal_id ` set (db_appeal_events s') \<subseteq> ap_id ` set (db_appeals s')"
  proof -
    have "ap_id ` set (db_appeals s') = ap_id ` set (db_appeals s)"
      by (metis ap close_appeal_simps(1) list.set_map map_key_upd)
    then show ?thesis using assms(2) aid by (auto simp: appeals_ok_def ev)
  qed
  ultimately show ?thesis by (simp add: appeals_ok_def)
qed

text \<open>
  C8. Over any run of the governance machine from a well-formed state, every appeal is either open
  with the single event SUBMITTED, or resolved with exactly the events SUBMITTED and RESOLVED,
  numbered 1 and 2, and the review that resolved it, of the same case: an appeal is resolved once.
\<close>

theorem appeals_resolved_once:
  assumes "gov_step\<^sup>*\<^sup>* s s'" and "appeals_ok s"
  shows "appeals_ok s'"
  using assms
proof (induction rule: rtranclp_induct)
  case base
  then show ?case by simp
next
  case (step y z)
  have ok: "appeals_ok y" using step by simp
  from step(2) show ?case
  proof cases
    case gov_finalize
    note f = finalize_body_frame [OF this]
    show ?thesis using appeals_ok_frame [OF ok, of z] f by simp
  next
    case gov_review
    then show ?thesis
    proof (cases rule: submit_review_body_cases)
      case (new c r)
      then show ?thesis using appeals_ok_frame [OF ok, of z] create_review_request_key [OF new(4)] by auto
    qed (use ok in simp)
  next
    case gov_appeal
    then show ?thesis using submit_appeal_ok ok by blast
  next
    case gov_resolve
    then show ?thesis using resolve_appeal_ok ok by blast
  qed
qed

section \<open>Evaluating again after a human decision\<close>

lemma create_review_basis:
  assumes "create_review E now hex c reviewer verdict note eids k s = Inr (r, s')"
    and "t_get ca_id cid (db_cases s) = Some c0"
  shows "same_basis s s' \<and> (\<exists>c2. t_get ca_id cid (db_cases s') = Some c2 \<and> ca_policy_id c2 = ca_policy_id c0
      \<and> ca_policy_version c2 = ca_policy_version c0)"
  using assms
proof (elim create_review_Inr)
  fix cur dec s1
  assume st: "store_decision now dec (case_result_ids (ca_id c) s) (selected_evidence eids (dc_id cur) s) s = Inr s1"
    and s': "s' = s1\<lparr>db_reviews := db_reviews s1 @ [r]\<rparr>"
  show ?thesis
    using store_decision_Inr(1) [OF st] assms(2)
    by (auto simp: s' same_basis_def same_sources_def t_get_upd option.map_comp comp_def)
qed

lemma create_review_current:
  assumes "create_review E now hex c reviewer verdict note eids k s = Inr (r, s')"
    and "t_get ca_id (ca_id c) (db_cases s) = Some c0"
  shows "\<exists>dec. db_decisions s' = db_decisions s @ [dec] \<and> dc_source dec = DS_HUMAN
    \<and> get_current_decision E (ca_id c) s' = Inr (decision_view E s' dec)"
  using assms(1)
proof (elim create_review_Inr)
  fix cur dec s1
  assume st: "store_decision now dec (case_result_ids (ca_id c) s) (selected_evidence eids (dc_id cur) s) s = Inr s1"
    and d: "dec = human_decision_row E (hex 0) now c reviewer verdict note (selected_evidence eids (dc_id cur) s) k
           (max_or_0 (decision_sequences (ca_id c) s) + 1) cur"
    and s': "s' = s1\<lparr>db_reviews := db_reviews s1 @ [r]\<rparr>"
  have ci: "dc_case_id dec = ca_id c" by (simp add: d)
  have "get_current_decision E (ca_id c) s1 = Inr (decision_view E s1 dec)"
    using stored_is_current [OF st] assms(2) ci by simp
  moreover have "get_current_decision E (ca_id c) s' = get_current_decision E (ca_id c) s1"
    by (simp add: s' get_current_decision_def decision_view_def decision_evidence_ids_def cong: option.case_cong)
  moreover have "decision_view E s' dec = decision_view E s1 dec"
    by (simp add: s' decision_view_def decision_evidence_ids_def)
  ultimately show ?thesis using store_decision_Inr(1) [OF st] by (intro exI [of _ dec]) (simp add: s' d)
qed

text \<open>
  C12. Re-evaluating a case whose inputs have not changed makes the earlier machine decision current
  again even when a human has decided in between: the guard that protects human decisions is not
  reached on this path.
\<close>

theorem reevaluation_displaces_human_decision:
  assumes "finalize_case E now hex cid item allow org s = (Inr d, s1)"
    and "decisions_ok s" and "keys_distinct rm_id (db_requirements s)"
    and "submit_review E now2 hexs cid reviewer verdict note eids k s1 = (Inr rv, s2)"
    and "find_review (review_request_key E cid reviewer verdict note eids k) s1 = None"
  shows "(\<exists>d2. get_current_decision E cid s2 = Inr d2 \<and> dv_source d2 = DS_HUMAN)
    \<and> (\<exists>d3 s3. finalize_case E now3 hex3 cid item3 allow org3 s2 = (Inr d3, s3)
         \<and> get_current_decision E cid s3 = Inr d3
         \<and> dv_source d3 = DS_MACHINE \<and> dv_decision_id d3 = dv_decision_id d)"
proof -
  have x: "finalize_body E now hex cid item allow org s = Inr (d, s1)"
    using assms(1) by (simp add: finalize_case_def run_session_fst_Inr)
  have ok1: "decisions_ok s1" using finalize_case_result [OF assms(1,2)] by simp
  let ?k = "review_request_key E cid reviewer verdict note eids k"
  have "submit_review_body E now2 hexs cid reviewer verdict note eids k s1 = Inr (rv, s2)"
    using assms(4) by (simp add: submit_review_def run_session_fst_Inr)
  with assms(5) obtain c r where c: "t_get ca_id cid (db_cases s1) = Some c"
    and cr: "create_review E now2 hexs c reviewer verdict note eids ?k s1 = Inr (r, s2)"
    by (auto elim: submit_review_body_cases)
  have ok2: "decisions_ok s2" by (rule create_review_ok [OF cr ok1])
  have id: "ca_id c = cid" using t_get_Some [OF c] by simp
  obtain dec where dec: "db_decisions s2 = db_decisions s1 @ [dec]" "dc_source dec = DS_HUMAN"
      "get_current_decision E cid s2 = Inr (decision_view E s2 dec)"
    using create_review_current [OF cr] c id by auto
  obtain c2 where sb: "same_basis s1 s2" and c2: "t_get ca_id cid (db_cases s2) = Some c2"
    and pc: "ca_policy_id c2 = ca_policy_id c" "ca_policy_version c2 = ca_policy_version c"
    using create_review_basis [OF cr c] by blast
  have pol: "ca_policy_id c2 = ca_policy_id c' \<and> ca_policy_version c2 = ca_policy_version c'"
    if "t_get ca_id cid (db_cases s1) = Some c'" for c' :: CaseRecord using c pc that by simp
  have dk: "keys_distinct dc_id (db_decisions s)" using assms(2) by (simp add: decisions_ok_def)
  obtain os ev existing where
    e: "find_machine_decision cid ev s1 = Some existing" "d = decision_view E s1 existing"
    and again: "\<And>now2 hex2 item2 org2. finalize_body E now2 hex2 cid item2 allow org2 s2
       = conclude_case E now2 hex2 c2 (investigation_of cid s2) os ev item2 s2"
    by (rule finalize_body_again [OF x assms(3) dk sb c2 pol]) (assumption, rule that, assumption, assumption, blast)
  have id2: "ca_id c2 = cid" using t_get_Some [OF c2] by simp
  have f2: "find_machine_decision (ca_id c2) ev s2 = Some existing"
    using e(1) by (simp add: id2 find_machine_decision_def dec(1) find_append)
  obtain d3 s3 where cc: "conclude_case E now3 hex3 c2 (investigation_of cid s2) os ev item3 s2 = Inr (d3, s3)"
    and "d3 = decision_view E s3 existing"
    using conclude_case_found [OF f2] by (simp add: Let_def)
  then have d3: "dv_decision_id d3 = dv_decision_id d" using e(2) by simp
  have "get_current_decision E cid s3 = Inr d3 \<and> dv_source d3 = DS_MACHINE"
    using conclude_case_current [OF cc ok2] c2 by (simp add: id2)
  moreover have "finalize_case E now3 hex3 cid item3 allow org3 s2 = (Inr d3, s3)"
    using again cc by (simp add: finalize_case_def)
  ultimately show ?thesis using dec d3 by auto
qed

section \<open>Worked instances\<close>

lemma demo_reviewed:
  "\<exists>d s1 rv s2. finalize_case demo_env 9 ''x'' ''c1'' None False Map.empty demo_case_db = (Inr d, s1)
     \<and> decisions_ok s1 \<and> db_evidence s1 = demo_evidence \<and> db_reviews s1 = [] \<and> db_appeals s1 = [] \<and> db_appeal_events s1 = []
     \<and> submit_review demo_env 20 (\<lambda>i. ''h'') ''c1'' (u ''ann'') V_APPROVE (u ''fine'') (Some [''e1'']) None s1 = (Inr rv, s2)"
proof -
  obtain d s1 c where f: "finalize_case demo_env 9 ''x'' ''c1'' None False Map.empty demo_case_db = (Inr d, s1)"
    and ok: "decisions_ok s1" and ids: "map dc_id (db_decisions s1) = [''decision_x'']" and ev: "db_evidence s1 = demo_evidence"
    and rv: "db_reviews s1 = []" and ap: "db_appeals s1 = []" "db_appeal_events s1 = []"
    and rq: "length (db_requirements s1) = 1" and c: "db_cases s1 = [c]" "ca_id c = ''c1''" "ca_current_decision_id c = Some ''decision_x''"
    using demo_finalized by (elim exE conjE) (rule that; assumption)
  obtain dec where dec: "db_decisions s1 = [dec]" "dc_id dec = ''decision_x''" using ids by auto
  have cur: "current_decision c s1 = Some dec" by (simp add: current_decision_def c dec t_get_Cons)
  have sel: "selected_evidence (Some [''e1'']) did s1 = [''e1'']" for did
    by (simp add: selected_evidence_def truthy_def sorted_uniq_def)
  let ?k = "review_request_key demo_env ''c1'' (u ''ann'') V_APPROVE (u ''fine'') (Some [''e1'']) None"
  let ?dec = "human_decision_row demo_env ''h'' 20 c (u ''ann'') V_APPROVE (u ''fine'') [''e1''] ?k
      (max_or_0 (decision_sequences ''c1'' s1) + 1) dec"
  have "distinct (case_result_ids ''c1'' s1)"
    using rq by (cases "db_requirements s1") (auto simp: case_result_ids_def map_filter_simps split: option.splits)
  moreover have "''decision_h'' \<notin> dr_decision_id ` set (db_decision_results s1)"
    "''decision_h'' \<notin> de_decision_id ` set (db_decision_evidence s1)"
    using ok dec by (auto simp: decisions_ok_def)
  ultimately obtain s2 where st: "store_decision 20 ?dec (case_result_ids ''c1'' s1) [''e1''] s1 = Inr s2"
    using store_decision_total [of ?dec s1 "case_result_ids ''c1'' s1" "[''e1'']" 20] dec
    by auto
  have r2: "db_reviews s2 = []" using store_decision_Inr(1) [OF st] rv by simp
  have nb: "\<not> is_blank (u ''ann'')" "\<not> is_blank (u ''fine'')" by (simp_all add: is_blank_iff u_def py_isspace_def)
  have "\<exists>rv' s2. submit_review demo_env 20 (\<lambda>i. ''h'') ''c1'' (u ''ann'') V_APPROVE (u ''fine'') (Some [''e1'']) None s1 = (Inr rv', s2)"
    using st r2 nb
    by (simp add: submit_review_def run_session_fst_Inr submit_review_body_def find_review_def rv t_get_Cons c
        create_review_def cur sel Let_def ev demo_evidence_def t_add_def)
  then obtain rv' s2' where "submit_review demo_env 20 (\<lambda>i. ''h'') ''c1'' (u ''ann'') V_APPROVE (u ''fine'') (Some [''e1'']) None s1 = (Inr rv', s2')"
    by (elim exE)
  with f ok ev rv ap show ?thesis by (intro exI conjI)
qed

lemma submit_review_decides_witness:
  "\<exists>s1 rv s2. submit_review demo_env 20 (\<lambda>i. ''h'') ''c1'' (u ''ann'') V_APPROVE (u ''fine'') (Some [''e1'']) None s1 = (Inr rv, s2)
     \<and> decisions_ok s2"
proof -
  obtain d s1 rv s2 where ok: "decisions_ok s1" and ev: "db_evidence s1 = demo_evidence" and rs: "db_reviews s1 = []"
    and sr: "submit_review demo_env 20 (\<lambda>i. ''h'') ''c1'' (u ''ann'') V_APPROVE (u ''fine'') (Some [''e1'']) None s1 = (Inr rv, s2)"
    using demo_reviewed by (elim exE conjE) (rule that; assumption)
  have "keys_distinct ev_id (db_evidence s1)" using demo_evidence_distinct by (simp add: ev)
  from submit_review_decides [OF sr ok _ this] sr show ?thesis by (auto simp: find_review_def rs)
qed

lemma human_requests_idempotent_witness:
  "\<exists>s1 rv s2. submit_review demo_env 20 (\<lambda>i. ''h'') ''c1'' (u ''ann'') V_APPROVE (u ''fine'') (Some [''e1'']) None s1 = (Inr rv, s2)
     \<and> submit_review demo_env 21 (\<lambda>i. ''z'') ''c1'' (u ''ann'') V_APPROVE (u ''fine'') (Some [''e1'']) None s2 = (Inr rv, s2)"
proof -
  obtain d s1 rv s2 where sr: "submit_review demo_env 20 (\<lambda>i. ''h'') ''c1'' (u ''ann'') V_APPROVE (u ''fine'') (Some [''e1'']) None s1 = (Inr rv, s2)"
    using demo_reviewed by (elim exE conjE) (rule that; assumption)
  from human_requests_idempotent [THEN conjunct1, rule_format, OF sr] sr show ?thesis by (intro exI conjI)
qed

lemma decisions_append_only_witness:
  "\<exists>s'. gov_step\<^sup>*\<^sup>* demo_case_db s' \<and> (\<forall>cid. numbered (decision_sequences cid s')) \<and> db_decisions s' \<noteq> []"
proof -
  obtain d s' where f: "finalize_case demo_env 9 ''x'' ''c1'' None False Map.empty demo_case_db = (Inr d, s')"
    and n: "map dc_id (db_decisions s') = [''decision_x'']"
    using demo_finalized by (elim exE conjE) (rule that; assumption)
  then have "finalize_body demo_env 9 ''x'' ''c1'' None False Map.empty demo_case_db = Inr (d, s')"
    by (simp add: finalize_case_def run_session_fst_Inr)
  then have g: "gov_step\<^sup>*\<^sup>* demo_case_db s'" by (intro r_into_rtranclp) (rule gov_finalize)
  from decisions_append_only [OF g] g n show ?thesis by (auto simp: decision_sequences_def)
qed

lemma appeals_resolved_once_witness:
  "\<exists>s'. gov_step\<^sup>*\<^sup>* demo_case_db s' \<and> appeals_ok s' \<and> s' \<noteq> demo_case_db"
proof -
  obtain d s' where f: "finalize_case demo_env 9 ''x'' ''c1'' None False Map.empty demo_case_db = (Inr d, s')"
    and n: "map dc_id (db_decisions s') = [''decision_x'']"
    using demo_finalized by (elim exE conjE) (rule that; assumption)
  then have "finalize_body demo_env 9 ''x'' ''c1'' None False Map.empty demo_case_db = Inr (d, s')"
    by (simp add: finalize_case_def run_session_fst_Inr)
  then have g: "gov_step\<^sup>*\<^sup>* demo_case_db s'" by (intro r_into_rtranclp) (rule gov_finalize)
  have "appeals_ok demo_case_db" by (simp add: appeals_ok_def keys_distinct_def)
  from appeals_resolved_once [OF g this] g n show ?thesis by auto
qed

lemma reevaluation_displaces_human_decision_witness:
  "\<exists>s2 d2 d3 s3. get_current_decision demo_env ''c1'' s2 = Inr d2 \<and> dv_source d2 = DS_HUMAN
     \<and> finalize_case demo_env 30 ''y'' ''c1'' None False Map.empty s2 = (Inr d3, s3)
     \<and> get_current_decision demo_env ''c1'' s3 = Inr d3 \<and> dv_source d3 = DS_MACHINE"
proof -
  obtain d s1 rv s2 where f: "finalize_case demo_env 9 ''x'' ''c1'' None False Map.empty demo_case_db = (Inr d, s1)"
    and rs: "db_reviews s1 = []"
    and sr: "submit_review demo_env 20 (\<lambda>i. ''h'') ''c1'' (u ''ann'') V_APPROVE (u ''fine'') (Some [''e1'']) None s1 = (Inr rv, s2)"
    using demo_reviewed by (elim exE conjE) (rule that; assumption)
  have "keys_distinct rm_id (db_requirements demo_case_db)" by (simp add: keys_distinct_def)
  from reevaluation_displaces_human_decision [OF f demo_decisions_ok this sr, of 30 "''y''" None Map.empty]
  show ?thesis by (auto simp: find_review_def rs)
qed

end
