(* ===== verification/Jobs.thy ===== *)
theory Jobs
  imports Store
begin

text \<open>
  The task runtime: \<open>evistream/config.py\<close> (the settings the modelled code reads),
  \<open>evistream/application/types.py\<close>, \<open>evistream/jobs/types.py\<close>, \<open>evistream/jobs/service.py\<close> and the
  repository of \<open>evistream/jobs/runtime.py\<close>. The queue itself only carries job identifiers; what
  may run is decided by the rows of \<open>processing_jobs\<close>.
\<close>

section \<open>Settings and requests\<close>

record Settings =
  cfg_model_profile :: string
  cfg_upload_max_bytes :: int
  cfg_video_max_duration_seconds :: int
  cfg_video_max_width :: int
  cfg_video_max_height :: int
  cfg_process_timeout_seconds :: rat
  cfg_simulated_stream_segment_seconds :: int
  cfg_media_job_lease_seconds :: int
  cfg_retrieval_rrf_k :: int
  cfg_retrieval_candidate_limit :: int
  cfg_retrieval_context_ms :: int
  cfg_tool_clip_max_seconds :: int
  cfg_agent_max_iterations :: int
  cfg_agent_max_vlm_calls :: int
  cfg_agent_max_consecutive_tool_failures :: int
  cfg_agent_max_stagnant_iterations :: int
  cfg_agent_timeout_seconds :: int
  cfg_agent_job_lease_seconds :: int
  cfg_agent_inspection_frame_count :: int
  cfg_task_dispatcher :: string
  cfg_rq_job_timeout_seconds :: int
  cfg_rq_result_ttl_seconds :: int
  cfg_job_max_attempts :: int
  cfg_job_retry_intervals :: "int list"
  cfg_job_requeue_batch_size :: int
  cfg_auto_triage :: bool
  cfg_triage_max_frames :: int
  cfg_triage_max_text_chars :: int

text \<open>The \<open>Field\<close> bounds of those settings.\<close>

definition valid_Settings :: "Settings \<Rightarrow> bool" where
  "valid_Settings C \<longleftrightarrow> 0 < cfg_process_timeout_seconds C \<and> cfg_process_timeout_seconds C \<le> 600
     \<and> 0 \<le> cfg_retrieval_context_ms C
     \<and> 0 < cfg_tool_clip_max_seconds C \<and> cfg_tool_clip_max_seconds C \<le> 300
     \<and> 0 < cfg_simulated_stream_segment_seconds C \<and> 0 < cfg_media_job_lease_seconds C
     \<and> 0 < cfg_retrieval_rrf_k C
     \<and> 20 \<le> cfg_retrieval_candidate_limit C \<and> cfg_retrieval_candidate_limit C \<le> 1000
     \<and> 1 \<le> cfg_agent_max_iterations C \<and> cfg_agent_max_iterations C \<le> 50
     \<and> 1 \<le> cfg_agent_max_vlm_calls C \<and> cfg_agent_max_vlm_calls C \<le> 100
     \<and> 1 \<le> cfg_agent_max_consecutive_tool_failures C \<and> cfg_agent_max_consecutive_tool_failures C \<le> 20
     \<and> 1 \<le> cfg_agent_max_stagnant_iterations C \<and> cfg_agent_max_stagnant_iterations C \<le> 20
     \<and> 10 \<le> cfg_agent_timeout_seconds C \<and> cfg_agent_timeout_seconds C \<le> 3600
     \<and> 10 \<le> cfg_agent_job_lease_seconds C \<and> cfg_agent_job_lease_seconds C \<le> 3600
     \<and> 1 \<le> cfg_agent_inspection_frame_count C \<and> cfg_agent_inspection_frame_count C \<le> 8
     \<and> (cfg_task_dispatcher C = ''inline'' \<or> cfg_task_dispatcher C = ''rq'')
     \<and> 10 \<le> cfg_rq_job_timeout_seconds C \<and> cfg_rq_job_timeout_seconds C \<le> 86400 \<and> 0 \<le> cfg_rq_result_ttl_seconds C
     \<and> 1 \<le> cfg_job_max_attempts C \<and> cfg_job_max_attempts C \<le> 10
     \<and> 1 \<le> cfg_job_requeue_batch_size C \<and> cfg_job_requeue_batch_size C \<le> 1000
     \<and> 0 < cfg_upload_max_bytes C \<and> 0 < cfg_video_max_duration_seconds C
     \<and> 0 < cfg_video_max_width C \<and> 0 < cfg_video_max_height C
     \<and> 0 \<le> cfg_triage_max_frames C \<and> cfg_triage_max_frames C \<le> 8
     \<and> 100 \<le> cfg_triage_max_text_chars C \<and> cfg_triage_max_text_chars C \<le> 100000"

definition default_settings :: Settings where
  "default_settings = \<lparr> cfg_model_profile = ''mock'', cfg_upload_max_bytes = 2 * 1024 * 1024 * 1024,
     cfg_video_max_duration_seconds = 3600, cfg_video_max_width = 3840, cfg_video_max_height = 2160,
     cfg_process_timeout_seconds = 30, cfg_simulated_stream_segment_seconds = 10, cfg_media_job_lease_seconds = 3600,
     cfg_retrieval_rrf_k = 60, cfg_retrieval_candidate_limit = 100,
     cfg_retrieval_context_ms = 10000, cfg_tool_clip_max_seconds = 30,
     cfg_agent_max_iterations = 6, cfg_agent_max_vlm_calls = 8,
     cfg_agent_max_consecutive_tool_failures = 3, cfg_agent_max_stagnant_iterations = 2,
     cfg_agent_timeout_seconds = 300, cfg_agent_job_lease_seconds = 120,
     cfg_agent_inspection_frame_count = 4, cfg_task_dispatcher = ''inline'', cfg_rq_job_timeout_seconds = 3600,
     cfg_rq_result_ttl_seconds = 0, cfg_job_max_attempts = 3,
     cfg_job_retry_intervals = [5, 30], cfg_job_requeue_batch_size = 100,
     cfg_auto_triage = True, cfg_triage_max_frames = 4, cfg_triage_max_text_chars = 12000 \<rparr>"

text \<open>A JSON dictionary is an association list; \<open>dict.get\<close> is \<open>dict_get\<close>.\<close>

type_synonym payload = "(string \<times> json) list"

definition dict_get :: "string \<Rightarrow> payload \<Rightarrow> json option" where
  "dict_get k p = map_of p k"

record JobRequest =
  jq_job_id :: string
  jq_job_type :: string
  jq_request_key :: string
  jq_correlation_id :: string
  jq_payload :: payload

record JobView =
  jv_job_id :: string
  jv_job_type :: string
  jv_subject_id :: string
  jv_request_key :: string
  jv_correlation_id :: string
  jv_status :: JobStatus
  jv_attempt :: int
  jv_max_attempts :: int
  jv_retryable :: bool
  jv_error_code :: "string option"
  jv_error_message :: "utext option"
  jv_next_attempt_at :: "time option"
  jv_last_enqueued_at :: "time option"
  jv_started_at :: "time option"
  jv_finished_at :: "time option"
  jv_created_at :: time
  jv_updated_at :: time

definition job_view :: "ProcessingJobRecord \<Rightarrow> JobView" where
  "job_view r = \<lparr> jv_job_id = jb_id r, jv_job_type = jb_type r, jv_subject_id = jb_subject_id r,
     jv_request_key = jb_request_key r, jv_correlation_id = jb_correlation_id r,
     jv_status = jb_status r, jv_attempt = jb_attempt r, jv_max_attempts = jb_max_attempts r,
     jv_retryable = jb_retryable r, jv_error_code = jb_error_code r,
     jv_error_message = jb_error_message r, jv_next_attempt_at = jb_next_attempt_at r,
     jv_last_enqueued_at = jb_last_enqueued_at r, jv_started_at = jb_started_at r,
     jv_finished_at = jb_finished_at r, jv_created_at = jb_created_at r,
     jv_updated_at = jb_updated_at r \<rparr>"

section \<open>The job service\<close>

text \<open>An insert into \<open>processing_jobs\<close>: the primary key and the unique \<open>request_key\<close>.\<close>

definition insert_job :: "ProcessingJobRecord \<Rightarrow> db \<Rightarrow> db res" where
  "insert_job j s = (if list_ex (\<lambda>r. jb_request_key r = jb_request_key j) (db_jobs s) then Inl IntegrityError
     else bindE (t_add jb_id j (db_jobs s)) (\<lambda>t. Inr (s\<lparr>db_jobs := t\<rparr>)))"

definition update_job :: "string \<Rightarrow> (ProcessingJobRecord \<Rightarrow> ProcessingJobRecord) \<Rightarrow> db \<Rightarrow> db" where
  "update_job i f s = s\<lparr>db_jobs := t_upd jb_id i f (db_jobs s)\<rparr>"

definition job_get :: "string \<Rightarrow> db \<Rightarrow> JobView res" where
  "job_get job_id s = (case t_get jb_id job_id (db_jobs s) of
     None \<Rightarrow> Inl (JobServiceError ''JOB_NOT_FOUND'') | Some r \<Rightarrow> Inr (job_view r))"

definition reset_for_retry :: "time \<Rightarrow> ProcessingJobRecord \<Rightarrow> ProcessingJobRecord" where
  "reset_for_retry now r = r\<lparr>jb_status := JS_PENDING, jb_next_attempt_at := None,
     jb_finished_at := None, jb_updated_at := now\<rparr>"

definition retry_body :: "time \<Rightarrow> string \<Rightarrow> db \<Rightarrow> (JobView \<times> db) res" where
  "retry_body now job_id s = (case t_get jb_id job_id (db_jobs s) of
     None \<Rightarrow> Inl (JobServiceError ''JOB_NOT_FOUND'')
   | Some r \<Rightarrow>
       if jb_status r = JS_RUNNING then Inl (JobServiceError ''JOB_ALREADY_RUNNING'')
       else if jb_status r \<notin> {JS_RETRY_WAIT, JS_FAILED} \<or> \<not> jb_retryable r
       then Inl (JobServiceError ''JOB_NOT_RETRYABLE'')
       else if jb_max_attempts r \<le> jb_attempt r then Inl (JobServiceError ''JOB_RETRY_EXHAUSTED'')
       else Inr (job_view (reset_for_retry now r), update_job job_id (reset_for_retry now) s))"

definition retry :: "time \<Rightarrow> string \<Rightarrow> db \<Rightarrow> JobView res \<times> db" where
  "retry now job_id s = run_session (retry_body now job_id) s"

text \<open>A comparison with a NULL column is not true.\<close>

definition before_or_at :: "time option \<Rightarrow> time \<Rightarrow> bool" where
  "before_or_at t now = (case t of None \<Rightarrow> False | Some x \<Rightarrow> x \<le> now)"

definition is_due :: "time \<Rightarrow> ProcessingJobRecord \<Rightarrow> bool" where
  "is_due now r \<longleftrightarrow> (jb_status r = JS_PENDING
      \<or> (jb_status r = JS_RETRY_WAIT \<and> before_or_at (jb_next_attempt_at r) now)
      \<or> (jb_status r = JS_RUNNING \<and> before_or_at (jb_lease_until r) now))
     \<and> jb_attempt r < jb_max_attempts r"

definition is_unfinished :: "ProcessingJobRecord \<Rightarrow> bool" where
  "is_unfinished r \<longleftrightarrow> jb_status r \<in> {JS_PENDING, JS_RETRY_WAIT, JS_RUNNING} \<and> jb_attempt r < jb_max_attempts r"

definition oldest_first :: "env \<Rightarrow> ProcessingJobRecord \<Rightarrow> ProcessingJobRecord \<Rightarrow> bool" where
  "oldest_first E a b \<longleftrightarrow> jb_created_at a < jb_created_at b
     \<or> (jb_created_at a = jb_created_at b \<and> coll E (jb_id a) (jb_id b))"

definition due :: "env \<Rightarrow> int \<Rightarrow> time \<Rightarrow> db \<Rightarrow> JobView list" where
  "due E limit now s = map job_view (take (nat limit)
     (sort_by (oldest_first E) (filter (is_due now) (db_jobs s))))"

definition unfinished :: "env \<Rightarrow> int \<Rightarrow> db \<Rightarrow> JobView list" where
  "unfinished E limit s = map job_view (take (nat limit)
     (sort_by (oldest_first E) (filter is_unfinished (db_jobs s))))"

definition mark_enqueued_body :: "time \<Rightarrow> string \<Rightarrow> db \<Rightarrow> (unit \<times> db) res" where
  "mark_enqueued_body now job_id s = (case t_get jb_id job_id (db_jobs s) of
     None \<Rightarrow> Inl (JobServiceError ''JOB_NOT_FOUND'')
   | Some r \<Rightarrow> Inr ((), update_job job_id
       (\<lambda>j. j\<lparr>jb_last_enqueued_at := Some now, jb_updated_at := now\<rparr>) s))"

definition mark_enqueued :: "time \<Rightarrow> string \<Rightarrow> db \<Rightarrow> unit res \<times> db" where
  "mark_enqueued now job_id s = run_session (mark_enqueued_body now job_id) s"

text \<open>\<open>PersistedJobRepository.request\<close>.\<close>

definition persisted_request :: "string \<Rightarrow> db \<Rightarrow> JobRequest res" where
  "persisted_request job_id s = (case t_get jb_id job_id (db_jobs s) of
     None \<Rightarrow> Inl LookupErr
   | Some r \<Rightarrow> Inr \<lparr> jq_job_id = jb_id r, jq_job_type = jb_type r, jq_request_key = jb_request_key r,
       jq_correlation_id = jb_correlation_id r, jq_payload = jb_payload r \<rparr>)"

text \<open>
  \<open>requeue_due\<close>: every listed job is put on the queue, an effect outside the database whose only
  trace here is the list of identifiers, and is marked in a session of its own. \<open>push\<close> says
  whether the queue accepts an identifier; a refusal ends the loop with the exception.
\<close>

fun enqueue_all ::
    "(string \<Rightarrow> bool) \<Rightarrow> (nat \<Rightarrow> time) \<Rightarrow> JobView list \<Rightarrow> db \<Rightarrow> string list \<Rightarrow> unit res \<times> string list \<times> db" where
  "enqueue_all push clock [] s queue = (Inr (), queue, s)"
| "enqueue_all push clock (j # js) s queue =
    (if \<not> push (jv_job_id j) then (Inl RuntimeErr, queue, s)
     else (case mark_enqueued (clock 0) (jv_job_id j) s of
       (Inl e, s') \<Rightarrow> (Inl e, queue @ [jv_job_id j], s')
     | (Inr _, s') \<Rightarrow> enqueue_all push (\<lambda>n. clock (Suc n)) js s' (queue @ [jv_job_id j])))"

definition requeue_due ::
    "env \<Rightarrow> Settings \<Rightarrow> (string \<Rightarrow> bool) \<Rightarrow> (nat \<Rightarrow> time) \<Rightarrow> bool \<Rightarrow> db \<Rightarrow> nat res \<times> string list \<times> db" where
  "requeue_due E C push clock due_only s =
    (let jobs = (if due_only then due E (cfg_job_requeue_batch_size C) (clock 0) s
                 else unfinished E (cfg_job_requeue_batch_size C) s)
     in (case enqueue_all push (\<lambda>n. clock (Suc n)) jobs s [] of
           (Inl e, queue, s') \<Rightarrow> (Inl e, queue, s')
         | (Inr _, queue, s') \<Rightarrow> (Inr (length jobs), queue, s')))"

section \<open>What is runnable\<close>

text \<open>
  The contract of the queue: a job may be executed when it is not finished, has attempts left and no
  other executor holds it, that is, no delay and no lease is pending.
\<close>

definition runnable :: "time \<Rightarrow> ProcessingJobRecord \<Rightarrow> bool" where
  "runnable now r \<longleftrightarrow> jb_attempt r < jb_max_attempts r \<and>
     (case jb_status r of
        JS_PENDING \<Rightarrow> True
      | JS_RETRY_WAIT \<Rightarrow> \<exists>t. jb_next_attempt_at r = Some t \<and> t \<le> now
      | JS_RUNNING \<Rightarrow> \<exists>t. jb_lease_until r = Some t \<and> t \<le> now
      | _ \<Rightarrow> False)"

lemma is_due_runnable: "is_due now r \<longleftrightarrow> runnable now r"
  by (cases "jb_status r") (auto simp: is_due_def runnable_def before_or_at_def split: option.splits)

lemma retry_Inr:
  assumes "retry now i s = (Inr v, s')"
  obtains r where "t_get jb_id i (db_jobs s) = Some r" and "v = job_view (reset_for_retry now r)"
    and "s' = update_job i (reset_for_retry now) s" and "jb_attempt r < jb_max_attempts r"
    and "jb_status r = JS_RETRY_WAIT \<or> jb_status r = JS_FAILED" and "jb_retryable r"
  using assms by (auto simp: retry_def retry_body_def run_session_def split: option.splits if_splits)

lemma retry_Inl: "retry now i s = (Inl e, s') \<Longrightarrow> s' = s"
  by (auto simp: retry_def run_session_def split: sum.splits)

lemma db_jobs_update_job [simp]: "db_jobs (update_job i f s) = t_upd jb_id i f (db_jobs s)"
  by (simp add: update_job_def)

lemma set_due_all:
  "int (length (db_jobs s)) \<le> limit \<Longrightarrow> set (due E limit now s) = job_view ` {r \<in> set (db_jobs s). is_due now r}"
proof -
  assume l: "int (length (db_jobs s)) \<le> limit"
  then have n: "length (db_jobs s) \<le> nat limit" by linarith
  have "length (sort_by (oldest_first E) (filter (is_due now) (db_jobs s))) \<le> nat limit"
    using le_trans [OF length_filter_le n] by simp
  then show ?thesis by (simp add: due_def)
qed

text \<open>
  A manual retry succeeds only for a job that is waiting or failed, is marked retryable and has
  attempts left. It changes that row alone, and the job is then due at once; a refused retry changes
  nothing.
\<close>

theorem retry_makes_due:
  assumes "retry now i s = (x, s')"
  shows "case x of
      Inl e \<Rightarrow> s' = s
    | Inr v \<Rightarrow> jv_job_id v = i \<and> jv_status v = JS_PENDING \<and> jv_attempt v < jv_max_attempts v
        \<and> (\<exists>r. t_get jb_id i (db_jobs s) = Some r \<and> jb_retryable r \<and> jb_attempt r = jv_attempt v
             \<and> (jb_status r = JS_RETRY_WAIT \<or> jb_status r = JS_FAILED))
        \<and> (\<forall>k. k \<noteq> i \<longrightarrow> t_get jb_id k (db_jobs s') = t_get jb_id k (db_jobs s))
        \<and> (\<forall>limit t. int (length (db_jobs s')) \<le> limit \<longrightarrow> v \<in> set (due E limit t s'))"
proof (cases x)
  case (Inl e)
  then show ?thesis using assms retry_Inl by simp
next
  case (Inr v)
  with assms obtain r where r: "t_get jb_id i (db_jobs s) = Some r" "v = job_view (reset_for_retry now r)"
      "s' = update_job i (reset_for_retry now) s" "jb_attempt r < jb_max_attempts r"
      "jb_status r = JS_RETRY_WAIT \<or> jb_status r = JS_FAILED" "jb_retryable r"
    using retry_Inr by metis
  have k: "jb_id (reset_for_retry now q) = jb_id q" for q by (simp add: reset_for_retry_def)
  have "t_get jb_id i (db_jobs s') = Some (reset_for_retry now r)"
    using r by (simp add: t_get_upd k)
  then have m: "reset_for_retry now r \<in> set (db_jobs s')" using t_get_Some by fast
  have "is_due t (reset_for_retry now r)" for t using r(4) by (simp add: is_due_def reset_for_retry_def)
  then have d: "v \<in> set (due E limit t s')" if "int (length (db_jobs s')) \<le> limit" for limit t
    using m set_due_all [OF that] r(2) by simp
  have "jv_job_id v = i" using r t_get_Some [OF r(1)] by (simp add: job_view_def reset_for_retry_def)
  then show ?thesis using r d Inr by (simp add: t_get_upd k job_view_def reset_for_retry_def)
qed


text \<open>The queue fold: what it pushes, and that it only touches the enqueue stamp.\<close>

lemma mark_enqueued_Inr:
  assumes "mark_enqueued now i s = (Inr x, s')"
  shows "s' = update_job i (\<lambda>j. j\<lparr>jb_last_enqueued_at := Some now, jb_updated_at := now\<rparr>) s"
  using assms by (auto simp: mark_enqueued_def mark_enqueued_body_def run_session_def split: option.splits)

lemma mark_enqueued_Inl: "mark_enqueued now i s = (Inl e, s') \<Longrightarrow> s' = s"
  by (auto simp: mark_enqueued_def run_session_def split: sum.splits)

definition same_jobs :: "db \<Rightarrow> db \<Rightarrow> bool" where
  "same_jobs s s' \<longleftrightarrow> map (\<lambda>j. (jb_id j, jb_status j, jb_attempt j, jb_lease_until j, jb_next_attempt_at j)) (db_jobs s)
     = map (\<lambda>j. (jb_id j, jb_status j, jb_attempt j, jb_lease_until j, jb_next_attempt_at j)) (db_jobs s')"

lemma same_jobs_mark: "same_jobs s (update_job i (\<lambda>j. j\<lparr>jb_last_enqueued_at := t, jb_updated_at := t'\<rparr>) s)"
  unfolding same_jobs_def db_jobs_update_job by (rule sym, rule map_t_upd) simp

lemma same_jobs_trans: "same_jobs a b \<Longrightarrow> same_jobs b c \<Longrightarrow> same_jobs a c"
  by (simp add: same_jobs_def)

lemma enqueue_all_queue:
  "enqueue_all push clock js s queue = (x, queue', s') \<Longrightarrow>
     same_jobs s s' \<and> (\<exists>n. queue' = queue @ map jv_job_id (take n js))
     \<and> (\<forall>u. x = Inr u \<longrightarrow> queue' = queue @ map jv_job_id js)"
proof (induction js arbitrary: clock s queue)
  case Nil
  then show ?case by (auto simp: same_jobs_def)
next
  case (Cons j js)
  show ?case
  proof (cases "push (jv_job_id j)")
    case False
    then show ?thesis using Cons.prems by (auto simp: same_jobs_def intro: exI [of _ 0])
  next
    case True
    obtain y s1 where m: "mark_enqueued (clock 0) (jv_job_id j) s = (y, s1)" by fastforce
    show ?thesis
    proof (cases y)
      case (Inl e)
      then have "s1 = s" using m mark_enqueued_Inl by simp
      then show ?thesis using Cons.prems True Inl m
        by (auto simp: same_jobs_def intro: exI [of _ 1])
    next
      case (Inr v)
      have "same_jobs s s1" using mark_enqueued_Inr [OF m [unfolded Inr]] same_jobs_mark by simp
      moreover have "enqueue_all push (\<lambda>n. clock (Suc n)) js s1 (queue @ [jv_job_id j]) = (x, queue', s')"
        using Cons.prems True Inr m by simp
      note ih = Cons.IH [OF this]
      moreover obtain n where n: "queue' = (queue @ [jv_job_id j]) @ map jv_job_id (take n js)" using ih by blast
      then have "queue' = queue @ map jv_job_id (take (Suc n) (j # js))" by simp
      then have "\<exists>k. queue' = queue @ map jv_job_id (take k (j # js))" by blast
      moreover have "x = Inr u \<longrightarrow> queue' = queue @ map jv_job_id (j # js)" for u using ih by simp
      ultimately show ?thesis using same_jobs_trans [of s s1 s'] by blast
    qed
  qed
qed

lemma set_due: "v \<in> set (due E limit now s) \<Longrightarrow> \<exists>r\<in>set (db_jobs s). v = job_view r \<and> is_due now r"
  by (auto simp: due_def dest!: in_set_takeD)

text \<open>
  Requeueing reconstructs the queue from the database: it pushes only identifiers of jobs that
  are runnable at that moment, at most as many as the batch size, and every runnable job when the
  batch is large enough and nothing fails; and it changes neither the status, the attempts, the lease
  nor the delay of any job.
\<close>

theorem requeue_due_faithful:
  assumes "requeue_due E C push clock True s = (x, queue, s')"
  shows "same_jobs s s'
    \<and> set queue \<subseteq> {jb_id r | r. r \<in> set (db_jobs s) \<and> runnable (clock 0) r}
    \<and> length queue \<le> nat (cfg_job_requeue_batch_size C)
    \<and> (\<forall>n. x = Inr n \<longrightarrow> n = length queue \<and> (int (length (db_jobs s)) \<le> cfg_job_requeue_batch_size C \<longrightarrow>
          set queue = {jb_id r | r. r \<in> set (db_jobs s) \<and> runnable (clock 0) r}))"
proof -
  let ?L = "cfg_job_requeue_batch_size C"
  let ?js = "due E ?L (clock 0) s"
  obtain y q2 s2 where e2: "enqueue_all push (\<lambda>n. clock (Suc n)) ?js s [] = (y, q2, s2)"
    by (cases "enqueue_all push (\<lambda>n. clock (Suc n)) ?js s []") auto
  have xy: "x = (case y of Inl e \<Rightarrow> Inl e | Inr _ \<Rightarrow> Inr (length ?js))" and "q2 = queue" and "s2 = s'"
    using assms e2 by (auto simp: requeue_due_def split: sum.splits)
  then have e: "enqueue_all push (\<lambda>n. clock (Suc n)) ?js s [] = (y, queue, s')" using e2 by simp
  note q = enqueue_all_queue [OF e]
  then obtain n where n: "queue = map jv_job_id (take n ?js)" by auto
  have len: "length ?js \<le> nat ?L" by (simp add: due_def)
  have ids: "jv_job_id (job_view r) = jb_id r" for r by (simp add: job_view_def)
  have sub: "set queue \<subseteq> {jb_id r | r. r \<in> set (db_jobs s) \<and> runnable (clock 0) r}"
    unfolding n by (auto simp: ids is_due_runnable dest!: in_set_takeD set_due)
  have "length queue \<le> nat ?L" using n len by (auto simp: min_def)
  moreover have "n' = length queue \<and> (int (length (db_jobs s)) \<le> ?L \<longrightarrow>
      set queue = {jb_id r | r. r \<in> set (db_jobs s) \<and> runnable (clock 0) r})" if xn: "x = Inr n'" for n'
  proof -
    obtain u where "y = Inr u" using xn xy by (cases y) auto
    then have "queue = map jv_job_id ?js" using q by simp
    then show ?thesis using xn xy \<open>y = Inr u\<close>
      by (auto simp: set_due_all ids is_due_runnable image_iff)
  qed
  ultimately show ?thesis using q sub by blast
qed


section \<open>Examples\<close>

definition demo_job :: "string \<Rightarrow> JobStatus \<Rightarrow> int \<Rightarrow> ProcessingJobRecord" where
  "demo_job i status attempt = \<lparr> jb_id = i, jb_type = ''AGENT_INVESTIGATION'', jb_subject_id = ''c1'',
     jb_request_key = i @ ''_key'', jb_correlation_id = ''corr'', jb_status = status, jb_attempt = attempt,
     jb_max_attempts = 3, jb_error_code = None, jb_error_message = None, jb_retryable = True,
     jb_payload = [], jb_next_attempt_at = Some 40, jb_last_enqueued_at = None, jb_lease_until = Some 30,
     jb_started_at = None, jb_finished_at = None, jb_created_at = 0, jb_updated_at = 0 \<rparr>"

definition demo_jobs_db :: db where
  "demo_jobs_db = empty_db\<lparr>db_jobs := [demo_job ''j1'' JS_RETRY_WAIT 1, demo_job ''j2'' JS_RUNNING 1,
     demo_job ''j3'' JS_RUNNING 3, demo_job ''j4'' JS_SUCCEEDED 1]\<rparr>"

theorem retry_makes_due_witness:
  "\<exists>v s'. retry 9 ''j1'' demo_jobs_db = (Inr v, s') \<and> jv_status v = JS_PENDING
     \<and> (\<forall>t. v \<in> set (due demo_env 4 t s'))"
proof -
  obtain v s' where r: "retry 9 ''j1'' demo_jobs_db = (Inr v, s')" and l: "length (db_jobs s') = 4"
    by (simp add: retry_def retry_body_def run_session_def demo_jobs_db_def demo_job_def t_get_Cons)
  from retry_makes_due [OF r] r l show ?thesis by auto
qed

theorem requeue_due_faithful_witness:
  "\<exists>x s'. requeue_due demo_env default_settings (\<lambda>_. True) (\<lambda>_. 35) True demo_jobs_db = (x, [''j2''], s')
     \<and> same_jobs demo_jobs_db s'"
proof -
  obtain x s' where r: "requeue_due demo_env default_settings (\<lambda>_. True) (\<lambda>_. 35) True demo_jobs_db = (x, [''j2''], s')"
    by (simp add: requeue_due_def due_def is_due_def before_or_at_def demo_jobs_db_def demo_job_def
        default_settings_def job_view_def mark_enqueued_def mark_enqueued_body_def run_session_def t_get_Cons)
  from requeue_due_faithful [OF r] r show ?thesis by blast
qed

end
