(* ===== verification/Leases.thy ===== *)
theory Leases
  imports EviPrelude
begin

text \<open>
  The lease contract that the executors of the repository share: investigations, model calls and
  jobs are claimed for a bounded time, and while a lease is held every other claim is refused and
  changes nothing. The contract is stated once, with what follows from it, and interpreted on the
  claim operation of each component.
\<close>

locale lease_contract =
  fixes take_lease :: "'q \<Rightarrow> time \<Rightarrow> 's \<Rightarrow> 'a res \<times> 's" and granted :: "'a \<Rightarrow> bool"
    and rival :: "'q \<Rightarrow> 'q \<Rightarrow> bool" and held :: "'q \<Rightarrow> 's \<Rightarrow> time \<Rightarrow> bool" and span :: time
  assumes refused: "held q s now \<Longrightarrow> \<exists>e. take_lease q now s = (Inl e, s)"
    and grants: "take_lease q now s = (Inr a, s') \<Longrightarrow> granted a \<Longrightarrow> rival q q' \<Longrightarrow> t < now + span \<Longrightarrow> held q' s' t"
begin

lemma exclusive:
  assumes "take_lease q now s = (Inr a, s')" and "granted a" and "rival q q'" and "t < now + span"
  shows "\<exists>e. take_lease q' t s' = (Inl e, s')"
  using refused grants [OF assms] by blast

text \<open>Any number of rival attempts before the lease ends, in any order, leaves the state alone.\<close>

lemma rivals_refused:
  assumes "take_lease q now s = (Inr a, s')" and "granted a" and "\<forall>(q', t)\<in>set ts. rival q q' \<and> t < now + span"
  shows "fold (\<lambda>(q', t) st. snd (take_lease q' t st)) ts s' = s'"
  using assms(3)
proof (induction ts)
  case Nil
  then show ?case by simp
next
  case (Cons x ts)
  obtain q' t where x: "x = (q', t)" by (cases x)
  then have "rival q q'" and "t < now + span" using Cons.prems by simp_all
  then have "\<exists>e. take_lease q' t s' = (Inl e, s')" by (rule exclusive [OF assms(1,2)])
  then show ?case using Cons x by auto
qed

text \<open>Two grants with nothing in between are at least the span apart.\<close>

lemma grants_apart:
  assumes "take_lease q now s = (Inr a, s')" and "granted a" and "rival q q'"
    and "take_lease q' t s' = (Inr b, s'')"
  shows "now + span \<le> t"
proof (rule ccontr)
  assume "\<not> now + span \<le> t"
  then obtain e where "take_lease q' t s' = (Inl e, s')" using exclusive [OF assms(1-3)] by fastforce
  then show False using assms(4) by simp
qed

end

text \<open>A lease that its holder renews while it works.\<close>

locale renewable_lease_contract = lease_contract take_lease granted rival held span
  for take_lease :: "'q \<Rightarrow> time \<Rightarrow> 's \<Rightarrow> 'a res \<times> 's" and granted rival held span +
  fixes renew :: "'w \<Rightarrow> time \<Rightarrow> 's \<Rightarrow> 'b res \<times> 's" and works_on :: "'w \<Rightarrow> 'q \<Rightarrow> bool"
  assumes renewed: "renew w now s = (Inr b, s') \<Longrightarrow> works_on w q \<Longrightarrow> t < now + span \<Longrightarrow> held q s' t"
begin

lemma renewed_exclusive:
  assumes "renew w now s = (Inr b, s')" and "works_on w q" and "t < now + span"
  shows "\<exists>e. take_lease q t s' = (Inl e, s')"
  using refused renewed [OF assms] by blast

end

end
