(* ===== verification/AgentService.thy ===== *)
theory AgentService
  imports Jobs Demo Leases
begin

text \<open>
  \<open>evistream/agent/service.py\<close>: preparing an investigation, claiming it under a lease, the
  checkpoint that commits a node with an optimistic version check, the terminal transitions, and the
  retry after a transient failure. A session is one atomic step; \<open>hex\<close> stands for the calls of
  \<open>uuid4().hex\<close> in the order the code makes them. The checkpoint hook is set by tests only and is
  left out.
\<close>

section \<open>Definitions\<close>

text \<open>\<open>ALLOWED_TRANSITIONS\<close>.\<close>

fun allowed_transitions :: "AgentNode \<Rightarrow> AgentNode option set" where
  "allowed_transitions N_PLAN = {Some N_RETRIEVE}"
| "allowed_transitions N_RETRIEVE = {Some N_INSPECT}"
| "allowed_transitions N_INSPECT = {Some N_VERIFY}"
| "allowed_transitions N_VERIFY = {Some N_CHALLENGE}"
| "allowed_transitions N_CHALLENGE = {Some N_PLAN, Some N_DECIDE}"
| "allowed_transitions N_DECIDE = {None}"

definition requirement_snapshot :: "RequirementRecord \<Rightarrow> InvestigationRequirement" where
  "requirement_snapshot r = \<lparr> ir_requirement_id = rm_id r, ir_requirement_key = rm_requirement_key r,
     ir_source_kind = rm_source_kind r, ir_required = rm_required r, ir_description = rm_description r,
     ir_suggested_queries = rm_suggested_queries r, ir_modalities = rm_modalities r,
     ir_tool_capabilities = rm_tool_capabilities r \<rparr>"

definition initial_state ::
    "string \<Rightarrow> string \<Rightarrow> CaseRecord \<Rightarrow> string \<Rightarrow> RequirementRecord list \<Rightarrow> time \<Rightarrow> time \<Rightarrow> InvestigationState" where
  "initial_state run_id job_id c profile requirements deadline now = \<lparr> is_run_id = run_id,
     is_job_id = job_id, is_case_id = ca_id c, is_policy_id = ca_policy_id c,
     is_policy_version = ca_policy_version c, is_model_profile = profile,
     is_requirements = map requirement_snapshot requirements, is_hypotheses = [],
     is_selected_items = [], is_observations = [], is_evidence_ids = [],
     is_missing_requirement_ids = map rm_id (filter (\<lambda>r. rm_required r \<and> rm_source_kind r = SK_requirement) requirements),
     is_contradictory_requirement_ids = [], is_pending_action = None, is_iteration = 0,
     is_vlm_calls = 0, is_consecutive_tool_failures = 0, is_total_tool_failures = 0,
     is_stagnant_iterations = 0, is_last_evidence_count = 0, is_current_node = N_PLAN,
     is_next_node = Some N_PLAN, is_state_version = 0, is_deadline_at = deadline,
     is_last_checkpoint_at = now, is_status = IS_PENDING, is_provisional_decision = None,
     is_stop_reason = None \<rparr>"

definition job_payload :: "string \<Rightarrow> string \<Rightarrow> string \<Rightarrow> string list \<Rightarrow> payload" where
  "job_payload run_id case_id profile scope = [(''run_id'', JStr run_id), (''case_id'', JStr case_id),
     (''model_profile'', JStr profile), (''scope_requirement_ids'', JList (map JStr scope))]"

definition agent_request_key :: "env \<Rightarrow> CaseRecord \<Rightarrow> string \<Rightarrow> string list \<Rightarrow> string" where
  "agent_request_key E c profile scope = sha E (''AGENT_INVESTIGATION:'' @ ca_id c @ '':'' @ ca_policy_id c @ '':''
     @ str_int (ca_policy_version c) @ '':'' @ profile @ '':'' @ join '','' scope)"

definition new_agent_job :: "Settings \<Rightarrow> string \<Rightarrow> string \<Rightarrow> string \<Rightarrow> string \<Rightarrow> payload \<Rightarrow> time \<Rightarrow> ProcessingJobRecord" where
  "new_agent_job C job_id case_id key correlation payload now = \<lparr> jb_id = job_id,
     jb_type = ''AGENT_INVESTIGATION'', jb_subject_id = case_id, jb_request_key = key,
     jb_correlation_id = correlation, jb_status = JS_PENDING, jb_attempt = 0,
     jb_max_attempts = cfg_job_max_attempts C, jb_error_code = None, jb_error_message = None,
     jb_retryable = False, jb_payload = payload, jb_next_attempt_at = None, jb_last_enqueued_at = None,
     jb_lease_until = None, jb_started_at = None, jb_finished_at = None, jb_created_at = now,
     jb_updated_at = now \<rparr>"

definition new_agent_run :: "InvestigationState \<Rightarrow> string list \<Rightarrow> time \<Rightarrow> AgentRunRecord" where
  "new_agent_run st scope now = \<lparr> rn_id = is_run_id st, rn_run_kind = RK_INVESTIGATION,
     rn_job_id = Some (is_job_id st), rn_case_id = is_case_id st, rn_model_profile = is_model_profile st,
     rn_current_node = Some N_PLAN, rn_next_node = Some N_PLAN, rn_state_snapshot = Some st,
     rn_state_version = 0, rn_status = IS_PENDING, rn_iteration = 0, rn_vlm_calls = 0,
     rn_consecutive_tool_failures = 0, rn_total_tool_failures = 0, rn_stagnant_iterations = 0,
     rn_deadline_at = Some (is_deadline_at st), rn_last_checkpoint_at = Some now,
     rn_lease_until = None, rn_provisional_verdict = None, rn_stop_reason = None,
     rn_result_payload = None, rn_scope_requirement_ids = scope, rn_created_at = now,
     rn_updated_at = now \<rparr>"

text \<open>
  An insert into \<open>agent_runs\<close>: the primary key, the unique \<open>job_id\<close> and the single investigation of
  a case.
\<close>

definition insert_run :: "AgentRunRecord \<Rightarrow> db \<Rightarrow> db res" where
  "insert_run r s =
    (if list_ex (\<lambda>q. rn_job_id q = rn_job_id r \<and> rn_job_id r \<noteq> None) (db_runs s)
        \<or> list_ex (\<lambda>q. rn_case_id q = rn_case_id r \<and> rn_run_kind q = RK_INVESTIGATION \<and> rn_run_kind r = RK_INVESTIGATION) (db_runs s)
     then Inl IntegrityError
     else bindE (t_add rn_id r (db_runs s)) (\<lambda>t. Inr (s\<lparr>db_runs := t\<rparr>)))"

definition update_run :: "string \<Rightarrow> (AgentRunRecord \<Rightarrow> AgentRunRecord) \<Rightarrow> db \<Rightarrow> db" where
  "update_run i f s = s\<lparr>db_runs := t_upd rn_id i f (db_runs s)\<rparr>"

definition update_case :: "string \<Rightarrow> (CaseRecord \<Rightarrow> CaseRecord) \<Rightarrow> db \<Rightarrow> db" where
  "update_case i f s = s\<lparr>db_cases := t_upd ca_id i f (db_cases s)\<rparr>"

text \<open>The investigation of a case, \<open>run_kind = 'INVESTIGATION'\<close>.\<close>

definition find_run :: "string \<Rightarrow> db \<Rightarrow> AgentRunRecord option" where
  "find_run case_id s = find (\<lambda>r. rn_case_id r = case_id \<and> rn_run_kind r = RK_INVESTIGATION) (db_runs s)"

definition agent_job_request :: "string \<Rightarrow> db \<Rightarrow> JobRequest res" where
  "agent_job_request job_id s = (case t_get jb_id job_id (db_jobs s) of
     None \<Rightarrow> Inl (AgentRuntimeError ''JOB_NOT_FOUND'')
   | Some job \<Rightarrow> (case find (\<lambda>r. rn_job_id r = Some job_id) (db_runs s) of
       None \<Rightarrow> Inl (AgentRuntimeError ''AGENT_CHECKPOINT_INVALID'')
     | Some run \<Rightarrow> Inr \<lparr> jq_job_id = jb_id job, jq_job_type = jb_type job,
         jq_request_key = jb_request_key job, jq_correlation_id = jb_correlation_id job,
         jq_payload = (if jb_payload job \<noteq> [] then jb_payload job
            else [(''run_id'', JStr (rn_id run)), (''case_id'', JStr (rn_case_id run)),
                  (''model_profile'', JStr (rn_model_profile run))]) \<rparr>))"

text \<open>A run of the case exists already: it is resumed if the request fits it.\<close>

definition resume_run :: "string option \<Rightarrow> string list option \<Rightarrow> AgentRunRecord \<Rightarrow> db \<Rightarrow> JobRequest res" where
  "resume_run profile scope existing s =
    (let requested_scope = sorted_uniq (case scope of None \<Rightarrow> [] | Some xs \<Rightarrow> xs) in
     if profile \<noteq> None \<and> profile \<noteq> Some (rn_model_profile existing)
     then Inl (AgentRuntimeError ''AGENT_PROFILE_CONFLICT'')
     else if requested_scope \<noteq> [] \<and> requested_scope \<noteq> sort (rn_scope_requirement_ids existing)
     then Inl (AgentRuntimeError ''AGENT_SCOPE_CONFLICT'')
     else if rn_status existing \<in> {IS_FAILED, IS_CANCELLED}
     then Inl (AgentRuntimeError ''AGENT_RUN_NOT_RESUMABLE'')
     else (case rn_job_id existing of
         None \<Rightarrow> Inl (AgentRuntimeError ''AGENT_CHECKPOINT_INVALID'')
       | Some job_id \<Rightarrow> agent_job_request job_id s))"

text \<open>A new run: \<open>hex 0\<close>, \<open>hex 1\<close> and \<open>hex 2\<close> name the run, the job and the correlation.\<close>

definition create_run ::
    "env \<Rightarrow> Settings \<Rightarrow> time \<Rightarrow> (nat \<Rightarrow> string) \<Rightarrow> CaseRecord \<Rightarrow> string \<Rightarrow> RequirementRecord list \<Rightarrow> string list
       \<Rightarrow> db \<Rightarrow> (JobRequest \<times> db) res" where
  "create_run E C now hex c selected_profile requirements requested_scope s =
    (let run_id = ''run_'' @ hex 0; job_id = ''job_'' @ hex 1; correlation = ''corr_'' @ hex 2;
         key = agent_request_key E c selected_profile requested_scope;
         payload = job_payload run_id (ca_id c) selected_profile requested_scope;
         state = initial_state run_id job_id c selected_profile requirements
                   (now + seconds (cfg_agent_timeout_seconds C)) now
     in bindE (insert_job (new_agent_job C job_id (ca_id c) key correlation payload now)
          (update_case (ca_id c) (\<lambda>q. if ca_model_profile q = selected_profile then q
              else q\<lparr>ca_model_profile := selected_profile, ca_updated_at := now\<rparr>) s))
        (\<lambda>s1. bindE (insert_run (new_agent_run state requested_scope now) s1)
        (\<lambda>s2. Inr (\<lparr> jq_job_id = job_id, jq_job_type = ''AGENT_INVESTIGATION'', jq_request_key = key,
            jq_correlation_id = correlation, jq_payload = payload \<rparr>, s2))))"

definition prepare_body ::
    "env \<Rightarrow> Settings \<Rightarrow> time \<Rightarrow> (nat \<Rightarrow> string) \<Rightarrow> string \<Rightarrow> string option \<Rightarrow> string list option \<Rightarrow> db
       \<Rightarrow> (JobRequest \<times> db) res" where
  "prepare_body E C now hex case_id profile scope s =
    (case t_get ca_id case_id (db_cases s) of
       None \<Rightarrow> Inl (AgentRuntimeError ''CASE_NOT_FOUND'')
     | Some c \<Rightarrow> (case find_run case_id s of
         Some existing \<Rightarrow> bindE (resume_run profile scope existing s) (\<lambda>q. Inr (q, s))
       | None \<Rightarrow>
         if ca_status c \<noteq> CS_READY then Inl (AgentRuntimeError ''AGENT_CASE_NOT_READY'')
         else
         (let selected_profile = (case profile of Some p \<Rightarrow> if p \<noteq> [] then p else ca_model_profile c
                                  | None \<Rightarrow> ca_model_profile c);
              requirements = requirements_of E case_id s;
              requested_scope = sorted_uniq (case scope of None \<Rightarrow> [] | Some xs \<Rightarrow> xs);
              scoped = (if requested_scope = [] then requirements
                        else filter (\<lambda>r. rm_id r \<in> set requested_scope) requirements)
          in if \<not> set requested_scope \<subseteq> set (map rm_id requirements)
             then Inl (AgentRuntimeError ''AGENT_ACTION_INVALID'')
             else if scoped = [] then Inl (AgentRuntimeError ''AGENT_CASE_NOT_READY'')
             else create_run E C now hex c selected_profile scoped requested_scope s)))"

definition prepare ::
    "env \<Rightarrow> Settings \<Rightarrow> time \<Rightarrow> (nat \<Rightarrow> string) \<Rightarrow> string \<Rightarrow> string option \<Rightarrow> string list option \<Rightarrow> db
       \<Rightarrow> JobRequest res \<times> db" where
  "prepare E C now hex case_id profile scope s = run_session (prepare_body E C now hex case_id profile scope) s"

section \<open>Claiming\<close>

definition terminal_status :: "InvestigationStatus \<Rightarrow> bool" where
  "terminal_status st \<longleftrightarrow> st \<in> {IS_COMPLETED, IS_NEEDS_HUMAN_REVIEW}"

text \<open>
  The result of a run. The stored payload is validated as a decision, which fails for the payload of
  a manual tool run.
\<close>

definition result_of :: "db \<Rightarrow> AgentRunRecord \<Rightarrow> ProvisionalDecision option \<Rightarrow> InvestigationResult" where
  "result_of s run decision = \<lparr> ires_run_id = rn_id run, ires_job_id = rn_job_id run, ires_case_id = rn_case_id run,
     ires_status = rn_status run, ires_provisional_decision = decision,
     ires_stop_reason = rn_stop_reason run, ires_state_version = rn_state_version run,
     ires_node_count = length (filter (\<lambda>x. st_run_id x = rn_id run) (db_steps s)),
     ires_tool_count = length (filter (\<lambda>x. tr_run_id x = Some (rn_id run)) (db_tools s)),
     ires_model_call_count = length (filter (\<lambda>x. ml_run_id x = Some (rn_id run)) (db_calls s)),
     ires_evidence_count = length (filter (\<lambda>x. case ev_model_call_id x of None \<Rightarrow> False
        | Some i \<Rightarrow> list_ex (\<lambda>m. ml_id m = i \<and> ml_run_id m = Some (rn_id run)) (db_calls s)) (db_evidence s)) \<rparr>"

definition run_result :: "db \<Rightarrow> AgentRunRecord \<Rightarrow> InvestigationResult res" where
  "run_result s run = (case rn_result_payload run of
     None \<Rightarrow> Inr (result_of s run None)
   | Some (RP_Decision d) \<Rightarrow> Inr (result_of s run (Some d))
   | Some (RP_Manual i) \<Rightarrow> Inl ValueError)"

datatype claimed = Working InvestigationState | Finished InvestigationResult

text \<open>Every field of the request that must agree with the stored job and run.\<close>

definition request_matches :: "JobRequest \<Rightarrow> ProcessingJobRecord \<Rightarrow> AgentRunRecord \<Rightarrow> bool" where
  "request_matches q job run \<longleftrightarrow> jb_type job = jq_job_type q \<and> jb_request_key job = jq_request_key q
     \<and> jb_correlation_id job = jq_correlation_id q
     \<and> Some (JStr (jb_subject_id job)) = dict_get ''case_id'' (jq_payload q)
     \<and> rn_job_id run = Some (jb_id job)
     \<and> Some (JStr (rn_case_id run)) = dict_get ''case_id'' (jq_payload q)
     \<and> Some (JStr (rn_model_profile run)) = dict_get ''model_profile'' (jq_payload q)"

definition payload_run :: "JobRequest \<Rightarrow> db \<Rightarrow> AgentRunRecord option" where
  "payload_run q s = (case dict_get ''run_id'' (jq_payload q) of
     Some (JStr i) \<Rightarrow> t_get rn_id i (db_runs s) | _ \<Rightarrow> None)"

definition lease_active :: "time option \<Rightarrow> time \<Rightarrow> bool" where
  "lease_active lease now = (case lease of None \<Rightarrow> False | Some t \<Rightarrow> now < t)"

definition claim_job :: "time \<Rightarrow> time \<Rightarrow> ProcessingJobRecord \<Rightarrow> ProcessingJobRecord" where
  "claim_job now lease j = j\<lparr>jb_status := JS_RUNNING, jb_attempt := jb_attempt j + 1,
     jb_started_at := (case jb_started_at j of None \<Rightarrow> Some now | Some t \<Rightarrow> Some t),
     jb_finished_at := None, jb_error_code := None, jb_lease_until := Some lease, jb_updated_at := now\<rparr>"

definition claim_state :: "time \<Rightarrow> InvestigationState \<Rightarrow> InvestigationState" where
  "claim_state now st = st\<lparr>is_status := IS_RUNNING, is_last_checkpoint_at := now\<rparr>"

definition claim_run :: "time \<Rightarrow> time \<Rightarrow> InvestigationState \<Rightarrow> AgentRunRecord \<Rightarrow> AgentRunRecord" where
  "claim_run now lease st r = r\<lparr>rn_status := IS_RUNNING, rn_lease_until := Some lease,
     rn_state_snapshot := Some st, rn_updated_at := now\<rparr>"

definition claim_body :: "Settings \<Rightarrow> time \<Rightarrow> JobRequest \<Rightarrow> db \<Rightarrow> (claimed \<times> db) res" where
  "claim_body C now q s =
    (case (t_get jb_id (jq_job_id q) (db_jobs s), payload_run q s) of
       (Some job, Some run) \<Rightarrow>
         if \<not> request_matches q job run then Inl (AgentRuntimeError ''AGENT_CHECKPOINT_INVALID'')
         else if terminal_status (rn_status run) then bindE (run_result s run) (\<lambda>r. Inr (Finished r, s))
         else if rn_status run \<in> {IS_FAILED, IS_CANCELLED} then Inl (AgentRuntimeError ''AGENT_RUN_NOT_RESUMABLE'')
         else if rn_status run = IS_RUNNING \<and> lease_active (rn_lease_until run) now
         then Inl (AgentRuntimeError ''AGENT_RUN_ALREADY_RUNNING'')
         else if jb_status job = JS_RUNNING \<and> lease_active (jb_lease_until job) now
         then Inl (AgentRuntimeError ''AGENT_RUN_ALREADY_RUNNING'')
         else if jb_status job \<notin> {JS_PENDING, JS_RUNNING, JS_RETRY_WAIT}
         then Inl (AgentRuntimeError ''AGENT_RUN_NOT_RESUMABLE'')
         else (case t_get ca_id (rn_case_id run) (db_cases s) of
           None \<Rightarrow> Inl (AgentRuntimeError ''AGENT_CHECKPOINT_INVALID'')
         | Some c \<Rightarrow>
           if ca_status c \<notin> {CS_READY, CS_INVESTIGATING} then Inl (AgentRuntimeError ''AGENT_CASE_NOT_READY'')
           else (case rn_state_snapshot run of
             None \<Rightarrow> Inl (AgentRuntimeError ''AGENT_CHECKPOINT_INVALID'')
           | Some snapshot \<Rightarrow>
               (let lease = now + seconds (cfg_agent_job_lease_seconds C); state = claim_state now snapshot
                in Inr (Working state,
                     update_case (ca_id c) (\<lambda>x. x\<lparr>ca_status := CS_INVESTIGATING, ca_updated_at := now\<rparr>)
                     (update_run (rn_id run) (claim_run now lease state)
                     (update_job (jb_id job) (claim_job now lease) s))))))
     | _ \<Rightarrow> Inl (AgentRuntimeError ''AGENT_CHECKPOINT_INVALID''))"

definition claim :: "Settings \<Rightarrow> time \<Rightarrow> JobRequest \<Rightarrow> db \<Rightarrow> claimed res \<times> db" where
  "claim C now q s = run_session (claim_body C now q) s"

section \<open>Checkpoints\<close>

text \<open>An insert into \<open>agent_steps\<close>: the primary key and the unique pair of run and version.\<close>

definition insert_step :: "AgentStepRecord \<Rightarrow> db \<Rightarrow> db res" where
  "insert_step r s =
    (if list_ex (\<lambda>q. st_run_id q = st_run_id r \<and> st_state_version q = st_state_version r) (db_steps s)
     then Inl IntegrityError
     else bindE (t_add st_id r (db_steps s)) (\<lambda>t. Inr (s\<lparr>db_steps := t\<rparr>)))"

definition advance_state :: "time \<Rightarrow> AgentNode \<Rightarrow> AgentNode option \<Rightarrow> InvestigationState \<Rightarrow> InvestigationState" where
  "advance_state now node nxt st = st\<lparr>is_current_node := node, is_next_node := nxt,
     is_state_version := is_state_version st + 1, is_last_checkpoint_at := now, is_status := IS_RUNNING\<rparr>"

definition checkpoint_run :: "time \<Rightarrow> time \<Rightarrow> InvestigationState \<Rightarrow> AgentRunRecord \<Rightarrow> AgentRunRecord" where
  "checkpoint_run now lease st r = r\<lparr>rn_current_node := Some (is_current_node st),
     rn_next_node := is_next_node st, rn_state_snapshot := Some st,
     rn_state_version := is_state_version st, rn_iteration := is_iteration st,
     rn_vlm_calls := is_vlm_calls st, rn_consecutive_tool_failures := is_consecutive_tool_failures st,
     rn_total_tool_failures := is_total_tool_failures st,
     rn_stagnant_iterations := is_stagnant_iterations st, rn_last_checkpoint_at := Some now,
     rn_lease_until := Some lease, rn_updated_at := now\<rparr>"

definition step_row ::
    "time \<Rightarrow> string \<Rightarrow> AgentNode \<Rightarrow> json \<Rightarrow> json \<Rightarrow> int \<Rightarrow> InvestigationState \<Rightarrow> AgentStepRecord" where
  "step_row now hex node input output latency st = \<lparr> st_id = ''step_'' @ hex, st_run_id = is_run_id st,
     st_node = node, st_iteration = is_iteration st, st_state_version = is_state_version st,
     st_input_payload = input, st_output_payload = output, st_latency_ms = latency,
     st_status = ''success'', st_error_code = None, st_created_at = now \<rparr>"

text \<open>
  The update carries its expectation in the WHERE clause: the version the executor started from, and
  a run that is still RUNNING. An update that hits no row is the conflict.
\<close>

definition checkpoint_claims :: "InvestigationState \<Rightarrow> db \<Rightarrow> bool" where
  "checkpoint_claims st s = (case t_get rn_id (is_run_id st) (db_runs s) of None \<Rightarrow> False
     | Some r \<Rightarrow> rn_state_version r = is_state_version st \<and> rn_status r = IS_RUNNING)"

definition checkpoint_body ::
    "Settings \<Rightarrow> time \<Rightarrow> string \<Rightarrow> InvestigationState \<Rightarrow> AgentNode \<Rightarrow> AgentNode option \<Rightarrow> json \<Rightarrow> json \<Rightarrow> int
       \<Rightarrow> PendingEvidence list \<Rightarrow> db \<Rightarrow> (InvestigationState \<times> db) res" where
  "checkpoint_body C now hex st node nxt input output latency evidence s =
    (let lease = now + seconds (cfg_agent_job_lease_seconds C); st' = advance_state now node nxt st in
     if \<not> checkpoint_claims st s then Inl (AgentRuntimeError ''AGENT_STATE_CONFLICT'')
     else bindE (append_all (is_case_id st) now evidence
            (update_job (is_job_id st) (\<lambda>j. j\<lparr>jb_lease_until := Some lease, jb_updated_at := now\<rparr>)
            (update_run (is_run_id st) (checkpoint_run now lease st') s)))
       (\<lambda>s1. bindE (insert_step (step_row now hex node input output latency st') s1)
       (\<lambda>s2. Inr (st', s2))))"

definition checkpoint ::
    "Settings \<Rightarrow> time \<Rightarrow> string \<Rightarrow> InvestigationState \<Rightarrow> AgentNode \<Rightarrow> AgentNode option \<Rightarrow> json \<Rightarrow> json \<Rightarrow> int
       \<Rightarrow> PendingEvidence list \<Rightarrow> db \<Rightarrow> InvestigationState res \<times> db" where
  "checkpoint C now hex st node nxt input output latency evidence s =
    (if nxt \<notin> allowed_transitions node then (Inl (AgentRuntimeError ''AGENT_TRANSITION_INVALID''), s)
     else if is_next_node st \<noteq> Some node then (Inl (AgentRuntimeError ''AGENT_TRANSITION_INVALID''), s)
     else run_session (checkpoint_body C now hex st node nxt input output latency evidence) s)"

section \<open>Terminal transitions\<close>

definition complete_status :: "ProvisionalDecision \<Rightarrow> InvestigationStatus" where
  "complete_status d = (if pr_verdict d = V_NEEDS_HUMAN_REVIEW then IS_NEEDS_HUMAN_REVIEW else IS_COMPLETED)"

definition complete_state :: "ProvisionalDecision \<Rightarrow> string \<Rightarrow> InvestigationState \<Rightarrow> InvestigationState" where
  "complete_state d stop st = st\<lparr>is_status := complete_status d, is_provisional_decision := Some d,
     is_stop_reason := Some stop, is_next_node := None\<rparr>"

definition complete_run :: "time \<Rightarrow> ProvisionalDecision \<Rightarrow> string \<Rightarrow> InvestigationState \<Rightarrow> AgentRunRecord \<Rightarrow> AgentRunRecord" where
  "complete_run now d stop st r = r\<lparr>rn_status := is_status st, rn_next_node := None,
     rn_state_snapshot := Some st, rn_provisional_verdict := Some (pr_verdict d),
     rn_stop_reason := Some stop, rn_result_payload := Some (RP_Decision d), rn_lease_until := None, rn_updated_at := now\<rparr>"

definition complete_job :: "time \<Rightarrow> ProcessingJobRecord \<Rightarrow> ProcessingJobRecord" where
  "complete_job now j = j\<lparr>jb_status := JS_SUCCEEDED, jb_finished_at := Some now, jb_lease_until := None,
     jb_error_code := None, jb_updated_at := now\<rparr>"

definition complete_body ::
    "time \<Rightarrow> InvestigationState \<Rightarrow> ProvisionalDecision \<Rightarrow> string \<Rightarrow> db \<Rightarrow> (InvestigationResult \<times> db) res" where
  "complete_body now st d stop s =
    (let st' = complete_state d stop st in
     case (t_get rn_id (is_run_id st) (db_runs s), t_get jb_id (is_job_id st) (db_jobs s),
           t_get ca_id (is_case_id st) (db_cases s)) of
       (Some run, Some job, Some c) \<Rightarrow>
         if rn_state_version run \<noteq> is_state_version st then Inl (AgentRuntimeError ''AGENT_STATE_CONFLICT'')
         else (let s' = update_case (ca_id c) (\<lambda>x. x\<lparr>ca_status :=
                     (if complete_status d = IS_NEEDS_HUMAN_REVIEW then CS_NEEDS_HUMAN_REVIEW else CS_INVESTIGATED),
                     ca_updated_at := now\<rparr>)
                   (update_job (jb_id job) (complete_job now)
                   (update_run (rn_id run) (complete_run now d stop st') s))
               in bindE (run_result s' (complete_run now d stop st' run)) (\<lambda>r. Inr (r, s')))
     | _ \<Rightarrow> Inl (AgentRuntimeError ''AGENT_CHECKPOINT_INVALID''))"

definition complete ::
    "time \<Rightarrow> InvestigationState \<Rightarrow> ProvisionalDecision \<Rightarrow> string \<Rightarrow> db \<Rightarrow> InvestigationResult res \<times> db" where
  "complete now st d stop s = run_session (complete_body now st d stop) s"

definition fail_run :: "time \<Rightarrow> string \<Rightarrow> AgentRunRecord \<Rightarrow> AgentRunRecord" where
  "fail_run now code r = r\<lparr>rn_status := IS_FAILED, rn_stop_reason := Some code, rn_lease_until := None,
     rn_updated_at := now\<rparr>"

definition case_to_review :: "time \<Rightarrow> CaseRecord \<Rightarrow> CaseRecord" where
  "case_to_review now c = c\<lparr>ca_status := CS_NEEDS_HUMAN_REVIEW, ca_updated_at := now\<rparr>"

text \<open>\<open>fail\<close> raises nothing: a missing run, job or case is skipped.\<close>

definition fail :: "time \<Rightarrow> string \<Rightarrow> string \<Rightarrow> db \<Rightarrow> db" where
  "fail now run_id code s = (case t_get rn_id run_id (db_runs s) of
     None \<Rightarrow> s
   | Some run \<Rightarrow>
       update_case (rn_case_id run) (case_to_review now)
       ((case rn_job_id run of None \<Rightarrow> id
         | Some job_id \<Rightarrow> update_job job_id (\<lambda>j. j\<lparr>jb_status := JS_FAILED, jb_error_code := Some code,
              jb_finished_at := Some now, jb_lease_until := None, jb_updated_at := now\<rparr>))
        (update_run run_id (fail_run now code) s)))"

definition retry_delay :: "Settings \<Rightarrow> int \<Rightarrow> int" where
  "retry_delay C attempt = (if cfg_job_retry_intervals C = [] then 0
     else cfg_job_retry_intervals C ! nat (min (max (attempt - 1) 0) (int (length (cfg_job_retry_intervals C)) - 1)))"

definition defer_retry_body :: "Settings \<Rightarrow> time \<Rightarrow> string \<Rightarrow> string \<Rightarrow> db \<Rightarrow> (unit \<times> db) res" where
  "defer_retry_body C now run_id code s = (case t_get rn_id run_id (db_runs s) of
     None \<Rightarrow> Inl (AgentRuntimeError ''AGENT_CHECKPOINT_INVALID'')
   | Some run \<Rightarrow> (case rn_job_id run of None \<Rightarrow> Inl (AgentRuntimeError ''AGENT_CHECKPOINT_INVALID'')
     | Some job_id \<Rightarrow> (case t_get jb_id job_id (db_jobs s) of
         None \<Rightarrow> Inl (AgentRuntimeError ''AGENT_CHECKPOINT_INVALID'')
       | Some job \<Rightarrow>
         if \<not> jb_attempt job < jb_max_attempts job
         then Inr ((), update_case (rn_case_id run) (case_to_review now)
           (update_job job_id (\<lambda>j. j\<lparr>jb_status := JS_FAILED, jb_retryable := False, jb_error_code := Some code,
              jb_finished_at := Some now, jb_lease_until := None, jb_updated_at := now\<rparr>)
           (update_run run_id (fail_run now code) s)))
         else Inr ((), update_job job_id (\<lambda>j. j\<lparr>jb_status := JS_RETRY_WAIT, jb_retryable := True,
              jb_error_code := Some code, jb_next_attempt_at := Some (now + seconds (retry_delay C (jb_attempt job))),
              jb_lease_until := None, jb_updated_at := now\<rparr>)
           (update_run run_id (\<lambda>r. r\<lparr>rn_status := IS_PENDING, rn_lease_until := None,
              rn_stop_reason := Some code, rn_updated_at := now\<rparr>) s)))))"

definition defer_retry :: "Settings \<Rightarrow> time \<Rightarrow> string \<Rightarrow> string \<Rightarrow> db \<Rightarrow> unit res \<times> db" where
  "defer_retry C now run_id code s = run_session (defer_retry_body C now run_id code) s"

definition get_result :: "string \<Rightarrow> db \<Rightarrow> InvestigationResult res" where
  "get_result run_id s = (case t_get rn_id run_id (db_runs s) of
     None \<Rightarrow> Inl (AgentRuntimeError ''AGENT_RUN_NOT_FOUND'') | Some run \<Rightarrow> run_result s run)"

section \<open>Frames\<close>

lemma update_simps [simp]:
  "db_runs (update_run i f s) = t_upd rn_id i f (db_runs s)" "db_jobs (update_run i f s) = db_jobs s"
  "db_cases (update_run i f s) = db_cases s" "db_steps (update_run i f s) = db_steps s"
  "db_evidence (update_run i f s) = db_evidence s" "db_tools (update_run i f s) = db_tools s"
  "db_calls (update_run i f s) = db_calls s"
  "db_runs (update_job j g s) = db_runs s" "db_cases (update_job j g s) = db_cases s"
  "db_steps (update_job j g s) = db_steps s" "db_evidence (update_job j g s) = db_evidence s"
  "db_tools (update_job j g s) = db_tools s" "db_calls (update_job j g s) = db_calls s"
  "db_cases (update_case c h s) = t_upd ca_id c h (db_cases s)" "db_runs (update_case c h s) = db_runs s"
  "db_jobs (update_case c h s) = db_jobs s" "db_steps (update_case c h s) = db_steps s"
  "db_evidence (update_case c h s) = db_evidence s" "db_tools (update_case c h s) = db_tools s"
  "db_calls (update_case c h s) = db_calls s"
  by (simp_all add: update_run_def update_job_def update_case_def)

lemma row_update_ids [simp]:
  "rn_id (claim_run now l st r) = rn_id r" "rn_id (checkpoint_run now l st r) = rn_id r"
  "rn_id (complete_run now d stop st r) = rn_id r" "rn_id (fail_run now code r) = rn_id r"
  "jb_id (claim_job now l j) = jb_id j" "jb_id (complete_job now j) = jb_id j"
  "ca_id (case_to_review now c) = ca_id c"
  by (simp_all add: claim_run_def checkpoint_run_def complete_run_def fail_run_def claim_job_def
      complete_job_def case_to_review_def)

lemma append_pending_frame:
  assumes "append_pending cid item now s = Inr (r, s')"
  shows "db_runs s' = db_runs s" "db_jobs s' = db_jobs s" "db_cases s' = db_cases s" "db_steps s' = db_steps s"
    "db_calls s' = db_calls s" "db_tools s' = db_tools s"
  using assms by (cases rule: append_pending_cases, simp_all)+

lemma append_all_frame:
  "append_all cid now items s = Inr s' \<Longrightarrow> db_runs s' = db_runs s \<and> db_jobs s' = db_jobs s
     \<and> db_cases s' = db_cases s \<and> db_steps s' = db_steps s \<and> db_calls s' = db_calls s \<and> db_tools s' = db_tools s"
proof (induction items arbitrary: s)
  case Nil
  then show ?case by simp
next
  case (Cons item items)
  then obtain r s1 where "append_pending cid item now s = Inr (r, s1)" "append_all cid now items s1 = Inr s'"
    by (auto simp: bindE_Inr_iff)
  then show ?case using Cons.IH append_pending_frame by metis
qed

section \<open>Cases of the operations\<close>

lemma claim_working:
  assumes "claim C now q s = (Inr (Working st), s')"
  obtains job run c snapshot where "t_get jb_id (jq_job_id q) (db_jobs s) = Some job"
    and "payload_run q s = Some run" and "request_matches q job run"
    and "rn_status run = IS_PENDING \<or> rn_status run = IS_RUNNING"
    and "\<not> (rn_status run = IS_RUNNING \<and> lease_active (rn_lease_until run) now)"
    and "jb_status job \<in> {JS_PENDING, JS_RUNNING, JS_RETRY_WAIT}"
    and "t_get ca_id (rn_case_id run) (db_cases s) = Some c" and "ca_status c \<in> {CS_READY, CS_INVESTIGATING}"
    and "rn_state_snapshot run = Some snapshot" and "st = claim_state now snapshot"
    and "s' = update_case (ca_id c) (\<lambda>x. x\<lparr>ca_status := CS_INVESTIGATING, ca_updated_at := now\<rparr>)
           (update_run (rn_id run) (claim_run now (now + seconds (cfg_agent_job_lease_seconds C)) st)
           (update_job (jb_id job) (claim_job now (now + seconds (cfg_agent_job_lease_seconds C))) s))"
  using assms
  by (cases "rn_status (the (payload_run q s))")
     (auto simp: claim_def run_session_Inr_iff claim_body_def bindE_Inr_iff Let_def terminal_status_def
      split: option.splits if_splits)

lemma claim_other:
  assumes "claim C now q s = (r, s')" and "\<forall>st. r \<noteq> Inr (Working st)"
  shows "s' = s"
proof (cases r)
  case (Inl e)
  then show ?thesis using assms(1) run_session_rollback [of "claim_body C now q" s] by (simp add: claim_def)
next
  case (Inr a)
  then have "claim_body C now q s = Inr (a, s')" using assms(1) by (simp add: claim_def run_session_Inr_iff)
  then show ?thesis using assms(2) Inr
    by (auto simp: claim_body_def bindE_Inr_iff Let_def split: option.splits if_splits)
qed

lemma payload_run_get: "payload_run q s = Some run \<Longrightarrow> t_get rn_id (rn_id run) (db_runs s) = Some run"
  by (auto simp: payload_run_def split: option.splits json.splits dest: t_get_Some)

lemma checkpoint_Inr:
  assumes "checkpoint C now hex st node nxt input output latency evidence s = (Inr st', s')"
  obtains s1 where "nxt \<in> allowed_transitions node" and "is_next_node st = Some node"
    and "checkpoint_claims st s" and "st' = advance_state now node nxt st"
    and "append_all (is_case_id st) now evidence
            (update_job (is_job_id st) (\<lambda>j. j\<lparr>jb_lease_until := Some (now + seconds (cfg_agent_job_lease_seconds C)), jb_updated_at := now\<rparr>)
            (update_run (is_run_id st) (checkpoint_run now (now + seconds (cfg_agent_job_lease_seconds C)) st') s)) = Inr s1"
    and "s' = s1\<lparr>db_steps := db_steps s @ [step_row now hex node input output latency st']\<rparr>"
    and "\<forall>q\<in>set (db_steps s). st_run_id q = is_run_id st \<longrightarrow> st_state_version q \<noteq> is_state_version st + 1"
proof -
  have b: "checkpoint_body C now hex st node nxt input output latency evidence s = Inr (st', s')"
    and n: "nxt \<in> allowed_transitions node" "is_next_node st = Some node"
    using assms by (auto simp: checkpoint_def run_session_def split: if_splits sum.splits)
  from b obtain s1 where c: "checkpoint_claims st s" "st' = advance_state now node nxt st"
    and a: "append_all (is_case_id st) now evidence
            (update_job (is_job_id st) (\<lambda>j. j\<lparr>jb_lease_until := Some (now + seconds (cfg_agent_job_lease_seconds C)), jb_updated_at := now\<rparr>)
            (update_run (is_run_id st) (checkpoint_run now (now + seconds (cfg_agent_job_lease_seconds C)) st') s)) = Inr s1"
    and i: "insert_step (step_row now hex node input output latency st') s1 = Inr s'"
    by (auto simp: checkpoint_body_def Let_def bindE_Inr_iff split: if_splits)
  have f: "db_steps s1 = db_steps s" using append_all_frame [OF a] by simp
  show ?thesis
    using i f c(2) by (intro that [OF n c a])
      (auto simp: insert_step_def table_simps list_ex_iff step_row_def advance_state_def split: if_splits)
qed

lemma checkpoint_Inl:
  "checkpoint C now hex st node nxt input output latency evidence s = (Inl e, s') \<Longrightarrow> s' = s"
  by (auto simp: checkpoint_def run_session_def split: if_splits sum.splits)

lemma run_result_complete [simp]:
  "run_result s (complete_run now d stop st run) = Inr (result_of s (complete_run now d stop st run) (Some d))"
  by (simp add: run_result_def complete_run_def)

lemma complete_Inr:
  assumes "complete now st d stop s = (Inr res, s')"
  obtains run job c where "t_get rn_id (is_run_id st) (db_runs s) = Some run"
    and "t_get jb_id (is_job_id st) (db_jobs s) = Some job" and "t_get ca_id (is_case_id st) (db_cases s) = Some c"
    and "rn_state_version run = is_state_version st"
    and "s' = update_case (ca_id c) (\<lambda>x. x\<lparr>ca_status :=
                (if complete_status d = IS_NEEDS_HUMAN_REVIEW then CS_NEEDS_HUMAN_REVIEW else CS_INVESTIGATED),
                ca_updated_at := now\<rparr>)
              (update_job (jb_id job) (complete_job now)
              (update_run (rn_id run) (complete_run now d stop (complete_state d stop st)) s))"
    and "res = result_of s' (complete_run now d stop (complete_state d stop st) run) (Some d)"
  using assms by (auto simp: complete_def complete_body_def run_session_Inr_iff bindE_Inr_iff Let_def
      split: option.splits if_splits)

lemma complete_Inl: "complete now st d stop s = (Inl e, s') \<Longrightarrow> s' = s"
  by (auto simp: complete_def run_session_def split: sum.splits)

section \<open>Leases\<close>

text \<open>
  The lease of a run, interpreted for the claim and renewed by the checkpoint. Rivals are requests
  that name the same run, whatever else they carry.
\<close>

definition run_leased :: "JobRequest \<Rightarrow> db \<Rightarrow> time \<Rightarrow> bool" where
  "run_leased q s now \<longleftrightarrow> (\<exists>run. payload_run q s = Some run \<and> rn_status run = IS_RUNNING
     \<and> lease_active (rn_lease_until run) now)"

definition same_run :: "JobRequest \<Rightarrow> JobRequest \<Rightarrow> bool" where
  "same_run q q' \<longleftrightarrow> dict_get ''run_id'' (jq_payload q) = dict_get ''run_id'' (jq_payload q')"

lemma payload_run_same: "same_run q q' \<Longrightarrow> payload_run q' s = payload_run q s"
  by (simp add: same_run_def payload_run_def)

definition commit ::
    "Settings \<Rightarrow> string \<times> InvestigationState \<times> AgentNode \<times> AgentNode option \<times> json \<times> json \<times> int \<times> PendingEvidence list
       \<Rightarrow> time \<Rightarrow> db \<Rightarrow> InvestigationState res \<times> db" where
  "commit C w now s = (case w of (hex, st, node, nxt, input, output, latency, evidence) \<Rightarrow>
     checkpoint C now hex st node nxt input output latency evidence s)"

definition commits_run ::
    "string \<times> InvestigationState \<times> AgentNode \<times> AgentNode option \<times> json \<times> json \<times> int \<times> PendingEvidence list
       \<Rightarrow> JobRequest \<Rightarrow> bool" where
  "commits_run w q \<longleftrightarrow> dict_get ''run_id'' (jq_payload q) = Some (JStr (is_run_id (fst (snd w))))"

lemma checkpoint_runs:
  assumes "checkpoint C now hex st node nxt input output latency evidence s = (Inr st', s')"
  shows "db_runs s' = t_upd rn_id (is_run_id st)
           (checkpoint_run now (now + seconds (cfg_agent_job_lease_seconds C)) st') (db_runs s)"
    and "db_steps s' = db_steps s @ [step_row now hex node input output latency st']"
proof -
  from assms obtain s1 where a: "append_all (is_case_id st) now evidence
            (update_job (is_job_id st) (\<lambda>j. j\<lparr>jb_lease_until := Some (now + seconds (cfg_agent_job_lease_seconds C)), jb_updated_at := now\<rparr>)
            (update_run (is_run_id st) (checkpoint_run now (now + seconds (cfg_agent_job_lease_seconds C)) st') s)) = Inr s1"
    and s': "s' = s1\<lparr>db_steps := db_steps s @ [step_row now hex node input output latency st']\<rparr>"
    by (rule checkpoint_Inr)
  then show "db_runs s' = t_upd rn_id (is_run_id st)
           (checkpoint_run now (now + seconds (cfg_agent_job_lease_seconds C)) st') (db_runs s)"
    and "db_steps s' = db_steps s @ [step_row now hex node input output latency st']"
    using append_all_frame [OF a] by simp_all
qed

interpretation run_lease: renewable_lease_contract "\<lambda>q now s. claim C now q s" "\<lambda>a. \<exists>st. a = Working st" same_run run_leased
  "seconds (cfg_agent_job_lease_seconds C)" "commit C" commits_run for C
proof (unfold_locales, goal_cases)
  case (1 q s now)
  then have "\<exists>e. claim_body C now q s = Inl e"
    by (auto simp: run_leased_def claim_body_def terminal_status_def split: option.splits)
  then show ?case by (auto simp: claim_def run_session_def)
next
  case (2 q now s a s' q' t)
  then obtain st where "claim C now q s = (Inr (Working st), s')" by auto
  then obtain run where r: "payload_run q s = Some run" and s': "db_runs s' = t_upd rn_id (rn_id run)
      (claim_run now (now + seconds (cfg_agent_job_lease_seconds C)) st) (db_runs s)"
    by (auto elim: claim_working)
  have "payload_run q s' = Some (claim_run now (now + seconds (cfg_agent_job_lease_seconds C)) st run)"
    using r s' by (auto simp: payload_run_def t_get_upd split: option.splits json.splits dest: t_get_Some)
  then have "payload_run q' s' = Some (claim_run now (now + seconds (cfg_agent_job_lease_seconds C)) st run)"
    using payload_run_same [OF 2(3)] by simp
  then show ?case using 2(4) by (simp add: run_leased_def claim_run_def lease_active_def)
next
  case (3 w now s b s' q t)
  obtain hex st node nxt inp outp latency evidence
    where w: "w = (hex, st, node, nxt, inp, outp, latency, evidence)" by (metis surj_pair)
  then have c: "checkpoint C now hex st node nxt inp outp latency evidence s = (Inr b, s')"
    using 3 by (simp add: commit_def)
  then have "checkpoint_claims st s" by (rule checkpoint_Inr)
  then obtain r where r: "t_get rn_id (is_run_id st) (db_runs s) = Some r" "rn_status r = IS_RUNNING"
    by (auto simp: checkpoint_claims_def split: option.splits)
  have "payload_run q s' = Some (checkpoint_run now (now + seconds (cfg_agent_job_lease_seconds C)) b r)"
    using checkpoint_runs [OF c] r 3(2) w by (simp add: payload_run_def commits_run_def t_get_upd)
  then show ?case using 3(3) r by (simp add: run_leased_def checkpoint_run_def lease_active_def)
qed

text \<open>
  C13. A run has one executor at a time. A claim that hands out a state leaves the run and its job
  RUNNING with one more attempt counted, and until the lease ends every further claim of that run,
  any number of them and whatever the requests carry, is refused and changes nothing.
\<close>

theorem claim_exclusive:
  assumes "claim C now q s = (Inr (Working st), s')"
    and "\<forall>(q', t)\<in>set rivals. same_run q q' \<and> t < now + seconds (cfg_agent_job_lease_seconds C)"
  shows "(\<forall>(q', t)\<in>set rivals. \<exists>e. claim C t q' s' = (Inl e, s'))
    \<and> fold (\<lambda>(q', t) z. snd (claim C t q' z)) rivals s' = s'
    \<and> (\<exists>j. t_get jb_id (jq_job_id q) (db_jobs s) = Some j
         \<and> t_get jb_id (jq_job_id q) (db_jobs s') = Some (claim_job now (now + seconds (cfg_agent_job_lease_seconds C)) j))"
proof -
  have "\<exists>e. claim C t q' s' = (Inl e, s')" if "(q', t) \<in> set rivals" for q' t
    using run_lease.exclusive [OF assms(1)] assms(2) that by blast
  moreover have "fold (\<lambda>(q', t) z. snd (claim C t q' z)) rivals s' = s'"
    by (rule run_lease.rivals_refused [OF assms(1) _ assms(2)]) simp
  moreover have "\<exists>j. t_get jb_id (jq_job_id q) (db_jobs s) = Some j
      \<and> t_get jb_id (jq_job_id q) (db_jobs s') = Some (claim_job now (now + seconds (cfg_agent_job_lease_seconds C)) j)"
    using assms(1) by (rule claim_working) (auto simp: t_get_upd dest: t_get_Some)
  ultimately show ?thesis by blast
qed


section \<open>Ends of a run\<close>

lemma payload_run_update:
  assumes "\<And>r. rn_id (f r) = rn_id r" and "db_runs s' = t_upd rn_id i f (db_runs s)"
  shows "payload_run q s' = map_option (\<lambda>r. if rn_id r = i then f r else r) (payload_run q s)"
  using assms by (auto simp: payload_run_def t_get_upd map_option_case split: option.splits json.splits dest: t_get_Some)

lemma complete_run_simps [simp]:
  "rn_status (complete_run now d stop st run) = is_status st"
  "rn_result_payload (complete_run now d stop st run) = Some (RP_Decision d)"
  "rn_stop_reason (complete_run now d stop st run) = Some stop"
  "is_status (complete_state d stop st) = complete_status d"
  by (simp_all add: complete_run_def complete_state_def)

lemma complete_result:
  assumes "complete now st d stop s = (Inr res, s')"
  obtains run where "t_get rn_id (is_run_id st) (db_runs s') = Some run" and "res = result_of s' run (Some d)"
    and "rn_status run = complete_status d" and "rn_result_payload run = Some (RP_Decision d)" and "rn_stop_reason run = Some stop"
proof -
  from assms obtain run where g: "t_get rn_id (is_run_id st) (db_runs s) = Some run"
    and runs: "db_runs s' = t_upd rn_id (rn_id run) (complete_run now d stop (complete_state d stop st)) (db_runs s)"
    and res: "res = result_of s' (complete_run now d stop (complete_state d stop st) run) (Some d)"
    by (rule complete_Inr) simp
  have "rn_id run = is_run_id st" using t_get_Some [OF g] by simp
  then show ?thesis using g runs res
    by (intro that [of "complete_run now d stop (complete_state d stop st) run"]) (simp_all add: t_get_upd)
qed

text \<open>
  A completed investigation is final for the queue. Completion stores the decision, the verdict
  and the stop reason, ends the job, moves the case on by the verdict, and a request for the run that
  is delivered again, at any time, gets the same result and changes nothing.
\<close>

theorem complete_is_final:
  assumes "complete now st d stop s = (Inr res, s')"
  shows "ires_status res = complete_status d \<and> ires_provisional_decision res = Some d \<and> ires_stop_reason res = Some stop
    \<and> get_result (is_run_id st) s' = Inr res
    \<and> (\<exists>j. t_get jb_id (is_job_id st) (db_jobs s') = Some j \<and> jb_status j = JS_SUCCEEDED \<and> jb_lease_until j = None)
    \<and> (\<exists>c. t_get ca_id (is_case_id st) (db_cases s') = Some c \<and> ca_status c =
         (if pr_verdict d = V_NEEDS_HUMAN_REVIEW then CS_NEEDS_HUMAN_REVIEW else CS_INVESTIGATED))
    \<and> (\<forall>q t job run. t_get jb_id (jq_job_id q) (db_jobs s') = Some job \<and> payload_run q s' = Some run
         \<and> rn_id run = is_run_id st \<and> request_matches q job run \<longrightarrow> claim C t q s' = (Inr (Finished res), s'))"
proof -
  from assms obtain run where g: "t_get rn_id (is_run_id st) (db_runs s') = Some run" and res: "res = result_of s' run (Some d)"
    and run: "rn_status run = complete_status d" "rn_result_payload run = Some (RP_Decision d)" "rn_stop_reason run = Some stop"
    by (rule complete_result)
  have t: "terminal_status (rn_status run)" by (simp add: run terminal_status_def complete_status_def)
  have "claim C t q s' = (Inr (Finished res), s')"
    if "t_get jb_id (jq_job_id q) (db_jobs s') = Some job" "payload_run q s' = Some r" "rn_id r = is_run_id st"
      "request_matches q job r" for q t job r
  proof -
    have "r = run" using payload_run_get [OF that(2)] that(3) g by simp
    then show ?thesis using that t res run by (simp add: claim_def claim_body_def run_session_def run_result_def)
  qed
  moreover have "\<exists>j. t_get jb_id (is_job_id st) (db_jobs s') = Some j \<and> jb_status j = JS_SUCCEEDED \<and> jb_lease_until j = None"
    using assms by (rule complete_Inr) (auto simp: t_get_upd complete_job_def dest: t_get_Some)
  moreover have "\<exists>c. t_get ca_id (is_case_id st) (db_cases s') = Some c \<and> ca_status c =
      (if pr_verdict d = V_NEEDS_HUMAN_REVIEW then CS_NEEDS_HUMAN_REVIEW else CS_INVESTIGATED)"
    using assms by (rule complete_Inr) (auto simp: t_get_upd complete_status_def dest: t_get_Some)
  ultimately show ?thesis using g res run by (simp add: result_of_def run_result_def get_result_def)
qed

lemma defer_retry_Inr:
  assumes "defer_retry C now i code s = (Inr x, s')"
  obtains (waiting) run j where "t_get rn_id i (db_runs s) = Some run" and "rn_job_id run = Some j"
      and "db_runs s' = t_upd rn_id i (\<lambda>r. r\<lparr>rn_status := IS_PENDING, rn_lease_until := None,
              rn_stop_reason := Some code, rn_updated_at := now\<rparr>) (db_runs s)"
      and "\<exists>job. t_get jb_id j (db_jobs s) = Some job \<and> jb_attempt job < jb_max_attempts job
         \<and> t_get jb_id j (db_jobs s') = Some (job\<lparr>jb_status := JS_RETRY_WAIT, jb_retryable := True,
              jb_error_code := Some code, jb_next_attempt_at := Some (now + seconds (retry_delay C (jb_attempt job))),
              jb_lease_until := None, jb_updated_at := now\<rparr>)"
      and "db_cases s' = db_cases s"
  | (exhausted) run where "t_get rn_id i (db_runs s) = Some run" and "db_runs s' = t_upd rn_id i (fail_run now code) (db_runs s)"
proof -
  have b: "defer_retry_body C now i code s = Inr (x, s')"
    using assms by (auto simp: defer_retry_def run_session_def split: sum.splits)
  then obtain run j job where g: "t_get rn_id i (db_runs s) = Some run" "rn_job_id run = Some j" "t_get jb_id j (db_jobs s) = Some job"
    by (auto simp: defer_retry_body_def split: option.splits)
  have "jb_id job = j" using t_get_Some [OF g(3)] by simp
  show ?thesis
  proof (cases "jb_attempt job < jb_max_attempts job")
    case True
    then show ?thesis using b g by (intro waiting [OF g(1,2)]) (auto simp: defer_retry_body_def t_get_upd)
  next
    case False
    then show ?thesis using b g by (intro exhausted [OF g(1)]) (auto simp: defer_retry_body_def)
  qed
qed

text \<open>
  A finding. \<open>defer_retry\<close> sets the job of a run retryable, a later claim leaves that mark, and
  \<open>fail\<close> does not clear it. When the resumed attempt fails for good, a manual retry is accepted and
  the job is PENDING and due at every later moment, yet the run is FAILED and every claim of it is
  refused without a trace: the job can neither run nor end.
\<close>

theorem retried_failure_is_stuck:
  assumes "defer_retry C now1 i code1 s = (Inr (), s1)"
    and "claim C now2 q s1 = (Inr (Working st), s2)" and "dict_get ''run_id'' (jq_payload q) = Some (JStr i)"
    and "t_get jb_id (jq_job_id q) (db_jobs s2) = Some job" and "jb_attempt job < jb_max_attempts job"
  shows "\<exists>v s4. retry now4 (jq_job_id q) (fail now3 i code2 s2) = (Inr v, s4) \<and> jv_status v = JS_PENDING
    \<and> (\<exists>j. t_get jb_id (jq_job_id q) (db_jobs s4) = Some j \<and> (\<forall>t. is_due t j))
    \<and> (\<forall>t q'. same_run q q' \<longrightarrow> (\<exists>e. claim C t q' s4 = (Inl e, s4)))"
proof -
  from assms(2) obtain j1 run and c :: CaseRecord where j1: "t_get jb_id (jq_job_id q) (db_jobs s1) = Some j1" and run: "payload_run q s1 = Some run"
    and m: "request_matches q j1 run" and stat: "rn_status run = IS_PENDING \<or> rn_status run = IS_RUNNING"
    and s2: "s2 = update_case (ca_id c) (\<lambda>x. x\<lparr>ca_status := CS_INVESTIGATING, ca_updated_at := now2\<rparr>)
           (update_run (rn_id run) (claim_run now2 (now2 + seconds (cfg_agent_job_lease_seconds C)) st)
           (update_job (jb_id j1) (claim_job now2 (now2 + seconds (cfg_agent_job_lease_seconds C))) s1))"
    by (rule claim_working) (rule that; assumption)
  have run1: "t_get rn_id i (db_runs s1) = Some run" and idr: "rn_id run = i"
    using run assms(3) by (auto simp: payload_run_def dest: t_get_Some)
  have jid: "jb_id j1 = jq_job_id q" using t_get_Some [OF j1] by simp
  have rj: "rn_job_id run = Some (jq_job_id q)" using m jid by (simp add: request_matches_def)
  have ret: "jb_retryable j1"
    using assms(1)
  proof (cases rule: defer_retry_Inr)
    case (waiting r j)
    then have "rn_job_id run = Some j" using run1 by (auto simp: t_get_upd)
    then show ?thesis using waiting(4) j1 rj by auto
  next
    case (exhausted r)
    then show ?thesis using run1 stat by (auto simp: t_get_upd fail_run_def)
  qed
  define j2 where "j2 = claim_job now2 (now2 + seconds (cfg_agent_job_lease_seconds C)) j1"
  define r2 where "r2 = claim_run now2 (now2 + seconds (cfg_agent_job_lease_seconds C)) st run"
  have j2: "t_get jb_id (jq_job_id q) (db_jobs s2) = Some j2" using j1 jid s2 by (simp add: t_get_upd j2_def)
  have r2: "t_get rn_id i (db_runs s2) = Some r2" using run1 idr s2 by (simp add: t_get_upd r2_def)
  have job: "job = j2" using assms(4) j2 by simp
  have jret: "jb_retryable j2" using ret by (simp add: j2_def claim_job_def)
  have rj2: "rn_job_id r2 = Some (jq_job_id q)" using rj by (simp add: r2_def claim_run_def)
  let ?s3 = "fail now3 i code2 s2"
  define j3 where "j3 = j2\<lparr>jb_status := JS_FAILED, jb_error_code := Some code2,
              jb_finished_at := Some now3, jb_lease_until := None, jb_updated_at := now3\<rparr>"
  have j3: "t_get jb_id (jq_job_id q) (db_jobs ?s3) = Some j3"
    using r2 rj2 j2 by (simp add: fail_def t_get_upd j3_def)
  have r3: "t_get rn_id i (db_runs ?s3) = Some (fail_run now3 code2 r2)"
    using r2 rj2 by (simp add: fail_def t_get_upd)
  define s4 where "s4 = update_job (jq_job_id q) (reset_for_retry now4) ?s3"
  have retry: "retry now4 (jq_job_id q) ?s3 = (Inr (job_view (reset_for_retry now4 j3)), s4)"
    using j3 jret assms(5) job by (simp add: retry_def retry_body_def run_session_def j3_def s4_def)
  have "t_get jb_id (jq_job_id q) (db_jobs s4) = Some (reset_for_retry now4 j3)"
    using j3 by (simp add: s4_def t_get_upd reset_for_retry_def)
  moreover have "is_due t (reset_for_retry now4 j3)" for t
    using assms(5) job by (simp add: is_due_def reset_for_retry_def j3_def)
  moreover have "\<exists>e. claim C t q' s4 = (Inl e, s4)" if "same_run q q'" for t q'
  proof -
    have "payload_run q' s4 = Some (fail_run now3 code2 r2)"
      using payload_run_same [OF that] assms(3) r3 by (simp add: payload_run_def s4_def)
    then have "\<exists>e. claim_body C t q' s4 = Inl e"
      by (auto simp: claim_body_def fail_run_def terminal_status_def split: option.splits)
    then show ?thesis by (auto simp: claim_def run_session_def)
  qed
  ultimately show ?thesis using retry by (auto simp: job_view_def reset_for_retry_def)
qed

end
