(* ===== verification/AgentMachine.thy ===== *)
theory AgentMachine
  imports AgentService
begin

text \<open>
  The operations of \<open>AgentService\<close> as the steps of one machine: the database with the states that
  executors hold in memory. Its invariant ties every run to its step rows; what follows is the
  history of a run. The examples at the end drive a prepared case through the operations.
\<close>

section \<open>The runtime as a step relation\<close>

text \<open>
  The database together with the states executors hold in memory. An executor may rework the payload
  of a state it holds, never its control fields; several executors may hold states of one run, since
  a lease can expire under a slow one. Every other component of the program is the rule \<open>other\<close>.
\<close>

definition same_control :: "InvestigationState \<Rightarrow> InvestigationState \<Rightarrow> bool" where
  "same_control st st' \<longleftrightarrow> is_run_id st' = is_run_id st \<and> is_job_id st' = is_job_id st
     \<and> is_case_id st' = is_case_id st \<and> is_state_version st' = is_state_version st
     \<and> is_next_node st' = is_next_node st"

text \<open>
  What the rest of the program may do to the table of runs: change the status of a run that it keeps
  otherwise, and add runs without a history (those of tools called by hand).
\<close>

definition quiet_runs :: "AgentRunRecord list \<Rightarrow> AgentRunRecord list \<Rightarrow> bool" where
  "quiet_runs rs rs' \<longleftrightarrow> (\<exists>f new. rs' = map f rs @ new \<and> (keys_distinct rn_id rs \<longrightarrow> keys_distinct rn_id rs')
     \<and> (\<forall>r. rn_id (f r) = rn_id r \<and> rn_state_version (f r) = rn_state_version r
            \<and> rn_state_snapshot (f r) = rn_state_snapshot r)
     \<and> (\<forall>r\<in>set new. rn_state_version r = 0 \<and> rn_state_snapshot r = None))"

lemma quiet_runs_refl [simp]: "quiet_runs rs rs"
  unfolding quiet_runs_def by (rule exI [of _ id], rule exI [of _ "[]"]) simp

lemma quiet_runs_map:
  assumes "\<And>r. rn_id (f r) = rn_id r" and "\<And>r. rn_state_version (f r) = rn_state_version r"
    and "\<And>r. rn_state_snapshot (f r) = rn_state_snapshot r"
  shows "quiet_runs rs (map f rs)"
  unfolding quiet_runs_def keys_distinct_def
  by (rule exI [of _ f], rule exI [of _ "[]"]) (simp add: assms comp_def)

lemma quiet_runs_snoc:
  assumes "t_get rn_id (rn_id r) rs = None" and "rn_state_version r = 0" and "rn_state_snapshot r = None"
  shows "quiet_runs rs (rs @ [r])"
  unfolding quiet_runs_def keys_distinct_def
  by (rule exI [of _ id], rule exI [of _ "[r]"]) (use assms in \<open>auto simp: t_get_None\<close>)

inductive agent_step :: "env \<Rightarrow> Settings \<Rightarrow> db \<times> InvestigationState list \<Rightarrow> db \<times> InvestigationState list \<Rightarrow> bool"
  for E :: env and C :: Settings where
  ag_prepare: "prepare E C now hex cid profile scope s = (r, s') \<Longrightarrow> agent_step E C (s, H) (s', H)"
| ag_claim: "claim C now q s = (Inr (Working st), s') \<Longrightarrow> agent_step E C (s, H) (s', st # H)"
| ag_work: "st \<in> set H \<Longrightarrow> same_control st st' \<Longrightarrow> agent_step E C (s, H) (s, st' # H)"
| ag_checkpoint: "st \<in> set H \<Longrightarrow>
    checkpoint C now hex0 st node nxt input outp latency evidence s = (Inr st', s') \<Longrightarrow>
    agent_step E C (s, H) (s', st' # H)"
| ag_complete: "st \<in> set H \<Longrightarrow> complete now st d stop s = (Inr res, s') \<Longrightarrow> agent_step E C (s, H) (s', H)"
| ag_fail: "agent_step E C (s, H) (fail now run_id code s, H)"
| ag_defer: "defer_retry C now run_id code s = (Inr u', s') \<Longrightarrow> agent_step E C (s, H) (s', H)"
| ag_other: "quiet_runs (db_runs s) (db_runs s') \<Longrightarrow> db_steps s' = db_steps s \<Longrightarrow> agent_step E C (s, H) (s', H)"

inductive_cases agent_stepE: "agent_step E C x y"

definition steps_of :: "string \<Rightarrow> db \<Rightarrow> AgentStepRecord list" where
  "steps_of i s = filter (\<lambda>x. st_run_id x = i) (db_steps s)"

definition nodes_of :: "string \<Rightarrow> db \<Rightarrow> AgentNode list" where
  "nodes_of i s = map st_node (steps_of i s)"

text \<open>A walk through the graph of the investigation from PLAN, and what may follow it.\<close>

definition legal_walk :: "AgentNode list \<Rightarrow> bool" where
  "legal_walk ns \<longleftrightarrow> (ns = [] \<or> hd ns = N_PLAN) \<and> successively (\<lambda>a b. Some b \<in> allowed_transitions a) ns"

definition legal_next :: "AgentNode list \<Rightarrow> AgentNode option \<Rightarrow> bool" where
  "legal_next ns nxt \<longleftrightarrow> nxt = None \<or> nxt \<in> (if ns = [] then {Some N_PLAN} else allowed_transitions (last ns))"

lemma legal_walk_snoc: "legal_walk ns \<Longrightarrow> legal_next ns (Some n) \<Longrightarrow> legal_walk (ns @ [n])"
  by (auto simp: legal_walk_def legal_next_def successively_append_iff split: if_splits)

lemma legal_next_snoc: "nxt \<in> allowed_transitions n \<Longrightarrow> legal_next (ns @ [n]) nxt"
  by (simp add: legal_next_def)

text \<open>
  A run and its step rows agree, the snapshot is a state of the current version, and a held state is
  never ahead of its run and legal where it is level with it.
\<close>

definition run_ok :: "db \<Rightarrow> AgentRunRecord \<Rightarrow> bool" where
  "run_ok s r \<longleftrightarrow> rn_state_version r = int (length (steps_of (rn_id r) s))
     \<and> numbered (map st_state_version (steps_of (rn_id r) s)) \<and> legal_walk (nodes_of (rn_id r) s)
     \<and> (\<forall>st. rn_state_snapshot r = Some st \<longrightarrow> is_run_id st = rn_id r
          \<and> is_state_version st = rn_state_version r \<and> legal_next (nodes_of (rn_id r) s) (is_next_node st))"

definition held_ok :: "db \<Rightarrow> InvestigationState \<Rightarrow> bool" where
  "held_ok s st \<longleftrightarrow> (\<exists>r. t_get rn_id (is_run_id st) (db_runs s) = Some r
     \<and> is_state_version st \<le> rn_state_version r
     \<and> (is_state_version st = rn_state_version r \<longrightarrow> legal_next (nodes_of (is_run_id st) s) (is_next_node st)))"

definition runtime_ok :: "db \<times> InvestigationState list \<Rightarrow> bool" where
  "runtime_ok x \<longleftrightarrow> keys_distinct rn_id (db_runs (fst x)) \<and> (\<forall>r\<in>set (db_runs (fst x)). run_ok (fst x) r)
     \<and> st_run_id ` set (db_steps (fst x)) \<subseteq> rn_id ` set (db_runs (fst x))
     \<and> (\<forall>st\<in>set (snd x). held_ok (fst x) st)"

lemma run_ok_cong: "db_steps s' = db_steps s \<Longrightarrow> run_ok s' = run_ok s"
  by (simp add: fun_eq_iff run_ok_def steps_of_def nodes_of_def)

lemma nodes_of_cong: "db_steps s' = db_steps s \<Longrightarrow> nodes_of i s' = nodes_of i s"
  by (simp add: steps_of_def nodes_of_def)

text \<open>A change of run rows that keeps identity, version and the legality of the snapshot.\<close>

lemma runtime_ok_upd:
  assumes ok: "runtime_ok (s, H)" and t: "db_runs s' = t_upd rn_id i f (db_runs s)"
    and st: "db_steps s' = db_steps s"
    and id: "\<And>r. rn_id (f r) = rn_id r" and v: "\<And>r. rn_state_version (f r) = rn_state_version r"
    and k: "\<And>r. t_get rn_id i (db_runs s) = Some r \<Longrightarrow> run_ok s r \<Longrightarrow> run_ok s (f r)"
  shows "runtime_ok (s', H)"
proof -
  have d: "keys_distinct rn_id (db_runs s)" and r: "\<forall>r\<in>set (db_runs s). run_ok s r"
    and fk: "st_run_id ` set (db_steps s) \<subseteq> rn_id ` set (db_runs s)" and h: "\<forall>st\<in>set H. held_ok s st"
    using ok by (simp_all add: runtime_ok_def)
  have ids: "rn_id ` set (db_runs s') = rn_id ` set (db_runs s)"
    using map_key_upd [of rn_id f i "db_runs s", OF id] t by (metis list.set_map)
  have "run_ok s' x" if x: "x \<in> set (db_runs s')" for x
  proof -
    obtain y where y: "y \<in> set (db_runs s)" "x = (if rn_id y = i then f y else y)"
      using x t by (auto simp: t_upd_def)
    show ?thesis
    proof (cases "rn_id y = i")
      case True
      then have "t_get rn_id i (db_runs s) = Some y" using t_get_complete [OF d y(1)] by simp
      then show ?thesis using k y r True run_ok_cong [OF st] by simp
    next
      case False
      then show ?thesis using y r run_ok_cong [OF st] by simp
    qed
  qed
  moreover have "held_ok s' st'" if "st' \<in> set H" for st'
  proof -
    have "held_ok s st'" using h that by blast
    then show ?thesis
      by (auto simp: held_ok_def t t_get_upd [of rn_id f, OF id] v nodes_of_cong [OF st])
  qed
  ultimately show ?thesis
    using d fk ids t st id by (simp add: runtime_ok_def tbl.wf_upd)
qed

lemma runtime_ok_quiet:
  assumes ok: "runtime_ok (s, H)" and q: "quiet_runs (db_runs s) (db_runs s')" and st: "db_steps s' = db_steps s"
  shows "runtime_ok (s', H)"
proof -
  obtain f new where rs: "db_runs s' = map f (db_runs s) @ new"
    and f: "\<And>r. rn_id (f r) = rn_id r" "\<And>r. rn_state_version (f r) = rn_state_version r"
      "\<And>r. rn_state_snapshot (f r) = rn_state_snapshot r"
    and new: "\<forall>r\<in>set new. rn_state_version r = 0 \<and> rn_state_snapshot r = None"
    and d: "keys_distinct rn_id (db_runs s) \<longrightarrow> keys_distinct rn_id (db_runs s')"
    using q unfolding quiet_runs_def by blast
  have d': "keys_distinct rn_id (db_runs s')" using d ok by (simp add: runtime_ok_def)
  have fk: "st_run_id ` set (db_steps s) \<subseteq> rn_id ` set (db_runs s)" using ok by (simp add: runtime_ok_def)
  have old: "run_ok s' (f r)" if "r \<in> set (db_runs s)" for r
    using ok that by (auto simp: runtime_ok_def run_ok_def f steps_of_def nodes_of_def st)
  have fresh: "run_ok s' r" if r: "r \<in> set new" for r
  proof -
    have "rn_id r \<notin> rn_id ` set (db_runs s)"
      using d' r by (auto simp: rs keys_distinct_def f comp_def)
    moreover have "st_run_id x \<in> rn_id ` set (db_runs s)" if "x \<in> set (db_steps s)" for x
      using fk that by (auto simp only: image_subset_iff)
    ultimately have "\<forall>x\<in>set (db_steps s). st_run_id x \<noteq> rn_id r" by metis
    then have "steps_of (rn_id r) s' = []" by (simp add: steps_of_def st filter_empty_conv)
    then show ?thesis using new r by (simp add: run_ok_def nodes_of_def legal_walk_def)
  qed
  have get: "t_get rn_id i (db_runs s') = Some (f r)" if "t_get rn_id i (db_runs s) = Some r" for i r
    using t_get_Some [OF that] t_get_complete [OF d', of "f r"] by (simp add: rs f)
  have "held_ok s' h" if "h \<in> set H" for h
  proof -
    have "held_ok s h" using ok that by (simp add: runtime_ok_def)
    then show ?thesis using get by (force simp: held_ok_def f nodes_of_cong [OF st])
  qed
  then show ?thesis
    using d' old fresh fk by (auto simp: runtime_ok_def rs st f image_Un image_image)
qed

lemma runtime_ok_more:
  "runtime_ok (s, H) \<Longrightarrow> held_ok s st \<Longrightarrow> runtime_ok (s, st # H)"
  by (simp add: runtime_ok_def)

lemma create_run_Inr:
  assumes "create_run E C now hex c prof reqs scope s = Inr (q, s')"
  obtains r where "db_runs s' = db_runs s @ [r]" and "db_steps s' = db_steps s"
    and "t_get rn_id (rn_id r) (db_runs s) = None" and "rn_state_version r = 0"
    and "\<exists>st. rn_state_snapshot r = Some st \<and> is_run_id st = rn_id r \<and> is_state_version st = 0
       \<and> is_next_node st = Some N_PLAN"
  using assms
  by (auto simp: create_run_def Let_def bindE_Inr_iff insert_job_def insert_run_def table_simps
      new_agent_run_def initial_state_def split: if_splits)

lemma runtime_ok_prepare:
  assumes ok: "runtime_ok (s, H)" and p: "prepare E C now hex cid profile scope s = (r, s')"
  shows "runtime_ok (s', H)"
proof (cases "prepare_body E C now hex cid profile scope s")
  case (Inl e)
  then show ?thesis using assms by (simp add: prepare_def run_session_def)
next
  case (Inr x)
  then obtain q where b: "prepare_body E C now hex cid profile scope s = Inr (q, s')"
    using p by (auto simp: prepare_def run_session_def split: prod.splits)
  consider "s' = s" | c prof reqs sc where "create_run E C now hex c prof reqs sc s = Inr (q, s')"
    using b by (auto simp: prepare_body_def Let_def bindE_Inr_iff split: option.splits if_splits)
  then show ?thesis
  proof cases
    case 1
    then show ?thesis using ok by simp
  next
    case 2
    then obtain r where r: "db_runs s' = db_runs s @ [r]" and st: "db_steps s' = db_steps s"
      and n: "t_get rn_id (rn_id r) (db_runs s) = None" and v: "rn_state_version r = 0"
      and sn: "\<exists>st. rn_state_snapshot r = Some st \<and> is_run_id st = rn_id r \<and> is_state_version st = 0
         \<and> is_next_node st = Some N_PLAN"
      by (rule create_run_Inr)
    have "steps_of (rn_id r) s' = []"
      using ok n st by (auto simp: runtime_ok_def t_get_None steps_of_def filter_empty_conv)
    then have "run_ok s' r" using v sn by (auto simp: run_ok_def nodes_of_def legal_walk_def legal_next_def)
    moreover have "held_ok s' st'" if "held_ok s st'" for st'
      using that by (auto simp: held_ok_def r t_get_append nodes_of_cong [OF st])
    moreover have "keys_distinct rn_id (db_runs s')"
      using ok n r by (auto simp: runtime_ok_def keys_distinct_def t_get_None)
    ultimately show ?thesis
      using ok r st run_ok_cong [OF st] by (auto simp: runtime_ok_def)
  qed
qed

lemma runtime_ok_claim:
  assumes ok: "runtime_ok (s, H)" and c: "claim C now q s = (Inr (Working st), s')"
  shows "runtime_ok (s', st # H)"
proof -
  let ?lease = "now + seconds (cfg_agent_job_lease_seconds C)"
  from c obtain run snapshot where pr: "payload_run q s = Some run" and sn: "rn_state_snapshot run = Some snapshot"
    and st: "st = claim_state now snapshot" and runs: "db_runs s' = t_upd rn_id (rn_id run) (claim_run now ?lease st) (db_runs s)"
    and steps: "db_steps s' = db_steps s"
    by (rule claim_working) simp
  note g = payload_run_get [OF pr]
  have rok: "run_ok s run" using ok t_get_Some [OF g] by (simp add: runtime_ok_def)
  have "runtime_ok (s', H)"
  proof (rule runtime_ok_upd [OF ok runs steps])
    fix r assume r: "t_get rn_id (rn_id run) (db_runs s) = Some r" "run_ok s r"
    then have "r = run" using g by simp
    then show "run_ok s (claim_run now ?lease st r)"
      using r sn by (simp add: run_ok_def claim_run_def st claim_state_def)
  qed (simp_all add: claim_run_def)
  moreover have "held_ok s' st"
    using g rok sn by (simp add: held_ok_def runs t_get_upd run_ok_def st claim_state_def claim_run_def
        nodes_of_cong [OF steps])
  ultimately show ?thesis by (rule runtime_ok_more)
qed

lemma held_ok_same_control: "held_ok s st \<Longrightarrow> same_control st st' \<Longrightarrow> held_ok s st'"
  by (simp add: held_ok_def same_control_def)

lemma runtime_ok_complete:
  assumes ok: "runtime_ok (s, H)" and c: "complete now st d stop s = (Inr res, s')"
  shows "runtime_ok (s', H)"
proof -
  from c obtain run where g: "t_get rn_id (is_run_id st) (db_runs s) = Some run"
    and v: "rn_state_version run = is_state_version st" and steps: "db_steps s' = db_steps s"
    and runs: "db_runs s' = t_upd rn_id (rn_id run) (complete_run now d stop (complete_state d stop st)) (db_runs s)"
    by (auto elim!: complete_Inr)
  have id: "rn_id run = is_run_id st" using t_get_Some [OF g] by simp
  show ?thesis
  proof (rule runtime_ok_upd [OF ok runs steps])
    fix r assume r: "t_get rn_id (rn_id run) (db_runs s) = Some r" "run_ok s r"
    then have "r = run" using g id by simp
    then show "run_ok s (complete_run now d stop (complete_state d stop st) r)"
      using r v id by (simp add: run_ok_def complete_run_def complete_state_def legal_next_def)
  qed (simp_all add: complete_run_def)
qed

lemma runtime_ok_status:
  assumes ok: "runtime_ok (s, H)" and runs: "db_runs s' = t_upd rn_id i f (db_runs s)" and steps: "db_steps s' = db_steps s"
    and f: "\<And>r. rn_id (f r) = rn_id r" "\<And>r. rn_state_version (f r) = rn_state_version r"
      "\<And>r. rn_state_snapshot (f r) = rn_state_snapshot r"
  shows "runtime_ok (s', H)"
  by (rule runtime_ok_upd [OF ok runs steps f(1,2)]) (simp add: run_ok_def f)

lemma runtime_ok_fail: "runtime_ok (s, H) \<Longrightarrow> runtime_ok (fail now i code s, H)"
proof (cases "t_get rn_id i (db_runs s)")
  case (Some run)
  assume ok: "runtime_ok (s, H)"
  show ?thesis
    by (rule runtime_ok_status [OF ok, of _ i "fail_run now code"])
       (simp_all add: fail_def Some fail_run_def split: option.splits)
qed (simp add: fail_def)

lemma runtime_ok_defer:
  assumes ok: "runtime_ok (s, H)" and d: "defer_retry C now i code s = (Inr x, s')"
  shows "runtime_ok (s', H)"
proof -
  have "defer_retry_body C now i code s = Inr (x, s')"
    using d by (auto simp: defer_retry_def run_session_def split: sum.splits)
  then consider "db_runs s' = t_upd rn_id i (fail_run now code) (db_runs s)" "db_steps s' = db_steps s"
    | "db_runs s' = t_upd rn_id i (\<lambda>r. r\<lparr>rn_status := IS_PENDING, rn_lease_until := None,
              rn_stop_reason := Some code, rn_updated_at := now\<rparr>) (db_runs s)" "db_steps s' = db_steps s"
    by (auto simp: defer_retry_body_def split: option.splits if_splits)
  then show ?thesis
    by cases (rule runtime_ok_status [OF ok], assumption, assumption, simp_all add: fail_run_def)+
qed

lemma runtime_ok_checkpoint:
  assumes ok: "runtime_ok (s, H)" and st: "st \<in> set H"
    and c: "checkpoint C now hex0 st node nxt inp outp latency evidence s = (Inr st', s')"
  shows "runtime_ok (s', st' # H)"
proof -
  let ?f = "checkpoint_run now (now + seconds (cfg_agent_job_lease_seconds C)) st'" and ?i = "is_run_id st"
  have nx: "nxt \<in> allowed_transitions node" "is_next_node st = Some node" and cl: "checkpoint_claims st s"
    and st': "st' = advance_state now node nxt st" using c by (auto elim: checkpoint_Inr)
  note runs = checkpoint_runs(1) [OF c] and steps = checkpoint_runs(2) [OF c]
  obtain run where g: "t_get rn_id ?i (db_runs s) = Some run" and v: "rn_state_version run = is_state_version st"
    using cl by (auto simp: checkpoint_claims_def split: option.splits)
  have id: "rn_id run = ?i" and mem: "run \<in> set (db_runs s)" using t_get_Some [OF g] by auto
  have d: "keys_distinct rn_id (db_runs s)" and fk: "st_run_id ` set (db_steps s) \<subseteq> rn_id ` set (db_runs s)"
    and rok: "\<forall>r\<in>set (db_runs s). run_ok s r" and hok: "\<forall>x\<in>set H. held_ok s x" using ok by (simp_all add: runtime_ok_def)
  have run: "run_ok s run" using rok mem by blast
  have ln: "legal_next (nodes_of ?i s) (Some node)"
    using hok st g v nx by (auto simp: held_ok_def)
  have so: "steps_of ?i s' = steps_of ?i s @ [step_row now hex0 node inp outp latency st']"
    and so': "j \<noteq> ?i \<Longrightarrow> steps_of j s' = steps_of j s" for j
    by (simp_all add: steps_of_def steps step_row_def st' advance_state_def)
  have no: "nodes_of ?i s' = nodes_of ?i s @ [node]" using so by (simp add: nodes_of_def step_row_def)
  have "numbered (map st_state_version (steps_of ?i s) @ [max_or_0 (map st_state_version (steps_of ?i s)) + 1])"
    using run id by (intro numbered_snoc) (simp add: run_ok_def)
  moreover have "max_or_0 (map st_state_version (steps_of ?i s)) = is_state_version st"
    using run id v by (simp add: run_ok_def numbered_max)
  ultimately have num: "numbered (map st_state_version (steps_of ?i s'))"
    by (simp add: so step_row_def st' advance_state_def)
  have new: "run_ok s' (?f run)"
    using run id v num no legal_walk_snoc [OF _ ln] legal_next_snoc [OF nx(1)] so
    by (simp add: run_ok_def checkpoint_run_def st' advance_state_def)
  have "run_ok s' x" if x: "x \<in> set (db_runs s')" for x
  proof -
    obtain y where y: "y \<in> set (db_runs s)" "x = (if rn_id y = ?i then ?f y else y)"
      using x runs by (auto simp: t_upd_def)
    show ?thesis
    proof (cases "rn_id y = ?i")
      case True
      then have "y = run" using t_get_complete [OF d y(1)] g by simp
      then show ?thesis using y new True by simp
    next
      case False
      then show ?thesis using y rok so' by (auto simp: run_ok_def nodes_of_def)
    qed
  qed
  moreover have "held_ok s' x" if "held_ok s x" for x
  proof -
    obtain r where r: "t_get rn_id (is_run_id x) (db_runs s) = Some r" "is_state_version x \<le> rn_state_version r"
      "is_state_version x = rn_state_version r \<longrightarrow> legal_next (nodes_of (is_run_id x) s) (is_next_node x)"
      using \<open>held_ok s x\<close> by (auto simp: held_ok_def)
    show ?thesis
      using r g v so' by (cases "is_run_id x = ?i")
        (auto simp: held_ok_def runs t_get_upd nodes_of_def checkpoint_run_def st' advance_state_def)
  qed
  moreover have "held_ok s' st'"
    using g no legal_next_snoc [OF nx(1)]
    by (simp add: held_ok_def runs t_get_upd checkpoint_run_def st' advance_state_def)
  moreover have "rn_id ` set (db_runs s') = rn_id ` set (db_runs s)"
    using map_key_upd [of rn_id ?f ?i "db_runs s"] runs by (metis list.set_map row_update_ids(2))
  moreover have "?i \<in> rn_id ` set (db_runs s)" using mem id by force
  ultimately show ?thesis
    using d fk hok runs steps by (auto simp: runtime_ok_def tbl.wf_upd step_row_def st' advance_state_def)
qed


lemma runtime_ok_step:
  assumes "agent_step E C x y" and "runtime_ok x"
  shows "runtime_ok y"
  using assms
proof cases
  case (ag_prepare now hex cid profile scope s r s' H)
  with assms(2) show ?thesis by (simp only:) (rule runtime_ok_prepare)
next
  case (ag_claim now q s st s' H)
  with assms(2) show ?thesis by (simp only:) (rule runtime_ok_claim)
next
  case (ag_work st H st' s)
  then have "held_ok s st" using assms(2) by (simp add: runtime_ok_def)
  then have "held_ok s st'" using ag_work(4) by (rule held_ok_same_control)
  with ag_work assms(2) show ?thesis by (simp only:) (rule runtime_ok_more)
next
  case (ag_checkpoint st H now hex0 node nxt inp outp latency evidence s st' s')
  with assms(2) show ?thesis by (simp only:) (rule runtime_ok_checkpoint)
next
  case (ag_complete st H now d stop s res s')
  with assms(2) show ?thesis by (simp only:) (rule runtime_ok_complete)
next
  case (ag_fail s H now run_id code)
  with assms(2) show ?thesis by (simp only:) (rule runtime_ok_fail)
next
  case (ag_defer now run_id code s u' s' H)
  with assms(2) show ?thesis by (simp only:) (rule runtime_ok_defer)
next
  case (ag_other s s' H)
  with assms(2) show ?thesis by (simp only:) (rule runtime_ok_quiet)
qed

text \<open>
  C15. However investigations are prepared, claimed, worked on, committed, completed, failed and
  retried, by any number of executors, some of them holding states that are out of date: the step
  rows of every run are numbered 1, 2, 3, .. up to its state version, and the nodes they record are a
  walk through the graph of the investigation from PLAN. A run never skips, repeats or reorders a
  node.
\<close>

theorem run_history_legal:
  assumes "(agent_step E C)\<^sup>*\<^sup>* (s, H) (s', H')" and "runtime_ok (s, H)" and "r \<in> set (db_runs s')"
  shows "map st_state_version (steps_of (rn_id r) s') = map int [1..<Suc (nat (rn_state_version r))]
    \<and> legal_walk (nodes_of (rn_id r) s') \<and> int (length (nodes_of (rn_id r) s')) = rn_state_version r"
proof -
  have "runtime_ok (s', H')"
    using assms(1,2) by (induction rule: rtranclp_induct) (auto intro: runtime_ok_step)
  then have "run_ok s' r" using assms(3) by (simp add: runtime_ok_def)
  then show ?thesis by (auto simp: run_ok_def numbered_def nodes_of_def)
qed

text \<open>A run whose walk has reached DECIDE has reached its end: no step follows.\<close>

lemma decide_is_last: "legal_walk (xs @ N_DECIDE # ys) \<Longrightarrow> ys = []"
  by (cases ys) (auto simp: legal_walk_def successively_append_iff)

section \<open>Examples\<close>

definition demo_hex :: "nat \<Rightarrow> string" where
  "demo_hex n = (if n = 0 then ''x'' else if n = 1 then ''y'' else ''z'')"

definition demo_ready_db :: db where
  "demo_ready_db = demo_case_db\<lparr>db_runs := []\<rparr>"

definition demo_state :: InvestigationState where
  "demo_state = initial_state ''run_x'' ''job_y'' demo_case ''mock'' [demo_requirement] (100 + seconds 300) 100"

definition demo_request :: JobRequest where
  "demo_request = \<lparr> jq_job_id = ''job_y'', jq_job_type = ''AGENT_INVESTIGATION'',
     jq_request_key = agent_request_key demo_env demo_case ''mock'' [], jq_correlation_id = ''corr_z'',
     jq_payload = job_payload ''run_x'' ''c1'' ''mock'' [] \<rparr>"

definition demo_prepared :: db where
  "demo_prepared = demo_ready_db\<lparr>db_jobs := [new_agent_job default_settings ''job_y'' ''c1''
       (agent_request_key demo_env demo_case ''mock'' []) ''corr_z'' (job_payload ''run_x'' ''c1'' ''mock'' []) 100],
     db_runs := [new_agent_run demo_state [] 100]\<rparr>"

definition demo_claimed :: db where
  "demo_claimed = update_case ''c1'' (\<lambda>x. x\<lparr>ca_status := CS_INVESTIGATING, ca_updated_at := 110\<rparr>)
     (update_run ''run_x'' (claim_run 110 (110 + seconds 120) (claim_state 110 demo_state))
     (update_job ''job_y'' (claim_job 110 (110 + seconds 120)) demo_prepared))"

lemma demo_case_simps [simp]:
  "ca_id demo_case = ''c1''" "ca_status demo_case = CS_READY" "ca_model_profile demo_case = ''mock''"
  "ca_policy_id demo_case = ''safety.weapon''" "ca_policy_version demo_case = 1"
  by (simp_all add: demo_case_def new_case_row_def)

lemma demo_prepared_simps [simp]:
  "db_cases demo_prepared = [demo_case]" "db_steps demo_prepared = []" "db_calls demo_prepared = [demo_call]"
  "db_tools demo_prepared = [demo_tool]" "db_evidence demo_prepared = demo_evidence"
  "db_runs demo_prepared = [new_agent_run demo_state [] 100]"
  "db_jobs demo_prepared = [new_agent_job default_settings ''job_y'' ''c1''
       (agent_request_key demo_env demo_case ''mock'' []) ''corr_z'' (job_payload ''run_x'' ''c1'' ''mock'' []) 100]"
  by (simp_all add: demo_prepared_def demo_ready_db_def demo_case_db_def demo_db_def empty_db_def)

lemma demo_prepare:
  "prepare demo_env default_settings 100 demo_hex ''c1'' None None demo_ready_db = (Inr demo_request, demo_prepared)"
  by (simp add: prepare_def prepare_body_def run_session_def demo_ready_db_def find_run_def t_get_Cons
      requirements_of_def create_run_def insert_job_def insert_run_def t_add_def update_case_def t_upd_Cons
      demo_hex_def demo_request_def demo_prepared_def demo_state_def default_settings_def sorted_uniq_def
      demo_case_db_def demo_db_def empty_db_def new_agent_run_def initial_state_def Let_def)

lemma demo_claim:
  "claim default_settings 110 demo_request demo_prepared = (Inr (Working (claim_state 110 demo_state)), demo_claimed)"
  by (simp add: claim_def claim_body_def run_session_def payload_run_def demo_request_def job_payload_def dict_get_def
      t_get_Cons new_agent_job_def new_agent_run_def demo_state_def initial_state_def request_matches_def
      terminal_status_def default_settings_def demo_claimed_def Let_def)

lemma demo_claimed_simps [simp]:
  "db_steps demo_claimed = []"
  "db_cases demo_claimed = [demo_case\<lparr>ca_status := CS_INVESTIGATING, ca_updated_at := 110\<rparr>]"
  "db_runs demo_claimed = [claim_run 110 (110 + seconds 120) (claim_state 110 demo_state) (new_agent_run demo_state [] 100)]"
  "db_jobs demo_claimed = [claim_job 110 (110 + seconds 120) (new_agent_job default_settings ''job_y'' ''c1''
       (agent_request_key demo_env demo_case ''mock'' []) ''corr_z'' (job_payload ''run_x'' ''c1'' ''mock'' []) 100)]"
  by (simp_all add: demo_claimed_def t_upd_Cons demo_state_def new_agent_run_def initial_state_def new_agent_job_def)

lemma demo_checkpoint:
  "\<exists>st' s'. checkpoint default_settings 120 ''h'' (claim_state 110 demo_state) N_PLAN (Some N_RETRIEVE) JNull JNull 5 [] demo_claimed
     = (Inr st', s') \<and> length (db_runs s') = 1"
  by (simp add: checkpoint_def checkpoint_body_def run_session_def checkpoint_claims_def t_get_Cons claim_run_def
      claim_state_def demo_state_def initial_state_def new_agent_run_def insert_step_def t_add_def Let_def)

theorem claim_exclusive_witness:
  "\<exists>e. claim default_settings 200 demo_request demo_claimed = (Inl e, demo_claimed)"
proof -
  have "\<forall>(q', t)\<in>set [(demo_request, 200)]. same_run demo_request q' \<and> t < 110 + seconds (cfg_agent_job_lease_seconds default_settings)"
    by (simp add: same_run_def seconds_def default_settings_def)
  from claim_exclusive [OF demo_claim this] show ?thesis by simp
qed


theorem run_history_legal_witness:
  "\<exists>s' r. r \<in> set (db_runs s') \<and> rn_state_version r = 1 \<and> nodes_of (rn_id r) s' = [N_PLAN] \<and> legal_walk (nodes_of (rn_id r) s')"
proof -
  let ?st = "claim_state 110 demo_state"
  obtain st' s' where c: "checkpoint default_settings 120 ''h'' ?st N_PLAN (Some N_RETRIEVE) JNull JNull 5 [] demo_claimed
     = (Inr st', s')" and l: "length (db_runs s') = 1" using demo_checkpoint by blast
  have "agent_step demo_env default_settings (demo_ready_db, []) (demo_prepared, [])"
    by (rule ag_prepare [OF demo_prepare])
  moreover have "agent_step demo_env default_settings (demo_prepared, []) (demo_claimed, [?st])"
    by (rule ag_claim [OF demo_claim])
  moreover have "agent_step demo_env default_settings (demo_claimed, [?st]) (s', [st', ?st])"
    by (rule ag_checkpoint [OF _ c]) simp
  ultimately have steps: "(agent_step demo_env default_settings)\<^sup>*\<^sup>* (demo_ready_db, []) (s', [st', ?st])" by auto
  have ok: "runtime_ok (demo_ready_db, [])"
    by (simp add: runtime_ok_def demo_ready_db_def demo_case_db_def demo_db_def empty_db_def keys_distinct_def)
  have rows: "db_runs s' = [checkpoint_run 120 (120 + seconds 120) st' (hd (db_runs demo_claimed))]"
    using checkpoint_runs(1) [OF c] by (simp add: t_upd_Cons claim_run_def claim_state_def demo_state_def
        initial_state_def new_agent_run_def default_settings_def)
  have v: "is_state_version st' = 1" "is_run_id st' = ''run_x''"
    using c by (auto elim!: checkpoint_Inr simp: advance_state_def claim_state_def demo_state_def initial_state_def)
  have r: "hd (db_runs s') \<in> set (db_runs s')" by (simp add: rows)
  have "nodes_of (rn_id (hd (db_runs s'))) s' = [N_PLAN]"
    by (simp add: rows nodes_of_def steps_of_def checkpoint_runs(2) [OF c] step_row_def v
        claim_run_def new_agent_run_def demo_state_def initial_state_def)
  moreover have "rn_state_version (hd (db_runs s')) = 1" by (simp add: rows checkpoint_run_def v)
  ultimately show ?thesis using run_history_legal [OF steps ok r] r by blast
qed

definition demo_review :: ProvisionalDecision where
  "demo_review = \<lparr> pr_verdict = V_NEEDS_HUMAN_REVIEW, pr_reason_code = ''BUDGET_TIME_EXHAUSTED'',
     pr_explanation = u ''no basis'', pr_evidence_ids = [] \<rparr>"

lemma demo_complete:
  "\<exists>res s'. complete 150 (claim_state 110 demo_state) demo_review ''BUDGET_TIME_EXHAUSTED'' demo_claimed = (Inr res, s')"
  by (simp add: complete_def complete_body_def run_session_def t_get_Cons claim_run_def claim_state_def
      demo_state_def initial_state_def new_agent_run_def claim_job_def new_agent_job_def Let_def)

theorem complete_is_final_witness:
  "\<exists>res s'. complete 150 (claim_state 110 demo_state) demo_review ''BUDGET_TIME_EXHAUSTED'' demo_claimed = (Inr res, s')
     \<and> ires_status res = IS_NEEDS_HUMAN_REVIEW"
proof -
  obtain res s' where c: "complete 150 (claim_state 110 demo_state) demo_review ''BUDGET_TIME_EXHAUSTED'' demo_claimed = (Inr res, s')"
    using demo_complete by blast
  from complete_is_final [OF c] c show ?thesis by (auto simp: complete_status_def demo_review_def)
qed

theorem retried_failure_is_stuck_witness:
  "\<exists>v s4. jv_status v = JS_PENDING \<and> (\<exists>s3. retry 900 ''job_y'' s3 = (Inr v, s4))
     \<and> (\<exists>e. claim default_settings 1000 demo_request s4 = (Inl e, s4))"
proof -
  have "\<exists>s1 st s2 job. defer_retry default_settings 120 ''run_x'' ''MODEL_TIMEOUT'' demo_claimed = (Inr (), s1)
     \<and> claim default_settings 300 demo_request s1 = (Inr (Working st), s2)
     \<and> t_get jb_id (jq_job_id demo_request) (db_jobs s2) = Some job \<and> jb_attempt job < jb_max_attempts job"
    by (simp add: defer_retry_def defer_retry_body_def run_session_def t_get_Cons t_upd_Cons claim_run_def claim_state_def
      demo_state_def initial_state_def new_agent_run_def claim_job_def new_agent_job_def default_settings_def
      claim_def claim_body_def payload_run_def demo_request_def job_payload_def dict_get_def request_matches_def
      terminal_status_def Let_def)
  then obtain s1 st s2 job where d: "defer_retry default_settings 120 ''run_x'' ''MODEL_TIMEOUT'' demo_claimed = (Inr (), s1)"
     and c: "claim default_settings 300 demo_request s1 = (Inr (Working st), s2)"
     and j: "t_get jb_id (jq_job_id demo_request) (db_jobs s2) = Some job" "jb_attempt job < jb_max_attempts job"
    by blast
  have i: "dict_get ''run_id'' (jq_payload demo_request) = Some (JStr ''run_x'')"
    by (simp add: demo_request_def job_payload_def dict_get_def)
  have q: "jq_job_id demo_request = ''job_y''" by (simp add: demo_request_def)
  from retried_failure_is_stuck [OF d c i j, of 900 500 "''AGENT_ACTION_INVALID''"]
  obtain v s4 where r: "retry 900 ''job_y'' (fail 500 ''run_x'' ''AGENT_ACTION_INVALID'' s2) = (Inr v, s4)"
    and v: "jv_status v = JS_PENDING"
    and n: "\<forall>t q'. same_run demo_request q' \<longrightarrow> (\<exists>e. claim default_settings t q' s4 = (Inl e, s4))"
    unfolding q by (elim exE conjE) (rule that; assumption)
  obtain e where "claim default_settings 1000 demo_request s4 = (Inl e, s4)" using n by (auto simp: same_run_def)
  with r v show ?thesis by (intro exI conjI)
qed

end
