(* ===== verification/ToolExecutor.thy ===== *)
theory ToolExecutor
  imports Demo
begin

text \<open>
  \<open>evistream/tools/executor.py\<close> with \<open>normalize_text\<close> of \<open>evistream/retrieval/text.py\<close>: a tool call
  is validated, recorded as running, executed, and its result stored under a key of the request, so
  that the same request in the same run is answered from the record. The registry maps a name to a
  tool; a tool reads the database, may add to it, and raises or returns an output. Unicode
  normalization (NFKC and lower case) is the parameter \<open>nfkc\<close>.
\<close>

section \<open>Request keys\<close>

text \<open>Every run of whitespace becomes one space; \<open>skip\<close> says that one has just been written.\<close>

fun collapse_spaces :: "bool \<Rightarrow> utext \<Rightarrow> utext" where
  "collapse_spaces skip [] = []"
| "collapse_spaces skip (c # cs) =
    (if py_isspace c then (if skip then collapse_spaces True cs else 32 # collapse_spaces True cs)
     else c # collapse_spaces False cs)"

definition normalize_text :: "(utext \<Rightarrow> utext) \<Rightarrow> utext \<Rightarrow> utext" where
  "normalize_text nfkc t = py_strip (collapse_spaces False (nfkc t))"

definition jint :: "int option \<Rightarrow> json" where
  "jint = jopt JInt"

definition tool_request_key :: "env \<Rightarrow> (utext \<Rightarrow> utext) \<Rightarrow> string \<Rightarrow> ToolRequest \<Rightarrow> string" where
  "tool_request_key E nfkc tool_name q = hash_json E (JObj [
     (''case_id'', JStr (tq_case_id q)), (''requirement_id'', JStr (tq_requirement_id q)),
     (''tool_name'', JStr tool_name), (''query'', JText (normalize_text nfkc (tq_query q))),
     (''start_ms'', jint (tq_start_ms q)), (''end_ms'', jint (tq_end_ms q)), (''limit'', JInt (tq_limit q))])"

section \<open>Execution\<close>

type_synonym registry = "string \<Rightarrow> (ToolRequest \<Rightarrow> db \<Rightarrow> ToolOutput res \<times> db) option"

definition search_tools :: "string list" where
  "search_tools = [''search_transcript'', ''search_ocr'', ''search_visual_caption'', ''find_counter_evidence'']"

definition range_tools :: "string list" where
  "range_tools = [''inspect_clip'', ''expand_temporal_context'', ''get_neighbor_segments'']"

definition failure :: "string \<Rightarrow> string \<Rightarrow> string \<Rightarrow> ToolResult" where
  "failure hex key code = \<lparr> tl_tool_run_id = ''tool_'' @ hex, tl_request_key = key, tl_status = TR_FAILED,
     tl_items = [], tl_latency_ms = 0, tl_estimated_cost = 0, tl_error_code = Some code \<rparr>"

text \<open>The error code of a request that is refused, None for one that may run.\<close>

definition validate_tool :: "registry \<Rightarrow> string \<Rightarrow> ToolRequest \<Rightarrow> db \<Rightarrow> string option" where
  "validate_tool reg tool_name q s =
    (if reg tool_name = None then Some ''TOOL_NOT_FOUND''
     else if t_get ca_id (tq_case_id q) (db_cases s) = None then Some ''CASE_NOT_FOUND''
     else (case t_get rm_id (tq_requirement_id q) (db_requirements s) of
        None \<Rightarrow> Some ''REQUIREMENT_NOT_FOUND''
      | Some r \<Rightarrow>
        if rm_case_id r \<noteq> tq_case_id q then Some ''REQUIREMENT_CASE_MISMATCH''
        else if tool_name \<in> set search_tools \<and> is_blank (tq_query q) then Some ''TOOL_INPUT_INVALID''
        else if tool_name \<in> set range_tools \<and> (tq_start_ms q = None \<or> tq_end_ms q = None)
        then Some ''TOOL_INPUT_INVALID''
        else None))"

definition manual_run :: "time \<Rightarrow> string \<Rightarrow> CaseRecord \<Rightarrow> AgentRunRecord" where
  "manual_run now run_id c = \<lparr> rn_id = run_id, rn_run_kind = RK_MANUAL_TOOL, rn_job_id = None,
     rn_case_id = ca_id c, rn_model_profile = ca_model_profile c, rn_current_node = None,
     rn_next_node = None, rn_state_snapshot = None, rn_state_version = 0, rn_status = IS_RUNNING,
     rn_iteration = 0, rn_vlm_calls = 0, rn_consecutive_tool_failures = 0, rn_total_tool_failures = 0,
     rn_stagnant_iterations = 0, rn_deadline_at = None, rn_last_checkpoint_at = Some now,
     rn_lease_until = None, rn_provisional_verdict = None, rn_stop_reason = None,
     rn_result_payload = None, rn_scope_requirement_ids = [], rn_created_at = now, rn_updated_at = now \<rparr>"

definition ensure_run_body :: "time \<Rightarrow> ToolRequest \<Rightarrow> db \<Rightarrow> (unit \<times> db) res" where
  "ensure_run_body now q s = (case t_get rn_id (tq_run_id q) (db_runs s) of
     Some existing \<Rightarrow> if rn_case_id existing \<noteq> tq_case_id q then Inl ValueError else Inr ((), s)
   | None \<Rightarrow> (case t_get ca_id (tq_case_id q) (db_cases s) of
       None \<Rightarrow> Inl LookupErr
     | Some c \<Rightarrow> bindE (t_add rn_id (manual_run now (tq_run_id q) c) (db_runs s))
         (\<lambda>t. Inr ((), s\<lparr>db_runs := t\<rparr>))))"

definition running_tool :: "time \<Rightarrow> string \<Rightarrow> string \<Rightarrow> string \<Rightarrow> ToolRequest \<Rightarrow> ToolRunRecord" where
  "running_tool now tool_run_id key tool_name q = \<lparr> tr_id = tool_run_id, tr_run_id = Some (tq_run_id q),
     tr_case_id = tq_case_id q, tr_requirement_id = Some (tq_requirement_id q),
     tr_correlation_id = tq_correlation_id q, tr_tool_name = tool_name, tr_request_key = key,
     tr_request_payload = q, tr_response_payload = None, tr_status = TR_RUNNING, tr_latency_ms = 0,
     tr_estimated_cost = 0, tr_error_code = None, tr_created_at = now, tr_updated_at = now \<rparr>"

definition find_tool_run :: "string \<Rightarrow> string \<Rightarrow> db \<Rightarrow> ToolRunRecord option" where
  "find_tool_run run_id key s = find (\<lambda>t. tr_run_id t = Some run_id \<and> tr_request_key t = key) (db_tools s)"

text \<open>The answer an existing row gives: its stored result, or that it is still running.\<close>

definition recorded_answer :: "string \<Rightarrow> ToolRunRecord \<Rightarrow> ToolResult" where
  "recorded_answer key existing =
    (case (tr_status existing \<noteq> TR_RUNNING, tr_response_payload existing) of
       (True, Some r) \<Rightarrow> r
     | _ \<Rightarrow> \<lparr> tl_tool_run_id = tr_id existing, tl_request_key = key, tl_status = TR_FAILED,
         tl_items = [], tl_latency_ms = tr_latency_ms existing, tl_estimated_cost = 0,
         tl_error_code = Some ''TOOL_ALREADY_RUNNING'' \<rparr>)"

text \<open>The first session: an answer from the record, or the identifier of a new running row.\<close>

definition begin_tool_body ::
    "time \<Rightarrow> string \<Rightarrow> string \<Rightarrow> string \<Rightarrow> ToolRequest \<Rightarrow> db \<Rightarrow> ((ToolResult + string) \<times> db) res" where
  "begin_tool_body now hex key tool_name q s = (case find_tool_run (tq_run_id q) key s of
     Some existing \<Rightarrow> Inr (Inl (recorded_answer key existing), s)
   | None \<Rightarrow> bindE (t_add tr_id (running_tool now (''tool_'' @ hex) key tool_name q) (db_tools s))
       (\<lambda>t. Inr (Inr (''tool_'' @ hex), s\<lparr>db_tools := t\<rparr>)))"

text \<open>What the tool returned, an exception counting as a failed output.\<close>

definition tool_result :: "string \<Rightarrow> string \<Rightarrow> int \<Rightarrow> ToolOutput res \<Rightarrow> ToolResult" where
  "tool_result tool_run_id key latency out = (case out of
     Inl e \<Rightarrow> \<lparr> tl_tool_run_id = tool_run_id, tl_request_key = key, tl_status = TR_FAILED, tl_items = [],
       tl_latency_ms = latency, tl_estimated_cost = 0, tl_error_code = Some ''TOOL_EXECUTION_FAILED'' \<rparr>
   | Inr x \<Rightarrow> \<lparr> tl_tool_run_id = tool_run_id, tl_request_key = key, tl_status = to_status x,
       tl_items = to_items x, tl_latency_ms = latency, tl_estimated_cost = to_estimated_cost x,
       tl_error_code = to_error_code x \<rparr>)"

definition finish_manual :: "time \<Rightarrow> string \<Rightarrow> AgentRunRecord \<Rightarrow> AgentRunRecord" where
  "finish_manual now tool_run_id r = (if rn_run_kind r = RK_MANUAL_TOOL
     then r\<lparr>rn_status := IS_COMPLETED, rn_stop_reason := Some ''MANUAL_TOOL'',
       rn_result_payload := Some (RP_Manual tool_run_id), rn_updated_at := now\<rparr> else r)"

definition finish_tool_body :: "time \<Rightarrow> string \<Rightarrow> ToolResult \<Rightarrow> ToolRequest \<Rightarrow> db \<Rightarrow> (unit \<times> db) res" where
  "finish_tool_body now tool_run_id r q s =
    (if t_get tr_id tool_run_id (db_tools s) = None then Inl RuntimeErr
     else Inr ((), s\<lparr>db_tools := t_upd tr_id tool_run_id (\<lambda>t. t\<lparr>tr_status := tl_status r,
         tr_response_payload := Some r, tr_latency_ms := tl_latency_ms r,
         tr_estimated_cost := tl_estimated_cost r, tr_error_code := tl_error_code r, tr_updated_at := now\<rparr>) (db_tools s),
       db_runs := t_upd rn_id (tq_run_id q) (finish_manual now tool_run_id) (db_runs s)\<rparr>))"

text \<open>
  \<open>ToolExecutor.execute\<close>. \<open>clock\<close> and \<open>hex\<close> are the times and fresh identifiers in the order the
  code takes them; every session commits on its own, so an exception leaves what came before it.
\<close>

definition execute_tool ::
    "env \<Rightarrow> (utext \<Rightarrow> utext) \<Rightarrow> registry \<Rightarrow> (nat \<Rightarrow> time) \<Rightarrow> string \<Rightarrow> int \<Rightarrow> string \<Rightarrow> ToolRequest \<Rightarrow> db
       \<Rightarrow> ToolResult res \<times> db" where
  "execute_tool E nfkc reg clock hex latency tool_name q s =
    (let key = tool_request_key E nfkc tool_name q in
     case validate_tool reg tool_name q s of
       Some code \<Rightarrow> (Inr (failure hex key code), s)
     | None \<Rightarrow>
       (case run_session (ensure_run_body (clock 0) q) s of
          (Inl e, s1) \<Rightarrow> (Inl e, s1)
        | (Inr _, s1) \<Rightarrow>
          (case run_session (begin_tool_body (clock 1) hex key tool_name q) s1 of
             (Inl e, s2) \<Rightarrow> (Inl e, s2)
           | (Inr (Inl r), s2) \<Rightarrow> (Inr r, s2)
           | (Inr (Inr tool_run_id), s2) \<Rightarrow>
             (case reg tool_name of
                None \<Rightarrow> (Inl RuntimeErr, s2)
              | Some tool \<Rightarrow>
                (case tool q s2 of (out, s3) \<Rightarrow>
                  (let r = tool_result tool_run_id key latency out in
                   case run_session (finish_tool_body (clock 2) tool_run_id r q) s3 of
                     (Inl e, s4) \<Rightarrow> (Inl e, s4)
                   | (Inr _, s4) \<Rightarrow> (Inr r, s4)))))))"

section \<open>Replaying a request\<close>

text \<open>
  What the executor relies on of a registered tool: it leaves the tables of the executor alone, and
  its output has one of the three terminal statuses, as \<open>ToolOutput\<close> demands.
\<close>

definition tame_tool :: "(ToolRequest \<Rightarrow> db \<Rightarrow> ToolOutput res \<times> db) \<Rightarrow> bool" where
  "tame_tool tool \<longleftrightarrow> (\<forall>q s. case tool q s of (out, s') \<Rightarrow>
      db_tools s' = db_tools s \<and> db_runs s' = db_runs s \<and> db_steps s' = db_steps s \<and> db_cases s' = db_cases s
      \<and> db_requirements s' = db_requirements s \<and> db_evidence s' = db_evidence s \<and> db_calls s' = db_calls s
      \<and> db_jobs s' = db_jobs s \<and> (\<forall>x. out = Inr x \<longrightarrow> to_status x \<noteq> TR_RUNNING))"

lemma tame_toolD:
  assumes "tame_tool tool" and "tool q s = (out, s')"
  shows "db_tools s' = db_tools s \<and> db_runs s' = db_runs s \<and> db_steps s' = db_steps s \<and> db_cases s' = db_cases s
      \<and> db_requirements s' = db_requirements s \<and> db_evidence s' = db_evidence s \<and> db_calls s' = db_calls s
      \<and> db_jobs s' = db_jobs s \<and> (\<forall>x. out = Inr x \<longrightarrow> to_status x \<noteq> TR_RUNNING)"
  using assms(1) [unfolded tame_tool_def, rule_format, of s q] by (simp add: assms(2))

lemma validate_tool_frame:
  "db_cases s' = db_cases s \<Longrightarrow> db_requirements s' = db_requirements s \<Longrightarrow> validate_tool reg n q s' = validate_tool reg n q s"
  by (simp add: validate_tool_def)

text \<open>A row of the run that answers the request, and what it answers.\<close>

definition answers :: "string \<Rightarrow> ToolRequest \<Rightarrow> db \<Rightarrow> ToolResult \<Rightarrow> bool" where
  "answers key q s r \<longleftrightarrow> (\<exists>run. t_get rn_id (tq_run_id q) (db_runs s) = Some run \<and> rn_case_id run = tq_case_id q)
     \<and> (\<exists>t. find_tool_run (tq_run_id q) key s = Some t \<and> recorded_answer key t = r)"

lemma execute_answered:
  assumes "answers (tool_request_key E nfkc n q) q s r" and "validate_tool reg n q s = None"
  shows "execute_tool E nfkc reg clock hex latency n q s = (Inr r, s)"
  using assms by (auto simp: execute_tool_def answers_def ensure_run_body_def begin_tool_body_def Let_def)

lemma ensure_run_Inr:
  assumes "ensure_run_body now q s = Inr (u', s')"
  shows "\<exists>run. t_get rn_id (tq_run_id q) (db_runs s') = Some run \<and> rn_case_id run = tq_case_id q"
    and "db_cases s' = db_cases s" and "db_requirements s' = db_requirements s" and "db_tools s' = db_tools s"
    and "db_steps s' = db_steps s"
    and "db_runs s' = db_runs s \<or> (t_get rn_id (tq_run_id q) (db_runs s) = None
      \<and> (\<exists>c. db_runs s' = db_runs s @ [manual_run now (tq_run_id q) c]))"
proof -
  consider "s' = s" "\<exists>run. t_get rn_id (tq_run_id q) (db_runs s) = Some run \<and> rn_case_id run = tq_case_id q"
    | c where "t_get ca_id (tq_case_id q) (db_cases s) = Some c" "t_get rn_id (tq_run_id q) (db_runs s) = None"
      "s' = s\<lparr>db_runs := db_runs s @ [manual_run now (tq_run_id q) c]\<rparr>"
    using assms by (auto simp: ensure_run_body_def table_simps split: option.splits if_splits)
  note cases = this
  show "\<exists>run. t_get rn_id (tq_run_id q) (db_runs s') = Some run \<and> rn_case_id run = tq_case_id q"
    using cases by cases (auto simp: t_get_append t_get_Cons manual_run_def dest: t_get_Some)
  show "db_cases s' = db_cases s" and "db_requirements s' = db_requirements s" and "db_tools s' = db_tools s"
    and "db_steps s' = db_steps s" using cases by (cases; simp)+
  show "db_runs s' = db_runs s \<or> (t_get rn_id (tq_run_id q) (db_runs s) = None
      \<and> (\<exists>c. db_runs s' = db_runs s @ [manual_run now (tq_run_id q) c]))"
    using cases by cases auto
qed

lemma begin_tool_new:
  assumes "begin_tool_body now hex key n q s = Inr (Inr i, s')"
  shows "i = ''tool_'' @ hex" and "find_tool_run (tq_run_id q) key s = None" and "t_get tr_id i (db_tools s) = None"
    and "s' = s\<lparr>db_tools := db_tools s @ [running_tool now i key n q]\<rparr>"
  using assms by (auto simp: begin_tool_body_def table_simps running_tool_def split: option.splits)

lemma begin_tool_known:
  assumes "begin_tool_body now hex key n q s = Inr (Inl r, s')"
  shows "s' = s" and "\<exists>t. find_tool_run (tq_run_id q) key s = Some t \<and> recorded_answer key t = r"
  using assms by (auto simp: begin_tool_body_def bindE_Inr_iff split: option.splits)

text \<open>The last session turns the running row into the answer.\<close>

lemma finish_tool_answers:
  assumes "finish_tool_body now i r q s = Inr (u', s')" and "find_tool_run (tq_run_id q) key s = Some t"
    and "tr_id t = i" and "tl_status r \<noteq> TR_RUNNING"
  shows "\<exists>t. find_tool_run (tq_run_id q) key s' = Some t \<and> recorded_answer key t = r"
  using assms by (auto simp: finish_tool_body_def find_tool_run_def find_t_upd recorded_answer_def split: if_splits)

lemma finish_tool_frame:
  assumes "finish_tool_body now i r q s = Inr (u', s')"
  shows "db_cases s' = db_cases s" and "db_requirements s' = db_requirements s" and "db_steps s' = db_steps s"
    and "db_runs s' = t_upd rn_id (tq_run_id q) (finish_manual now i) (db_runs s)"
  using assms by (auto simp: finish_tool_body_def split: if_splits)

lemma finish_manual_simps [simp]:
  "rn_id (finish_manual now i r) = rn_id r" "rn_case_id (finish_manual now i r) = rn_case_id r"
  by (simp_all add: finish_manual_def)

lemma execute_tool_Inr:
  assumes "execute_tool E nfkc reg clock hex latency n q s = (Inr r, s')" and "validate_tool reg n q s = None"
  obtains (known) s1 where "ensure_run_body (clock 0) q s = Inr ((), s1)" and "s' = s1"
      and "begin_tool_body (clock 1) hex (tool_request_key E nfkc n q) n q s1 = Inr (Inl r, s1)"
  | (fresh) s1 s2 s3 i tool out where "ensure_run_body (clock 0) q s = Inr ((), s1)"
      and "begin_tool_body (clock 1) hex (tool_request_key E nfkc n q) n q s1 = Inr (Inr i, s2)"
      and "reg n = Some tool" and "tool q s2 = (out, s3)" and "r = tool_result i (tool_request_key E nfkc n q) latency out"
      and "finish_tool_body (clock 2) i r q s3 = Inr ((), s')"
proof -
  obtain s1 where e: "ensure_run_body (clock 0) q s = Inr ((), s1)"
    using assms by (cases "ensure_run_body (clock 0) q s") (auto simp: execute_tool_def Let_def)
  show ?thesis
  proof (cases "begin_tool_body (clock 1) hex (tool_request_key E nfkc n q) n q s1")
    case (Inl x)
    then show ?thesis using assms e by (simp add: execute_tool_def Let_def)
  next
    case (Inr x)
    obtain a s2 where x: "x = (a, s2)" by (cases x)
    show ?thesis
    proof (cases a)
      case (Inl r')
      then show ?thesis using assms e Inr x begin_tool_known(1) [of _ _ _ _ _ s1]
        by (intro known [OF e]) (auto simp: execute_tool_def Let_def)
    next
      case i: (Inr i)
      obtain tool where tool: "reg n = Some tool" using assms(2) by (auto simp: validate_tool_def split: if_splits)
      obtain out s3 where o3: "tool q s2 = (out, s3)" by (cases "tool q s2")
      let ?r = "tool_result i (tool_request_key E nfkc n q) latency out"
      show ?thesis
      proof (cases "finish_tool_body (clock 2) i ?r q s3")
        case (Inl y)
        then show ?thesis using assms e Inr x i tool o3 by (simp add: execute_tool_def Let_def)
      next
        case y: (Inr y)
        obtain s4 where y4: "y = ((), s4)" by (cases y) auto
        then have rs: "r = ?r" "s4 = s'" using assms e Inr x i tool o3 y by (auto simp: execute_tool_def Let_def)
        show ?thesis
          by (rule fresh [OF e _ tool o3 rs(1)]) (use Inr x i y y4 rs in simp_all)
      qed
    qed
  qed
qed

lemma execute_tool_answers:
  assumes "execute_tool E nfkc reg clock hex latency n q s = (Inr r, s')" and "validate_tool reg n q s = None"
    and "\<forall>tool. reg n = Some tool \<longrightarrow> tame_tool tool"
  shows "answers (tool_request_key E nfkc n q) q s' r \<and> validate_tool reg n q s' = None"
  using assms(1,2)
proof (cases rule: execute_tool_Inr)
  case (known s1)
  note e = ensure_run_Inr [OF known(1)]
  have "validate_tool reg n q s1 = None" using validate_tool_frame [OF e(2,3)] assms(2) by simp
  then show ?thesis using known(2) e(1) begin_tool_known(2) [OF known(3)] by (simp add: answers_def)
next
  case (fresh s1 s2 s3 i tool out)
  let ?key = "tool_request_key E nfkc n q"
  note e = ensure_run_Inr [OF fresh(1)] and b = begin_tool_new [OF fresh(2)]
  have tame: "tame_tool tool" using assms(3) fresh(3) by blast
  have t: "db_tools s3 = db_tools s2" "db_runs s3 = db_runs s2" "db_cases s3 = db_cases s2"
    "db_requirements s3 = db_requirements s2" "\<forall>x. out = Inr x \<longrightarrow> to_status x \<noteq> TR_RUNNING"
    using tame_toolD [OF tame fresh(4)] by simp_all
  have "tl_status r \<noteq> TR_RUNNING" using t(5) fresh(5) by (cases out) (simp_all add: tool_result_def)
  moreover have "find_tool_run (tq_run_id q) ?key s3 = Some (running_tool (clock 1) i ?key n q)"
    using b(2) by (simp add: find_tool_run_def t(1) b(4) find_append_Cons running_tool_def)
  ultimately have "\<exists>t. find_tool_run (tq_run_id q) ?key s' = Some t \<and> recorded_answer ?key t = r"
    by (intro finish_tool_answers [OF fresh(6), of _ "running_tool (clock 1) i ?key n q"]) (simp_all add: running_tool_def)
  moreover obtain run where "t_get rn_id (tq_run_id q) (db_runs s1) = Some run" "rn_case_id run = tq_case_id q"
    using e(1) by blast
  then have "t_get rn_id (tq_run_id q) (db_runs s') = Some (finish_manual (clock 2) i run) \<and> rn_case_id run = tq_case_id q"
    by (simp add: finish_tool_frame(4) [OF fresh(6)] t(2) b(4) t_get_upd)
  moreover have "validate_tool reg n q s' = validate_tool reg n q s"
    by (rule validate_tool_frame) (simp_all add: finish_tool_frame [OF fresh(6)] t b(4) e)
  ultimately show ?thesis using assms(2) by (auto simp: answers_def)
qed

text \<open>
  C16. A tool request runs at most once. Once it has been answered, by a fresh execution, from the
  record, or by an execution still running, the same request in the same run gets the same answer
  again, whatever the clock, the fresh identifiers, the tool and its timing would be, and changes
  nothing.
\<close>

theorem tool_request_runs_once:
  assumes "execute_tool E nfkc reg clock hex latency n q s = (Inr r, s')" and "validate_tool reg n q s = None"
    and "\<forall>tool. reg n = Some tool \<longrightarrow> tame_tool tool"
    and "tq_run_id q2 = tq_run_id q" and "tq_case_id q2 = tq_case_id q" and "tq_requirement_id q2 = tq_requirement_id q"
    and "tq_query q2 = tq_query q" and "tq_start_ms q2 = tq_start_ms q" and "tq_end_ms q2 = tq_end_ms q"
    and "tq_limit q2 = tq_limit q" and "reg2 n \<noteq> None"
  shows "execute_tool E nfkc reg2 clock2 hex2 latency2 n q2 s' = (Inr r, s')"
proof -
  note c = execute_tool_answers [OF assms(1-3)]
  have k: "tool_request_key E nfkc n q2 = tool_request_key E nfkc n q"
    by (simp add: tool_request_key_def assms)
  have "answers (tool_request_key E nfkc n q) q2 s' r"
    using c assms(4,5) by (simp add: answers_def)
  moreover have "validate_tool reg2 n q2 s' = None"
    using c assms(5-11) by (auto simp: validate_tool_def split: option.splits if_splits)
  ultimately show ?thesis by (intro execute_answered) (simp_all add: k)
qed

text \<open>
  A finding. A process that dies while a tool runs leaves the row running, with no lease and no
  retry: from then on the request is answered TOOL_ALREADY_RUNNING, a failure, whenever and however
  often it is made, and the row never changes.
\<close>

theorem interrupted_tool_never_recovers:
  assumes "run_session (begin_tool_body now hex (tool_request_key E nfkc n q) n q) s = (Inr (Inr i), s')"
    and "t_get rn_id (tq_run_id q) (db_runs s) = Some run" and "rn_case_id run = tq_case_id q"
    and "validate_tool reg n q s = None"
  shows "\<exists>r. tl_status r = TR_FAILED \<and> tl_error_code r = Some ''TOOL_ALREADY_RUNNING''
    \<and> (\<forall>clock hex2 latency. execute_tool E nfkc reg clock hex2 latency n q s' = (Inr r, s'))"
proof -
  let ?key = "tool_request_key E nfkc n q"
  note b = begin_tool_new [OF assms(1) [unfolded run_session_Inr_iff]]
  let ?r = "recorded_answer ?key (running_tool now i ?key n q)"
  have "answers ?key q s' ?r"
    using b assms(2,3) by (simp add: answers_def find_tool_run_def find_append_Cons running_tool_def)
  moreover have "validate_tool reg n q s' = None"
    using assms(4) validate_tool_frame [of s' s] b(4) by simp
  ultimately have "execute_tool E nfkc reg clock hex2 latency n q s' = (Inr ?r, s')" for clock hex2 latency
    by (rule execute_answered)
  then show ?thesis by (intro exI [of _ ?r]) (simp add: recorded_answer_def running_tool_def)
qed


section \<open>Examples\<close>

definition demo_registry :: registry where
  "demo_registry n = (if n = ''search_ocr'' then Some (\<lambda>q s. (Inr \<lparr> to_status = TR_SUCCESS, to_items = [],
     to_estimated_cost = 0, to_error_code = None \<rparr>, s)) else None)"

definition demo_search :: ToolRequest where
  "demo_search = demo_tool_request\<lparr>tq_run_id := ''manual1''\<rparr>"

lemma demo_validate: "validate_tool demo_registry ''search_ocr'' demo_search demo_case_db = None"
  by (simp add: validate_tool_def demo_registry_def demo_search_def demo_tool_request_def t_get_Cons demo_case_def
      new_case_row_def search_tools_def range_tools_def u_def is_blank_def py_strip_def py_isspace_def)

lemma demo_execute:
  "\<exists>r s'. execute_tool demo_env id demo_registry (\<lambda>_. 7) ''h'' 3 ''search_ocr'' demo_search demo_case_db = (Inr r, s')
     \<and> tl_status r = TR_SUCCESS"
  using demo_validate
  by (simp add: execute_tool_def Let_def ensure_run_body_def run_session_def demo_search_def demo_tool_request_def
      t_get_Cons demo_run_def demo_case_def new_case_row_def t_add_def manual_run_def begin_tool_body_def find_tool_run_def
      demo_tool_def running_tool_def demo_registry_def finish_tool_body_def tool_result_def)

theorem tool_request_runs_once_witness:
  "\<exists>r s'. tl_status r = TR_SUCCESS
     \<and> execute_tool demo_env id demo_registry (\<lambda>_. 99) ''other'' 50 ''search_ocr'' demo_search s' = (Inr r, s')"
proof -
  obtain r s' where e: "execute_tool demo_env id demo_registry (\<lambda>_. 7) ''h'' 3 ''search_ocr'' demo_search demo_case_db = (Inr r, s')"
    and r: "tl_status r = TR_SUCCESS" using demo_execute by blast
  have t: "\<forall>tool. demo_registry ''search_ocr'' = Some tool \<longrightarrow> tame_tool tool"
    by (simp add: demo_registry_def tame_tool_def)
  have "execute_tool demo_env id demo_registry (\<lambda>_. 99) ''other'' 50 ''search_ocr'' demo_search s' = (Inr r, s')"
    by (rule tool_request_runs_once [OF e demo_validate t, of demo_search demo_registry]) (simp_all add: demo_registry_def)
  then show ?thesis using r by blast
qed

theorem interrupted_tool_never_recovers_witness:
  "\<exists>r s'. tl_status r = TR_FAILED
     \<and> execute_tool demo_env id demo_registry (\<lambda>_. 99) ''h2'' 1 ''search_ocr'' (demo_search\<lparr>tq_run_id := ''run1''\<rparr>) s' = (Inr r, s')"
proof -
  let ?q = "demo_search\<lparr>tq_run_id := ''run1''\<rparr>" and ?s = "demo_case_db\<lparr>db_tools := []\<rparr>"
  obtain i s' where b: "run_session (begin_tool_body 5 ''h'' (tool_request_key demo_env id ''search_ocr'' ?q) ''search_ocr'' ?q) ?s
      = (Inr (Inr i), s')"
    by (simp add: begin_tool_body_def run_session_def find_tool_run_def t_add_def)
  have run: "t_get rn_id (tq_run_id ?q) (db_runs ?s) = Some demo_run" and c: "rn_case_id demo_run = tq_case_id ?q"
    by (simp_all add: t_get_Cons demo_run_def demo_search_def demo_tool_request_def)
  have v: "validate_tool demo_registry ''search_ocr'' ?q ?s = None"
    by (simp add: validate_tool_def demo_registry_def demo_search_def demo_tool_request_def t_get_Cons demo_case_def
      new_case_row_def search_tools_def range_tools_def u_def is_blank_def py_strip_def py_isspace_def)
  from interrupted_tool_never_recovers [OF b run c v] show ?thesis by blast
qed

end
