(* ===== verification/ModelAudit.thy ===== *)
theory ModelAudit
  imports Demo Leases
begin

text \<open>
  \<open>evistream/agent/audit.py\<close> with the request contracts of \<open>evistream/models/types.py\<close>: every model
  call of an investigation is claimed under a key of its request, answered from the record when it
  succeeded before, and recorded with its outcome. The provider is a parameter: a function from a
  request to a response or an exception.
\<close>

section \<open>Requests\<close>

datatype ModelRole = MR_AGENT | MR_TRIAGE | MR_VERIFIER | MR_JUDGE

fun str_model_role :: "ModelRole \<Rightarrow> string" where
  "str_model_role MR_AGENT = ''agent''"
| "str_model_role MR_TRIAGE = ''triage''"
| "str_model_role MR_VERIFIER = ''verifier''"
| "str_model_role MR_JUDGE = ''judge''"

record ModelMessage =
  mm_role :: string
  mm_content :: string

record MediaReference =
  mf_kind :: string
  mf_uri :: string

text \<open>The response schema is named by its class, as \<open>__name__\<close> names it.\<close>

record ModelRequest =
  mq_role :: ModelRole
  mq_messages :: "ModelMessage list"
  mq_response_schema :: string
  mq_media :: "MediaReference list"
  mq_timeout_seconds :: rat
  mq_trace_id :: string

type_synonym gateway = "ModelRequest \<Rightarrow> ModelResponse res"

definition request_summary :: "env \<Rightarrow> ModelRequest \<Rightarrow> (string \<times> json) list" where
  "request_summary E q = [
     (''role'', JStr (str_model_role (mq_role q))),
     (''schema'', JStr (mq_response_schema q)),
     (''messages'', JList (map (\<lambda>m. JObj [(''role'', JStr (mm_role m)),
        (''length'', JInt (int (length (mm_content m)))), (''sha256'', JStr (sha E (mm_content m)))]) (mq_messages q))),
     (''media'', JList (map (\<lambda>m. JObj [(''kind'', JStr (mf_kind m)), (''sha256'', JStr (sha E (mf_uri m)))]) (mq_media q)))]"

definition audited_request_key :: "env \<Rightarrow> ModelRequest \<Rightarrow> string \<Rightarrow> string \<Rightarrow> int \<Rightarrow> string \<times> json" where
  "audited_request_key E q run_id node version =
    (hash_json E (JObj ([(''run_id'', JStr run_id), (''node'', JStr node), (''state_version'', JInt version)]
        @ request_summary E q)),
     JObj (request_summary E q))"

text \<open>What the response of a request must be: an instance of its schema.\<close>

fun fits :: "string \<Rightarrow> ModelData \<Rightarrow> bool" where
  "fits schema (MD_Plan p) \<longleftrightarrow> schema = ''PlanOutput'' \<and> valid_PlanOutput p"
| "fits schema (MD_Inspection p) \<longleftrightarrow> schema = ''InspectionObservation'' \<and> valid_InspectionObservation p"
| "fits schema (MD_Verification p) \<longleftrightarrow> schema = ''VerificationOutput'' \<and> list_all valid_EvidenceDraft (vo_evidence p)"
| "fits schema (MD_Challenge p) \<longleftrightarrow> schema = ''ChallengeOutput'' \<and> valid_ChallengeOutput p"
| "fits schema (MD_Provisional p) \<longleftrightarrow> schema = ''ProvisionalDecision'' \<and> valid_ProvisionalDecision p"
| "fits schema (MD_Triage p) \<longleftrightarrow> schema = ''TriageOutput''"

section \<open>Claiming and recording a call\<close>

text \<open>The arguments of \<open>AuditedModelGateway\<close>.\<close>

record AuditContext =
  au_run_id :: string
  au_case_id :: string
  au_job_id :: string
  au_node :: string
  au_state_version :: int
  au_profile :: string
  au_requested_model :: string
  au_lease_seconds :: int

definition find_call :: "string \<Rightarrow> string \<Rightarrow> db \<Rightarrow> ModelCallRecord option" where
  "find_call run_id key s = find (\<lambda>m. ml_run_id m = Some run_id \<and> ml_request_key m = key) (db_calls s)"

definition new_call :: "AuditContext \<Rightarrow> time \<Rightarrow> string \<Rightarrow> string \<Rightarrow> json \<Rightarrow> ModelRole \<Rightarrow> ModelCallRecord" where
  "new_call A now call_id key summary role = \<lparr> ml_id = call_id, ml_job_id = Some (au_job_id A),
     ml_run_id = Some (au_run_id A), ml_case_id = Some (au_case_id A), ml_video_id = None,
     ml_node = au_node A, ml_state_version = au_state_version A, ml_role = str_model_role role,
     ml_profile = au_profile A, ml_requested_model = au_requested_model A, ml_actual_model = None,
     ml_request_key = key, ml_request_summary = summary, ml_response_payload = None,
     ml_status = MC_RUNNING, ml_attempt = 1, ml_lease_until = Some (now + seconds (au_lease_seconds A)),
     ml_prompt_tokens = 0, ml_completion_tokens = 0, ml_total_tokens = 0, ml_latency_ms = 0,
     ml_provider_request_id = None, ml_error_code = None, ml_created_at = now, ml_updated_at = now \<rparr>"

text \<open>\<open>_model_error_code\<close>.\<close>

definition model_error_code :: "ModelErrorCode option \<Rightarrow> ModelErrorCode" where
  "model_error_code value = (case value of None \<Rightarrow> ME_UNAVAILABLE | Some c \<Rightarrow> c)"

definition call_leased :: "ModelCallRecord \<Rightarrow> time \<Rightarrow> bool" where
  "call_leased m now = (case ml_lease_until m of None \<Rightarrow> False | Some l \<Rightarrow> now < l)"

definition retake_call :: "AuditContext \<Rightarrow> time \<Rightarrow> ModelCallRecord \<Rightarrow> ModelCallRecord" where
  "retake_call A now m = m\<lparr>ml_attempt := ml_attempt m + 1,
     ml_lease_until := Some (now + seconds (au_lease_seconds A)), ml_updated_at := now\<rparr>"

text \<open>
  \<open>_claim\<close>: the insert does nothing when the run already has the key; then the row decides. The
  result is the call, with its stored response when it has one.
\<close>

definition claim_call_body ::
    "AuditContext \<Rightarrow> time \<Rightarrow> string \<Rightarrow> string \<Rightarrow> json \<Rightarrow> ModelRole \<Rightarrow> db
       \<Rightarrow> ((string \<times> ModelResponse option) \<times> db) res" where
  "claim_call_body A now hex key summary role s = (case find_call (au_run_id A) key s of
     None \<Rightarrow> bindE (t_add ml_id (new_call A now (''mcall_'' @ hex) key summary role) (db_calls s))
       (\<lambda>t. Inr ((''mcall_'' @ hex, None), s\<lparr>db_calls := t\<rparr>))
   | Some m \<Rightarrow>
     (case (ml_status m, ml_response_payload m) of
        (MC_SUCCESS, Some r) \<Rightarrow> Inr ((ml_id m, Some r), s)
      | _ \<Rightarrow>
        if ml_status m = MC_FAILED then Inl (ModelError (model_error_code (ml_error_code m)) False)
        else if call_leased m now then Inl (AgentRuntimeError ''AGENT_RUN_ALREADY_RUNNING'')
        else Inr ((ml_id m, None), s\<lparr>db_calls := t_upd ml_id (ml_id m) (retake_call A now) (db_calls s)\<rparr>)))"

definition claim_call ::
    "AuditContext \<Rightarrow> time \<Rightarrow> string \<Rightarrow> string \<Rightarrow> json \<Rightarrow> ModelRole \<Rightarrow> db
       \<Rightarrow> (string \<times> ModelResponse option) res \<times> db" where
  "claim_call A now hex key summary role s = run_session (claim_call_body A now hex key summary role) s"

definition succeed_call :: "time \<Rightarrow> ModelResponse \<Rightarrow> ModelCallRecord \<Rightarrow> ModelCallRecord" where
  "succeed_call now r m = m\<lparr>ml_actual_model := Some (mr_actual_model r), ml_response_payload := Some r,
     ml_status := MC_SUCCESS, ml_lease_until := None, ml_prompt_tokens := mr_prompt_tokens r,
     ml_completion_tokens := mr_completion_tokens r, ml_total_tokens := mr_total_tokens r,
     ml_latency_ms := mr_latency_ms r, ml_provider_request_id := mr_provider_request_id r,
     ml_updated_at := now\<rparr>"

definition fail_call :: "time \<Rightarrow> ModelErrorCode \<Rightarrow> ModelCallRecord \<Rightarrow> ModelCallRecord" where
  "fail_call now code m = m\<lparr>ml_status := MC_FAILED, ml_lease_until := None, ml_error_code := Some code,
     ml_updated_at := now\<rparr>"

definition finish_success :: "time \<Rightarrow> string \<Rightarrow> ModelResponse \<Rightarrow> db \<Rightarrow> unit res \<times> db" where
  "finish_success now call_id r s = (case t_get ml_id call_id (db_calls s) of
     None \<Rightarrow> (Inl (AgentRuntimeError ''AGENT_MODEL_FAILED''), s)
   | Some _ \<Rightarrow> (Inr (), s\<lparr>db_calls := t_upd ml_id call_id (succeed_call now r) (db_calls s)\<rparr>))"

definition finish_error :: "time \<Rightarrow> string \<Rightarrow> ModelErrorCode \<Rightarrow> db \<Rightarrow> db" where
  "finish_error now call_id code s = s\<lparr>db_calls := t_upd ml_id call_id (fail_call now code) (db_calls s)\<rparr>"

text \<open>
  \<open>generate\<close>, returning the response with the identifier of the call (\<open>last_call_id\<close>). Only a
  \<open>ModelError\<close> of the provider is recorded; any other exception leaves the call running.
\<close>

definition generate_audited ::
    "env \<Rightarrow> AuditContext \<Rightarrow> gateway \<Rightarrow> (nat \<Rightarrow> time) \<Rightarrow> string \<Rightarrow> ModelRequest \<Rightarrow> db
       \<Rightarrow> (ModelResponse \<times> string) res \<times> db" where
  "generate_audited E A gw clock hex q s =
    (case audited_request_key E q (au_run_id A) (au_node A) (au_state_version A) of (key, summary) \<Rightarrow>
      (case claim_call A (clock 0) hex key summary (mq_role q) s of
         (Inl e, s1) \<Rightarrow> (Inl e, s1)
       | (Inr (call_id, Some r), s1) \<Rightarrow>
           (if fits (mq_response_schema q) (mr_data r) then Inr (r, call_id)
            else Inl (AgentRuntimeError ''AGENT_CHECKPOINT_INVALID''), s1)
       | (Inr (call_id, None), s1) \<Rightarrow>
           (case gw q of
              Inl (ModelError code retryable) \<Rightarrow>
                (Inl (ModelError code retryable), finish_error (clock 1) call_id code s1)
            | Inl e \<Rightarrow> (Inl e, s1)
            | Inr r \<Rightarrow> (case finish_success (clock 1) call_id r s1 of
                (Inl e, s2) \<Rightarrow> (Inl e, s2)
              | (Inr _, s2) \<Rightarrow> (Inr (r, call_id), s2)))))"

section \<open>Leases of model calls\<close>

lemma find_call_Some: "find_call run_id key s = Some m \<Longrightarrow> m \<in> set (db_calls s) \<and> ml_run_id m = Some run_id \<and> ml_request_key m = key"
  by (auto simp: find_call_def find_Some_iff)

lemma call_row_simps [simp]:
  "ml_id (retake_call A now m) = ml_id m" "ml_run_id (retake_call A now m) = ml_run_id m"
  "ml_request_key (retake_call A now m) = ml_request_key m" "ml_status (retake_call A now m) = ml_status m"
  "ml_response_payload (retake_call A now m) = ml_response_payload m"
  "ml_lease_until (retake_call A now m) = Some (now + seconds (au_lease_seconds A))"
  "ml_id (succeed_call now r m) = ml_id m" "ml_run_id (succeed_call now r m) = ml_run_id m"
  "ml_request_key (succeed_call now r m) = ml_request_key m"
  "ml_id (fail_call now c m) = ml_id m" "ml_run_id (fail_call now c m) = ml_run_id m"
  "ml_request_key (fail_call now c m) = ml_request_key m"
  by (simp_all add: retake_call_def succeed_call_def fail_call_def)

lemma new_call_simps [simp]:
  "ml_id (new_call A now i key sm role) = i" "ml_run_id (new_call A now i key sm role) = Some (au_run_id A)"
  "ml_request_key (new_call A now i key sm role) = key" "ml_status (new_call A now i key sm role) = MC_RUNNING"
  "ml_response_payload (new_call A now i key sm role) = None"
  "ml_lease_until (new_call A now i key sm role) = Some (now + seconds (au_lease_seconds A))"
  by (simp_all add: new_call_def)

lemma find_call_upd:
  assumes "\<And>m. ml_run_id (f m) = ml_run_id m \<and> ml_request_key (f m) = ml_request_key m"
  shows "find_call run_id key (s\<lparr>db_calls := t_upd ml_id i f (db_calls s)\<rparr>)
    = map_option (\<lambda>m. if ml_id m = i then f m else m) (find_call run_id key s)"
  unfolding find_call_def by (simp add: find_t_upd assms)

text \<open>What a claim may find: a row that is open to it, answers it, or refuses it.\<close>

definition call_open :: "ModelCallRecord \<Rightarrow> bool" where
  "call_open m \<longleftrightarrow> ml_status m = MC_RUNNING \<or> ml_status m = MC_SUCCESS \<and> ml_response_payload m = None"

lemma claim_call_cases:
  obtains (fresh) "find_call (au_run_id A) key s = None" and "t_get ml_id (''mcall_'' @ hex) (db_calls s) \<noteq> None"
      and "claim_call A now hex key summary role s = (Inl IntegrityError, s)"
  | (new) "find_call (au_run_id A) key s = None" and "t_get ml_id (''mcall_'' @ hex) (db_calls s) = None"
      and "claim_call A now hex key summary role s = (Inr (''mcall_'' @ hex, None),
             s\<lparr>db_calls := db_calls s @ [new_call A now (''mcall_'' @ hex) key summary role]\<rparr>)"
  | (stored) m r where "find_call (au_run_id A) key s = Some m" and "ml_status m = MC_SUCCESS"
      and "ml_response_payload m = Some r" and "claim_call A now hex key summary role s = (Inr (ml_id m, Some r), s)"
  | (failed) m where "find_call (au_run_id A) key s = Some m" and "ml_status m = MC_FAILED"
      and "claim_call A now hex key summary role s = (Inl (ModelError (model_error_code (ml_error_code m)) False), s)"
  | (leased) m where "find_call (au_run_id A) key s = Some m" and "call_open m" and "call_leased m now"
      and "claim_call A now hex key summary role s = (Inl (AgentRuntimeError ''AGENT_RUN_ALREADY_RUNNING''), s)"
  | (retaken) m where "find_call (au_run_id A) key s = Some m" and "call_open m" and "\<not> call_leased m now"
      and "claim_call A now hex key summary role s
             = (Inr (ml_id m, None), s\<lparr>db_calls := t_upd ml_id (ml_id m) (retake_call A now) (db_calls s)\<rparr>)"
proof (cases "find_call (au_run_id A) key s")
  case None
  note n = None
  let ?row = "new_call A now (''mcall_'' @ hex) key summary role"
  show ?thesis
  proof (cases "t_get ml_id (''mcall_'' @ hex) (db_calls s)")
    case None
    then have "t_add ml_id ?row (db_calls s) = Inr (db_calls s @ [?row])" by (simp add: t_add_Inr)
    then show ?thesis using n None by (intro new) (simp_all add: claim_call_def claim_call_body_def run_session_def)
  next
    case (Some x)
    then have "t_add ml_id ?row (db_calls s) = Inl IntegrityError"
      using t_get_Some [OF Some] by (auto simp: t_add_def rev_image_eqI)
    then show ?thesis using n Some by (intro fresh) (simp_all add: claim_call_def claim_call_body_def run_session_def)
  qed
next
  case (Some m)
  show ?thesis
  proof (cases "ml_status m")
    case MC_FAILED
    then show ?thesis using Some by (intro failed) (simp_all add: claim_call_def claim_call_body_def run_session_def)
  next
    case MC_RUNNING
    note eq = claim_call_def claim_call_body_def run_session_def call_open_def MC_RUNNING Some
    show ?thesis
    proof (cases "call_leased m now")
      case True
      show ?thesis by (rule leased [OF Some]) (simp_all add: eq True)
    next
      case False
      show ?thesis by (rule retaken [OF Some]) (simp_all add: eq False)
    qed
  next
    case MC_SUCCESS
    note eq = claim_call_def claim_call_body_def run_session_def call_open_def MC_SUCCESS Some
    show ?thesis
    proof (cases "ml_response_payload m")
      case (Some r)
      show ?thesis by (rule stored [OF \<open>find_call _ _ _ = Some m\<close> MC_SUCCESS Some]) (simp add: eq Some)
    next
      case None
      show ?thesis
      proof (cases "call_leased m now")
        case True
        show ?thesis by (rule leased [OF Some]) (simp_all add: eq True None)
      next
        case False
        show ?thesis by (rule retaken [OF Some]) (simp_all add: eq False None)
      qed
    qed
  qed
qed

type_synonym call_request = "AuditContext \<times> string \<times> string \<times> json \<times> ModelRole"

fun take_call :: "int \<Rightarrow> call_request \<Rightarrow> time \<Rightarrow> db \<Rightarrow> (string \<times> ModelResponse option) res \<times> db" where
  "take_call lease (A, hex, key, summary, role) now s
     = claim_call (A\<lparr>au_lease_seconds := lease\<rparr>) now hex key summary role s"

fun same_call :: "call_request \<Rightarrow> call_request \<Rightarrow> bool" where
  "same_call (A, _, key, _) (A', _, key', _) \<longleftrightarrow> au_run_id A = au_run_id A' \<and> key = key'"

fun call_held :: "call_request \<Rightarrow> db \<Rightarrow> time \<Rightarrow> bool" where
  "call_held (A, _, key, _) s now \<longleftrightarrow>
     (\<exists>m. find_call (au_run_id A) key s = Some m \<and> call_open m \<and> call_leased m now)"

lemma claim_call_granted:
  assumes "claim_call A now hex key summary role s = (Inr (i, None), s')"
  obtains m where "find_call (au_run_id A) key s' = Some m" and "ml_id m = i" and "call_open m"
    and "ml_lease_until m = Some (now + seconds (au_lease_seconds A))"
proof (cases rule: claim_call_cases [of A key s hex now summary role])
  case new
  then show ?thesis using assms
    by (intro that [of "new_call A now i key summary role"])
       (auto simp: find_call_def find_append_Cons call_open_def)
next
  case (retaken m)
  have "find_call (au_run_id A) key s' = Some (retake_call A now m)" "ml_id m = i"
    using assms retaken(1,4) find_call_upd [of "retake_call A now"] by auto
  then show ?thesis using retaken(2)
    by (intro that [of "retake_call A now m"]) (simp_all add: call_open_def)
qed (use assms in auto)

lemma claim_call_refused:
  assumes "find_call (au_run_id A) key s = Some m" and "call_open m" and "call_leased m now"
  shows "claim_call A now hex key summary role s = (Inl (AgentRuntimeError ''AGENT_RUN_ALREADY_RUNNING''), s)"
  using assms by (cases "ml_status m")
    (simp_all add: claim_call_def claim_call_body_def run_session_def call_open_def)

interpretation call_lease: lease_contract "take_call lease" "\<lambda>a. snd a = None" same_call call_held "seconds lease" for lease
proof (unfold_locales, goal_cases)
  case (1 q s now)
  obtain A hex key summary role where q: "q = (A, hex, key, summary, role)" by (cases q)
  obtain m where m: "find_call (au_run_id (A\<lparr>au_lease_seconds := lease\<rparr>)) key s = Some m" "call_open m" "call_leased m now"
    using 1 q by auto
  show ?case unfolding q take_call.simps by (rule exI, rule claim_call_refused [OF m])
next
  case (2 q now s a s' q' t)
  obtain A hex key summary role where q: "q = (A, hex, key, summary, role)" by (cases q)
  obtain i where a: "a = (i, None)" using 2(2) by (cases a) simp
  from 2(1) have "claim_call (A\<lparr>au_lease_seconds := lease\<rparr>) now hex key summary role s = (Inr (i, None), s')"
    unfolding q a by simp
  then obtain m where m: "find_call (au_run_id A) key s' = Some m" "call_open m" "ml_lease_until m = Some (now + seconds lease)"
    by (rule claim_call_granted) simp
  obtain A' hex' key' summary' role' where q': "q' = (A', hex', key', summary', role')" by (cases q')
  have "au_run_id A' = au_run_id A \<and> key' = key" using 2(3) q q' by simp
  then show ?case using m 2(4) q' by (simp add: call_leased_def)
qed

section \<open>Outcomes are final\<close>

lemma generate_same_key:
  assumes "au_run_id A' = au_run_id A" and "au_node A' = au_node A" and "au_state_version A' = au_state_version A"
    and "mq_role q' = mq_role q" and "mq_messages q' = mq_messages q" and "mq_response_schema q' = mq_response_schema q"
    and "mq_media q' = mq_media q"
  shows "audited_request_key E q' (au_run_id A') (au_node A') (au_state_version A')
    = audited_request_key E q (au_run_id A) (au_node A) (au_state_version A)"
  by (simp add: audited_request_key_def request_summary_def assms)

text \<open>The ways a call can end, over the key of its request.\<close>

lemma generate_Inr:
  assumes "generate_audited E A gw clock hex q s = (Inr (r, i), s')"
    and "audited_request_key E q (au_run_id A) (au_node A) (au_state_version A) = (key, summary)"
  obtains "claim_call A (clock 0) hex key summary (mq_role q) s = (Inr (i, Some r), s')"
  | s1 where "claim_call A (clock 0) hex key summary (mq_role q) s = (Inr (i, None), s1)"
      and "finish_success (clock 1) i r s1 = (Inr (), s')"
proof -
  obtain c s1 where c: "claim_call A (clock 0) hex key summary (mq_role q) s = (c, s1)" by (cases "claim_call A (clock 0) hex key summary (mq_role q) s")
  show ?thesis
  proof (cases c)
    case (Inl e)
    then show ?thesis using assms c by (simp add: generate_audited_def)
  next
    case (Inr x)
    obtain j o' where x: "x = (j, o')" by (cases x)
    show ?thesis
    proof (cases o')
      case (Some r')
      then show ?thesis using assms c Inr x that(1) by (auto simp: generate_audited_def split: if_splits)
    next
      case None
      then obtain r' where g: "gw q = Inr r'" using assms c Inr x
        by (cases "gw q") (auto simp: generate_audited_def split: exn.splits)
      obtain f s2 where f: "finish_success (clock 1) j r' s1 = (f, s2)" by (cases "finish_success (clock 1) j r' s1")
      have "f = Inr () \<and> r' = r \<and> j = i \<and> s2 = s'"
        using assms c Inr x None g f by (cases f) (simp_all add: generate_audited_def)
      then show ?thesis using c Inr x None f by (intro that(2)) simp_all
    qed
  qed
qed

lemma generate_ModelError:
  assumes "generate_audited E A gw clock hex q s = (Inl (ModelError code retryable), s')"
    and "audited_request_key E q (au_run_id A) (au_node A) (au_state_version A) = (key, summary)"
  obtains "claim_call A (clock 0) hex key summary (mq_role q) s = (Inl (ModelError code retryable), s')"
  | i s1 where "claim_call A (clock 0) hex key summary (mq_role q) s = (Inr (i, None), s1)"
      and "s' = finish_error (clock 1) i code s1"
proof -
  obtain c s1 where c: "claim_call A (clock 0) hex key summary (mq_role q) s = (c, s1)" by (cases "claim_call A (clock 0) hex key summary (mq_role q) s")
  show ?thesis
  proof (cases c)
    case (Inl e)
    then show ?thesis using assms c that(1) by (simp add: generate_audited_def)
  next
    case (Inr x)
    obtain j o' where x: "x = (j, o')" by (cases x)
    show ?thesis
    proof (cases o')
      case (Some r')
      then show ?thesis using assms c Inr x by (auto simp: generate_audited_def split: if_splits)
    next
      case None
      show ?thesis
      proof (cases "gw q")
        case (Inl e)
        then have "s' = finish_error (clock 1) j code s1"
          using assms c Inr x None by (cases e) (simp_all add: generate_audited_def)
        then show ?thesis using c Inr x None by (intro that(2)) simp_all
      next
        case r': (Inr r')
        then show ?thesis using assms c Inr x None by (simp add: generate_audited_def finish_success_def split: option.splits)
      qed
    qed
  qed
qed

lemma generate_stored:
  assumes "audited_request_key E q (au_run_id A) (au_node A) (au_state_version A) = (key, summary)"
    and "find_call (au_run_id A) key s = Some m"
  shows "ml_status m = MC_SUCCESS \<Longrightarrow> ml_response_payload m = Some r \<Longrightarrow> fits (mq_response_schema q) (mr_data r)
      \<Longrightarrow> generate_audited E A gw clock hex q s = (Inr (r, ml_id m), s)"
    and "ml_status m = MC_FAILED
      \<Longrightarrow> generate_audited E A gw clock hex q s = (Inl (ModelError (model_error_code (ml_error_code m)) False), s)"
  using assms by (simp_all add: generate_audited_def claim_call_def claim_call_body_def run_session_def)

lemma finish_success_stores:
  assumes "finish_success now i r s = (Inr (), s')" and "find_call run_id key s = Some m" and "ml_id m = i"
  shows "find_call run_id key s' = Some (succeed_call now r m)"
  using assms by (auto simp: finish_success_def find_call_upd split: option.splits)

lemma finish_error_stores:
  assumes "find_call run_id key s = Some m" and "ml_id m = i"
  shows "find_call run_id key (finish_error now i code s) = Some (fail_call now code m)"
  using assms by (simp add: finish_error_def find_call_upd)

text \<open>
  C22. A model call is paid for once. After a call of the investigation has returned a response that
  fits its schema, the same call (run, node, version, role, messages, schema and media) returns that
  response and its identifier again, whatever the provider would say now and whenever it is made, and
  the database stays as it is.
\<close>

theorem model_call_paid_once:
  assumes "generate_audited E A gw clock hex q s = (Inr (r, i), s')" and "fits (mq_response_schema q) (mr_data r)"
    and "au_run_id A' = au_run_id A" and "au_node A' = au_node A" and "au_state_version A' = au_state_version A"
    and "mq_role q' = mq_role q" and "mq_messages q' = mq_messages q" and "mq_response_schema q' = mq_response_schema q"
    and "mq_media q' = mq_media q"
  shows "generate_audited E A' gw' clock' hex' q' s' = (Inr (r, i), s')"
proof -
  obtain key summary where k: "audited_request_key E q (au_run_id A) (au_node A) (au_state_version A) = (key, summary)"
    by (cases "audited_request_key E q (au_run_id A) (au_node A) (au_state_version A)")
  have k': "audited_request_key E q' (au_run_id A') (au_node A') (au_state_version A') = (key, summary)"
    using k generate_same_key [OF assms(3-9)] by simp
  have "\<exists>m. find_call (au_run_id A) key s' = Some m \<and> ml_status m = MC_SUCCESS \<and> ml_response_payload m = Some r \<and> ml_id m = i"
    using assms(1) k
  proof (cases rule: generate_Inr)
    case 1
    then show ?thesis
      by (cases rule: claim_call_cases [of A key s hex "clock 0" summary "mq_role q"]) auto
  next
    case (2 s1)
    then obtain m where "find_call (au_run_id A) key s1 = Some m" and "ml_id m = i" by (auto elim: claim_call_granted)
    then show ?thesis using finish_success_stores [OF 2(2)] by (auto simp: succeed_call_def)
  qed
  then show ?thesis using generate_stored(1) [OF k'] assms(2,3,8) by metis
qed

text \<open>A failure is recorded with its code, and answers the key from then on.\<close>

lemma failed_call_recorded:
  assumes "generate_audited E A gw clock hex q s = (Inl (ModelError code retryable), s')"
    and k: "audited_request_key E q (au_run_id A) (au_node A) (au_state_version A) = (key, summary)"
  shows "\<exists>m. find_call (au_run_id A) key s' = Some m \<and> ml_status m = MC_FAILED \<and> model_error_code (ml_error_code m) = code"
  using assms
proof (cases rule: generate_ModelError)
  case 1
  then show ?thesis
    by (cases rule: claim_call_cases [of A key s hex "clock 0" summary "mq_role q"]) auto
next
  case (2 i s1)
  then obtain m where "find_call (au_run_id A) key s1 = Some m" and "ml_id m = i" by (auto elim: claim_call_granted)
  then show ?thesis using finish_error_stores 2(2) by (auto simp: fail_call_def model_error_code_def)
qed

lemma find_call_cong: "db_calls s' = db_calls s \<Longrightarrow> find_call run_id key s' = find_call run_id key s"
  by (simp add: find_call_def)

lemma failed_call_final:
  assumes "find_call (au_run_id A) key s = Some m" and "ml_status m = MC_FAILED"
    and "audited_request_key E q (au_run_id A) (au_node A) (au_state_version A) = (key, summary)"
  shows "generate_audited E A gw clock hex q s = (Inl (ModelError (model_error_code (ml_error_code m)) False), s)"
  by (rule generate_stored(2) [OF assms(3,1,2)])

section \<open>Examples\<close>

definition demo_audit :: AuditContext where
  "demo_audit = \<lparr> au_run_id = ''run1'', au_case_id = ''c1'', au_job_id = ''j1'', au_node = ''PLAN'',
     au_state_version = 0, au_profile = ''mock'', au_requested_model = ''m'', au_lease_seconds = 120 \<rparr>"

definition demo_model_request :: ModelRequest where
  "demo_model_request = \<lparr> mq_role = MR_AGENT, mq_messages = [\<lparr> mm_role = ''user'', mm_content = ''{}'' \<rparr>],
     mq_response_schema = ''ProvisionalDecision'', mq_media = [], mq_timeout_seconds = 30, mq_trace_id = ''t'' \<rparr>"

definition demo_response :: ModelResponse where
  "demo_response = \<lparr> mr_data = MD_Provisional \<lparr> pr_verdict = V_NEEDS_HUMAN_REVIEW, pr_reason_code = ''R'',
       pr_explanation = u ''why'', pr_evidence_ids = [] \<rparr>,
     mr_actual_model = ''m-1'', mr_prompt_tokens = 1, mr_completion_tokens = 2, mr_total_tokens = 3,
     mr_latency_ms = 4, mr_finish_reason = None, mr_provider_request_id = None \<rparr>"

lemma demo_fits: "fits (mq_response_schema demo_model_request) (mr_data demo_response)"
  by (simp add: demo_model_request_def demo_response_def valid_ProvisionalDecision_def u_def)

lemma demo_generate:
  "\<exists>s'. generate_audited demo_env demo_audit (\<lambda>q. Inr demo_response) (\<lambda>_. 5) ''h'' demo_model_request empty_db
     = (Inr (demo_response, ''mcall_h''), s')"
  by (simp add: generate_audited_def audited_request_key_def claim_call_def claim_call_body_def find_call_def empty_db_def
      t_add_def run_session_def finish_success_def t_get_Cons)

theorem model_call_paid_once_witness:
  "\<exists>s'. generate_audited demo_env demo_audit (\<lambda>q. Inl (ModelError ME_TIMEOUT True)) (\<lambda>_. 900) ''h2''
       (demo_model_request\<lparr>mq_trace_id := ''other''\<rparr>) s' = (Inr (demo_response, ''mcall_h''), s')"
proof -
  obtain s' where g: "generate_audited demo_env demo_audit (\<lambda>q. Inr demo_response) (\<lambda>_. 5) ''h'' demo_model_request empty_db
     = (Inr (demo_response, ''mcall_h''), s')" using demo_generate by blast
  have "generate_audited demo_env demo_audit (\<lambda>q. Inl (ModelError ME_TIMEOUT True)) (\<lambda>_. 900) ''h2''
       (demo_model_request\<lparr>mq_trace_id := ''other''\<rparr>) s' = (Inr (demo_response, ''mcall_h''), s')"
    by (rule model_call_paid_once [OF g demo_fits]) simp_all
  then show ?thesis by blast
qed

end
