(* ===== verification/AgentEngine.thy ===== *)
theory AgentEngine
  imports AgentMachine ToolExecutor ModelAudit
begin

text \<open>
  \<open>evistream/agent/engine.py\<close> with the frame sampler of \<open>evistream/agent/media.py\<close>: the nodes of an
  investigation, the checks on what the models return, the budgets, and the loop that runs the nodes
  and commits each of them. Outside the repository, and so parameters (\<open>world\<close>), are the model
  providers, the registered tools, the frame extraction, the clock and the fresh identifiers; each is
  indexed by the state version it is used at, so that it may answer differently at every visit.
\<close>

section \<open>The world of an engine\<close>

record world =
  wd_env :: env
  wd_settings :: Settings
  wd_nfkc :: "utext \<Rightarrow> utext"
  wd_registry :: registry
  wd_gateway :: "ModelRole \<Rightarrow> int \<Rightarrow> gateway"
  wd_profile :: string
  wd_requested_model :: "ModelRole \<Rightarrow> string"
  wd_schema_text :: "string \<Rightarrow> string"
  wd_frame :: "string \<Rightarrow> int \<Rightarrow> MediaReference option res"
  wd_clock :: "int \<Rightarrow> nat \<Rightarrow> time"
  wd_hex :: "int \<Rightarrow> nat \<Rightarrow> string"
  wd_latency :: "int \<Rightarrow> nat \<Rightarrow> int"

section \<open>Prompts\<close>

definition json_texts :: "utext list \<Rightarrow> json" where
  "json_texts ts = JList (map JText ts)"

definition json_strs :: "string list \<Rightarrow> json" where
  "json_strs ts = JList (map JStr ts)"

definition json_requirement :: "InvestigationRequirement \<Rightarrow> json" where
  "json_requirement r = JObj [(''requirement_id'', JStr (ir_requirement_id r)),
     (''requirement_key'', JStr (ir_requirement_key r)), (''source_kind'', JStr (str_kind (ir_source_kind r))),
     (''required'', JBool (ir_required r)), (''description'', JText (ir_description r)),
     (''suggested_queries'', json_texts (ir_suggested_queries r)),
     (''modalities'', json_strs (ir_modalities r)), (''tool_capabilities'', json_strs (ir_tool_capabilities r))]"

definition json_hypothesis :: "Hypothesis \<Rightarrow> json" where
  "json_hypothesis h = JObj [(''requirement_id'', JStr (hy_requirement_id h)),
     (''statement'', JText (hy_statement h)), (''confidence'', JNum (hy_confidence h))]"

definition json_action :: "AgentAction \<Rightarrow> json" where
  "json_action a = JObj [(''requirement_id'', JStr (aa_requirement_id a)), (''tool_name'', JStr (aa_tool_name a)),
     (''query'', JText (aa_query a)), (''start_ms'', jint (aa_start_ms a)), (''end_ms'', jint (aa_end_ms a)),
     (''limit'', JInt (aa_limit a)), (''rationale'', JText (aa_rationale a))]"

definition json_plan :: "PlanOutput \<Rightarrow> json" where
  "json_plan p = JObj [(''hypothesis'', json_hypothesis (po_hypothesis p)), (''action'', json_action (po_action p))]"

definition json_observation :: "InspectionObservation \<Rightarrow> json" where
  "json_observation p = JObj [(''source_ref'', JStr (io_source_ref p)), (''summary'', JText (io_summary p)),
     (''visible_entities'', json_texts (io_visible_entities p)), (''uncertainty'', JNum (io_uncertainty p))]"

definition json_challenge :: "ChallengeOutput \<Rightarrow> json" where
  "json_challenge p = JObj [(''actions'', JList (map json_action (co_actions p))),
     (''unresolved_exception'', JBool (co_unresolved_exception p)),
     (''contradictory_evidence'', JBool (co_contradictory_evidence p)),
     (''continue_investigation'', JBool (co_continue_investigation p)), (''rationale'', JText (co_rationale p))]"

definition json_decision :: "ProvisionalDecision \<Rightarrow> json" where
  "json_decision p = JObj [(''verdict'', JStr (str_verdict (pr_verdict p))), (''reason_code'', JStr (pr_reason_code p)),
     (''explanation'', JText (pr_explanation p)), (''evidence_ids'', json_strs (pr_evidence_ids p))]"

text \<open>\<open>_model_item\<close>.\<close>

definition model_item :: "SelectedItem \<Rightarrow> json" where
  "model_item i = JObj [(''source_ref'', JStr (ti_source_ref i)), (''modality'', JStr (ti_modality i)),
     (''start_ms'', JInt (ti_start_ms i)), (''end_ms'', JInt (ti_end_ms i)), (''content'', JText (ti_content i))]"

text \<open>
  \<open>_evidence_summary\<close>: the rows the state names, oldest first, and their JSON. An empty list of
  identifiers reads nothing, which the filter gives as well.
\<close>

definition evidence_rows :: "env \<Rightarrow> InvestigationState \<Rightarrow> db \<Rightarrow> EvidenceRecord list" where
  "evidence_rows E st s = sort_by (created_then E ev_created_at ev_id)
     (filter (\<lambda>e. ev_id e \<in> set (is_evidence_ids st)) (db_evidence s))"

definition json_evidence :: "EvidenceRecord \<Rightarrow> json" where
  "json_evidence e = JObj [(''evidence_id'', JStr (ev_id e)), (''requirement_id'', JStr (ev_requirement_id e)),
     (''stance'', JStr (str_stance (ev_stance e))), (''source_ref'', JStr (ev_source_ref e)),
     (''start_ms'', JInt (ev_start_ms e)), (''end_ms'', JInt (ev_end_ms e)), (''summary'', JText (ev_summary e)),
     (''confidence'', jopt JNum (ev_confidence e))]"

definition video_of_case :: "string \<Rightarrow> db \<Rightarrow> VideoRecord option" where
  "video_of_case case_id s = (case t_get ca_id case_id (db_cases s) of None \<Rightarrow> None
     | Some c \<Rightarrow> t_get vd_id (ca_video_id c) (db_videos s))"

definition video_duration :: "string \<Rightarrow> db \<Rightarrow> int res" where
  "video_duration case_id s = (case video_of_case case_id s of
     None \<Rightarrow> Inl (AgentRuntimeError ''AGENT_CHECKPOINT_INVALID'') | Some v \<Rightarrow> Inr (vd_duration_ms v))"

section \<open>Frames\<close>

text \<open>\<open>_sample_points\<close>: the middle of every item, without repetition, until the limit is reached.\<close>

fun sample_points_from :: "int list \<Rightarrow> SelectedItem list \<Rightarrow> int \<Rightarrow> int list" where
  "sample_points_from points [] limit = points"
| "sample_points_from points (i # items) limit =
    (let point = ti_start_ms i + max 0 (ti_end_ms i - ti_start_ms i) div 2;
         points' = (if point \<in> set points then points else points @ [point])
     in if limit \<le> int (length points') then points' else sample_points_from points' items limit)"

definition sample_points :: "SelectedItem list \<Rightarrow> int \<Rightarrow> int list" where
  "sample_points items limit = sample_points_from [] items limit"

text \<open>A frame that cannot be extracted is left out; a process that times out raises.\<close>

fun extract_frames :: "(int \<Rightarrow> MediaReference option res) \<Rightarrow> int list \<Rightarrow> MediaReference list res" where
  "extract_frames frame [] = Inr []"
| "extract_frames frame (p # ps) = bindE (frame p) (\<lambda>f. bindE (extract_frames frame ps)
     (\<lambda>fs. Inr ((case f of None \<Rightarrow> [] | Some x \<Rightarrow> [x]) @ fs)))"

definition sample_frames :: "world \<Rightarrow> string \<Rightarrow> SelectedItem list \<Rightarrow> db \<Rightarrow> MediaReference list res" where
  "sample_frames W case_id items s = (if items = [] then Inr []
     else (case video_of_case case_id s of None \<Rightarrow> Inr []
       | Some v \<Rightarrow> extract_frames (wd_frame W (vd_artifact_uri v))
           (sample_points items (cfg_agent_inspection_frame_count (wd_settings W)))))"

section \<open>Model calls\<close>

definition audit_context :: "world \<Rightarrow> InvestigationState \<Rightarrow> AgentNode \<Rightarrow> ModelRole \<Rightarrow> AuditContext" where
  "audit_context W st node role = \<lparr> au_run_id = is_run_id st, au_case_id = is_case_id st,
     au_job_id = is_job_id st, au_node = str_node node, au_state_version = is_state_version st,
     au_profile = wd_profile W, au_requested_model = wd_requested_model W role,
     au_lease_seconds = cfg_agent_job_lease_seconds (wd_settings W) \<rparr>"

definition model_request ::
    "world \<Rightarrow> InvestigationState \<Rightarrow> AgentNode \<Rightarrow> ModelRole \<Rightarrow> string \<Rightarrow> json \<Rightarrow> MediaReference list \<Rightarrow> ModelRequest" where
  "model_request W st node role schema prompt media = \<lparr> mq_role = role,
     mq_messages = [
       \<lparr> mm_role = ''system'', mm_content = ''Return one JSON object that conforms to this JSON Schema: ''
           @ wd_schema_text W schema \<rparr>,
       \<lparr> mm_role = ''user'', mm_content = dumps_spaced (wd_env W) prompt \<rparr>],
     mq_response_schema = schema, mq_media = media,
     mq_timeout_seconds = cfg_process_timeout_seconds (wd_settings W),
     mq_trace_id = is_run_id st @ ''-'' @ str_node node @ ''-'' @ str_int (is_state_version st) \<rparr>"

definition generate_for ::
    "world \<Rightarrow> InvestigationState \<Rightarrow> AgentNode \<Rightarrow> ModelRole \<Rightarrow> string \<Rightarrow> json \<Rightarrow> MediaReference list \<Rightarrow> db
       \<Rightarrow> (ModelResponse \<times> string) res \<times> db" where
  "generate_for W st node role schema prompt media s =
    generate_audited (wd_env W) (audit_context W st node role) (wd_gateway W role (is_state_version st))
      (\<lambda>i. wd_clock W (is_state_version st) (1 + i)) (wd_hex W (is_state_version st) 1)
      (model_request W st node role schema prompt media) s"

text \<open>\<open>model_validate\<close> of the data of a response by the schema of the node.\<close>

definition as_plan :: "ModelData \<Rightarrow> PlanOutput res" where
  "as_plan d = (case d of MD_Plan p \<Rightarrow> if fits ''PlanOutput'' d then Inr p else Inl ValueError | _ \<Rightarrow> Inl ValueError)"

definition as_inspection :: "ModelData \<Rightarrow> InspectionObservation res" where
  "as_inspection d = (case d of MD_Inspection p \<Rightarrow> if fits ''InspectionObservation'' d then Inr p else Inl ValueError
     | _ \<Rightarrow> Inl ValueError)"

definition as_verification :: "ModelData \<Rightarrow> VerificationOutput res" where
  "as_verification d = (case d of MD_Verification p \<Rightarrow> if fits ''VerificationOutput'' d then Inr p else Inl ValueError
     | _ \<Rightarrow> Inl ValueError)"

definition as_challenge :: "ModelData \<Rightarrow> ChallengeOutput res" where
  "as_challenge d = (case d of MD_Challenge p \<Rightarrow> if fits ''ChallengeOutput'' d then Inr p else Inl ValueError
     | _ \<Rightarrow> Inl ValueError)"

definition as_decision :: "ModelData \<Rightarrow> ProvisionalDecision res" where
  "as_decision d = (case d of MD_Provisional p \<Rightarrow> if fits ''ProvisionalDecision'' d then Inr p else Inl ValueError
     | _ \<Rightarrow> Inl ValueError)"

section \<open>Checks and budgets\<close>

definition find_requirement :: "InvestigationState \<Rightarrow> string \<Rightarrow> InvestigationRequirement res" where
  "find_requirement st i = (case find (\<lambda>r. ir_requirement_id r = i) (is_requirements st) of
     None \<Rightarrow> Inl (AgentRuntimeError ''AGENT_ACTION_INVALID'') | Some r \<Rightarrow> Inr r)"

definition planned_search_tools :: "string list" where
  "planned_search_tools = [''search_transcript'', ''search_ocr'', ''search_visual_caption'']"

definition validate_action :: "world \<Rightarrow> InvestigationState \<Rightarrow> AgentAction \<Rightarrow> unit res" where
  "validate_action W st a = bindE (find_requirement st (aa_requirement_id a)) (\<lambda>r.
    if aa_tool_name a \<notin> set (ir_tool_capabilities r) then Inl (AgentRuntimeError ''AGENT_ACTION_INVALID'')
    else if wd_registry W (aa_tool_name a) = None then Inl (AgentRuntimeError ''AGENT_ACTION_INVALID'')
    else if aa_tool_name a \<in> set planned_search_tools \<and> is_blank (aa_query a)
    then Inl (AgentRuntimeError ''AGENT_ACTION_INVALID'')
    else if aa_tool_name a \<in> set range_tools \<and> aa_start_ms a = None
    then Inl (AgentRuntimeError ''AGENT_ACTION_INVALID'')
    else Inr ())"

text \<open>\<open>_budget_stop\<close>, in the order the code tests the budgets.\<close>

definition budget_stop :: "Settings \<Rightarrow> time \<Rightarrow> InvestigationState \<Rightarrow> string option" where
  "budget_stop C now st =
    (if is_deadline_at st \<le> now then Some ''BUDGET_TIME_EXHAUSTED''
     else if cfg_agent_max_iterations C \<le> is_iteration st \<and> is_next_node st \<in> {Some N_PLAN, Some N_DECIDE}
     then Some ''BUDGET_ITERATION_EXHAUSTED''
     else if cfg_agent_max_vlm_calls C \<le> is_vlm_calls st then Some ''BUDGET_VLM_EXHAUSTED''
     else if cfg_agent_max_consecutive_tool_failures C \<le> is_consecutive_tool_failures st
     then Some ''TOOL_FAILURE_LIMIT''
     else if cfg_agent_max_stagnant_iterations C \<le> is_stagnant_iterations st then Some ''STAGNATION_LIMIT''
     else None)"

definition review_decision :: "InvestigationState \<Rightarrow> string \<Rightarrow> ProvisionalDecision" where
  "review_decision st reason = \<lparr> pr_verdict = V_NEEDS_HUMAN_REVIEW, pr_reason_code = reason,
     pr_explanation = u ''The runtime could not establish a complete, non-conflicting basis.'',
     pr_evidence_ids = is_evidence_ids st \<rparr>"

text \<open>
  The source a draft names: \<open>items\<close> is a dictionary by source reference, where a later item
  replaces an earlier one.
\<close>

definition source_item :: "InvestigationState \<Rightarrow> string \<Rightarrow> SelectedItem option" where
  "source_item st ref = find (\<lambda>i. ti_source_ref i = ref) (rev (is_selected_items st))"

definition evidence_identity :: "InvestigationState \<Rightarrow> string \<Rightarrow> EvidenceDraft \<Rightarrow> string \<Rightarrow> string" where
  "evidence_identity st requirement_id d call_id = join '':'' [is_run_id st, requirement_id, ef_source_ref d,
     str_stance (ef_stance d), str_int (ef_start_ms d), str_int (ef_end_ms d), call_id]"

definition pending_evidence ::
    "env \<Rightarrow> InvestigationState \<Rightarrow> string \<Rightarrow> SelectedItem \<Rightarrow> EvidenceDraft \<Rightarrow> string \<Rightarrow> string \<Rightarrow> PendingEvidence" where
  "pending_evidence E st requirement_id source d call_id model = \<lparr>
     pe_evidence_id = ''ev_'' @ take 40 (sha E (evidence_identity st requirement_id d call_id)),
     pe_requirement_id = requirement_id, pe_stance = ef_stance d, pe_modality = ti_modality source,
     pe_start_ms = ef_start_ms d, pe_end_ms = ef_end_ms d,
     pe_artifact_id = (if ti_artifact_id source = Some [] then None else ti_artifact_id source),
     pe_tool_run_id = si_tool_run_id source, pe_model_call_id = call_id, pe_model_name = model,
     pe_source_ref = ef_source_ref d, pe_summary = ef_summary d, pe_confidence = ef_confidence d \<rparr>"

text \<open>\<open>_validate_evidence\<close>: draft by draft, the first that is out of place stops it.\<close>

fun validate_evidence ::
    "env \<Rightarrow> InvestigationState \<Rightarrow> string \<Rightarrow> string \<Rightarrow> string \<Rightarrow> EvidenceDraft list \<Rightarrow> PendingEvidence list res" where
  "validate_evidence E st requirement_id call_id model [] = Inr []"
| "validate_evidence E st requirement_id call_id model (d # ds) = (case source_item st (ef_source_ref d) of
     None \<Rightarrow> Inl (AgentRuntimeError ''AGENT_ACTION_INVALID'')
   | Some source \<Rightarrow>
     if ef_start_ms d < ti_start_ms source \<or> ti_end_ms source < ef_end_ms d
     then Inl (AgentRuntimeError ''AGENT_ACTION_INVALID'')
     else if si_requirement_id source \<noteq> requirement_id then Inl (AgentRuntimeError ''AGENT_ACTION_INVALID'')
     else bindE (validate_evidence E st requirement_id call_id model ds)
       (\<lambda>ps. Inr (pending_evidence E st requirement_id source d call_id model # ps)))"

definition refresh_missing :: "PendingEvidence list \<Rightarrow> InvestigationState \<Rightarrow> InvestigationState" where
  "refresh_missing evidence st = st\<lparr>is_missing_requirement_ids := filter
     (\<lambda>i. i \<notin> pe_requirement_id ` {p \<in> set evidence. pe_stance p \<in> {ST_SUPPORT, ST_CONTRADICT}})
     (is_missing_requirement_ids st)\<rparr>"

definition add_evidence_ids :: "PendingEvidence list \<Rightarrow> InvestigationState \<Rightarrow> InvestigationState" where
  "add_evidence_ids evidence st = st\<lparr>is_evidence_ids :=
     fold (\<lambda>p ids. if pe_evidence_id p \<in> set ids then ids else ids @ [pe_evidence_id p]) evidence (is_evidence_ids st)\<rparr>"

definition record_tool_status :: "ToolRunStatus \<Rightarrow> InvestigationState \<Rightarrow> InvestigationState" where
  "record_tool_status status st = (if status = TR_FAILED
     then st\<lparr>is_consecutive_tool_failures := is_consecutive_tool_failures st + 1,
             is_total_tool_failures := is_total_tool_failures st + 1\<rparr>
     else st\<lparr>is_consecutive_tool_failures := 0\<rparr>)"

text \<open>The requirements whose evidence both supports and contradicts.\<close>

definition conflicting :: "EvidenceRecord list \<Rightarrow> string list" where
  "conflicting rows = sorted_uniq (map ev_requirement_id (filter (\<lambda>e. ev_stance e = ST_SUPPORT
     \<and> list_ex (\<lambda>f. ev_requirement_id f = ev_requirement_id e \<and> ev_stance f = ST_CONTRADICT) rows) rows))"

text \<open>
  \<open>_enforce_decision\<close>: the reason the proposal is overruled, None when it stands, with the state
  that records the conflicts. Later tests overwrite earlier ones, as in the code.
\<close>

definition enforcement_stop ::
    "Settings \<Rightarrow> time \<Rightarrow> InvestigationState \<Rightarrow> ProvisionalDecision \<Rightarrow> EvidenceRecord list \<Rightarrow> string option" where
  "enforcement_stop C now st proposed rows =
    (let stop0 = budget_stop C now st;
         stop1 = (if pr_verdict proposed \<noteq> V_NEEDS_HUMAN_REVIEW \<and> pr_evidence_ids proposed = []
                  then Some ''DECISION_EVIDENCE_MISSING'' else stop0);
         stop2 = (if stop1 = None \<and> is_missing_requirement_ids st \<noteq> [] then Some ''REQUIRED_EVIDENCE_MISSING'' else stop1)
     in if conflicting rows \<noteq> [] then Some ''CONTRADICTORY_EVIDENCE'' else stop2)"

definition enforce_decision ::
    "world \<Rightarrow> time \<Rightarrow> InvestigationState \<Rightarrow> ProvisionalDecision \<Rightarrow> db
       \<Rightarrow> (ProvisionalDecision \<times> string \<times> InvestigationState) res" where
  "enforce_decision W now st proposed s =
    (if \<not> set (pr_evidence_ids proposed) \<subseteq> set (is_evidence_ids st) then Inl (AgentRuntimeError ''AGENT_ACTION_INVALID'')
     else (let rows = evidence_rows (wd_env W) st s;
               st' = (if conflicting rows = [] then st else st\<lparr>is_contradictory_requirement_ids := conflicting rows\<rparr>)
           in case enforcement_stop (wd_settings W) now st proposed rows of
                Some stop \<Rightarrow> Inr (review_decision st' stop, stop, st')
              | None \<Rightarrow> Inr (proposed, ''PROVISIONAL_DECISION'', st')))"

section \<open>Tools\<close>

definition tool_request :: "InvestigationState \<Rightarrow> string \<Rightarrow> AgentAction \<Rightarrow> ToolRequest" where
  "tool_request st correlation_id a = \<lparr> tq_correlation_id = correlation_id, tq_run_id = is_run_id st,
     tq_case_id = is_case_id st, tq_requirement_id = aa_requirement_id a, tq_query = aa_query a,
     tq_start_ms = aa_start_ms a, tq_end_ms = aa_end_ms a, tq_limit = aa_limit a \<rparr>"

text \<open>Building the request validates it; \<open>k\<close> numbers the tool calls of a node.\<close>

definition run_tool ::
    "world \<Rightarrow> string \<Rightarrow> nat \<Rightarrow> InvestigationState \<Rightarrow> string \<Rightarrow> AgentAction \<Rightarrow> db \<Rightarrow> ToolResult res \<times> db" where
  "run_tool W correlation_id k st tool_name a s =
    (let q = tool_request st correlation_id a; v = is_state_version st in
     if \<not> valid_ToolRequest q then (Inl ValueError, s)
     else execute_tool (wd_env W) (wd_nfkc W) (wd_registry W) (\<lambda>i. wd_clock W v (10 + 3 * k + i))
            (wd_hex W v (10 + k)) (wd_latency W v (10 + k)) tool_name q s)"

definition tool_summary :: "ToolResult \<Rightarrow> (string \<times> json) list" where
  "tool_summary r = [(''tool_run_id'', JStr (tl_tool_run_id r)), (''status'', JStr (str_tool_status (tl_status r))),
     (''item_refs'', json_strs (map ti_source_ref (tl_items r))), (''error_code'', jopt JStr (tl_error_code r))]"

definition selected_item :: "string \<Rightarrow> string \<Rightarrow> ToolItem \<Rightarrow> SelectedItem" where
  "selected_item tool_run_id requirement_id i = \<lparr> ti_source_ref = ti_source_ref i, ti_artifact_id = ti_artifact_id i,
     ti_modality = ti_modality i, ti_start_ms = ti_start_ms i, ti_end_ms = ti_end_ms i, ti_content = ti_content i,
     ti_score = ti_score i, si_tool_run_id = tool_run_id, si_requirement_id = requirement_id \<rparr>"

section \<open>Nodes\<close>

text \<open>
  How a node ends: it has committed its checkpoint, it has completed the run, or it raises, leaving
  the state object as it had reworked it by then. Only a \<open>ModelError\<close> makes the loop look at that
  state, and only the planner has touched it before it calls its model.
\<close>

datatype node_end =
    Advanced InvestigationState
  | Decided InvestigationResult
  | Raised InvestigationState exn

definition commit_node ::
    "world \<Rightarrow> InvestigationState \<Rightarrow> AgentNode \<Rightarrow> AgentNode option \<Rightarrow> json \<Rightarrow> json \<Rightarrow> PendingEvidence list \<Rightarrow> db
       \<Rightarrow> node_end \<times> db" where
  "commit_node W st node nxt input_payload output_payload evidence s =
    (let v = is_state_version st in
     case checkpoint (wd_settings W) (wd_clock W v 3) (wd_hex W v 0) st node nxt input_payload output_payload
            (wd_latency W v 0) evidence s of
       (Inl e, s') \<Rightarrow> (Raised st e, s') | (Inr st', s') \<Rightarrow> (Advanced st', s'))"

definition plan_prompt :: "InvestigationState \<Rightarrow> int \<Rightarrow> json" where
  "plan_prompt st duration = JObj [(''case_id'', JStr (is_case_id st)), (''video_duration_ms'', JInt duration),
     (''iteration'', JInt (is_iteration st)), (''requirements'', JList (map json_requirement (is_requirements st))),
     (''evidence_ids'', json_strs (is_evidence_ids st)),
     (''missing_requirement_ids'', json_strs (is_missing_requirement_ids st)),
     (''instruction'', JStr ''Select one requirement and one allowed tool action.'')]"

text \<open>What the planner's answer must be.\<close>

definition accept_plan :: "world \<Rightarrow> InvestigationState \<Rightarrow> ModelData \<Rightarrow> PlanOutput res" where
  "accept_plan W st d = bindE (as_plan d) (\<lambda>p. bindE (validate_action W st (po_action p)) (\<lambda>_.
     if hy_requirement_id (po_hypothesis p) \<noteq> aa_requirement_id (po_action p)
     then Inl (AgentRuntimeError ''AGENT_ACTION_INVALID'') else Inr p))"

definition plan_node :: "world \<Rightarrow> InvestigationState \<Rightarrow> db \<Rightarrow> node_end \<times> db" where
  "plan_node W st0 s =
    (let st = st0\<lparr>is_iteration := is_iteration st0 + 1\<rparr> in
     case video_duration (is_case_id st) s of Inl e \<Rightarrow> (Raised st e, s)
     | Inr duration \<Rightarrow>
       (case generate_for W st N_PLAN MR_AGENT ''PlanOutput'' (plan_prompt st duration) [] s of
          (Inl e, s1) \<Rightarrow> (Raised st e, s1)
        | (Inr (response, call_id), s1) \<Rightarrow>
          (case accept_plan W st (mr_data response) of
             Inl e \<Rightarrow> (Raised st e, s1)
           | Inr p \<Rightarrow> commit_node W (st\<lparr>is_hypotheses := is_hypotheses st @ [po_hypothesis p],
                 is_pending_action := Some (po_action p)\<rparr>) N_PLAN (Some N_RETRIEVE)
               (JObj [(''iteration'', JInt (is_iteration st)), (''evidence_ids'', json_strs (is_evidence_ids st))])
               (json_plan p) [] s1)))"

definition retrieve_node :: "world \<Rightarrow> string \<Rightarrow> InvestigationState \<Rightarrow> db \<Rightarrow> node_end \<times> db" where
  "retrieve_node W correlation_id st s = (case is_pending_action st of
     None \<Rightarrow> (Raised st (AgentRuntimeError ''AGENT_CHECKPOINT_INVALID''), s)
   | Some a \<Rightarrow> (case run_tool W correlation_id 0 st (aa_tool_name a) a s of
       (Inl e, s1) \<Rightarrow> (Raised st e, s1)
     | (Inr r, s1) \<Rightarrow> commit_node W ((record_tool_status (tl_status r) st)\<lparr>is_selected_items :=
             map (selected_item (tl_tool_run_id r) (aa_requirement_id a)) (tl_items r)\<rparr>)
           N_RETRIEVE (Some N_INSPECT) (JObj [(''action'', json_action a)]) (JObj (tool_summary r)) [] s1))"

definition inspect_prompt :: "InvestigationState \<Rightarrow> json" where
  "inspect_prompt st = JObj [(''items'', JList (map model_item (is_selected_items st))),
     (''instruction'', JStr ''Describe only observable facts relevant to the selected requirement.'')]"

definition accept_inspection :: "InvestigationState \<Rightarrow> ModelData \<Rightarrow> InspectionObservation res" where
  "accept_inspection st d = bindE (as_inspection d) (\<lambda>p.
     if io_source_ref p \<notin> ti_source_ref ` set (is_selected_items st)
     then Inl (AgentRuntimeError ''AGENT_ACTION_INVALID'') else Inr p)"

definition inspect_node :: "world \<Rightarrow> InvestigationState \<Rightarrow> db \<Rightarrow> node_end \<times> db" where
  "inspect_node W st s =
    (if is_selected_items st = []
     then commit_node W (st\<lparr>is_observations := []\<rparr>) N_INSPECT (Some N_VERIFY)
            (JObj [(''item_refs'', JList [])]) (JObj [(''observations'', JList [])]) [] s
     else (case sample_frames W (is_case_id st) (is_selected_items st) s of
       Inl e \<Rightarrow> (Raised st e, s)
     | Inr frames \<Rightarrow>
       (case generate_for W st N_INSPECT MR_TRIAGE ''InspectionObservation'' (inspect_prompt st) frames s of
          (Inl e, s1) \<Rightarrow> (Raised st e, s1)
        | (Inr (response, call_id), s1) \<Rightarrow>
          (case accept_inspection st (mr_data response) of
             Inl e \<Rightarrow> (Raised st e, s1)
           | Inr p \<Rightarrow> commit_node W (st\<lparr>is_observations := [p], is_vlm_calls := is_vlm_calls st + 1\<rparr>)
               N_INSPECT (Some N_VERIFY)
               (JObj [(''item_refs'', json_strs (sorted_uniq (map ti_source_ref (is_selected_items st)))),
                  (''frame_count'', JInt (int (length frames)))])
               (JObj [(''observation'', json_observation p)]) [] s1))))"

definition verify_prompt :: "InvestigationState \<Rightarrow> InvestigationRequirement \<Rightarrow> json" where
  "verify_prompt st r = JObj [(''requirement'', json_requirement r),
     (''items'', JList (map model_item (is_selected_items st))),
     (''observations'', JList (map json_observation (is_observations st))),
     (''instruction'', JStr ''Create evidence only from supplied source references and time ranges.'')]"

definition accept_verification ::
    "env \<Rightarrow> InvestigationState \<Rightarrow> string \<Rightarrow> string \<Rightarrow> ModelResponse \<Rightarrow> PendingEvidence list res" where
  "accept_verification E st requirement_id call_id response = bindE (as_verification (mr_data response))
     (\<lambda>v. validate_evidence E st requirement_id call_id (mr_actual_model response) (vo_evidence v))"

definition verify_node :: "world \<Rightarrow> InvestigationState \<Rightarrow> db \<Rightarrow> node_end \<times> db" where
  "verify_node W st s =
    (if is_selected_items st = []
     then commit_node W st N_VERIFY (Some N_CHALLENGE) (JObj [(''item_refs'', JList [])])
            (JObj [(''evidence'', JList [])]) [] s
     else (case is_pending_action st of
       None \<Rightarrow> (Raised st (AgentRuntimeError ''AGENT_CHECKPOINT_INVALID''), s)
     | Some a \<Rightarrow> (case find_requirement st (aa_requirement_id a) of
         Inl e \<Rightarrow> (Raised st e, s)
       | Inr r \<Rightarrow> (case sample_frames W (is_case_id st) (is_selected_items st) s of
           Inl e \<Rightarrow> (Raised st e, s)
         | Inr frames \<Rightarrow>
           (case generate_for W st N_VERIFY MR_VERIFIER ''VerificationOutput'' (verify_prompt st r) frames s of
              (Inl e, s1) \<Rightarrow> (Raised st e, s1)
            | (Inr (response, call_id), s1) \<Rightarrow>
              (case accept_verification (wd_env W) st (aa_requirement_id a) call_id response of
                 Inl e \<Rightarrow> (Raised st e, s1)
               | Inr pending \<Rightarrow>
                   commit_node W (refresh_missing pending ((add_evidence_ids pending st)\<lparr>is_vlm_calls := is_vlm_calls st + 1\<rparr>))
                   N_VERIFY (Some N_CHALLENGE)
                   (JObj [(''requirement_id'', JStr (aa_requirement_id a)),
                      (''item_refs'', json_strs (map ti_source_ref (is_selected_items st))),
                      (''frame_count'', JInt (int (length frames)))])
                   (JObj [(''evidence_ids'', json_strs (map pe_evidence_id pending))]) pending s1))))))"

definition challenge_prompt :: "InvestigationState \<Rightarrow> EvidenceRecord list \<Rightarrow> json" where
  "challenge_prompt st rows = JObj [(''requirements'', JList (map json_requirement (is_requirements st))),
     (''evidence'', JList (map json_evidence rows)),
     (''instruction'', JStr (''Propose counter-evidence queries with find_counter_evidence, including ''
        @ ''ordinary conditions, exceptions, and adjacent context.''))]"

text \<open>The counter-evidence queries of a challenge, in order, with the summaries of their results.\<close>

fun challenge_tools ::
    "world \<Rightarrow> string \<Rightarrow> nat \<Rightarrow> AgentAction list \<Rightarrow> InvestigationState \<Rightarrow> json list \<Rightarrow> db
       \<Rightarrow> (InvestigationState \<times> json list) res \<times> db" where
  "challenge_tools W correlation_id k [] st summaries s = (Inr (st, summaries), s)"
| "challenge_tools W correlation_id k (a # as) st summaries s =
    (if aa_tool_name a \<noteq> ''find_counter_evidence'' then (Inl (AgentRuntimeError ''AGENT_ACTION_INVALID''), s)
     else (case find_requirement st (aa_requirement_id a) of
       Inl e \<Rightarrow> (Inl e, s)
     | Inr _ \<Rightarrow> (case run_tool W correlation_id k st ''find_counter_evidence'' a s of
         (Inl e, s1) \<Rightarrow> (Inl e, s1)
       | (Inr r, s1) \<Rightarrow> challenge_tools W correlation_id (Suc k) as (record_tool_status (tl_status r) st)
             (summaries @ [JObj (tool_summary r)]) s1)))"

text \<open>The look at the surroundings of the first selected item.\<close>

definition context_action :: "SelectedItem \<Rightarrow> AgentAction" where
  "context_action i = \<lparr> aa_requirement_id = si_requirement_id i, aa_tool_name = ''expand_temporal_context'',
     aa_query = [], aa_start_ms = Some (ti_start_ms i), aa_end_ms = Some (ti_end_ms i), aa_limit = 5,
     aa_rationale = u ''inspect adjacent temporal context'' \<rparr>"

definition challenge_context ::
    "world \<Rightarrow> string \<Rightarrow> nat \<Rightarrow> InvestigationState \<Rightarrow> json list \<Rightarrow> db \<Rightarrow> (InvestigationState \<times> json list) res \<times> db" where
  "challenge_context W correlation_id k st summaries s = (case is_selected_items st of
     [] \<Rightarrow> (Inr (st, summaries), s)
   | i # _ \<Rightarrow>
     (if \<not> valid_AgentAction (context_action i) then (Inl ValueError, s)
      else (case run_tool W correlation_id k st ''expand_temporal_context'' (context_action i) s of
        (Inl e, s1) \<Rightarrow> (Inl e, s1)
      | (Inr r, s1) \<Rightarrow> (Inr (record_tool_status (tl_status r) st, summaries @ [JObj (tool_summary r)]), s1))))"

text \<open>What a finished challenge changes of the state: stagnation and contradictions.\<close>

definition after_challenge :: "ChallengeOutput \<Rightarrow> InvestigationState \<Rightarrow> InvestigationState" where
  "after_challenge p st =
    (let n = int (length (is_evidence_ids st));
         st1 = st\<lparr>is_stagnant_iterations := (if n = is_last_evidence_count st then is_stagnant_iterations st + 1 else 0),
                  is_last_evidence_count := n\<rparr>
     in if co_contradictory_evidence p
        then st1\<lparr>is_contradictory_requirement_ids :=
               sorted_uniq (map ir_requirement_id (filter ir_required (is_requirements st)))\<rparr>
        else st1)"

definition challenge_next :: "world \<Rightarrow> ChallengeOutput \<Rightarrow> InvestigationState \<Rightarrow> AgentNode" where
  "challenge_next W p st = (if co_continue_investigation p
       \<and> budget_stop (wd_settings W) (wd_clock W (is_state_version st) 4) st = None
     then N_PLAN else N_DECIDE)"

definition challenge_node :: "world \<Rightarrow> string \<Rightarrow> InvestigationState \<Rightarrow> db \<Rightarrow> node_end \<times> db" where
  "challenge_node W correlation_id st s =
    (case generate_for W st N_CHALLENGE MR_AGENT ''ChallengeOutput''
            (challenge_prompt st (evidence_rows (wd_env W) st s)) [] s of
       (Inl e, s1) \<Rightarrow> (Raised st e, s1)
     | (Inr (response, call_id), s1) \<Rightarrow>
       (case as_challenge (mr_data response) of
          Inl e \<Rightarrow> (Raised st e, s1)
        | Inr p \<Rightarrow>
          (case challenge_tools W correlation_id 0 (co_actions p) st [] s1 of
             (Inl e, s2) \<Rightarrow> (Raised st e, s2)
           | (Inr (st1, summaries), s2) \<Rightarrow>
             (case challenge_context W correlation_id (length (co_actions p)) st1 summaries s2 of
                (Inl e, s3) \<Rightarrow> (Raised st1 e, s3)
              | (Inr (st2, summaries'), s3) \<Rightarrow>
                  (let st3 = after_challenge p st2 in
                   commit_node W st3 N_CHALLENGE (Some (challenge_next W p st3))
                     (JObj [(''evidence_ids'', json_strs (is_evidence_ids st3))])
                     (JObj [(''challenge'', json_challenge p), (''tools'', JList summaries')]) [] s3)))))"

definition decide_prompt :: "InvestigationState \<Rightarrow> EvidenceRecord list \<Rightarrow> json" where
  "decide_prompt st rows = JObj [(''requirements'', JList (map json_requirement (is_requirements st))),
     (''evidence'', JList (map json_evidence rows)),
     (''instruction'', JStr ''Return a provisional recommendation for an auditor.'')]"

definition accept_decision ::
    "world \<Rightarrow> time \<Rightarrow> InvestigationState \<Rightarrow> ModelData \<Rightarrow> db \<Rightarrow> (ProvisionalDecision \<times> string \<times> InvestigationState) res" where
  "accept_decision W now st d s = bindE (as_decision d) (\<lambda>p. enforce_decision W now st p s)"

definition decide_node :: "world \<Rightarrow> InvestigationState \<Rightarrow> db \<Rightarrow> node_end \<times> db" where
  "decide_node W st s =
    (case generate_for W st N_DECIDE MR_AGENT ''ProvisionalDecision''
            (decide_prompt st (evidence_rows (wd_env W) st s)) [] s of
       (Inl e, s1) \<Rightarrow> (Raised st e, s1)
     | (Inr (response, call_id), s1) \<Rightarrow>
       (case accept_decision W (wd_clock W (is_state_version st) 4) st (mr_data response) s1 of
          Inl e \<Rightarrow> (Raised st e, s1)
        | Inr (decision, stop_reason, st1) \<Rightarrow>
          (case commit_node W (st1\<lparr>is_provisional_decision := Some decision, is_stop_reason := Some stop_reason\<rparr>)
                  N_DECIDE None (JObj [(''evidence_ids'', json_strs (is_evidence_ids st))])
                  (JObj [(''provisional_decision'', json_decision decision), (''stop_reason'', JStr stop_reason)]) [] s1 of
             (Advanced st2, s2) \<Rightarrow>
               (case complete (wd_clock W (is_state_version st) 5) st2 decision stop_reason s2 of
                  (Inl e, s3) \<Rightarrow> (Raised st2 e, s3) | (Inr r, s3) \<Rightarrow> (Decided r, s3))
           | failed \<Rightarrow> failed)))"

section \<open>The loop\<close>

fun run_node :: "world \<Rightarrow> string \<Rightarrow> AgentNode \<Rightarrow> InvestigationState \<Rightarrow> db \<Rightarrow> node_end \<times> db" where
  "run_node W correlation_id N_PLAN st s = plan_node W st s"
| "run_node W correlation_id N_RETRIEVE st s = retrieve_node W correlation_id st s"
| "run_node W correlation_id N_INSPECT st s = inspect_node W st s"
| "run_node W correlation_id N_VERIFY st s = verify_node W st s"
| "run_node W correlation_id N_CHALLENGE st s = challenge_node W correlation_id st s"
| "run_node W correlation_id N_DECIDE st s = decide_node W st s"

definition force_review :: "world \<Rightarrow> InvestigationState \<Rightarrow> string \<Rightarrow> db \<Rightarrow> InvestigationResult res \<times> db" where
  "force_review W st reason s =
    complete (wd_clock W (is_state_version st) 5) st (review_decision st reason) reason s"

text \<open>
  \<open>run\<close>. The fuel counts the nodes that may still be visited; None means that it was not enough. It is
  shown below how much always is.
\<close>

fun run_engine :: "nat \<Rightarrow> world \<Rightarrow> string \<Rightarrow> InvestigationState \<Rightarrow> db \<Rightarrow> (InvestigationResult res \<times> db) option" where
  "run_engine 0 W correlation_id st s = None"
| "run_engine (Suc fuel) W correlation_id st s = (case is_next_node st of
     None \<Rightarrow> Some (Inl (AgentRuntimeError ''AGENT_CHECKPOINT_INVALID''), s)
   | Some node \<Rightarrow>
     (case budget_stop (wd_settings W) (wd_clock W (is_state_version st) 0) st of
        Some forced \<Rightarrow> Some (force_review W st forced s)
      | None \<Rightarrow>
        (case run_node W correlation_id node st s of
           (Advanced st', s') \<Rightarrow> run_engine fuel W correlation_id st' s'
         | (Decided r, s') \<Rightarrow> Some (Inr r, s')
         | (Raised st' e, s') \<Rightarrow> (case e of
             ModelError code retryable \<Rightarrow>
               if retryable then Some (Inl e, s') else Some (force_review W st' ''AGENT_MODEL_FAILED'' s')
           | _ \<Rightarrow> Some (Inl e, s')))))"

section \<open>What happens between two checkpoints\<close>

text \<open>
  Model calls and tools touch the rows of calls, tools and runs called by hand; what an investigation
  stands on stays as it is, and a tool run that exists is never changed by another.
\<close>

definition between :: "db \<Rightarrow> db \<Rightarrow> bool" where
  "between s s' \<longleftrightarrow> quiet_runs (db_runs s) (db_runs s') \<and> db_steps s' = db_steps s \<and> db_jobs s' = db_jobs s
     \<and> db_cases s' = db_cases s \<and> db_requirements s' = db_requirements s \<and> db_evidence s' = db_evidence s
     \<and> set (db_tools s) \<subseteq> set (db_tools s')"

lemma quiet_runs_trans:
  assumes "quiet_runs rs rs'" and "quiet_runs rs' rs''"
  shows "quiet_runs rs rs''"
proof -
  obtain f new where f: "rs' = map f rs @ new" "keys_distinct rn_id rs \<longrightarrow> keys_distinct rn_id rs'"
    "\<forall>r. rn_id (f r) = rn_id r \<and> rn_state_version (f r) = rn_state_version r \<and> rn_state_snapshot (f r) = rn_state_snapshot r"
    "\<forall>r\<in>set new. rn_state_version r = 0 \<and> rn_state_snapshot r = None"
    using assms(1) unfolding quiet_runs_def by blast
  obtain g new' where g: "rs'' = map g rs' @ new'" "keys_distinct rn_id rs' \<longrightarrow> keys_distinct rn_id rs''"
    "\<forall>r. rn_id (g r) = rn_id r \<and> rn_state_version (g r) = rn_state_version r \<and> rn_state_snapshot (g r) = rn_state_snapshot r"
    "\<forall>r\<in>set new'. rn_state_version r = 0 \<and> rn_state_snapshot r = None"
    using assms(2) unfolding quiet_runs_def by blast
  show ?thesis unfolding quiet_runs_def
    by (rule exI [of _ "g \<circ> f"], rule exI [of _ "map g new @ new'"]) (use f g in auto)
qed

lemma between_refl [simp]: "between s s"
  by (simp add: between_def)

lemma between_trans: "between s s' \<Longrightarrow> between s' s'' \<Longrightarrow> between s s''"
  unfolding between_def using quiet_runs_trans by (metis subset_trans)

lemma claim_call_calls: "claim_call A now hex key summary role s = (r, s') \<Longrightarrow> \<exists>cs. s' = s\<lparr>db_calls := cs\<rparr>"
  by (cases rule: claim_call_cases [of A key s hex now summary role]) (auto intro: exI [of _ "db_calls s"])

lemma generate_calls:
  assumes "generate_audited E A gw clock hex q s = (r, s')"
  shows "\<exists>cs. s' = s\<lparr>db_calls := cs\<rparr>"
proof -
  obtain key summary where k: "audited_request_key E q (au_run_id A) (au_node A) (au_state_version A) = (key, summary)"
    by (cases "audited_request_key E q (au_run_id A) (au_node A) (au_state_version A)")
  obtain c s1 where c: "claim_call A (clock 0) hex key summary (mq_role q) s = (c, s1)"
    by (cases "claim_call A (clock 0) hex key summary (mq_role q) s")
  have fs: "\<exists>cs. t = t0\<lparr>db_calls := cs\<rparr>" if "finish_success n i x t0 = (y, t)" for n i x t0 t and y :: "unit res"
    using that by (auto simp: finish_success_def split: option.splits intro: exI [of _ "db_calls t0"])
  obtain cs where cs: "s1 = s\<lparr>db_calls := cs\<rparr>" using claim_call_calls [OF c] by blast
  have "\<exists>cs. s' = s1\<lparr>db_calls := cs\<rparr>"
  proof (cases c)
    case (Inl e)
    then show ?thesis using assms k c by (auto simp: generate_audited_def intro: exI [of _ "db_calls s1"])
  next
    case (Inr x)
    obtain i p where x: "x = (i, p)" by (cases x)
    show ?thesis
    proof (cases p)
      case (Some z)
      then show ?thesis using assms k c Inr x by (auto simp: generate_audited_def intro: exI [of _ "db_calls s1"])
    next
      case None
      show ?thesis
      proof (cases "gw q")
        case (Inl e)
        then show ?thesis using assms k c Inr x None
          by (cases e) (auto simp: generate_audited_def finish_error_def intro: exI [of _ "db_calls s1"])
      next
        case z: (Inr z)
        obtain y t where "finish_success (clock 1) i z s1 = (y, t)" by (cases "finish_success (clock 1) i z s1")
        then show ?thesis using assms k c Inr x None z fs
          by (cases y) (auto simp: generate_audited_def)
      qed
    qed
  qed
  then show ?thesis using cs by auto
qed

lemma generate_between: "generate_audited E A gw clock hex q s = (r, s') \<Longrightarrow> between s s'"
  by (drule generate_calls) (auto simp: between_def)

lemma generate_for_between: "generate_for W st node role schema prompt media s = (r, s') \<Longrightarrow> between s s'"
  unfolding generate_for_def by (rule generate_between)

definition tame_world :: "world \<Rightarrow> bool" where
  "tame_world W \<longleftrightarrow> (\<forall>n tool. wd_registry W n = Some tool \<longrightarrow> tame_tool tool)"

lemma ensure_run_between:
  assumes "ensure_run_body now q s = Inr (u', s')"
  shows "between s s'"
proof -
  note e = ensure_run_Inr [OF assms]
  have snoc: "t_get rn_id (tq_run_id q) rs = None \<Longrightarrow> quiet_runs rs (rs @ [manual_run now (tq_run_id q) c])" for rs c
    by (rule quiet_runs_snoc) (simp_all add: manual_run_def)
  have "quiet_runs (db_runs s) (db_runs s')"
    using e(6) snoc by (elim disjE conjE exE) simp_all
  then show ?thesis using assms e by (auto simp: between_def ensure_run_body_def table_simps split: option.splits if_splits)
qed

lemma finish_manual_quiet: "quiet_runs rs (t_upd rn_id i (finish_manual now j) rs)"
  unfolding t_upd_def by (rule quiet_runs_map) (simp_all add: finish_manual_def)

lemma tool_session_between:
  assumes "begin_tool_body n1 hex key name q s1 = Inr (Inr i, s2)" and "tool q s2 = (out, s3)" and "tame_tool tool"
    and "finish_tool_body n2 i r q s3 = Inr (u', s4)"
  shows "between s1 s4" and "between s1 s3"
proof -
  note b = begin_tool_new [OF assms(1)] and t = tame_toolD [OF assms(3,2)] and f = finish_tool_frame [OF assms(4)]
  have "set (db_tools s1) \<subseteq> set (db_tools s4)"
  proof
    fix x assume x: "x \<in> set (db_tools s1)"
    then have "tr_id x \<noteq> i" using b(3) by (auto simp: t_get_None)
    then show "x \<in> set (db_tools s4)" using x assms(4) t b(4)
      by (auto simp: finish_tool_body_def t_upd_def split: if_splits)
  qed
  moreover have "db_evidence s4 = db_evidence s3 \<and> db_jobs s4 = db_jobs s3"
    using assms(4) by (auto simp: finish_tool_body_def split: if_splits)
  ultimately show "between s1 s4" using t b(4) f finish_manual_quiet by (simp add: between_def)
  show "between s1 s3" using t b(4) by (auto simp: between_def)
qed

lemma execute_tool_between:
  assumes "execute_tool E nfkc reg clock hex latency n q s = (r, s')" and "\<forall>tool. reg n = Some tool \<longrightarrow> tame_tool tool"
  shows "between s s'"
proof (cases "validate_tool reg n q s")
  case (Some code)
  then show ?thesis using assms(1) by (simp add: execute_tool_def Let_def)
next
  case None
  note eq = execute_tool_def Let_def None run_session_def
  show ?thesis
  proof (cases "ensure_run_body (clock 0) q s")
    case (Inl e)
    then show ?thesis using assms(1) by (simp add: eq)
  next
    case (Inr x)
    obtain s1 where e: "ensure_run_body (clock 0) q s = Inr ((), s1)" using Inr by (cases x) auto
    note bet = ensure_run_between [OF e]
    let ?b = "begin_tool_body (clock 1) hex (tool_request_key E nfkc n q) n q s1"
    show ?thesis
    proof (cases ?b)
      case (Inl y)
      then show ?thesis using assms(1) e bet by (simp add: eq)
    next
      case (Inr y)
      obtain a s2 where b: "?b = Inr (a, s2)" using Inr by (cases y) auto
      show ?thesis
      proof (cases a)
        case (Inl r')
        then show ?thesis using assms(1) e b bet begin_tool_known(1) [OF b [unfolded Inl]] by (simp add: eq)
      next
        case i: (Inr i)
        obtain tool where tool: "reg n = Some tool" using None by (auto simp: validate_tool_def split: if_splits)
        obtain out s3 where o3: "tool q s2 = (out, s3)" by (cases "tool q s2")
        have tame: "tame_tool tool" using assms(2) tool by blast
        let ?r = "tool_result i (tool_request_key E nfkc n q) latency out"
        have "t_get tr_id i (db_tools s3) \<noteq> None"
          using begin_tool_new [OF b [unfolded i]] tame_toolD [OF tame o3] by (auto simp: t_get_None running_tool_def)
        then obtain s4 where f: "finish_tool_body (clock 2) i ?r q s3 = Inr ((), s4)" by (simp add: finish_tool_body_def)
        then have "s' = s4" using assms(1) e b i tool o3 by (simp add: eq)
        then show ?thesis
          using between_trans [OF bet tool_session_between(1) [OF b [unfolded i] o3 tame f]] by simp
      qed
    qed
  qed
qed

lemma run_tool_between: "tame_world W \<Longrightarrow> run_tool W corr k st n a s = (r, s') \<Longrightarrow> between s s'"
  by (auto simp: run_tool_def Let_def tame_world_def split: if_splits intro: execute_tool_between)

section \<open>What a node does\<close>

text \<open>A selected item comes from the recorded answer of a tool run of the investigation.\<close>

definition item_recorded :: "db \<Rightarrow> string \<Rightarrow> SelectedItem \<Rightarrow> bool" where
  "item_recorded s run_id i \<longleftrightarrow> (\<exists>t\<in>set (db_tools s). tr_id t = si_tool_run_id i \<and> tr_run_id t = Some run_id
     \<and> (\<exists>r. tr_response_payload t = Some r
          \<and> (\<exists>x\<in>set (tl_items r). i = selected_item (tr_id t) (si_requirement_id i) x)))"

definition tools_ok :: "db \<Rightarrow> bool" where
  "tools_ok s \<longleftrightarrow> (\<forall>t\<in>set (db_tools s). \<forall>r. tr_response_payload t = Some r \<longrightarrow> tl_tool_run_id r = tr_id t)"

lemma item_recorded_mono: "set (db_tools s) \<subseteq> set (db_tools s') \<Longrightarrow> item_recorded s run_id i \<Longrightarrow> item_recorded s' run_id i"
  unfolding item_recorded_def by blast

lemma generate_for_tools: "generate_for W st node role schema prompt media s = (r, s') \<Longrightarrow> db_tools s' = db_tools s"
  unfolding generate_for_def by (drule generate_calls) auto

lemma tools_ok_cong: "db_tools s' = db_tools s \<Longrightarrow> tools_ok s' = tools_ok s"
  by (simp add: tools_ok_def)

lemma same_control_refl [simp]: "same_control st st"
  by (simp add: same_control_def)

lemma record_tool_status_simps [simp]:
  "same_control st (record_tool_status status st)" "is_iteration (record_tool_status status st) = is_iteration st"
  "is_vlm_calls (record_tool_status status st) = is_vlm_calls st"
  "is_selected_items (record_tool_status status st) = is_selected_items st"
  "is_evidence_ids (record_tool_status status st) = is_evidence_ids st"
  "is_run_id (record_tool_status status st) = is_run_id st"
  "is_requirements (record_tool_status status st) = is_requirements st"
  by (simp_all add: record_tool_status_def same_control_def)

lemma same_control_trans: "same_control a b \<Longrightarrow> same_control b c \<Longrightarrow> same_control a c"
  by (simp add: same_control_def)

text \<open>An answer with items is the recorded answer of a tool run of the request's run.\<close>

lemma recorded_answer_items:
  assumes "tl_items (recorded_answer key t) \<noteq> []"
  shows "tr_response_payload t = Some (recorded_answer key t)"
  using assms by (auto simp: recorded_answer_def split: option.splits bool.splits)

lemma execute_tool_records:
  assumes "execute_tool E nfkc reg clock hex latency n q s = (Inr r, s')" and "\<forall>tool. reg n = Some tool \<longrightarrow> tame_tool tool"
    and "tools_ok s"
  shows "tools_ok s'" and "tl_items r \<noteq> [] \<Longrightarrow> \<exists>t\<in>set (db_tools s'). tr_id t = tl_tool_run_id r
      \<and> tr_run_id t = Some (tq_run_id q) \<and> tr_response_payload t = Some r"
proof -
  have "tools_ok s' \<and> (tl_items r \<noteq> [] \<longrightarrow> (\<exists>t\<in>set (db_tools s'). tr_id t = tl_tool_run_id r
      \<and> tr_run_id t = Some (tq_run_id q) \<and> tr_response_payload t = Some r))"
  proof (cases "validate_tool reg n q s")
    case (Some code)
    then show ?thesis using assms(1,3) by (auto simp: execute_tool_def Let_def failure_def)
  next
    case None
    show ?thesis using assms(1) None
    proof (cases rule: execute_tool_Inr)
      case (known s1)
      have ok: "tools_ok s1" using tools_ok_cong [OF ensure_run_Inr(4) [OF known(1)]] assms(3) by simp
      obtain t where t: "find_tool_run (tq_run_id q) (tool_request_key E nfkc n q) s1 = Some t"
        "recorded_answer (tool_request_key E nfkc n q) t = r" using begin_tool_known(2) [OF known(3)] by blast
      have m: "t \<in> set (db_tools s1)" "tr_run_id t = Some (tq_run_id q)"
        using t(1) by (auto simp: find_tool_run_def find_Some_iff)
      show ?thesis using ok m recorded_answer_items [of _ t] t(2) known(2) by (auto simp: tools_ok_def)
    next
      case (fresh s1 s2 s3 i tool out)
      let ?key = "tool_request_key E nfkc n q"
      have ok: "tools_ok s1" using tools_ok_cong [OF ensure_run_Inr(4) [OF fresh(1)]] assms(3) by simp
      note b = begin_tool_new [OF fresh(2)]
      have tame: "tame_tool tool" using assms(2) fresh(3) by blast
      have t3: "db_tools s3 = db_tools s1 @ [running_tool (clock 1) i ?key n q]"
        using tame_toolD [OF tame fresh(4)] b(4) by simp
      have s': "db_tools s' = t_upd tr_id i (\<lambda>t. t\<lparr>tr_status := tl_status r, tr_response_payload := Some r,
          tr_latency_ms := tl_latency_ms r, tr_estimated_cost := tl_estimated_cost r, tr_error_code := tl_error_code r,
          tr_updated_at := clock 2\<rparr>) (db_tools s3)"
        using fresh(6) by (auto simp: finish_tool_body_def split: if_splits)
      have ri: "tl_tool_run_id r = i" using fresh(5) by (auto simp: tool_result_def split: sum.splits)
      have "tools_ok s'" using ok ri by (auto simp: tools_ok_def s' t3 t_upd_def running_tool_def split: if_splits)
      moreover have "\<exists>t\<in>set (db_tools s'). tr_id t = i \<and> tr_run_id t = Some (tq_run_id q) \<and> tr_response_payload t = Some r"
        by (simp add: s' t3 t_upd_def running_tool_def)
      ultimately show ?thesis using ri by simp
    qed
  qed
  then show "tools_ok s'" and "tl_items r \<noteq> [] \<Longrightarrow> \<exists>t\<in>set (db_tools s'). tr_id t = tl_tool_run_id r
      \<and> tr_run_id t = Some (tq_run_id q) \<and> tr_response_payload t = Some r" by blast+
qed

lemma execute_tool_raises:
  assumes "execute_tool E nfkc reg clock hex latency n q s = (Inl e, s')" and "\<forall>tool. reg n = Some tool \<longrightarrow> tame_tool tool"
  shows "db_tools s' = db_tools s"
proof (cases "validate_tool reg n q s")
  case (Some code)
  then show ?thesis using assms(1) by (simp add: execute_tool_def Let_def)
next
  case None
  note eq = execute_tool_def Let_def None run_session_def
  let ?e = "ensure_run_body (clock 0) q s"
  show ?thesis
  proof (cases ?e)
    case (Inl x)
    then show ?thesis using assms(1) by (simp add: eq)
  next
    case (Inr x)
    obtain s1 where e: "?e = Inr ((), s1)" using Inr by (cases x) auto
    let ?b = "begin_tool_body (clock 1) hex (tool_request_key E nfkc n q) n q s1"
    show ?thesis
    proof (cases ?b)
      case (Inl y)
      then show ?thesis using assms(1) e ensure_run_Inr(4) [OF e] by (simp add: eq)
    next
      case (Inr y)
      obtain a s2 where b: "?b = Inr (a, s2)" using Inr by (cases y) auto
      show ?thesis
      proof (cases a)
        case (Inl r')
        then show ?thesis using assms(1) e b by (simp add: eq)
      next
        case i: (Inr i)
        obtain tool where tool: "reg n = Some tool" using None by (auto simp: validate_tool_def split: if_splits)
        obtain out s3 where o3: "tool q s2 = (out, s3)" by (cases "tool q s2")
        have tame: "tame_tool tool" using assms(2) tool by blast
        have "t_get tr_id i (db_tools s3) \<noteq> None"
          using begin_tool_new [OF b [unfolded i]] tame_toolD [OF tame o3] by (auto simp: t_get_None running_tool_def)
        then show ?thesis using assms(1) e b i tool o3
          by (auto simp: eq finish_tool_body_def)
      qed
    qed
  qed
qed

lemma run_tool_records:
  assumes "run_tool W corr k st n a s = (Inr r, s')" and "tame_world W" and "tools_ok s"
  shows "tools_ok s'" and "tl_items r \<noteq> [] \<Longrightarrow> \<exists>t\<in>set (db_tools s'). tr_id t = tl_tool_run_id r
      \<and> tr_run_id t = Some (is_run_id st) \<and> tr_response_payload t = Some r"
proof -
  have e: "execute_tool (wd_env W) (wd_nfkc W) (wd_registry W) (\<lambda>i. wd_clock W (is_state_version st) (10 + 3 * k + i))
      (wd_hex W (is_state_version st) (10 + k)) (wd_latency W (is_state_version st) (10 + k)) n (tool_request st corr a) s
      = (Inr r, s')" using assms(1) by (simp add: run_tool_def Let_def split: if_splits)
  have t: "\<forall>tool. wd_registry W n = Some tool \<longrightarrow> tame_tool tool" using assms(2) by (simp add: tame_world_def)
  show "tools_ok s'" by (rule execute_tool_records(1) [OF e t assms(3)])
  show "tl_items r \<noteq> [] \<Longrightarrow> \<exists>t\<in>set (db_tools s'). tr_id t = tl_tool_run_id r
      \<and> tr_run_id t = Some (is_run_id st) \<and> tr_response_payload t = Some r"
    using execute_tool_records(2) [OF e t assms(3)] by (simp add: tool_request_def)
qed

text \<open>What a node may rely on while it works, provided the registered tools are tame.\<close>

definition passes :: "world \<Rightarrow> db \<Rightarrow> db \<Rightarrow> bool" where
  "passes W s s' \<longleftrightarrow> (tame_world W \<longrightarrow> between s s' \<and> (tools_ok s \<longrightarrow> tools_ok s'))"

lemma passes_refl [simp]: "passes W s s"
  by (simp add: passes_def)

lemma passes_trans: "passes W s s' \<Longrightarrow> passes W s' s'' \<Longrightarrow> passes W s s''"
  unfolding passes_def using between_trans by blast

lemma generate_for_passes: "generate_for W st node role schema prompt media s = (r, s') \<Longrightarrow> passes W s s'"
  unfolding passes_def using generate_for_between tools_ok_cong [OF generate_for_tools] by blast

lemma run_tool_passes:
  assumes "run_tool W corr k st n a s = (r, s')"
  shows "passes W s s'"
proof -
  have "tools_ok s'" if t: "tame_world W" and ok: "tools_ok s"
  proof (cases r)
    case (Inr x)
    then show ?thesis using run_tool_records(1) assms t ok by blast
  next
    case (Inl e)
    have "\<forall>tool. wd_registry W n = Some tool \<longrightarrow> tame_tool tool" using t by (simp add: tame_world_def)
    then have "db_tools s' = db_tools s" using assms Inl execute_tool_raises
      by (auto simp: run_tool_def Let_def split: if_splits)
    then show ?thesis using ok tools_ok_cong by blast
  qed
  then show ?thesis unfolding passes_def using run_tool_between assms by blast
qed

text \<open>
  The work of a node before it commits: which counters and lists of the state it may change, and what
  the evidence it hands over rests on.
\<close>

definition node_work ::
    "world \<Rightarrow> AgentNode \<Rightarrow> InvestigationState \<Rightarrow> db \<Rightarrow> InvestigationState \<Rightarrow> PendingEvidence list \<Rightarrow> db \<Rightarrow> bool" where
  "node_work W node st s st1 ev s1 \<longleftrightarrow> passes W s s1 \<and> same_control st st1
     \<and> is_iteration st1 = is_iteration st + (if node = N_PLAN then 1 else 0)
     \<and> is_vlm_calls st1 \<le> is_vlm_calls st + (if node = N_INSPECT \<or> node = N_VERIFY then 1 else 0)
     \<and> (node = N_RETRIEVE \<and> tame_world W \<and> tools_ok s \<longrightarrow> (\<forall>i\<in>set (is_selected_items st1). item_recorded s1 (is_run_id st) i))
     \<and> (node \<noteq> N_RETRIEVE \<longrightarrow> is_selected_items st1 = is_selected_items st)
     \<and> set (is_evidence_ids st1) \<subseteq> set (is_evidence_ids st) \<union> pe_evidence_id ` set ev
     \<and> (ev = [] \<or> (\<exists>rid call model ds. validate_evidence (wd_env W) st rid call model ds = Inr ev))"

definition node_stop :: "world \<Rightarrow> AgentNode \<Rightarrow> InvestigationState \<Rightarrow> db \<Rightarrow> node_end \<Rightarrow> db \<Rightarrow> bool" where
  "node_stop W node st s x s' \<longleftrightarrow> (\<exists>st' e. x = Raised st' e \<and> passes W s s' \<and> same_control st st'
     \<and> is_iteration st' = is_iteration st + (if node = N_PLAN then 1 else 0) \<and> is_vlm_calls st' = is_vlm_calls st)"

definition node_commit :: "world \<Rightarrow> AgentNode \<Rightarrow> InvestigationState \<Rightarrow> db \<Rightarrow> node_end \<Rightarrow> db \<Rightarrow> bool" where
  "node_commit W node st s x s' \<longleftrightarrow> (\<exists>st1 s1 nxt inp outp ev. node_work W node st s st1 ev s1
     \<and> commit_node W st1 node nxt inp outp ev s1 = (x, s'))"

lemma node_stopI: "passes W s s' \<Longrightarrow> same_control st st' \<Longrightarrow>
   is_iteration st' = is_iteration st + (if node = N_PLAN then 1 else 0) \<Longrightarrow> is_vlm_calls st' = is_vlm_calls st \<Longrightarrow>
   node_stop W node st s (Raised st' e) s'"
  unfolding node_stop_def by blast

lemma node_commitI:
  "node_work W node st s st1 ev s1 \<Longrightarrow> commit_node W st1 node nxt inp outp ev s1 = (x, s') \<Longrightarrow> node_commit W node st s x s'"
  unfolding node_commit_def by blast

lemma plan_node_ends:
  assumes "plan_node W st s = (x, s')"
  shows "node_stop W N_PLAN st s x s' \<or> node_commit W N_PLAN st s x s'"
proof -
  let ?st = "st\<lparr>is_iteration := is_iteration st + 1\<rparr>"
  have sc: "same_control st ?st" by (simp add: same_control_def)
  show ?thesis
  proof (cases "video_duration (is_case_id st) s")
    case (Inl e)
    then have "x = Raised ?st e \<and> s' = s" using assms by (simp add: plan_node_def)
    then show ?thesis using sc by (auto intro: node_stopI)
  next
    case (Inr duration)
    obtain g s1 where g: "generate_for W ?st N_PLAN MR_AGENT ''PlanOutput'' (plan_prompt ?st duration) [] s = (g, s1)"
      by (cases "generate_for W ?st N_PLAN MR_AGENT ''PlanOutput'' (plan_prompt ?st duration) [] s")
    note bet = generate_for_passes [OF g]
    show ?thesis
    proof (cases g)
      case (Inl e)
      then have "x = Raised ?st e \<and> s' = s1" using assms Inr g by (simp add: plan_node_def)
      then show ?thesis using sc bet by (auto intro: node_stopI)
    next
      case r: (Inr r)
      obtain response call_id where rc: "r = (response, call_id)" by (cases r)
      show ?thesis
      proof (cases "accept_plan W ?st (mr_data response)")
        case (Inl e)
        then have "x = Raised ?st e \<and> s' = s1" using assms Inr g r rc by (simp add: plan_node_def)
        then show ?thesis using sc bet by (auto intro: node_stopI)
      next
        case p: (Inr p)
        let ?st1 = "?st\<lparr>is_hypotheses := is_hypotheses st @ [po_hypothesis p], is_pending_action := Some (po_action p)\<rparr>"
        have "node_work W N_PLAN st s ?st1 [] s1" using bet by (simp add: node_work_def same_control_def)
        moreover obtain inp outp where "commit_node W ?st1 N_PLAN (Some N_RETRIEVE) inp outp [] s1 = (x, s')"
          using assms Inr g r rc p by (simp add: plan_node_def)
        ultimately show ?thesis by (blast intro: node_commitI)
      qed
    qed
  qed
qed

lemma retrieve_node_ends:
  assumes "retrieve_node W corr st s = (x, s')"
  shows "node_stop W N_RETRIEVE st s x s' \<or> node_commit W N_RETRIEVE st s x s'"
proof (cases "is_pending_action st")
  case None
  then have "x = Raised st (AgentRuntimeError ''AGENT_CHECKPOINT_INVALID'') \<and> s' = s" using assms by (simp add: retrieve_node_def)
  then show ?thesis by (auto intro: node_stopI)
next
  case (Some a)
  obtain g s1 where g: "run_tool W corr 0 st (aa_tool_name a) a s = (g, s1)" by (cases "run_tool W corr 0 st (aa_tool_name a) a s")
  note bet = run_tool_passes [OF g]
  show ?thesis
  proof (cases g)
    case (Inl e)
    then have "x = Raised st e \<and> s' = s1" using assms Some g by (simp add: retrieve_node_def)
    then show ?thesis using bet by (auto intro: node_stopI)
  next
    case (Inr r)
    let ?st1 = "(record_tool_status (tl_status r) st)\<lparr>is_selected_items :=
        map (selected_item (tl_tool_run_id r) (aa_requirement_id a)) (tl_items r)\<rparr>"
    note rec = run_tool_records [OF g [unfolded Inr]]
    have items: "\<forall>i\<in>set (is_selected_items ?st1). item_recorded s1 (is_run_id st) i" if ok: "tame_world W" "tools_ok s"
    proof
      fix i assume "i \<in> set (is_selected_items ?st1)"
      then obtain y where y: "y \<in> set (tl_items r)" "i = selected_item (tl_tool_run_id r) (aa_requirement_id a) y" by auto
      then have "tl_items r \<noteq> []" by auto
      then obtain t where "t \<in> set (db_tools s1)" "tr_id t = tl_tool_run_id r" "tr_run_id t = Some (is_run_id st)"
        "tr_response_payload t = Some r" using rec(2) [OF ok] by blast
      then show "item_recorded s1 (is_run_id st) i" using y unfolding item_recorded_def
        by (intro bexI [of _ t]) (auto simp: selected_item_def)
    qed
    have sc: "same_control st ?st1" using record_tool_status_simps(1) [of st "tl_status r"] by (simp add: same_control_def)
    have "node_work W N_RETRIEVE st s ?st1 [] s1" unfolding node_work_def
      using bet items sc by simp
    moreover obtain inp outp where "commit_node W ?st1 N_RETRIEVE (Some N_INSPECT) inp outp [] s1 = (x, s')"
      using assms Some g Inr by (simp add: retrieve_node_def)
    ultimately show ?thesis by (blast intro: node_commitI)
  qed
qed

lemma inspect_node_ends:
  assumes "inspect_node W st s = (x, s')"
  shows "node_stop W N_INSPECT st s x s' \<or> node_commit W N_INSPECT st s x s'"
proof (cases "is_selected_items st = []")
  case True
  have "node_work W N_INSPECT st s (st\<lparr>is_observations := []\<rparr>) [] s" by (simp add: node_work_def same_control_def)
  moreover obtain inp outp where "commit_node W (st\<lparr>is_observations := []\<rparr>) N_INSPECT (Some N_VERIFY) inp outp [] s = (x, s')"
    using assms True by (simp add: inspect_node_def)
  ultimately show ?thesis by (blast intro: node_commitI)
next
  case False
  show ?thesis
  proof (cases "sample_frames W (is_case_id st) (is_selected_items st) s")
    case (Inl e)
    then have "x = Raised st e \<and> s' = s" using assms False by (simp add: inspect_node_def)
    then show ?thesis by (auto intro: node_stopI)
  next
    case (Inr frames)
    obtain g s1 where g: "generate_for W st N_INSPECT MR_TRIAGE ''InspectionObservation'' (inspect_prompt st) frames s = (g, s1)"
      by (cases "generate_for W st N_INSPECT MR_TRIAGE ''InspectionObservation'' (inspect_prompt st) frames s")
    note bet = generate_for_passes [OF g]
    show ?thesis
    proof (cases g)
      case (Inl e)
      then have "x = Raised st e \<and> s' = s1" using assms False Inr g by (simp add: inspect_node_def)
      then show ?thesis using bet by (auto intro: node_stopI)
    next
      case r: (Inr r)
      obtain response call_id where rc: "r = (response, call_id)" by (cases r)
      show ?thesis
      proof (cases "accept_inspection st (mr_data response)")
        case (Inl e)
        then have "x = Raised st e \<and> s' = s1" using assms False Inr g r rc by (simp add: inspect_node_def)
        then show ?thesis using bet by (auto intro: node_stopI)
      next
        case p: (Inr p)
        let ?st1 = "st\<lparr>is_observations := [p], is_vlm_calls := is_vlm_calls st + 1\<rparr>"
        have "node_work W N_INSPECT st s ?st1 [] s1" using bet by (simp add: node_work_def same_control_def)
        moreover obtain inp outp where "commit_node W ?st1 N_INSPECT (Some N_VERIFY) inp outp [] s1 = (x, s')"
          using assms False Inr g r rc p by (simp add: inspect_node_def)
        ultimately show ?thesis by (blast intro: node_commitI)
      qed
    qed
  qed
qed

lemma set_add_evidence_ids:
  "set (is_evidence_ids (add_evidence_ids ev st)) = set (is_evidence_ids st) \<union> pe_evidence_id ` set ev"
proof -
  have "set (fold (\<lambda>p ids. if pe_evidence_id p \<in> set ids then ids else ids @ [pe_evidence_id p]) ev ids)
    = set ids \<union> pe_evidence_id ` set ev" for ids
    by (induction ev arbitrary: ids) auto
  then show ?thesis by (simp add: add_evidence_ids_def)
qed

lemma add_evidence_ids_simps [simp]:
  "same_control st (add_evidence_ids ev st)" "is_iteration (add_evidence_ids ev st) = is_iteration st"
  "is_vlm_calls (add_evidence_ids ev st) = is_vlm_calls st"
  "is_selected_items (add_evidence_ids ev st) = is_selected_items st"
  by (simp_all add: add_evidence_ids_def same_control_def)

lemma refresh_missing_simps [simp]:
  "same_control st' (refresh_missing ev st) = same_control st' st" "is_iteration (refresh_missing ev st) = is_iteration st"
  "is_vlm_calls (refresh_missing ev st) = is_vlm_calls st" "is_evidence_ids (refresh_missing ev st) = is_evidence_ids st"
  "is_selected_items (refresh_missing ev st) = is_selected_items st"
  by (simp_all add: refresh_missing_def same_control_def)

lemma accept_verification_Inr:
  assumes "accept_verification E st rid call_id response = Inr pending"
  shows "\<exists>model ds. validate_evidence E st rid call_id model ds = Inr pending"
  using assms by (auto simp: accept_verification_def bindE_Inr_iff)

lemma verify_node_ends:
  assumes "verify_node W st s = (x, s')"
  shows "node_stop W N_VERIFY st s x s' \<or> node_commit W N_VERIFY st s x s'"
proof (cases "is_selected_items st = []")
  case True
  have "node_work W N_VERIFY st s st [] s" by (simp add: node_work_def)
  moreover obtain inp outp where "commit_node W st N_VERIFY (Some N_CHALLENGE) inp outp [] s = (x, s')"
    using assms True by (simp add: verify_node_def)
  ultimately show ?thesis by (blast intro: node_commitI)
next
  case False
  show ?thesis
  proof (cases "is_pending_action st")
    case None
    then have "x = Raised st (AgentRuntimeError ''AGENT_CHECKPOINT_INVALID'') \<and> s' = s"
      using assms False by (simp add: verify_node_def)
    then show ?thesis by (auto intro: node_stopI)
  next
    case (Some a)
    note sel = False Some
    show ?thesis
    proof (cases "find_requirement st (aa_requirement_id a)")
      case (Inl e)
      then have "x = Raised st e \<and> s' = s" using assms sel by (simp add: verify_node_def)
      then show ?thesis by (auto intro: node_stopI)
    next
      case (Inr req)
      note sel = sel Inr
      show ?thesis
      proof (cases "sample_frames W (is_case_id st) (is_selected_items st) s")
        case (Inl e)
        then have "x = Raised st e \<and> s' = s" using assms sel by (simp add: verify_node_def)
        then show ?thesis by (auto intro: node_stopI)
      next
        case (Inr frames)
        note sel = sel Inr
        obtain g s1 where g: "generate_for W st N_VERIFY MR_VERIFIER ''VerificationOutput'' (verify_prompt st req) frames s = (g, s1)"
          by (cases "generate_for W st N_VERIFY MR_VERIFIER ''VerificationOutput'' (verify_prompt st req) frames s")
        note bet = generate_for_passes [OF g]
        show ?thesis
        proof (cases g)
          case (Inl e)
          then have "x = Raised st e \<and> s' = s1" using assms sel g by (simp add: verify_node_def)
          then show ?thesis using bet by (auto intro: node_stopI)
        next
          case r: (Inr r)
          obtain response call_id where rc: "r = (response, call_id)" by (cases r)
          show ?thesis
          proof (cases "accept_verification (wd_env W) st (aa_requirement_id a) call_id response")
            case (Inl e)
            then have "x = Raised st e \<and> s' = s1" using assms sel g r rc by (simp add: verify_node_def)
            then show ?thesis using bet by (auto intro: node_stopI)
          next
            case p: (Inr pending)
            let ?st1 = "refresh_missing pending ((add_evidence_ids pending st)\<lparr>is_vlm_calls := is_vlm_calls st + 1\<rparr>)"
            have sc: "same_control st ((add_evidence_ids pending st)\<lparr>is_vlm_calls := is_vlm_calls st + 1\<rparr>)"
              using add_evidence_ids_simps(1) [of st pending] by (simp add: same_control_def)
            have "node_work W N_VERIFY st s ?st1 pending s1" unfolding node_work_def
              using bet sc set_add_evidence_ids [of pending st] accept_verification_Inr [OF p] by auto
            moreover obtain inp outp where "commit_node W ?st1 N_VERIFY (Some N_CHALLENGE) inp outp pending s1 = (x, s')"
              using assms sel g r rc p by (simp add: verify_node_def)
            ultimately show ?thesis by (blast intro: node_commitI)
          qed
        qed
      qed
    qed
  qed
qed

text \<open>The tool calls of a challenge change counters only.\<close>

definition counters_only :: "InvestigationState \<Rightarrow> InvestigationState \<Rightarrow> bool" where
  "counters_only st st' \<longleftrightarrow> same_control st st' \<and> is_iteration st' = is_iteration st \<and> is_vlm_calls st' = is_vlm_calls st
     \<and> is_selected_items st' = is_selected_items st \<and> is_evidence_ids st' = is_evidence_ids st"

lemma counters_only_refl [simp]: "counters_only st st"
  by (simp add: counters_only_def)

lemma counters_only_trans: "counters_only a b \<Longrightarrow> counters_only b c \<Longrightarrow> counters_only a c"
  by (auto simp: counters_only_def intro: same_control_trans)

lemma counters_only_tool [simp]: "counters_only st (record_tool_status status st)"
  by (simp add: counters_only_def)

lemma challenge_tools_ends:
  assumes "challenge_tools W corr k as st acc s = (r, s')"
  shows "passes W s s' \<and> (\<forall>st' acc'. r = Inr (st', acc') \<longrightarrow> counters_only st st')"
  using assms
proof (induction as arbitrary: k st acc s)
  case Nil
  then show ?case by auto
next
  case (Cons a as)
  show ?case
  proof (cases "aa_tool_name a = ''find_counter_evidence''")
    case False
    then show ?thesis using Cons.prems by auto
  next
    case name: True
    show ?thesis
    proof (cases "find_requirement st (aa_requirement_id a)")
      case (Inl e)
      then show ?thesis using Cons.prems name by auto
    next
      case req: (Inr req)
      obtain g s1 where g: "run_tool W corr k st ''find_counter_evidence'' a s = (g, s1)"
        by (cases "run_tool W corr k st ''find_counter_evidence'' a s")
      note bet = run_tool_passes [OF g]
      show ?thesis
      proof (cases g)
        case (Inl e)
        then show ?thesis using Cons.prems name req g bet by auto
      next
        case (Inr t)
        then have "challenge_tools W corr (Suc k) as (record_tool_status (tl_status t) st) (acc @ [JObj (tool_summary t)]) s1 = (r, s')"
          using Cons.prems name req g by simp
        from Cons.IH [OF this] show ?thesis
          using bet passes_trans counters_only_trans [OF counters_only_tool] by blast
      qed
    qed
  qed
qed

lemma challenge_context_ends:
  assumes "challenge_context W corr k st acc s = (r, s')"
  shows "passes W s s' \<and> (\<forall>st' acc'. r = Inr (st', acc') \<longrightarrow> counters_only st st')"
proof (cases "is_selected_items st")
  case Nil
  then show ?thesis using assms(1) by (auto simp: challenge_context_def)
next
  case (Cons i more)
  show ?thesis
  proof (cases "valid_AgentAction (context_action i)")
    case False
    then show ?thesis using assms(1) Cons by (auto simp: challenge_context_def)
  next
    case True
    obtain g s1 where g: "run_tool W corr k st ''expand_temporal_context'' (context_action i) s = (g, s1)"
      by (cases "run_tool W corr k st ''expand_temporal_context'' (context_action i) s")
    note bet = run_tool_passes [OF g]
    show ?thesis
    proof (cases g)
      case (Inl e)
      then show ?thesis using assms(1) Cons True g bet by (auto simp: challenge_context_def)
    next
      case (Inr t)
      then show ?thesis using assms(1) Cons True g bet
        by (auto simp: challenge_context_def)
    qed
  qed
qed

lemma after_challenge_simps [simp]:
  "same_control st (after_challenge p st)" "is_iteration (after_challenge p st) = is_iteration st"
  "is_vlm_calls (after_challenge p st) = is_vlm_calls st"
  "is_selected_items (after_challenge p st) = is_selected_items st"
  "is_evidence_ids (after_challenge p st) = is_evidence_ids st"
  by (simp_all add: after_challenge_def Let_def same_control_def)

lemma challenge_node_ends:
  assumes "challenge_node W corr st s = (x, s')"
  shows "node_stop W N_CHALLENGE st s x s' \<or> node_commit W N_CHALLENGE st s x s'"
proof -
  let ?prompt = "challenge_prompt st (evidence_rows (wd_env W) st s)"
  obtain g s1 where g: "generate_for W st N_CHALLENGE MR_AGENT ''ChallengeOutput'' ?prompt [] s = (g, s1)"
    by (cases "generate_for W st N_CHALLENGE MR_AGENT ''ChallengeOutput'' ?prompt [] s")
  note bet = generate_for_passes [OF g]
  show ?thesis
  proof (cases g)
    case (Inl e)
    then have "x = Raised st e \<and> s' = s1" using assms g by (simp add: challenge_node_def)
    then show ?thesis using bet by (auto intro: node_stopI)
  next
    case r: (Inr r)
    obtain response call_id where rc: "r = (response, call_id)" by (cases r)
    show ?thesis
    proof (cases "as_challenge (mr_data response)")
      case (Inl e)
      then have "x = Raised st e \<and> s' = s1" using assms g r rc by (simp add: challenge_node_def)
      then show ?thesis using bet by (auto intro: node_stopI)
    next
      case p: (Inr p)
      obtain h s2 where h: "challenge_tools W corr 0 (co_actions p) st [] s1 = (h, s2)"
        by (cases "challenge_tools W corr 0 (co_actions p) st [] s1")
      note hb = challenge_tools_ends [OF h]
      show ?thesis
      proof (cases h)
        case (Inl e)
        then have "x = Raised st e \<and> s' = s2" using assms g r rc p h by (simp add: challenge_node_def)
        then show ?thesis using bet hb passes_trans by (auto intro: node_stopI)
      next
        case (Inr y)
        obtain st1 acc where y: "y = (st1, acc)" by (cases y)
        have c1: "counters_only st st1" using hb Inr y by blast
        obtain k s3 where k: "challenge_context W corr (length (co_actions p)) st1 acc s2 = (k, s3)"
          by (cases "challenge_context W corr (length (co_actions p)) st1 acc s2")
        note kb = challenge_context_ends [OF k]
        have b3: "passes W s s3" using bet hb kb passes_trans by blast
        show ?thesis
        proof (cases k)
          case (Inl e)
          then have "x = Raised st1 e \<and> s' = s3" using assms g r rc p h Inr y k by (simp add: challenge_node_def)
          then show ?thesis using b3 c1 by (auto simp: counters_only_def intro: node_stopI)
        next
          case z: (Inr z)
          obtain st2 acc' where zz: "z = (st2, acc')" by (cases z)
          have c2: "counters_only st1 st2" using kb z zz by blast
          let ?st3 = "after_challenge p st2"
          have c: "counters_only st ?st3"
            by (rule counters_only_trans [OF counters_only_trans [OF c1 c2]]) (simp add: counters_only_def)
          have "node_work W N_CHALLENGE st s ?st3 [] s3" unfolding node_work_def
            using b3 c by (simp add: counters_only_def)
          moreover obtain inp outp where
            "commit_node W ?st3 N_CHALLENGE (Some (challenge_next W p ?st3)) inp outp [] s3 = (x, s')"
            using assms g r rc p h Inr y k z zz by (simp add: challenge_node_def Let_def)
          ultimately show ?thesis by (blast intro: node_commitI)
        qed
      qed
    qed
  qed
qed

text \<open>
  DECIDE commits its step and then completes the run; when the completion is refused the step stays.
\<close>

definition node_decides :: "world \<Rightarrow> InvestigationState \<Rightarrow> db \<Rightarrow> node_end \<Rightarrow> db \<Rightarrow> bool" where
  "node_decides W st s x s' \<longleftrightarrow> (\<exists>st1 s1 inp outp st2 s2 now p d stop res. node_work W N_DECIDE st s st1 [] s1
     \<and> is_evidence_ids st1 = is_evidence_ids st
     \<and> enforce_decision W (wd_clock W (is_state_version st) 4) st p s1
         = Inr (d, stop, st1\<lparr>is_provisional_decision := is_provisional_decision st, is_stop_reason := is_stop_reason st\<rparr>)
     \<and> commit_node W st1 N_DECIDE None inp outp [] s1 = (Advanced st2, s2) \<and> complete now st2 d stop s2 = (res, s')
     \<and> (case res of Inl e \<Rightarrow> x = Raised st2 e | Inr r \<Rightarrow> x = Decided r))"

lemma enforce_decision_state:
  assumes "enforce_decision W now st p s = Inr (d, stop, st')"
  shows "same_control st st'" and "is_iteration st' = is_iteration st" and "is_vlm_calls st' = is_vlm_calls st"
    and "is_selected_items st' = is_selected_items st" and "is_evidence_ids st' = is_evidence_ids st"
    and "is_provisional_decision st' = is_provisional_decision st" and "is_stop_reason st' = is_stop_reason st"
  using assms by (auto simp: enforce_decision_def Let_def same_control_def split: if_splits option.splits)

lemma decide_node_ends:
  assumes "decide_node W st s = (x, s')"
  shows "node_stop W N_DECIDE st s x s' \<or> node_commit W N_DECIDE st s x s' \<and> (\<exists>st' e. x = Raised st' e) \<or> node_decides W st s x s'"
proof -
  let ?prompt = "decide_prompt st (evidence_rows (wd_env W) st s)"
  obtain g s1 where g: "generate_for W st N_DECIDE MR_AGENT ''ProvisionalDecision'' ?prompt [] s = (g, s1)"
    by (cases "generate_for W st N_DECIDE MR_AGENT ''ProvisionalDecision'' ?prompt [] s")
  note bet = generate_for_passes [OF g]
  show ?thesis
  proof (cases g)
    case (Inl e)
    then have "x = Raised st e \<and> s' = s1" using assms g by (simp add: decide_node_def)
    then show ?thesis using bet by (auto intro: node_stopI)
  next
    case r: (Inr r)
    obtain response call_id where rc: "r = (response, call_id)" by (cases r)
    show ?thesis
    proof (cases "accept_decision W (wd_clock W (is_state_version st) 4) st (mr_data response) s1")
      case (Inl e)
      then have "x = Raised st e \<and> s' = s1" using assms g r rc by (simp add: decide_node_def)
      then show ?thesis using bet by (auto intro: node_stopI)
    next
      case y: (Inr y)
      obtain d stop st1 where yy: "y = (d, stop, st1)" by (cases y)
      obtain p where p: "enforce_decision W (wd_clock W (is_state_version st) 4) st p s1 = Inr (d, stop, st1)"
        using y yy by (auto simp: accept_decision_def bindE_Inr_iff)
      note es = enforce_decision_state [OF p]
      let ?st1 = "st1\<lparr>is_provisional_decision := Some d, is_stop_reason := Some stop\<rparr>"
      have same: "?st1\<lparr>is_provisional_decision := is_provisional_decision st, is_stop_reason := is_stop_reason st\<rparr> = st1"
        using es(6,7) by simp
      have nw: "node_work W N_DECIDE st s ?st1 [] s1" unfolding node_work_def
        using bet es by (simp add: same_control_def)
      let ?inp = "JObj [(''evidence_ids'', json_strs (is_evidence_ids st))]"
        and ?outp = "JObj [(''provisional_decision'', json_decision d), (''stop_reason'', JStr stop)]"
      obtain c s2 where c: "commit_node W ?st1 N_DECIDE None ?inp ?outp [] s1 = (c, s2)"
        by (cases "commit_node W ?st1 N_DECIDE None ?inp ?outp [] s1")
      have rest: "(x, s') = (case (c, s2) of (Advanced st2, s2) \<Rightarrow>
               (case complete (wd_clock W (is_state_version st) 5) st2 d stop s2 of
                  (Inl e, s3) \<Rightarrow> (Raised st2 e, s3) | (Inr r, s3) \<Rightarrow> (Decided r, s3)) | failed \<Rightarrow> failed)"
        unfolding assms [symmetric] decide_node_def g r rc prod.case sum.case y yy c ..
      show ?thesis
      proof (cases c)
        case (Advanced st2)
        obtain res s3 where f: "complete (wd_clock W (is_state_version st) 5) st2 d stop s2 = (res, s3)"
          by (cases "complete (wd_clock W (is_state_version st) 5) st2 d stop s2")
        have e: "s' = s3" "case res of Inl e \<Rightarrow> x = Raised st2 e | Inr r \<Rightarrow> x = Decided r"
          using rest Advanced f by (auto split: sum.splits)
        have "node_decides W st s x s'" unfolding node_decides_def
          using nw es(5) p same c Advanced f e
          by (intro exI [of _ ?st1] exI [of _ s1] exI [of _ ?inp] exI [of _ ?outp] exI [of _ st2] exI [of _ s2]
              exI [of _ "wd_clock W (is_state_version st) 5"] exI [of _ p] exI [of _ d] exI [of _ stop] exI [of _ res]) simp
        then show ?thesis by blast
      next
        case (Decided r)
        then show ?thesis using c by (auto simp: commit_node_def Let_def split: prod.splits sum.splits)
      next
        case (Raised st' e)
        then have "x = Raised st' e" "s' = s2" using rest by simp_all
        then show ?thesis using node_commitI [OF nw c] Raised by auto
      qed
    qed
  qed
qed

section \<open>Running the nodes\<close>

lemma commit_node_cases:
  assumes "commit_node W st1 node nxt inp outp ev s1 = (x, s')"
  obtains (raised) e where "x = Raised st1 e" and "s' = s1"
  | (advanced) st2 where "x = Advanced st2"
      and "checkpoint (wd_settings W) (wd_clock W (is_state_version st1) 3) (wd_hex W (is_state_version st1) 0)
             st1 node nxt inp outp (wd_latency W (is_state_version st1) 0) ev s1 = (Inr st2, s')"
proof -
  let ?c = "checkpoint (wd_settings W) (wd_clock W (is_state_version st1) 3) (wd_hex W (is_state_version st1) 0)
             st1 node nxt inp outp (wd_latency W (is_state_version st1) 0) ev s1"
  obtain c s2 where c: "?c = (c, s2)" by (cases ?c)
  show ?thesis
  proof (cases c)
    case (Inl e)
    then show ?thesis using assms c checkpoint_Inl [of "wd_settings W"] by (intro raised [of e]) (auto simp: commit_node_def Let_def)
  next
    case (Inr st2)
    then show ?thesis using assms c by (intro advanced [of st2]) (auto simp: commit_node_def Let_def)
  qed
qed

lemma run_node_ends:
  assumes "run_node W corr node st s = (x, s')"
  obtains (stopped) st' e where "x = Raised st' e" and "passes W s s'" and "same_control st st'"
      and "is_iteration st' = is_iteration st + (if node = N_PLAN then 1 else 0)" and "is_vlm_calls st' = is_vlm_calls st"
  | (refused) st1 e ev where "x = Raised st1 e" and "node_work W node st s st1 ev s'"
  | (advanced) st1 s1 nxt inp outp ev st2 where "x = Advanced st2" and "node \<noteq> N_DECIDE" and "node_work W node st s st1 ev s1"
      and "checkpoint (wd_settings W) (wd_clock W (is_state_version st) 3) (wd_hex W (is_state_version st) 0)
             st1 node nxt inp outp (wd_latency W (is_state_version st) 0) ev s1 = (Inr st2, s')"
  | (decides) "node = N_DECIDE" and "node_decides W st s x s'"
proof -
  note adv = advanced
  have committed: thesis if c: "node_commit W node st s x s'" and d: "node = N_DECIDE \<longrightarrow> (\<exists>st' e. x = Raised st' e)"
  proof -
    obtain st1 s1 nxt inp outp ev where w: "node_work W node st s st1 ev s1"
      and k: "commit_node W st1 node nxt inp outp ev s1 = (x, s')" using c unfolding node_commit_def by blast
    have v: "is_state_version st1 = is_state_version st" using w by (simp add: node_work_def same_control_def)
    from k show thesis
    proof (cases rule: commit_node_cases)
      case (raised e)
      then show thesis using w refused by simp
    next
      case (advanced st2)
      then show thesis using w d v adv [OF advanced(1) _ w] by auto
    qed
  qed
  have "node_stop W node st s x s' \<or> node_commit W node st s x s' \<and> (node = N_DECIDE \<longrightarrow> (\<exists>st' e. x = Raised st' e))
      \<or> node = N_DECIDE \<and> node_decides W st s x s'"
    using assms plan_node_ends retrieve_node_ends inspect_node_ends verify_node_ends challenge_node_ends decide_node_ends
    by (cases node) (simp; blast)+
  then show thesis using committed decides stopped unfolding node_stop_def by blast
qed

lemma node_workD:
  assumes "node_work W node st s st1 ev s1"
  shows "passes W s s1" and "same_control st st1" and "is_iteration st1 = is_iteration st + (if node = N_PLAN then 1 else 0)"
    and "is_vlm_calls st1 \<le> is_vlm_calls st + 1"
    and "set (is_evidence_ids st1) \<subseteq> set (is_evidence_ids st) \<union> pe_evidence_id ` set ev"
    and "ev = [] \<or> (\<exists>rid call model ds. validate_evidence (wd_env W) st rid call model ds = Inr ev)"
  using assms by (auto simp: node_work_def split: if_splits)

text \<open>One node further: the counters a node may move and the nodes that may follow.\<close>

lemma run_node_Advanced:
  assumes "run_node W corr node st s = (Advanced st', s')"
  shows "node \<noteq> N_DECIDE" and "is_next_node st = Some node" and "is_next_node st' \<in> allowed_transitions node"
    and "is_iteration st' = is_iteration st + (if node = N_PLAN then 1 else 0)"
    and "is_vlm_calls st' \<le> is_vlm_calls st + 1"
    and "is_state_version st' = is_state_version st + 1"
proof -
  have "node \<noteq> N_DECIDE \<and> is_next_node st = Some node \<and> is_next_node st' \<in> allowed_transitions node
    \<and> is_iteration st' = is_iteration st + (if node = N_PLAN then 1 else 0)
    \<and> is_vlm_calls st' \<le> is_vlm_calls st + 1 \<and> is_state_version st' = is_state_version st + 1"
    using assms
  proof (cases rule: run_node_ends)
    case (advanced st1 s1 nxt inp outp ev st2)
    from advanced(4) have "nxt \<in> allowed_transitions node \<and> is_next_node st1 = Some node
      \<and> st2 = advance_state (wd_clock W (is_state_version st) 3) node nxt st1" by (rule checkpoint_Inr) simp
    then show ?thesis using advanced(1,2) node_workD(2-4) [OF advanced(3)]
      by (simp add: same_control_def advance_state_def)
  next
    case decides
    then obtain st2 res where "case res of Inl e \<Rightarrow> Advanced st' = Raised st2 e | Inr (r :: InvestigationResult) \<Rightarrow> Advanced st' = Decided r"
      unfolding node_decides_def by blast
    then show ?thesis by (cases res) simp_all
  qed simp_all
  then show "node \<noteq> N_DECIDE" and "is_next_node st = Some node" and "is_next_node st' \<in> allowed_transitions node"
    and "is_iteration st' = is_iteration st + (if node = N_PLAN then 1 else 0)"
    and "is_vlm_calls st' \<le> is_vlm_calls st + 1" and "is_state_version st' = is_state_version st + 1" by blast+
qed

subsection \<open>Termination\<close>

text \<open>How many nodes a state may still visit.\<close>

definition rounds_left :: "Settings \<Rightarrow> InvestigationState \<Rightarrow> nat" where
  "rounds_left C st = nat (cfg_agent_max_iterations C - is_iteration st)"

fun visits_after :: "nat \<Rightarrow> AgentNode option \<Rightarrow> nat" where
  "visits_after n None = 1"
| "visits_after n (Some N_PLAN) = 5 * n + 1"
| "visits_after n (Some N_RETRIEVE) = 5 * n + 5"
| "visits_after n (Some N_INSPECT) = 5 * n + 4"
| "visits_after n (Some N_VERIFY) = 5 * n + 3"
| "visits_after n (Some N_CHALLENGE) = 5 * n + 2"
| "visits_after n (Some N_DECIDE) = 1"

definition visits :: "Settings \<Rightarrow> InvestigationState \<Rightarrow> nat" where
  "visits C st = visits_after (rounds_left C st) (is_next_node st)"

lemma visits_bound: "visits C st \<le> 5 * rounds_left C st + 5"
  by (cases "(rounds_left C st, is_next_node st)" rule: visits_after.cases) (auto simp: visits_def)

lemma visits_decrease:
  assumes "run_node W corr node st s = (Advanced st', s')"
    and "budget_stop (wd_settings W) now st = None"
  shows "visits (wd_settings W) st' < visits (wd_settings W) st"
proof -
  note a = run_node_Advanced [OF assms(1)]
  have b: "node = N_PLAN \<longrightarrow> is_iteration st < cfg_agent_max_iterations (wd_settings W)"
    using assms(2) a(2) by (auto simp: budget_stop_def split: if_splits)
  show ?thesis
    using a b by (cases node) (auto simp: visits_def rounds_left_def)
qed

lemma engine_fuel:
  assumes "visits (wd_settings W) st \<le> fuel"
  shows "\<exists>out. \<forall>n\<ge>fuel. run_engine n W corr st s = Some out"
  using assms
proof (induction fuel arbitrary: st s)
  case 0
  moreover have "0 < visits (wd_settings W) st"
    by (cases "(rounds_left (wd_settings W) st, is_next_node st)" rule: visits_after.cases) (auto simp: visits_def)
  ultimately show ?case by simp
next
  case (Suc fuel)
  have run: "\<exists>out. \<forall>n\<ge>fuel. run_engine (Suc n) W corr st s = Some out"
  proof (cases "is_next_node st")
    case None
    then show ?thesis by simp
  next
    case node: (Some node)
    show ?thesis
    proof (cases "budget_stop (wd_settings W) (wd_clock W (is_state_version st) 0) st")
      case (Some forced)
      then show ?thesis using node by simp
    next
      case None
      obtain x s' where x: "run_node W corr node st s = (x, s')" by (cases "run_node W corr node st s")
      show ?thesis
      proof (cases x)
        case (Advanced st')
        have "visits (wd_settings W) st' \<le> fuel"
          using visits_decrease [OF x [unfolded Advanced] None] Suc.prems by simp
        from Suc.IH [OF this] show ?thesis using node None x Advanced by simp
      next
        case (Decided r)
        then show ?thesis using node None x by simp
      next
        case (Raised st' e)
        then show ?thesis using node None x by (cases e) auto
      qed
    qed
  qed
  then obtain out where "\<forall>n\<ge>fuel. run_engine (Suc n) W corr st s = Some out" by blast
  then have "\<forall>n\<ge>Suc fuel. run_engine n W corr st s = Some out" by (metis Suc_le_D Suc_le_mono)
  then show ?case by blast
qed

text \<open>
  C17. An investigation ends. Whatever the models, the tools, the clock and the database do, the loop
  visits at most five nodes for every round the settings still allow and five more, and then has its
  result; more fuel never changes it.
\<close>

theorem engine_terminates:
  "\<exists>out. \<forall>fuel\<ge>5 * nat (cfg_agent_max_iterations (wd_settings W) - is_iteration st) + 5.
     run_engine fuel W corr st s = Some out"
proof -
  have "visits (wd_settings W) st \<le> 5 * nat (cfg_agent_max_iterations (wd_settings W) - is_iteration st) + 5"
    using visits_bound by (simp add: rounds_left_def)
  then show ?thesis by (rule engine_fuel)
qed

end
