(* ===== verification/EngineRuns.thy ===== *)
theory EngineRuns
  imports AgentEngine
begin

text \<open>
  What holds of a whole run of the engine: it is a run of the machine of \<open>AgentMachine\<close>, it stays
  within its budgets, the evidence it records lies within what its tools returned, and a conclusive
  result cites recorded evidence.
\<close>

section \<open>A run is a run of the machine\<close>

lemma between_step: "between s s' \<Longrightarrow> agent_step E C (s, H) (s', H)"
  by (rule ag_other) (simp_all add: between_def)

lemma work_step: "st \<in> set H \<Longrightarrow> same_control st st' \<Longrightarrow> agent_step E C (s, H) (s, st' # H)"
  by (rule ag_work)

text \<open>A stretch of the machine at whose end the executor still holds its state.\<close>

definition leads :: "world \<Rightarrow> db \<Rightarrow> InvestigationState list \<Rightarrow> db \<Rightarrow> InvestigationState list \<Rightarrow> bool" where
  "leads W s H s' H' \<longleftrightarrow> (agent_step (wd_env W) (wd_settings W))\<^sup>*\<^sup>* (s, H) (s', H')"

lemma leads_step: "agent_step (wd_env W) (wd_settings W) (s, H) (s', H') \<Longrightarrow> leads W s H s' H'"
  by (simp add: leads_def)

lemma leads_trans: "leads W s H s' H' \<Longrightarrow> leads W s' H' s'' H'' \<Longrightarrow> leads W s H s'' H''"
  unfolding leads_def by (rule rtranclp_trans)

lemma leads_refl [simp]: "leads W s H s H"
  by (simp add: leads_def)

lemma leads_complete: "st \<in> set H \<Longrightarrow> complete now st d stop s = (res, s') \<Longrightarrow> leads W s H s' H"
proof (cases res)
  case (Inl e)
  assume "complete now st d stop s = (res, s')"
  then show ?thesis using Inl complete_Inl by fastforce
next
  case (Inr r)
  assume "st \<in> set H" and "complete now st d stop s = (res, s')"
  then show ?thesis using Inr by (intro leads_step ag_complete) auto
qed

lemma node_work_leads:
  assumes "node_work W node st s st1 ev s1" and "tame_world W" and "st \<in> set H"
  shows "leads W s H s1 (st1 # H)"
proof -
  have "between s s1" using node_workD(1) [OF assms(1)] assms(2) by (simp add: passes_def)
  then have "leads W s H s1 H" by (intro leads_step between_step)
  moreover have "leads W s1 H s1 (st1 # H)"
    by (rule leads_step, rule work_step [OF assms(3) node_workD(2) [OF assms(1)]])
  ultimately show ?thesis by (rule leads_trans)
qed

lemma run_node_leads:
  assumes "run_node W corr node st s = (x, s')" and "tame_world W" and "st \<in> set H"
  shows "\<exists>H'. leads W s H s' H' \<and> (\<forall>st'. x = Advanced st' \<longrightarrow> st' \<in> set H') \<and> (\<forall>st' e. x = Raised st' e \<longrightarrow> st' \<in> set H')"
  using assms(1)
proof (cases rule: run_node_ends)
  case (stopped st' e)
  have "between s s'" using stopped(2) assms(2) by (simp add: passes_def)
  then have "leads W s H s' H" by (intro leads_step between_step)
  moreover have "leads W s' H s' (st' # H)" by (rule leads_step, rule work_step [OF assms(3) stopped(3)])
  ultimately have "leads W s H s' (st' # H)" by (rule leads_trans)
  then show ?thesis using stopped(1) by auto
next
  case (refused st1 e ev)
  then show ?thesis using node_work_leads [OF refused(2) assms(2,3)] by auto
next
  case (advanced st1 s1 nxt inp outp ev st2)
  have "leads W s1 (st1 # H) s' (st2 # st1 # H)"
    by (rule leads_step, rule ag_checkpoint [OF _ advanced(4)]) simp
  then have "leads W s H s' (st2 # st1 # H)" using node_work_leads [OF advanced(3) assms(2,3)] leads_trans by blast
  then show ?thesis using advanced(1) by auto
next
  case decides
  then obtain st1 s1 inp outp st2 s2 now d stop res where w: "node_work W N_DECIDE st s st1 [] s1"
    and c: "commit_node W st1 N_DECIDE None inp outp [] s1 = (Advanced st2, s2)"
    and f: "complete now st2 d stop s2 = (res, s')"
    and r: "case res of Inl e \<Rightarrow> x = Raised st2 e | Inr r \<Rightarrow> x = Decided r"
    unfolding node_decides_def by blast
  have "leads W s1 (st1 # H) s2 (st2 # st1 # H)" using c
  proof (cases rule: commit_node_cases)
    case (advanced st')
    then show ?thesis by (intro leads_step) (auto intro: ag_checkpoint [of st1])
  qed simp
  then have "leads W s H s2 (st2 # st1 # H)" using node_work_leads [OF w assms(2,3)] leads_trans by blast
  moreover have "leads W s2 (st2 # st1 # H) s' (st2 # st1 # H)" using f by (intro leads_complete) simp_all
  ultimately have "leads W s H s' (st2 # st1 # H)" by (rule leads_trans)
  then show ?thesis using r by (cases res) auto
qed

text \<open>
  C18. The engine implements the machine. Every run of the engine from a state that an executor
  holds, however the models and the tools answer and wherever it stops, is a sequence of steps of
  \<open>agent_step\<close>: what is shown of all sequences, such as the legality of the history, holds of it.
\<close>

theorem engine_refines_machine:
  assumes "run_engine fuel W corr st s = Some (res, s')" and "tame_world W" and "st \<in> set H"
  shows "\<exists>H'. (agent_step (wd_env W) (wd_settings W))\<^sup>*\<^sup>* (s, H) (s', H')"
proof -
  have "\<exists>H'. leads W s H s' H'" using assms(1,3)
  proof (induction fuel arbitrary: st s H)
    case 0
    then show ?case by simp
  next
    case (Suc fuel)
    note run = Suc.prems(1)
    show ?case
    proof (cases "is_next_node st")
      case None
      then show ?thesis using run by (auto intro: leads_refl)
    next
      case node: (Some node)
      show ?thesis
      proof (cases "budget_stop (wd_settings W) (wd_clock W (is_state_version st) 0) st")
        case (Some forced)
        then have "force_review W st forced s = (res, s')" using run node by simp
        then show ?thesis using leads_complete [OF Suc.prems(2)] unfolding force_review_def by blast
      next
        case None
        obtain x s1 where x: "run_node W corr node st s = (x, s1)" by (cases "run_node W corr node st s")
        obtain H1 where H1: "leads W s H s1 H1" "\<forall>st'. x = Advanced st' \<longrightarrow> st' \<in> set H1"
          "\<forall>st' e. x = Raised st' e \<longrightarrow> st' \<in> set H1" using run_node_leads [OF x assms(2) Suc.prems(2)] by blast
        show ?thesis
        proof (cases x)
          case (Advanced st')
          then show ?thesis using run node None x Suc.IH [of st' s1 H1] H1 leads_trans by fastforce
        next
          case (Decided r)
          then show ?thesis using run node None x H1 by auto
        next
          case (Raised st' e)
          show ?thesis
          proof (cases "\<exists>code. e = ModelError code False")
            case True
            then have "force_review W st' ''AGENT_MODEL_FAILED'' s1 = (res, s')" using run node None x Raised by auto
            then have "leads W s1 H1 s' H1" using H1(3) Raised leads_complete unfolding force_review_def by blast
            then show ?thesis using H1(1) leads_trans by blast
          next
            case False
            then have "s' = s1" using run node None x Raised by (cases e) (auto split: if_splits)
            then show ?thesis using H1(1) by blast
          qed
        qed
      qed
    qed
  qed
  then show ?thesis by (simp add: leads_def)
qed

section \<open>Budgets\<close>

definition in_budget :: "Settings \<Rightarrow> InvestigationState \<Rightarrow> bool" where
  "in_budget C st \<longleftrightarrow> is_iteration st \<le> cfg_agent_max_iterations C \<and> is_vlm_calls st \<le> cfg_agent_max_vlm_calls C"

definition snapshots_in_budget :: "Settings \<Rightarrow> db \<Rightarrow> bool" where
  "snapshots_in_budget C s \<longleftrightarrow> (\<forall>r\<in>set (db_runs s). \<forall>st. rn_state_snapshot r = Some st \<longrightarrow> in_budget C st)"

lemma budget_stop_None:
  assumes "budget_stop C now st = None"
  shows "is_vlm_calls st < cfg_agent_max_vlm_calls C" and "now < is_deadline_at st"
    and "is_consecutive_tool_failures st < cfg_agent_max_consecutive_tool_failures C"
    and "is_stagnant_iterations st < cfg_agent_max_stagnant_iterations C"
    and "is_next_node st = Some N_PLAN \<or> is_next_node st = Some N_DECIDE \<Longrightarrow> is_iteration st < cfg_agent_max_iterations C"
  using assms by (auto simp: budget_stop_def split: if_splits)

lemma snapshots_between: "between s s' \<Longrightarrow> snapshots_in_budget C s \<Longrightarrow> snapshots_in_budget C s'"
  by (fastforce simp: between_def quiet_runs_def snapshots_in_budget_def)

lemma snapshots_upd:
  assumes "snapshots_in_budget C s" and "db_runs s' = t_upd rn_id i f (db_runs s)" and "in_budget C st"
    and "\<And>r. rn_state_snapshot (f r) = Some st"
  shows "snapshots_in_budget C s'"
  using assms by (auto simp: snapshots_in_budget_def t_upd_def)

lemma snapshots_checkpoint:
  assumes "checkpoint C now hex st node nxt inp outp l ev s = (Inr st', s')" and "snapshots_in_budget B s" and "in_budget B st"
  shows "snapshots_in_budget B s'" and "in_budget B st'"
proof -
  have st': "st' = advance_state now node nxt st" using assms(1) by (rule checkpoint_Inr) simp
  show b: "in_budget B st'" using assms(3) by (simp add: st' advance_state_def in_budget_def)
  show "snapshots_in_budget B s'"
    by (rule snapshots_upd [OF assms(2) checkpoint_runs(1) [OF assms(1)] b]) (simp add: checkpoint_run_def)
qed

lemma snapshots_complete:
  assumes "complete now st d stop s = (res, s')" and "snapshots_in_budget B s" and "in_budget B st"
  shows "snapshots_in_budget B s'"
proof (cases res)
  case (Inl e)
  then show ?thesis using assms complete_Inl by fastforce
next
  case (Inr r)
  have t: "db_runs s' = t_upd rn_id (is_run_id st) (complete_run now d stop (complete_state d stop st)) (db_runs s)"
    using assms(1) Inr by (auto elim!: complete_Inr dest: t_get_Some)
  have b: "in_budget B (complete_state d stop st)" using assms(3) by (simp add: complete_state_def in_budget_def)
  show ?thesis by (rule snapshots_upd [OF assms(2) t b]) (simp add: complete_run_def)
qed

lemma run_node_budget:
  assumes "run_node W corr node st s = (x, s')" and "is_next_node st = Some node"
    and "budget_stop (wd_settings W) now st = None" and "tame_world W" and "in_budget (wd_settings W) st"
    and "snapshots_in_budget (wd_settings W) s"
  shows "snapshots_in_budget (wd_settings W) s' \<and> (\<forall>st'. x = Advanced st' \<longrightarrow> in_budget (wd_settings W) st')
    \<and> (\<forall>st' e. x = Raised st' e \<longrightarrow> in_budget (wd_settings W) st')"
proof -
  let ?C = "wd_settings W"
  note b = budget_stop_None [OF assms(3)]
  have work: "snapshots_in_budget ?C s1 \<and> in_budget ?C st1" if w: "node_work W node st s st1 ev s1" for st1 ev s1
    using w b(1,5) assms(2,4-6) snapshots_between [of s s1] node_workD [OF w]
    by (auto simp: in_budget_def passes_def split: if_splits)
  from assms(1) show ?thesis
  proof (cases rule: run_node_ends)
    case (stopped st' e)
    then show ?thesis using b(5) assms(2,4-6) snapshots_between [of s s']
      by (auto simp: in_budget_def passes_def split: if_splits)
  next
    case (refused st1 e ev)
    then show ?thesis using work by auto
  next
    case (advanced st1 s1 nxt inp outp ev st2)
    then show ?thesis using work [OF advanced(3)] snapshots_checkpoint [OF advanced(4)] by auto
  next
    case decides
    then obtain st1 s1 inp outp st2 s2 now' d stop res where w: "node_work W node st s st1 [] s1"
      and c: "commit_node W st1 N_DECIDE None inp outp [] s1 = (Advanced st2, s2)"
      and f: "complete now' st2 d stop s2 = (res, s')"
      and r: "case res of Inl e \<Rightarrow> x = Raised st2 e | Inr r \<Rightarrow> x = Decided r"
      unfolding node_decides_def by blast
    have "snapshots_in_budget ?C s2 \<and> in_budget ?C st2" using c
      by (cases rule: commit_node_cases) (use work [OF w] snapshots_checkpoint in auto)
    then show ?thesis using snapshots_complete [OF f] r by (cases res) auto
  qed
qed

text \<open>
  C21. The budgets are kept. When every stored state, and the state an executor starts from, counts at
  most the allowed rounds and vision calls, so does every state stored after the run, however it ends.
\<close>

theorem engine_in_budget:
  assumes "run_engine fuel W corr st s = Some (res, s')" and "tame_world W" and "in_budget (wd_settings W) st"
    and "snapshots_in_budget (wd_settings W) s"
  shows "snapshots_in_budget (wd_settings W) s'"
  using assms(1,3,4)
proof (induction fuel arbitrary: st s)
  case 0
  then show ?case by simp
next
  case (Suc fuel)
  note run = Suc.prems(1)
  show ?case
  proof (cases "is_next_node st")
    case None
    then show ?thesis using run Suc.prems by auto
  next
    case node: (Some node)
    show ?thesis
    proof (cases "budget_stop (wd_settings W) (wd_clock W (is_state_version st) 0) st")
      case (Some forced)
      then have "force_review W st forced s = (res, s')" using run node by simp
      then show ?thesis using snapshots_complete Suc.prems unfolding force_review_def by blast
    next
      case None
      obtain x s1 where x: "run_node W corr node st s = (x, s1)" by (cases "run_node W corr node st s")
      note n = run_node_budget [OF x node None assms(2) Suc.prems(2,3)]
      show ?thesis
      proof (cases x)
        case (Advanced st')
        then show ?thesis using run node None x n Suc.IH [of st' s1] by simp
      next
        case (Decided r)
        then show ?thesis using run node None x n by simp
      next
        case (Raised st' e)
        then have "force_review W st' ''AGENT_MODEL_FAILED'' s1 = (res, s') \<or> s' = s1"
          using run node None x by (cases e) (auto split: if_splits)
        then show ?thesis using n Raised snapshots_complete unfolding force_review_def by blast
      qed
    qed
  qed
qed

section \<open>Evidence lies within what the tools returned\<close>

definition evidence_in_item :: "db \<Rightarrow> string \<Rightarrow> EvidenceRecord \<Rightarrow> bool" where
  "evidence_in_item s run_id e \<longleftrightarrow> (\<exists>t\<in>set (db_tools s). ev_tool_run_id e = Some (tr_id t) \<and> tr_run_id t = Some run_id
     \<and> (\<exists>r. tr_response_payload t = Some r \<and> (\<exists>x\<in>set (tl_items r). ti_source_ref x = ev_source_ref e
          \<and> ti_modality x = ev_modality e \<and> ti_start_ms x \<le> ev_start_ms e \<and> ev_end_ms e \<le> ti_end_ms x)))"

text \<open>What an executor may rely on of a state it works on, and the database it works in.\<close>

definition engine_ok :: "InvestigationState \<Rightarrow> db \<Rightarrow> bool" where
  "engine_ok st s \<longleftrightarrow> set (is_evidence_ids st) \<subseteq> ev_id ` set (db_evidence s)
     \<and> (\<forall>i\<in>set (is_selected_items st). item_recorded s (is_run_id st) i) \<and> tools_ok s"

lemma validate_evidence_sources:
  "validate_evidence E st rid call model ds = Inr ps \<Longrightarrow> p \<in> set ps \<Longrightarrow>
    \<exists>i\<in>set (is_selected_items st). ti_source_ref i = pe_source_ref p \<and> ti_modality i = pe_modality p
      \<and> si_tool_run_id i = pe_tool_run_id p \<and> ti_start_ms i \<le> pe_start_ms p \<and> pe_end_ms p \<le> ti_end_ms i
      \<and> si_requirement_id i = pe_requirement_id p"
proof (induction ds arbitrary: ps)
  case Nil
  then show ?case by simp
next
  case (Cons d ds)
  obtain i where i: "source_item st (ef_source_ref d) = Some i" using Cons.prems(1) by (cases "source_item st (ef_source_ref d)") auto
  have m: "i \<in> set (is_selected_items st)" "ti_source_ref i = ef_source_ref d"
    using i by (auto simp: source_item_def find_Some_iff) (metis nth_mem set_rev length_rev)
  obtain qs where qs: "validate_evidence E st rid call model ds = Inr qs" "ps = pending_evidence E st rid i d call model # qs"
    and c: "\<not> ef_start_ms d < ti_start_ms i" "\<not> ti_end_ms i < ef_end_ms d" "si_requirement_id i = rid"
    using Cons.prems(1) i by (auto simp: bindE_Inr_iff split: if_splits)
  show ?case
  proof (cases "p = pending_evidence E st rid i d call model")
    case True
    then show ?thesis using m c by (intro bexI [of _ i]) (simp_all add: pending_evidence_def)
  next
    case False
    then show ?thesis using Cons.IH [OF qs(1)] Cons.prems(2) qs(2) by simp
  qed
qed

definition extends_evidence :: "string \<Rightarrow> db \<Rightarrow> db \<Rightarrow> bool" where
  "extends_evidence run_id s s' \<longleftrightarrow> set (db_tools s) \<subseteq> set (db_tools s')
     \<and> (\<exists>new. db_evidence s' = db_evidence s @ new \<and> (\<forall>e\<in>set new. evidence_in_item s' run_id e))"

lemma evidence_in_item_mono:
  "set (db_tools s) \<subseteq> set (db_tools s') \<Longrightarrow> evidence_in_item s run_id e \<Longrightarrow> evidence_in_item s' run_id e"
  unfolding evidence_in_item_def by blast

lemma extends_evidence_refl [simp]: "extends_evidence run_id s s"
  by (auto simp: extends_evidence_def)

lemma extends_evidence_same:
  "set (db_tools s) \<subseteq> set (db_tools s') \<Longrightarrow> db_evidence s' = db_evidence s \<Longrightarrow> extends_evidence run_id s s'"
  by (auto simp: extends_evidence_def)

lemma extends_evidence_trans:
  assumes "extends_evidence run_id s s'" and "extends_evidence run_id s' s''"
  shows "extends_evidence run_id s s''"
proof -
  obtain new where n: "db_evidence s' = db_evidence s @ new" "\<forall>e\<in>set new. evidence_in_item s' run_id e"
    and t: "set (db_tools s) \<subseteq> set (db_tools s')" using assms(1) unfolding extends_evidence_def by blast
  obtain new' where n': "db_evidence s'' = db_evidence s' @ new'" "\<forall>e\<in>set new'. evidence_in_item s'' run_id e"
    and t': "set (db_tools s') \<subseteq> set (db_tools s'')" using assms(2) unfolding extends_evidence_def by blast
  show ?thesis unfolding extends_evidence_def
    using n n' t t' evidence_in_item_mono [OF t'] by (intro conjI exI [of _ "new @ new'"]) auto
qed

lemma node_work_evidence:
  assumes "node_work W node st s st1 ev s1" and "tame_world W" and "engine_ok st s"
  shows "db_evidence s1 = db_evidence s" and "set (db_tools s) \<subseteq> set (db_tools s1)" and "is_run_id st1 = is_run_id st"
    and "tools_ok s1" and "\<forall>i\<in>set (is_selected_items st1). item_recorded s1 (is_run_id st) i"
    and "p \<in> set ev \<Longrightarrow> e = evidence_row c now p \<Longrightarrow> evidence_in_item s1 (is_run_id st) e"
proof -
  have b: "between s s1" "tools_ok s1" using node_workD(1) [OF assms(1)] assms(2,3) by (simp_all add: passes_def engine_ok_def)
  show ev: "db_evidence s1 = db_evidence s" and tl: "set (db_tools s) \<subseteq> set (db_tools s1)" and "tools_ok s1"
    using b by (simp_all add: between_def)
  show "is_run_id st1 = is_run_id st" using node_workD(2) [OF assms(1)] by (simp add: same_control_def)
  have old: "\<forall>i\<in>set (is_selected_items st). item_recorded s1 (is_run_id st) i"
    using assms(3) item_recorded_mono [OF tl] by (simp add: engine_ok_def)
  then show "\<forall>i\<in>set (is_selected_items st1). item_recorded s1 (is_run_id st) i"
    using assms by (cases "node = N_RETRIEVE") (simp_all add: node_work_def engine_ok_def)
  assume p: "p \<in> set ev" and e: "e = evidence_row c now p"
  obtain rid call model ds where "validate_evidence (wd_env W) st rid call model ds = Inr ev"
    using node_workD(6) [OF assms(1)] p by auto
  from validate_evidence_sources [OF this p] obtain i where i: "i \<in> set (is_selected_items st)"
    "ti_source_ref i = pe_source_ref p" "ti_modality i = pe_modality p" "si_tool_run_id i = pe_tool_run_id p"
    "ti_start_ms i \<le> pe_start_ms p" "pe_end_ms p \<le> ti_end_ms i" by blast
  then obtain t r x where t: "t \<in> set (db_tools s1)" "tr_id t = si_tool_run_id i" "tr_run_id t = Some (is_run_id st)"
    "tr_response_payload t = Some r" "x \<in> set (tl_items r)" "i = selected_item (tr_id t) (si_requirement_id i) x"
    using old unfolding item_recorded_def by blast
  have x: "ti_source_ref i = ti_source_ref x" "ti_modality i = ti_modality x" "ti_start_ms i = ti_start_ms x" "ti_end_ms i = ti_end_ms x"
    by (subst t(6), simp add: selected_item_def)+
  show "evidence_in_item s1 (is_run_id st) e" unfolding evidence_in_item_def e
    using t(1-5) i x by (intro bexI [of _ t] exI [of _ r] conjI bexI [of _ x]) (simp_all add: evidence_row_def)
qed

lemma append_all_rows:
  assumes "append_all cid now items s = Inr s'"
  shows "\<exists>new. db_evidence s' = db_evidence s @ new \<and> pe_evidence_id ` set items \<subseteq> ev_id ` set (db_evidence s')
    \<and> set new \<subseteq> evidence_row cid now ` set items"
proof -
  obtain new where n: "s' = s\<lparr>db_evidence := db_evidence s @ new\<rparr>"
    "set (map pe_evidence_id items) \<subseteq> set (map ev_id (db_evidence s @ new))" "set new \<subseteq> evidence_row cid now ` set items"
    using append_all_extends [OF assms] by blast
  have e: "db_evidence s' = db_evidence s @ new" by (simp add: n(1))
  show ?thesis using n(2,3) unfolding e by (intro exI [of _ new]) (simp add: image_Un)
qed

lemma checkpoint_rows:
  assumes "checkpoint C now hex st1 node nxt inp outp l ev s1 = (Inr st2, s')"
  shows "\<exists>new. db_evidence s' = db_evidence s1 @ new \<and> pe_evidence_id ` set ev \<subseteq> ev_id ` set (db_evidence s')
      \<and> set new \<subseteq> evidence_row (is_case_id st1) now ` set ev"
    and "db_tools s' = db_tools s1" and "st2 = advance_state now node nxt st1"
proof -
  let ?X = "update_job (is_job_id st1) (\<lambda>j. j\<lparr>jb_lease_until := Some (now + seconds (cfg_agent_job_lease_seconds C)), jb_updated_at := now\<rparr>)
            (update_run (is_run_id st1) (checkpoint_run now (now + seconds (cfg_agent_job_lease_seconds C)) st2) s1)"
  obtain s2 where st2: "st2 = advance_state now node nxt st1" and a: "append_all (is_case_id st1) now ev ?X = Inr s2"
    and s2: "s' = s2\<lparr>db_steps := db_steps s1 @ [step_row now hex node inp outp l st2]\<rparr>"
    by (rule checkpoint_Inr [OF assms]) (rule that; assumption)
  have X: "db_evidence ?X = db_evidence s1" "db_tools ?X = db_tools s1" by simp_all
  show "\<exists>new. db_evidence s' = db_evidence s1 @ new \<and> pe_evidence_id ` set ev \<subseteq> ev_id ` set (db_evidence s')
      \<and> set new \<subseteq> evidence_row (is_case_id st1) now ` set ev"
    using append_all_rows [OF a] unfolding X s2 by simp
  show "db_tools s' = db_tools s1" using append_all_frame [OF a] unfolding X s2 by simp
  show "st2 = advance_state now node nxt st1" by (rule st2)
qed

lemma checkpoint_evidence:
  assumes w: "node_work W node st s st1 ev s1" and "tame_world W" and "engine_ok st s"
    and c: "checkpoint C now hex st1 node nxt inp outp l ev s1 = (Inr st2, s')"
  shows "extends_evidence (is_run_id st) s s'" and "engine_ok st2 s'" and "is_run_id st2 = is_run_id st"
    and "db_tools s' = db_tools s1"
proof -
  note nw = node_work_evidence [OF assms(1-3)]
  note st2 = checkpoint_rows(3) [OF c]
  show tl: "db_tools s' = db_tools s1" by (rule checkpoint_rows(2) [OF c])
  obtain new where new: "db_evidence s' = db_evidence s1 @ new"
    "pe_evidence_id ` set ev \<subseteq> ev_id ` set (db_evidence s')" "set new \<subseteq> evidence_row (is_case_id st1) now ` set ev"
    using checkpoint_rows(1) [OF c] by blast
  have inn: "\<forall>e\<in>set new. evidence_in_item s' (is_run_id st) e"
  proof
    fix e assume "e \<in> set new"
    then obtain p where "p \<in> set ev" "e = evidence_row (is_case_id st1) now p" using new(3) by auto
    then have "evidence_in_item s1 (is_run_id st) e" by (rule nw(6))
    then show "evidence_in_item s' (is_run_id st) e" by (rule evidence_in_item_mono [rotated]) (simp add: tl)
  qed
  show "extends_evidence (is_run_id st) s s'" unfolding extends_evidence_def
    using inn by (intro conjI exI [of _ new]) (simp_all only: nw(1,2) tl new(1))
  show id: "is_run_id st2 = is_run_id st" unfolding st2 by (simp add: advance_state_def nw(3))
  have "set (is_evidence_ids st1) \<subseteq> ev_id ` set (db_evidence s')"
  proof -
    have "ev_id ` set (db_evidence s) \<subseteq> ev_id ` set (db_evidence s')"
      by (rule image_mono) (simp add: new(1) nw(1))
    moreover have "set (is_evidence_ids st) \<subseteq> ev_id ` set (db_evidence s)" using assms(3) by (simp add: engine_ok_def)
    ultimately have "set (is_evidence_ids st) \<union> pe_evidence_id ` set ev \<subseteq> ev_id ` set (db_evidence s')"
      using new(2) by (intro Un_least) (rule subset_trans)
    with node_workD(5) [OF w] show ?thesis by (rule subset_trans)
  qed
  moreover have "item_recorded s' (is_run_id st) i" if "i \<in> set (is_selected_items st1)" for i
  proof -
    have "item_recorded s1 (is_run_id st) i" using nw(5) that by blast
    then show ?thesis by (rule item_recorded_mono [rotated]) (simp add: tl)
  qed
  moreover have "tools_ok s'" using nw(4) by (simp only: tools_ok_cong [OF tl])
  moreover have "is_evidence_ids st2 = is_evidence_ids st1" and "is_selected_items st2 = is_selected_items st1"
    by (simp_all add: st2 advance_state_def)
  ultimately show "engine_ok st2 s'" unfolding engine_ok_def id by simp
qed

lemma complete_evidence: "complete now st d stop s = (res, s') \<Longrightarrow> db_evidence s' = db_evidence s \<and> db_tools s' = db_tools s"
  by (cases res) (auto dest: complete_Inl elim!: complete_Inr)

lemma passes_evidence:
  assumes "passes W s s'" and "tame_world W"
  shows "extends_evidence i s s'"
  using assms by (intro extends_evidence_same) (simp_all add: passes_def between_def)

lemma run_node_evidence:
  assumes "run_node W corr node st s = (x, s')" and "tame_world W" and "engine_ok st s"
  shows "extends_evidence (is_run_id st) s s' \<and> (\<forall>st'. x = Advanced st' \<longrightarrow> engine_ok st' s' \<and> is_run_id st' = is_run_id st)"
  using assms(1)
proof (cases rule: run_node_ends)
  case (stopped st' e)
  then show ?thesis using passes_evidence assms(2) by blast
next
  case (refused st1 e ev)
  then show ?thesis using passes_evidence node_workD(1) assms(2) by blast
next
  case (advanced st1 s1 nxt inp outp ev st2)
  then show ?thesis using checkpoint_evidence [OF advanced(3) assms(2,3) advanced(4)] by blast
next
  case decides
  then obtain st1 s1 inp outp st2 s2 now d stop res where w: "node_work W N_DECIDE st s st1 [] s1"
    and c: "commit_node W st1 N_DECIDE None inp outp [] s1 = (Advanced st2, s2)"
    and f: "complete now st2 d stop s2 = (res, s')"
    and r: "case res of Inl e \<Rightarrow> x = Raised st2 e | Inr r \<Rightarrow> x = Decided r"
    unfolding node_decides_def by blast
  from c have "extends_evidence (is_run_id st) s s2"
  proof (cases rule: commit_node_cases)
    case (advanced st')
    show ?thesis by (rule checkpoint_evidence(1) [OF w assms(2,3) advanced(2)])
  qed simp
  moreover have "extends_evidence (is_run_id st) s2 s'"
    using complete_evidence [OF f] by (intro extends_evidence_same) simp_all
  ultimately have "extends_evidence (is_run_id st) s s'" by (rule extends_evidence_trans)
  moreover have "\<forall>st'. x \<noteq> Advanced st'" using r by (cases res) auto
  ultimately show ?thesis by blast
qed

text \<open>How a run ends, seen from the state it ends in.\<close>

lemma engine_induct:
  assumes run: "run_engine fuel W corr st s = Some (res, s')" and "tame_world W" and "engine_ok st s"
  obtains (raised) s1 where "extends_evidence (is_run_id st) s s1" and "s' = s1" and "\<exists>e. res = Inl e"
  | (forced) st1 reason s1 where "extends_evidence (is_run_id st) s s1" and "force_review W st1 reason s1 = (res, s')"
  | (decided) st1 s1 r where "engine_ok st1 s1" and "extends_evidence (is_run_id st) s s1" and "is_run_id st1 = is_run_id st"
      and "run_node W corr N_DECIDE st1 s1 = (Decided r, s')" and "res = Inr r"
proof -
  have "(\<exists>s1. extends_evidence (is_run_id st) s s1 \<and> s' = s1 \<and> (\<exists>e. res = Inl e))
    \<or> (\<exists>st1 reason s1. extends_evidence (is_run_id st) s s1 \<and> force_review W st1 reason s1 = (res, s'))
    \<or> (\<exists>st1 s1 r. engine_ok st1 s1 \<and> extends_evidence (is_run_id st) s s1 \<and> is_run_id st1 = is_run_id st
        \<and> run_node W corr N_DECIDE st1 s1 = (Decided r, s') \<and> res = Inr r)" (is "?A st s")
    using run assms(3)
  proof (induction fuel arbitrary: st s)
    case 0
    then show ?case by simp
  next
    case (Suc fuel)
    note run = Suc.prems(1)
    show ?case
    proof (cases "is_next_node st")
      case None
      then show ?thesis using run by auto
    next
      case node: (Some node)
      show ?thesis
      proof (cases "budget_stop (wd_settings W) (wd_clock W (is_state_version st) 0) st")
        case (Some forced)
        then have "force_review W st forced s = (res, s')" using run node by simp
        then show ?thesis using extends_evidence_refl by blast
      next
        case None
        obtain x s1 where x: "run_node W corr node st s = (x, s1)" by (cases "run_node W corr node st s")
        note n = run_node_evidence [OF x assms(2) Suc.prems(2)]
        show ?thesis
        proof (cases x)
          case (Advanced st')
          then have "run_engine fuel W corr st' s1 = Some (res, s')" and ok: "engine_ok st' s1" "is_run_id st' = is_run_id st"
            using run node None x n by simp_all
          from Suc.IH [OF this(1) ok(1)] show ?thesis
            using n extends_evidence_trans [of "is_run_id st" s s1] unfolding ok(2) by blast
        next
          case (Decided r)
          have "node = N_DECIDE" using x unfolding Decided by (cases rule: run_node_ends) simp_all
          moreover have "res = Inr r" "s' = s1" using run node None x Decided by simp_all
          ultimately have "run_node W corr N_DECIDE st s = (Decided r, s')" using x Decided by simp
          then show ?thesis using Suc.prems(2) extends_evidence_refl \<open>res = Inr r\<close> by blast
        next
          case (Raised st' e)
          then have "force_review W st' ''AGENT_MODEL_FAILED'' s1 = (res, s') \<or> s' = s1 \<and> res = Inl e"
            using run node None x by (cases e) (auto split: if_splits)
          then show ?thesis using n by blast
        qed
      qed
    qed
  qed
  then show thesis using raised forced decided by blast
qed

text \<open>
  C20. Evidence stays within what was looked at. Every row of evidence a run of the engine adds names
  a tool run of the same investigation, and lies within one item of the answer recorded for that tool
  run: the same source reference and modality, and a time range inside the item's.
\<close>

theorem engine_evidence_within_items:
  assumes "run_engine fuel W corr st s = Some (res, s')" and "tame_world W" and "engine_ok st s"
  shows "\<exists>new. db_evidence s' = db_evidence s @ new \<and> (\<forall>e\<in>set new. evidence_in_item s' (is_run_id st) e)"
proof -
  have "extends_evidence (is_run_id st) s s'" using assms
  proof (cases rule: engine_induct)
    case (forced st1 reason s1)
    have "extends_evidence (is_run_id st) s1 s'"
      using complete_evidence forced(2) unfolding force_review_def by (intro extends_evidence_same) fastforce+
    with forced(1) show ?thesis by (rule extends_evidence_trans)
  next
    case (decided st1 s1 r)
    have "extends_evidence (is_run_id st) s1 s'"
      using run_node_evidence [OF decided(4) assms(2) decided(1)] decided(3) by simp
    with decided(2) show ?thesis by (rule extends_evidence_trans)
  qed simp_all
  then show ?thesis unfolding extends_evidence_def by blast
qed


lemma enforce_decision_stands:
  assumes "enforce_decision W now st p s = Inr (d, stop, st')" and "pr_verdict d \<noteq> V_NEEDS_HUMAN_REVIEW"
  shows "d = p" and "st' = st" and "pr_evidence_ids d \<noteq> []" and "set (pr_evidence_ids d) \<subseteq> set (is_evidence_ids st)"
    and "is_missing_requirement_ids st = []" and "conflicting (evidence_rows (wd_env W) st s) = []"
    and "budget_stop (wd_settings W) now st = None"
proof -
  have e: "enforcement_stop (wd_settings W) now st p (evidence_rows (wd_env W) st s) = None" "d = p"
    "set (pr_evidence_ids p) \<subseteq> set (is_evidence_ids st)"
    "st' = (if conflicting (evidence_rows (wd_env W) st s) = [] then st
       else st\<lparr>is_contradictory_requirement_ids := conflicting (evidence_rows (wd_env W) st s)\<rparr>)"
    using assms by (auto simp: enforce_decision_def Let_def review_decision_def split: if_splits option.splits)
  then show "d = p" and "set (pr_evidence_ids d) \<subseteq> set (is_evidence_ids st)" by simp_all
  have f: "conflicting (evidence_rows (wd_env W) st s) = [] \<and> is_missing_requirement_ids st = []
    \<and> budget_stop (wd_settings W) now st = None \<and> pr_evidence_ids p \<noteq> []"
    using e(1,2) assms(2) by (auto simp: enforcement_stop_def Let_def split: if_splits)
  then show "st' = st" and "pr_evidence_ids d \<noteq> []" and "is_missing_requirement_ids st = []"
    and "conflicting (evidence_rows (wd_env W) st s) = []" and "budget_stop (wd_settings W) now st = None"
    using e by simp_all
qed


end
