(* ===== verification/AgentHandler.thy ===== *)
theory AgentHandler
  imports EngineRuns Finalize
begin

text \<open>
  The delivery of an investigation job: \<open>AgentInvestigationJobHandler\<close> of
  \<open>evistream/application/job_handlers.py\<close> and the executor of \<open>evistream/application/dispatcher.py\<close>,
  over the claim, the engine and the terminal transitions. The section on recovery shows what the
  handler makes of a crash and of a failing provider.
\<close>

section \<open>The handler\<close>

fun str_model_error :: "ModelErrorCode \<Rightarrow> string" where
  "str_model_error ME_TIMEOUT = ''MODEL_TIMEOUT''"
| "str_model_error ME_RATE_LIMITED = ''MODEL_RATE_LIMITED''"
| "str_model_error ME_OUTPUT_INVALID = ''MODEL_OUTPUT_INVALID''"
| "str_model_error ME_UNAVAILABLE = ''MODEL_UNAVAILABLE''"

text \<open>
  The two \<open>except\<close> clauses: what an exception does to the run, and the exception that leaves the
  handler. An exception that \<open>defer_retry\<close> raises itself is not caught again.
\<close>

definition agent_job_error ::
    "Settings \<Rightarrow> time \<Rightarrow> string \<Rightarrow> bool \<Rightarrow> exn \<Rightarrow> db \<Rightarrow> exn \<times> db" where
  "agent_job_error C now run_id claimed e s = (case e of
     ModelError code retryable \<Rightarrow>
       if claimed \<and> retryable
       then (case defer_retry C now run_id (str_model_error code) s of
               (Inl e', s') \<Rightarrow> (e', s') | (Inr _, s') \<Rightarrow> (JobHandlerError (str_model_error code) retryable, s'))
       else (JobHandlerError (str_model_error code) retryable, s)
   | AgentRuntimeError code \<Rightarrow>
       (JobHandlerError code False,
        if claimed \<and> code \<noteq> ''AGENT_STATE_CONFLICT'' then fail now run_id code s else s)
   | _ \<Rightarrow> (e, s))"

text \<open>
  \<open>handle\<close>: \<open>now\<close> is the time of the claim, \<open>late\<close> that of a failure. None is the engine without
  enough fuel.
\<close>

definition handle_agent ::
    "nat \<Rightarrow> world \<Rightarrow> time \<Rightarrow> time \<Rightarrow> JobRequest \<Rightarrow> db \<Rightarrow> (InvestigationResult res \<times> db) option" where
  "handle_agent fuel W now late q s =
    (if jq_job_type q \<noteq> ''AGENT_INVESTIGATION'' then Some (Inl (JobHandlerError ''JOB_INVALID'' False), s)
     else (case dict_get ''run_id'' (jq_payload q) of
       Some (JStr run_id) \<Rightarrow>
         (case claim (wd_settings W) now q s of
            (Inl e, s1) \<Rightarrow> (case agent_job_error (wd_settings W) late run_id False e s1 of (e', s2) \<Rightarrow> Some (Inl e', s2))
          | (Inr (Finished r), s1) \<Rightarrow> Some (Inr r, s1)
          | (Inr (Working st), s1) \<Rightarrow>
            (case run_engine fuel W (jq_correlation_id q) st s1 of
               None \<Rightarrow> None
             | Some (Inr r, s2) \<Rightarrow> Some (Inr r, s2)
             | Some (Inl e, s2) \<Rightarrow>
                 (case agent_job_error (wd_settings W) late run_id True e s2 of (e', s3) \<Rightarrow> Some (Inl e', s3))))
     | _ \<Rightarrow> Some (Inl (JobHandlerError ''AGENT_CHECKPOINT_INVALID'' False), s)))"

section \<open>The inline executor\<close>

record 'a JobExecution =
  jx_job_id :: string
  jx_job_type :: string
  jx_status :: JobStatus
  jx_result :: "'a option"
  jx_error_code :: "string option"

type_synonym 'a handler = "JobRequest \<Rightarrow> db \<Rightarrow> ('a res \<times> db) option"

text \<open>\<open>HandlerRegistry\<close>: a type is registered once and must not be empty.\<close>

definition register_handler :: "string \<Rightarrow> 'a handler \<Rightarrow> (string \<rightharpoonup> 'a handler) \<Rightarrow> (string \<rightharpoonup> 'a handler) res" where
  "register_handler job_type h m = (if job_type = [] \<or> m job_type \<noteq> None then Inl ValueError else Inr (m(job_type \<mapsto> h)))"

definition get_handler :: "string \<Rightarrow> (string \<rightharpoonup> 'a handler) \<Rightarrow> 'a handler res" where
  "get_handler job_type m = (case m job_type of None \<Rightarrow> Inl LookupErr | Some h \<Rightarrow> Inr h)"

definition execution :: "JobRequest \<Rightarrow> 'a res \<Rightarrow> 'a JobExecution" where
  "execution q r = (case r of
     Inr x \<Rightarrow> \<lparr> jx_job_id = jq_job_id q, jx_job_type = jq_job_type q, jx_status = JS_SUCCEEDED,
       jx_result = Some x, jx_error_code = None \<rparr>
   | Inl e \<Rightarrow> \<lparr> jx_job_id = jq_job_id q, jx_job_type = jq_job_type q, jx_status = JS_FAILED, jx_result = None,
       jx_error_code = Some (case e of
           JobHandlerError code _ \<Rightarrow> code
         | LookupErr \<Rightarrow> ''JOB_INVALID'' | KeyErr \<Rightarrow> ''JOB_INVALID'' | ValueError \<Rightarrow> ''JOB_INVALID''
         | _ \<Rightarrow> ''INTERNAL_ERROR'') \<rparr>)"

definition dispatch_inline :: "(string \<rightharpoonup> 'a handler) \<Rightarrow> JobRequest \<Rightarrow> db \<Rightarrow> ('a JobExecution \<times> db) option" where
  "dispatch_inline m q s = (case get_handler (jq_job_type q) m of
     Inl e \<Rightarrow> Some (execution q (Inl e), s)
   | Inr h \<Rightarrow> map_option (\<lambda>(r, s'). (execution q r, s')) (h q s))"

section \<open>The composition with governance\<close>

text \<open>
  \<open>RuntimeFactory.execute\<close> for an investigation: a job that succeeds is evaluated at once. An
  exception of the evaluation leaves the factory.
\<close>

definition execute_agent_job ::
    "env \<Rightarrow> (string \<rightharpoonup> InvestigationResult handler) \<Rightarrow> time \<Rightarrow> string \<Rightarrow> JobRequest \<Rightarrow> db
       \<Rightarrow> (InvestigationResult JobExecution res \<times> db) option" where
  "execute_agent_job E m now hex q s = (case dispatch_inline m q s of
     None \<Rightarrow> None
   | Some (x, s1) \<Rightarrow>
     (if jx_status x \<noteq> JS_SUCCEEDED then Some (Inr x, s1)
      else (case dict_get ''case_id'' (jq_payload q) of
        Some (JStr case_id) \<Rightarrow> (case finalize_case E now hex case_id None False Map.empty s1 of
            (Inl e, s2) \<Rightarrow> Some (Inl e, s2) | (Inr _, s2) \<Rightarrow> Some (Inr x, s2))
      | _ \<Rightarrow> Some (Inl KeyErr, s1))))"

section \<open>The planner's call\<close>

definition planning :: "InvestigationState \<Rightarrow> InvestigationState" where
  "planning st = st\<lparr>is_iteration := is_iteration st + 1\<rparr>"

definition plan_request :: "world \<Rightarrow> InvestigationState \<Rightarrow> int \<Rightarrow> ModelRequest" where
  "plan_request W st duration = model_request W (planning st) N_PLAN MR_AGENT ''PlanOutput'' (plan_prompt (planning st) duration) []"

definition plan_key :: "world \<Rightarrow> InvestigationState \<Rightarrow> int \<Rightarrow> string \<times> json" where
  "plan_key W st duration = audited_request_key (wd_env W) (plan_request W st duration) (is_run_id st) ''PLAN'' (is_state_version st)"

text \<open>A claim changes nothing the planner's prompt is made of.\<close>

lemma plan_key_claim:
  assumes "wd_env W2 = wd_env W" and "wd_schema_text W2 = wd_schema_text W"
  shows "plan_key W2 (claim_state now st) duration = plan_key W st duration"
  by (simp add: plan_key_def plan_request_def planning_def claim_state_def model_request_def plan_prompt_def
      audited_request_key_def request_summary_def assms)

lemma plan_node_raises:
  assumes "video_duration (is_case_id st) s = Inr duration"
    and "generate_audited (wd_env W) (audit_context W (planning st) N_PLAN MR_AGENT) (wd_gateway W MR_AGENT (is_state_version st))
           (\<lambda>i. wd_clock W (is_state_version st) (1 + i)) (wd_hex W (is_state_version st) 1) (plan_request W st duration) s = (Inl e, s1)"
  shows "plan_node W st s = (Raised (planning st) e, s1)"
  using assms by (simp add: plan_node_def generate_for_def planning_def plan_request_def Let_def)

lemma plan_audit [simp]:
  "au_run_id (audit_context W (planning st) N_PLAN MR_AGENT) = is_run_id st"
  "au_node (audit_context W (planning st) N_PLAN MR_AGENT) = ''PLAN''"
  "au_state_version (audit_context W (planning st) N_PLAN MR_AGENT) = is_state_version st"
  "au_lease_seconds (audit_context W (planning st) N_PLAN MR_AGENT) = cfg_agent_job_lease_seconds (wd_settings W)"
  by (simp_all add: audit_context_def planning_def)

lemma planning_control [simp]:
  "is_run_id (planning st) = is_run_id st" "is_job_id (planning st) = is_job_id st" "is_case_id (planning st) = is_case_id st"
  "is_state_version (planning st) = is_state_version st" "is_next_node (planning st) = is_next_node st"
  by (simp_all add: planning_def)

lemma claim_state_control [simp]:
  "is_run_id (claim_state now st) = is_run_id st" "is_job_id (claim_state now st) = is_job_id st"
  "is_case_id (claim_state now st) = is_case_id st" "is_state_version (claim_state now st) = is_state_version st"
  "is_next_node (claim_state now st) = is_next_node st"
  by (simp_all add: claim_state_def)

lemma plan_node_failed:
  assumes "video_duration (is_case_id st) s = Inr duration" and "plan_key W st duration = (key, summary)"
    and "find_call (is_run_id st) key s = Some m" and "ml_status m = MC_FAILED"
  shows "plan_node W st s = (Raised (planning st) (ModelError (model_error_code (ml_error_code m)) False), s)"
  by (rule plan_node_raises [OF assms(1)], rule failed_call_final [OF _ assms(4)])
     (use assms(2,3) in \<open>simp_all add: plan_key_def\<close>)

lemma plan_node_leased:
  assumes "video_duration (is_case_id st) s = Inr duration" and "plan_key W st duration = (key, summary)"
    and "find_call (is_run_id st) key s = Some m" and "call_open m" and "call_leased m (wd_clock W (is_state_version st) 1)"
  shows "plan_node W st s = (Raised (planning st) (AgentRuntimeError ''AGENT_RUN_ALREADY_RUNNING''), s)"
proof (rule plan_node_raises [OF assms(1)])
  let ?A = "audit_context W (planning st) N_PLAN MR_AGENT"
  have k: "audited_request_key (wd_env W) (plan_request W st duration) (au_run_id ?A) (au_node ?A) (au_state_version ?A) = (key, summary)"
    using assms(2) by (simp add: plan_key_def)
  have "claim_call ?A (wd_clock W (is_state_version st) 1) (wd_hex W (is_state_version st) 1) key summary
      (mq_role (plan_request W st duration)) s = (Inl (AgentRuntimeError ''AGENT_RUN_ALREADY_RUNNING''), s)"
    by (rule claim_call_refused [OF _ assms(4,5)]) (simp add: assms(3))
  then show "generate_audited (wd_env W) ?A (wd_gateway W MR_AGENT (is_state_version st))
           (\<lambda>i. wd_clock W (is_state_version st) (1 + i)) (wd_hex W (is_state_version st) 1) (plan_request W st duration) s
      = (Inl (AgentRuntimeError ''AGENT_RUN_ALREADY_RUNNING''), s)"
    by (simp add: generate_audited_def k del: plan_audit)
qed


section \<open>Recovery\<close>

text \<open>A claim succeeds when nothing holds the run and the case is open.\<close>

lemma claim_grants:
  assumes "t_get jb_id (jq_job_id q) (db_jobs s) = Some job" and "payload_run q s = Some run" and "request_matches q job run"
    and "rn_status run = IS_PENDING \<or> rn_status run = IS_RUNNING" and "\<not> lease_active (rn_lease_until run) now"
    and "jb_status job \<in> {JS_PENDING, JS_RUNNING, JS_RETRY_WAIT}" and "\<not> lease_active (jb_lease_until job) now"
    and "t_get ca_id (rn_case_id run) (db_cases s) = Some c" and "ca_status c \<in> {CS_READY, CS_INVESTIGATING}"
    and "rn_state_snapshot run = Some snapshot"
  shows "claim C now q s = (Inr (Working (claim_state now snapshot)),
      update_case (ca_id c) (\<lambda>x. x\<lparr>ca_status := CS_INVESTIGATING, ca_updated_at := now\<rparr>)
        (update_run (rn_id run) (claim_run now (now + seconds (cfg_agent_job_lease_seconds C)) (claim_state now snapshot))
        (update_job (jb_id job) (claim_job now (now + seconds (cfg_agent_job_lease_seconds C))) s)))"
  using assms by (auto simp: claim_def run_session_def claim_body_def terminal_status_def Let_def)

lemma claim_working_snapshot:
  assumes "claim C now q s = (Inr (Working st), s')" and "now + seconds (cfg_agent_job_lease_seconds C) \<le> now2"
    and "db_jobs s2 = db_jobs s'" and "db_runs s2 = db_runs s'" and "db_cases s2 = db_cases s'"
  obtains job run c where "t_get jb_id (jq_job_id q) (db_jobs s2) = Some job" and "payload_run q s2 = Some run"
    and "request_matches q job run" and "rn_status run = IS_RUNNING" and "\<not> lease_active (rn_lease_until run) now2"
    and "jb_status job = JS_RUNNING" and "\<not> lease_active (jb_lease_until job) now2"
    and "t_get ca_id (rn_case_id run) (db_cases s2) = Some c" and "ca_status c = CS_INVESTIGATING"
    and "rn_state_snapshot run = Some st"
proof -
  let ?l = "now + seconds (cfg_agent_job_lease_seconds C)"
  from assms(1) obtain j1 run and c :: CaseRecord where j1: "t_get jb_id (jq_job_id q) (db_jobs s) = Some j1" and run: "payload_run q s = Some run"
    and m: "request_matches q j1 run" and c: "t_get ca_id (rn_case_id run) (db_cases s) = Some c"
    and s': "s' = update_case (ca_id c) (\<lambda>x. x\<lparr>ca_status := CS_INVESTIGATING, ca_updated_at := now\<rparr>)
           (update_run (rn_id run) (claim_run now ?l st) (update_job (jb_id j1) (claim_job now ?l) s))"
    by (rule claim_working) (rule that; assumption)
  have jid: "jb_id j1 = jq_job_id q" using t_get_Some [OF j1] by simp
  have cid: "ca_id c = rn_case_id run" using t_get_Some [OF c] by simp
  have a: "t_get jb_id (jq_job_id q) (db_jobs s2) = Some (claim_job now ?l j1)"
    using j1 jid by (simp add: assms(3) s' t_get_upd)
  have b: "payload_run q s2 = Some (claim_run now ?l st run)"
    using payload_run_update [of "claim_run now ?l st" s2 "rn_id run" s q] run by (simp add: assms(4) s')
  have d: "request_matches q (claim_job now ?l j1) (claim_run now ?l st run)"
    using m by (simp add: request_matches_def claim_job_def claim_run_def)
  have e: "t_get ca_id (rn_case_id (claim_run now ?l st run)) (db_cases s2)
      = Some (c\<lparr>ca_status := CS_INVESTIGATING, ca_updated_at := now\<rparr>)"
    using c cid by (simp add: assms(5) s' t_get_upd claim_run_def)
  show thesis
    by (rule that [OF a b d _ _ _ _ e]) (use assms(2) in \<open>simp_all add: claim_run_def claim_job_def lease_active_def\<close>)
qed

lemma video_duration_update_case:
  assumes "\<And>c. ca_id (f c) = ca_id c" and "\<And>c. ca_video_id (f c) = ca_video_id c"
  shows "video_duration case_id (update_case i f s) = video_duration case_id s"
  using assms by (auto simp: video_duration_def video_of_case_def update_case_def t_get_upd split: option.splits)

lemma video_duration_cong:
  "db_cases s' = db_cases s \<Longrightarrow> db_videos s' = db_videos s \<Longrightarrow> video_duration case_id s' = video_duration case_id s"
  by (simp add: video_duration_def video_of_case_def cong: option.case_cong)

lemma claim_keeps:
  assumes "claim C now q s = (Inr (Working st), s')"
  shows "db_calls s' = db_calls s" and "video_duration case_id s' = video_duration case_id s"
proof -
  obtain run :: AgentRunRecord and job :: ProcessingJobRecord and c :: CaseRecord where s': "s' = update_case (ca_id c) (\<lambda>x. x\<lparr>ca_status := CS_INVESTIGATING, ca_updated_at := now\<rparr>)
           (update_run (rn_id run) (claim_run now (now + seconds (cfg_agent_job_lease_seconds C)) st)
           (update_job (jb_id job) (claim_job now (now + seconds (cfg_agent_job_lease_seconds C))) s))"
    using assms by (rule claim_working) (rule that; assumption)
  show "db_calls s' = db_calls s" by (simp add: s')
  let ?X = "update_run (rn_id run) (claim_run now (now + seconds (cfg_agent_job_lease_seconds C)) st)
           (update_job (jb_id job) (claim_job now (now + seconds (cfg_agent_job_lease_seconds C))) s)"
  have "video_duration case_id s' = video_duration case_id ?X"
    unfolding s' by (rule video_duration_update_case) simp_all
  also have "\<dots> = video_duration case_id s"
    by (rule video_duration_cong) (simp_all add: update_run_def update_job_def)
  finally show "video_duration case_id s' = video_duration case_id s" .
qed

lemma failed_run_refused:
  assumes "payload_run q s = Some run" and "rn_status run = IS_FAILED" and "same_run q q'"
  shows "\<exists>e. claim C t q' s = (Inl e, s)"
proof -
  have "payload_run q' s = Some run" using payload_run_same [OF assms(3)] assms(1) by simp
  then have "\<exists>e. claim_body C t q' s = Inl e"
    using assms(2) by (auto simp: claim_body_def terminal_status_def split: option.splits)
  then show ?thesis by (auto simp: claim_def run_session_def)
qed

lemma fail_run_row:
  assumes "t_get rn_id run_id (db_runs s) = Some run"
  shows "t_get rn_id run_id (db_runs (fail now run_id code s)) = Some (fail_run now code run)"
  using assms by (simp add: fail_def t_get_upd split: option.splits)

text \<open>
  A finding. Recovery that comes early kills the run. An executor claims a run, asks the planner's
  model and dies; the lease of the run is over before the lease of the model call, which was taken
  later. A second delivery of the job in between claims the run, finds the model call leased, and
  fails run and job for good: no later claim is ever accepted.
\<close>

theorem early_recovery_fails_run:
  assumes "claim (wd_settings W) t0 q s = (Inr (Working st), s1)"
    and "is_next_node st = Some N_PLAN" and "video_duration (is_case_id st) s1 = Inr duration"
    and "plan_key W st duration = (key, summary)"
    and "claim_call (audit_context W (planning st) N_PLAN MR_AGENT) t1 hex key summary MR_AGENT s1 = (Inr (call_id, None), s2)"
    and "jq_job_type q = ''AGENT_INVESTIGATION''"
    and "wd_env W2 = wd_env W" and "wd_schema_text W2 = wd_schema_text W" and "wd_settings W2 = wd_settings W"
    and "t0 + seconds (cfg_agent_job_lease_seconds (wd_settings W)) \<le> now"
    and "budget_stop (wd_settings W) (wd_clock W2 (is_state_version st) 0) (claim_state now st) = None"
    and "wd_clock W2 (is_state_version st) 1 < t1 + seconds (cfg_agent_job_lease_seconds (wd_settings W))"
  shows "\<exists>s3 run. handle_agent (Suc fuel) W2 now late q s2 = Some (Inl (JobHandlerError ''AGENT_RUN_ALREADY_RUNNING'' False), s3)
    \<and> payload_run q s3 = Some run \<and> rn_status run = IS_FAILED
    \<and> (\<forall>t q'. same_run q q' \<longrightarrow> (\<exists>e. claim (wd_settings W) t q' s3 = (Inl e, s3)))"
proof -
  let ?C = "wd_settings W" and ?A = "audit_context W (planning st) N_PLAN MR_AGENT" and ?st = "claim_state now st"
  let ?L = "cfg_agent_job_lease_seconds ?C" and ?e = "AgentRuntimeError ''AGENT_RUN_ALREADY_RUNNING''"
  obtain cs where s2: "s2 = s1\<lparr>db_calls := cs\<rparr>" using claim_call_calls [OF assms(5)] by blast
  have same: "db_jobs s2 = db_jobs s1" "db_runs s2 = db_runs s1" "db_cases s2 = db_cases s1" by (simp_all add: s2)
  obtain job :: ProcessingJobRecord and run :: AgentRunRecord and c :: CaseRecord
    where j: "t_get jb_id (jq_job_id q) (db_jobs s2) = Some job" and r: "payload_run q s2 = Some run" and m: "request_matches q job run"
      and rs: "rn_status run = IS_RUNNING" "\<not> lease_active (rn_lease_until run) now"
      and js: "jb_status job = JS_RUNNING" "\<not> lease_active (jb_lease_until job) now"
      and c: "t_get ca_id (rn_case_id run) (db_cases s2) = Some c" "ca_status c = CS_INVESTIGATING"
      and snap: "rn_state_snapshot run = Some st"
    by (rule claim_working_snapshot [OF assms(1,10) same]) (rule that; assumption)
  obtain s3 where cl: "claim ?C now q s2 = (Inr (Working ?st), s3)"
    using claim_grants [OF j r m _ rs(2) _ js(2) c(1) _ snap, of ?C] rs js c by simp
  obtain run' where run': "payload_run q s3 = Some run'"
    by (rule claim_working_snapshot [OF cl order_refl refl refl refl]) (rule that; assumption)
  obtain run_id where pid: "dict_get ''run_id'' (jq_payload q) = Some (JStr run_id)" and g3: "t_get rn_id run_id (db_runs s3) = Some run'"
    using run' by (auto simp: payload_run_def split: option.splits json.splits)
  have take: "take_call ?L (?A, hex, key, summary, MR_AGENT) t1 s1 = (Inr (call_id, None), s2)"
    using assms(5) by (simp add: audit_context_def)
  have "call_held (?A, hex, key, summary, MR_AGENT) s2 (wd_clock W2 (is_state_version st) 1)"
    by (rule call_lease.grants [OF take]) (use assms(12) in simp_all)
  then obtain call where call: "find_call (is_run_id st) key s2 = Some call" "call_open call"
      "call_leased call (wd_clock W2 (is_state_version st) 1)" by auto
  note k = claim_keeps [OF cl]
  have "video_duration (is_case_id ?st) s3 = Inr duration"
    using k(2) [of "is_case_id st"] assms(3) video_duration_cong [of s2 s1 "is_case_id st"] by (simp add: s2)
  moreover have "plan_key W2 ?st duration = (key, summary)" using plan_key_claim [OF assms(7,8)] assms(4) by simp
  moreover have "find_call (is_run_id ?st) key s3 = Some call" using call(1) find_call_cong [OF k(1)] by simp
  ultimately have p: "plan_node W2 ?st s3 = (Raised (planning ?st) ?e, s3)"
    using call(2,3) by (intro plan_node_leased) simp_all
  have "run_engine (Suc fuel) W2 (jq_correlation_id q) ?st s3 = Some (Inl ?e, s3)"
    using p assms(2,9,11) by simp
  then have h: "handle_agent (Suc fuel) W2 now late q s2 = Some (Inl (JobHandlerError ''AGENT_RUN_ALREADY_RUNNING'' False),
      fail late run_id ''AGENT_RUN_ALREADY_RUNNING'' s3)"
    using cl pid assms(6,9) by (simp add: handle_agent_def agent_job_error_def)
  let ?s4 = "fail late run_id ''AGENT_RUN_ALREADY_RUNNING'' s3"
  have f: "payload_run q ?s4 = Some (fail_run late ''AGENT_RUN_ALREADY_RUNNING'' run')"
    using fail_run_row [OF g3] pid by (simp add: payload_run_def)
  have st: "rn_status (fail_run late ''AGENT_RUN_ALREADY_RUNNING'' run') = IS_FAILED" by (simp add: fail_run_def)
  show ?thesis using h f st failed_run_refused [OF f st] by blast
qed

lemma force_review_completes:
  assumes "t_get rn_id (is_run_id st) (db_runs s) = Some run" and "rn_state_version run = is_state_version st"
    and "t_get jb_id (is_job_id st) (db_jobs s) = Some job" and "t_get ca_id (is_case_id st) (db_cases s) = Some c"
  shows "\<exists>r s'. force_review W st reason s = (Inr r, s') \<and> ires_status r = IS_NEEDS_HUMAN_REVIEW \<and> db_calls s' = db_calls s"
  using assms by (simp add: force_review_def complete_def complete_body_def run_session_def Let_def result_of_def
      complete_status_def review_decision_def)

text \<open>A state that was claimed through a request names its run, job and case.\<close>

definition addresses :: "JobRequest \<Rightarrow> InvestigationState \<Rightarrow> bool" where
  "addresses q st \<longleftrightarrow> dict_get ''run_id'' (jq_payload q) = Some (JStr (is_run_id st)) \<and> is_job_id st = jq_job_id q
     \<and> dict_get ''case_id'' (jq_payload q) = Some (JStr (is_case_id st))"

lemma defer_retry_keeps_calls: "defer_retry C now i code s = (Inr u', s') \<Longrightarrow> db_calls s' = db_calls s \<and> db_videos s' = db_videos s"
  by (auto simp: defer_retry_def run_session_def defer_retry_body_def update_run_def update_job_def update_case_def
      split: sum.splits option.splits if_splits)

text \<open>
  C23. A finding. The retry of a failed model call never reaches the model. When the planner's call
  fails with an error the provider calls retryable, the job is deferred; but the failure is the
  recorded answer of the call, so the next attempt, whenever it is made and whatever the provider
  would say now, asks no model and ends the investigation with NEEDS_HUMAN_REVIEW.
\<close>

theorem retry_never_reaches_model:
  assumes "claim (wd_settings W) t0 q s0 = (Inr (Working st), s1)" and "addresses q st"
    and "is_next_node st = Some N_PLAN" and "video_duration (is_case_id st) s1 = Inr duration"
    and "generate_audited (wd_env W) (audit_context W (planning st) N_PLAN MR_AGENT) gw clock hex (plan_request W st duration) s1
           = (Inl (ModelError code True), s2)"
    and "defer_retry (wd_settings W) late (is_run_id st) (str_model_error code) s2 = (Inr (), s3)"
    and "payload_run q s3 = Some run" and "rn_status run = IS_PENDING" and "rn_state_version run = is_state_version st"
    and "jq_job_type q = ''AGENT_INVESTIGATION''"
    and "wd_env W2 = wd_env W" and "wd_schema_text W2 = wd_schema_text W" and "wd_settings W2 = wd_settings W"
  shows "\<exists>r s4. handle_agent (Suc fuel) W2 now late2 q s3 = Some (Inr r, s4) \<and> ires_status r = IS_NEEDS_HUMAN_REVIEW
    \<and> db_calls s4 = db_calls s3"
proof -
  let ?C = "wd_settings W" and ?A = "audit_context W (planning st) N_PLAN MR_AGENT" and ?st = "claim_state now st"
  obtain key summary where key: "plan_key W st duration = (key, summary)" by (cases "plan_key W st duration")
  obtain m where m: "find_call (is_run_id st) key s2 = Some m" "ml_status m = MC_FAILED"
    using failed_call_recorded [OF assms(5), of key summary] key by (auto simp: plan_key_def)
  obtain cs where s2: "s2 = s1\<lparr>db_calls := cs\<rparr>" using generate_calls [OF assms(5)] by blast
  have same: "db_jobs s2 = db_jobs s1" "db_runs s2 = db_runs s1" "db_cases s2 = db_cases s1" by (simp_all add: s2)
  obtain job :: ProcessingJobRecord and run2 :: AgentRunRecord and c :: CaseRecord
    where j: "t_get jb_id (jq_job_id q) (db_jobs s2) = Some job" and r: "payload_run q s2 = Some run2"
      and mt: "request_matches q job run2"
      and c: "t_get ca_id (rn_case_id run2) (db_cases s2) = Some c" "ca_status c = CS_INVESTIGATING"
      and snap: "rn_state_snapshot run2 = Some st"
    by (rule claim_working_snapshot [OF assms(1) order_refl same]) (rule that; assumption)
  have g2: "t_get rn_id (is_run_id st) (db_runs s2) = Some run2" using r assms(2) by (simp add: payload_run_def addresses_def)
  have rj: "rn_job_id run2 = Some (jq_job_id q)" using mt t_get_Some [OF j] by (simp add: request_matches_def)
  have cid: "rn_case_id run2 = is_case_id st" using mt assms(2) by (auto simp: request_matches_def addresses_def)
  let ?run = "run2\<lparr>rn_status := IS_PENDING, rn_lease_until := None, rn_stop_reason := Some (str_model_error code), rn_updated_at := late\<rparr>"
  have "payload_run q s3 = t_get rn_id (is_run_id st) (db_runs s3)" using assms(2) by (simp add: payload_run_def addresses_def)
  note p3 = this
  have s3: "payload_run q s3 = Some ?run \<and> db_cases s3 = db_cases s2 \<and> (\<exists>j3. t_get jb_id (jq_job_id q) (db_jobs s3) = Some j3
      \<and> request_matches q j3 ?run \<and> jb_status j3 = JS_RETRY_WAIT \<and> jb_lease_until j3 = None)"
    using assms(6)
  proof (cases rule: defer_retry_Inr)
    case (waiting run' j')
    then have "run' = run2" "j' = jq_job_id q" using g2 rj by auto
    then show ?thesis using waiting g2 j mt unfolding p3 by (auto simp: t_get_upd request_matches_def)
  next
    case (exhausted run')
    then have "rn_status run = IS_FAILED" using g2 assms(7) unfolding p3 by (auto simp: t_get_upd fail_run_def)
    then show ?thesis using assms(8) by simp
  qed
  then obtain j3 where j3: "t_get jb_id (jq_job_id q) (db_jobs s3) = Some j3" "request_matches q j3 ?run"
    "jb_status j3 = JS_RETRY_WAIT" "jb_lease_until j3 = None" by blast
  have cl: "claim ?C now q s3 = (Inr (Working ?st),
      update_case (ca_id c) (\<lambda>x. x\<lparr>ca_status := CS_INVESTIGATING, ca_updated_at := now\<rparr>)
        (update_run (rn_id ?run) (claim_run now (now + seconds (cfg_agent_job_lease_seconds ?C)) ?st)
        (update_job (jb_id j3) (claim_job now (now + seconds (cfg_agent_job_lease_seconds ?C))) s3)))"
    (is "_ = (_, ?s4)")
    by (rule claim_grants [OF j3(1) _ j3(2)]) (use s3 j3 c snap in \<open>simp_all add: lease_active_def\<close>)
  note k = claim_keeps [OF cl]
  have calls: "db_calls ?s4 = db_calls s2" using k(1) defer_retry_keeps_calls [OF assms(6)] by simp
  have dur: "video_duration (is_case_id ?st) ?s4 = Inr duration"
  proof -
    have "video_duration (is_case_id st) s3 = video_duration (is_case_id st) s1"
      by (rule video_duration_cong) (use s3 same(3) defer_retry_keeps_calls [OF assms(6)] in \<open>simp_all add: s2\<close>)
    then show ?thesis using k(2) [of "is_case_id st"] assms(4) by simp
  qed
  have pn: "plan_node W2 ?st ?s4 = (Raised (planning ?st) (ModelError (model_error_code (ml_error_code m)) False), ?s4)"
    using plan_key_claim [OF assms(11,12)] key m find_call_cong [OF calls]
    by (intro plan_node_failed [OF dur]) simp_all
  obtain st' reason where st': "run_engine (Suc fuel) W2 (jq_correlation_id q) ?st ?s4 = Some (force_review W2 st' reason ?s4)"
      "is_run_id st' = is_run_id st" "is_job_id st' = is_job_id st" "is_case_id st' = is_case_id st"
      "is_state_version st' = is_state_version st"
  proof (cases "budget_stop (wd_settings W2) (wd_clock W2 (is_state_version ?st) 0) ?st")
    case None
    show ?thesis by (rule that [of "planning ?st" "''AGENT_MODEL_FAILED''"]) (use assms(3) None pn in simp_all)
  next
    case (Some forced)
    show ?thesis by (rule that [of ?st forced]) (use assms(3) Some in simp_all)
  qed
  have rid: "rn_id ?run = is_run_id st" using t_get_Some [OF g2] by simp
  let ?run4 = "claim_run now (now + seconds (cfg_agent_job_lease_seconds ?C)) ?st ?run"
  have g4: "t_get rn_id (is_run_id st') (db_runs ?s4) = Some ?run4"
    using s3 rid st'(2) unfolding p3 by (simp add: t_get_upd)
  have v4: "rn_state_version ?run4 = is_state_version st'" using s3 assms(7,9) st'(5) by (simp add: claim_run_def)
  obtain j4 where j4: "t_get jb_id (is_job_id st') (db_jobs ?s4) = Some j4"
    using j3(1) t_get_Some [OF j3(1)] assms(2) st'(3) by (simp add: t_get_upd addresses_def)
  obtain c4 where c4: "t_get ca_id (is_case_id st') (db_cases ?s4) = Some c4"
    using c(1) t_get_Some [OF c(1)] s3 cid st'(4) by (simp add: t_get_upd)
  obtain res s5 where fr: "force_review W2 st' reason ?s4 = (Inr res, s5)" "ires_status res = IS_NEEDS_HUMAN_REVIEW"
    "db_calls s5 = db_calls ?s4" using force_review_completes [OF g4 v4 j4 c4, of W2 reason] by blast
  have "handle_agent (Suc fuel) W2 now late2 q s3 = Some (Inr res, s5)"
    using cl st'(1) fr(1) assms(2,10,13) by (simp add: handle_agent_def addresses_def)
  then show ?thesis using fr k(1) by simp
qed


section \<open>The last round\<close>

lemma force_review_status: "force_review W st reason s = (Inr r, s') \<Longrightarrow> ires_status r = IS_NEEDS_HUMAN_REVIEW"
  unfolding force_review_def by (erule complete_Inr)
    (simp add: result_of_def complete_status_def review_decision_def)

text \<open>
  A finding. The last round the settings allow cannot end in a conclusion. Once a run is in that
  round, or about to plan it, whatever result it returns is NEEDS_HUMAN_REVIEW: the iteration budget is
  tested before DECIDE as well. With one allowed round no investigation is ever conclusive.
\<close>

theorem last_round_never_decides:
  assumes "run_engine fuel W corr st s = Some (Inr r, s')"
    and "cfg_agent_max_iterations (wd_settings W) \<le> is_iteration st + (if is_next_node st = Some N_PLAN then 1 else 0)"
  shows "ires_status r = IS_NEEDS_HUMAN_REVIEW"
  using assms
proof (induction fuel arbitrary: st s)
  case 0
  then show ?case by simp
next
  case (Suc fuel)
  note run = Suc.prems(1) and last = Suc.prems(2)
  show ?case
  proof (cases "is_next_node st")
    case None
    then show ?thesis using run by simp
  next
    case node: (Some node)
    show ?thesis
    proof (cases "budget_stop (wd_settings W) (wd_clock W (is_state_version st) 0) st")
      case (Some forced)
      then show ?thesis using run node force_review_status by simp
    next
      case None
      obtain x s1 where x: "run_node W corr node st s = (x, s1)" by (cases "run_node W corr node st s")
      show ?thesis
      proof (cases x)
        case (Advanced st')
        note a = run_node_Advanced [OF x [unfolded Advanced]]
        have "cfg_agent_max_iterations (wd_settings W) \<le> is_iteration st'" using a(2,4) last by (auto split: if_splits)
        then show ?thesis using run node None x Advanced by (intro Suc.IH [of st' s1]) simp_all
      next
        case (Decided q)
        have "node = N_DECIDE" using x unfolding Decided by (cases rule: run_node_ends) simp_all
        then show ?thesis using None node last budget_stop_None(5) [OF None] by simp
      next
        case (Raised st' e)
        then have "force_review W st' ''AGENT_MODEL_FAILED'' s1 = (Inr r, s')"
          using run node None x by (cases e) (auto split: if_splits)
        then show ?thesis by (rule force_review_status)
      qed
    qed
  qed
qed

end
