(* ===== verification/EngineDemo.thy ===== *)
theory EngineDemo
  imports AgentHandler
begin

text \<open>
  Worked runs of the engine: a verification that records one piece of evidence before the time budget
  ends the run, and a decision that stands. They instantiate the theorems about whole runs.
\<close>

section \<open>A provider that answers\<close>

lemma claim_fresh:
  assumes "\<forall>m\<in>set (db_calls s). ml_run_id m \<noteq> Some (au_run_id A)" and "t_get ml_id (''mcall_'' @ hex) (db_calls s) = None"
  shows "claim_call A now hex key summary role s
    = (Inr (''mcall_'' @ hex, None), s\<lparr>db_calls := db_calls s @ [new_call A now (''mcall_'' @ hex) key summary role]\<rparr>)"
proof -
  have f: "find_call (au_run_id A) key s = None" using assms(1) by (auto simp: find_call_def find_None_iff)
  show ?thesis
    by (cases rule: claim_call_cases [of A key s hex now summary role]) (use f assms(2) in simp_all)
qed

lemma generate_fresh:
  assumes "\<forall>m\<in>set (db_calls s). ml_run_id m \<noteq> Some (au_run_id A)" and "t_get ml_id (''mcall_'' @ hex) (db_calls s) = None"
    and "gw q = Inr r"
  obtains call where "generate_audited E A gw clock hex q s = (Inr (r, ''mcall_'' @ hex), s\<lparr>db_calls := db_calls s @ [call]\<rparr>)"
    and "ml_id call = ''mcall_'' @ hex" and "ml_case_id call = Some (au_case_id A)" and "ml_status call = MC_SUCCESS"
proof -
  obtain key summary where k: "audited_request_key E q (au_run_id A) (au_node A) (au_state_version A) = (key, summary)"
    by (cases "audited_request_key E q (au_run_id A) (au_node A) (au_state_version A)")
  obtain i where i: "''mcall_'' @ hex = i" by simp
  let ?row = "new_call A (clock 0) i key summary (mq_role q)"
  note c = claim_fresh [OF assms(1,2), of "clock 0" key summary "mq_role q", unfolded i]
  have u: "t_upd ml_id i f (db_calls s @ [?row]) = db_calls s @ [f ?row]" for f
    using assms(2) unfolding i by (auto simp: t_upd_def t_get_None map_idI)
  have g: "t_get ml_id i (db_calls s @ [?row]) = Some ?row"
    using assms(2) unfolding i by (simp add: t_get_def find_append_Cons)
  show ?thesis
    by (rule that [of "succeed_call (clock 1) r ?row"], unfold i)
       (simp_all add: generate_audited_def k c assms(3) finish_success_def g u, simp_all add: succeed_call_def new_call_def)
qed

lemma generate_raises:
  assumes "\<forall>m\<in>set (db_calls s). ml_run_id m \<noteq> Some (au_run_id A)" and "t_get ml_id (''mcall_'' @ hex) (db_calls s) = None"
    and "gw q = Inl (ModelError code retryable)"
  shows "\<exists>cs. generate_audited E A gw clock hex q s = (Inl (ModelError code retryable), s\<lparr>db_calls := cs\<rparr>)
    \<and> length cs = Suc (length (db_calls s))"
proof -
  obtain key summary where k: "audited_request_key E q (au_run_id A) (au_node A) (au_state_version A) = (key, summary)"
    by (cases "audited_request_key E q (au_run_id A) (au_node A) (au_state_version A)")
  obtain i where i: "''mcall_'' @ hex = i" by simp
  note c = claim_fresh [OF assms(1,2), of "clock 0" key summary "mq_role q", unfolded i]
  show ?thesis
    by (rule exI [of _ "t_upd ml_id i (fail_call (clock 1) code) (db_calls s @ [new_call A (clock 0) i key summary (mq_role q)])"])
       (simp add: generate_audited_def k c assms(3) finish_error_def t_upd_def)
qed

section \<open>The demo world\<close>

definition demo_answers :: "ModelData \<Rightarrow> gateway" where
  "demo_answers d = (\<lambda>q. Inr (demo_response\<lparr>mr_data := d\<rparr>))"

definition demo_world :: "gateway \<Rightarrow> (int \<Rightarrow> nat \<Rightarrow> time) \<Rightarrow> world" where
  "demo_world gw clock = \<lparr> wd_env = demo_env, wd_settings = default_settings, wd_nfkc = id,
     wd_registry = demo_registry, wd_gateway = (\<lambda>role v. gw), wd_profile = ''mock'',
     wd_requested_model = (\<lambda>role. ''mock''), wd_schema_text = id, wd_frame = (\<lambda>uri t. Inr None),
     wd_clock = clock, wd_hex = (\<lambda>v n. ''h''), wd_latency = (\<lambda>v n. 1) \<rparr>"

lemma demo_world_simps [simp]:
  "wd_env (demo_world gw clock) = demo_env" "wd_settings (demo_world gw clock) = default_settings"
  "wd_gateway (demo_world gw clock) role v = gw" "wd_clock (demo_world gw clock) = clock"
  "wd_hex (demo_world gw clock) v n = ''h''" "wd_latency (demo_world gw clock) v n = 1"
  "wd_frame (demo_world gw clock) uri t = Inr None" "wd_schema_text (demo_world gw clock) = id"
  by (simp_all add: demo_world_def)

lemma demo_world_tame: "tame_world (demo_world gw clock)"
  by (auto simp: tame_world_def demo_world_def demo_registry_def tame_tool_def split: if_splits)

text \<open>A search of the run that found one frame.\<close>

definition demo_found :: ToolItem where
  "demo_found = \<lparr> ti_source_ref = ''src1'', ti_artifact_id = Some ''a1'', ti_modality = ''vision'',
     ti_start_ms = 0, ti_end_ms = 1000, ti_content = u ''a knife'', ti_score = None \<rparr>"

definition demo_answered :: ToolRunRecord where
  "demo_answered = demo_tool\<lparr>tr_id := ''t9'', tr_run_id := Some ''run_x'', tr_response_payload :=
     Some \<lparr> tl_tool_run_id = ''t9'', tl_request_key = ''q'', tl_status = TR_SUCCESS, tl_items = [demo_found],
       tl_latency_ms = 3, tl_estimated_cost = 0, tl_error_code = None \<rparr>\<rparr>"

definition demo_action :: AgentAction where
  "demo_action = \<lparr> aa_requirement_id = ''r1'', aa_tool_name = ''search_visual_caption'', aa_query = u ''knife'',
     aa_start_ms = None, aa_end_ms = None, aa_limit = 5, aa_rationale = u ''look'' \<rparr>"

text \<open>The run of the demo request, stopped before \<open>node\<close>.\<close>

definition demo_at :: "AgentNode \<Rightarrow> InvestigationState" where
  "demo_at node = (claim_state 110 demo_state)\<lparr>is_next_node := Some node, is_iteration := 1,
     is_pending_action := Some demo_action, is_selected_items := [selected_item ''t9'' ''r1'' demo_found],
     is_evidence_ids := (if node = N_DECIDE then [''e1''] else []),
     is_missing_requirement_ids := (if node = N_DECIDE then [] else [''r1''])\<rparr>"

definition demo_engine_db :: "AgentNode \<Rightarrow> db" where
  "demo_engine_db node = demo_claimed\<lparr>db_tools := [demo_tool, demo_answered],
     db_runs := [claim_run 110 (110 + seconds 120) (demo_at node) (new_agent_run demo_state [] 100)]\<rparr>"

lemma demo_at_simps [simp]:
  "is_run_id (demo_at node) = ''run_x''" "is_job_id (demo_at node) = ''job_y''" "is_case_id (demo_at node) = ''c1''"
  "is_next_node (demo_at node) = Some node" "is_iteration (demo_at node) = 1" "is_vlm_calls (demo_at node) = 0"
  "is_state_version (demo_at node) = 0" "is_deadline_at (demo_at node) = 100 + seconds 300"
  "is_consecutive_tool_failures (demo_at node) = 0" "is_stagnant_iterations (demo_at node) = 0"
  "is_pending_action (demo_at node) = Some demo_action"
  "is_selected_items (demo_at node) = [selected_item ''t9'' ''r1'' demo_found]"
  "is_evidence_ids (demo_at node) = (if node = N_DECIDE then [''e1''] else [])"
  "is_missing_requirement_ids (demo_at node) = (if node = N_DECIDE then [] else [''r1''])"
  "is_requirements (demo_at node) = [requirement_snapshot demo_requirement]"
  by (simp_all add: demo_at_def claim_state_def demo_state_def initial_state_def)

lemma demo_engine_db_simps [simp]:
  "db_steps (demo_engine_db node) = []" "db_calls (demo_engine_db node) = [demo_call]"
  "db_evidence (demo_engine_db node) = demo_evidence" "db_tools (demo_engine_db node) = [demo_tool, demo_answered]"
  "db_runs (demo_engine_db node) = [claim_run 110 (110 + seconds 120) (demo_at node) (new_agent_run demo_state [] 100)]"
  "db_jobs (demo_engine_db node) = [claim_job 110 (110 + seconds 120) (new_agent_job default_settings ''job_y'' ''c1''
       (agent_request_key demo_env demo_case ''mock'' []) ''corr_z'' (job_payload ''run_x'' ''c1'' ''mock'' []) 100)]"
  "db_cases (demo_engine_db node) = [demo_case\<lparr>ca_status := CS_INVESTIGATING, ca_updated_at := 110\<rparr>]"
  by (simp_all add: demo_engine_db_def) (simp_all add: demo_claimed_def update_case_def update_run_def update_job_def)

lemma demo_engine_ok: "engine_ok (demo_at node) (demo_engine_db node)"
  by (auto simp: engine_ok_def tools_ok_def item_recorded_def demo_answered_def demo_tool_def selected_item_def
      demo_evidence_def)

lemma demo_budget: "budget_stop default_settings t (demo_at node) = (if 100 + seconds 300 \<le> t then Some ''BUDGET_TIME_EXHAUSTED'' else None)"
  by (simp add: budget_stop_def default_settings_def)

lemma demo_generate_for:
  assumes "gw = demo_answers d"
  obtains call where "generate_for (demo_world gw clock) (demo_at node) n role schema prompt media (demo_engine_db node)
      = (Inr (demo_response\<lparr>mr_data := d\<rparr>, ''mcall_h''), (demo_engine_db node)\<lparr>db_calls := [demo_call, call]\<rparr>)"
    and "ml_id call = ''mcall_h''" and "ml_case_id call = Some ''c1''" and "ml_status call = MC_SUCCESS"
proof -
  let ?A = "audit_context (demo_world gw clock) (demo_at node) n role"
  have run: "au_run_id ?A = ''run_x''" by (simp add: audit_context_def)
  let ?q = "model_request (demo_world gw clock) (demo_at node) n role schema prompt media"
  have a: "\<forall>m\<in>set (db_calls (demo_engine_db node)). ml_run_id m \<noteq> Some (au_run_id ?A)"
    "t_get ml_id (''mcall_'' @ ''h'') (db_calls (demo_engine_db node)) = None" "gw ?q = Inr (demo_response\<lparr>mr_data := d\<rparr>)"
    unfolding run by (simp_all add: demo_call_def t_get_Cons assms demo_answers_def)
  obtain call where "generate_audited demo_env ?A gw (\<lambda>i. clock 0 (1 + i)) ''h'' ?q (demo_engine_db node)
      = (Inr (demo_response\<lparr>mr_data := d\<rparr>, ''mcall_'' @ ''h''),
         (demo_engine_db node)\<lparr>db_calls := db_calls (demo_engine_db node) @ [call]\<rparr>)"
    "ml_id call = ''mcall_'' @ ''h''" "ml_case_id call = Some (au_case_id ?A)" "ml_status call = MC_SUCCESS"
    by (rule generate_fresh [where gw = gw and q = ?q and hex = "''h''", OF a])
  then show ?thesis by (intro that [of call]) (simp_all add: generate_for_def run, simp add: audit_context_def)
qed

section \<open>A decision that stands\<close>

definition demo_verdict :: ProvisionalDecision where
  "demo_verdict = \<lparr> pr_verdict = V_REJECT, pr_reason_code = ''WEAPON'', pr_explanation = u ''a knife is visible'',
     pr_evidence_ids = [''e1''] \<rparr>"

definition demo_decider :: world where
  "demo_decider = demo_world (demo_answers (MD_Provisional demo_verdict)) (\<lambda>v n. 120)"

lemma demo_verdict_stands:
  assumes "s = (demo_engine_db N_DECIDE)\<lparr>db_calls := cs\<rparr>"
  shows "enforce_decision demo_decider 120 (demo_at N_DECIDE) demo_verdict s = Inr (demo_verdict, ''PROVISIONAL_DECISION'', demo_at N_DECIDE)"
proof -
  have "conflicting (evidence_rows demo_env (demo_at N_DECIDE) s) = []"
    by (simp add: assms evidence_rows_def demo_evidence_def conflicting_def sorted_uniq_def)
  then show ?thesis
    by (simp add: enforce_decision_def demo_decider_def demo_verdict_def enforcement_stop_def demo_budget seconds_def)
qed

lemma demo_decides:
  "\<exists>r s'. run_engine 35 demo_decider ''corr_z'' (demo_at N_DECIDE) (demo_engine_db N_DECIDE) = Some (Inr r, s')
     \<and> ires_provisional_decision r = Some demo_verdict"
proof -
  let ?st = "demo_at N_DECIDE" and ?s = "demo_engine_db N_DECIDE"
  obtain call where g: "generate_for demo_decider ?st N_DECIDE MR_AGENT ''ProvisionalDecision'' (decide_prompt ?st (evidence_rows demo_env ?st ?s)) [] ?s
      = (Inr (demo_response\<lparr>mr_data := MD_Provisional demo_verdict\<rparr>, ''mcall_h''), ?s\<lparr>db_calls := [demo_call, call]\<rparr>)"
    unfolding demo_decider_def by (rule demo_generate_for [OF refl])
  have d: "as_decision (MD_Provisional demo_verdict) = Inr demo_verdict"
    by (simp add: as_decision_def demo_verdict_def valid_ProvisionalDecision_def u_def)
  have node: "\<exists>r s'. decide_node demo_decider ?st ?s = (Decided r, s') \<and> ires_provisional_decision r = Some demo_verdict"
    using g demo_verdict_stands [OF refl, of "[demo_call, call]"]
    by (simp add: decide_node_def demo_decider_def accept_decision_def d commit_node_def checkpoint_def run_session_def
        checkpoint_body_def checkpoint_claims_def t_get_Cons claim_run_def new_agent_run_def demo_state_def initial_state_def
        insert_step_def t_add_def complete_def complete_body_def claim_job_def new_agent_job_def Let_def t_upd_Cons
        checkpoint_run_def advance_state_def complete_run_def run_result_def result_of_def)
  then obtain r s' where n: "decide_node demo_decider ?st ?s = (Decided r, s')" "ires_provisional_decision r = Some demo_verdict"
    by blast
  have b: "budget_stop default_settings 120 ?st = None" by (simp add: demo_budget seconds_def)
  have "run_engine (Suc fuel) demo_decider ''corr_z'' ?st ?s = Some (Inr r, s')" for fuel
    using n(1) b by (simp add: demo_decider_def)
  from this [of 34] show ?thesis using n(2) by auto
qed

theorem engine_terminates_witness:
  "\<exists>out. run_engine 30 demo_decider ''corr_z'' (demo_at N_DECIDE) (demo_engine_db N_DECIDE) = Some out
     \<and> run_engine 77 demo_decider ''corr_z'' (demo_at N_DECIDE) (demo_engine_db N_DECIDE) = Some out"
proof -
  obtain out where "\<forall>fuel\<ge>5 * nat (cfg_agent_max_iterations (wd_settings demo_decider) - is_iteration (demo_at N_DECIDE)) + 5.
     run_engine fuel demo_decider ''corr_z'' (demo_at N_DECIDE) (demo_engine_db N_DECIDE) = Some out"
    using engine_terminates by blast
  moreover have "cfg_agent_max_iterations (wd_settings demo_decider) = 6" by (simp add: demo_decider_def default_settings_def)
  ultimately show ?thesis by (intro exI [of _ out]) simp
qed

theorem engine_refines_machine_witness:
  "\<exists>r s' H'. run_engine 35 demo_decider ''corr_z'' (demo_at N_DECIDE) (demo_engine_db N_DECIDE) = Some (Inr r, s')
     \<and> (agent_step demo_env default_settings)\<^sup>*\<^sup>* (demo_engine_db N_DECIDE, [demo_at N_DECIDE]) (s', H')"
proof -
  obtain r s' where r: "run_engine 35 demo_decider ''corr_z'' (demo_at N_DECIDE) (demo_engine_db N_DECIDE) = Some (Inr r, s')"
    using demo_decides by blast
  have "\<exists>H'. (agent_step (wd_env demo_decider) (wd_settings demo_decider))\<^sup>*\<^sup>*
      (demo_engine_db N_DECIDE, [demo_at N_DECIDE]) (s', H')"
    by (rule engine_refines_machine [OF r]) (simp_all add: demo_decider_def demo_world_tame)
  then show ?thesis using r by (auto simp: demo_decider_def)
qed

theorem engine_in_budget_witness:
  "\<exists>r s'. run_engine 35 demo_decider ''corr_z'' (demo_at N_DECIDE) (demo_engine_db N_DECIDE) = Some (Inr r, s')
     \<and> snapshots_in_budget default_settings s'"
proof -
  obtain r s' where r: "run_engine 35 demo_decider ''corr_z'' (demo_at N_DECIDE) (demo_engine_db N_DECIDE) = Some (Inr r, s')"
    using demo_decides by blast
  have "snapshots_in_budget (wd_settings demo_decider) s'"
    by (rule engine_in_budget [OF r])
      (simp_all add: demo_decider_def demo_world_tame in_budget_def snapshots_in_budget_def claim_run_def default_settings_def)
  then show ?thesis using r by (auto simp: demo_decider_def)
qed


section \<open>A verification\<close>

definition demo_draft :: EvidenceDraft where
  "demo_draft = \<lparr> ef_source_ref = ''src1'', ef_stance = ST_SUPPORT, ef_start_ms = 100, ef_end_ms = 900,
     ef_summary = u ''a knife'', ef_confidence = Some (9 / 10) \<rparr>"

definition demo_verifier :: world where
  "demo_verifier = demo_world (demo_answers (MD_Verification \<lparr> vo_evidence = [demo_draft] \<rparr>))
     (\<lambda>v n. if v = 0 then 120 else 200 + seconds 300)"

definition demo_recorded :: PendingEvidence where
  "demo_recorded = pending_evidence demo_env (demo_at N_VERIFY) ''r1'' (selected_item ''t9'' ''r1'' demo_found) demo_draft
     ''mcall_h'' (mr_actual_model demo_response)"

lemma demo_recorded_simps [simp]:
  "pe_requirement_id demo_recorded = ''r1''" "pe_stance demo_recorded = ST_SUPPORT"
  by (simp_all add: demo_recorded_def pending_evidence_def demo_draft_def)

lemma demo_append:
  assumes "ml_id call = ''mcall_h''" and "ml_case_id call = Some ''c1''" and "ml_status call = MC_SUCCESS"
    and s: "s = update_job j f (update_run i g ((demo_engine_db N_VERIFY)\<lparr>db_calls := [demo_call, call]\<rparr>))"
    and r: "r = evidence_row ''c1'' 120 demo_recorded"
  shows "append_pending ''c1'' demo_recorded 120 s = Inr (r, s\<lparr>db_evidence := demo_evidence @ [r]\<rparr>)"
proof -
  have i: "pe_evidence_id demo_recorded \<noteq> ''e1''" "pe_evidence_id demo_recorded \<noteq> ''e2''"
    by (simp_all add: demo_recorded_def pending_evidence_def)
  have t: "ev_id (evidence_row ''c1'' 120 demo_recorded) = pe_evidence_id demo_recorded" by (simp add: evidence_row_def)
  have rq: "db_requirements s = [demo_requirement]" "db_artifacts s = [demo_artifact]" "db_cases s = [demo_case\<lparr>ca_status := CS_INVESTIGATING, ca_updated_at := 110\<rparr>]"
    by (simp_all add: s demo_engine_db_def demo_claimed_def update_case_def update_run_def update_job_def demo_prepared_def demo_ready_db_def
        t_upd_Cons)
  have "evidence_checks s r \<and> evidence_sources_ok s r \<and> replay_evidence_ok s r"
    using rq assms(1-3) unfolding r by (simp add: s evidence_checks_def evidence_sources_ok_def replay_evidence_ok_def evidence_row_def demo_recorded_def
        pending_evidence_def selected_item_def demo_found_def demo_draft_def demo_artifact_def demo_case_def new_case_row_def
        demo_answered_def demo_tool_def unit_interval_def)
  then show ?thesis using i t by (simp add: r s append_pending_def insert_evidence_def t_add_def demo_evidence_def t_get_Cons)
qed

lemma demo_no_frames: "extract_frames (wd_frame (demo_world gw clock) uri) ps = Inr []"
  by (induction ps) simp_all

lemma demo_verifies:
  "\<exists>res s'. run_engine 35 demo_verifier ''corr_z'' (demo_at N_VERIFY) (demo_engine_db N_VERIFY) = Some (res, s')
     \<and> length (db_evidence s') = 3"
proof -
  let ?st = "demo_at N_VERIFY" and ?s = "demo_engine_db N_VERIFY"
  let ?p = "verify_prompt ?st (requirement_snapshot demo_requirement)"
  have fr: "find_requirement ?st ''r1'' = Inr (requirement_snapshot demo_requirement)"
    by (simp add: find_requirement_def requirement_snapshot_def)
  have sf: "sample_frames demo_verifier ''c1'' (is_selected_items ?st) ?s = Inr []"
    by (simp add: sample_frames_def demo_verifier_def demo_no_frames split: option.split)
  obtain call where call: "ml_id call = ''mcall_h''" "ml_case_id call = Some ''c1''" "ml_status call = MC_SUCCESS"
    and g: "generate_for demo_verifier ?st N_VERIFY MR_VERIFIER ''VerificationOutput'' ?p [] ?s
      = (Inr (demo_response\<lparr>mr_data := MD_Verification \<lparr> vo_evidence = [demo_draft] \<rparr>\<rparr>, ''mcall_h''), ?s\<lparr>db_calls := [demo_call, call]\<rparr>)"
    unfolding demo_verifier_def by (rule demo_generate_for [OF refl])
  have v: "accept_verification demo_env ?st ''r1'' ''mcall_h'' (demo_response\<lparr>mr_data := MD_Verification \<lparr> vo_evidence = [demo_draft] \<rparr>\<rparr>)
      = Inr [demo_recorded]"
    by (simp add: accept_verification_def as_verification_def demo_draft_def valid_EvidenceDraft_def u_def unit_interval_def
        source_item_def selected_item_def demo_found_def demo_recorded_def)
  have node: "\<exists>st' s'. verify_node demo_verifier ?st ?s = (Advanced st', s') \<and> length (db_evidence s') = 3
      \<and> is_next_node st' = Some N_CHALLENGE \<and> is_state_version st' = 1 \<and> is_deadline_at st' = 100 + seconds 300"
    using g v fr sf demo_append [OF call refl refl]
    by (simp add: verify_node_def demo_verifier_def  demo_action_def commit_node_def checkpoint_def run_session_def
        checkpoint_body_def checkpoint_claims_def t_get_Cons claim_run_def new_agent_run_def demo_state_def initial_state_def
        insert_step_def t_add_def claim_job_def new_agent_job_def Let_def t_upd_Cons
        checkpoint_run_def advance_state_def refresh_missing_def add_evidence_ids_def demo_evidence_def)
  then obtain st1 s1 where n: "verify_node demo_verifier ?st ?s = (Advanced st1, s1)" "length (db_evidence s1) = 3"
    "is_next_node st1 = Some N_CHALLENGE" "is_state_version st1 = 1" "is_deadline_at st1 = 100 + seconds 300" by blast
  obtain res s2 where f: "force_review demo_verifier st1 ''BUDGET_TIME_EXHAUSTED'' s1 = (res, s2)"
    by (cases "force_review demo_verifier st1 ''BUDGET_TIME_EXHAUSTED'' s1")
  have "length (db_evidence s2) = 3" using complete_evidence f n(2) unfolding force_review_def by metis
  moreover have "budget_stop default_settings 120 ?st = None" by (simp add: demo_budget seconds_def)
  then have "run_engine (Suc (Suc fuel)) demo_verifier ''corr_z'' ?st ?s = Some (res, s2)" for fuel
    using n f by (simp add: demo_verifier_def budget_stop_def)
  from this [of 33] have "run_engine 35 demo_verifier ''corr_z'' ?st ?s = Some (res, s2)" by simp
  ultimately show ?thesis by blast
qed

theorem engine_evidence_within_items_witness:
  "\<exists>res s' e. run_engine 35 demo_verifier ''corr_z'' (demo_at N_VERIFY) (demo_engine_db N_VERIFY) = Some (res, s')
     \<and> db_evidence s' = demo_evidence @ [e] \<and> evidence_in_item s' ''run_x'' e"
proof -
  obtain res s' where r: "run_engine 35 demo_verifier ''corr_z'' (demo_at N_VERIFY) (demo_engine_db N_VERIFY) = Some (res, s')"
    and l: "length (db_evidence s') = 3" using demo_verifies by blast
  have t: "tame_world demo_verifier" by (simp add: demo_verifier_def demo_world_tame)
  obtain new where n: "db_evidence s' = demo_evidence @ new" "\<forall>e\<in>set new. evidence_in_item s' ''run_x'' e"
    using engine_evidence_within_items [OF r t demo_engine_ok] by auto
  then obtain e where "new = [e]" using l by (auto simp: demo_evidence_def length_Suc_conv)
  then show ?thesis using r n by auto
qed

section \<open>Recovery and the last round\<close>

lemma demo_duration: "video_duration ''c1'' demo_claimed = Inr 10000"
  by (simp add: video_duration_def video_of_case_def demo_claimed_def t_get_Cons demo_video_def
      demo_case_def new_case_row_def demo_prepared_def demo_ready_db_def update_case_def update_run_def update_job_def t_upd_Cons)

lemma demo_claimed_state [simp]:
  "is_run_id demo_state = ''run_x''" "is_job_id demo_state = ''job_y''" "is_case_id demo_state = ''c1''"
  "is_next_node demo_state = Some N_PLAN" "is_state_version demo_state = 0" "is_iteration demo_state = 0"
  by (simp_all add: demo_state_def initial_state_def)

lemma demo_claimed_calls [simp]: "db_calls demo_claimed = [demo_call]"
  by (simp add: demo_claimed_def update_case_def update_run_def update_job_def)

theorem early_recovery_fails_run_witness:
  "\<exists>s2 s3 run. handle_agent 35 (demo_world (demo_answers (MD_Provisional demo_verdict)) (\<lambda>v n. 110 + seconds 120))
       (110 + seconds 120) 999 demo_request s2 = Some (Inl (JobHandlerError ''AGENT_RUN_ALREADY_RUNNING'' False), s3)
     \<and> payload_run demo_request s3 = Some run \<and> rn_status run = IS_FAILED"
proof -
  let ?W = "demo_world (demo_answers (MD_Provisional demo_verdict)) (\<lambda>v n. 110 + seconds 120)"
  let ?st = "claim_state 110 demo_state" and ?A = "audit_context ?W (planning (claim_state 110 demo_state)) N_PLAN MR_AGENT"
  obtain key summary where k: "plan_key ?W ?st 10000 = (key, summary)" by (cases "plan_key ?W ?st 10000")
  have a: "\<forall>m\<in>set (db_calls demo_claimed). ml_run_id m \<noteq> Some (au_run_id ?A)"
    "t_get ml_id (''mcall_'' @ ''h'') (db_calls demo_claimed) = None" by (simp_all add: demo_call_def t_get_Cons)
  obtain s2 where c: "claim_call ?A 120 ''h'' key summary MR_AGENT demo_claimed = (Inr (''mcall_'' @ ''h'', None), s2)"
    using claim_fresh [OF a, of 120 key summary MR_AGENT] by (rule that)
  have w: "claim (wd_settings ?W) 110 demo_request demo_prepared = (Inr (Working ?st), demo_claimed)"
    unfolding demo_world_simps by (rule demo_claim)
  have b: "budget_stop (wd_settings ?W) (wd_clock ?W (is_state_version ?st) 0) (claim_state (110 + seconds 120) ?st) = None"
    by (simp add: budget_stop_def claim_state_def demo_state_def initial_state_def default_settings_def seconds_def)
  have n: "Suc 34 = 35" by simp
  have "\<exists>s3 run. handle_agent (Suc 34) ?W (110 + seconds 120) 999 demo_request s2
        = Some (Inl (JobHandlerError ''AGENT_RUN_ALREADY_RUNNING'' False), s3)
      \<and> payload_run demo_request s3 = Some run \<and> rn_status run = IS_FAILED
      \<and> (\<forall>t q'. same_run demo_request q' \<longrightarrow> (\<exists>e. claim (wd_settings ?W) t q' s3 = (Inl e, s3)))"
  proof (rule early_recovery_fails_run [OF w _ _ k c _ _ _ _ _ b])
    show "is_next_node ?st = Some N_PLAN" by simp
    show "video_duration (is_case_id ?st) demo_claimed = Inr 10000" by (simp add: demo_duration)
    show "jq_job_type demo_request = ''AGENT_INVESTIGATION''" by (simp add: demo_request_def)
    show "110 + seconds (cfg_agent_job_lease_seconds (wd_settings ?W)) \<le> 110 + seconds 120"
      by (simp add: default_settings_def)
    show "wd_clock ?W (is_state_version ?st) 1 < 120 + seconds (cfg_agent_job_lease_seconds (wd_settings ?W))"
      by (simp add: default_settings_def seconds_def)
  qed (rule refl)+
  then show ?thesis unfolding n by (elim exE conjE) (intro exI conjI)
qed

theorem last_round_never_decides_witness:
  "\<exists>r s'. run_engine 35 (demo_decider\<lparr>wd_settings := default_settings\<lparr>cfg_agent_max_iterations := 1\<rparr>\<rparr>) ''corr_z''
       (demo_at N_DECIDE) (demo_engine_db N_DECIDE) = Some (Inr r, s') \<and> ires_status r = IS_NEEDS_HUMAN_REVIEW"
proof -
  let ?W = "demo_decider\<lparr>wd_settings := default_settings\<lparr>cfg_agent_max_iterations := 1\<rparr>\<rparr>"
  let ?st = "demo_at N_DECIDE" and ?s = "demo_engine_db N_DECIDE"
  have rows: "\<exists>run. t_get rn_id (is_run_id ?st) (db_runs ?s) = Some run \<and> rn_state_version run = is_state_version ?st"
    "\<exists>job. t_get jb_id (is_job_id ?st) (db_jobs ?s) = Some job" "\<exists>c. t_get ca_id (is_case_id ?st) (db_cases ?s) = Some c"
    by (simp_all add: t_get_Cons claim_run_def new_agent_run_def claim_job_def new_agent_job_def)
  obtain r s' where f: "force_review ?W ?st ''BUDGET_ITERATION_EXHAUSTED'' ?s = (Inr r, s')"
    using rows force_review_completes by blast
  have b: "budget_stop (wd_settings ?W) (wd_clock ?W 0 0) ?st = Some ''BUDGET_ITERATION_EXHAUSTED''"
    by (simp add: budget_stop_def demo_decider_def default_settings_def seconds_def)
  have "run_engine (Suc fuel) ?W ''corr_z'' ?st ?s = Some (Inr r, s')" for fuel
    using f b by simp
  from this [of 34] have e: "run_engine 35 ?W ''corr_z'' ?st ?s = Some (Inr r, s')" by simp
  have "ires_status r = IS_NEEDS_HUMAN_REVIEW" by (rule last_round_never_decides [OF e]) simp
  then show ?thesis using e by blast
qed

theorem retry_never_reaches_model_witness:
  "\<exists>s3 r s4. handle_agent 35 (demo_world (demo_answers (MD_Provisional demo_verdict)) (\<lambda>v n. 500)) 500 999 demo_request s3
       = Some (Inr r, s4) \<and> ires_status r = IS_NEEDS_HUMAN_REVIEW \<and> length (db_calls s4) = 2"
proof -
  let ?W = "demo_world (demo_answers (MD_Provisional demo_verdict)) (\<lambda>v n. 500)"
  let ?st = "claim_state 110 demo_state" and ?A = "audit_context ?W (planning (claim_state 110 demo_state)) N_PLAN MR_AGENT"
  have w: "claim (wd_settings ?W) 110 demo_request demo_prepared = (Inr (Working ?st), demo_claimed)" using demo_claim by simp
  have a: "\<forall>m\<in>set (db_calls demo_claimed). ml_run_id m \<noteq> Some (au_run_id ?A)"
    "t_get ml_id (''mcall_'' @ ''h'') (db_calls demo_claimed) = None" by (simp_all add: demo_call_def t_get_Cons)
  let ?gw = "\<lambda>q :: ModelRequest. (Inl (ModelError ME_TIMEOUT True) :: ModelResponse res)"
  have "?gw (plan_request ?W ?st 10000) = Inl (ModelError ME_TIMEOUT True)" by simp
  from generate_raises [where gw = ?gw and q = "plan_request ?W ?st 10000" and hex = "''h''" and E = "wd_env ?W" and clock = "\<lambda>i. 120", OF a this]
  obtain cs where g: "generate_audited (wd_env ?W) ?A ?gw (\<lambda>i. 120) ''h'' (plan_request ?W ?st 10000) demo_claimed
      = (Inl (ModelError ME_TIMEOUT True), demo_claimed\<lparr>db_calls := cs\<rparr>)" and l: "length cs = 2" by auto
  have "\<exists>s3 run. defer_retry (wd_settings ?W) 130 (is_run_id ?st) (str_model_error ME_TIMEOUT) (demo_claimed\<lparr>db_calls := cs\<rparr>) = (Inr (), s3)
      \<and> payload_run demo_request s3 = Some run \<and> rn_status run = IS_PENDING \<and> rn_state_version run = 0 \<and> db_calls s3 = cs"
    by (simp add: defer_retry_def defer_retry_body_def run_session_def t_get_Cons t_upd_Cons claim_run_def claim_state_def
      demo_state_def initial_state_def new_agent_run_def claim_job_def new_agent_job_def default_settings_def
      payload_run_def demo_request_def job_payload_def dict_get_def)
  then obtain s3 run where d: "defer_retry (wd_settings ?W) 130 (is_run_id ?st) (str_model_error ME_TIMEOUT) (demo_claimed\<lparr>db_calls := cs\<rparr>) = (Inr (), s3)"
    and r: "payload_run demo_request s3 = Some run" "rn_status run = IS_PENDING" "rn_state_version run = is_state_version ?st"
    and c: "db_calls s3 = cs" by auto
  have "\<exists>r s4. handle_agent (Suc 34) ?W 500 999 demo_request s3 = Some (Inr r, s4) \<and> ires_status r = IS_NEEDS_HUMAN_REVIEW
      \<and> db_calls s4 = db_calls s3"
    by (rule retry_never_reaches_model [OF w _ _ _ g d r])
       (simp_all add: addresses_def demo_duration demo_request_def job_payload_def dict_get_def)
  then obtain r' s4 where h: "handle_agent (Suc 34) ?W 500 999 demo_request s3 = Some (Inr r', s4)"
    "ires_status r' = IS_NEEDS_HUMAN_REVIEW" "db_calls s4 = db_calls s3" by blast
  have n: "Suc 34 = 35" by simp
  show ?thesis by (rule exI [of _ s3], rule exI [of _ r'], rule exI [of _ s4]) (use h c l in \<open>simp add: n\<close>)
qed

end
