(* ===== verification/ReplayPlan.thy ===== *)
theory ReplayPlan
  imports Finalize
begin

text \<open>
  \<open>evistream/replay/planner.py\<close>: the difference of two policy versions and the preview of a replay,
  which says for every case of the source version what is reused and what is investigated again.
\<close>

section \<open>The difference of two versions\<close>

fun str_replay_mode :: "ReplayMode \<Rightarrow> string" where
  "str_replay_mode RM_REEVALUATE = ''REEVALUATE''"
| "str_replay_mode RM_REINVESTIGATE = ''REINVESTIGATE''"

text \<open>The dictionary of hashes by requirement key; a later entry replaces an earlier one.\<close>

definition requirement_hashes :: "CompiledPolicy \<Rightarrow> string \<rightharpoonup> string" where
  "requirement_hashes p = map_of (rev (map (\<lambda>t. (tp_requirement_key t, tp_semantic_sha256 t)) (pol_requirements p)))"

definition requirement_keys :: "CompiledPolicy \<Rightarrow> string list" where
  "requirement_keys p = map tp_requirement_key (pol_requirements p)"

definition policy_diff :: "PolicyRecord \<Rightarrow> PolicyRecord \<Rightarrow> PolicyDiff" where
  "policy_diff source target =
    (let before = pc_compiled_policy source; after = pc_compiled_policy target;
         before_hashes = requirement_hashes before; after_hashes = requirement_hashes after;
         both = filter (\<lambda>k. after_hashes k \<noteq> None) (requirement_keys before);
         unchanged = sorted_uniq (filter (\<lambda>k. before_hashes k = after_hashes k) both);
         modified = sorted_uniq (filter (\<lambda>k. before_hashes k \<noteq> after_hashes k) both);
         added = sorted_uniq (filter (\<lambda>k. before_hashes k = None) (requirement_keys after));
         removed = sorted_uniq (filter (\<lambda>k. after_hashes k = None) (requirement_keys before))
     in \<lparr> pd_policy_id = pc_policy_id source, pd_source_version = pc_version source,
          pd_target_version = pc_version target,
          pd_mode = (if added \<noteq> [] \<or> removed \<noteq> [] \<or> modified \<noteq> [] then RM_REINVESTIGATE else RM_REEVALUATE),
          pd_unchanged_requirement_keys = unchanged, pd_added_requirement_keys = added,
          pd_removed_requirement_keys = removed, pd_modified_requirement_keys = modified,
          pd_aggregation_changed = (pol_aggregation before \<noteq> pol_aggregation after),
          pd_evaluator_changed = (pol_reject_when before \<noteq> pol_reject_when after
             \<or> pol_escalate_when before \<noteq> pol_escalate_when after
             \<or> pol_severity before \<noteq> pol_severity after \<or> pol_enabled before \<noteq> pol_enabled after) \<rparr>)"

definition replay_diff :: "string \<Rightarrow> int \<Rightarrow> int \<Rightarrow> db \<Rightarrow> PolicyDiff res" where
  "replay_diff policy_id source_version target_version s =
    (case (t_get pc_key (policy_id, source_version) (db_policies s), t_get pc_key (policy_id, target_version) (db_policies s)) of
       (Some source, Some target) \<Rightarrow> Inr (policy_diff source target)
     | _ \<Rightarrow> Inl (GovernanceError ''REPLAY_POLICY_NOT_FOUND''))"

section \<open>The plan of a case\<close>

text \<open>The closed vocabulary of the model change policy.\<close>

definition parse_model_change :: "string \<Rightarrow> ModelChangePolicy option" where
  "parse_model_change t = (if t = ''keep'' then Some MCP_keep
     else if t = ''invalidate-visual'' then Some MCP_invalidate_visual else None)"

fun str_model_change :: "ModelChangePolicy \<Rightarrow> string" where
  "str_model_change MCP_keep = ''keep''"
| "str_model_change MCP_invalidate_visual = ''invalidate-visual''"

definition open_appeal :: "string \<Rightarrow> db \<Rightarrow> bool" where
  "open_appeal case_id s = list_ex (\<lambda>a. ap_case_id a = case_id \<and> ap_status a = AS_OPEN) (db_appeals s)"

text \<open>The requirement of a case by its key; keys are unique within a case.\<close>

definition requirement_by_key :: "string \<Rightarrow> string \<Rightarrow> db \<Rightarrow> RequirementRecord option" where
  "requirement_by_key case_id key s = find (\<lambda>r. rm_case_id r = case_id \<and> rm_requirement_key r = key) (db_requirements s)"

definition blocked_reason :: "CaseRecord \<Rightarrow> db \<Rightarrow> string option" where
  "blocked_reason c s = (if current_decision c s = None then Some ''REPLAY_SOURCE_DECISION_MISSING''
     else if open_appeal (ca_id c) s then Some ''OPEN_APPEAL'' else None)"

text \<open>The unchanged keys that a change of the models invalidates.\<close>

definition invalidated_keys :: "ModelChangePolicy \<Rightarrow> PolicyDiff \<Rightarrow> CaseRecord \<Rightarrow> db \<Rightarrow> string list" where
  "invalidated_keys m d c s = (if m = MCP_invalidate_visual
     then filter (\<lambda>k. case requirement_by_key (ca_id c) k s of None \<Rightarrow> False | Some r \<Rightarrow> ''vision'' \<in> set (rm_modalities r))
            (pd_unchanged_requirement_keys d)
     else [])"

definition case_plan :: "ModelChangePolicy \<Rightarrow> PolicyDiff \<Rightarrow> CaseRecord \<Rightarrow> db \<Rightarrow> ReplayCasePlan" where
  "case_plan m d c s =
    (let changed = invalidated_keys m d c s;
         reusable = filter (\<lambda>k. k \<notin> set changed) (pd_unchanged_requirement_keys d);
         investigate = sorted_uniq (pd_added_requirement_keys d @ pd_modified_requirement_keys d) @ changed
     in \<lparr> cp_source_case_id = ca_id c, cp_source_decision_id = map_option dc_id (current_decision c s),
          cp_mode = (if investigate \<noteq> [] then RM_REINVESTIGATE else pd_mode d),
          cp_reusable_requirement_keys = sort reusable,
          cp_investigate_requirement_keys = sorted_uniq investigate,
          cp_invalidations = map (\<lambda>k. (k, ''REQUIREMENT_REMOVED'')) (pd_removed_requirement_keys d)
             @ map (\<lambda>k. (k, ''REQUIREMENT_SEMANTICS_CHANGED'')) (pd_modified_requirement_keys d)
             @ map (\<lambda>k. (k, ''MODEL_PROFILE_CHANGED'')) changed,
          cp_blocked_reason = blocked_reason c s \<rparr>)"

section \<open>The preview\<close>

text \<open>What the preview counts of a plan: only cases that are not blocked count.\<close>

definition reusable_rows :: "ReplayCasePlan \<Rightarrow> db \<Rightarrow> RequirementRecord list" where
  "reusable_rows p s = (if cp_blocked_reason p \<noteq> None then []
     else concat (map (\<lambda>k. case requirement_by_key (cp_source_case_id p) k s of None \<Rightarrow> [] | Some r \<Rightarrow> [r])
            (cp_reusable_requirement_keys p)))"

definition reusable_evidence :: "ReplayCasePlan \<Rightarrow> db \<Rightarrow> int" where
  "reusable_evidence p s = sum_list (map (\<lambda>r. int (length (filter (\<lambda>e. ev_requirement_id e = rm_id r) (db_evidence s))))
     (reusable_rows p s))"

definition reusable_results :: "ReplayCasePlan \<Rightarrow> db \<Rightarrow> int" where
  "reusable_results p s = int (length (filter (\<lambda>r. rm_current_result_id r \<noteq> None) (reusable_rows p s)))"

definition investigations :: "ReplayCasePlan \<Rightarrow> int" where
  "investigations p = (if cp_blocked_reason p \<noteq> None then 0 else int (length (cp_investigate_requirement_keys p)))"

definition json_case_plan :: "ReplayCasePlan \<Rightarrow> json" where
  "json_case_plan p = JObj [(''source_case_id'', JStr (cp_source_case_id p)),
     (''source_decision_id'', jopt JStr (cp_source_decision_id p)), (''mode'', JStr (str_replay_mode (cp_mode p))),
     (''reusable_requirement_keys'', JList (map JStr (cp_reusable_requirement_keys p))),
     (''investigate_requirement_keys'', JList (map JStr (cp_investigate_requirement_keys p))),
     (''invalidations'', JList (map (\<lambda>(k, r). JObj [(''requirement_key'', JStr k), (''reason'', JStr r)]) (cp_invalidations p))),
     (''blocked_reason'', jopt JStr (cp_blocked_reason p))]"

definition preview_payload :: "string \<Rightarrow> int \<Rightarrow> int \<Rightarrow> ReplayMode \<Rightarrow> ReplayCasePlan list \<Rightarrow> ModelChangePolicy \<Rightarrow> json" where
  "preview_payload policy_id source_version target_version mode plans m = JObj [(''policy_id'', JStr policy_id),
     (''source_version'', JInt source_version), (''target_version'', JInt target_version),
     (''mode'', JStr (str_replay_mode mode)), (''cases'', JList (map json_case_plan plans)),
     (''model_change_policy'', JStr (str_model_change m))]"

definition source_cases :: "env \<Rightarrow> string \<Rightarrow> int \<Rightarrow> db \<Rightarrow> CaseRecord list" where
  "source_cases E policy_id version s = sort_by (\<lambda>a b. coll E (ca_id a) (ca_id b))
     (filter (\<lambda>c. ca_policy_id c = policy_id \<and> ca_policy_version c = version) (db_cases s))"

definition preview :: "env \<Rightarrow> string \<Rightarrow> int \<Rightarrow> int \<Rightarrow> string \<Rightarrow> db \<Rightarrow> ReplayPreview res" where
  "preview E policy_id source_version target_version model_change s =
    (if target_version \<le> source_version then Inl (GovernanceError ''REPLAY_VERSION_ORDER_INVALID'')
     else case parse_model_change model_change of
       None \<Rightarrow> Inl (GovernanceError ''DECISION_INPUT_INVALID'')
     | Some m \<Rightarrow>
       (case (t_get pc_key (policy_id, source_version) (db_policies s), t_get pc_key (policy_id, target_version) (db_policies s)) of
          (Some source, Some target) \<Rightarrow>
            if pc_lifecycle source \<noteq> PL_PUBLISHED \<or> pc_lifecycle target \<noteq> PL_PUBLISHED
            then Inl (GovernanceError ''REPLAY_POLICY_NOT_PUBLISHED'')
            else (let d = policy_diff source target;
                      plans = map (\<lambda>c. case_plan m d c s) (source_cases E policy_id source_version s)
                  in Inr \<lparr> pv_policy_id = policy_id, pv_source_version = source_version,
                       pv_target_version = target_version, pv_mode = pd_mode d, pv_cases = plans,
                       pv_affected_case_count = int (length plans),
                       pv_reusable_evidence_count = sum_list (map (\<lambda>p. reusable_evidence p s) plans),
                       pv_reusable_result_count = sum_list (map (\<lambda>p. reusable_results p s) plans),
                       pv_estimated_investigation_count = sum_list (map investigations plans),
                       pv_preview_sha256 = hash_json E (preview_payload policy_id source_version target_version
                          (pd_mode d) plans m) \<rparr>)
        | _ \<Rightarrow> Inl (GovernanceError ''REPLAY_POLICY_NOT_FOUND'')))"

section \<open>What a plan covers\<close>

lemma requirement_hashes_None [simp]: "requirement_hashes p k = None \<longleftrightarrow> k \<notin> set (requirement_keys p)"
  by (auto simp: requirement_hashes_def requirement_keys_def map_of_eq_None_iff image_iff)

text \<open>With unique keys the dictionary gives the hash of the template.\<close>

lemma requirement_hashes_template:
  assumes "distinct (requirement_keys p)" and "t \<in> set (pol_requirements p)"
  shows "requirement_hashes p (tp_requirement_key t) = Some (tp_semantic_sha256 t)"
proof -
  have "distinct (map fst (rev (map (\<lambda>t. (tp_requirement_key t, tp_semantic_sha256 t)) (pol_requirements p))))"
    using assms(1) by (simp add: requirement_keys_def comp_def rev_map [symmetric] del: rev_map)
  then show ?thesis unfolding requirement_hashes_def using assms(2) by (intro map_of_is_SomeI) auto
qed

lemma policy_diff_keys:
  fixes source target :: PolicyRecord
  defines "b \<equiv> pc_compiled_policy source" and "a \<equiv> pc_compiled_policy target"
  shows "set (pd_unchanged_requirement_keys (policy_diff source target))
      = {k \<in> set (requirement_keys b). k \<in> set (requirement_keys a) \<and> requirement_hashes b k = requirement_hashes a k}"
    and "set (pd_modified_requirement_keys (policy_diff source target))
      = {k \<in> set (requirement_keys b). k \<in> set (requirement_keys a) \<and> requirement_hashes b k \<noteq> requirement_hashes a k}"
    and "set (pd_added_requirement_keys (policy_diff source target)) = set (requirement_keys a) - set (requirement_keys b)"
    and "set (pd_removed_requirement_keys (policy_diff source target)) = set (requirement_keys b) - set (requirement_keys a)"
    and "distinct (pd_unchanged_requirement_keys (policy_diff source target))"
  by (auto simp: policy_diff_def Let_def b_def a_def simp del: not_None_eq)

lemma invalidated_keys_sub: "set (invalidated_keys m d c s) \<subseteq> set (pd_unchanged_requirement_keys d)"
  by (auto simp: invalidated_keys_def)

lemma case_plan_keys:
  "set (cp_reusable_requirement_keys (case_plan m d c s)) = set (pd_unchanged_requirement_keys d) - set (invalidated_keys m d c s)"
  "set (cp_investigate_requirement_keys (case_plan m d c s))
     = set (pd_added_requirement_keys d) \<union> set (pd_modified_requirement_keys d) \<union> set (invalidated_keys m d c s)"
  by (auto simp: case_plan_def Let_def)

text \<open>
  C24. A replay plan covers the target version exactly. Every requirement of the target version is
  either reused or investigated again, and never both; what is reused has the same semantic hash in
  both versions; what is invalidated is in the source version and not reused.
\<close>

theorem replay_plan_covers_target:
  assumes "preview E pid v w mcp s = Inr pv" and "p \<in> set (pv_cases pv)"
    and "t_get pc_key (pid, v) (db_policies s) = Some source" and "t_get pc_key (pid, w) (db_policies s) = Some target"
  shows "set (cp_reusable_requirement_keys p) \<union> set (cp_investigate_requirement_keys p)
           = set (requirement_keys (pc_compiled_policy target))
    \<and> set (cp_reusable_requirement_keys p) \<inter> set (cp_investigate_requirement_keys p) = {}
    \<and> (\<forall>k\<in>set (cp_reusable_requirement_keys p). k \<in> set (requirement_keys (pc_compiled_policy source))
         \<and> requirement_hashes (pc_compiled_policy source) k = requirement_hashes (pc_compiled_policy target) k)
    \<and> (\<forall>k\<in>fst ` set (cp_invalidations p). k \<in> set (requirement_keys (pc_compiled_policy source))
         \<and> k \<notin> set (cp_reusable_requirement_keys p))"
proof (intro conjI)
  from assms have "\<exists>m. pv_cases pv = map (\<lambda>c. case_plan m (policy_diff source target) c s) (source_cases E pid v s)"
    by (cases "parse_model_change mcp") (auto simp: preview_def Let_def split: if_splits)
  then obtain m where "pv_cases pv = map (\<lambda>c. case_plan m (policy_diff source target) c s) (source_cases E pid v s)" by blast
  then obtain c where p: "p = case_plan m (policy_diff source target) c s" using assms(2) by auto
  note keys = policy_diff_keys [of source target] and plan = case_plan_keys [of m "policy_diff source target" c s, folded p]
  note inv = invalidated_keys_sub [of m "policy_diff source target" c s]
  show "set (cp_reusable_requirement_keys p) \<union> set (cp_investigate_requirement_keys p)
        = set (requirement_keys (pc_compiled_policy target))"
    unfolding plan using inv by (auto simp: keys)
  show "set (cp_reusable_requirement_keys p) \<inter> set (cp_investigate_requirement_keys p) = {}"
    unfolding plan by (auto simp: keys)
  show "\<forall>k\<in>set (cp_reusable_requirement_keys p). k \<in> set (requirement_keys (pc_compiled_policy source))
      \<and> requirement_hashes (pc_compiled_policy source) k = requirement_hashes (pc_compiled_policy target) k"
    unfolding plan by (auto simp: keys)
  have "fst ` set (cp_invalidations p) = set (pd_removed_requirement_keys (policy_diff source target))
      \<union> set (pd_modified_requirement_keys (policy_diff source target)) \<union> set (invalidated_keys m (policy_diff source target) c s)"
    by (simp add: p case_plan_def Let_def image_Un image_image Un_assoc)
  then show "\<forall>k\<in>fst ` set (cp_invalidations p). k \<in> set (requirement_keys (pc_compiled_policy source))
      \<and> k \<notin> set (cp_reusable_requirement_keys p)"
    unfolding plan using inv by (auto simp: keys)
qed

end
