(* ===== verification/ReplayRun.thy ===== *)
theory ReplayRun
  imports ReplayPlan AgentHandler
begin

text \<open>
  \<open>evistream/replay/service.py\<close> with its handler in \<open>evistream/application/job_handlers.py\<close>: preparing
  a replay, copying what a plan reuses into the cases of the target version, investigating what it does
  not, and settling the items. The dispatcher of investigations is a parameter, as it is in the code.
\<close>

section \<open>Parameters and results\<close>

text \<open>
  Clocks and fresh identifiers are indexed by the row they are used for. \<open>yw_dispatch\<close> is the agent
  runtime, None where the service was built without one.
\<close>

record replay_world =
  yw_env :: env
  yw_settings :: Settings
  yw_stamp :: "string \<Rightarrow> nat \<Rightarrow> time"
  yw_hex :: "string \<Rightarrow> nat \<Rightarrow> string"
  yw_dispatch :: "(JobRequest \<Rightarrow> db \<Rightarrow> InvestigationResult JobExecution \<times> db) option"

record ReplayResult =
  yr_replay_job_id :: string
  yr_processing_job_id :: string
  yr_status :: string
  yr_mode :: ReplayMode
  yr_completed_items :: int
  yr_human_review_items :: int
  yr_failed_items :: int
  yr_decision_changes :: "json list"

definition json_replay_result :: "ReplayResult \<Rightarrow> json" where
  "json_replay_result r = JObj [(''replay_job_id'', JStr (yr_replay_job_id r)),
     (''processing_job_id'', JStr (yr_processing_job_id r)), (''status'', JStr (yr_status r)),
     (''mode'', JStr (str_replay_mode (yr_mode r))), (''completed_items'', JInt (yr_completed_items r)),
     (''human_review_items'', JInt (yr_human_review_items r)), (''failed_items'', JInt (yr_failed_items r)),
     (''decision_changes'', JList (yr_decision_changes r))]"

definition parse_replay_mode :: "string \<Rightarrow> ReplayMode option" where
  "parse_replay_mode t = (if t = ''REEVALUATE'' then Some RM_REEVALUATE
     else if t = ''REINVESTIGATE'' then Some RM_REINVESTIGATE else None)"

text \<open>
  \<open>ReplayResult.model_validate\<close> of a stored dictionary: every field must be there with its type, and
  counts must not be negative. The list of changes may be missing; no other field may be added.
\<close>

definition result_fields :: "string list" where
  "result_fields = [''replay_job_id'', ''processing_job_id'', ''status'', ''mode'', ''completed_items'',
     ''human_review_items'', ''failed_items'', ''decision_changes'']"

definition parse_replay_result :: "json \<Rightarrow> ReplayResult res" where
  "parse_replay_result j = (case j of
     JObj fs \<Rightarrow>
      (if \<not> fst ` set fs \<subseteq> set result_fields then Inl ValueError
       else case (map_of fs ''replay_job_id'', map_of fs ''processing_job_id'', map_of fs ''status'', map_of fs ''mode'',
             map_of fs ''completed_items'', map_of fs ''human_review_items'', map_of fs ''failed_items'') of
         (Some (JStr i), Some (JStr p), Some (JStr st), Some (JStr md), Some (JInt c), Some (JInt h), Some (JInt f)) \<Rightarrow>
           (case (parse_replay_mode md, map_of fs ''decision_changes'') of
              (Some m, Some (JList ds)) \<Rightarrow>
                if c < 0 \<or> h < 0 \<or> f < 0 then Inl ValueError
                else Inr \<lparr> yr_replay_job_id = i, yr_processing_job_id = p, yr_status = st, yr_mode = m,
                  yr_completed_items = c, yr_human_review_items = h, yr_failed_items = f, yr_decision_changes = ds \<rparr>
            | (Some m, None) \<Rightarrow>
                if c < 0 \<or> h < 0 \<or> f < 0 then Inl ValueError
                else Inr \<lparr> yr_replay_job_id = i, yr_processing_job_id = p, yr_status = st, yr_mode = m,
                  yr_completed_items = c, yr_human_review_items = h, yr_failed_items = f, yr_decision_changes = [] \<rparr>
            | _ \<Rightarrow> Inl ValueError)
       | _ \<Rightarrow> Inl ValueError)
   | _ \<Rightarrow> Inl ValueError)"

section \<open>Preparing a replay\<close>

definition replay_request_key :: "env \<Rightarrow> string \<Rightarrow> string option \<Rightarrow> string \<Rightarrow> string" where
  "replay_request_key E preview_sha profile model_change = sha E (''POLICY_REPLAY:'' @ preview_sha @ '':''
     @ (case profile of None \<Rightarrow> [] | Some p \<Rightarrow> p) @ '':'' @ model_change)"

definition replay_of_job :: "string \<Rightarrow> db \<Rightarrow> ReplayJobRecord option" where
  "replay_of_job job_id s = find (\<lambda>r. rj_processing_job_id r = job_id) (db_replay_jobs s)"

text \<open>\<open>_request\<close>.\<close>

definition replay_request :: "string \<Rightarrow> db \<Rightarrow> JobRequest res" where
  "replay_request job_id s = (case (t_get jb_id job_id (db_jobs s), replay_of_job job_id s) of
     (Some job, Some replay) \<Rightarrow> Inr \<lparr> jq_job_id = jb_id job, jq_job_type = jb_type job,
       jq_request_key = jb_request_key job, jq_correlation_id = jb_correlation_id job,
       jq_payload = (if jb_payload job \<noteq> [] then jb_payload job
          else [(''replay_job_id'', JStr (rj_id replay)), (''model_profile'', jopt JStr (rj_model_profile replay))]) \<rparr>
   | _ \<Rightarrow> Inl (GovernanceError ''REPLAY_NOT_RESUMABLE''))"

definition new_replay_job :: "string \<Rightarrow> string \<Rightarrow> string \<Rightarrow> string \<Rightarrow> string option \<Rightarrow> time \<Rightarrow> ProcessingJobRecord" where
  "new_replay_job job_id replay_job_id key correlation profile now = \<lparr> jb_id = job_id,
     jb_type = ''POLICY_REPLAY'', jb_subject_id = replay_job_id, jb_request_key = key,
     jb_correlation_id = correlation, jb_status = JS_PENDING, jb_attempt = 0, jb_max_attempts = 3,
     jb_error_code = None, jb_error_message = None, jb_retryable = False,
     jb_payload = [(''replay_job_id'', JStr replay_job_id), (''model_profile'', jopt JStr profile)],
     jb_next_attempt_at = None, jb_last_enqueued_at = None, jb_lease_until = None, jb_started_at = None,
     jb_finished_at = None, jb_created_at = now, jb_updated_at = now \<rparr>"

definition new_replay_row ::
    "string \<Rightarrow> string \<Rightarrow> ReplayPreview \<Rightarrow> string option \<Rightarrow> ModelChangePolicy \<Rightarrow> time \<Rightarrow> ReplayJobRecord" where
  "new_replay_row replay_job_id job_id pv profile m now = \<lparr> rj_id = replay_job_id, rj_processing_job_id = job_id,
     rj_policy_id = pv_policy_id pv, rj_source_version = pv_source_version pv, rj_target_version = pv_target_version pv,
     rj_mode = pv_mode pv, rj_preview_sha256 = pv_preview_sha256 pv, rj_model_profile = profile,
     rj_model_change_policy = m, rj_status = JS_PENDING, rj_result_payload = None, rj_created_at = now,
     rj_updated_at = now \<rparr>"

definition new_replay_item :: "env \<Rightarrow> string \<Rightarrow> int \<Rightarrow> time \<Rightarrow> ReplayCasePlan \<Rightarrow> ReplayItemRecord" where
  "new_replay_item E replay_job_id version now p = \<lparr>
     rp_id = ''replay_item_'' @ take 32 (sha E (replay_job_id @ '':'' @ cp_source_case_id p)),
     rp_replay_job_id = replay_job_id, rp_source_case_id = cp_source_case_id p, rp_target_case_id = None,
     rp_target_policy_version = version, rp_mode = cp_mode p,
     rp_status = (if truthy (cp_blocked_reason p) then RI_NEEDS_HUMAN_REVIEW else RI_PENDING),
     rp_plan_payload = p,
     rp_result_payload = (if truthy (cp_blocked_reason p) then Some (JObj [(''reason_code'', jopt JStr (cp_blocked_reason p))])
        else None),
     rp_source_decision_id = cp_source_decision_id p, rp_target_decision_id = None, rp_created_at = now,
     rp_updated_at = now \<rparr>"

text \<open>\<open>uq_replay_items_source_target_version\<close> and the primary key.\<close>

definition insert_item :: "ReplayItemRecord \<Rightarrow> db \<Rightarrow> db res" where
  "insert_item r s =
    (if list_ex (\<lambda>q. rp_source_case_id q = rp_source_case_id r \<and> rp_target_policy_version q = rp_target_policy_version r)
          (db_replay_items s) then Inl IntegrityError
     else bindE (t_add rp_id r (db_replay_items s)) (\<lambda>t. Inr (s\<lparr>db_replay_items := t\<rparr>)))"

fun insert_items :: "ReplayItemRecord list \<Rightarrow> db \<Rightarrow> db res" where
  "insert_items [] s = Inr s"
| "insert_items (r # rs) s = bindE (insert_item r s) (insert_items rs)"

definition prepare_replay_body ::
    "env \<Rightarrow> time \<Rightarrow> (nat \<Rightarrow> string) \<Rightarrow> ReplayPreview \<Rightarrow> string option \<Rightarrow> ModelChangePolicy \<Rightarrow> db
       \<Rightarrow> (JobRequest \<times> db) res" where
  "prepare_replay_body E now hex pv profile m s =
    (let key = replay_request_key E (pv_preview_sha256 pv) profile (str_model_change m);
         job_id = ''job_'' @ hex 0; replay_job_id = ''replay_'' @ hex 1; correlation = ''corr_'' @ hex 2
     in case find (\<lambda>j. jb_request_key j = key) (db_jobs s) of
       Some existing \<Rightarrow> bindE (replay_request (jb_id existing) s) (\<lambda>q. Inr (q, s))
     | None \<Rightarrow>
        bindE (insert_job (new_replay_job job_id replay_job_id key correlation profile now) s) (\<lambda>s1.
        bindE (t_add rj_id (new_replay_row replay_job_id job_id pv profile m now) (db_replay_jobs s1)) (\<lambda>t.
        bindE (insert_items (map (new_replay_item E replay_job_id (pv_target_version pv) now) (pv_cases pv))
                 (s1\<lparr>db_replay_jobs := t\<rparr>)) (\<lambda>s2.
          Inr (\<lparr> jq_job_id = job_id, jq_job_type = ''POLICY_REPLAY'', jq_request_key = key,
                 jq_correlation_id = correlation, jq_payload = [(''replay_job_id'', JStr replay_job_id)] \<rparr>, s2)))))"

definition prepare_replay ::
    "env \<Rightarrow> time \<Rightarrow> (nat \<Rightarrow> string) \<Rightarrow> string \<Rightarrow> int \<Rightarrow> int \<Rightarrow> string \<Rightarrow> string option \<Rightarrow> string \<Rightarrow> db
       \<Rightarrow> JobRequest res \<times> db" where
  "prepare_replay E now hex policy_id source_version target_version preview_sha profile model_change s =
    (case preview E policy_id source_version target_version model_change s of
       Inl e \<Rightarrow> (Inl e, s)
     | Inr pv \<Rightarrow>
       (if pv_preview_sha256 pv \<noteq> preview_sha then (Inl (GovernanceError ''REPLAY_PREVIEW_STALE''), s)
        else case parse_model_change model_change of
          None \<Rightarrow> (Inl (GovernanceError ''DECISION_INPUT_INVALID''), s)
        | Some m \<Rightarrow> run_session (prepare_replay_body E now hex pv profile m) s))"

section \<open>Claiming\<close>

definition claim_replay_job :: "time \<Rightarrow> time \<Rightarrow> ProcessingJobRecord \<Rightarrow> ProcessingJobRecord" where
  "claim_replay_job now lease j = j\<lparr>jb_status := JS_RUNNING, jb_attempt := jb_attempt j + 1,
     jb_started_at := (case jb_started_at j of None \<Rightarrow> Some now | Some t \<Rightarrow> Some t),
     jb_lease_until := Some lease, jb_updated_at := now\<rparr>"

definition update_replay :: "string \<Rightarrow> (ReplayJobRecord \<Rightarrow> ReplayJobRecord) \<Rightarrow> db \<Rightarrow> db" where
  "update_replay i f s = s\<lparr>db_replay_jobs := t_upd rj_id i f (db_replay_jobs s)\<rparr>"

definition claim_replay_body :: "time \<Rightarrow> int \<Rightarrow> JobRequest \<Rightarrow> db \<Rightarrow> (string \<times> db) res" where
  "claim_replay_body now lease_seconds q s = (case t_get jb_id (jq_job_id q) (db_jobs s) of
     None \<Rightarrow> Inl (GovernanceError ''REPLAY_NOT_RESUMABLE'')
   | Some job \<Rightarrow>
     (if jb_type job \<noteq> ''POLICY_REPLAY'' then Inl (GovernanceError ''REPLAY_NOT_RESUMABLE'')
      else case replay_of_job (jb_id job) s of
        None \<Rightarrow> Inl (GovernanceError ''REPLAY_NOT_RESUMABLE'')
      | Some replay \<Rightarrow>
        if dict_get ''replay_job_id'' (jq_payload q) \<noteq> Some (JStr (rj_id replay))
        then Inl (GovernanceError ''REPLAY_NOT_RESUMABLE'')
        else if jb_request_key job \<noteq> jq_request_key q then Inl (GovernanceError ''REPLAY_NOT_RESUMABLE'')
        else if jb_status job = JS_SUCCEEDED then Inr (rj_id replay, s)
        else if jb_status job = JS_RUNNING \<and> lease_active (jb_lease_until job) now
        then Inl (GovernanceError ''REPLAY_ALREADY_RUNNING'')
        else if jb_status job \<in> {JS_FAILED, JS_CANCELLED} then Inl (GovernanceError ''REPLAY_NOT_RESUMABLE'')
        else Inr (rj_id replay, update_replay (rj_id replay) (\<lambda>r. r\<lparr>rj_status := JS_RUNNING, rj_updated_at := now\<rparr>)
               (update_job (jb_id job) (claim_replay_job now (now + seconds lease_seconds)) s))))"

definition claim_replay :: "time \<Rightarrow> int \<Rightarrow> JobRequest \<Rightarrow> db \<Rightarrow> string res \<times> db" where
  "claim_replay now lease_seconds q s = run_session (claim_replay_body now lease_seconds q) s"

definition fail_replay :: "time \<Rightarrow> string \<Rightarrow> string \<Rightarrow> db \<Rightarrow> db" where
  "fail_replay now replay_job_id code s = (case t_get rj_id replay_job_id (db_replay_jobs s) of
     None \<Rightarrow> s
   | Some replay \<Rightarrow> update_job (rj_processing_job_id replay) (\<lambda>j. j\<lparr>jb_status := JS_FAILED, jb_error_code := Some code,
         jb_finished_at := Some now, jb_lease_until := None\<rparr>)
       (update_replay replay_job_id (\<lambda>r. r\<lparr>rj_status := JS_FAILED, rj_updated_at := now\<rparr>) s))"

section \<open>Materializing an item\<close>

definition lineage_id ::
    "env \<Rightarrow> string \<Rightarrow> string \<Rightarrow> ReplayLineageAction \<Rightarrow> string option \<Rightarrow> string option \<Rightarrow> string \<Rightarrow> string" where
  "lineage_id E item_id entity action source_id target_id reason = ''lineage_'' @ take 32 (hash_json E (JList [
     JStr item_id, JStr entity, JStr (case action of LA_REUSED \<Rightarrow> ''REUSED'' | LA_INVALIDATED \<Rightarrow> ''INVALIDATED''
       | LA_RECREATED \<Rightarrow> ''RECREATED''), jopt JStr source_id, jopt JStr target_id, JStr reason]))"

text \<open>\<open>_lineage\<close>: a row is written once.\<close>

definition add_lineage ::
    "replay_world \<Rightarrow> string \<Rightarrow> string \<Rightarrow> ReplayLineageAction \<Rightarrow> string option \<Rightarrow> string option \<Rightarrow> string \<Rightarrow> db \<Rightarrow> db res" where
  "add_lineage W item_id entity action source_id target_id reason s =
    (let i = lineage_id (yw_env W) item_id entity action source_id target_id reason in
     case t_get rg_id i (db_lineage s) of
       Some _ \<Rightarrow> Inr s
     | None \<Rightarrow> bindE (t_add rg_id \<lparr> rg_id = i, rg_replay_item_id = item_id, rg_entity_type = entity, rg_action = action,
           rg_source_id = source_id, rg_target_id = target_id, rg_reason_code = reason, rg_created_at = yw_stamp W i 0 \<rparr>
           (db_lineage s)) (\<lambda>t. Inr (s\<lparr>db_lineage := t\<rparr>)))"

definition copied_id :: "env \<Rightarrow> string \<Rightarrow> string \<Rightarrow> string \<Rightarrow> string" where
  "copied_id E item_id evidence_id requirement_id = ''evidence_'' @ take 32 (sha E (item_id @ '':'' @ evidence_id @ '':'' @ requirement_id))"

definition copied_evidence :: "replay_world \<Rightarrow> string \<Rightarrow> string \<Rightarrow> string \<Rightarrow> EvidenceRecord \<Rightarrow> EvidenceRecord" where
  "copied_evidence W item_id target_case requirement_id e =
    (let i = copied_id (yw_env W) item_id (ev_id e) requirement_id
     in \<lparr> ev_id = i, ev_case_id = target_case, ev_requirement_id = requirement_id, ev_stance = ev_stance e,
          ev_modality = ev_modality e, ev_start_ms = ev_start_ms e, ev_end_ms = ev_end_ms e,
          ev_artifact_id = ev_artifact_id e, ev_tool_run_id = None, ev_model_call_id = None,
          ev_model_name = ev_model_name e, ev_source_ref = ev_source_ref e, ev_summary = ev_summary e,
          ev_confidence = ev_confidence e, ev_origin_evidence_id = Some (ev_id e), ev_replay_item_id = Some item_id,
          ev_created_at = yw_stamp W i 0, ev_updated_at = yw_stamp W i 1 \<rparr>)"

definition copy_row :: "replay_world \<Rightarrow> string \<Rightarrow> string \<Rightarrow> string \<Rightarrow> EvidenceRecord \<Rightarrow> db \<Rightarrow> db res" where
  "copy_row W item_id target_case requirement_id e s =
    (let row = copied_evidence W item_id target_case requirement_id e in
     bindE (if t_get ev_id (ev_id row) (db_evidence s) = None then insert_evidence row s else Inr s)
       (add_lineage W item_id ''EVIDENCE'' LA_REUSED (Some (ev_id e)) (Some (ev_id row)) ''REQUIREMENT_SEMANTICS_UNCHANGED''))"

fun copy_rows :: "replay_world \<Rightarrow> string \<Rightarrow> string \<Rightarrow> string \<Rightarrow> EvidenceRecord list \<Rightarrow> db \<Rightarrow> db res" where
  "copy_rows W item_id target_case requirement_id [] s = Inr s"
| "copy_rows W item_id target_case requirement_id (e # es) s =
     bindE (copy_row W item_id target_case requirement_id e s) (copy_rows W item_id target_case requirement_id es)"

text \<open>
  The reused requirements in the order of their keys. A key that one of the cases does not have is
  passed over. The results of the source are remembered as origins.
\<close>

fun copy_keys ::
    "replay_world \<Rightarrow> string \<Rightarrow> string \<Rightarrow> string \<Rightarrow> string list \<Rightarrow> (string \<rightharpoonup> string) \<Rightarrow> db
       \<Rightarrow> ((string \<rightharpoonup> string) \<times> db) res" where
  "copy_keys W item_id source_case target_case [] origin s = Inr (origin, s)"
| "copy_keys W item_id source_case target_case (k # ks) origin s =
    (case (requirement_by_key source_case k s, requirement_by_key target_case k s) of
       (Some sr, Some tr) \<Rightarrow>
         if rm_semantic_sha256 sr \<noteq> rm_semantic_sha256 tr then Inl (GovernanceError ''REPLAY_TARGET_CASE_CONFLICT'')
         else bindE (copy_rows W item_id target_case (rm_id tr)
                       (filter (\<lambda>e. ev_requirement_id e = rm_id sr) (db_evidence s)) s)
           (copy_keys W item_id source_case target_case ks
              (case rm_current_result_id sr of None \<Rightarrow> origin | Some r \<Rightarrow> origin(k \<mapsto> r)))
     | _ \<Rightarrow> copy_keys W item_id source_case target_case ks origin s)"

fun invalidate_keys :: "replay_world \<Rightarrow> string \<Rightarrow> string \<Rightarrow> (string \<times> string) list \<Rightarrow> db \<Rightarrow> db res" where
  "invalidate_keys W item_id source_case [] s = Inr s"
| "invalidate_keys W item_id source_case ((k, reason) # ks) s =
     bindE (add_lineage W item_id ''REQUIREMENT'' LA_INVALIDATED (map_option rm_id (requirement_by_key source_case k s))
              None reason s)
       (invalidate_keys W item_id source_case ks)"

definition investigation_scope :: "string \<Rightarrow> string list \<Rightarrow> db \<Rightarrow> string list" where
  "investigation_scope target_case keys s =
     concat (map (\<lambda>k. case requirement_by_key target_case k s of None \<Rightarrow> [] | Some r \<Rightarrow> [rm_id r]) keys)"

record materialized =
  mz_target_case :: string
  mz_mode :: ReplayMode
  mz_profile :: string
  mz_scope :: "string list"
  mz_origin :: "string \<rightharpoonup> string"

definition update_item :: "string \<Rightarrow> (ReplayItemRecord \<Rightarrow> ReplayItemRecord) \<Rightarrow> db \<Rightarrow> db" where
  "update_item i f s = s\<lparr>db_replay_items := t_upd rp_id i f (db_replay_items s)\<rparr>"

definition target_conflict :: "ReplayItemRecord \<Rightarrow> string \<Rightarrow> db \<Rightarrow> bool" where
  "target_conflict item target_case s \<longleftrightarrow> rp_target_case_id item \<notin> {None, Some target_case}
     \<or> list_ex (\<lambda>q. rp_target_case_id q = Some target_case \<and> rp_id q \<noteq> rp_id item) (db_replay_items s)"

text \<open>What follows once the target case is there.\<close>

definition materialize_from ::
    "replay_world \<Rightarrow> ReplayItemRecord \<Rightarrow> string \<Rightarrow> string \<Rightarrow> string \<Rightarrow> db \<Rightarrow> (materialized option \<times> db) res" where
  "materialize_from W item source_case profile target s =
    (let i = rp_id item; plan = rp_plan_payload item in
     if target_conflict item target s then Inl (GovernanceError ''REPLAY_TARGET_CASE_CONFLICT'')
     else bindE (copy_keys W i source_case target (sorted_uniq (cp_reusable_requirement_keys plan)) Map.empty s)
       (\<lambda>(origin, s1). bindE (invalidate_keys W i source_case (cp_invalidations plan) s1) (\<lambda>s2.
         (let scope = investigation_scope target (cp_investigate_requirement_keys plan) s
          in Inr (Some \<lparr> mz_target_case = target, mz_mode = rp_mode item, mz_profile = profile,
                    mz_scope = scope, mz_origin = origin \<rparr>,
                  update_item i (\<lambda>x. x\<lparr>rp_target_case_id := Some target,
                    rp_status := (if scope \<noteq> [] then RI_INVESTIGATING else RI_MATERIALIZED),
                    rp_updated_at := yw_stamp W i 1\<rparr>) s2)))))"

text \<open>
  The first session of \<open>_execute_item\<close>: None when the item is missing or settled. \<open>or\<close> takes an empty
  profile for none.
\<close>

definition replay_profile :: "ReplayJobRecord \<Rightarrow> CaseRecord \<Rightarrow> string" where
  "replay_profile replay source = (if truthy (rj_model_profile replay) then the (rj_model_profile replay)
     else ca_model_profile source)"

definition materialize_body :: "replay_world \<Rightarrow> string \<Rightarrow> db \<Rightarrow> (materialized option \<times> db) res" where
  "materialize_body W item_id s = (case t_get rp_id item_id (db_replay_items s) of
     None \<Rightarrow> Inr (None, s)
   | Some item \<Rightarrow>
     (if rp_status item \<in> {RI_COMPLETED, RI_NEEDS_HUMAN_REVIEW} then Inr (None, s)
      else case (t_get rj_id (rp_replay_job_id item) (db_replay_jobs s), t_get ca_id (rp_source_case_id item) (db_cases s)) of
        (Some replay, Some source) \<Rightarrow>
          bindE (create_case (yw_env W) (yw_stamp W item_id 0) (yw_hex W item_id) (ca_video_id source)
                   (rj_policy_id replay) (rj_target_version replay) (replay_profile replay source) None s)
            (\<lambda>(bundle, s1). materialize_from W item (ca_id source) (replay_profile replay source)
               (cm_case_id (cb_case bundle)) s1)
      | _ \<Rightarrow> Inl (GovernanceError ''REPLAY_NOT_RESUMABLE'')))"

section \<open>Investigating and settling an item\<close>

definition investigate_item :: "replay_world \<Rightarrow> string \<Rightarrow> materialized \<Rightarrow> db \<Rightarrow> unit res \<times> db" where
  "investigate_item W item_id m s =
    (if mz_mode m = RM_REINVESTIGATE \<and> mz_scope m \<noteq> []
     then (case yw_dispatch W of
         None \<Rightarrow> (Inl (GovernanceError ''REPLAY_NOT_RESUMABLE''), s)
       | Some dispatch \<Rightarrow>
         (case prepare (yw_env W) (yw_settings W) (yw_stamp W item_id 2) (\<lambda>k. yw_hex W item_id (1000000 + k))
                 (mz_target_case m) (Some (mz_profile m)) (Some (mz_scope m)) s of
            (Inl e, s1) \<Rightarrow> (Inl e, s1)
          | (Inr q, s1) \<Rightarrow> (case dispatch q s1 of (x, s2) \<Rightarrow>
              (case jx_error_code x of
                 None \<Rightarrow> (Inr (), s2)
               | Some code \<Rightarrow> if code = [] then (Inr (), s2) else (Inl (GovernanceError code), s2)))))
     else (Inr (), s))"

fun result_lineage :: "replay_world \<Rightarrow> string \<Rightarrow> (string \<rightharpoonup> string) \<Rightarrow> RequirementRecord list \<Rightarrow> db \<Rightarrow> db res" where
  "result_lineage W item_id origin [] s = Inr s"
| "result_lineage W item_id origin (r # rs) s = bindE
     (case origin (rm_requirement_key r) of
        None \<Rightarrow> Inr s
      | Some o' \<Rightarrow> add_lineage W item_id ''REQUIREMENT_RESULT'' LA_REUSED (Some o') (rm_current_result_id r)
          ''REQUIREMENT_SEMANTICS_UNCHANGED'' s)
     (result_lineage W item_id origin rs)"

definition decision_change :: "DecisionRecord option \<Rightarrow> Verdict \<Rightarrow> json" where
  "decision_change source v = JObj [(''source_verdict'', jopt (\<lambda>d. JStr (str_verdict (dc_verdict d))) source),
     (''target_verdict'', JStr (str_verdict v)),
     (''changed'', JBool (case source of None \<Rightarrow> True | Some d \<Rightarrow> dc_verdict d \<noteq> v))]"

definition source_decision :: "ReplayItemRecord \<Rightarrow> db \<Rightarrow> DecisionRecord option" where
  "source_decision item s = (if truthy (rp_source_decision_id item)
     then t_get dc_id (the (rp_source_decision_id item)) (db_decisions s) else None)"

definition settle_item_body :: "replay_world \<Rightarrow> string \<Rightarrow> materialized \<Rightarrow> Decision \<Rightarrow> db \<Rightarrow> (unit \<times> db) res" where
  "settle_item_body W item_id m d s = (case t_get rp_id item_id (db_replay_items s) of
     None \<Rightarrow> Inl (GovernanceError ''REPLAY_NOT_RESUMABLE'')
   | Some item \<Rightarrow>
     bindE (result_lineage W item_id (mz_origin m)
              (filter (\<lambda>r. rm_case_id r = mz_target_case m \<and> rm_current_result_id r \<noteq> None) (db_requirements s)) s)
       (\<lambda>s1. Inr ((), update_item item_id (\<lambda>x. x\<lparr>rp_target_decision_id := Some (dv_decision_id d),
          rp_status := (if dv_verdict d = V_NEEDS_HUMAN_REVIEW then RI_NEEDS_HUMAN_REVIEW else RI_COMPLETED),
          rp_result_payload := Some (decision_change (source_decision item s) (dv_verdict d)),
          rp_updated_at := yw_stamp W item_id 4\<rparr>) s1)))"

text \<open>\<open>_execute_item\<close>.\<close>

definition execute_item :: "replay_world \<Rightarrow> string \<Rightarrow> db \<Rightarrow> unit res \<times> db" where
  "execute_item W item_id s = (case run_session (materialize_body W item_id) s of
     (Inl e, s1) \<Rightarrow> (Inl e, s1)
   | (Inr None, s1) \<Rightarrow> (Inr (), s1)
   | (Inr (Some m), s1) \<Rightarrow>
     (case investigate_item W item_id m s1 of
        (Inl e, s2) \<Rightarrow> (Inl e, s2)
      | (Inr _, s2) \<Rightarrow>
        (case finalize_case (yw_env W) (yw_stamp W item_id 3) (yw_hex W item_id 2000000) (mz_target_case m) (Some item_id)
                (mz_scope m = []) (mz_origin m) s2 of
           (Inl e, s3) \<Rightarrow> (Inl e, s3)
         | (Inr d, s3) \<Rightarrow> run_session (settle_item_body W item_id m d) s3)))"

fun execute_items :: "replay_world \<Rightarrow> string list \<Rightarrow> db \<Rightarrow> unit res \<times> db" where
  "execute_items W [] s = (Inr (), s)"
| "execute_items W (i # is) s = (case execute_item W i s of (Inl e, s1) \<Rightarrow> (Inl e, s1) | (Inr _, s1) \<Rightarrow> execute_items W is s1)"

section \<open>Completing, the handler and the views\<close>

definition items_of :: "string \<Rightarrow> db \<Rightarrow> ReplayItemRecord list" where
  "items_of replay_job_id s = filter (\<lambda>x. rp_replay_job_id x = replay_job_id) (db_replay_items s)"

definition ordered_items :: "env \<Rightarrow> string \<Rightarrow> db \<Rightarrow> ReplayItemRecord list" where
  "ordered_items E replay_job_id s = sort_by (\<lambda>a b. coll E (rp_id a) (rp_id b)) (items_of replay_job_id s)"

definition count_status :: "ReplayItemStatus \<Rightarrow> ReplayItemRecord list \<Rightarrow> int" where
  "count_status st xs = int (length (filter (\<lambda>x. rp_status x = st) xs))"

text \<open>\<open>[x for x in payloads if x]\<close>: a payload is a dictionary and is false when it is empty.\<close>

definition changes_of :: "ReplayItemRecord list \<Rightarrow> json list" where
  "changes_of xs = concat (map (\<lambda>x. case rp_result_payload x of None \<Rightarrow> [] | Some j \<Rightarrow> if j = JObj [] then [] else [j]) xs)"

definition replay_result :: "ReplayJobRecord \<Rightarrow> ReplayItemRecord list \<Rightarrow> ReplayResult" where
  "replay_result replay xs = \<lparr> yr_replay_job_id = rj_id replay, yr_processing_job_id = rj_processing_job_id replay,
     yr_status = ''SUCCEEDED'', yr_mode = rj_mode replay, yr_completed_items = count_status RI_COMPLETED xs,
     yr_human_review_items = count_status RI_NEEDS_HUMAN_REVIEW xs, yr_failed_items = count_status RI_FAILED xs,
     yr_decision_changes = changes_of xs \<rparr>"

definition complete_replay_body :: "time \<Rightarrow> string \<Rightarrow> db \<Rightarrow> (ReplayResult \<times> db) res" where
  "complete_replay_body now replay_job_id s = (case t_get rj_id replay_job_id (db_replay_jobs s) of
     None \<Rightarrow> Inl (GovernanceError ''REPLAY_NOT_RESUMABLE'')
   | Some replay \<Rightarrow>
     (let r = replay_result replay (items_of (rj_id replay) s)
      in Inr (r, update_job (rj_processing_job_id replay) (\<lambda>j. j\<lparr>jb_status := JS_SUCCEEDED, jb_finished_at := Some now,
                   jb_lease_until := None, jb_updated_at := now\<rparr>)
                 (update_replay replay_job_id (\<lambda>x. x\<lparr>rj_status := JS_SUCCEEDED,
                   rj_result_payload := Some (json_replay_result r), rj_updated_at := now\<rparr>) s))))"

definition execute_replay :: "replay_world \<Rightarrow> time \<Rightarrow> string \<Rightarrow> db \<Rightarrow> ReplayResult res \<times> db" where
  "execute_replay W now replay_job_id s =
    (case execute_items W (map rp_id (ordered_items (yw_env W) replay_job_id s)) s of
       (Inl e, s1) \<Rightarrow> (Inl e, s1)
     | (Inr _, s1) \<Rightarrow> run_session (complete_replay_body now replay_job_id) s1)"

datatype replay_view = RV_Result ReplayResult | RV_Progress string string JobStatus ReplayMode

definition replay_status :: "string \<Rightarrow> db \<Rightarrow> replay_view res" where
  "replay_status job_id s = (case replay_of_job job_id s of
     None \<Rightarrow> Inl (GovernanceError ''REPLAY_NOT_RESUMABLE'')
   | Some replay \<Rightarrow>
     (case rj_result_payload replay of
        None \<Rightarrow> Inr (RV_Progress (rj_id replay) (rj_processing_job_id replay) (rj_status replay) (rj_mode replay))
      | Some j \<Rightarrow> (if j = JObj []
          then Inr (RV_Progress (rj_id replay) (rj_processing_job_id replay) (rj_status replay) (rj_mode replay))
          else bindE (parse_replay_result j) (\<lambda>r. Inr (RV_Result r)))))"

record item_view =
  iw_replay_item_id :: string
  iw_source_case_id :: string
  iw_target_case_id :: "string option"
  iw_status :: ReplayItemStatus
  iw_result :: "json option"

definition replay_item_views :: "env \<Rightarrow> string \<Rightarrow> db \<Rightarrow> item_view list res" where
  "replay_item_views E job_id s = (case replay_of_job job_id s of
     None \<Rightarrow> Inl (GovernanceError ''REPLAY_NOT_RESUMABLE'')
   | Some replay \<Rightarrow> Inr (map (\<lambda>x. \<lparr> iw_replay_item_id = rp_id x, iw_source_case_id = rp_source_case_id x,
       iw_target_case_id = rp_target_case_id x, iw_status = rp_status x, iw_result = rp_result_payload x \<rparr>)
       (ordered_items E (rj_id replay) s)))"

text \<open>\<open>PolicyReplayJobHandler.handle\<close>. Any exception after the claim fails the replay.\<close>

definition handle_replay :: "replay_world \<Rightarrow> time \<Rightarrow> time \<Rightarrow> JobRequest \<Rightarrow> db \<Rightarrow> ReplayResult res \<times> db" where
  "handle_replay W now late q s =
    (if jq_job_type q \<noteq> ''POLICY_REPLAY'' then (Inl (JobHandlerError ''JOB_INVALID'' False), s)
     else (case dict_get ''replay_job_id'' (jq_payload q) of
       Some (JStr replay_job_id) \<Rightarrow>
         (case claim_replay now 300 q s of
            (Inl (GovernanceError code), s1) \<Rightarrow> (Inl (JobHandlerError code False), s1)
          | (Inl e, s1) \<Rightarrow> (Inl e, s1)
          | (Inr _, s1) \<Rightarrow>
            (case execute_replay W late replay_job_id s1 of
               (Inr r, s2) \<Rightarrow> (Inr r, s2)
             | (Inl (GovernanceError code), s2) \<Rightarrow>
                 (Inl (JobHandlerError code False), fail_replay late replay_job_id code s2)
             | (Inl e, s2) \<Rightarrow> (Inl e, fail_replay late replay_job_id ''REPLAY_NOT_RESUMABLE'' s2)))
     | _ \<Rightarrow> (Inl (JobHandlerError ''REPLAY_NOT_RESUMABLE'' False), s)))"

section \<open>What the operations leave of the replay tables\<close>

definition keeps_replay :: "db \<Rightarrow> db \<Rightarrow> bool" where
  "keeps_replay s s' \<longleftrightarrow> db_replay_items s' = db_replay_items s \<and> db_replay_jobs s' = db_replay_jobs s"

lemma keeps_replay_refl [simp]: "keeps_replay s s"
  by (simp add: keeps_replay_def)

lemma keeps_replay_trans [trans]: "keeps_replay s s' \<Longrightarrow> keeps_replay s' s'' \<Longrightarrow> keeps_replay s s''"
  by (simp add: keeps_replay_def)

lemma add_lineage_Inr: "add_lineage W i en ac src tgt rs s = Inr s' \<Longrightarrow> \<exists>ls. s' = s\<lparr>db_lineage := ls\<rparr>"
  by (auto simp: add_lineage_def Let_def table_simps split: option.splits intro: exI [of _ "db_lineage s"])

lemma add_lineage_keeps: "add_lineage W i en ac src tgt rs s = Inr s' \<Longrightarrow> keeps_replay s s'"
  by (drule add_lineage_Inr) (auto simp: keeps_replay_def)

lemma copy_row_Inr:
  assumes "copy_row W i tc rid e s = Inr s'"
  shows "\<exists>new ls. s' = s\<lparr>db_evidence := db_evidence s @ new, db_lineage := ls\<rparr> \<and> set new \<subseteq> {copied_evidence W i tc rid e}"
proof -
  let ?row = "copied_evidence W i tc rid e"
  obtain s1 where s1: "(if t_get ev_id (ev_id ?row) (db_evidence s) = None then insert_evidence ?row s else Inr s) = Inr s1"
    and l: "add_lineage W i ''EVIDENCE'' LA_REUSED (Some (ev_id e)) (Some (ev_id ?row)) ''REQUIREMENT_SEMANTICS_UNCHANGED'' s1 = Inr s'"
    using assms by (auto simp: copy_row_def Let_def bindE_Inr_iff)
  obtain ls where ls: "s' = s1\<lparr>db_lineage := ls\<rparr>" using add_lineage_Inr [OF l] by blast
  show ?thesis
  proof (cases "t_get ev_id (ev_id ?row) (db_evidence s) = None")
    case True
    then have "s1 = s\<lparr>db_evidence := db_evidence s @ [?row]\<rparr>" using s1 insert_evidence_Inr by auto
    then show ?thesis using ls by (intro exI [of _ "[?row]"] exI [of _ ls]) simp
  next
    case False
    then have e: "s1 = s" using s1 by auto
    show ?thesis by (rule exI [of _ "[]"], rule exI [of _ ls]) (simp add: ls e)
  qed
qed

lemma copy_rows_Inr:
  "copy_rows W i tc rid es s = Inr s' \<Longrightarrow>
    \<exists>new ls. s' = s\<lparr>db_evidence := db_evidence s @ new, db_lineage := ls\<rparr> \<and> set new \<subseteq> copied_evidence W i tc rid ` set es"
proof (induction es arbitrary: s)
  case Nil
  then show ?case by (auto intro!: exI [of _ "[]"] exI [of _ "db_lineage s"])
next
  case (Cons e es)
  then obtain s1 where a: "copy_row W i tc rid e s = Inr s1" and b: "copy_rows W i tc rid es s1 = Inr s'"
    by (auto simp: bindE_Inr_iff)
  obtain n1 l1 where 1: "s1 = s\<lparr>db_evidence := db_evidence s @ n1, db_lineage := l1\<rparr>" "set n1 \<subseteq> {copied_evidence W i tc rid e}"
    using copy_row_Inr [OF a] by blast
  obtain n2 l2 where 2: "s' = s1\<lparr>db_evidence := db_evidence s1 @ n2, db_lineage := l2\<rparr>" "set n2 \<subseteq> copied_evidence W i tc rid ` set es"
    using Cons.IH [OF b] by blast
  show ?case by (rule exI [of _ "n1 @ n2"], rule exI [of _ l2]) (use 1 2 in auto)
qed

text \<open>A row of the target case that stands for a row of the source case.\<close>

definition stands_for :: "replay_world \<Rightarrow> string \<Rightarrow> string \<Rightarrow> string \<Rightarrow> db \<Rightarrow> EvidenceRecord \<Rightarrow> bool" where
  "stands_for W item_id source_case target_case s e \<longleftrightarrow> (\<exists>k sr tr o'. requirement_by_key source_case k s = Some sr
     \<and> requirement_by_key target_case k s = Some tr \<and> rm_semantic_sha256 sr = rm_semantic_sha256 tr
     \<and> ev_requirement_id o' = rm_id sr \<and> e = copied_evidence W item_id target_case (rm_id tr) o'
     \<and> (o' \<in> set (db_evidence s) \<or> ev_case_id o' = target_case))"

lemma requirement_by_key_cong: "db_requirements s' = db_requirements s \<Longrightarrow> requirement_by_key c k s' = requirement_by_key c k s"
  by (simp add: requirement_by_key_def)

lemma copied_evidence_case [simp]: "ev_case_id (copied_evidence W i tc rid e) = tc"
  by (simp add: copied_evidence_def Let_def)

lemma copy_keys_Inr:
  "copy_keys W i sc tc ks org s = Inr (org', s') \<Longrightarrow>
    \<exists>new ls. s' = s\<lparr>db_evidence := db_evidence s @ new, db_lineage := ls\<rparr> \<and> (\<forall>e\<in>set new. stands_for W i sc tc s e)"
proof (induction ks arbitrary: org s)
  case Nil
  then show ?case by (auto intro!: exI [of _ "[]"] exI [of _ "db_lineage s"])
next
  case (Cons k ks)
  show ?case
  proof (cases "requirement_by_key sc k s")
    case None
    then show ?thesis using Cons by simp
  next
    case sr: (Some sr)
    show ?thesis
    proof (cases "requirement_by_key tc k s")
      case None
      then show ?thesis using Cons sr by simp
    next
      case tr: (Some tr)
      let ?es = "filter (\<lambda>e. ev_requirement_id e = rm_id sr) (db_evidence s)"
      have sha: "rm_semantic_sha256 sr = rm_semantic_sha256 tr" using Cons.prems sr tr by (auto split: if_splits)
      obtain s1 org1 where a: "copy_rows W i tc (rm_id tr) ?es s = Inr s1" and b: "copy_keys W i sc tc ks org1 s1 = Inr (org', s')"
        using Cons.prems sr tr sha by (auto simp: bindE_Inr_iff)
      obtain n1 l1 where 1: "s1 = s\<lparr>db_evidence := db_evidence s @ n1, db_lineage := l1\<rparr>"
        "set n1 \<subseteq> copied_evidence W i tc (rm_id tr) ` set ?es" using copy_rows_Inr [OF a] by blast
      obtain n2 l2 where 2: "s' = s1\<lparr>db_evidence := db_evidence s1 @ n2, db_lineage := l2\<rparr>"
        "\<forall>e\<in>set n2. stands_for W i sc tc s1 e" using Cons.IH [OF b] by blast
      have c1: "stands_for W i sc tc s e" if e: "e \<in> set n1" for e
      proof -
        obtain o' where "o' \<in> set ?es" "e = copied_evidence W i tc (rm_id tr) o'" using e 1(2) by blast
        then show ?thesis unfolding stands_for_def using sr tr sha
          by (intro exI [of _ k] exI [of _ sr] exI [of _ tr] exI [of _ o']) simp
      qed
      have q: "requirement_by_key c k' s1 = requirement_by_key c k' s" for c k'
        by (rule requirement_by_key_cong) (simp add: 1(1))
      have t: "ev_case_id e = tc" if "e \<in> set n1" for e using that 1(2) by auto
      have c2: "stands_for W i sc tc s e" if e: "e \<in> set n2" for e
      proof -
        obtain k' sr' tr' o' where o: "requirement_by_key sc k' s = Some sr'" "requirement_by_key tc k' s = Some tr'"
          "rm_semantic_sha256 sr' = rm_semantic_sha256 tr'" "ev_requirement_id o' = rm_id sr'"
          "e = copied_evidence W i tc (rm_id tr') o'" "o' \<in> set (db_evidence s1) \<or> ev_case_id o' = tc"
          using 2(2) [rule_format, OF e] unfolding stands_for_def q by blast
        have "o' \<in> set (db_evidence s) \<or> ev_case_id o' = tc" using o(6) t by (auto simp: 1(1))
        then show ?thesis unfolding stands_for_def using o(1-5)
          by (intro exI [of _ k'] exI [of _ sr'] exI [of _ tr'] exI [of _ o']) simp
      qed
      show ?thesis by (rule exI [of _ "n1 @ n2"], rule exI [of _ l2]) (use 1(1) 2(1) c1 c2 in auto)
    qed
  qed
qed

lemma invalidate_keys_Inr: "invalidate_keys W i sc ks s = Inr s' \<Longrightarrow> \<exists>ls. s' = s\<lparr>db_lineage := ls\<rparr>"
proof (induction ks arbitrary: s rule: list.induct)
  case Nil
  then show ?case by (auto intro: exI [of _ "db_lineage s"])
next
  case (Cons kr ks)
  obtain k r where kr: "kr = (k, r)" by (cases kr)
  obtain s1 where a: "add_lineage W i ''REQUIREMENT'' LA_INVALIDATED (map_option rm_id (requirement_by_key sc k s)) None r s = Inr s1"
    and b: "invalidate_keys W i sc ks s1 = Inr s'" using Cons.prems kr by (auto simp: bindE_Inr_iff)
  show ?case using add_lineage_Inr [OF a] Cons.IH [OF b] by auto
qed

lemma create_case_appends:
  assumes "create_case E now hex vid pid v prof cid s = Inr (b, s')"
  shows "\<exists>cs rs. s' = s\<lparr>db_cases := db_cases s @ cs, db_requirements := db_requirements s @ rs\<rparr>
    \<and> (\<forall>c\<in>set cs. ca_current_decision_id c = None)"
  using assms
proof (cases rule: create_case_cases)
  case (found c)
  then show ?thesis by (intro exI [of _ "[]"]) simp
next
  case (created p)
  then show ?thesis using instantiate_case_Inr [OF created(4)] by (auto simp: Let_def)
qed

section \<open>Materializing copies and changes nothing else\<close>

definition settled_item :: "ReplayItemRecord \<Rightarrow> bool" where
  "settled_item x \<longleftrightarrow> rp_status x \<in> {RI_COMPLETED, RI_NEEDS_HUMAN_REVIEW}"

lemma materialize_from_Inr:
  assumes "materialize_from W item sc prof tc s = Inr (r, s')"
  obtains m new ls st where "r = Some m" and "mz_target_case m = tc"
    and "cp_investigate_requirement_keys (rp_plan_payload item) = [] \<Longrightarrow> mz_scope m = []"
    and "s' = s\<lparr>db_evidence := db_evidence s @ new, db_lineage := ls, db_replay_items := t_upd rp_id (rp_id item)
           (\<lambda>x. x\<lparr>rp_target_case_id := Some tc, rp_status := st, rp_updated_at := yw_stamp W (rp_id item) 1\<rparr>) (db_replay_items s)\<rparr>"
    and "\<forall>e\<in>set new. stands_for W (rp_id item) sc tc s e"
proof -
  from assms obtain org s1 s2 where ck: "copy_keys W (rp_id item) sc tc
        (sorted_uniq (cp_reusable_requirement_keys (rp_plan_payload item))) Map.empty s = Inr (org, s1)"
    and iv: "invalidate_keys W (rp_id item) sc (cp_invalidations (rp_plan_payload item)) s1 = Inr s2"
    by (auto simp: materialize_from_def Let_def bindE_Inr_iff split: if_split_asm)
  let ?scope = "investigation_scope tc (cp_investigate_requirement_keys (rp_plan_payload item)) s"
  have r: "r = Some \<lparr> mz_target_case = tc, mz_mode = rp_mode item, mz_profile = prof, mz_scope = ?scope, mz_origin = org \<rparr>"
    and s': "s' = update_item (rp_id item) (\<lambda>x. x\<lparr>rp_target_case_id := Some tc,
        rp_status := (if ?scope \<noteq> [] then RI_INVESTIGATING else RI_MATERIALIZED), rp_updated_at := yw_stamp W (rp_id item) 1\<rparr>) s2"
    using assms ck iv by (simp_all add: materialize_from_def Let_def split: if_split_asm)
  obtain new l1 where 1: "s1 = s\<lparr>db_evidence := db_evidence s @ new, db_lineage := l1\<rparr>"
    "\<forall>e\<in>set new. stands_for W (rp_id item) sc tc s e" using copy_keys_Inr [OF ck] by blast
  obtain l2 where 2: "s2 = s1\<lparr>db_lineage := l2\<rparr>" using invalidate_keys_Inr [OF iv] by blast
  show ?thesis
    by (rule that [OF r, where new = new and ls = l2 and st = "if ?scope \<noteq> [] then RI_INVESTIGATING else RI_MATERIALIZED"])
      (use 1 2 s' in \<open>simp_all add: update_item_def investigation_scope_def\<close>)
qed

lemma materialize_cases:
  assumes "materialize_body W i s = Inr (r, s')"
  obtains (idle) "r = None" and "s' = s" and "\<forall>x. t_get rp_id i (db_replay_items s) = Some x \<longrightarrow> settled_item x"
  | (made) item m cs rs new ls st where "r = Some m" and "t_get rp_id i (db_replay_items s) = Some item" and "\<not> settled_item item"
      and "s' = s\<lparr>db_cases := db_cases s @ cs, db_requirements := db_requirements s @ rs, db_evidence := db_evidence s @ new,
             db_lineage := ls, db_replay_items := t_upd rp_id i (\<lambda>x. x\<lparr>rp_target_case_id := Some (mz_target_case m),
               rp_status := st, rp_updated_at := yw_stamp W i 1\<rparr>) (db_replay_items s)\<rparr>"
      and "\<forall>e\<in>set new. stands_for W i (rp_source_case_id item) (mz_target_case m)
             (s\<lparr>db_cases := db_cases s @ cs, db_requirements := db_requirements s @ rs\<rparr>) e"
      and "\<forall>c\<in>set cs. ca_current_decision_id c = None"
      and "cp_investigate_requirement_keys (rp_plan_payload item) = [] \<Longrightarrow> mz_scope m = []"
proof (cases "t_get rp_id i (db_replay_items s)")
  case None
  then have "r = None" "s' = s" using assms by (simp_all add: materialize_body_def)
  then show ?thesis by (rule idle) (simp add: None)
next
  case item: (Some item)
  show ?thesis
  proof (cases "settled_item item")
    case True
    then have "r = None" "s' = s" using assms item by (auto simp: materialize_body_def settled_item_def)
    then show ?thesis by (rule idle) (simp add: item True)
  next
    case False
    then obtain replay source where rp: "t_get rj_id (rp_replay_job_id item) (db_replay_jobs s) = Some replay"
      and src: "t_get ca_id (rp_source_case_id item) (db_cases s) = Some source"
      using assms item by (auto simp: materialize_body_def settled_item_def split: option.splits)
    from assms item rp src False obtain b s1 where
        cc: "create_case (yw_env W) (yw_stamp W i 0) (yw_hex W i) (ca_video_id source)
          (rj_policy_id replay) (rj_target_version replay) (replay_profile replay source) None s = Inr (b, s1)"
      and mf: "materialize_from W item (ca_id source) (replay_profile replay source) (cm_case_id (cb_case b)) s1 = Inr (r, s')"
      by (auto simp: materialize_body_def settled_item_def bindE_Inr_iff)
    have ids: "rp_id item = i" "ca_id source = rp_source_case_id item" using t_get_Some [OF item] t_get_Some [OF src] by simp_all
    obtain cs rs where 1: "s1 = s\<lparr>db_cases := db_cases s @ cs, db_requirements := db_requirements s @ rs\<rparr>"
      "\<forall>c\<in>set cs. ca_current_decision_id c = None"
      using create_case_appends [OF cc] by blast
    obtain m new ls st where m: "r = Some m" "mz_target_case m = cm_case_id (cb_case b)"
      "s' = s1\<lparr>db_evidence := db_evidence s1 @ new, db_lineage := ls, db_replay_items := t_upd rp_id i
           (\<lambda>x. x\<lparr>rp_target_case_id := Some (cm_case_id (cb_case b)), rp_status := st, rp_updated_at := yw_stamp W i 1\<rparr>) (db_replay_items s1)\<rparr>"
      "\<forall>e\<in>set new. stands_for W i (rp_source_case_id item) (cm_case_id (cb_case b)) s1 e"
      "cp_investigate_requirement_keys (rp_plan_payload item) = [] \<Longrightarrow> mz_scope m = []"
      using materialize_from_Inr [OF mf] unfolding ids by metis
    show ?thesis
      by (rule made [OF m(1) item False, where cs = cs and rs = rs and new = new and ls = ls and st = st])
        (use 1 m in simp_all)
  qed
qed

lemma stands_for_copy:
  assumes "stands_for W i sc tc s e"
  obtains o' sr tr where "e = copied_evidence W i tc (rm_id tr) o'" and "sr \<in> set (db_requirements s)" and "tr \<in> set (db_requirements s)"
    and "rm_case_id sr = sc" and "rm_case_id tr = tc" and "rm_requirement_key sr = rm_requirement_key tr"
    and "rm_semantic_sha256 sr = rm_semantic_sha256 tr" and "ev_requirement_id o' = rm_id sr"
    and "o' \<in> set (db_evidence s) \<or> ev_case_id o' = tc"
proof -
  obtain k sr tr o' where o: "requirement_by_key sc k s = Some sr" "requirement_by_key tc k s = Some tr"
    "rm_semantic_sha256 sr = rm_semantic_sha256 tr" "ev_requirement_id o' = rm_id sr"
    "e = copied_evidence W i tc (rm_id tr) o'" "o' \<in> set (db_evidence s) \<or> ev_case_id o' = tc"
    using assms unfolding stands_for_def by blast
  have "sr \<in> set (db_requirements s) \<and> rm_case_id sr = sc \<and> rm_requirement_key sr = k"
    and "tr \<in> set (db_requirements s) \<and> rm_case_id tr = tc \<and> rm_requirement_key tr = k"
    using o(1,2) by (auto simp: requirement_by_key_def find_Some_iff)
  then show ?thesis by (intro that [of tr o' sr]) (use o in auto)
qed

text \<open>What one row keeps of the row it was copied from.\<close>

definition same_finding :: "EvidenceRecord \<Rightarrow> EvidenceRecord \<Rightarrow> bool" where
  "same_finding o' e \<longleftrightarrow> ev_origin_evidence_id e = Some (ev_id o') \<and> ev_stance e = ev_stance o' \<and> ev_modality e = ev_modality o'
     \<and> ev_start_ms e = ev_start_ms o' \<and> ev_end_ms e = ev_end_ms o' \<and> ev_artifact_id e = ev_artifact_id o'
     \<and> ev_source_ref e = ev_source_ref o' \<and> ev_summary e = ev_summary o' \<and> ev_confidence e = ev_confidence o'"


end
