(* ===== verification/ReplaySettle.thy ===== *)
theory ReplaySettle
  imports ReplayRun
begin

text \<open>
  What a replay comes to: which tables its parts leave alone, that a successful execution settles every
  item on a machine decision of its target case, that executing again changes no item and gives the same
  result, that the stored result reads back, and that a case is replayed to a version at most once.
\<close>

section \<open>What the parts leave of the governance tables\<close>

definition keeps_governance :: "db \<Rightarrow> db \<Rightarrow> bool" where
  "keeps_governance s s' \<longleftrightarrow> keeps_replay s s' \<and> db_decisions s' = db_decisions s \<and> (decisions_ok s \<longrightarrow> decisions_ok s')"

lemma keeps_governance_refl [simp]: "keeps_governance s s"
  by (simp add: keeps_governance_def)

lemma keeps_governance_trans: "keeps_governance s s' \<Longrightarrow> keeps_governance s' s'' \<Longrightarrow> keeps_governance s s''"
  by (auto simp: keeps_governance_def keeps_replay_def)

lemma decisions_ok_cases:
  assumes "decisions_ok s" and "db_decisions s' = db_decisions s" and "db_decision_evidence s' = db_decision_evidence s"
    and "db_decision_results s' = db_decision_results s"
    and "\<And>c. c \<in> set (db_cases s') \<Longrightarrow> ca_current_decision_id c = None
       \<or> (\<exists>c0\<in>set (db_cases s). ca_id c0 = ca_id c \<and> ca_current_decision_id c0 = ca_current_decision_id c)"
  shows "decisions_ok s'"
proof -
  have "\<exists>d\<in>set (db_decisions s). dc_id d = i \<and> dc_case_id d = ca_id c"
    if "c \<in> set (db_cases s')" and "ca_current_decision_id c = Some i" for c i
    using assms(1) assms(5) [OF that(1)] that(2) unfolding decisions_ok_def by (metis option.distinct(1))
  then show ?thesis using assms(1-4) by (simp add: decisions_ok_def flog.log_numbered_def)
qed

lemma aggregate_all_replay:
  "aggregate_all E now cfg org i rs s = Inr (os, s') \<Longrightarrow> keeps_replay s s' \<and> db_steps s' = db_steps s \<and> db_jobs s' = db_jobs s"
proof (induction rs arbitrary: s os)
  case Nil
  then show ?case by simp
next
  case (Cons r rs)
  then obtain out s1 os' where a: "aggregate E now r cfg (org (rm_requirement_key r)) i s = Inr (out, s1)"
    and b: "aggregate_all E now cfg org i rs s1 = Inr (os', s')"
    by (auto simp: bindE_Inr_iff)
  have "keeps_replay s s1 \<and> db_steps s1 = db_steps s \<and> db_jobs s1 = db_jobs s"
    using a by (cases rule: aggregate_cases) (simp_all add: keeps_replay_def)
  then show ?case using Cons.IH [OF b] by (auto simp: keeps_replay_def)
qed

lemma conclude_case_replay:
  assumes "conclude_case E now hex c run os ev item s = Inr (d, s')"
  shows "keeps_replay s s' \<and> db_steps s' = db_steps s \<and> db_jobs s' = db_jobs s \<and> db_tools s' = db_tools s \<and> db_calls s' = db_calls s"
  using assms
proof (cases rule: conclude_case_cases)
  case (reused existing)
  then show ?thesis by (simp add: keeps_replay_def)
next
  case (written rec)
  then show ?thesis using store_decision_Inr(1) [OF written(4)] by (simp add: keeps_replay_def)
qed

text \<open>Finalization writes neither replay rows nor anything of an investigation.\<close>

lemma finalize_case_replay:
  assumes "finalize_case E now hex cid item allow org s = (r, s')"
  shows "keeps_replay s s' \<and> db_runs s' = db_runs s \<and> db_steps s' = db_steps s \<and> db_tools s' = db_tools s
    \<and> db_calls s' = db_calls s \<and> db_jobs s' = db_jobs s"
proof (cases "finalize_body E now hex cid item allow org s")
  case (Inl e)
  then show ?thesis using assms by (auto simp: finalize_case_def)
next
  case (Inr x)
  then have "finalize_body E now hex cid item allow org s = Inr (fst x, s')"
    using assms by (cases x) (auto simp: finalize_case_def)
  then show ?thesis
  proof (cases rule: finalize_body_cases)
    case (1 c p os s1 ev)
    show ?thesis
      using aggregate_all_frame [OF 1(6)] aggregate_all_replay [OF 1(6)] conclude_case_frame [OF 1(8)] conclude_case_replay [OF 1(8)]
        keeps_replay_trans [of s s1 s'] by auto
  qed
qed

lemma insert_job_Inr: "insert_job j s = Inr s' \<Longrightarrow> \<exists>js. s' = s\<lparr>db_jobs := js\<rparr>"
  by (auto simp: insert_job_def bindE_Inr_iff split: if_splits)

lemma insert_run_Inr: "insert_run r s = Inr s' \<Longrightarrow> \<exists>rs. s' = s\<lparr>db_runs := rs\<rparr>"
  by (auto simp: insert_run_def bindE_Inr_iff split: if_splits)

lemma create_run_tables:
  assumes "create_run E C now hex c p rq sco s = Inr (q, s')"
  shows "\<exists>f js rs. s' = s\<lparr>db_cases := t_upd ca_id (ca_id c) f (db_cases s), db_jobs := js, db_runs := rs\<rparr>
    \<and> (\<forall>q. ca_current_decision_id (f q) = ca_current_decision_id q \<and> ca_id (f q) = ca_id q)"
proof -
  let ?f = "\<lambda>q. if ca_model_profile q = p then q else q\<lparr>ca_model_profile := p, ca_updated_at := now\<rparr>"
  from assms obtain j r s1 where "insert_job j (update_case (ca_id c) ?f s) = Inr s1" and "insert_run r s1 = Inr s'"
    unfolding create_run_def Let_def bindE_Inr_iff by blast
  then obtain js rs where "s1 = (update_case (ca_id c) ?f s)\<lparr>db_jobs := js\<rparr>" "s' = s1\<lparr>db_runs := rs\<rparr>"
    using insert_job_Inr insert_run_Inr by meson
  then show ?thesis by (intro exI [of _ ?f] exI [of _ js] exI [of _ rs]) (simp add: update_case_def)
qed

lemma prepare_governance:
  assumes "prepare E C now hex cid prof sc s = (r, s')"
  shows "keeps_governance s s'"
proof (cases "prepare_body E C now hex cid prof sc s")
  case (Inl e)
  then show ?thesis using assms by (auto simp: prepare_def)
next
  case (Inr x)
  then obtain q where x: "prepare_body E C now hex cid prof sc s = Inr (q, s')"
    using assms by (cases x) (auto simp: prepare_def)
  show ?thesis
  proof (cases "s' = s")
    case False
    then obtain c p rq sco where cr: "create_run E C now hex c p rq sco s = Inr (q, s')"
      using x by (auto simp: prepare_body_def Let_def bindE_Inr_iff split: option.splits if_splits)
    obtain f js rs where s': "s' = s\<lparr>db_cases := t_upd ca_id (ca_id c) f (db_cases s), db_jobs := js, db_runs := rs\<rparr>"
      and f: "\<forall>q. ca_current_decision_id (f q) = ca_current_decision_id q \<and> ca_id (f q) = ca_id q"
      using create_run_tables [OF cr] by blast
    have "decisions_ok s'" if "decisions_ok s"
      by (rule decisions_ok_cases [OF that]) (use f in \<open>auto simp: s' t_upd_def\<close>)
    then show ?thesis by (simp add: keeps_governance_def keeps_replay_def s')
  qed simp
qed

lemma create_case_governance:
  assumes "create_case E now hex vid pid v prof cid s = Inr (b, s')"
  shows "keeps_governance s s' \<and> db_runs s' = db_runs s \<and> db_steps s' = db_steps s \<and> db_tools s' = db_tools s \<and> db_calls s' = db_calls s"
  using assms
proof (cases rule: create_case_cases)
  case (found c)
  then show ?thesis by simp
next
  case (created p)
  let ?c = "new_case_row (fresh_case_id hex cid) vid pid v prof now"
  obtain rs where s': "s' = s\<lparr>db_cases := db_cases s @ [?c], db_requirements := rs\<rparr>"
    using instantiate_case_Inr [OF created(4)] by (auto simp: Let_def)
  have "decisions_ok s'" if "decisions_ok s"
    by (rule decisions_ok_cases [OF that]) (auto simp: s')
  then show ?thesis by (simp add: keeps_governance_def keeps_replay_def s')
qed


section \<open>Executing an item\<close>

definition dispatch_keeps :: "replay_world \<Rightarrow> bool" where
  "dispatch_keeps W \<longleftrightarrow> (\<forall>dispatch q s. yw_dispatch W = Some dispatch \<longrightarrow> keeps_governance s (snd (dispatch q s)))"

lemma investigate_item_keeps:
  assumes "investigate_item W i m s = (r, s')" and "dispatch_keeps W"
  shows "keeps_governance s s'"
proof (cases "mz_mode m = RM_REINVESTIGATE \<and> mz_scope m \<noteq> [] \<and> yw_dispatch W \<noteq> None")
  case True
  then obtain dispatch where d: "yw_dispatch W = Some dispatch" by blast
  let ?P = "prepare (yw_env W) (yw_settings W) (yw_stamp W i 2) (\<lambda>k. yw_hex W i (1000000 + k))
    (mz_target_case m) (Some (mz_profile m)) (Some (mz_scope m)) s"
  obtain p s1 where p: "?P = (p, s1)" by fastforce
  note k = prepare_governance [OF p]
  show ?thesis
  proof (cases p)
    case (Inl e)
    then show ?thesis using assms True d p k by (simp add: investigate_item_def)
  next
    case (Inr q)
    have "s' = snd (dispatch q s1)"
      using assms(1) True d p Inr by (auto simp: investigate_item_def split: prod.splits option.splits if_splits)
    then show ?thesis using keeps_governance_trans [OF k] assms(2) d by (simp add: dispatch_keeps_def)
  qed
next
  case False
  then show ?thesis using assms(1) by (auto simp: investigate_item_def split: if_splits)
qed

lemma investigate_item_nothing: "mz_scope m = [] \<Longrightarrow> investigate_item W i m s = (Inr (), s)"
  by (simp add: investigate_item_def)

lemma result_lineage_Inr: "result_lineage W i org rs s = Inr s' \<Longrightarrow> \<exists>ls. s' = s\<lparr>db_lineage := ls\<rparr>"
proof (induction rs arbitrary: s)
  case Nil
  then show ?case by (auto intro: exI [of _ "db_lineage s"])
next
  case (Cons r rs)
  then obtain s1 where a: "(case org (rm_requirement_key r) of None \<Rightarrow> Inr s
      | Some o' \<Rightarrow> add_lineage W i ''REQUIREMENT_RESULT'' LA_REUSED (Some o') (rm_current_result_id r)
          ''REQUIREMENT_SEMANTICS_UNCHANGED'' s) = Inr s1" and b: "result_lineage W i org rs s1 = Inr s'"
    by (auto simp: bindE_Inr_iff)
  have "\<exists>ls. s1 = s\<lparr>db_lineage := ls\<rparr>"
    using a add_lineage_Inr by (cases "org (rm_requirement_key r)") (auto intro: exI [of _ "db_lineage s"])
  then show ?case using Cons.IH [OF b] by auto
qed

definition decision_status :: "Verdict \<Rightarrow> ReplayItemStatus" where
  "decision_status v = (if v = V_NEEDS_HUMAN_REVIEW then RI_NEEDS_HUMAN_REVIEW else RI_COMPLETED)"

lemma settle_item_Inr:
  assumes "settle_item_body W i m d s = Inr (y, s')"
  obtains ls chg where "s' = s\<lparr>db_lineage := ls, db_replay_items := t_upd rp_id i
      (\<lambda>x. x\<lparr>rp_target_decision_id := Some (dv_decision_id d), rp_status := decision_status (dv_verdict d),
        rp_result_payload := Some chg, rp_updated_at := yw_stamp W i 4\<rparr>) (db_replay_items s)\<rparr>"
proof -
  from assms obtain item s1 where it: "t_get rp_id i (db_replay_items s) = Some item"
    and l: "result_lineage W i (mz_origin m)
      (filter (\<lambda>r. rm_case_id r = mz_target_case m \<and> rm_current_result_id r \<noteq> None) (db_requirements s)) s = Inr s1"
    by (auto simp: settle_item_body_def bindE_Inr_iff split: option.splits)
  obtain ls where "s1 = s\<lparr>db_lineage := ls\<rparr>" using result_lineage_Inr [OF l] by blast
  then show ?thesis using assms it l
    by (intro that [where ls = ls and chg = "decision_change (source_decision item s) (dv_verdict d)"])
       (simp add: settle_item_body_def update_item_def decision_status_def)
qed

text \<open>The item rests on a stored machine decision of its target case.\<close>

definition decided_item :: "db \<Rightarrow> ReplayItemRecord \<Rightarrow> bool" where
  "decided_item s x \<longleftrightarrow> (\<exists>d\<in>set (db_decisions s). rp_target_decision_id x = Some (dc_id d) \<and> dc_source d = DS_MACHINE
     \<and> rp_target_case_id x = Some (dc_case_id d) \<and> rp_status x = decision_status (dc_verdict d))"

lemma decided_item_settled: "decided_item s x \<Longrightarrow> settled_item x"
  by (auto simp: decided_item_def settled_item_def decision_status_def)

lemma decided_item_mono: "decided_item s x \<Longrightarrow> set (db_decisions s) \<subseteq> set (db_decisions s') \<Longrightarrow> decided_item s' x"
  by (auto simp: decided_item_def)

text \<open>What executing the items of \<open>I\<close> does to the table: open ones get decided, all others stay.\<close>

definition item_moved :: "string set \<Rightarrow> db \<Rightarrow> ReplayItemRecord \<Rightarrow> ReplayItemRecord \<Rightarrow> bool" where
  "item_moved I s' x y \<longleftrightarrow> rp_id y = rp_id x \<and> rp_replay_job_id y = rp_replay_job_id x
     \<and> (if rp_id x \<in> I \<and> \<not> settled_item x then decided_item s' y else y = x)"

definition items_step :: "string set \<Rightarrow> db \<Rightarrow> db \<Rightarrow> bool" where
  "items_step I s s' \<longleftrightarrow> list_all2 (item_moved I s') (db_replay_items s) (db_replay_items s')
     \<and> db_replay_jobs s' = db_replay_jobs s \<and> decisions_ok s' \<and> set (db_decisions s) \<subseteq> set (db_decisions s')"

lemma item_moved_trans:
  assumes "item_moved I s1 x y" and "item_moved J s2 y z" and "set (db_decisions s1) \<subseteq> set (db_decisions s2)"
  shows "item_moved (I \<union> J) s2 x z"
proof (cases "rp_id x \<in> I \<and> \<not> settled_item x")
  case True
  then have "decided_item s1 y" using assms(1) by (simp add: item_moved_def)
  then show ?thesis using True assms decided_item_settled decided_item_mono by (auto simp: item_moved_def)
next
  case False
  then have "y = x" using assms(1) by (simp add: item_moved_def)
  then show ?thesis using False assms(2) by (auto simp: item_moved_def)
qed

lemma items_step_trans:
  assumes "items_step I s s1" and "items_step J s1 s2"
  shows "items_step (I \<union> J) s s2"
proof -
  have m: "set (db_decisions s1) \<subseteq> set (db_decisions s2)" using assms(2) by (simp add: items_step_def)
  have "list_all2 (item_moved (I \<union> J) s2) (db_replay_items s) (db_replay_items s2)"
    by (rule list_all2_trans [where ?P1.0 = "item_moved I s1" and ?P2.0 = "item_moved J s2"])
       (use assms m item_moved_trans in \<open>auto simp: items_step_def\<close>)
  then show ?thesis using assms by (auto simp: items_step_def)
qed

lemma items_step_refl: "decisions_ok s \<Longrightarrow> \<forall>x\<in>set (db_replay_items s). rp_id x \<in> I \<longrightarrow> settled_item x \<Longrightarrow> items_step I s s"
  by (auto simp: items_step_def item_moved_def intro!: list_all2_refl list.rel_refl_strong)

lemma items_step_distinct: "items_step I s s' \<Longrightarrow> keys_distinct rp_id (db_replay_items s) \<Longrightarrow> keys_distinct rp_id (db_replay_items s')"
proof -
  assume a: "items_step I s s'" and b: "keys_distinct rp_id (db_replay_items s)"
  have "map rp_id (db_replay_items s') = map rp_id (db_replay_items s)"
    using a by (auto simp: items_step_def item_moved_def list_all2_conv_all_nth intro!: nth_equalityI)
  then show ?thesis using b by (simp add: keys_distinct_def)
qed

lemma finalize_decides:
  assumes "finalize_case E now hex cid item allow org s = (Inr d, s')" and "decisions_ok s"
  shows "decisions_ok s' \<and> set (db_decisions s) \<subseteq> set (db_decisions s')
    \<and> (\<exists>r\<in>set (db_decisions s'). dc_id r = dv_decision_id d \<and> dc_source r = DS_MACHINE \<and> dc_case_id r = cid \<and> dc_verdict r = dv_verdict d)"
proof -
  note f = finalize_case_result [OF assms]
  then have "get_current_decision E cid s' = Inr d" by simp
  then obtain i r where "t_get dc_id i (db_decisions s') = Some r" "d = decision_view E s' r"
    by (auto simp: get_current_decision_def split: option.splits)
  moreover from this have "r \<in> set (db_decisions s')" using t_get_Some by metis
  ultimately show ?thesis using f by (intro conjI bexI [of _ r]) auto
qed


lemma execute_item_settles:
  assumes ex: "execute_item W i s = (Inr y, s')" and dk: "dispatch_keeps W" and ok: "decisions_ok s"
    and dst: "keys_distinct rp_id (db_replay_items s)"
  shows "items_step {i} s s'"
proof -
  obtain om s1 where m0: "run_session (materialize_body W i) s = (Inr om, s1)"
    using ex by (auto simp: execute_item_def split: prod.splits sum.splits option.splits)
  then have "materialize_body W i s = Inr (om, s1)" by (simp add: run_session_Inr_iff)
  then show ?thesis
  proof (cases rule: materialize_cases)
    case idle
    have "settled_item x" if "x \<in> set (db_replay_items s)" "rp_id x = i" for x
      using idle(3) t_get_complete [OF dst that(1)] that(2) by simp
    then show ?thesis using items_step_refl [OF ok] ex m0 idle(1,2) by (simp add: execute_item_def)
  next
    case (made item m cs rs new ls st)
    obtain s2 where inv: "investigate_item W i m s1 = (Inr (), s2)"
      using ex m0 made(1) by (auto simp: execute_item_def split: prod.splits sum.splits)
    obtain d s3 where fin: "finalize_case (yw_env W) (yw_stamp W i 3) (yw_hex W i 2000000) (mz_target_case m) (Some i)
        (mz_scope m = []) (mz_origin m) s2 = (Inr d, s3)"
      using ex m0 made(1) inv by (auto simp: execute_item_def split: prod.splits sum.splits)
    have "run_session (settle_item_body W i m d) s3 = (Inr y, s')"
      using ex m0 made(1) inv fin by (simp add: execute_item_def)
    then have "settle_item_body W i m d s3 = Inr (y, s')" by (simp add: run_session_Inr_iff)
    then obtain ls' chg where s': "s' = s3\<lparr>db_lineage := ls', db_replay_items := t_upd rp_id i
      (\<lambda>x. x\<lparr>rp_target_decision_id := Some (dv_decision_id d), rp_status := decision_status (dv_verdict d),
        rp_result_payload := Some chg, rp_updated_at := yw_stamp W i 4\<rparr>) (db_replay_items s3)\<rparr>"
      by (rule settle_item_Inr)
    have ok1: "decisions_ok s1"
      by (rule decisions_ok_cases [OF ok]) (use made(6) in \<open>auto simp: made(4)\<close>)
    have k2: "keeps_governance s1 s2" by (rule investigate_item_keeps [OF inv dk])
    then have ok2: "decisions_ok s2" using ok1 by (simp add: keeps_governance_def)
    note f = finalize_decides [OF fin ok2] and k3 = finalize_case_replay [OF fin]
    obtain r where r: "r \<in> set (db_decisions s')" "dc_id r = dv_decision_id d" "dc_source r = DS_MACHINE"
      "dc_case_id r = mz_target_case m" "dc_verdict r = dv_verdict d" using f by (auto simp: s')
    have it: "db_replay_items s' = map (\<lambda>x. if rp_id x = i then x\<lparr>rp_target_case_id := Some (mz_target_case m),
        rp_target_decision_id := Some (dv_decision_id d), rp_status := decision_status (dv_verdict d),
        rp_result_payload := Some chg, rp_updated_at := yw_stamp W i 4\<rparr> else x) (db_replay_items s)"
      using k2 k3 by (simp add: s' keeps_governance_def keeps_replay_def made(4) t_upd_def)
    have "item_moved {i} s' x (if rp_id x = i then x\<lparr>rp_target_case_id := Some (mz_target_case m),
        rp_target_decision_id := Some (dv_decision_id d), rp_status := decision_status (dv_verdict d),
        rp_result_payload := Some chg, rp_updated_at := yw_stamp W i 4\<rparr> else x)"
      if x: "x \<in> set (db_replay_items s)" for x
    proof (cases "rp_id x = i")
      case True
      then have "x = item" using t_get_complete [OF dst x] made(2) by simp
      then have "\<not> settled_item x" using made(3) by simp
      then show ?thesis using True r(2-5) by (simp add: item_moved_def decided_item_def) (rule bexI [OF _ r(1)], simp)
    qed (simp add: item_moved_def)
    then have "list_all2 (item_moved {i} s') (db_replay_items s) (db_replay_items s')"
      unfolding it by (simp add: list.rel_map(2) list.rel_refl_strong)
    moreover have "decisions_ok s'" using f decisions_ok_frame [of s' s3] by (simp add: s')
    moreover have "set (db_decisions s) \<subseteq> set (db_decisions s')" "db_replay_jobs s' = db_replay_jobs s"
      using f k2 k3 by (auto simp: s' keeps_governance_def keeps_replay_def made(4))
    ultimately show ?thesis by (simp add: items_step_def)
  qed
qed

lemma execute_items_settle:
  "execute_items W is s = (Inr y, s') \<Longrightarrow> dispatch_keeps W \<Longrightarrow> decisions_ok s
    \<Longrightarrow> keys_distinct rp_id (db_replay_items s) \<Longrightarrow> items_step (set is) s s'"
proof (induction "is" arbitrary: s)
  case Nil
  then show ?case by (auto intro: items_step_refl)
next
  case (Cons i "is")
  then obtain s1 where a: "execute_item W i s = (Inr (), s1)" and b: "execute_items W is s1 = (Inr y, s')"
    by (auto split: prod.splits sum.splits)
  have 1: "items_step {i} s s1" by (rule execute_item_settles [OF a]) (use Cons.prems in simp_all)
  have "items_step (set is) s1 s'"
    by (rule Cons.IH [OF b]) (use Cons.prems 1 items_step_distinct [OF 1] in \<open>simp_all add: items_step_def\<close>)
  then show ?case using items_step_trans [OF 1] by simp
qed


section \<open>The properties\<close>

lemma items_of_step:
  assumes "items_step (rp_id ` set (items_of rid s)) s s'"
  shows "(\<forall>x\<in>set (items_of rid s'). settled_item x) \<and> map rp_id (items_of rid s') = map rp_id (items_of rid s)"
proof -
  let ?I = "rp_id ` set (items_of rid s)"
  have l: "list_all2 (item_moved ?I s') (db_replay_items s) (db_replay_items s')"
    using assms by (simp add: items_step_def)
  have "settled_item y" if "item_moved ?I s' x y" "rp_replay_job_id x = rid" "x \<in> set (db_replay_items s)" for x y
  proof -
    have "rp_id x \<in> ?I" using that by (auto simp: items_of_def)
    then show ?thesis using that(1) decided_item_settled by (auto simp: item_moved_def split: if_splits)
  qed
  note moved = this
  have ex: "\<exists>x\<in>set (db_replay_items s). item_moved ?I s' x y" if y: "y \<in> set (db_replay_items s')" for y
  proof -
    obtain n where n: "n < length (db_replay_items s')" "y = db_replay_items s' ! n"
      using y unfolding in_set_conv_nth by blast
    then have "item_moved ?I s' (db_replay_items s ! n) y" using list_all2_nthD2 [OF l] by blast
    moreover have "db_replay_items s ! n \<in> set (db_replay_items s)" using n(1) list_all2_lengthD [OF l] by simp
    ultimately show ?thesis by blast
  qed
  have "settled_item y" if y: "y \<in> set (items_of rid s')" for y
  proof -
    have y': "y \<in> set (db_replay_items s')" "rp_replay_job_id y = rid" using y by (simp_all add: items_of_def)
    obtain x where x: "x \<in> set (db_replay_items s)" "item_moved ?I s' x y" using ex [OF y'(1)] by blast
    have "rp_replay_job_id x = rid" using x(2) y'(2) unfolding item_moved_def by simp
    then show ?thesis using moved [OF x(2) _ x(1)] by blast
  qed
  moreover have "map rp_id (filter (\<lambda>x. rp_replay_job_id x = rid) (db_replay_items s'))
      = map rp_id (filter (\<lambda>x. rp_replay_job_id x = rid) (db_replay_items s))"
    using l by (induction rule: list_all2_induct) (auto simp: item_moved_def)
  ultimately show ?thesis by (simp add: items_of_def)
qed

lemma item_moved_cong: "db_decisions s' = db_decisions s \<Longrightarrow> item_moved I s' = item_moved I s"
  by (intro ext) (simp add: item_moved_def decided_item_def)

lemma ordered_items_set [simp]: "set (ordered_items E rid s) = set (items_of rid s)"
  by (simp add: ordered_items_def)

lemma execute_settled_items:
  "\<forall>x\<in>set (db_replay_items s). rp_id x \<in> set is \<longrightarrow> settled_item x \<Longrightarrow> execute_items W is s = (Inr (), s)"
proof (induction "is")
  case Nil
  then show ?case by simp
next
  case (Cons i "is")
  have "materialize_body W i s = Inr (None, s)"
  proof (cases "t_get rp_id i (db_replay_items s)")
    case None
    then show ?thesis by (simp add: materialize_body_def)
  next
    case (Some x)
    then have "settled_item x" using Cons.prems t_get_Some [OF Some] by simp
    then show ?thesis using Some by (auto simp: materialize_body_def settled_item_def)
  qed
  then show ?case using Cons by (simp add: execute_item_def)
qed

lemma settled_counts:
  assumes "\<forall>x\<in>set xs. settled_item x"
  shows "count_status RI_FAILED xs = 0" and "count_status RI_COMPLETED xs + count_status RI_NEEDS_HUMAN_REVIEW xs = int (length xs)"
proof -
  show "count_status RI_FAILED xs = 0"
    using assms by (induction xs) (auto simp: count_status_def settled_item_def)
  show "count_status RI_COMPLETED xs + count_status RI_NEEDS_HUMAN_REVIEW xs = int (length xs)"
    using assms by (induction xs) (auto simp: count_status_def settled_item_def)
qed

lemma execute_replay_Inr:
  assumes "execute_replay W now rid s = (Inr r, s')"
  obtains s1 replay where "execute_items W (map rp_id (ordered_items (yw_env W) rid s)) s = (Inr (), s1)"
    and "t_get rj_id rid (db_replay_jobs s1) = Some replay" and "r = replay_result replay (items_of rid s1)"
    and "s' = update_job (rj_processing_job_id replay) (\<lambda>j. j\<lparr>jb_status := JS_SUCCEEDED, jb_finished_at := Some now,
                   jb_lease_until := None, jb_updated_at := now\<rparr>)
                 (update_replay rid (\<lambda>x. x\<lparr>rj_status := JS_SUCCEEDED,
                   rj_result_payload := Some (json_replay_result r), rj_updated_at := now\<rparr>) s1)"
proof -
  obtain s1 where a: "execute_items W (map rp_id (ordered_items (yw_env W) rid s)) s = (Inr (), s1)"
    and "run_session (complete_replay_body now rid) s1 = (Inr r, s')"
    using assms by (auto simp: execute_replay_def split: prod.splits sum.splits)
  then have c: "complete_replay_body now rid s1 = Inr (r, s')" by (simp add: run_session_Inr_iff)
  then obtain replay where g: "t_get rj_id rid (db_replay_jobs s1) = Some replay"
    by (auto simp: complete_replay_body_def split: option.splits)
  then have "rj_id replay = rid" using t_get_Some by metis
  then show ?thesis using that [OF a g] c g by (auto simp: complete_replay_body_def Let_def)
qed


lemma ordered_items_ids: "set (map rp_id (ordered_items E rid s)) = rp_id ` set (items_of rid s)"
  by simp



section \<open>The stored result reads back\<close>

lemma parse_str_replay_mode [simp]: "parse_replay_mode (str_replay_mode m) = Some m"
  by (cases m) (simp_all add: parse_replay_mode_def)

lemma parse_json_replay_result:
  "0 \<le> yr_completed_items r \<Longrightarrow> 0 \<le> yr_human_review_items r \<Longrightarrow> 0 \<le> yr_failed_items r
    \<Longrightarrow> parse_replay_result (json_replay_result r) = Inr r"
  by (simp add: parse_replay_result_def json_replay_result_def result_fields_def)

text \<open>
  C27. What a successful execution returns is what the status of its job answers ever after, read back
  from the JSON that completion stored, as long as the row of the replay is the only one of its job.
\<close>

theorem replay_status_reports:
  assumes "execute_replay W now rid s = (Inr r, s')" and "keys_distinct rj_processing_job_id (db_replay_jobs s')"
    and "db_replay_jobs s'' = db_replay_jobs s'"
  shows "replay_status (yr_processing_job_id r) s'' = Inr (RV_Result r)"
proof -
  obtain s1 replay where g: "t_get rj_id rid (db_replay_jobs s1) = Some replay" and r: "r = replay_result replay (items_of rid s1)"
    and s': "s' = update_job (rj_processing_job_id replay) (\<lambda>j. j\<lparr>jb_status := JS_SUCCEEDED, jb_finished_at := Some now,
                   jb_lease_until := None, jb_updated_at := now\<rparr>)
                 (update_replay rid (\<lambda>x. x\<lparr>rj_status := JS_SUCCEEDED,
                   rj_result_payload := Some (json_replay_result r), rj_updated_at := now\<rparr>) s1)"
    by (rule execute_replay_Inr [OF assms(1)])
  let ?x = "replay\<lparr>rj_status := JS_SUCCEEDED, rj_result_payload := Some (json_replay_result r), rj_updated_at := now\<rparr>"
  have "?x \<in> set (db_replay_jobs s')"
    using t_get_Some [OF g] by (auto simp: s' update_job_def update_replay_def t_upd_def)
  from t_get_complete [OF assms(2) this] have "replay_of_job (rj_processing_job_id replay) s'' = Some ?x"
    by (simp add: replay_of_job_def t_get_def assms(3))
  moreover have "parse_replay_result (json_replay_result r) = Inr r"
    by (rule parse_json_replay_result) (simp_all add: r replay_result_def count_status_def)
  moreover have "json_replay_result r \<noteq> JObj []" by (simp add: json_replay_result_def)
  moreover have "yr_processing_job_id r = rj_processing_job_id replay" by (simp add: r replay_result_def)
  ultimately show ?thesis by (simp add: replay_status_def)
qed

section \<open>A case is replayed to a version once\<close>

lemma insert_items_refused:
  assumes "x \<in> set (db_replay_items s)" and "q \<in> set qs" and "rp_source_case_id q = rp_source_case_id x"
    and "rp_target_policy_version q = rp_target_policy_version x"
  shows "insert_items qs s = Inl IntegrityError"
  using assms
proof (induction qs arbitrary: s)
  case Nil
  then show ?case by simp
next
  case (Cons r rs)
  show ?case
  proof (cases "insert_item r s")
    case (Inl e)
    then have "e = IntegrityError" by (auto simp: insert_item_def t_add_def split: if_splits)
    then show ?thesis using Inl by simp
  next
    case (Inr s1)
    then have "x \<in> set (db_replay_items s1)" "r \<noteq> q"
      using Cons.prems by (auto simp: insert_item_def bindE_Inr_iff t_add_Inr list_ex_iff split: if_splits)
    then show ?thesis using Cons Inr by auto
  qed
qed

text \<open>
  A source case has one replay to a target version, for ever. Once an item of the case for that
  version exists, preparing any replay that includes the case changes nothing: it is refused, or it is the
  request of the job that was prepared with the same preview, profile and model change; and when that job
  has failed or was cancelled, every claim of the request is refused too.
\<close>

theorem replayed_case_never_again:
  assumes "preview E pid v w mcp s = Inr pv" and "p \<in> set (pv_cases pv)"
    and "x \<in> set (db_replay_items s)" and "rp_source_case_id x = cp_source_case_id p" and "rp_target_policy_version x = w"
    and "prepare_replay E now hex pid v w hash profile mcp s = (r, s')" and "keys_distinct jb_id (db_jobs s)"
  shows "s' = s \<and> (\<forall>q. r = Inr q \<longrightarrow> (\<exists>j\<in>set (db_jobs s). jb_id j = jq_job_id q
      \<and> jb_request_key j = replay_request_key E (pv_preview_sha256 pv) profile mcp
      \<and> (jb_status j \<in> {JS_FAILED, JS_CANCELLED} \<longrightarrow>
           claim_replay now' lease q s = (Inl (GovernanceError ''REPLAY_NOT_RESUMABLE''), s))))"
proof (cases "pv_preview_sha256 pv = hash")
  case False
  then show ?thesis using assms(1,6) by (auto simp: prepare_replay_def)
next
  case True
  obtain m where m: "parse_model_change mcp = Some m" "str_model_change m = mcp"
    using assms(1) by (cases "parse_model_change mcp") (auto simp: preview_def parse_model_change_def split: if_splits)
  have w: "pv_target_version pv = w" using assms(1) m by (auto simp: preview_def Let_def split: option.splits if_splits)
  have body: "run_session (prepare_replay_body E now hex pv profile m) s = (r, s')"
    using assms(1,6) m True by (simp add: prepare_replay_def)
  let ?key = "replay_request_key E (pv_preview_sha256 pv) profile mcp"
  show ?thesis
  proof (cases "find (\<lambda>j. jb_request_key j = ?key) (db_jobs s)")
    case None
    let ?q = "new_replay_item E (''replay_'' @ hex 1) w now p"
    have "insert_items (map (new_replay_item E (''replay_'' @ hex 1) w now) (pv_cases pv)) s1 = Inl IntegrityError"
      if "db_replay_items s1 = db_replay_items s" for s1
      by (rule insert_items_refused [of x _ ?q]) (use assms(2-5) that in \<open>simp_all add: new_replay_item_def\<close>)
    then have "\<exists>e. prepare_replay_body E now hex pv profile m s = Inl e"
      using None by (auto simp: prepare_replay_body_def Let_def m(2) w bindE_def split: sum.splits dest!: insert_job_Inr)
    then show ?thesis using body by auto
  next
    case (Some j)
    then have j: "j \<in> set (db_jobs s)" "jb_request_key j = ?key" by (auto simp: find_Some_iff)
    have g: "t_get jb_id (jb_id j) (db_jobs s) = Some j" by (rule t_get_complete [OF assms(7) j(1)])
    have b: "prepare_replay_body E now hex pv profile m s = bindE (replay_request (jb_id j) s) (\<lambda>q. Inr (q, s))"
      using Some by (simp add: prepare_replay_body_def Let_def m(2))
    then have s': "s' = s" using body by (cases "replay_request (jb_id j) s") auto
    have id: "jq_job_id q = jb_id j" if "r = Inr q" for q
      using that body b g by (cases "replay_request (jb_id j) s") (auto simp: replay_request_def split: option.splits)
    have "claim_replay_body now' lease q s = Inl (GovernanceError ''REPLAY_NOT_RESUMABLE'')"
      if "r = Inr q" "jb_status j \<in> {JS_FAILED, JS_CANCELLED}" for q
      using that(2) g by (auto simp: claim_replay_body_def id [OF that(1)] split: option.splits)
    then show ?thesis using s' id j by (intro conjI allI impI bexI [of _ j]) (simp_all add: claim_replay_def)
  qed
qed


section \<open>Reevaluation investigates nothing\<close>

definition plan_of :: "ReplayItemRecord \<Rightarrow> string \<times> string \<times> ReplayCasePlan" where
  "plan_of x = (rp_id x, rp_replay_job_id x, rp_plan_payload x)"

definition quiet :: "db \<Rightarrow> db \<Rightarrow> bool" where
  "quiet s s' \<longleftrightarrow> db_runs s' = db_runs s \<and> db_steps s' = db_steps s \<and> db_tools s' = db_tools s \<and> db_calls s' = db_calls s
     \<and> map plan_of (db_replay_items s') = map plan_of (db_replay_items s)"

lemma quiet_refl [simp]: "quiet s s"
  by (simp add: quiet_def)

lemma quiet_trans: "quiet s s1 \<Longrightarrow> quiet s1 s2 \<Longrightarrow> quiet s s2"
  by (simp add: quiet_def)

lemma execute_item_quiet:
  assumes ex: "execute_item W i s = (r, s')"
    and plan: "\<And>x. t_get rp_id i (db_replay_items s) = Some x \<Longrightarrow> cp_investigate_requirement_keys (rp_plan_payload x) = []"
  shows "quiet s s'"
proof (cases "materialize_body W i s")
  case (Inl e)
  then show ?thesis using ex by (simp add: execute_item_def)
next
  case (Inr x)
  then obtain om s1 where mb: "materialize_body W i s = Inr (om, s1)" by (cases x) auto
  then have m0: "run_session (materialize_body W i) s = (Inr om, s1)" by simp
  from mb show ?thesis
  proof (cases rule: materialize_cases)
    case idle
    then show ?thesis using ex m0 by (simp add: execute_item_def)
  next
    case (made item m cs rs new ls st)
    have q1: "quiet s s1" by (simp add: quiet_def made(4) map_t_upd plan_of_def)
    have sc: "mz_scope m = []" using made(7) plan [OF made(2)] by blast
    obtain d s2 where fin: "finalize_case (yw_env W) (yw_stamp W i 3) (yw_hex W i 2000000) (mz_target_case m) (Some i)
        True (mz_origin m) s1 = (d, s2)" by fastforce
    have q2: "quiet s1 s2" using finalize_case_replay [OF fin] by (simp add: quiet_def keeps_replay_def)
    show ?thesis
    proof (cases d)
      case (Inl e)
      then have "s' = s2" using ex m0 made(1) sc fin by (simp add: execute_item_def investigate_item_nothing)
      then show ?thesis using quiet_trans [OF q1 q2] by simp
    next
      case (Inr d')
      have se: "run_session (settle_item_body W i m d') s2 = (r, s')"
        using ex m0 made(1) sc fin Inr by (simp add: execute_item_def investigate_item_nothing)
      have "quiet s2 s'"
      proof (cases "settle_item_body W i m d' s2")
        case (Inl e)
        then show ?thesis using se by simp
      next
        case (Inr y)
        then have "settle_item_body W i m d' s2 = Inr (fst y, s')" using se by (cases y) simp
        then show ?thesis by (rule settle_item_Inr) (simp add: quiet_def map_t_upd plan_of_def)
      qed
      then show ?thesis using quiet_trans [OF quiet_trans [OF q1 q2]] by simp
    qed
  qed
qed

lemma execute_items_quiet:
  assumes "execute_items W is s = (r, s')" and "keys_distinct rp_id (db_replay_items s)"
    and "\<forall>x\<in>set (db_replay_items s). rp_id x \<in> set is \<longrightarrow> cp_investigate_requirement_keys (rp_plan_payload x) = []"
  shows "quiet s s'"
  using assms
proof (induction "is" arbitrary: s)
  case Nil
  then show ?case by simp
next
  case (Cons i "is")
  obtain r1 s1 where a: "execute_item W i s = (r1, s1)" by fastforce
  have q: "quiet s s1" by (rule execute_item_quiet [OF a]) (use Cons.prems(3) t_get_Some in fastforce)
  then have m: "map plan_of (db_replay_items s1) = map plan_of (db_replay_items s)" by (simp add: quiet_def)
  show ?case
  proof (cases r1)
    case (Inl e)
    then show ?thesis using Cons.prems(1) a q by simp
  next
    case (Inr y)
    have "map fst (map plan_of (db_replay_items s1)) = map fst (map plan_of (db_replay_items s))" by (simp only: m)
    then have k: "keys_distinct rp_id (db_replay_items s1)"
      using Cons.prems(2) by (simp add: keys_distinct_def plan_of_def comp_def)
    have p: "cp_investigate_requirement_keys (rp_plan_payload x) = []"
      if x: "x \<in> set (db_replay_items s1)" "rp_id x \<in> set is" for x
    proof -
      have "plan_of x \<in> set (map plan_of (db_replay_items s))" using x(1) unfolding m [symmetric] by simp
      then obtain y where "y \<in> set (db_replay_items s)" "plan_of y = plan_of x" by auto
      moreover from this have "rp_id y \<in> set (i # is)" "rp_plan_payload y = rp_plan_payload x"
        using x(2) by (simp_all add: plan_of_def)
      ultimately show ?thesis using Cons.prems(3) by metis
    qed
    have "execute_items W is s1 = (r, s')" using Cons.prems(1) a Inr by simp
    then have "quiet s1 s'" by (rule Cons.IH [OF _ k]) (use p in blast)
    then show ?thesis by (rule quiet_trans [OF q])
  qed
qed

text \<open>
  C28. A reevaluation creates no run, no step, no tool run and no model call: when the plans of a replay
  name no requirement to investigate, executing it leaves the four tables as they are, whether it succeeds
  or fails, and whatever dispatcher it was given.
\<close>

theorem reevaluation_investigates_nothing:
  assumes "execute_replay W now rid s = (r, s')" and "keys_distinct rp_id (db_replay_items s)"
    and "\<forall>x\<in>set (items_of rid s). cp_investigate_requirement_keys (rp_plan_payload x) = []"
  shows "db_runs s' = db_runs s \<and> db_steps s' = db_steps s \<and> db_tools s' = db_tools s \<and> db_calls s' = db_calls s"
proof -
  obtain r1 s1 where a: "execute_items W (map rp_id (ordered_items (yw_env W) rid s)) s = (r1, s1)" by fastforce
  have "quiet s s1"
  proof (rule execute_items_quiet [OF a assms(2)], intro ballI impI)
    fix x assume x: "x \<in> set (db_replay_items s)" "rp_id x \<in> set (map rp_id (ordered_items (yw_env W) rid s))"
    then obtain y where y: "y \<in> set (items_of rid s)" "rp_id y = rp_id x" by auto
    then have "t_get rp_id (rp_id x) (db_replay_items s) = Some y"
      using t_get_complete [OF assms(2), of y] by (simp add: items_of_def)
    then have "y = x" using t_get_complete [OF assms(2) x(1)] by simp
    then show "cp_investigate_requirement_keys (rp_plan_payload x) = []" using assms(3) y(1) by simp
  qed
  moreover have "quiet s1 s'"
  proof (cases r1)
    case (Inl e)
    then show ?thesis using assms(1) a by (simp add: execute_replay_def)
  next
    case (Inr y)
    then have "run_session (complete_replay_body now rid) s1 = (r, s')" using assms(1) a by (simp add: execute_replay_def)
    then show ?thesis
      by (auto simp: run_session_def complete_replay_body_def Let_def quiet_def update_job_def update_replay_def
          split: sum.splits option.splits prod.splits)
  qed
  ultimately show ?thesis by (simp add: quiet_def)
qed

end
