(* ===== verification/ReplayDemo.thy ===== *)
theory ReplayDemo
  imports ReplaySettle
begin

text \<open>
  A worked replay: the demo policy gets a second version with another aggregation, the decided demo case
  is replayed to it. The theorems about replay are instantiated here.
\<close>

section \<open>A case with one requirement can be finalized\<close>

lemma finalize_single:
  assumes c: "t_get ca_id cid (db_cases s) = Some c" "ca_current_decision_id c = None"
    and p: "t_get pc_key (ca_policy_id c, ca_policy_version c) (db_policies s) = Some p" "pc_enabled p"
    and keys: "map tp_requirement_key (pol_requirements (pc_compiled_policy p)) = [k]" "policy_keys (pc_compiled_policy p) = [k]"
    and rq: "requirements_of E cid s = [r]" "rm_requirement_key r = k" "t_get rm_id (rm_id r) (db_requirements s) = Some r"
    and run: "investigation_of cid s = None"
    and fresh: "\<forall>q\<in>set (db_results s). rs_requirement_id q \<noteq> rm_id r" "db_result_evidence s = []"
      "result_id_of E (rm_id r) (input_hash E r (pol_aggregation (pc_compiled_policy p)) (classified_evidence E r s)) \<notin> rs_id ` set (db_results s)"
    and ev: "keys_distinct ev_id (db_evidence s)"
    and dc: "\<forall>d\<in>set (db_decisions s). dc_case_id d \<noteq> cid \<and> dc_id d \<noteq> ''decision_'' @ hex" "db_decision_results s = []" "db_decision_evidence s = []"
  shows "\<exists>d s'. finalize_case E now hex cid item True org s = (Inr d, s')"
proof -
  have id: "ca_id c = cid" using t_get_Some [OF c(1)] by simp
  let ?cfg = "pol_aggregation (pc_compiled_policy p)"
  have find0: "find_result (rm_id r) h s = None" for h using fresh(1) by (auto simp: find_result_def find_None_iff)
  obtain out s1 where a: "aggregate E now r ?cfg (org (rm_requirement_key r)) item s = Inr (out, s1)"
    using aggregate_total [OF ev, of r E ?cfg] fresh t_get_Some [OF rq(3)] by force
  then obtain rec where rec: "aggregation_outcome E s1 rec (classified_evidence E r s) = Inr out" "rs_requirement_id rec = rm_id r"
    by (auto elim!: aggregate_result dest!: find_result_sound)
  with aggregation_outcome_Inr obtain q where q: "t_get rm_id (rm_id r) (db_requirements s1) = Some q"
    "ao_requirement_key out = rm_requirement_key q" by metis
  obtain f where rs1: "db_requirements s1 = map f (db_requirements s)" and same: "\<forall>q. same_requirement q (f q)"
    using aggregate_requirements [OF a] by auto
  have tg: "t_get rm_id i (map f t) = map_option f (t_get rm_id i t)" for i t
    using same by (induction t) (auto simp: t_get_Cons same_requirement_def t_get_def)
  have "t_get rm_id (rm_id r) (db_requirements s1) = map_option f (t_get rm_id (rm_id r) (db_requirements s))"
    by (simp add: rs1 tg)
  then have key: "ao_requirement_key out = k" using q rq same by (auto simp: same_requirement_def)
  obtain ev where ev: "evaluate E (pc_compiled_policy p) [out] IS_COMPLETED None = Inr ev"
    by (simp add: evaluate_Inr keys key)
  then have evr: "re_requirement_result_ids ev = [ao_result_id out]" "distinct (re_evidence_ids ev)"
    by (simp_all add: evaluate_Inr)
  note fr = aggregate_frame [OF a]
  let ?rec = "machine_decision_row hex now c None [out] ev (max_or_0 (decision_sequences (ca_id c) s1) + 1) None item"
  have nd: "dc_id ?rec \<notin> dc_id ` set (db_decisions s1)" using dc(1) fr(6) by (metis imageE machine_decision_row_simps(1))
  obtain s2 where st: "store_decision now ?rec (re_requirement_result_ids ev) (re_evidence_ids ev) s1 = Inr s2"
    using store_decision_total [OF nd, of "[ao_result_id out]" "re_evidence_ids ev" now] fr(7,8) evr dc(2,3) by auto
  have "find_machine_decision cid ev s1 = None"
    using dc(1) fr(6) by (auto simp: find_machine_decision_def find_None_iff)
  moreover have "current_decision c s1 = None" using c(2) by (simp add: current_decision_def)
  ultimately have cc: "conclude_case E now hex c None [out] ev item s1 = Inr (decision_view E s2 ?rec, s2)"
    using st by (simp add: conclude_case_def Let_def id)
  have "sort_key tp_requirement_key (pol_requirements (pc_compiled_policy p)) = pol_requirements (pc_compiled_policy p)"
    using keys(1) by auto
  then have "finalize_body E now hex cid item True org s = Inr (decision_view E s2 ?rec, s2)"
    using a ev cc by (simp add: finalize_body_def c(1) p id run rq keys terminal_ok_def)
  then show ?thesis by (auto simp: finalize_case_def)
qed


section \<open>The demo replay\<close>

definition demo_target_policy :: CompiledPolicy where
  "demo_target_policy = demo_policy\<lparr>pol_version := 2, pol_aggregation := default_aggregation\<lparr>minimum_contradicting_evidence := 2\<rparr>\<rparr>"

definition demo_source_decision :: DecisionRecord where
  "demo_source_decision = \<lparr> dc_id = ''d0'', dc_case_id = ''c1'', dc_policy_id = ''safety.weapon'', dc_policy_version = 1,
     dc_verdict = V_REJECT, dc_reason_code = ''REJECT_EXPRESSION_TRUE'', dc_source = DS_MACHINE, dc_explanation = [],
     dc_metadata = MachineMeta None None [], dc_sequence = 1, dc_evaluator_version = ''v'', dc_input_sha256 = ''h'',
     dc_agent_run_id = Some ''run1'', dc_supersedes_decision_id = None, dc_replay_item_id = None, dc_created_at = 8, dc_updated_at = 8 \<rparr>"

definition demo_source_case :: CaseRecord where
  "demo_source_case = demo_case\<lparr>ca_current_decision_id := Some ''d0''\<rparr>"

definition demo_plan :: ReplayCasePlan where
  "demo_plan = \<lparr> cp_source_case_id = ''c1'', cp_source_decision_id = Some ''d0'', cp_mode = RM_REEVALUATE,
     cp_reusable_requirement_keys = [''weapon_visible''], cp_investigate_requirement_keys = [], cp_invalidations = [],
     cp_blocked_reason = None \<rparr>"

definition demo_item :: ReplayItemRecord where
  "demo_item = \<lparr> rp_id = ''i1'', rp_replay_job_id = ''y1'', rp_source_case_id = ''c1'', rp_target_case_id = None,
     rp_target_policy_version = 2, rp_mode = RM_REEVALUATE, rp_status = RI_PENDING, rp_plan_payload = demo_plan,
     rp_result_payload = None, rp_source_decision_id = Some ''d0'', rp_target_decision_id = None, rp_created_at = 20, rp_updated_at = 20 \<rparr>"

definition demo_replay_row :: ReplayJobRecord where
  "demo_replay_row = \<lparr> rj_id = ''y1'', rj_processing_job_id = ''jy'', rj_policy_id = ''safety.weapon'', rj_source_version = 1,
     rj_target_version = 2, rj_mode = RM_REEVALUATE, rj_preview_sha256 = ''p'', rj_model_profile = None,
     rj_model_change_policy = MCP_keep, rj_status = JS_RUNNING, rj_result_payload = None, rj_created_at = 20, rj_updated_at = 20 \<rparr>"

definition demo_replay_db :: db where
  "demo_replay_db = demo_case_db\<lparr>db_policies := [new_policy_row 0 demo_source demo_policy PL_PUBLISHED,
       new_policy_row 0 demo_source demo_target_policy PL_PUBLISHED],
     db_cases := [demo_source_case], db_evidence := [hd demo_evidence], db_decisions := [demo_source_decision],
     db_replay_jobs := [demo_replay_row], db_replay_items := [demo_item]\<rparr>"

definition demo_replay_world :: replay_world where
  "demo_replay_world = \<lparr> yw_env = demo_env, yw_settings = default_settings, yw_stamp = (\<lambda>i n. 30),
     yw_hex = (\<lambda>i n. if n = 0 then ''a'' else if n = 1 then ''b'' else ''x''), yw_dispatch = None \<rparr>"

lemma demo_replay_world_simps [simp]:
  "yw_env demo_replay_world = demo_env" "yw_dispatch demo_replay_world = None" "yw_stamp demo_replay_world i n = 30"
  "yw_hex demo_replay_world i 0 = ''a''" "yw_hex demo_replay_world i (Suc 0) = ''b''"
  by (simp_all add: demo_replay_world_def)

lemma demo_replay_db_simps [simp]:
  "db_policies demo_replay_db = [new_policy_row 0 demo_source demo_policy PL_PUBLISHED,
       new_policy_row 0 demo_source demo_target_policy PL_PUBLISHED]"
  "db_cases demo_replay_db = [demo_source_case]" "db_evidence demo_replay_db = [hd demo_evidence]"
  "db_decisions demo_replay_db = [demo_source_decision]" "db_replay_jobs demo_replay_db = [demo_replay_row]"
  "db_replay_items demo_replay_db = [demo_item]" "db_requirements demo_replay_db = [demo_requirement]"
  "db_videos demo_replay_db = [demo_video]" "db_appeals demo_replay_db = []" "db_lineage demo_replay_db = []"
  "db_runs demo_replay_db = [demo_run]" "db_artifacts demo_replay_db = [demo_artifact]" "db_results demo_replay_db = []"
  "db_result_evidence demo_replay_db = []" "db_decision_results demo_replay_db = []" "db_decision_evidence demo_replay_db = []"
  "db_jobs demo_replay_db = []" "db_tools demo_replay_db = [demo_tool]" "db_calls demo_replay_db = [demo_call]"
  by (simp_all add: demo_replay_db_def) (simp_all add: demo_case_db_def demo_db_def empty_db_def)

lemma demo_rows [simp]:
  "rp_id demo_item = ''i1''" "rp_replay_job_id demo_item = ''y1''" "rp_source_case_id demo_item = ''c1''" "rp_plan_payload demo_item = demo_plan"
  "rp_status demo_item = RI_PENDING" "rp_target_policy_version demo_item = 2" "rp_target_case_id demo_item = None" "rp_mode demo_item = RM_REEVALUATE"
  "rj_id demo_replay_row = ''y1''" "rj_policy_id demo_replay_row = ''safety.weapon''" "rj_target_version demo_replay_row = 2"
  "rj_model_profile demo_replay_row = None" "rj_processing_job_id demo_replay_row = ''jy''"
  "ca_id demo_source_case = ''c1''" "ca_video_id demo_source_case = ''v1''" "ca_policy_id demo_source_case = ''safety.weapon''"
  "ca_policy_version demo_source_case = 1" "ca_model_profile demo_source_case = ''mock''" "ca_current_decision_id demo_source_case = Some ''d0''"
  "dc_id demo_source_decision = ''d0''" "dc_case_id demo_source_decision = ''c1''"
  by (simp_all add: demo_item_def demo_replay_row_def demo_source_case_def demo_case_def demo_source_decision_def new_case_row_def)

lemma demo_policy_rows [simp]:
  "pc_key (new_policy_row 0 demo_source demo_policy lc) = (''safety.weapon'', 1)"
  "pc_key (new_policy_row 0 demo_source demo_target_policy lc) = (''safety.weapon'', 2)"
  "pc_lifecycle (new_policy_row t src p lc) = lc" "pc_compiled_policy (new_policy_row t src p lc) = p"
  "pc_policy_id (new_policy_row t src p lc) = pol_policy_id p" "pc_version (new_policy_row t src p lc) = pol_version p"
  "pc_enabled (new_policy_row t src p lc) = pol_enabled p"
  "pol_requirements demo_target_policy = pol_requirements demo_policy"
  "pol_policy_id demo_policy = ''safety.weapon''" "pol_policy_id demo_target_policy = ''safety.weapon''"
  "pol_version demo_policy = 1" "pol_version demo_target_policy = 2" "pol_enabled demo_target_policy"
  by (simp_all add: new_policy_row_def pc_key_def demo_policy_def demo_target_policy_def)

text \<open>The preview of the demo.\<close>

lemma demo_requirement_keys: "requirement_keys demo_policy = [''weapon_visible'']" "requirement_keys demo_target_policy = [''weapon_visible'']"
  by (simp_all add: requirement_keys_def) (simp_all add: demo_policy_def)

lemma demo_preview:
  "\<exists>pv. preview demo_env ''safety.weapon'' 1 2 ''keep'' demo_replay_db = Inr pv \<and> pv_cases pv = [demo_plan]"
proof -
  have h: "requirement_hashes demo_target_policy = requirement_hashes demo_policy"
    by (simp add: requirement_hashes_def)
  have "current_decision demo_source_case demo_replay_db = Some demo_source_decision"
    by (simp add: current_decision_def t_get_Cons)
  then have "blocked_reason demo_source_case demo_replay_db = None"
    by (simp add: blocked_reason_def open_appeal_def)
  then have "case_plan MCP_keep (policy_diff (new_policy_row 0 demo_source demo_policy PL_PUBLISHED)
       (new_policy_row 0 demo_source demo_target_policy PL_PUBLISHED)) demo_source_case demo_replay_db = demo_plan"
    using h by (simp add: case_plan_def policy_diff_def demo_requirement_keys invalidated_keys_def demo_plan_def Let_def sorted_uniq_def
        current_decision_def t_get_Cons)
  then show ?thesis
    by (simp add: preview_def parse_model_change_def t_get_Cons source_cases_def Let_def)
qed


text \<open>The item materialized: the target case, its requirement and the copy of the evidence.\<close>

definition demo_target_case :: CaseRecord where
  "demo_target_case = new_case_row ''case_a'' ''v1'' ''safety.weapon'' 2 ''mock'' 30"

definition demo_target_requirement :: RequirementRecord where
  "demo_target_requirement = new_requirement_row ''req_b'' ''case_a'' 30 (hd (pol_requirements demo_policy))"

definition demo_copy :: EvidenceRecord where
  "demo_copy = copied_evidence demo_replay_world ''i1'' ''case_a'' ''req_b'' (hd demo_evidence)"

definition demo_moment :: materialized where
  "demo_moment = \<lparr> mz_target_case = ''case_a'', mz_mode = RM_REEVALUATE, mz_profile = ''mock'', mz_scope = [], mz_origin = Map.empty \<rparr>"

lemma demo_created:
  "\<exists>b. create_case demo_env 30 (yw_hex demo_replay_world i) ''v1'' ''safety.weapon'' 2 ''mock'' None demo_replay_db
     = Inr (b, demo_replay_db\<lparr>db_cases := [demo_source_case, demo_target_case],
         db_requirements := [demo_requirement, demo_target_requirement]\<rparr>) \<and> cm_case_id (cb_case b) = ''case_a''"
proof -
  have r: "pol_requirements demo_policy = [hd (pol_requirements demo_policy)]" by (simp add: demo_policy_def)
  have v: "vd_id demo_video = ''v1''" "vd_status demo_video = VS_READY" by (simp_all add: demo_video_def)
  have q: "requirement_rows (yw_hex demo_replay_world i) ''case_a'' 30 (pol_requirements demo_policy) = [demo_target_requirement]"
    by (subst r) (simp add: requirement_rows_def demo_target_requirement_def)
  have f: "fresh_case_id (yw_hex demo_replay_world i) None = ''case_a''" by (simp add: fresh_case_id_def truthy_def)
  have n: "find_case ''v1'' ''safety.weapon'' 2 demo_replay_db = None" by (simp add: find_case_def)
  have t: "rm_id demo_target_requirement = ''req_b''" by (simp add: demo_target_requirement_def new_requirement_row_def)
  show ?thesis
    by (simp add: create_case_def t_get_Cons v n f instantiate_case_def Let_def)
       (simp only: q, simp add: t_add_def t demo_target_case_def case_from_record_def)
qed

lemma demo_target_simps [simp]:
  "ca_id demo_target_case = ''case_a''" "ca_video_id demo_target_case = ''v1''" "ca_policy_id demo_target_case = ''safety.weapon''"
  "ca_policy_version demo_target_case = 2" "ca_current_decision_id demo_target_case = None"
  "rm_id demo_target_requirement = ''req_b''" "rm_case_id demo_target_requirement = ''case_a''"
  "rm_requirement_key demo_target_requirement = ''weapon_visible''" "rm_semantic_sha256 demo_target_requirement = rm_semantic_sha256 demo_requirement"
  by (simp_all add: demo_target_case_def demo_target_requirement_def new_requirement_row_def demo_policy_def demo_requirement_def)

lemma demo_copied:
  "\<exists>ls. copy_keys demo_replay_world ''i1'' ''c1'' ''case_a'' [''weapon_visible''] Map.empty
       (demo_replay_db\<lparr>db_cases := [demo_source_case, demo_target_case],
         db_requirements := [demo_requirement, demo_target_requirement]\<rparr>)
     = Inr (Map.empty, demo_replay_db\<lparr>db_cases := [demo_source_case, demo_target_case],
         db_requirements := [demo_requirement, demo_target_requirement], db_evidence := [hd demo_evidence, demo_copy], db_lineage := ls\<rparr>)"
proof -
  let ?e = "hd demo_evidence"
  have e: "ev_id ?e = ''e1''" "ev_case_id ?e = ''c1''" "ev_requirement_id ?e = ''r1''" by (simp_all add: demo_evidence_def)
  have c: "ev_id demo_copy = ''evidence_i1:e1:req_b''" "ev_case_id demo_copy = ''case_a''"
    by (simp_all add: demo_copy_def copied_evidence_def copied_id_def Let_def e demo_env_def)
  have i: "insert_evidence demo_copy (demo_replay_db\<lparr>db_cases := [demo_source_case, demo_target_case],
         db_requirements := [demo_requirement, demo_target_requirement]\<rparr>)
     = Inr (demo_replay_db\<lparr>db_cases := [demo_source_case, demo_target_case],
         db_requirements := [demo_requirement, demo_target_requirement], db_evidence := [?e, demo_copy]\<rparr>)"
    by (simp add: insert_evidence_def t_add_def c e)
       (simp add: evidence_checks_def evidence_sources_ok_def replay_evidence_ok_def demo_copy_def copied_evidence_def Let_def t_get_Cons
         demo_evidence_def evidence_row_def demo_pending_def unit_interval_def demo_artifact_def)
  show ?thesis
    by (simp add: requirement_by_key_def copy_row_def demo_copy_def [symmetric] e c t_get_Cons i add_lineage_def Let_def t_add_def)
       (rule exI, rule refl)
qed


definition demo_materialized :: "ReplayLineageRecord list \<Rightarrow> ReplayItemRecord \<Rightarrow> db" where
  "demo_materialized ls x = demo_replay_db\<lparr>db_cases := [demo_source_case, demo_target_case],
     db_requirements := [demo_requirement, demo_target_requirement], db_evidence := [hd demo_evidence, demo_copy], db_lineage := ls,
     db_replay_items := [x]\<rparr>"

lemma demo_materializes:
  "\<exists>ls. materialize_body demo_replay_world ''i1'' demo_replay_db = Inr (Some demo_moment, demo_materialized ls
     (demo_item\<lparr>rp_target_case_id := Some ''case_a'', rp_status := RI_MATERIALIZED, rp_updated_at := 30\<rparr>))"
proof -
  obtain b where b: "create_case demo_env 30 (yw_hex demo_replay_world ''i1'') ''v1'' ''safety.weapon'' 2 ''mock'' None demo_replay_db
     = Inr (b, demo_replay_db\<lparr>db_cases := [demo_source_case, demo_target_case],
         db_requirements := [demo_requirement, demo_target_requirement]\<rparr>)" "cm_case_id (cb_case b) = ''case_a''"
    using demo_created by blast
  obtain ls where ls: "copy_keys demo_replay_world ''i1'' ''c1'' ''case_a'' [''weapon_visible''] Map.empty
       (demo_replay_db\<lparr>db_cases := [demo_source_case, demo_target_case],
         db_requirements := [demo_requirement, demo_target_requirement]\<rparr>)
     = Inr (Map.empty, demo_replay_db\<lparr>db_cases := [demo_source_case, demo_target_case],
         db_requirements := [demo_requirement, demo_target_requirement], db_evidence := [hd demo_evidence, demo_copy], db_lineage := ls\<rparr>)"
    using demo_copied by blast
  have plan: "sorted_uniq (cp_reusable_requirement_keys demo_plan) = [''weapon_visible'']" "cp_invalidations demo_plan = []"
    "cp_investigate_requirement_keys demo_plan = []" by (simp_all add: demo_plan_def sorted_uniq_def)
  have "replay_profile demo_replay_row demo_source_case = ''mock''" by (simp add: replay_profile_def truthy_def)
  then have "materialize_body demo_replay_world ''i1'' demo_replay_db = Inr (Some demo_moment, demo_materialized ls
     (demo_item\<lparr>rp_target_case_id := Some ''case_a'', rp_status := RI_MATERIALIZED, rp_updated_at := 30\<rparr>))"
    by (simp add: materialize_body_def t_get_Cons b materialize_from_def target_conflict_def plan Let_def ls investigation_scope_def update_item_def
        t_upd_def demo_moment_def demo_materialized_def del: copy_keys.simps)
  then show ?thesis by blast
qed

lemma demo_materialized_simps [simp]:
  "db_cases (demo_materialized ls x) = [demo_source_case, demo_target_case]"
  "db_requirements (demo_materialized ls x) = [demo_requirement, demo_target_requirement]"
  "db_evidence (demo_materialized ls x) = [hd demo_evidence, demo_copy]" "db_replay_items (demo_materialized ls x) = [x]"
  "db_policies (demo_materialized ls x) = db_policies demo_replay_db" "db_results (demo_materialized ls x) = []"
  "db_result_evidence (demo_materialized ls x) = []" "db_decisions (demo_materialized ls x) = [demo_source_decision]"
  "db_decision_results (demo_materialized ls x) = []" "db_decision_evidence (demo_materialized ls x) = []"
  "db_runs (demo_materialized ls x) = [demo_run]" "db_replay_jobs (demo_materialized ls x) = [demo_replay_row]"
  by (simp_all add: demo_materialized_def)

lemma demo_replay_finalizes:
  "\<exists>d s'. finalize_case demo_env 30 hex ''case_a'' (Some ''i1'') True Map.empty (demo_materialized ls x) = (Inr d, s')" if "hex = ''x''"
proof (rule finalize_single [where c = demo_target_case and p = "new_policy_row 0 demo_source demo_target_policy PL_PUBLISHED"
      and k = "''weapon_visible''" and r = demo_target_requirement])
  have rq: "map tp_requirement_key (pol_requirements demo_policy) = [''weapon_visible'']" by (simp add: demo_policy_def)
  then show "map tp_requirement_key (pol_requirements (pc_compiled_policy (new_policy_row 0 demo_source demo_target_policy PL_PUBLISHED))) = [''weapon_visible'']"
    "policy_keys (pc_compiled_policy (new_policy_row 0 demo_source demo_target_policy PL_PUBLISHED)) = [''weapon_visible'']"
    by (simp_all add: policy_keys_def)
  show "keys_distinct ev_id (db_evidence (demo_materialized ls x))"
    by (simp add: keys_distinct_def demo_evidence_def demo_copy_def copied_evidence_def copied_id_def Let_def demo_env_def)
qed (simp_all add: t_get_Cons requirements_of_def investigation_of_def demo_run_def that)

lemma demo_executes:
  "\<exists>s'. execute_item demo_replay_world ''i1'' demo_replay_db = (Inr (), s')"
proof -
  obtain ls where m: "materialize_body demo_replay_world ''i1'' demo_replay_db = Inr (Some demo_moment, demo_materialized ls
     (demo_item\<lparr>rp_target_case_id := Some ''case_a'', rp_status := RI_MATERIALIZED, rp_updated_at := 30\<rparr>))" using demo_materializes by blast
  have hex: "yw_hex demo_replay_world i 2000000 = ''x''" for i by (simp add: demo_replay_world_def)
  obtain d s' where f: "finalize_case demo_env 30 (yw_hex demo_replay_world ''i1'' 2000000) ''case_a'' (Some ''i1'') True Map.empty (demo_materialized ls
     (demo_item\<lparr>rp_target_case_id := Some ''case_a'', rp_status := RI_MATERIALIZED, rp_updated_at := 30\<rparr>)) = (Inr d, s')"
    using demo_replay_finalizes [OF hex] by blast
  have mz: "mz_target_case demo_moment = ''case_a''" "mz_scope demo_moment = []" "mz_origin demo_moment = Map.empty" by (simp_all add: demo_moment_def)
  have "db_replay_items s' = [demo_item\<lparr>rp_target_case_id := Some ''case_a'', rp_status := RI_MATERIALIZED, rp_updated_at := 30\<rparr>]"
    using finalize_case_replay [OF f] by (simp add: keeps_replay_def)
  moreover have "result_lineage W i Map.empty rs s = Inr s" for W i rs s by (induction rs) simp_all
  ultimately have "\<exists>t. settle_item_body demo_replay_world ''i1'' demo_moment d s' = Inr ((), t)"
    by (simp add: settle_item_body_def t_get_Cons mz)
  then obtain t where "settle_item_body demo_replay_world ''i1'' demo_moment d s' = Inr ((), t)" by blast
  then show ?thesis using m f by (simp add: execute_item_def mz investigate_item_nothing)
qed

lemma demo_replay_ok: "decisions_ok demo_replay_db"
  by (simp add: decisions_ok_def keys_distinct_def flog.log_numbered_def numbered_def) (simp add: demo_source_decision_def)

lemma demo_replays:
  obtains r s' where "execute_replay demo_replay_world 40 ''y1'' demo_replay_db = (Inr r, s')"
proof -
  obtain s1 where e: "execute_item demo_replay_world ''i1'' demo_replay_db = (Inr (), s1)" using demo_executes by blast
  have o: "map rp_id (ordered_items demo_env ''y1'' demo_replay_db) = [''i1'']"
    by (simp add: ordered_items_def items_of_def)
  have "items_step {''i1''} demo_replay_db s1"
    by (rule execute_item_settles [OF e]) (simp_all add: dispatch_keeps_def demo_replay_ok keys_distinct_def)
  then have "db_replay_jobs s1 = [demo_replay_row]" by (simp add: items_step_def)
  then have "t_get rj_id ''y1'' (db_replay_jobs s1) = Some demo_replay_row" by (simp add: t_get_Cons)
  then obtain r s' where "complete_replay_body 40 ''y1'' s1 = Inr (r, s')" by (auto simp: complete_replay_body_def Let_def)
  then show ?thesis by (intro that [of r s']) (simp add: execute_replay_def o e)
qed


section \<open>Instances of the theorems\<close>

lemma replay_plan_covers_target_witness:
  "\<exists>pv. preview demo_env ''safety.weapon'' 1 2 ''keep'' demo_replay_db = Inr pv \<and> pv_cases pv = [demo_plan]
     \<and> set (cp_reusable_requirement_keys demo_plan) \<union> set (cp_investigate_requirement_keys demo_plan) = {''weapon_visible''}"
proof -
  obtain pv where pv: "preview demo_env ''safety.weapon'' 1 2 ''keep'' demo_replay_db = Inr pv" "pv_cases pv = [demo_plan]"
    using demo_preview by blast
  have p: "demo_plan \<in> set (pv_cases pv)" by (simp add: pv(2))
  from replay_plan_covers_target [OF pv(1) p, of "new_policy_row 0 demo_source demo_policy PL_PUBLISHED"
      "new_policy_row 0 demo_source demo_target_policy PL_PUBLISHED"] pv
  show ?thesis by (simp add: t_get_Cons demo_requirement_keys)
qed



lemma replay_status_reports_witness:
  "\<exists>r s'. execute_replay demo_replay_world 40 ''y1'' demo_replay_db = (Inr r, s')
     \<and> replay_status (yr_processing_job_id r) s' = Inr (RV_Result r)"
proof -
  obtain r s' where x: "execute_replay demo_replay_world 40 ''y1'' demo_replay_db = (Inr r, s')" by (rule demo_replays)
  obtain s1 replay where e: "execute_items demo_replay_world (map rp_id (ordered_items (yw_env demo_replay_world) ''y1'' demo_replay_db)) demo_replay_db = (Inr (), s1)"
    and "t_get rj_id ''y1'' (db_replay_jobs s1) = Some replay" and "r = replay_result replay (items_of ''y1'' s1)"
    and s': "s' = update_job (rj_processing_job_id replay) (\<lambda>j. j\<lparr>jb_status := JS_SUCCEEDED, jb_finished_at := Some 40,
                   jb_lease_until := None, jb_updated_at := 40\<rparr>)
                 (update_replay ''y1'' (\<lambda>x. x\<lparr>rj_status := JS_SUCCEEDED,
                   rj_result_payload := Some (json_replay_result r), rj_updated_at := 40\<rparr>) s1)"
    by (rule execute_replay_Inr [OF x])
  have "db_replay_jobs s1 = [demo_replay_row]"
    using execute_items_settle [OF e _ demo_replay_ok] by (simp add: dispatch_keeps_def keys_distinct_def items_step_def)
  then have "keys_distinct rj_processing_job_id (db_replay_jobs s')"
    by (simp add: s' update_job_def update_replay_def t_upd_def keys_distinct_def)
  from replay_status_reports [OF x this refl] x show ?thesis by blast
qed

lemma replayed_case_never_again_witness:
  "\<exists>pv. preview demo_env ''safety.weapon'' 1 2 ''keep'' demo_replay_db = Inr pv
     \<and> snd (prepare_replay demo_env 50 (\<lambda>k. digits k) ''safety.weapon'' 1 2 (pv_preview_sha256 pv) (Some ''other'') ''keep'' demo_replay_db)
       = demo_replay_db"
proof -
  obtain pv where pv: "preview demo_env ''safety.weapon'' 1 2 ''keep'' demo_replay_db = Inr pv" "pv_cases pv = [demo_plan]"
    using demo_preview by blast
  obtain r s' where p: "prepare_replay demo_env 50 (\<lambda>k. digits k) ''safety.weapon'' 1 2 (pv_preview_sha256 pv) (Some ''other'') ''keep'' demo_replay_db
    = (r, s')" by fastforce
  have "demo_plan \<in> set (pv_cases pv)" "demo_item \<in> set (db_replay_items demo_replay_db)"
    "rp_source_case_id demo_item = cp_source_case_id demo_plan" "rp_target_policy_version demo_item = 2"
    "keys_distinct jb_id (db_jobs demo_replay_db)"
    by (simp_all add: pv(2) keys_distinct_def) (simp add: demo_plan_def)
  from replayed_case_never_again [OF pv(1) this(1-4) p this(5)] pv(1) p show ?thesis by simp
qed

lemma reevaluation_investigates_nothing_witness:
  "\<exists>r s'. execute_replay demo_replay_world 40 ''y1'' demo_replay_db = (r, s') \<and> db_runs s' = [demo_run] \<and> db_calls s' = [demo_call]"
proof -
  obtain r s' where x: "execute_replay demo_replay_world 40 ''y1'' demo_replay_db = (r, s')" by fastforce
  from reevaluation_investigates_nothing [OF x] x show ?thesis by (simp add: keys_distinct_def items_of_def demo_plan_def)
qed

end
