(* ===== verification/TextSearch.thy ===== *)
theory TextSearch
  imports ToolExecutor Jobs
begin

text \<open>
  \<open>evistream/retrieval/text.py\<close> and \<open>evistream/retrieval/temporal.py\<close>: the tokens a text is indexed and
  queried by, and windows of time. Text is a list of code points; NFKC with lower case is the parameter
  \<open>nfkc\<close>, as in the executor.
\<close>

section \<open>Tokens\<close>

definition latin :: "nat \<Rightarrow> bool" where
  "latin c \<longleftrightarrow> (97 \<le> c \<and> c \<le> 122) \<or> (48 \<le> c \<and> c \<le> 57)"

definition cjk :: "nat \<Rightarrow> bool" where
  "cjk c \<longleftrightarrow> (13312 \<le> c \<and> c \<le> 19903) \<or> (19968 \<le> c \<and> c \<le> 40959)"

text \<open>\<open>findall\<close> of a class of characters with \<open>+\<close>: the maximal runs, from left to right.\<close>

function runs_of :: "(nat \<Rightarrow> bool) \<Rightarrow> utext \<Rightarrow> utext list" where
  "runs_of P [] = []"
| "runs_of P (c # cs) = (if P c then (c # takeWhile P cs) # runs_of P (dropWhile P cs) else runs_of P cs)"
  by pat_completeness auto

termination
  by (relation "measure (\<lambda>(P, t). length t)") (auto simp: less_Suc_eq_le length_dropWhile_le)

text \<open>\<open>run[i : i + 2]\<close> for every \<open>i\<close> but the last.\<close>

fun bigrams :: "utext \<Rightarrow> utext list" where
  "bigrams (a # b # cs) = [a, b] # bigrams (b # cs)"
| "bigrams t = []"

text \<open>\<open>dict.fromkeys\<close>: the first occurrence of every token.\<close>

fun unique_first :: "'a list \<Rightarrow> 'a list" where
  "unique_first [] = []"
| "unique_first (x # xs) = x # filter (\<lambda>y. y \<noteq> x) (unique_first xs)"

definition lexemes :: "(utext \<Rightarrow> utext) \<Rightarrow> utext \<Rightarrow> utext list" where
  "lexemes nfkc t = (let n = normalize_text nfkc t in
     unique_first (filter (\<lambda>x. x \<noteq> []) (runs_of latin n @ concat (map (\<lambda>r. map (\<lambda>c. [c]) r @ bigrams r) (runs_of cjk n)))))"

fun join_text :: "utext \<Rightarrow> utext list \<Rightarrow> utext" where
  "join_text sep [] = []"
| "join_text sep [x] = x"
| "join_text sep (x # y # xs) = x @ sep @ join_text sep (y # xs)"

definition search_lexemes :: "(utext \<Rightarrow> utext) \<Rightarrow> utext \<Rightarrow> utext" where
  "search_lexemes nfkc t = join_text [32] (lexemes nfkc t)"

text \<open>\<open>str.split()\<close>: the maximal runs of what is not whitespace.\<close>

definition py_split :: "utext \<Rightarrow> utext list" where
  "py_split t = runs_of (\<lambda>c. \<not> py_isspace c) t"

section \<open>Windows of time\<close>

record SegmentBoundary =
  sb_start_ms :: int
  sb_end_ms :: int

text \<open>\<open>start_ms: int = Field(ge=0)\<close>, \<open>end_ms: int = Field(gt=0)\<close>.\<close>

definition make_boundary :: "int \<Rightarrow> int \<Rightarrow> SegmentBoundary res" where
  "make_boundary a b = (if 0 \<le> a \<and> 0 < b then Inr \<lparr> sb_start_ms = a, sb_end_ms = b \<rparr> else Inl ValueError)"

definition expand_window :: "int \<Rightarrow> int \<Rightarrow> int \<Rightarrow> int \<Rightarrow> SegmentBoundary res" where
  "expand_window start_ms end_ms duration_ms context_ms =
    (if start_ms < 0 \<or> end_ms \<le> start_ms \<or> duration_ms \<le> 0 then Inl ValueError
     else make_boundary (max 0 (start_ms - context_ms)) (min duration_ms (end_ms + context_ms)))"

fun merge_into :: "SegmentBoundary list \<Rightarrow> SegmentBoundary list \<Rightarrow> SegmentBoundary list" where
  "merge_into merged [] = rev merged"
| "merge_into [] (x # xs) = merge_into [x] xs"
| "merge_into (m # ms) (x # xs) =
     (if sb_end_ms m < sb_start_ms x then merge_into (x # m # ms) xs
      else merge_into (\<lparr> sb_start_ms = sb_start_ms m, sb_end_ms = max (sb_end_ms m) (sb_end_ms x) \<rparr> # ms) xs)"

definition range_le :: "SegmentBoundary \<Rightarrow> SegmentBoundary \<Rightarrow> bool" where
  "range_le a b \<longleftrightarrow> sb_start_ms a < sb_start_ms b \<or> (sb_start_ms a = sb_start_ms b \<and> sb_end_ms a \<le> sb_end_ms b)"

definition merge_ranges :: "SegmentBoundary list \<Rightarrow> SegmentBoundary list" where
  "merge_ranges rs = merge_into [] (sort_by range_le rs)"


section \<open>Splitting the indexed text gives the tokens back\<close>

lemma runs_of_token:
  "x \<noteq> [] \<Longrightarrow> \<forall>c\<in>set x. P c \<Longrightarrow> (ys = [] \<or> \<not> P (hd ys)) \<Longrightarrow> runs_of P (x @ ys) = x # runs_of P ys"
proof (cases x)
  case (Cons c cs)
  assume a: "x \<noteq> []" "\<forall>c\<in>set x. P c" "ys = [] \<or> \<not> P (hd ys)"
  have "takeWhile P (cs @ ys) = cs" "dropWhile P (cs @ ys) = ys"
    using a(2,3) Cons by (cases ys; simp add: takeWhile_append dropWhile_append)+
  then show ?thesis using a(2) Cons by simp
qed simp

lemma runs_of_join:
  "\<forall>x\<in>set xs. x \<noteq> [] \<and> (\<forall>c\<in>set x. P c) \<Longrightarrow> \<not> P c0 \<Longrightarrow> runs_of P (join_text [c0] xs) = xs"
proof (induction "[c0]" xs rule: join_text.induct)
  case 1
  then show ?case by simp
next
  case (2 x)
  then show ?case using runs_of_token [of x P "[]"] by simp
next
  case (3 x y xs)
  then show ?case using runs_of_token [of x P "c0 # join_text [c0] (y # xs)"] by simp
qed

lemma runs_of_class: "\<forall>x\<in>set (runs_of Q t). x \<noteq> [] \<and> (\<forall>c\<in>set x. Q c)"
proof (induction Q t rule: runs_of.induct)
  case (1 Q)
  show ?case by simp
next
  case (2 Q c cs)
  show ?case
  proof (cases "Q c")
    case True
    have a: "runs_of Q (c # cs) = (c # takeWhile Q cs) # runs_of Q (dropWhile Q cs)" using True by (simp only: runs_of.simps if_True)
    have "\<forall>d\<in>set (c # takeWhile Q cs). Q d" using True by (induction cs) auto
    then have "c # takeWhile Q cs \<noteq> [] \<and> (\<forall>d\<in>set (c # takeWhile Q cs). Q d)" by simp
    note first = this
    show ?thesis
    proof
      fix x assume "x \<in> set (runs_of Q (c # cs))"
      then have "x = c # takeWhile Q cs \<or> x \<in> set (runs_of Q (dropWhile Q cs))" unfolding a by simp
      then show "x \<noteq> [] \<and> (\<forall>c\<in>set x. Q c)"
      proof
        assume x: "x = c # takeWhile Q cs"
        show ?thesis unfolding x by (rule first)
      next
        assume "x \<in> set (runs_of Q (dropWhile Q cs))"
        then show ?thesis by (rule bspec [OF 2(1) [OF True]])
      qed
    qed
  next
    case False
    have a: "runs_of Q (c # cs) = runs_of Q cs" using False by (simp only: runs_of.simps if_False)
    show ?thesis unfolding a by (rule 2(2) [OF False])
  qed
qed

lemma bigrams_class: "x \<in> set (bigrams t) \<Longrightarrow> x \<noteq> [] \<and> set x \<subseteq> set t"
  by (induction t rule: bigrams.induct) auto

lemma set_unique_first [simp]: "set (unique_first xs) = set xs"
  by (induction xs) auto

lemma distinct_unique_first [simp]: "distinct (unique_first xs)"
  by (induction xs) auto

lemma lexemes_class:
  assumes "x \<in> set (lexemes nfkc t)"
  shows "x \<noteq> []" and "\<forall>c\<in>set x. latin c \<or> cjk c"
proof -
  let ?n = "normalize_text nfkc t"
  from assms show "x \<noteq> []" by (auto simp: lexemes_def Let_def)
  from assms have "x \<in> set (runs_of latin ?n) \<or> (\<exists>r\<in>set (runs_of cjk ?n). x \<in> (\<lambda>c. [c]) ` set r \<union> set (bigrams r))"
    by (auto simp: lexemes_def Let_def)
  then show "\<forall>c\<in>set x. latin c \<or> cjk c"
  proof (elim disjE bexE)
    assume "x \<in> set (runs_of latin ?n)"
    then show ?thesis using runs_of_class by blast
  next
    fix r assume r: "r \<in> set (runs_of cjk ?n)" "x \<in> (\<lambda>c. [c]) ` set r \<union> set (bigrams r)"
    then have "set x \<subseteq> set r" using bigrams_class by auto
    then show ?thesis using runs_of_class [of cjk, rule_format, OF r(1)] by blast
  qed
qed

lemma token_not_space: "latin c \<or> cjk c \<Longrightarrow> \<not> py_isspace c"
  by (auto simp: latin_def cjk_def py_isspace_def)

text \<open>
  The lexeme text an index stores and a query is made of loses nothing: splitting it at spaces gives
  the tokens back, which are distinct, not empty, and made of Latin letters, digits and Chinese characters.
\<close>

theorem search_lexemes_split:
  "py_split (search_lexemes nfkc t) = lexemes nfkc t \<and> distinct (lexemes nfkc t)
    \<and> (\<forall>x\<in>set (lexemes nfkc t). x \<noteq> [] \<and> (\<forall>c\<in>set x. latin c \<or> cjk c))"
proof (intro conjI ballI)
  show "py_split (search_lexemes nfkc t) = lexemes nfkc t"
    unfolding py_split_def search_lexemes_def
    by (rule runs_of_join) (use lexemes_class token_not_space in \<open>auto simp: py_isspace_def\<close>)
  show "distinct (lexemes nfkc t)" by (simp add: lexemes_def Let_def)
qed (use lexemes_class in auto)

lemma demo_lexemes:
  "lexemes id [97, 49, 32, 19968, 20108, 32, 97, 49] = [[97, 49], [19968], [20108], [19968, 20108]]"
  by (simp add: lexemes_def normalize_text_def py_strip_def Let_def latin_def cjk_def py_isspace_def)

lemma search_lexemes_split_witness:
  "lexemes id [97, 49, 32, 19968, 20108, 32, 97, 49] = [[97, 49], [19968], [20108], [19968, 20108]]
    \<and> py_split (search_lexemes id [97, 49, 32, 19968, 20108, 32, 97, 49]) = [[97, 49], [19968], [20108], [19968, 20108]]"
  using search_lexemes_split [of id "[97, 49, 32, 19968, 20108, 32, 97, 49]"] unfolding demo_lexemes by blast

section \<open>Merging ranges\<close>

definition span :: "SegmentBoundary \<Rightarrow> int set" where
  "span r = {t. sb_start_ms r \<le> t \<and> t < sb_end_ms r}"

definition apart :: "SegmentBoundary \<Rightarrow> SegmentBoundary \<Rightarrow> bool" where
  "apart a b \<longleftrightarrow> sb_end_ms a < sb_start_ms b"

definition proper :: "SegmentBoundary \<Rightarrow> bool" where
  "proper r \<longleftrightarrow> sb_start_ms r \<le> sb_end_ms r"

lemma merge_into_merges:
  assumes "sorted_wrt range_le xs" and "\<forall>r\<in>set (ms @ xs). proper r" and "sorted_wrt apart (rev ms)"
    and "\<forall>m\<in>set (take 1 ms). \<forall>x\<in>set xs. sb_start_ms m \<le> sb_start_ms x"
  shows "(\<Union>r\<in>set (merge_into ms xs). span r) = (\<Union>r\<in>set ms \<union> set xs. span r)
    \<and> sorted_wrt apart (merge_into ms xs) \<and> (\<forall>r\<in>set (merge_into ms xs). proper r)"
  using assms
proof (induction ms xs rule: merge_into.induct)
  case (1 merged)
  then show ?case by auto
next
  case (2 x xs)
  have "\<forall>y\<in>set xs. sb_start_ms x \<le> sb_start_ms y" using 2(2) by (auto simp: range_le_def)
  then have "(\<Union>r\<in>set (merge_into [x] xs). span r) = (\<Union>r\<in>set [x] \<union> set xs. span r)
    \<and> sorted_wrt apart (merge_into [x] xs) \<and> (\<forall>r\<in>set (merge_into [x] xs). proper r)"
    using 2 by (intro 2(1)) auto
  then show ?case by simp
next
  case (3 m ms x xs)
  have le: "\<forall>y\<in>set xs. sb_start_ms x \<le> sb_start_ms y" using 3(3) by (auto simp: range_le_def)
  have mx: "sb_start_ms m \<le> sb_start_ms x" using 3(6) by simp
  have pm: "sb_start_ms m \<le> sb_end_ms m" "sb_start_ms x \<le> sb_end_ms x" using 3(4) by (auto simp: proper_def)
  show ?case
  proof (cases "sb_end_ms m < sb_start_ms x")
    case True
    have "apart a x" if "a \<in> set ms" for a
    proof -
      have "apart a m" using 3(5) that by (auto simp: sorted_wrt_append)
      then show ?thesis using mx by (simp add: apart_def)
    qed
    then have "sorted_wrt apart (rev (x # m # ms))"
      using 3(5) True by (auto simp: sorted_wrt_append apart_def [of m x])
    then have "(\<Union>r\<in>set (merge_into (x # m # ms) xs). span r) = (\<Union>r\<in>set (x # m # ms) \<union> set xs. span r)
      \<and> sorted_wrt apart (merge_into (x # m # ms) xs) \<and> (\<forall>r\<in>set (merge_into (x # m # ms) xs). proper r)"
      using 3(3,4) le True by (intro 3(1)) auto
    then show ?thesis using True by (simp add: insert_commute)
  next
    case False
    let ?y = "\<lparr> sb_start_ms = sb_start_ms m, sb_end_ms = max (sb_end_ms m) (sb_end_ms x) \<rparr>"
    have sp: "span ?y = span m \<union> span x" using False mx pm by (auto simp: span_def)
    have "apart a ?y = apart a m" for a by (simp add: apart_def)
    then have "sorted_wrt apart (rev (?y # ms))" using 3(5) by (simp add: sorted_wrt_append)
    then have "(\<Union>r\<in>set (merge_into (?y # ms) xs). span r) = (\<Union>r\<in>set (?y # ms) \<union> set xs. span r)
      \<and> sorted_wrt apart (merge_into (?y # ms) xs) \<and> (\<forall>r\<in>set (merge_into (?y # ms) xs). proper r)"
      using 3(3,4) le mx False pm by (intro 3(2)) (auto simp: proper_def)
    then show ?thesis using False sp by auto
  qed
qed

lemma range_le_total: "total_preorder range_le"
  by (auto simp: total_preorder_def range_le_def)

lemma merge_ranges_merges:
  assumes "\<forall>r\<in>set rs. proper r"
  shows "(\<Union>r\<in>set (merge_ranges rs). span r) = (\<Union>r\<in>set rs. span r) \<and> sorted_wrt apart (merge_ranges rs)
    \<and> (\<forall>r\<in>set (merge_ranges rs). proper r)"
  using merge_into_merges [of "sort_by range_le rs" "[]"] assms sorted_sort_by [OF range_le_total]
  by (simp add: merge_ranges_def)

lemma sort_by_sorted: "sorted_wrt le xs \<Longrightarrow> (\<And>x. le x x) \<Longrightarrow> sort_by le xs = xs"
proof (induction xs)
  case (Cons x xs)
  then show ?case by (cases xs) auto
qed simp

lemma merge_into_apart: "sorted_wrt apart (rev ms @ xs) \<Longrightarrow> merge_into ms xs = rev ms @ xs"
  by (induction ms xs rule: merge_into.induct) (auto simp: sorted_wrt_append apart_def)

text \<open>
  Merging ranges covers exactly what the ranges cover, by ranges in ascending order that neither
  overlap nor touch; merging again changes nothing.
\<close>

theorem merge_ranges_partition:
  assumes "\<forall>r\<in>set rs. proper r"
  shows "(\<Union>r\<in>set (merge_ranges rs). span r) = (\<Union>r\<in>set rs. span r) \<and> sorted_wrt apart (merge_ranges rs)
    \<and> merge_ranges (merge_ranges rs) = merge_ranges rs"
proof -
  note m = merge_ranges_merges [OF assms]
  have "sorted_wrt range_le (merge_ranges rs)"
  proof (rule sorted_wrt_mono_rel [OF _ conjunct1 [OF conjunct2 [OF m]]])
    fix a b assume "a \<in> set (merge_ranges rs)" "b \<in> set (merge_ranges rs)" "apart a b"
    then show "range_le a b" using m by (auto simp: apart_def range_le_def proper_def)
  qed
  then have "sort_by range_le (merge_ranges rs) = merge_ranges rs" by (rule sort_by_sorted) (simp add: range_le_def)
  then have "merge_ranges (merge_ranges rs) = merge_into [] (merge_ranges rs)" by (simp add: merge_ranges_def)
  also have "\<dots> = merge_ranges rs" using merge_into_apart [of "[]"] m by simp
  finally show ?thesis using m by blast
qed

lemma merge_ranges_partition_witness:
  "merge_ranges [\<lparr> sb_start_ms = 5, sb_end_ms = 9 \<rparr>, \<lparr> sb_start_ms = 0, sb_end_ms = 5 \<rparr>, \<lparr> sb_start_ms = 20, sb_end_ms = 30 \<rparr>]
     = [\<lparr> sb_start_ms = 0, sb_end_ms = 9 \<rparr>, \<lparr> sb_start_ms = 20, sb_end_ms = 30 \<rparr>]
   \<and> sorted_wrt apart (merge_ranges [\<lparr> sb_start_ms = 5, sb_end_ms = 9 \<rparr>, \<lparr> sb_start_ms = 0, sb_end_ms = 5 \<rparr>])"
  using merge_ranges_partition [of "[\<lparr> sb_start_ms = 5, sb_end_ms = 9 \<rparr>, \<lparr> sb_start_ms = 0, sb_end_ms = 5 \<rparr>]"]
  by (simp add: merge_ranges_def range_le_def proper_def)

section \<open>Windows stay inside the video\<close>

lemma expand_window_inside:
  assumes "expand_window a b d c = Inr w" and "0 \<le> c"
  shows "0 \<le> sb_start_ms w \<and> sb_end_ms w \<le> d \<and> sb_start_ms w \<le> a \<and> (b \<le> d \<longrightarrow> b \<le> sb_end_ms w)"
  using assms by (auto simp: expand_window_def make_boundary_def split: if_splits)

end
