(* ===== verification/Retrieval.thy ===== *)
theory Retrieval
  imports TextSearch
begin

text \<open>
  \<open>evistream/retrieval/service.py\<close> and \<open>types.py\<close>: hybrid search by full text and by vectors, fused by
  reciprocal ranks, with the embedding space of \<open>indexing.py\<close>. What PostgreSQL computes (whether a
  document matches a text query, the rank it gives, the cosine distance of two vectors) and the embedding
  provider are parameters; everything the source does with their answers is here. Scores are rational.
\<close>

section \<open>Parameters\<close>

record ResolvedEmbeddingProfile =
  ep_name :: string
  ep_gateway :: string
  ep_base_url :: "string option"
  ep_model :: string
  ep_dimensions :: int
  ep_batch_size :: nat

record EmbeddingRequest =
  eq_texts :: "utext list"
  eq_dimensions :: int
  eq_trace_id :: string

record EmbeddingResponse =
  er_vectors :: "rat list list"
  er_actual_model :: string
  er_prompt_tokens :: int

text \<open>
  \<open>tw_netloc\<close> is \<open>urlsplit(url).netloc.lower()\<close>; the provider answers the n-th request of an operation;
  the clock is read for a row.
\<close>

record retrieval_world =
  tw_env :: env
  tw_nfkc :: "utext \<Rightarrow> utext"
  tw_text_sha :: "utext \<Rightarrow> string"
  tw_netloc :: "string \<Rightarrow> string"
  tw_match :: "utext \<Rightarrow> SearchDocumentRecord \<Rightarrow> bool"
  tw_rank :: "utext \<Rightarrow> SearchDocumentRecord \<Rightarrow> rat"
  tw_distance :: "rat list \<Rightarrow> rat list \<Rightarrow> rat"
  tw_embed :: "nat \<Rightarrow> EmbeddingRequest \<Rightarrow> EmbeddingResponse res"
  tw_profile :: ResolvedEmbeddingProfile
  tw_settings :: Settings
  tw_stamp :: "string \<Rightarrow> nat \<Rightarrow> time"

definition embedding_space_id :: "retrieval_world \<Rightarrow> string" where
  "embedding_space_id W = (let p = tw_profile W; nl = [char_of (10 :: nat)];
     endpoint = tw_netloc W (if truthy (ep_base_url p) then the (ep_base_url p) else ''mock://local'')
     in sha (tw_env W) (ep_name p @ nl @ ep_gateway p @ nl @ endpoint @ nl @ ep_model p @ nl @ str_int (ep_dimensions p)))"

section \<open>Requests and answers\<close>

record RetrievalRequest =
  rr_video_id :: string
  rr_query :: utext
  rr_modalities :: "string list"
  rr_start_ms :: "int option"
  rr_end_ms :: "int option"
  rr_limit :: int

definition valid_RetrievalRequest :: "RetrievalRequest \<Rightarrow> bool" where
  "valid_RetrievalRequest q \<longleftrightarrow> rr_video_id q \<noteq> [] \<and> \<not> is_blank (rr_query q) \<and> rr_modalities q \<noteq> []
     \<and> set (rr_modalities q) \<subseteq> {''transcript'', ''ocr'', ''vision''} \<and> valid_time_range (rr_start_ms q) (rr_end_ms q)
     \<and> 1 \<le> rr_limit q \<and> rr_limit q \<le> 50"

record RetrievalHit =
  rh_document_id :: string
  rh_source_ref :: string
  rh_artifact_id :: string
  rh_modality :: string
  rh_start_ms :: int
  rh_end_ms :: int
  rh_content :: utext
  rh_keyword_rank :: "int option"
  rh_vector_rank :: "int option"
  rh_score :: rat

record RetrievalResult =
  rv_status :: ToolRunStatus
  rv_hits :: "RetrievalHit list"
  rv_error_code :: "string option"

section \<open>The two branches\<close>

text \<open>\<open>_filters\<close>: intervals are half open; the range counts when both ends are given.\<close>

definition in_filters :: "RetrievalRequest \<Rightarrow> string list \<Rightarrow> SearchDocumentRecord \<Rightarrow> bool" where
  "in_filters q modalities d \<longleftrightarrow> sd_video_id d = rr_video_id q \<and> sd_modality d \<in> set modalities
     \<and> (case (rr_start_ms q, rr_end_ms q) of
          (Some a, Some b) \<Rightarrow> sd_start_ms d < b \<and> a < sd_end_ms d
        | _ \<Rightarrow> True)"

text \<open>
  SQL \<open>LIKE\<close> with the escape character: \<open>%\<close> (37) stands for any text, \<open>_\<close> (95) for one character. SQLAlchemy's
  \<open>contains\<close> puts the operand between two \<open>%\<close> and does not escape it.
\<close>

fun sql_like :: "utext \<Rightarrow> utext \<Rightarrow> bool" where
  "sql_like [] t \<longleftrightarrow> t = []"
| "sql_like (p # ps) [] \<longleftrightarrow> p = 37 \<and> sql_like ps []"
| "sql_like (p # ps) (c # cs) \<longleftrightarrow>
     (if p = 37 then sql_like ps (c # cs) \<or> sql_like (p # ps) cs
      else if p = 95 then sql_like ps cs
      else if p = 92 then (case ps of [] \<Rightarrow> False | e # es \<Rightarrow> e = c \<and> sql_like es cs)
      else p = c \<and> sql_like ps cs)"

definition sql_contains :: "utext \<Rightarrow> utext \<Rightarrow> bool" where
  "sql_contains t x = sql_like (37 # x @ [37]) t"

text \<open>The score of a document for a query, None where it is not a candidate.\<close>

definition keyword_score :: "retrieval_world \<Rightarrow> RetrievalRequest \<Rightarrow> SearchDocumentRecord \<Rightarrow> rat option" where
  "keyword_score W q d =
    (let normalized = normalize_text (tw_nfkc W) (rr_query q);
         expression = join_text [32, 124, 32] (py_split (search_lexemes (tw_nfkc W) (rr_query q)));
         phrase = sql_contains (sd_normalized_text d) normalized;
         match = (if expression \<noteq> [] then tw_match W expression d else phrase);
         rank = (if expression \<noteq> [] then tw_rank W expression d else if match then 1 else 0)
     in if match \<or> phrase then Some (rank + (if phrase then 1 else 0)) else None)"

definition better_score :: "retrieval_world \<Rightarrow> RetrievalRequest \<Rightarrow> SearchDocumentRecord \<Rightarrow> SearchDocumentRecord \<Rightarrow> bool" where
  "better_score W q a b = (case (keyword_score W q a, keyword_score W q b) of
     (Some x, Some y) \<Rightarrow> y < x \<or> (x = y \<and> coll (tw_env W) (sd_id a) (sd_id b)) | _ \<Rightarrow> False)"

definition keyword_search :: "retrieval_world \<Rightarrow> RetrievalRequest \<Rightarrow> string list \<Rightarrow> int \<Rightarrow> db \<Rightarrow> SearchDocumentRecord list" where
  "keyword_search W q modalities limit s = (if modalities = [] then []
     else take (nat limit) (sort_by (better_score W q)
       (filter (\<lambda>d. in_filters q modalities d \<and> keyword_score W q d \<noteq> None) (db_documents s))))"

definition embedded_here :: "retrieval_world \<Rightarrow> SearchDocumentRecord \<Rightarrow> bool" where
  "embedded_here W d \<longleftrightarrow> sd_embedding d \<noteq> None \<and> sd_embedding_space d = Some (embedding_space_id W)"

definition closer :: "retrieval_world \<Rightarrow> rat list \<Rightarrow> SearchDocumentRecord \<Rightarrow> SearchDocumentRecord \<Rightarrow> bool" where
  "closer W v a b = (case (sd_embedding a, sd_embedding b) of
     (Some x, Some y) \<Rightarrow> tw_distance W x v < tw_distance W y v
        \<or> (tw_distance W x v = tw_distance W y v \<and> coll (tw_env W) (sd_id a) (sd_id b)) | _ \<Rightarrow> False)"

definition vector_search :: "retrieval_world \<Rightarrow> RetrievalRequest \<Rightarrow> rat list \<Rightarrow> int \<Rightarrow> db \<Rightarrow> SearchDocumentRecord list" where
  "vector_search W q v limit s = take (nat limit) (sort_by (closer W v)
     (filter (\<lambda>d. in_filters q (rr_modalities q) d \<and> embedded_here W d) (db_documents s)))"

section \<open>Fusion\<close>

text \<open>One pass over a ranked list, as the loop has it: the rank counts from 1.\<close>

record fused =
  fu_scores :: "string \<rightharpoonup> rat"
  fu_ranks :: "string \<rightharpoonup> int"

fun add_ranks :: "int \<Rightarrow> int \<Rightarrow> SearchDocumentRecord list \<Rightarrow> fused \<Rightarrow> fused" where
  "add_ranks k rank [] f = f"
| "add_ranks k rank (d # ds) f = add_ranks k (rank + 1) ds
     \<lparr> fu_scores = (fu_scores f)(sd_id d \<mapsto> (case fu_scores f (sd_id d) of None \<Rightarrow> 0 | Some x \<Rightarrow> x) + 1 / of_int (k + rank)),
       fu_ranks = (fu_ranks f)(sd_id d \<mapsto> rank) \<rparr>"

text \<open>The dictionary of records: a key keeps its first place and its last value.\<close>

fun add_records :: "SearchDocumentRecord list \<Rightarrow> SearchDocumentRecord list \<Rightarrow> SearchDocumentRecord list" where
  "add_records [] rs = rs"
| "add_records (d # ds) rs = add_records ds
     (if sd_id d \<in> sd_id ` set rs then map (\<lambda>r. if sd_id r = sd_id d then d else r) rs else rs @ [d])"

text \<open>\<open>scores[record.id]\<close>; every record of the dictionary has a score.\<close>

definition score_of :: "(string \<rightharpoonup> rat) \<Rightarrow> SearchDocumentRecord \<Rightarrow> rat" where
  "score_of sc d = (case sc (sd_id d) of None \<Rightarrow> 0 | Some x \<Rightarrow> x)"

definition fused_le :: "(SearchDocumentRecord \<Rightarrow> rat) \<Rightarrow> SearchDocumentRecord \<Rightarrow> SearchDocumentRecord \<Rightarrow> bool" where
  "fused_le sc a b \<longleftrightarrow> sc b < sc a \<or> (sc a = sc b \<and> sd_id a \<le> sd_id b)"

definition retrieval_hit :: "(string \<rightharpoonup> int) \<Rightarrow> (string \<rightharpoonup> int) \<Rightarrow> (SearchDocumentRecord \<Rightarrow> rat) \<Rightarrow> SearchDocumentRecord \<Rightarrow> RetrievalHit" where
  "retrieval_hit kr vr sc d = \<lparr> rh_document_id = sd_id d, rh_source_ref = ''search_document:'' @ sd_id d,
     rh_artifact_id = sd_artifact_id d, rh_modality = sd_modality d, rh_start_ms = sd_start_ms d, rh_end_ms = sd_end_ms d,
     rh_content = sd_text d, rh_keyword_rank = kr (sd_id d), rh_vector_rank = vr (sd_id d),
     rh_score = sc d \<rparr>"

definition fuse :: "int \<Rightarrow> int \<Rightarrow> SearchDocumentRecord list \<Rightarrow> SearchDocumentRecord list \<Rightarrow> RetrievalHit list" where
  "fuse k limit keyword vector =
    (let f1 = add_ranks k 1 keyword \<lparr> fu_scores = Map.empty, fu_ranks = Map.empty \<rparr>;
         f2 = add_ranks k 1 vector \<lparr> fu_scores = fu_scores f1, fu_ranks = Map.empty \<rparr>;
         ordered = sort_by (fused_le (score_of (fu_scores f2))) (add_records vector (add_records keyword []))
     in map (retrieval_hit (fu_ranks f1) (fu_ranks f2) (score_of (fu_scores f2))) (take (nat limit) ordered))"

definition vector_unavailable :: string where
  "vector_unavailable = ''RETRIEVAL_VECTOR_UNAVAILABLE''"

text \<open>
  \<open>search\<close>: the first vector of the answer is the query; a model error or an empty answer leaves the
  keyword branch alone, any other exception ends the search.
\<close>

definition search :: "retrieval_world \<Rightarrow> RetrievalRequest \<Rightarrow> db \<Rightarrow> RetrievalResult res" where
  "search W q s =
    (let k = cfg_retrieval_rrf_k (tw_settings W);
         candidates = min (cfg_retrieval_candidate_limit (tw_settings W)) (max 20 (rr_limit q * 4));
         keyword_modalities = filter (\<lambda>m. m \<in> {''transcript'', ''ocr''}) (rr_modalities q);
         keyword = keyword_search W q keyword_modalities candidates s;
         answer = tw_embed W 0 \<lparr> eq_texts = [rr_query q], eq_dimensions = ep_dimensions (tw_profile W),
           eq_trace_id = ''retrieve-'' @ rr_video_id q \<rparr>;
         degraded = (if keyword_modalities = []
           then Inr \<lparr> rv_status = TR_FAILED, rv_hits = [], rv_error_code = Some vector_unavailable \<rparr>
           else Inr \<lparr> rv_status = TR_PARTIAL, rv_hits = fuse k (rr_limit q) keyword [], rv_error_code = Some vector_unavailable \<rparr>)
     in case answer of
       Inr r \<Rightarrow> (case er_vectors r of
           [] \<Rightarrow> degraded
         | v # _ \<Rightarrow> Inr \<lparr> rv_status = TR_SUCCESS, rv_hits = fuse k (rr_limit q) keyword (vector_search W q v candidates s),
             rv_error_code = None \<rparr>)
     | Inl (ModelError c b) \<Rightarrow> degraded
     | Inl e \<Rightarrow> Inl e)"


section \<open>The fusion is reciprocal rank fusion\<close>

text \<open>The rank of a document in a list that starts at \<open>n\<close>, and what a rank is worth.\<close>

fun rank_from :: "int \<Rightarrow> SearchDocumentRecord list \<Rightarrow> string \<Rightarrow> int option" where
  "rank_from n [] i = None"
| "rank_from n (d # ds) i = (if sd_id d = i then Some n else rank_from (n + 1) ds i)"

fun rrf :: "int \<Rightarrow> int option \<Rightarrow> rat" where
  "rrf k None = 0"
| "rrf k (Some r) = 1 / of_int (k + r)"

definition rrf_score :: "int \<Rightarrow> SearchDocumentRecord list \<Rightarrow> SearchDocumentRecord list \<Rightarrow> SearchDocumentRecord \<Rightarrow> rat" where
  "rrf_score k kw vec d = rrf k (rank_from 1 kw (sd_id d)) + rrf k (rank_from 1 vec (sd_id d))"

lemma rank_from_None: "rank_from n ds i = None \<longleftrightarrow> i \<notin> sd_id ` set ds"
  by (induction ds arbitrary: n) auto

lemma add_ranks_at:
  "distinct (map sd_id ds) \<Longrightarrow> fu_ranks (add_ranks k n ds f) i = (case rank_from n ds i of None \<Rightarrow> fu_ranks f i | Some r \<Rightarrow> Some r)
    \<and> fu_scores (add_ranks k n ds f) i = (case rank_from n ds i of None \<Rightarrow> fu_scores f i
       | Some r \<Rightarrow> Some ((case fu_scores f i of None \<Rightarrow> 0 | Some x \<Rightarrow> x) + rrf k (Some r)))"
proof (induction ds arbitrary: n f)
  case Nil
  then show ?case by simp
next
  case (Cons d ds)
  have i: "distinct (map sd_id ds)" and n: "sd_id d \<notin> sd_id ` set ds" using Cons.prems by auto
  have none: "rank_from (n + 1) ds (sd_id d) = None" using n by (simp add: rank_from_None)
  show ?case
  proof (cases "sd_id d = i")
    case True
    then show ?thesis using none Cons.IH [OF i] by simp
  next
    case False
    then show ?thesis using Cons.IH [OF i] by (cases "rank_from (n + 1) ds i") simp_all
  qed
qed

lemma add_records_new: "distinct (map sd_id ds) \<Longrightarrow> (\<forall>a\<in>set rs. \<forall>b\<in>set ds. sd_id a = sd_id b \<longrightarrow> a = b)
    \<Longrightarrow> add_records ds rs = rs @ filter (\<lambda>d. d \<notin> set rs) ds"
proof (induction ds arbitrary: rs)
  case Nil
  then show ?case by simp
next
  case (Cons d ds)
  have dst: "distinct (map sd_id ds)" and nd: "sd_id d \<notin> sd_id ` set ds" using Cons.prems(1) by auto
  show ?case
  proof (cases "d \<in> set rs")
    case True
    then have "sd_id d \<in> sd_id ` set rs" by simp
    moreover have "map (\<lambda>r. if sd_id r = sd_id d then d else r) rs = rs" using Cons.prems(2) by (auto intro!: map_idI)
    ultimately show ?thesis using True Cons.IH [OF dst, of rs] Cons.prems(2) by simp
  next
    case False
    then have "sd_id d \<notin> sd_id ` set rs" using Cons.prems(2) by auto
    moreover have "add_records ds (rs @ [d]) = (rs @ [d]) @ filter (\<lambda>e. e \<notin> set (rs @ [d])) ds"
      using Cons.prems(2) nd by (intro Cons.IH [OF dst]) auto
    moreover have "filter (\<lambda>e. e \<notin> set (rs @ [d])) ds = filter (\<lambda>e. e \<notin> set rs) ds"
      using nd by (intro filter_cong) auto
    ultimately show ?thesis using False by simp
  qed
qed

lemma fuse_is_rrf:
  assumes "distinct (map sd_id kw)" and "distinct (map sd_id vec)" and "\<forall>a\<in>set kw. \<forall>b\<in>set vec. sd_id a = sd_id b \<longrightarrow> a = b"
  shows "fuse k limit kw vec = map (retrieval_hit (rank_from 1 kw) (rank_from 1 vec) (rrf_score k kw vec))
    (take (nat limit) (sort_by (fused_le (rrf_score k kw vec)) (kw @ filter (\<lambda>d. d \<notin> set kw) vec)))"
proof -
  let ?f1 = "add_ranks k 1 kw \<lparr> fu_scores = Map.empty, fu_ranks = Map.empty \<rparr>"
  let ?f2 = "add_ranks k 1 vec \<lparr> fu_scores = fu_scores ?f1, fu_ranks = Map.empty \<rparr>"
  have r1: "fu_ranks ?f1 = rank_from 1 kw"
    by (rule ext) (simp add: add_ranks_at [OF assms(1)] split: option.splits)
  have r2: "fu_ranks ?f2 = rank_from 1 vec"
    by (rule ext) (simp add: add_ranks_at [OF assms(2)] split: option.splits)
  have sc: "score_of (fu_scores ?f2) = rrf_score k kw vec"
  proof
    fix d :: SearchDocumentRecord
    have a: "fu_scores ?f1 (sd_id d) = map_option (\<lambda>r. rrf k (Some r)) (rank_from 1 kw (sd_id d))"
      by (simp add: add_ranks_at [OF assms(1)] split: option.splits)
    show "score_of (fu_scores ?f2) d = rrf_score k kw vec d"
      by (simp add: score_of_def rrf_score_def add_ranks_at [OF assms(2)] a split: option.splits)
  qed
  have "add_records kw [] = kw" using add_records_new [OF assms(1), of "[]"] by simp
  then have "add_records vec (add_records kw []) = kw @ filter (\<lambda>d. d \<notin> set kw) vec"
    using add_records_new [OF assms(2), of kw] assms(3) by simp
  then show ?thesis unfolding fuse_def Let_def r1 r2 sc by simp
qed

lemma fused_le_total: "total_preorder (fused_le f)"
  unfolding total_preorder_def fused_le_def by fastforce


section \<open>What a search answers\<close>

definition candidate_limit :: "retrieval_world \<Rightarrow> RetrievalRequest \<Rightarrow> int" where
  "candidate_limit W q = min (cfg_retrieval_candidate_limit (tw_settings W)) (max 20 (rr_limit q * 4))"

definition keyword_candidates :: "retrieval_world \<Rightarrow> RetrievalRequest \<Rightarrow> db \<Rightarrow> SearchDocumentRecord list" where
  "keyword_candidates W q s = keyword_search W q (filter (\<lambda>m. m \<in> {''transcript'', ''ocr''}) (rr_modalities q)) (candidate_limit W q) s"

definition degraded :: "retrieval_world \<Rightarrow> RetrievalRequest \<Rightarrow> db \<Rightarrow> RetrievalResult" where
  "degraded W q s = (if set (rr_modalities q) \<inter> {''transcript'', ''ocr''} = {}
     then \<lparr> rv_status = TR_FAILED, rv_hits = [], rv_error_code = Some vector_unavailable \<rparr>
     else \<lparr> rv_status = TR_PARTIAL, rv_hits = fuse (cfg_retrieval_rrf_k (tw_settings W)) (rr_limit q) (keyword_candidates W q s) [],
       rv_error_code = Some vector_unavailable \<rparr>)"

lemma search_cases:
  assumes "search W q s = Inr r"
  obtains (plain) "r = degraded W q s"
  | (both) v where "r = \<lparr> rv_status = TR_SUCCESS, rv_hits = fuse (cfg_retrieval_rrf_k (tw_settings W)) (rr_limit q)
      (keyword_candidates W q s) (vector_search W q v (candidate_limit W q) s), rv_error_code = None \<rparr>"
proof -
  have e: "(filter (\<lambda>m. m \<in> {''transcript'', ''ocr''}) (rr_modalities q) = []) = (set (rr_modalities q) \<inter> {''transcript'', ''ocr''} = {})"
    by (auto simp: filter_empty_conv)
  show ?thesis
    using assms unfolding search_def Let_def e
    by (auto simp: degraded_def keyword_candidates_def candidate_limit_def split: sum.splits exn.splits list.splits if_splits
        intro: plain both)
qed

lemma table_part:
  assumes "distinct (map sd_id ds)"
  shows "distinct (map sd_id (take n (sort_by le (filter P ds))))" and "set (take n (sort_by le (filter P ds))) \<subseteq> {d \<in> set ds. P d}"
proof -
  show "distinct (map sd_id (take n (sort_by le (filter P ds))))"
    unfolding take_map [symmetric] by (rule distinct_take) (simp add: assms distinct_map_filter)
  show "set (take n (sort_by le (filter P ds))) \<subseteq> {d \<in> set ds. P d}" by (auto dest: in_set_takeD)
qed

lemma keyword_part:
  assumes "keys_distinct sd_id (db_documents s)"
  shows "distinct (map sd_id (keyword_candidates W q s))"
    and "set (keyword_candidates W q s) \<subseteq> {d \<in> set (db_documents s). in_filters q (rr_modalities q) d}"
proof -
  note d = assms [unfolded keys_distinct_def]
  show "distinct (map sd_id (keyword_candidates W q s))"
    using table_part(1) [OF d] by (simp add: keyword_candidates_def keyword_search_def)
  have "in_filters q (filter P (rr_modalities q)) x \<Longrightarrow> in_filters q (rr_modalities q) x" for P x by (auto simp: in_filters_def)
  then show "set (keyword_candidates W q s) \<subseteq> {d \<in> set (db_documents s). in_filters q (rr_modalities q) d}"
    using table_part(2) [OF d] unfolding keyword_candidates_def keyword_search_def by (auto dest!: in_set_takeD)
qed

lemma vector_part:
  assumes "keys_distinct sd_id (db_documents s)"
  shows "distinct (map sd_id (vector_search W q v n s))"
    and "set (vector_search W q v n s) \<subseteq> {d \<in> set (db_documents s). in_filters q (rr_modalities q) d}"
  using table_part [OF assms [unfolded keys_distinct_def]] unfolding vector_search_def by (auto dest!: in_set_takeD)

text \<open>What the list of hits is, for two lists of candidates.\<close>

definition rrf_hits :: "int \<Rightarrow> int \<Rightarrow> SearchDocumentRecord list \<Rightarrow> SearchDocumentRecord list \<Rightarrow> RetrievalHit list" where
  "rrf_hits k limit kw vec = map (retrieval_hit (rank_from 1 kw) (rank_from 1 vec) (rrf_score k kw vec))
    (take (nat limit) (sort_by (fused_le (rrf_score k kw vec)) (kw @ filter (\<lambda>d. d \<notin> set kw) vec)))"

definition hit_of :: "SearchDocumentRecord \<Rightarrow> RetrievalHit \<Rightarrow> bool" where
  "hit_of d h \<longleftrightarrow> rh_document_id h = sd_id d \<and> rh_source_ref h = ''search_document:'' @ sd_id d \<and> rh_artifact_id h = sd_artifact_id d \<and> rh_modality h = sd_modality d
     \<and> rh_start_ms h = sd_start_ms d \<and> rh_end_ms h = sd_end_ms d \<and> rh_content h = sd_text d"

lemma rrf_hits_good:
  assumes "distinct (map sd_id kw)" and "distinct (map sd_id vec)" and "\<forall>a\<in>set kw. \<forall>b\<in>set vec. sd_id a = sd_id b \<longrightarrow> a = b"
  shows "distinct (map rh_document_id (rrf_hits k limit kw vec)) \<and> length (rrf_hits k limit kw vec) \<le> nat limit
    \<and> sorted_wrt (\<lambda>g h. rh_score h \<le> rh_score g) (rrf_hits k limit kw vec)
    \<and> (\<forall>h\<in>set (rrf_hits k limit kw vec). \<exists>d\<in>set kw \<union> set vec. hit_of d h)"
proof -
  let ?c = "kw @ filter (\<lambda>d. d \<notin> set kw) vec"
  let ?o = "take (nat limit) (sort_by (fused_le (rrf_score k kw vec)) ?c)"
  have m: "map rh_document_id (rrf_hits k limit kw vec) = map sd_id ?o" by (simp add: rrf_hits_def retrieval_hit_def)
  have "distinct (map sd_id ?c)" using assms distinct_map_filter [OF assms(2)] by auto
  then have "distinct (map sd_id ?o)" by (simp add: take_map [symmetric] distinct_take)
  moreover have "sorted_wrt (fused_le (rrf_score k kw vec)) ?o"
    using sorted_sort_by [OF fused_le_total] by (rule sorted_wrt_take)
  then have "sorted_wrt (\<lambda>g h. rh_score h \<le> rh_score g) (rrf_hits k limit kw vec)"
    unfolding rrf_hits_def sorted_wrt_map by (rule sorted_wrt_mono_rel [rotated]) (auto simp: fused_le_def retrieval_hit_def)
  moreover have "\<forall>h\<in>set (rrf_hits k limit kw vec). \<exists>d\<in>set kw \<union> set vec. hit_of d h"
    by (auto simp: rrf_hits_def hit_of_def retrieval_hit_def dest!: in_set_takeD)
  ultimately show ?thesis unfolding m by (simp add: rrf_hits_def)
qed

lemma search_hits:
  assumes "search W q s = Inr r" and "keys_distinct sd_id (db_documents s)"
  shows "(\<exists>vec. rv_hits r = rrf_hits (cfg_retrieval_rrf_k (tw_settings W)) (rr_limit q) (keyword_candidates W q s) vec
        \<and> (if rv_status r = TR_SUCCESS then \<exists>v. vec = vector_search W q v (candidate_limit W q) s
           else vec = [] \<and> rv_error_code r = Some vector_unavailable)
      \<or> rv_status r = TR_FAILED \<and> rv_hits r = [] \<and> set (rr_modalities q) \<inter> {''transcript'', ''ocr''} = {})
    \<and> distinct (map rh_document_id (rv_hits r)) \<and> length (rv_hits r) \<le> nat (rr_limit q)
    \<and> sorted_wrt (\<lambda>g h. rh_score h \<le> rh_score g) (rv_hits r)
    \<and> (\<forall>h\<in>set (rv_hits r). \<exists>d\<in>set (db_documents s). in_filters q (rr_modalities q) d \<and> hit_of d h)"
proof -
  let ?k = "cfg_retrieval_rrf_k (tw_settings W)" and ?kw = "keyword_candidates W q s"
  note kw = keyword_part [OF assms(2), of W q]
  have goal: ?thesis
    if "rv_hits r = fuse ?k (rr_limit q) ?kw vec" and "distinct (map sd_id vec)"
      and sub: "set vec \<subseteq> {d \<in> set (db_documents s). in_filters q (rr_modalities q) d}"
      and st: "if rv_status r = TR_SUCCESS then \<exists>v. vec = vector_search W q v (candidate_limit W q) s
           else vec = [] \<and> rv_error_code r = Some vector_unavailable" for vec
  proof -
    have same: "\<forall>a\<in>set ?kw. \<forall>b\<in>set vec. sd_id a = sd_id b \<longrightarrow> a = b"
    proof (intro ballI impI)
      fix a b assume ab: "a \<in> set ?kw" "b \<in> set vec" "sd_id a = sd_id b"
      have "a \<in> set (db_documents s)" "b \<in> set (db_documents s)" using ab kw(2) sub by auto
      then show "a = b" using t_get_complete [OF assms(2)] ab(3) by (metis option.inject)
    qed
    have h: "rv_hits r = rrf_hits ?k (rr_limit q) ?kw vec"
      using that(1) fuse_is_rrf [OF kw(1) that(2) same] by (simp add: rrf_hits_def)
    note g = rrf_hits_good [OF kw(1) that(2) same, of ?k "rr_limit q", folded h]
    have "\<forall>x\<in>set (rv_hits r). \<exists>d\<in>set (db_documents s). in_filters q (rr_modalities q) d \<and> hit_of d x"
      using g kw(2) sub by fast
    then show ?thesis using g h st by blast
  qed
  from assms(1) show ?thesis
  proof (cases rule: search_cases)
    case plain
    show ?thesis
    proof (cases "set (rr_modalities q) \<inter> {''transcript'', ''ocr''} = {}")
      case True
      then show ?thesis by (simp add: plain degraded_def)
    next
      case False
      show ?thesis by (rule goal [of "[]"]) (use False in \<open>auto simp: plain degraded_def\<close>)
    qed
  next
    case (both v)
    show ?thesis
      by (rule goal [of "vector_search W q v (candidate_limit W q) s"]) (use vector_part [OF assms(2)] in \<open>auto simp: both\<close>)
  qed
qed

lemma search_status: "search W q s = Inr r \<Longrightarrow> rv_status r \<noteq> TR_RUNNING"
  by (erule search_cases) (simp_all add: degraded_def)

text \<open>
  C29. A search is reciprocal rank fusion. Its hits are the best of the two lists of candidates by the sum
  of the reciprocals of their ranks, ties by identifier: distinct documents of the video, of the modalities
  asked for, overlapping the range, at most \<open>limit\<close>, in descending score. Without vectors the answer is
  partial, from the keywords alone, or failed and empty where only vectors could have answered.
\<close>

theorem search_is_rrf:
  assumes "search W q s = Inr r" and "keys_distinct sd_id (db_documents s)"
  shows "(\<exists>vec. rv_hits r = rrf_hits (cfg_retrieval_rrf_k (tw_settings W)) (rr_limit q) (keyword_candidates W q s) vec
        \<and> (if rv_status r = TR_SUCCESS then \<exists>v. vec = vector_search W q v (candidate_limit W q) s
           else vec = [] \<and> rv_error_code r = Some vector_unavailable)
      \<or> rv_status r = TR_FAILED \<and> rv_hits r = [] \<and> set (rr_modalities q) \<inter> {''transcript'', ''ocr''} = {})
    \<and> distinct (map rh_document_id (rv_hits r)) \<and> length (rv_hits r) \<le> nat (rr_limit q)
    \<and> sorted_wrt (\<lambda>g h. rh_score h \<le> rh_score g) (rv_hits r)
    \<and> (\<forall>h\<in>set (rv_hits r). \<exists>d\<in>set (db_documents s). in_filters q (rr_modalities q) d \<and> hit_of d h)"
  by (rule search_hits [OF assms])

end
