(* ===== verification/RetrievalIndex.thy ===== *)
theory RetrievalIndex
  imports Retrieval AgentHandler
begin

text \<open>
  \<open>evistream/retrieval/indexing.py\<close>: the text of every document of a video is refreshed, and what has no
  current embedding is sent to the provider in batches.
\<close>

section \<open>The index of embeddings\<close>

record IndexFailure =
  if_batch_index :: nat
  if_document_ids :: "string list"
  if_error_code :: string
  if_retryable :: bool

record IndexSummary =
  xs_status :: ToolRunStatus
  xs_error_code :: "string option"
  xs_video_id :: string
  xs_total :: int
  xs_indexed :: int
  xs_skipped :: int
  xs_failed :: int
  xs_actual_model :: string
  xs_embedding_space :: string
  xs_dimensions :: int
  xs_prompt_tokens :: int
  xs_failures :: "IndexFailure list"

text \<open>The counters of the loop.\<close>

record index_progress =
  pg_indexed :: int
  pg_failed :: int
  pg_prompt_tokens :: int
  pg_actual_model :: string
  pg_failures :: "IndexFailure list"

type_synonym pending_document = "string \<times> utext \<times> string"

definition current_embedding :: "retrieval_world \<Rightarrow> SearchDocumentRecord \<Rightarrow> bool" where
  "current_embedding W d \<longleftrightarrow> embedded_here W d \<and> sd_embedding_source_sha256 d = Some (tw_text_sha W (sd_text d))"

text \<open>The derived text of a row is refreshed; a row that does not change is not written.\<close>

definition refresh_text :: "retrieval_world \<Rightarrow> SearchDocumentRecord \<Rightarrow> SearchDocumentRecord" where
  "refresh_text W d =
    (let n = normalize_text (tw_nfkc W) (sd_text d); l = search_lexemes (tw_nfkc W) (sd_text d)
     in if sd_normalized_text d = n \<and> sd_keyword_lexemes d = l then d
        else d\<lparr>sd_normalized_text := n, sd_keyword_lexemes := l, sd_updated_at := tw_stamp W (sd_id d) 0\<rparr>)"

definition video_documents :: "retrieval_world \<Rightarrow> string \<Rightarrow> SearchDocumentRecord list \<Rightarrow> SearchDocumentRecord list" where
  "video_documents W video_id ds = sort_by (\<lambda>a b. coll (tw_env W) (sd_id a) (sd_id b)) (filter (\<lambda>d. sd_video_id d = video_id) ds)"

definition pending_documents :: "retrieval_world \<Rightarrow> bool \<Rightarrow> SearchDocumentRecord list \<Rightarrow> pending_document list" where
  "pending_documents W force ds = map (\<lambda>d. (sd_id d, sd_text d, tw_text_sha W (sd_text d)))
     (filter (\<lambda>d. force \<or> \<not> current_embedding W d) ds)"

fun chunks :: "nat \<Rightarrow> 'a list \<Rightarrow> 'a list list" where
  "chunks n [] = []"
| "chunks n (x # xs) = take (Suc (n - 1)) (x # xs) # chunks n (drop (n - 1) xs)"

definition embed_row :: "retrieval_world \<Rightarrow> EmbeddingResponse \<Rightarrow> string \<Rightarrow> rat list \<Rightarrow> SearchDocumentRecord \<Rightarrow> SearchDocumentRecord" where
  "embed_row W r h v d = d\<lparr>sd_embedding := Some v, sd_embedding_space := Some (embedding_space_id W),
     sd_embedding_model := Some (er_actual_model r), sd_embedding_source_sha256 := Some h,
     sd_embedding_updated_at := Some (tw_stamp W (sd_id d) 1), sd_updated_at := tw_stamp W (sd_id d) 2\<rparr>"

fun index_rows ::
    "retrieval_world \<Rightarrow> nat \<Rightarrow> EmbeddingResponse \<Rightarrow> (pending_document \<times> rat list) list \<Rightarrow> index_progress
       \<Rightarrow> SearchDocumentRecord list \<Rightarrow> index_progress \<times> SearchDocumentRecord list" where
  "index_rows W n r [] p ds = (p, ds)"
| "index_rows W n r (((i, text, h), v) # xs) p ds =
    (case t_get sd_id i ds of
       Some d \<Rightarrow> if sd_text d = text
         then index_rows W n r xs (p\<lparr>pg_indexed := pg_indexed p + 1\<rparr>) (t_upd sd_id i (embed_row W r h v) ds)
         else index_rows W n r xs (p\<lparr>pg_failed := pg_failed p + 1, pg_failures := pg_failures p @
           [\<lparr> if_batch_index = n, if_document_ids = [i], if_error_code = ''INDEX_SOURCE_CHANGED'', if_retryable = True \<rparr>]\<rparr>) ds
     | None \<Rightarrow> index_rows W n r xs (p\<lparr>pg_failed := pg_failed p + 1, pg_failures := pg_failures p @
           [\<lparr> if_batch_index = n, if_document_ids = [i], if_error_code = ''INDEX_SOURCE_CHANGED'', if_retryable = True \<rparr>]\<rparr>) ds)"

text \<open>
  One batch is one request and one session: an answer with another number of vectors raises
  (\<open>zip(..., strict=True)\<close>) and the session is rolled back; batches before it stay.
\<close>

fun index_batches ::
    "retrieval_world \<Rightarrow> string \<Rightarrow> nat \<Rightarrow> pending_document list list \<Rightarrow> index_progress \<Rightarrow> SearchDocumentRecord list
       \<Rightarrow> index_progress res \<times> SearchDocumentRecord list" where
  "index_batches W video_id n [] p ds = (Inr p, ds)"
| "index_batches W video_id n (b # bs) p ds =
    (case tw_embed W n \<lparr> eq_texts = map (\<lambda>(i, t, h). t) b, eq_dimensions = ep_dimensions (tw_profile W),
         eq_trace_id = ''index-'' @ video_id @ ''-'' @ digits n \<rparr> of
       Inl (ModelError c retryable) \<Rightarrow> index_batches W video_id (Suc n) bs
         (p\<lparr>pg_failed := pg_failed p + int (length b), pg_failures := pg_failures p @
           [\<lparr> if_batch_index = n, if_document_ids = map fst b, if_error_code = str_model_error c, if_retryable = retryable \<rparr>]\<rparr>) ds
     | Inl e \<Rightarrow> (Inl e, ds)
     | Inr r \<Rightarrow>
        (if length (er_vectors r) \<noteq> length b then (Inl ValueError, ds)
         else case index_rows W n r (zip b (er_vectors r))
             (p\<lparr>pg_prompt_tokens := pg_prompt_tokens p + er_prompt_tokens r, pg_actual_model := er_actual_model r\<rparr>) ds of
           (p', ds') \<Rightarrow> index_batches W video_id (Suc n) bs p' ds'))"

definition index_status :: "int \<Rightarrow> int \<Rightarrow> int \<Rightarrow> ToolRunStatus \<times> string option" where
  "index_status indexed skipped failed =
    (if failed = 0 then (TR_SUCCESS, None)
     else if indexed \<noteq> 0 \<or> skipped \<noteq> 0 then (TR_PARTIAL, Some ''EMBEDDING_INDEX_PARTIAL'')
     else (TR_FAILED, Some ''EMBEDDING_INDEX_FAILED''))"

definition index_video :: "retrieval_world \<Rightarrow> string \<Rightarrow> bool \<Rightarrow> db \<Rightarrow> IndexSummary res \<times> db" where
  "index_video W video_id force s =
    (if t_get vd_id video_id (db_videos s) = None then (Inl LookupErr, s)
     else
     (let total = length (video_documents W video_id (db_documents s));
          ds1 = map (\<lambda>d. if sd_video_id d = video_id then refresh_text W d else d) (db_documents s);
          pending = pending_documents W force (video_documents W video_id ds1);
          skipped = int total - int (length pending);
          start = \<lparr> pg_indexed = 0, pg_failed = 0, pg_prompt_tokens = 0, pg_actual_model = ep_model (tw_profile W), pg_failures = [] \<rparr>
      in if ep_batch_size (tw_profile W) = 0 then (Inl ValueError, s\<lparr>db_documents := ds1\<rparr>)
         else case index_batches W video_id 0 (chunks (ep_batch_size (tw_profile W)) pending) start ds1 of
           (Inl e, ds2) \<Rightarrow> (Inl e, s\<lparr>db_documents := ds2\<rparr>)
         | (Inr p, ds2) \<Rightarrow>
             (Inr \<lparr> xs_status = fst (index_status (pg_indexed p) skipped (pg_failed p)),
                xs_error_code = snd (index_status (pg_indexed p) skipped (pg_failed p)), xs_video_id = video_id,
                xs_total = int total, xs_indexed = pg_indexed p, xs_skipped = skipped, xs_failed = pg_failed p,
                xs_actual_model = pg_actual_model p, xs_embedding_space = embedding_space_id W,
                xs_dimensions = ep_dimensions (tw_profile W), xs_prompt_tokens = pg_prompt_tokens p,
                xs_failures = pg_failures p \<rparr>, s\<lparr>db_documents := ds2\<rparr>)))"


section \<open>What an index run leaves\<close>

lemma concat_chunks [simp]: "concat (chunks n xs) = xs"
proof (induction n xs rule: chunks.induct)
  case (2 n x xs)
  have "take (Suc (n - 1)) (x # xs) @ drop (n - 1) xs = x # xs" by simp
  then show ?case using 2 by simp
qed simp

definition same_text :: "SearchDocumentRecord \<Rightarrow> SearchDocumentRecord \<Rightarrow> bool" where
  "same_text d d' \<longleftrightarrow> sd_id d' = sd_id d \<and> sd_text d' = sd_text d \<and> sd_video_id d' = sd_video_id d
     \<and> sd_normalized_text d' = sd_normalized_text d \<and> sd_keyword_lexemes d' = sd_keyword_lexemes d"

definition indexed_to :: "retrieval_world \<Rightarrow> string set \<Rightarrow> SearchDocumentRecord \<Rightarrow> SearchDocumentRecord \<Rightarrow> bool" where
  "indexed_to W I d d' \<longleftrightarrow> same_text d d' \<and> (current_embedding W d \<or> sd_id d \<in> I \<longrightarrow> current_embedding W d')"

lemma indexed_to_trans:
  "list_all2 (indexed_to W I) a b \<Longrightarrow> list_all2 (indexed_to W J) b c \<Longrightarrow> list_all2 (indexed_to W (I \<union> J)) a c"
  by (rule list_all2_trans [where ?P1.0 = "indexed_to W I" and ?P2.0 = "indexed_to W J"])
     (auto simp: indexed_to_def same_text_def)

lemma indexed_to_refl: "list_all2 (indexed_to W {}) ds ds"
  by (auto simp: indexed_to_def same_text_def intro: list.rel_refl_strong)

lemma indexed_to_distinct: "list_all2 (indexed_to W I) ds ds' \<Longrightarrow> keys_distinct sd_id ds \<Longrightarrow> keys_distinct sd_id ds'"
proof -
  assume l: "list_all2 (indexed_to W I) ds ds'" and k: "keys_distinct sd_id ds"
  have "map sd_id ds' = map sd_id ds" using l by (induction rule: list_all2_induct) (auto simp: indexed_to_def same_text_def)
  then show ?thesis using k by (simp add: keys_distinct_def)
qed

lemma embed_row_indexes:
  assumes "keys_distinct sd_id ds" and "t_get sd_id i ds = Some d" and "h = tw_text_sha W (sd_text d)"
  shows "list_all2 (indexed_to W {i}) ds (t_upd sd_id i (embed_row W r h v) ds)"
proof -
  have "indexed_to W {i} x (if sd_id x = i then embed_row W r h v x else x)" if x: "x \<in> set ds" for x
  proof (cases "sd_id x = i")
    case True
    then have "x = d" using t_get_complete [OF assms(1) x] assms(2) by simp
    then show ?thesis using True assms(3)
      by (simp add: indexed_to_def same_text_def embed_row_def current_embedding_def embedded_here_def)
  qed (simp add: indexed_to_def same_text_def)
  then show ?thesis unfolding t_upd_def by (simp add: list.rel_map(2) list.rel_refl_strong)
qed

lemma index_rows_counts:
  "index_rows W n r xs p ds = (p', ds') \<Longrightarrow> pg_indexed p' + pg_failed p' = pg_indexed p + pg_failed p + int (length xs)
    \<and> pg_failed p \<le> pg_failed p'"
  by (induction W n r xs p ds rule: index_rows.induct) (fastforce split: option.splits if_splits)+

lemma index_rows_indexes:
  assumes "index_rows W n r xs p ds = (p', ds')" and "pg_failed p' = pg_failed p" and "keys_distinct sd_id ds"
    and "\<forall>((i, t, h), v)\<in>set xs. h = tw_text_sha W t"
  shows "list_all2 (indexed_to W (fst ` fst ` set xs)) ds ds'"
  using assms
proof (induction xs arbitrary: p ds)
  case Nil
  then show ?case using indexed_to_refl by simp
next
  case (Cons x xs)
  obtain i t h v where x: "x = ((i, t, h), v)" by (cases x) auto
  have h: "h = tw_text_sha W t" using Cons.prems(4) x by simp
  have "\<exists>d. t_get sd_id i ds = Some d \<and> sd_text d = t"
  proof (rule ccontr)
    assume "\<not> ?thesis"
    then obtain p1 where "index_rows W n r xs p1 ds = (p', ds')" "pg_failed p1 = pg_failed p + 1"
      using Cons.prems(1) by (auto simp: x split: option.splits if_splits)
    then show False using index_rows_counts Cons.prems(2) by fastforce
  qed
  then obtain d where d: "t_get sd_id i ds = Some d" "sd_text d = t" by blast
  let ?ds1 = "t_upd sd_id i (embed_row W r h v) ds"
  have 1: "list_all2 (indexed_to W {i}) ds ?ds1" using embed_row_indexes [OF Cons.prems(3) d(1)] h d(2) by simp
  have "list_all2 (indexed_to W (fst ` fst ` set xs)) ?ds1 ds'"
    by (rule Cons.IH [of "p\<lparr>pg_indexed := pg_indexed p + 1\<rparr>"])
       (use Cons.prems d x indexed_to_distinct [OF 1 Cons.prems(3)] in simp_all)
  then show ?case using indexed_to_trans [OF 1] by (simp add: x)
qed

lemma index_batches_counts:
  "index_batches W vid n bs p ds = (Inr p', ds') \<Longrightarrow>
    pg_indexed p' + pg_failed p' = pg_indexed p + pg_failed p + int (length (concat bs)) \<and> pg_failed p \<le> pg_failed p'"
proof (induction bs arbitrary: n p ds)
  case Nil
  then show ?case by simp
next
  case (Cons b bs)
  let ?a = "tw_embed W n \<lparr> eq_texts = map (\<lambda>(i, t, h). t) b, eq_dimensions = ep_dimensions (tw_profile W),
         eq_trace_id = ''index-'' @ vid @ ''-'' @ digits n \<rparr>"
  show ?case
  proof (cases ?a)
    case (Inl e)
    then obtain c retryable where e: "e = ModelError c retryable" using Cons.prems by (cases e) auto
    then have "index_batches W vid (Suc n) bs (p\<lparr>pg_failed := pg_failed p + int (length b), pg_failures := pg_failures p @
           [\<lparr> if_batch_index = n, if_document_ids = map fst b, if_error_code = str_model_error c, if_retryable = retryable \<rparr>]\<rparr>) ds
        = (Inr p', ds')" using Cons.prems Inl by simp
    then show ?thesis using Cons.IH by fastforce
  next
    case (Inr r)
    let ?p = "p\<lparr>pg_prompt_tokens := pg_prompt_tokens p + er_prompt_tokens r, pg_actual_model := er_actual_model r\<rparr>"
    obtain p1 ds1 where a: "index_rows W n r (zip b (er_vectors r)) ?p ds = (p1, ds1)" by fastforce
    have len: "length (er_vectors r) = length b" and b: "index_batches W vid (Suc n) bs p1 ds1 = (Inr p', ds')"
      using Cons.prems Inr a by (auto split: if_splits)
    show ?thesis using index_rows_counts [OF a] Cons.IH [OF b] len by simp
  qed
qed

lemma index_batches_indexes:
  assumes "index_batches W vid n bs p ds = (Inr p', ds')" and "pg_failed p' = pg_failed p" and "keys_distinct sd_id ds"
    and "\<forall>(i, t, h)\<in>set (concat bs). h = tw_text_sha W t"
  shows "list_all2 (indexed_to W (fst ` set (concat bs))) ds ds'"
  using assms
proof (induction bs arbitrary: n p ds)
  case Nil
  then show ?case using indexed_to_refl by simp
next
  case (Cons b bs)
  let ?a = "tw_embed W n \<lparr> eq_texts = map (\<lambda>(i, t, h). t) b, eq_dimensions = ep_dimensions (tw_profile W),
         eq_trace_id = ''index-'' @ vid @ ''-'' @ digits n \<rparr>"
  show ?case
  proof (cases ?a)
    case (Inl e)
    then obtain c retryable where e: "e = ModelError c retryable" using Cons.prems(1) by (cases e) auto
    let ?p = "p\<lparr>pg_failed := pg_failed p + int (length b), pg_failures := pg_failures p @
           [\<lparr> if_batch_index = n, if_document_ids = map fst b, if_error_code = str_model_error c, if_retryable = retryable \<rparr>]\<rparr>"
    have b: "index_batches W vid (Suc n) bs ?p ds = (Inr p', ds')" using Cons.prems(1) Inl e by simp
    then have "b = []" using index_batches_counts [OF b] Cons.prems(2) by simp
    then show ?thesis using Cons.IH [OF b] Cons.prems by simp
  next
    case (Inr r)
    let ?p = "p\<lparr>pg_prompt_tokens := pg_prompt_tokens p + er_prompt_tokens r, pg_actual_model := er_actual_model r\<rparr>"
    obtain p1 ds1 where a: "index_rows W n r (zip b (er_vectors r)) ?p ds = (p1, ds1)" by fastforce
    have len: "length (er_vectors r) = length b" and b: "index_batches W vid (Suc n) bs p1 ds1 = (Inr p', ds')"
      using Cons.prems(1) Inr a by (auto split: if_splits)
    have f: "pg_failed p1 = pg_failed ?p" "pg_failed p' = pg_failed p1"
      using index_rows_counts [OF a] index_batches_counts [OF b] Cons.prems(2) by simp_all
    have "\<forall>((i, t, h), v)\<in>set (zip b (er_vectors r)). h = tw_text_sha W t"
      using Cons.prems(4) by (fastforce dest: set_zip_leftD)
    from index_rows_indexes [OF a f(1) Cons.prems(3) this]
    have 1: "list_all2 (indexed_to W (fst ` set b)) ds ds1"
      using len by (metis list.set_map map_fst_zip)
    have "list_all2 (indexed_to W (fst ` set (concat bs))) ds1 ds'"
      by (rule Cons.IH [OF b f(2) indexed_to_distinct [OF 1 Cons.prems(3)]]) (use Cons.prems(4) in auto)
    then show ?thesis using indexed_to_trans [OF 1] by (simp add: image_Un)
  qed
qed


definition other_provider :: "retrieval_world \<Rightarrow> (nat \<Rightarrow> EmbeddingRequest \<Rightarrow> EmbeddingResponse res) \<Rightarrow> retrieval_world" where
  "other_provider W em = W\<lparr>tw_embed := em\<rparr>"

lemma other_provider_same [simp]:
  "refresh_text (other_provider W e) d = refresh_text W d" "video_documents (other_provider W e) vid ds = video_documents W vid ds"
  "current_embedding (other_provider W e) d = current_embedding W d" "tw_profile (other_provider W e) = tw_profile W"
  "tw_text_sha (other_provider W e) = tw_text_sha W" "embedding_space_id (other_provider W e) = embedding_space_id W"
  by (simp_all add: other_provider_def refresh_text_def video_documents_def current_embedding_def embedded_here_def
      embedding_space_id_def Let_def)

lemma refresh_text_fixed: "same_text (refresh_text W d) d' \<Longrightarrow> refresh_text W d' = d'"
  by (auto simp: same_text_def refresh_text_def Let_def split: if_splits)

lemma refresh_text_simps [simp]:
  "sd_id (refresh_text W d) = sd_id d" "sd_video_id (refresh_text W d) = sd_video_id d" "sd_text (refresh_text W d) = sd_text d"
  by (simp_all add: refresh_text_def Let_def)

text \<open>The parts of a run, named.\<close>

definition refreshed :: "retrieval_world \<Rightarrow> string \<Rightarrow> SearchDocumentRecord list \<Rightarrow> SearchDocumentRecord list" where
  "refreshed W vid ds = map (\<lambda>d. if sd_video_id d = vid then refresh_text W d else d) ds"

definition to_index :: "retrieval_world \<Rightarrow> bool \<Rightarrow> string \<Rightarrow> SearchDocumentRecord list \<Rightarrow> pending_document list" where
  "to_index W force vid ds = pending_documents W force (video_documents W vid (refreshed W vid ds))"

definition no_progress :: "retrieval_world \<Rightarrow> index_progress" where
  "no_progress W = \<lparr> pg_indexed = 0, pg_failed = 0, pg_prompt_tokens = 0, pg_actual_model = ep_model (tw_profile W), pg_failures = [] \<rparr>"

lemma no_progress_simps [simp]:
  "pg_indexed (no_progress W) = 0" "pg_failed (no_progress W) = 0" "pg_prompt_tokens (no_progress W) = 0"
  by (simp_all add: no_progress_def)

definition skipped_count :: "retrieval_world \<Rightarrow> bool \<Rightarrow> string \<Rightarrow> SearchDocumentRecord list \<Rightarrow> int" where
  "skipped_count W force vid ds = int (length (video_documents W vid ds)) - int (length (to_index W force vid ds))"

lemma index_video_InrE:
  assumes "index_video W vid force s = (Inr x, s')"
  obtains p ds2 where "t_get vd_id vid (db_videos s) \<noteq> None" and "ep_batch_size (tw_profile W) \<noteq> 0"
    and "index_batches W vid 0 (chunks (ep_batch_size (tw_profile W)) (to_index W force vid (db_documents s)))
          (no_progress W) (refreshed W vid (db_documents s)) = (Inr p, ds2)"
    and "s' = s\<lparr>db_documents := ds2\<rparr>" and "xs_total x = int (length (video_documents W vid (db_documents s)))"
    and "xs_indexed x = pg_indexed p" and "xs_failed x = pg_failed p"
    and "xs_skipped x = skipped_count W force vid (db_documents s)"
    and "xs_status x = fst (index_status (pg_indexed p) (skipped_count W force vid (db_documents s)) (pg_failed p))"
proof -
  have v: "t_get vd_id vid (db_videos s) \<noteq> None" and bsz: "ep_batch_size (tw_profile W) \<noteq> 0"
    using assms by (auto simp: index_video_def Let_def split: if_splits)
  obtain a ds2 where b: "index_batches W vid 0 (chunks (ep_batch_size (tw_profile W)) (to_index W force vid (db_documents s)))
          (no_progress W) (refreshed W vid (db_documents s)) = (a, ds2)" by fastforce
  note b' = b [unfolded to_index_def refreshed_def no_progress_def]
  show ?thesis
  proof (cases a)
    case (Inl e)
    then show ?thesis using assms v bsz b' by (simp add: index_video_def Let_def)
  next
    case (Inr p)
    show ?thesis
      by (rule that [OF v bsz b [unfolded Inr]])
        (use assms v bsz b' [unfolded Inr] in \<open>auto simp: index_video_def Let_def skipped_count_def to_index_def refreshed_def\<close>)
  qed
qed

lemma index_video_nothing:
  assumes "t_get vd_id vid (db_videos s) \<noteq> None" and "ep_batch_size (tw_profile W) \<noteq> 0"
    and "refreshed W vid (db_documents s) = db_documents s" and "to_index W False vid (db_documents s) = []"
  shows "\<exists>y. index_video W vid False s = (Inr y, s) \<and> xs_status y = TR_SUCCESS
    \<and> xs_skipped y = xs_total y \<and> xs_indexed y = 0 \<and> xs_prompt_tokens y = 0"
  using assms by (simp add: index_video_def Let_def index_status_def refreshed_def to_index_def)

lemma other_provider_parts [simp]:
  "refreshed (other_provider W e) vid ds = refreshed W vid ds" "to_index (other_provider W e) f vid ds = to_index W f vid ds"
  by (simp_all add: refreshed_def to_index_def pending_documents_def cong: if_cong)

lemma refreshed_distinct: "keys_distinct sd_id ds \<Longrightarrow> keys_distinct sd_id (refreshed W vid ds)"
proof -
  assume k: "keys_distinct sd_id ds"
  have "map sd_id (refreshed W vid ds) = map sd_id ds" by (simp add: refreshed_def)
  then show ?thesis using k by (simp add: keys_distinct_def)
qed

lemma pending_hashes: "\<forall>(i, t, h)\<in>set (pending_documents W force ds). h = tw_text_sha W t"
  by (simp add: pending_documents_def)

lemma pending_listed:
  "d \<in> set ds \<Longrightarrow> \<not> current_embedding W d \<Longrightarrow> sd_id d \<in> fst ` set (pending_documents W force ds)"
  by (force simp: pending_documents_def image_image)

lemma indexed_each:
  assumes b: "index_batches W vid 0 (chunks n (to_index W force vid ds)) (no_progress W) (refreshed W vid ds) = (Inr p, ds2)"
    and "pg_failed p = pg_failed (no_progress W)" and "keys_distinct sd_id ds" and d: "d \<in> set ds2" "sd_video_id d = vid"
  shows "refresh_text W d = d \<and> current_embedding W d"
proof -
  have k: "keys_distinct sd_id (refreshed W vid ds)" using assms(3) by (rule refreshed_distinct)
  have h: "\<forall>(i, t, h)\<in>set (concat (chunks n (to_index W force vid ds))). h = tw_text_sha W t"
    unfolding concat_chunks to_index_def by (rule pending_hashes)
  note l = index_batches_indexes [OF b assms(2) k h, unfolded concat_chunks]
  obtain j where j: "j < length ds2" "d = ds2 ! j" using d(1) by (auto simp: in_set_conv_nth)
  then have j': "j < length ds" using list_all2_lengthD [OF l] by (simp add: refreshed_def)
  let ?e = "ds ! j"
  have i: "indexed_to W (fst ` set (to_index W force vid ds)) (refreshed W vid ds ! j) d"
    unfolding j(2) by (rule list_all2_nthD2 [OF l j(1)])
  have vid: "sd_video_id ?e = vid"
  proof (rule ccontr)
    assume "sd_video_id ?e \<noteq> vid"
    then have "refreshed W vid ds ! j = ?e" using j' by (simp add: refreshed_def)
    then have "sd_video_id d = sd_video_id ?e" using i by (simp add: indexed_to_def same_text_def)
    then show False using d(2) \<open>sd_video_id ?e \<noteq> vid\<close> by simp
  qed
  have nth: "refreshed W vid ds ! j = refresh_text W ?e" using j' vid by (simp add: refreshed_def)
  have st: "same_text (refresh_text W ?e) d" using i nth by (simp add: indexed_to_def)
  have "refreshed W vid ds ! j \<in> set (refreshed W vid ds)" using j' by (intro nth_mem) (simp add: refreshed_def)
  then have "refresh_text W ?e \<in> set (video_documents W vid (refreshed W vid ds))"
    using vid nth by (simp add: video_documents_def)
  then have "sd_id (refresh_text W ?e) \<in> fst ` set (to_index W force vid ds)" if "\<not> current_embedding W (refresh_text W ?e)"
    using that unfolding to_index_def by (rule pending_listed)
  then have "current_embedding W d"
    using i nth by (cases "current_embedding W (refresh_text W ?e)") (simp_all add: indexed_to_def)
  with refresh_text_fixed [OF st] show ?thesis by (rule conjI)
qed

text \<open>
  C30. An index run accounts for every document, and a run that reports success leaves every document of the
  video with an embedding of its present text in the space of the profile. Running again, whatever the
  provider would answer, asks it nothing, skips every document, and changes nothing.
\<close>

theorem index_video_complete:
  assumes "index_video W vid force s = (Inr x, s')" and "keys_distinct sd_id (db_documents s)"
  shows "xs_indexed x + xs_skipped x + xs_failed x = xs_total x
    \<and> (xs_status x = TR_SUCCESS \<longrightarrow> (\<forall>d\<in>set (db_documents s'). sd_video_id d = vid \<longrightarrow> current_embedding W d)
        \<and> (\<exists>y. index_video (other_provider W em) vid False s' = (Inr y, s') \<and> xs_status y = TR_SUCCESS
             \<and> xs_skipped y = xs_total y \<and> xs_indexed y = 0 \<and> xs_prompt_tokens y = 0))"
proof -
  let ?ds1 = "refreshed W vid (db_documents s)" and ?pending = "to_index W force vid (db_documents s)"
  from assms(1) show ?thesis
  proof (rule index_video_InrE, intro conjI impI)
    fix p ds2
    assume v: "t_get vd_id vid (db_videos s) \<noteq> None" and bsz: "ep_batch_size (tw_profile W) \<noteq> 0"
      and b: "index_batches W vid 0 (chunks (ep_batch_size (tw_profile W)) ?pending) (no_progress W) ?ds1 = (Inr p, ds2)"
      and s': "s' = s\<lparr>db_documents := ds2\<rparr>"
      and x: "xs_total x = int (length (video_documents W vid (db_documents s)))" "xs_indexed x = pg_indexed p" "xs_failed x = pg_failed p"
        "xs_skipped x = skipped_count W force vid (db_documents s)"
        "xs_status x = fst (index_status (pg_indexed p) (skipped_count W force vid (db_documents s)) (pg_failed p))"
    show "xs_indexed x + xs_skipped x + xs_failed x = xs_total x"
      using index_batches_counts [OF b] by (simp add: x skipped_count_def)
    assume ok: "xs_status x = TR_SUCCESS"
    then have f: "pg_failed p = pg_failed (no_progress W)" by (simp add: x index_status_def split: if_splits)
    have each: "refresh_text W d = d \<and> current_embedding W d" if "d \<in> set ds2" "sd_video_id d = vid" for d
      by (rule indexed_each [OF b f assms(2) that])
    show "\<forall>d\<in>set (db_documents s'). sd_video_id d = vid \<longrightarrow> current_embedding W d" using each by (simp add: s')
    have "refreshed W vid ds2 = ds2" unfolding refreshed_def using each by (intro map_idI) simp
    moreover from this have "to_index W False vid ds2 = []"
      using each by (auto simp: to_index_def pending_documents_def filter_empty_conv video_documents_def)
    ultimately show "\<exists>y. index_video (other_provider W em) vid False s' = (Inr y, s') \<and> xs_status y = TR_SUCCESS
             \<and> xs_skipped y = xs_total y \<and> xs_indexed y = 0 \<and> xs_prompt_tokens y = 0"
      by (intro index_video_nothing) (use v bsz in \<open>simp_all add: s'\<close>)
  qed
qed

end
