(* ===== verification/RetrievalDemo.thy ===== *)
theory RetrievalDemo
  imports RetrievalIndex
begin

text \<open>
  Worked instances of the search and of the index run: one caption of a video, found by its vector, and
  the run that gave it the vector.
\<close>

definition demo_retrieval :: retrieval_world where
  "demo_retrieval = \<lparr> tw_env = demo_env, tw_nfkc = id, tw_text_sha = digits \<circ> length, tw_netloc = id,
     tw_match = (\<lambda>x d. False), tw_rank = (\<lambda>x d. 0), tw_distance = (\<lambda>v w. 0),
     tw_embed = (\<lambda>n r. Inr \<lparr> er_vectors = [[1]], er_actual_model = ''embedder'', er_prompt_tokens = 3 \<rparr>),
     tw_profile = \<lparr> ep_name = ''local'', ep_gateway = ''mock'', ep_base_url = None, ep_model = ''embedder'',
       ep_dimensions = 1, ep_batch_size = 16 \<rparr>,
     tw_settings = default_settings, tw_stamp = (\<lambda>i n. 9) \<rparr>"

definition demo_caption :: SearchDocumentRecord where
  "demo_caption = \<lparr> sd_id = ''d1'', sd_video_id = ''v1'', sd_segment_id = None, sd_artifact_id = ''a1'', sd_modality = ''vision'',
     sd_start_ms = 0, sd_end_ms = 1000, sd_text = u ''a knife'', sd_normalized_text = normalize_text id (u ''a knife''),
     sd_keyword_lexemes = search_lexemes id (u ''a knife''), sd_embedding = None, sd_embedding_space = None,
     sd_embedding_model = None, sd_embedding_source_sha256 = None, sd_embedding_updated_at = None, sd_created_at = 0, sd_updated_at = 0 \<rparr>"

definition demo_embedding :: EmbeddingResponse where
  "demo_embedding = \<lparr> er_vectors = [[1]], er_actual_model = ''embedder'', er_prompt_tokens = 3 \<rparr>"

definition embedded_caption :: SearchDocumentRecord where
  "embedded_caption = embed_row demo_retrieval demo_embedding (digits (length (u ''a knife''))) [1] demo_caption"

definition demo_query :: RetrievalRequest where
  "demo_query = \<lparr> rr_video_id = ''v1'', rr_query = u ''knife'', rr_modalities = [''vision''], rr_start_ms = Some 500,
     rr_end_ms = Some 600, rr_limit = 5 \<rparr>"

lemma demo_documents [simp]:
  "db_documents (demo_db\<lparr>db_documents := ds\<rparr>) = ds" "db_videos (demo_db\<lparr>db_documents := ds\<rparr>) = [demo_video]"
  "vd_id demo_video = ''v1''"
  by (simp_all add: demo_db_def demo_video_def)

lemma demo_found:
  "search demo_retrieval demo_query (demo_db\<lparr>db_documents := [embedded_caption]\<rparr>)
    = Inr \<lparr> rv_status = TR_SUCCESS, rv_hits = fuse 60 5 [] [embedded_caption], rv_error_code = None \<rparr>"
proof -
  have "in_filters demo_query [''vision''] embedded_caption" "embedded_here demo_retrieval embedded_caption"
    by (simp_all add: in_filters_def demo_query_def embedded_caption_def embed_row_def demo_caption_def embedded_here_def)
  then show ?thesis
    by (simp add: search_def Let_def demo_query_def demo_retrieval_def keyword_search_def vector_search_def default_settings_def)
qed

lemma search_is_rrf_witness:
  "\<exists>r. search demo_retrieval demo_query (demo_db\<lparr>db_documents := [embedded_caption]\<rparr>) = Inr r
    \<and> map rh_document_id (rv_hits r) = [''d1''] \<and> map rh_score (rv_hits r) = [1 / 61] \<and> length (rv_hits r) \<le> 5
    \<and> sorted_wrt (\<lambda>g h. rh_score h \<le> rh_score g) (rv_hits r)"
proof -
  have "keys_distinct sd_id (db_documents (demo_db\<lparr>db_documents := [embedded_caption]\<rparr>))" by (simp add: keys_distinct_def)
  note t = search_is_rrf [OF demo_found this]
  have "map rh_document_id (fuse 60 5 [] [embedded_caption]) = [''d1'']" "map rh_score (fuse 60 5 [] [embedded_caption]) = [1 / 61]"
    by (simp_all add: fuse_def Let_def retrieval_hit_def score_of_def embedded_caption_def embed_row_def demo_caption_def)
  with t show ?thesis using demo_found by (simp add: demo_query_def)
qed

lemma demo_pending:
  "to_index demo_retrieval False ''v1'' [demo_caption] = [(''d1'', u ''a knife'', digits (length (u ''a knife'')))]"
  "refreshed demo_retrieval ''v1'' [demo_caption] = [demo_caption]" "refreshed demo_retrieval ''v1'' [embedded_caption] = [embedded_caption]"
  by (simp_all add: to_index_def refreshed_def refresh_text_def pending_documents_def video_documents_def current_embedding_def
      embedded_here_def demo_retrieval_def demo_caption_def embedded_caption_def embed_row_def demo_embedding_def)

lemma demo_indexed:
  "\<exists>x. index_video demo_retrieval ''v1'' False (demo_db\<lparr>db_documents := [demo_caption]\<rparr>)
      = (Inr x, demo_db\<lparr>db_documents := [embedded_caption]\<rparr>) \<and> xs_status x = TR_SUCCESS \<and> xs_indexed x = 1 \<and> xs_total x = 1"
proof -
  have e: "tw_embed demo_retrieval n q = Inr demo_embedding" "ep_batch_size (tw_profile demo_retrieval) = 16" for n q
    by (simp_all add: demo_retrieval_def demo_embedding_def)
  have r: "er_vectors demo_embedding = [[1]]" by (simp add: demo_embedding_def)
  have c: "sd_id demo_caption = ''d1''" "sd_video_id demo_caption = ''v1''" "sd_text demo_caption = u ''a knife''"
    by (simp_all add: demo_caption_def)
  have v: "video_documents demo_retrieval ''v1'' [demo_caption] = [demo_caption]" by (simp add: video_documents_def c)
  show ?thesis
    using demo_pending
    by (simp add: index_video_def Let_def to_index_def refreshed_def v e r c index_status_def t_get_def t_upd_def embedded_caption_def)
qed

lemma index_video_complete_witness:
  "\<exists>x s'. index_video demo_retrieval ''v1'' False (demo_db\<lparr>db_documents := [demo_caption]\<rparr>) = (Inr x, s')
    \<and> xs_indexed x + xs_skipped x + xs_failed x = xs_total x \<and> xs_indexed x = 1 \<and> xs_status x = TR_SUCCESS
    \<and> (\<exists>y. index_video (other_provider demo_retrieval (\<lambda>n q. Inl ValueError)) ''v1'' False s' = (Inr y, s') \<and> xs_skipped y = xs_total y)"
proof -
  obtain x where x: "index_video demo_retrieval ''v1'' False (demo_db\<lparr>db_documents := [demo_caption]\<rparr>)
      = (Inr x, demo_db\<lparr>db_documents := [embedded_caption]\<rparr>)" "xs_status x = TR_SUCCESS" "xs_indexed x = 1" "xs_total x = 1"
    using demo_indexed by blast
  have "keys_distinct sd_id (db_documents (demo_db\<lparr>db_documents := [demo_caption]\<rparr>))" by (simp add: keys_distinct_def)
  note t = index_video_complete [OF x(1) this, of "\<lambda>n q. Inl ValueError"]
  obtain y where "index_video (other_provider demo_retrieval (\<lambda>n q. Inl ValueError)) ''v1'' False (demo_db\<lparr>db_documents := [embedded_caption]\<rparr>)
      = (Inr y, demo_db\<lparr>db_documents := [embedded_caption]\<rparr>)" "xs_skipped y = xs_total y"
    using t x(2) by blast
  moreover have "xs_indexed x + xs_skipped x + xs_failed x = xs_total x" using t by blast
  ultimately show ?thesis using x by blast
qed

end
