(* ===== verification/ArtifactStore.thy ===== *)
theory ArtifactStore
  imports EviPrelude
begin

text \<open>
  \<open>evistream/storage/artifacts.py\<close>: artifacts are files under one root, named by URIs. A path is the list
  of its parts; where symbolic links lead (\<open>Path.resolve\<close>) and whether a write succeeds are parameters.
\<close>

section \<open>Keys and URIs\<close>

type_synonym path = "string list"

text \<open>\<open>Path(text)\<close> of POSIX: empty parts and \<open>.\<close> vanish.\<close>

fun split_slash :: "string \<Rightarrow> string list" where
  "split_slash [] = [[]]"
| "split_slash (c # cs) = (if c = CHR ''/'' then [] # split_slash cs
     else case split_slash cs of [] \<Rightarrow> [[c]] | p # ps \<Rightarrow> (c # p) # ps)"

definition path_parts :: "string \<Rightarrow> path" where
  "path_parts t = filter (\<lambda>p. p \<noteq> [] \<and> p \<noteq> ''.'') (split_slash t)"

definition safe_relative :: "string \<Rightarrow> path res" where
  "safe_relative key = (let t = map (\<lambda>c. if c = CHR 0x5C then CHR ''/'' else c) key in
     if take 1 t = ''/'' \<or> path_parts t = [] \<or> ''..'' \<in> set (path_parts t) then Inl ValueError else Inr (path_parts t))"

definition as_posix :: "path \<Rightarrow> string" where
  "as_posix p = join ''/'' p"

definition scheme :: string where
  "scheme = ''artifact://''"

definition uri_for_key :: "string \<Rightarrow> string res" where
  "uri_for_key key = bindE (safe_relative key) (\<lambda>r. Inr (scheme @ as_posix r))"

section \<open>The store\<close>

record artifact_store =
  as_root :: path
  as_real :: "path \<Rightarrow> path"
  as_write :: "path \<Rightarrow> unit res"

definition path_for_key :: "artifact_store \<Rightarrow> string \<Rightarrow> path res" where
  "path_for_key A key = bindE (safe_relative key) (\<lambda>r. let p = as_real A (as_root A @ r) in
     if take (length (as_root A)) p = as_root A then Inr p else Inl ValueError)"

definition resolve :: "artifact_store \<Rightarrow> string \<Rightarrow> path res" where
  "resolve A uri = (if take (length scheme) uri \<noteq> scheme then Inl ValueError
     else path_for_key A (drop (length scheme) uri))"

text \<open>\<open>put_file\<close>, \<open>put_stream\<close> and \<open>write_text\<close> differ in what they copy: the path, the write, the URI.\<close>

definition put_artifact :: "artifact_store \<Rightarrow> string \<Rightarrow> string res" where
  "put_artifact A key = bindE (path_for_key A key) (\<lambda>p. bindE (as_write A p) (\<lambda>_. uri_for_key key))"

section \<open>A URI leads back to the path of its key\<close>

lemma split_slash_Cons: "\<exists>p ps. split_slash t = p # ps"
  by (induction t) (auto split: list.splits)

lemma split_slash_no: "p \<in> set (split_slash t) \<Longrightarrow> CHR ''/'' \<notin> set p"
proof (induction t arbitrary: p)
  case (Cons c cs)
  obtain q qs where "split_slash cs = q # qs" using split_slash_Cons by blast
  then show ?case using Cons by (auto split: if_splits)
qed simp

lemma split_slash_append:
  "CHR ''/'' \<notin> set p \<Longrightarrow> split_slash (p @ t) = (p @ hd (split_slash t)) # tl (split_slash t)"
proof (induction p)
  case Nil
  obtain q qs where "split_slash t = q # qs" using split_slash_Cons by blast
  then show ?case by simp
qed auto

lemma split_slash_as_posix: "ps \<noteq> [] \<Longrightarrow> \<forall>p\<in>set ps. CHR ''/'' \<notin> set p \<Longrightarrow> split_slash (as_posix ps) = ps"
proof (induction ps)
  case (Cons p ps)
  have p: "split_slash p = [p]" using Cons.prems(2) split_slash_append [of p "[]"] by simp
  show ?case
  proof (cases ps)
    case Nil
    then show ?thesis using p by (simp add: as_posix_def join_def)
  next
    case (Cons q qs)
    then have "as_posix (p # ps) = p @ ''/'' @ as_posix ps" by (simp add: as_posix_def join_def)
    then show ?thesis using Cons.IH Cons.prems Cons split_slash_append [of p "''/'' @ as_posix ps"] by simp
  qed
qed simp

lemma split_slash_chars: "p \<in> set (split_slash t) \<Longrightarrow> set p \<subseteq> set t"
proof (induction t arbitrary: p)
  case (Cons c cs)
  obtain q qs where q: "split_slash cs = q # qs" using split_slash_Cons by blast
  have "set q \<subseteq> set cs" "\<forall>x\<in>set qs. set x \<subseteq> set cs" using Cons.IH q by simp_all
  then show ?case using Cons.prems q by (auto split: if_splits)
qed simp

lemma as_posix_chars: "set (as_posix ps) \<subseteq> insert (CHR ''/'') (\<Union>p\<in>set ps. set p)"
  by (cases ps) (auto simp: as_posix_def join_def)

definition plain_part :: "string \<Rightarrow> bool" where
  "plain_part p \<longleftrightarrow> p \<notin> {[], ''.'', ''..''} \<and> CHR ''/'' \<notin> set p \<and> CHR 0x5C \<notin> set p"

lemma safe_relative_plain:
  assumes "safe_relative key = Inr r"
  shows "r \<noteq> [] \<and> (\<forall>p\<in>set r. plain_part p)"
proof -
  let ?t = "map (\<lambda>c. if c = CHR 0x5C then CHR ''/'' else c) key"
  have r: "r = path_parts ?t" "r \<noteq> []" "''..'' \<notin> set r" using assms by (auto simp: safe_relative_def Let_def split: if_splits)
  have "CHR 0x5C \<notin> set ?t" by auto
  then have "plain_part p" if "p \<in> set r" for p
    using that r split_slash_no split_slash_chars [of p ?t] unfolding plain_part_def path_parts_def by fastforce
  then show ?thesis using r(2) by blast
qed

lemma safe_relative_as_posix:
  assumes "r \<noteq> []" and "\<forall>p\<in>set r. plain_part p"
  shows "safe_relative (as_posix r) = Inr r"
proof -
  have no: "CHR 0x5C \<notin> set (as_posix r)" using as_posix_chars [of r] assms(2) by (auto simp: plain_part_def)
  have m: "map (\<lambda>c. if c = CHR 0x5C then CHR ''/'' else c) (as_posix r) = as_posix r" by (rule map_idI) (use no in auto)
  have "split_slash (as_posix r) = r" using assms by (intro split_slash_as_posix) (auto simp: plain_part_def)
  moreover have "filter (\<lambda>p. p \<noteq> [] \<and> p \<noteq> ''.'') r = r" using assms(2) by (auto simp: filter_id_conv plain_part_def)
  ultimately have parts: "path_parts (as_posix r) = r" by (simp add: path_parts_def)
  obtain p ps where "r = p # ps" "plain_part p" using assms by (cases r) auto
  then have "take 1 (as_posix r) \<noteq> ''/''" by (cases p) (auto simp: plain_part_def as_posix_def join_def)
  moreover have "''..'' \<notin> set r" using assms(2) by (auto simp: plain_part_def)
  ultimately show ?thesis unfolding safe_relative_def Let_def m parts using assms(1) by simp
qed

lemma uri_for_key_resolves:
  "uri_for_key key = Inr uri \<Longrightarrow> resolve A uri = path_for_key A key"
proof -
  assume "uri_for_key key = Inr uri"
  then obtain r where r: "safe_relative key = Inr r" "uri = scheme @ as_posix r" by (auto simp: uri_for_key_def bindE_Inr_iff)
  show ?thesis
    using safe_relative_as_posix [of r] safe_relative_plain [OF r(1)] by (simp add: resolve_def r path_for_key_def)
qed

lemma path_under_root: "path_for_key A key = Inr p \<Longrightarrow> take (length (as_root A)) p = as_root A"
  by (auto simp: path_for_key_def bindE_Inr_iff Let_def split: if_splits)

text \<open>
  What the artifact store stores it finds again: the URI of a stored artifact resolves to the path it
  was written to, below the root, and wherever a URI resolves to, it is below the root.
\<close>

theorem artifact_uri_resolves:
  assumes "put_artifact A key = Inr uri"
  shows "(\<exists>p. path_for_key A key = Inr p \<and> as_write A p = Inr () \<and> resolve A uri = Inr p)
    \<and> (\<forall>uri' p. resolve A uri' = Inr p \<longrightarrow> take (length (as_root A)) p = as_root A)"
proof
  show "\<exists>p. path_for_key A key = Inr p \<and> as_write A p = Inr () \<and> resolve A uri = Inr p"
    using assms uri_for_key_resolves by (auto simp: put_artifact_def bindE_Inr_iff)
  show "\<forall>uri' p. resolve A uri' = Inr p \<longrightarrow> take (length (as_root A)) p = as_root A"
    by (auto simp: resolve_def intro: path_under_root split: if_splits)
qed

definition demo_store :: artifact_store where
  "demo_store = \<lparr> as_root = [''data''], as_real = id, as_write = (\<lambda>p. Inr ()) \<rparr>"

lemma demo_key: "safe_relative ''videos/./v1/source.mp4'' = Inr [''videos'', ''v1'', ''source.mp4'']"
  by (simp add: safe_relative_def path_parts_def)

lemma demo_escape: "resolve demo_store ''artifact://a/../../etc'' = Inl ValueError"
  by (simp add: resolve_def scheme_def path_for_key_def safe_relative_def path_parts_def)

lemma demo_path: "path_for_key demo_store ''videos/./v1/source.mp4'' = Inr [''data'', ''videos'', ''v1'', ''source.mp4'']"
  unfolding path_for_key_def demo_key by (simp add: demo_store_def)

lemma demo_put: "put_artifact demo_store ''videos/./v1/source.mp4'' = Inr ''artifact://videos/v1/source.mp4''"
  unfolding put_artifact_def demo_path uri_for_key_def demo_key by (simp add: scheme_def as_posix_def join_def demo_store_def)

lemma artifact_uri_resolves_witness:
  "put_artifact demo_store ''videos/./v1/source.mp4'' = Inr ''artifact://videos/v1/source.mp4''
    \<and> resolve demo_store ''artifact://videos/v1/source.mp4'' = Inr [''data'', ''videos'', ''v1'', ''source.mp4'']
    \<and> resolve demo_store ''artifact://a/../../etc'' = Inl ValueError"
proof -
  obtain q where q: "path_for_key demo_store ''videos/./v1/source.mp4'' = Inr q"
      "resolve demo_store ''artifact://videos/v1/source.mp4'' = Inr q"
    using artifact_uri_resolves [OF demo_put] by blast
  have "Inr q = (Inr [''data'', ''videos'', ''v1'', ''source.mp4''] :: path res)" unfolding demo_path [symmetric] q(1) ..
  then show ?thesis using q(2) demo_put demo_escape by metis
qed

end
