(* ===== verification/CoreTools.thy ===== *)
theory CoreTools
  imports RetrievalDemo ArtifactStore EngineRuns
begin

text \<open>
  \<open>evistream/tools/core.py\<close> and \<open>registry.py\<close>: the built-in tools as the functions the executor calls, and
  the registry of them. Cutting a clip with ffmpeg is a parameter; what it writes is not read back.
\<close>

section \<open>Items\<close>

record tool_world =
  cw_retrieval :: retrieval_world
  cw_store :: artifact_store
  cw_clip :: "path \<Rightarrow> path \<Rightarrow> int \<Rightarrow> int \<Rightarrow> unit res"
  cw_hex :: "ToolRequest \<Rightarrow> string"
  cw_now :: "ToolRequest \<Rightarrow> time"
  cw_text :: "json \<Rightarrow> utext"

text \<open>\<open>ToolItem(...)\<close>: the bounds of its fields are checked.\<close>

definition make_item :: "ToolItem \<Rightarrow> ToolItem res" where
  "make_item i = (if 0 \<le> ti_start_ms i \<and> 0 < ti_end_ms i then Inr i else Inl ValueError)"

definition document_item :: "SearchDocumentRecord \<Rightarrow> ToolItem res" where
  "document_item d = make_item \<lparr> ti_source_ref = ''search_document:'' @ sd_id d, ti_artifact_id = Some (sd_artifact_id d),
     ti_modality = sd_modality d, ti_start_ms = sd_start_ms d, ti_end_ms = sd_end_ms d, ti_content = sd_text d, ti_score = None \<rparr>"

definition clip_item :: "ArtifactRecord \<Rightarrow> int \<Rightarrow> int \<Rightarrow> ToolItem res" where
  "clip_item a start_ms end_ms = make_item \<lparr> ti_source_ref = ''artifact:'' @ ar_id a, ti_artifact_id = Some (ar_id a),
     ti_modality = ''video'', ti_start_ms = start_ms, ti_end_ms = end_ms,
     ti_content = u (''clip '' @ str_int start_ms @ ''-'' @ str_int end_ms @ '' ms''), ti_score = None \<rparr>"

definition hit_item :: "RetrievalHit \<Rightarrow> ToolItem res" where
  "hit_item h = make_item \<lparr> ti_source_ref = rh_source_ref h, ti_artifact_id = Some (rh_artifact_id h),
     ti_modality = rh_modality h, ti_start_ms = rh_start_ms h, ti_end_ms = rh_end_ms h, ti_content = rh_content h,
     ti_score = Some (rh_score h) \<rparr>"

definition output_items :: "ToolItem list \<Rightarrow> ToolOutput" where
  "output_items is = \<lparr> to_status = TR_SUCCESS, to_items = is, to_estimated_cost = 0, to_error_code = None \<rparr>"

definition output_failed :: "string \<Rightarrow> ToolOutput" where
  "output_failed code = \<lparr> to_status = TR_FAILED, to_items = [], to_estimated_cost = 0, to_error_code = Some code \<rparr>"

definition retrieval_output :: "RetrievalResult \<Rightarrow> ToolOutput res" where
  "retrieval_output r = bindE (map_res hit_item (rv_hits r)) (\<lambda>is.
     Inr \<lparr> to_status = rv_status r, to_items = is, to_estimated_cost = 0, to_error_code = rv_error_code r \<rparr>)"

definition case_video :: "string \<Rightarrow> db \<Rightarrow> string res" where
  "case_video case_id s = (case t_get ca_id case_id (db_cases s) of None \<Rightarrow> Inl LookupErr | Some c \<Rightarrow> Inr (ca_video_id c))"

text \<open>The ends of the range, which the tools that need one assert.\<close>

definition asserted_range :: "ToolRequest \<Rightarrow> (int \<times> int) res" where
  "asserted_range q = (case (tq_start_ms q, tq_end_ms q) of
     (Some a, Some b) \<Rightarrow> Inr (a, b) | _ \<Rightarrow> Inl (OtherErr ''AssertionError''))"

section \<open>The tools\<close>

definition search_tool :: "tool_world \<Rightarrow> string list \<Rightarrow> ToolRequest \<Rightarrow> db \<Rightarrow> ToolOutput res" where
  "search_tool W modalities q s = bindE (case_video (tq_case_id q) s) (\<lambda>video_id.
     let r = \<lparr> rr_video_id = video_id, rr_query = tq_query q, rr_modalities = modalities, rr_start_ms = tq_start_ms q,
       rr_end_ms = tq_end_ms q, rr_limit = tq_limit q \<rparr>
     in if \<not> valid_RetrievalRequest r then Inl ValueError
        else bindE (search (cw_retrieval W) r s) retrieval_output)"

definition clip_key :: "tool_world \<Rightarrow> string \<Rightarrow> int \<Rightarrow> int \<Rightarrow> string" where
  "clip_key W video_id a b = ''videos/'' @ video_id @ ''/clips/''
     @ take 24 (sha (tw_env (cw_retrieval W)) (video_id @ '':'' @ str_int a @ '':'' @ str_int b)) @ ''.mp4''"

definition find_uri :: "string \<Rightarrow> db \<Rightarrow> ArtifactRecord option" where
  "find_uri uri s = find (\<lambda>a. ar_uri a = uri) (db_artifacts s)"

definition new_clip :: "tool_world \<Rightarrow> ToolRequest \<Rightarrow> string \<Rightarrow> string \<Rightarrow> int \<Rightarrow> int \<Rightarrow> ArtifactRecord" where
  "new_clip W q video_id uri a b = \<lparr> ar_id = ''art_'' @ cw_hex W q, ar_video_id = video_id, ar_segment_id = None, ar_type = AT_CLIP,
     ar_uri = uri, ar_metadata = JObj [(''start_ms'', JInt a), (''end_ms'', JInt b)],
     ar_created_at = cw_now W q, ar_updated_at = cw_now W q \<rparr>"

text \<open>The first session of \<open>inspect_clip\<close>: an answer, or what has to be cut.\<close>

definition clip_lookup :: "tool_world \<Rightarrow> ToolRequest \<Rightarrow> int \<Rightarrow> int \<Rightarrow> db \<Rightarrow> (ToolOutput + string \<times> string \<times> path \<times> string) res" where
  "clip_lookup W q a b s = (case t_get ca_id (tq_case_id q) (db_cases s) of
     None \<Rightarrow> Inr (Inl (output_failed ''CASE_NOT_FOUND''))
   | Some c \<Rightarrow> (case t_get vd_id (ca_video_id c) (db_videos s) of
       None \<Rightarrow> Inr (Inl (output_failed ''TOOL_INPUT_INVALID''))
     | Some v \<Rightarrow> if vd_duration_ms v < b then Inr (Inl (output_failed ''TOOL_INPUT_INVALID''))
       else bindE (resolve (cw_store W) (vd_artifact_uri v)) (\<lambda>source.
         let key = clip_key W (vd_id v) a b in
         bindE (uri_for_key key) (\<lambda>uri. case find_uri uri s of
           Some existing \<Rightarrow> bindE (clip_item existing a b) (\<lambda>i. Inr (Inl (output_items [i])))
         | None \<Rightarrow> Inr (Inr (vd_id v, key, source, uri))))))"

definition clip_store :: "tool_world \<Rightarrow> ToolRequest \<Rightarrow> string \<Rightarrow> string \<Rightarrow> int \<Rightarrow> int \<Rightarrow> db \<Rightarrow> (ToolOutput \<times> db) res" where
  "clip_store W q video_id uri a b s = (case find_uri uri s of
     Some existing \<Rightarrow> bindE (clip_item existing a b) (\<lambda>i. Inr (output_items [i], s))
   | None \<Rightarrow> bindE (t_add ar_id (new_clip W q video_id uri a b) (db_artifacts s)) (\<lambda>t.
       bindE (clip_item (new_clip W q video_id uri a b) a b) (\<lambda>i. Inr (output_items [i], s\<lparr>db_artifacts := t\<rparr>))))"

definition inspect_clip :: "tool_world \<Rightarrow> ToolRequest \<Rightarrow> db \<Rightarrow> ToolOutput res \<times> db" where
  "inspect_clip W q s = (case asserted_range q of Inl e \<Rightarrow> (Inl e, s)
   | Inr (a, b) \<Rightarrow>
     if cfg_tool_clip_max_seconds (tw_settings (cw_retrieval W)) * 1000 < b - a then (Inr (output_failed ''TOOL_INPUT_INVALID''), s)
     else case clip_lookup W q a b s of
       Inl e \<Rightarrow> (Inl e, s)
     | Inr (Inl out) \<Rightarrow> (Inr out, s)
     | Inr (Inr (video_id, key, source, uri)) \<Rightarrow>
       (case bindE (path_for_key (cw_store W) key) (\<lambda>target. cw_clip W source target a b) of
          Inl e \<Rightarrow> (Inl e, s)
        | Inr _ \<Rightarrow> run_session (clip_store W q video_id uri a b) s))"

text \<open>The documents that overlap a window, by start and identifier.\<close>

definition context_documents :: "tool_world \<Rightarrow> string \<Rightarrow> SegmentBoundary \<Rightarrow> int \<Rightarrow> db \<Rightarrow> SearchDocumentRecord list" where
  "context_documents W video_id w limit s = take (nat limit)
     (sort_by (\<lambda>x y. sd_start_ms x < sd_start_ms y \<or> (sd_start_ms x = sd_start_ms y \<and> coll (tw_env (cw_retrieval W)) (sd_id x) (sd_id y)))
       (filter (\<lambda>d. sd_video_id d = video_id \<and> sd_start_ms d < sb_end_ms w \<and> sb_start_ms w < sd_end_ms d) (db_documents s)))"

definition expand_temporal_context :: "tool_world \<Rightarrow> ToolRequest \<Rightarrow> db \<Rightarrow> ToolOutput res" where
  "expand_temporal_context W q s = bindE (asserted_range q) (\<lambda>(a, b).
     case t_get ca_id (tq_case_id q) (db_cases s) of None \<Rightarrow> Inr (output_failed ''CASE_NOT_FOUND'')
   | Some c \<Rightarrow> (case t_get vd_id (ca_video_id c) (db_videos s) of None \<Rightarrow> Inr (output_failed ''MEDIA_ARTIFACT_NOT_FOUND'')
     | Some v \<Rightarrow> bindE (expand_window a b (vd_duration_ms v) (cfg_retrieval_context_ms (tw_settings (cw_retrieval W)))) (\<lambda>w.
         bindE (map_res document_item (context_documents W (vd_id v) w (tq_limit q) s)) (\<lambda>is. Inr (output_items is)))))"

text \<open>\<open>session.scalar\<close> without an order: which of several matching rows is first is the database's choice, here the table's.\<close>

definition segment_item :: "SegmentRecord \<Rightarrow> db \<Rightarrow> ToolItem res" where
  "segment_item g s =
    (case find (\<lambda>d. sd_segment_id d = Some (sg_id g) \<and> sd_modality d = ''vision'') (db_documents s) of
       Some d \<Rightarrow> document_item d
     | None \<Rightarrow> make_item \<lparr> ti_source_ref = ''segment:'' @ sg_id g,
         ti_artifact_id = map_option ar_id (find (\<lambda>a. ar_segment_id a = Some (sg_id g) \<and> ar_type a = AT_KEYFRAME) (db_artifacts s)),
         ti_modality = ''segment'', ti_start_ms = sg_start_ms g, ti_end_ms = sg_end_ms g,
         ti_content = u (''segment '' @ str_int (sg_sequence g)), ti_score = None \<rparr>)"

definition overlapping :: "string \<Rightarrow> int \<Rightarrow> int \<Rightarrow> db \<Rightarrow> SegmentRecord list" where
  "overlapping video_id a b s = filter (\<lambda>g. sg_video_id g = video_id \<and> sg_start_ms g < b \<and> a < sg_end_ms g) (db_segments s)"

text \<open>The segments next to the overlapping ones, by their sequence.\<close>

definition around :: "string \<Rightarrow> SegmentRecord list \<Rightarrow> int \<Rightarrow> db \<Rightarrow> SegmentRecord list" where
  "around video_id overlaps limit s =
    (let low = Min (set (map sg_sequence overlaps)) - 1; high = Max (set (map sg_sequence overlaps)) + 1 in
     take (nat limit) (sort_by (\<lambda>x y. sg_sequence x \<le> sg_sequence y)
       (filter (\<lambda>g. sg_video_id g = video_id \<and> max 0 low \<le> sg_sequence g \<and> sg_sequence g \<le> high) (db_segments s))))"

definition neighbor_segments :: "ToolRequest \<Rightarrow> db \<Rightarrow> ToolOutput res" where
  "neighbor_segments q s = bindE (asserted_range q) (\<lambda>(a, b). bindE (case_video (tq_case_id q) s) (\<lambda>video_id.
     if overlapping video_id a b s = [] then Inr (output_items [])
     else bindE (map_res (\<lambda>g. segment_item g s) (around video_id (overlapping video_id a b s) (tq_limit q) s))
       (\<lambda>is. Inr (output_items is))))"

definition requirement_json :: "RequirementRecord \<Rightarrow> json" where
  "requirement_json r = JObj [(''description'', JText (rm_description r)),
     (''modalities'', JList (map JStr (rm_modalities r))), (''requirement_key'', JStr (rm_requirement_key r)),
     (''requirement_type'', JStr (str_requirement_type (rm_requirement_type r))),
     (''suggested_queries'', JList (map JText (rm_suggested_queries r))),
     (''tool_capabilities'', JList (map JStr (rm_tool_capabilities r)))]"

definition policy_requirement :: "tool_world \<Rightarrow> ToolRequest \<Rightarrow> db \<Rightarrow> ToolOutput res" where
  "policy_requirement W q s =
    (case (t_get rm_id (tq_requirement_id q) (db_requirements s), t_get ca_id (tq_case_id q) (db_cases s)) of
       (Some r, Some c) \<Rightarrow> (case t_get vd_id (ca_video_id c) (db_videos s) of
           None \<Rightarrow> Inr (output_failed ''MEDIA_ARTIFACT_NOT_FOUND'')
         | Some v \<Rightarrow> if vd_duration_ms v \<le> 0 then Inr (output_failed ''MEDIA_ARTIFACT_NOT_FOUND'')
           else bindE (make_item \<lparr> ti_source_ref = ''requirement:'' @ rm_id r, ti_artifact_id = None, ti_modality = ''policy'',
             ti_start_ms = 0, ti_end_ms = vd_duration_ms v, ti_content = cw_text W (requirement_json r), ti_score = None \<rparr>)
             (\<lambda>i. Inr (output_items [i])))
     | _ \<Rightarrow> Inr (output_failed ''REQUIREMENT_NOT_FOUND''))"

section \<open>The registry\<close>

type_synonym tool = "ToolRequest \<Rightarrow> db \<Rightarrow> ToolOutput res \<times> db"

text \<open>\<open>ToolRegistry\<close>: a name is registered once; \<open>names\<close> are sorted.\<close>

definition register_tool :: "(string \<times> tool) list \<Rightarrow> string \<Rightarrow> tool \<Rightarrow> (string \<times> tool) list res" where
  "register_tool reg name f = (if name \<in> fst ` set reg then Inl ValueError else Inr (reg @ [(name, f)]))"

definition registered :: "(string \<times> tool) list \<Rightarrow> registry" where
  "registered reg name = map_of reg name"

definition registry_names :: "(string \<times> tool) list \<Rightarrow> string list" where
  "registry_names reg = sort_by (\<lambda>a b. a \<le> b) (map fst reg)"

text \<open>A tool that only reads, as the function the executor calls.\<close>

definition reading :: "(ToolRequest \<Rightarrow> db \<Rightarrow> ToolOutput res) \<Rightarrow> tool" where
  "reading f q s = (f q s, s)"

fun register_all :: "(string \<times> tool) list \<Rightarrow> (string \<times> tool) list \<Rightarrow> (string \<times> tool) list res" where
  "register_all [] reg = Inr reg"
| "register_all ((n, f) # ts) reg = bindE (register_tool reg n f) (register_all ts)"

definition build_default_registry :: "tool_world \<Rightarrow> (string \<times> tool) list res" where
  "build_default_registry W = register_all
     [(''search_transcript'', reading (search_tool W [''transcript''])), (''search_ocr'', reading (search_tool W [''ocr''])),
      (''search_visual_caption'', reading (search_tool W [''vision''])), (''inspect_clip'', inspect_clip W),
      (''expand_temporal_context'', reading (expand_temporal_context W)), (''get_neighbor_segments'', reading neighbor_segments),
      (''find_counter_evidence'', reading (search_tool W [''transcript'', ''ocr'', ''vision''])),
      (''get_policy_requirement'', reading (policy_requirement W))] []"

section \<open>The names\<close>

lemma register_all_distinct:
  "distinct (map fst ts) \<Longrightarrow> fst ` set ts \<inter> fst ` set reg = {} \<Longrightarrow> register_all ts reg = Inr (reg @ ts)"
proof (induction ts arbitrary: reg)
  case (Cons t ts)
  then show ?case by (cases t) (auto simp: register_tool_def)
qed simp

definition default_tools :: "tool_world \<Rightarrow> (string \<times> tool) list" where
  "default_tools W = [(''search_transcript'', reading (search_tool W [''transcript''])), (''search_ocr'', reading (search_tool W [''ocr''])),
      (''search_visual_caption'', reading (search_tool W [''vision''])), (''inspect_clip'', inspect_clip W),
      (''expand_temporal_context'', reading (expand_temporal_context W)), (''get_neighbor_segments'', reading neighbor_segments),
      (''find_counter_evidence'', reading (search_tool W [''transcript'', ''ocr'', ''vision''])),
      (''get_policy_requirement'', reading (policy_requirement W))]"

lemma build_default_registry_tools: "build_default_registry W = Inr (default_tools W)"
proof -
  have "distinct (map fst (default_tools W))" by (simp add: default_tools_def)
  from register_all_distinct [OF this, of "[]"] show ?thesis by (simp add: build_default_registry_def default_tools_def)
qed

lemma default_tools_cases:
  assumes "registered (default_tools W) n = Some f"
  obtains (search_) ms where "f = reading (search_tool W ms)" and "ms \<noteq> []" and "set ms \<subseteq> {''transcript'', ''ocr'', ''vision''}"
  | (clip) "f = inspect_clip W" | (context_) "f = reading (expand_temporal_context W)"
  | (segments) "f = reading neighbor_segments" | (requirement) "f = reading (policy_requirement W)"
proof -
  have "(n, f) \<in> set (default_tools W)" using assms by (auto simp: registered_def dest: map_of_SomeD)
  then consider "f = reading (search_tool W [''transcript''])" | "f = reading (search_tool W [''ocr''])"
    | "f = reading (search_tool W [''vision''])" | "f = reading (search_tool W [''transcript'', ''ocr'', ''vision''])"
    | "f = inspect_clip W" | "f = reading (expand_temporal_context W)" | "f = reading neighbor_segments"
    | "f = reading (policy_requirement W)"
    unfolding default_tools_def by auto
  then show ?thesis by cases (auto intro: search_ clip context_ segments requirement)
qed

section \<open>What the tools answer\<close>

text \<open>The four kinds of items, each of the video of the case.\<close>

definition of_document :: "SearchDocumentRecord \<Rightarrow> ToolItem \<Rightarrow> bool" where
  "of_document d i \<longleftrightarrow> ti_source_ref i = ''search_document:'' @ sd_id d \<and> ti_artifact_id i = Some (sd_artifact_id d)
     \<and> ti_modality i = sd_modality d \<and> ti_start_ms i = sd_start_ms d \<and> ti_end_ms i = sd_end_ms d \<and> ti_content i = sd_text d"

definition document_of_video :: "db \<Rightarrow> string \<Rightarrow> ToolItem \<Rightarrow> bool" where
  "document_of_video s vid i \<longleftrightarrow> (\<exists>d\<in>set (db_documents s). sd_video_id d = vid \<and> of_document d i)"

definition clip_of_video :: "tool_world \<Rightarrow> db \<Rightarrow> string \<Rightarrow> ToolRequest \<Rightarrow> ToolItem \<Rightarrow> bool" where
  "clip_of_video W s vid q i \<longleftrightarrow> (\<exists>a\<in>set (db_artifacts s). ti_source_ref i = ''artifact:'' @ ar_id a
     \<and> ti_artifact_id i = Some (ar_id a) \<and> uri_for_key (clip_key W vid (ti_start_ms i) (ti_end_ms i)) = Inr (ar_uri a)
     \<and> tq_start_ms q = Some (ti_start_ms i) \<and> tq_end_ms q = Some (ti_end_ms i)
     \<and> (\<exists>v. t_get vd_id vid (db_videos s) = Some v \<and> ti_end_ms i \<le> vd_duration_ms v))"

definition segment_of_video :: "db \<Rightarrow> string \<Rightarrow> ToolItem \<Rightarrow> bool" where
  "segment_of_video s vid i \<longleftrightarrow> (\<exists>g\<in>set (db_segments s). sg_video_id g = vid
     \<and> ((\<exists>d\<in>set (db_documents s). sd_segment_id d = Some (sg_id g) \<and> of_document d i)
       \<or> ti_source_ref i = ''segment:'' @ sg_id g \<and> ti_start_ms i = sg_start_ms g \<and> ti_end_ms i = sg_end_ms g
         \<and> (\<forall>x. ti_artifact_id i = Some x \<longrightarrow> (\<exists>a\<in>set (db_artifacts s). ar_id a = x \<and> ar_segment_id a = Some (sg_id g)))))"

definition requirement_text :: "tool_world \<Rightarrow> db \<Rightarrow> ToolRequest \<Rightarrow> ToolItem \<Rightarrow> bool" where
  "requirement_text W s q i \<longleftrightarrow> ti_artifact_id i = None \<and> ti_source_ref i = ''requirement:'' @ tq_requirement_id q
     \<and> (\<exists>r\<in>set (db_requirements s). rm_id r = tq_requirement_id q \<and> ti_content i = cw_text W (requirement_json r))"

definition item_of_case :: "tool_world \<Rightarrow> db \<Rightarrow> ToolRequest \<Rightarrow> ToolItem \<Rightarrow> bool" where
  "item_of_case W s q i \<longleftrightarrow> 0 \<le> ti_start_ms i \<and> 0 < ti_end_ms i
     \<and> (\<exists>c. t_get ca_id (tq_case_id q) (db_cases s) = Some c
       \<and> (document_of_video s (ca_video_id c) i \<or> clip_of_video W s (ca_video_id c) q i
          \<or> segment_of_video s (ca_video_id c) i \<or> requirement_text W s q i))"

text \<open>A good answer of a tool.\<close>

definition good_answer :: "tool_world \<Rightarrow> db \<Rightarrow> ToolRequest \<Rightarrow> ToolOutput \<Rightarrow> bool" where
  "good_answer W s q out \<longleftrightarrow> to_status out \<noteq> TR_RUNNING \<and> (1 \<le> tq_limit q \<longrightarrow> length (to_items out) \<le> nat (tq_limit q))
     \<and> (\<forall>i\<in>set (to_items out). item_of_case W s q i)"

lemma good_failed [simp]: "good_answer W s q (output_failed c)"
  by (simp add: good_answer_def output_failed_def)

lemma good_items: "good_answer W s q (output_items is) \<longleftrightarrow> (1 \<le> tq_limit q \<longrightarrow> length is \<le> nat (tq_limit q)) \<and> (\<forall>i\<in>set is. item_of_case W s q i)"
  by (simp add: good_answer_def output_items_def)

lemma case_video_Inr: "case_video i s = Inr v \<longleftrightarrow> (\<exists>c. t_get ca_id i (db_cases s) = Some c \<and> v = ca_video_id c)"
  by (auto simp: case_video_def split: option.splits)

lemma make_item_Inr: "make_item i = Inr j \<longleftrightarrow> j = i \<and> 0 \<le> ti_start_ms i \<and> 0 < ti_end_ms i"
  by (auto simp: make_item_def)

lemma asserted_range_Inr: "asserted_range q = Inr (a, b) \<longleftrightarrow> tq_start_ms q = Some a \<and> tq_end_ms q = Some b"
  by (auto simp: asserted_range_def split: option.splits)

lemma document_item_Inr: "document_item d = Inr i \<Longrightarrow> of_document d i \<and> 0 \<le> ti_start_ms i \<and> 0 < ti_end_ms i"
  by (auto simp: document_item_def make_item_Inr of_document_def)

lemma map_res_items: "map_res f xs = Inr ys \<Longrightarrow> length ys = length xs \<and> (\<forall>y\<in>set ys. \<exists>x\<in>set xs. f x = Inr y)"
  unfolding map_res_Inr_iff by (induction rule: list_all2_induct) auto

lemma map_res_source: "map_res f xs = Inr ys \<Longrightarrow> y \<in> set ys \<Longrightarrow> (\<And>x. x \<in> set xs \<Longrightarrow> f x = Inr y \<Longrightarrow> thesis) \<Longrightarrow> thesis"
  by (meson map_res_items)

lemma taken_row: "x \<in> set (take n (sort_by le (filter P xs))) \<Longrightarrow> x \<in> set xs \<and> P x"
  by (auto dest: in_set_takeD)

lemma found_row: "find P xs = Some x \<Longrightarrow> x \<in> set xs \<and> P x"
  by (auto simp: find_Some_iff)

lemma search_tool_good:
  assumes "search_tool W ms q s = Inr out" and "keys_distinct sd_id (db_documents s)"
  shows "good_answer W s q out"
proof -
  obtain c where c: "t_get ca_id (tq_case_id q) (db_cases s) = Some c"
    using assms(1) by (auto simp: search_tool_def bindE_Inr_iff case_video_Inr)
  let ?r = "\<lparr> rr_video_id = ca_video_id c, rr_query = tq_query q, rr_modalities = ms, rr_start_ms = tq_start_ms q,
       rr_end_ms = tq_end_ms q, rr_limit = tq_limit q \<rparr>"
  obtain r where r: "search (cw_retrieval W) ?r s = Inr r" and o: "retrieval_output r = Inr out"
    using assms(1) c by (auto simp: search_tool_def bindE_Inr_iff case_video_def Let_def split: if_splits)
  obtain items where i: "map_res hit_item (rv_hits r) = Inr items"
    and out: "out = \<lparr> to_status = rv_status r, to_items = items, to_estimated_cost = 0, to_error_code = rv_error_code r \<rparr>"
    using o by (auto simp: retrieval_output_def bindE_Inr_iff)
  note hits = search_hits [OF r assms(2)] and m = map_res_items [OF i]
  have "item_of_case W s q x" if x: "x \<in> set items" for x
  proof -
    obtain h where h: "h \<in> set (rv_hits r)" "hit_item h = Inr x" using m x by blast
    obtain d where d: "d \<in> set (db_documents s)" "in_filters ?r ms d" "hit_of d h"
      using hits h(1) by auto
    have "of_document d x" "0 \<le> ti_start_ms x" "0 < ti_end_ms x"
      using h(2) d(3) by (auto simp: hit_item_def make_item_Inr of_document_def hit_of_def)
    moreover have "sd_video_id d = ca_video_id c" using d(2) by (simp add: in_filters_def)
    ultimately show ?thesis using c d(1) unfolding item_of_case_def document_of_video_def by blast
  qed
  moreover have "length items \<le> nat (tq_limit q)" using m hits by simp
  moreover have "rv_status r \<noteq> TR_RUNNING" by (rule search_status [OF r])
  ultimately show ?thesis by (simp add: good_answer_def out)
qed

lemma context_documents_rows:
  "d \<in> set (context_documents W vid w n s) \<Longrightarrow> d \<in> set (db_documents s) \<and> sd_video_id d = vid"
  unfolding context_documents_def by (drule taken_row) simp

lemma expand_temporal_context_good:
  assumes "expand_temporal_context W q s = Inr out"
  shows "good_answer W s q out"
proof -
  obtain a b where r: "asserted_range q = Inr (a, b)"
  proof (cases "asserted_range q")
    case (Inl e)
    then show ?thesis using assms by (simp add: expand_temporal_context_def)
  next
    case (Inr p)
    then show ?thesis using that by (cases p) blast
  qed
  consider code where "out = output_failed code"
    | c v w where "t_get ca_id (tq_case_id q) (db_cases s) = Some c" "t_get vd_id (ca_video_id c) (db_videos s) = Some v"
        "bindE (map_res document_item (context_documents W (vd_id v) w (tq_limit q) s)) (\<lambda>is. Inr (output_items is)) = Inr out"
  proof (cases "t_get ca_id (tq_case_id q) (db_cases s)")
    case None
    then have "out = output_failed ''CASE_NOT_FOUND''" using assms r by (simp add: expand_temporal_context_def)
    then show ?thesis by (rule that(1))
  next
    case (Some c)
    show ?thesis
    proof (cases "t_get vd_id (ca_video_id c) (db_videos s)")
      case None
      then have "out = output_failed ''MEDIA_ARTIFACT_NOT_FOUND''" using assms r Some by (simp add: expand_temporal_context_def)
      then show ?thesis by (rule that(1))
    next
      case v: (Some v)
      let ?w = "expand_window a b (vd_duration_ms v) (cfg_retrieval_context_ms (tw_settings (cw_retrieval W)))"
      obtain w where "?w = Inr w" using assms r Some v by (cases ?w) (simp_all add: expand_temporal_context_def)
      then show ?thesis using that(2) [OF Some v] assms r Some v by (simp add: expand_temporal_context_def)
    qed
  qed
  then show ?thesis
  proof cases
    case 1
    then show ?thesis by simp
  next
    case (2 c v w)
    then obtain items where m: "map_res document_item (context_documents W (vd_id v) w (tq_limit q) s) = Inr items"
      and out: "out = output_items items"
      by (cases "map_res document_item (context_documents W (vd_id v) w (tq_limit q) s)") simp_all
    have id: "vd_id v = ca_video_id c" using t_get_Some [OF 2(2)] by simp
    note mi = map_res_items [OF m]
    have "item_of_case W s q i" if i: "i \<in> set items" for i
    proof -
      obtain d where d: "d \<in> set (context_documents W (vd_id v) w (tq_limit q) s)" "document_item d = Inr i" using map_res_source [OF m i] by blast
      have "document_of_video s (ca_video_id c) i"
        using context_documents_rows [OF d(1)] document_item_Inr [OF d(2)] id unfolding document_of_video_def by auto
      then show ?thesis using 2(1) document_item_Inr [OF d(2)] unfolding item_of_case_def by simp
    qed
    moreover have "length items \<le> nat (tq_limit q)" using conjunct1 [OF mi] by (simp add: context_documents_def)
    ultimately show ?thesis by (simp add: out good_items)
  qed
qed

lemma segment_item_good:
  assumes "segment_item g s = Inr i" and "g \<in> set (db_segments s)" and "sg_video_id g = vid"
  shows "segment_of_video s vid i \<and> 0 \<le> ti_start_ms i \<and> 0 < ti_end_ms i"
proof (cases "find (\<lambda>d. sd_segment_id d = Some (sg_id g) \<and> sd_modality d = ''vision'') (db_documents s)")
  case None
  let ?a = "find (\<lambda>a. ar_segment_id a = Some (sg_id g) \<and> ar_type a = AT_KEYFRAME) (db_artifacts s)"
  have i: "ti_source_ref i = ''segment:'' @ sg_id g" "ti_start_ms i = sg_start_ms g" "ti_end_ms i = sg_end_ms g"
    "ti_artifact_id i = map_option ar_id ?a" "0 \<le> ti_start_ms i" "0 < ti_end_ms i"
    using assms(1) None by (auto simp: segment_item_def make_item_Inr)
  have "\<exists>a\<in>set (db_artifacts s). ar_id a = x \<and> ar_segment_id a = Some (sg_id g)" if "ti_artifact_id i = Some x" for x
    using that i(4) by (auto dest!: found_row)
  then show ?thesis using assms(2,3) i unfolding segment_of_video_def by blast
next
  case (Some d)
  then have "d \<in> set (db_documents s)" "sd_segment_id d = Some (sg_id g)" by (auto dest!: found_row)
  moreover have "document_item d = Inr i" using assms(1) Some by (simp add: segment_item_def)
  ultimately show ?thesis using assms(2,3) document_item_Inr [of d i] unfolding segment_of_video_def by blast
qed

lemma around_rows: "g \<in> set (around vid gs n s) \<Longrightarrow> g \<in> set (db_segments s) \<and> sg_video_id g = vid"
  unfolding around_def Let_def by (drule taken_row) simp

lemma neighbor_segments_good:
  assumes "neighbor_segments q s = Inr out"
  shows "good_answer W s q out"
proof -
  obtain a b where r: "asserted_range q = Inr (a, b)"
  proof (cases "asserted_range q")
    case (Inl e)
    then show ?thesis using assms by (simp add: neighbor_segments_def)
  next
    case (Inr p)
    then show ?thesis using that by (cases p) blast
  qed
  obtain c where c: "t_get ca_id (tq_case_id q) (db_cases s) = Some c"
    using assms r by (cases "t_get ca_id (tq_case_id q) (db_cases s)") (simp_all add: neighbor_segments_def case_video_def)
  let ?vid = "ca_video_id c" and ?o = "overlapping (ca_video_id c) a b s"
  have v: "case_video (tq_case_id q) s = Inr ?vid" using c by (simp add: case_video_def)
  show ?thesis
  proof (cases "?o = []")
    case True
    then have "out = output_items []" using assms r v by (simp add: neighbor_segments_def)
    then show ?thesis by (simp add: good_items)
  next
    case False
    then obtain items where m: "map_res (\<lambda>g. segment_item g s) (around ?vid ?o (tq_limit q) s) = Inr items"
      and out: "out = output_items items"
      using assms r v unfolding neighbor_segments_def by (cases "map_res (\<lambda>g. segment_item g s) (around ?vid ?o (tq_limit q) s)") simp_all
    note mi = map_res_items [OF m]
    have "item_of_case W s q i" if i: "i \<in> set items" for i
    proof -
      obtain g where g: "g \<in> set (around ?vid ?o (tq_limit q) s)" "segment_item g s = Inr i" using map_res_source [OF m i] by blast
      note g' = around_rows [OF g(1)]
      show ?thesis using c segment_item_good [OF g(2) conjunct1 [OF g'] conjunct2 [OF g']] by (simp add: item_of_case_def)
    qed
    moreover have "length items \<le> nat (tq_limit q)" using conjunct1 [OF mi] by (simp add: around_def Let_def)
    ultimately show ?thesis by (simp add: out good_items)
  qed
qed

lemma policy_requirement_good:
  assumes "policy_requirement W q s = Inr out"
  shows "good_answer W s q out"
proof -
  consider code where "out = output_failed code"
    | r c i where "t_get rm_id (tq_requirement_id q) (db_requirements s) = Some r" "t_get ca_id (tq_case_id q) (db_cases s) = Some c"
      "out = output_items [i]" "ti_artifact_id i = None" "ti_source_ref i = ''requirement:'' @ rm_id r"
      "ti_content i = cw_text W (requirement_json r)" "0 \<le> ti_start_ms i" "0 < ti_end_ms i"
    using assms by (auto simp: policy_requirement_def bindE_Inr_iff make_item_Inr split: option.splits if_splits)
  then show ?thesis
  proof cases
    case 1
    then show ?thesis by simp
  next
    case (2 r c i)
    have "r \<in> set (db_requirements s)" "rm_id r = tq_requirement_id q" using t_get_Some [OF 2(1)] by auto
    then have "requirement_text W s q i" using 2 unfolding requirement_text_def by auto
    moreover have "1 \<le> tq_limit q \<longrightarrow> Suc 0 \<le> nat (tq_limit q)" by linarith
    ultimately show ?thesis using 2 by (simp add: good_items item_of_case_def)
  qed
qed

section \<open>Clips\<close>

text \<open>What \<open>inspect_clip\<close> leaves: the database, or one more clip.\<close>

definition clip_added :: "db \<Rightarrow> db \<Rightarrow> bool" where
  "clip_added s s' \<longleftrightarrow> s' = s \<or> (\<exists>a. ar_type a = AT_CLIP \<and> find_uri (ar_uri a) s = None \<and> s' = s\<lparr>db_artifacts := db_artifacts s @ [a]\<rparr>)"

lemma clip_store_added:
  assumes "clip_store W q vid uri a b s = Inr (out, s')"
  shows "\<exists>r. out = output_items [\<lparr> ti_source_ref = ''artifact:'' @ ar_id r, ti_artifact_id = Some (ar_id r), ti_modality = ''video'',
        ti_start_ms = a, ti_end_ms = b, ti_content = u (''clip '' @ str_int a @ ''-'' @ str_int b @ '' ms''), ti_score = None \<rparr>]
      \<and> find_uri uri s' = Some r \<and> 0 \<le> a \<and> 0 < b \<and> clip_added s s'"
proof (cases "find_uri uri s")
  case None
  then have "find_uri uri (s\<lparr>db_artifacts := db_artifacts s @ [new_clip W q vid uri a b]\<rparr>) = Some (new_clip W q vid uri a b)"
    by (simp add: find_uri_def find_append_Cons new_clip_def)
  moreover have "ar_type (new_clip W q vid uri a b) = AT_CLIP" "ar_uri (new_clip W q vid uri a b) = uri" by (simp_all add: new_clip_def)
  ultimately show ?thesis
    using assms None by (auto simp: clip_store_def bindE_Inr_iff clip_item_def make_item_Inr clip_added_def table_simps t_add_def split: if_splits)
next
  case (Some r)
  then show ?thesis using assms by (auto simp: clip_store_def bindE_Inr_iff clip_item_def make_item_Inr clip_added_def)
qed

lemma inspect_clip_cases:
  assumes "inspect_clip W q s = (r, s')"
  obtains (error) e where "r = Inl e" and "s' = s"
  | (failed) code where "r = Inr (output_failed code)" and "s' = s"
  | (clip) a b c v key uri rec where "asserted_range q = Inr (a, b)" and "t_get ca_id (tq_case_id q) (db_cases s) = Some c"
      and "t_get vd_id (ca_video_id c) (db_videos s) = Some v" and "b \<le> vd_duration_ms v"
      and "b - a \<le> cfg_tool_clip_max_seconds (tw_settings (cw_retrieval W)) * 1000"
      and "key = clip_key W (ca_video_id c) a b" and "uri_for_key key = Inr uri" and "find_uri uri s' = Some rec"
      and "r = Inr (output_items [\<lparr> ti_source_ref = ''artifact:'' @ ar_id rec, ti_artifact_id = Some (ar_id rec), ti_modality = ''video'',
        ti_start_ms = a, ti_end_ms = b, ti_content = u (''clip '' @ str_int a @ ''-'' @ str_int b @ '' ms''), ti_score = None \<rparr>])"
      and "0 \<le> a" and "0 < b" and "clip_added s s'" and "\<exists>path. resolve (cw_store W) (vd_artifact_uri v) = Inr path"
proof (cases "asserted_range q")
  case (Inl e)
  then have "r = Inl e" "s' = s" using assms by (simp_all add: inspect_clip_def)
  then show ?thesis by (rule error)
next
  case (Inr ab)
  obtain a b where ab: "ab = (a, b)" by fastforce
  show ?thesis
  proof (cases "cfg_tool_clip_max_seconds (tw_settings (cw_retrieval W)) * 1000 < b - a")
    case True
    then have "r = Inr (output_failed ''TOOL_INPUT_INVALID'')" "s' = s" using assms Inr ab by (simp_all add: inspect_clip_def)
    then show ?thesis by (rule failed)
  next
    case False
    note range = Inr [unfolded ab]
    show ?thesis
    proof (cases "clip_lookup W q a b s")
      case (Inl e)
      then have "r = Inl e" "s' = s" using assms range False by (simp_all add: inspect_clip_def)
      then show ?thesis by (rule error)
    next
      case lookup: (Inr x)
      consider code where "x = Inl (output_failed code)"
        | c v path uri where "t_get ca_id (tq_case_id q) (db_cases s) = Some c" "t_get vd_id (ca_video_id c) (db_videos s) = Some v"
          "b \<le> vd_duration_ms v" "resolve (cw_store W) (vd_artifact_uri v) = Inr path"
          "uri_for_key (clip_key W (vd_id v) a b) = Inr uri"
          "case find_uri uri s of Some e \<Rightarrow> (\<exists>i. clip_item e a b = Inr i \<and> x = Inl (output_items [i]))
             | None \<Rightarrow> x = Inr (vd_id v, clip_key W (vd_id v) a b, path, uri)"
        using lookup by (auto simp: clip_lookup_def bindE_Inr_iff Let_def split: option.splits if_splits)
      then show ?thesis
      proof cases
        case (1 code)
        then have "r = Inr (output_failed code)" "s' = s" using assms range False lookup by (simp_all add: inspect_clip_def)
        then show ?thesis by (rule failed)
      next
        case (2 c v path uri)
        have id: "vd_id v = ca_video_id c" using t_get_Some [OF 2(2)] by simp
        note key = 2(5) [unfolded id]
        note give = clip [OF range 2(1-3) _ refl key]
        show ?thesis
        proof (cases "find_uri uri s")
          case (Some e)
          then obtain i where i: "clip_item e a b = Inr i" "x = Inl (output_items [i])" using 2(6) by auto
          then have "r = Inr (output_items [i])" "s' = s" using assms range False lookup by (simp_all add: inspect_clip_def)
          then show ?thesis using give [of e] Some i(1) False 2(4) by (simp add: clip_item_def make_item_Inr clip_added_def)
        next
          case None
          then have x: "x = Inr (vd_id v, clip_key W (vd_id v) a b, path, uri)" using 2(6) by simp
          show ?thesis
          proof (cases "bindE (path_for_key (cw_store W) (clip_key W (vd_id v) a b)) (\<lambda>target. cw_clip W path target a b)")
            case (Inl e)
            then have "r = Inl e" "s' = s" using assms range False lookup x by (simp_all add: inspect_clip_def)
            then show ?thesis by (rule error)
          next
            case (Inr y)
            then have run: "run_session (clip_store W q (vd_id v) uri a b) s = (r, s')"
              using assms range False lookup x by (simp add: inspect_clip_def)
            show ?thesis
            proof (cases "clip_store W q (vd_id v) uri a b s")
              case (Inl e)
              then have "r = Inl e" "s' = s" using run by (simp_all add: run_session_def)
              then show ?thesis by (rule error)
            next
              case (Inr z)
              then obtain out where z: "clip_store W q (vd_id v) uri a b s = Inr (out, s')" "r = Inr out"
                using run by (cases z) (simp add: run_session_def)
              show ?thesis using clip_store_added [OF z(1)] z(2) give False 2(4) by auto
            qed
          qed
        qed
      qed
    qed
  qed
qed

lemma clip_added_media:
  assumes "clip_added s s'"
  shows "db_cases s' = db_cases s" and "db_videos s' = db_videos s"
  using assms by (auto simp: clip_added_def)

lemma find_uri_row: "find_uri uri s = Some a \<Longrightarrow> a \<in> set (db_artifacts s) \<and> ar_uri a = uri"
  unfolding find_uri_def by (drule found_row) simp

lemma inspect_clip_good:
  assumes "inspect_clip W q s = (r, s')"
  shows "clip_added s s' \<and> (\<forall>out. r = Inr out \<longrightarrow> good_answer W s' q out)"
  using assms
proof (cases rule: inspect_clip_cases)
  case (error e)
  then show ?thesis by (simp add: clip_added_def)
next
  case (failed code)
  then show ?thesis by (simp add: clip_added_def)
next
  case (clip a b c v key uri rec)
  let ?i = "\<lparr> ti_source_ref = ''artifact:'' @ ar_id rec, ti_artifact_id = Some (ar_id rec), ti_modality = ''video'',
        ti_start_ms = a, ti_end_ms = b, ti_content = u (''clip '' @ str_int a @ ''-'' @ str_int b @ '' ms''), ti_score = None \<rparr>"
  note same = clip_added_media [OF clip(12)] and row = find_uri_row [OF clip(8)]
  have "clip_of_video W s' (ca_video_id c) q ?i"
    unfolding clip_of_video_def same
    by (rule bexI [of _ rec]) (use clip(1,3,4,6,7) row in \<open>simp_all add: asserted_range_Inr\<close>)
  then have "item_of_case W s' q ?i" using clip(2,10,11) same by (simp add: item_of_case_def)
  moreover have "1 \<le> tq_limit q \<longrightarrow> Suc 0 \<le> nat (tq_limit q)" by linarith
  ultimately show ?thesis using clip(9,12) by (simp add: good_items)
qed

section \<open>The built-in tools together\<close>

definition good_reader :: "tool_world \<Rightarrow> (ToolRequest \<Rightarrow> db \<Rightarrow> ToolOutput res) \<Rightarrow> bool" where
  "good_reader W g \<longleftrightarrow> (\<forall>q s out. g q s = Inr out \<longrightarrow> to_status out \<noteq> TR_RUNNING
     \<and> (keys_distinct sd_id (db_documents s) \<longrightarrow> good_answer W s q out))"

lemma search_tool_status: "search_tool W ms q s = Inr out \<Longrightarrow> to_status out \<noteq> TR_RUNNING"
  by (auto simp: search_tool_def retrieval_output_def bindE_Inr_iff Let_def dest: search_status split: if_splits)

lemma good_reader_search: "good_reader W (search_tool W ms)"
  unfolding good_reader_def using search_tool_status search_tool_good by blast

lemma good_readerI: "(\<And>q s out. g q s = Inr out \<Longrightarrow> good_answer W s q out) \<Longrightarrow> good_reader W g"
  unfolding good_reader_def good_answer_def by blast

lemma default_tool_kinds:
  assumes "registered (default_tools W) n = Some f"
  obtains "f = inspect_clip W" | g where "f = reading g" and "good_reader W g"
  using assms
proof (cases rule: default_tools_cases)
  case (search_ ms)
  then show ?thesis using that(2) good_reader_search by blast
next
  case clip
  then show ?thesis using that(1) by blast
next
  case context_
  then show ?thesis using that(2) good_readerI [OF expand_temporal_context_good] by blast
next
  case segments
  then show ?thesis using that(2) good_readerI [OF neighbor_segments_good] by blast
next
  case requirement
  then show ?thesis using that(2) good_readerI [OF policy_requirement_good] by blast
qed

lemma default_tool_good:
  assumes "registered (default_tools W) n = Some f" and "f q s = (r, s')"
  shows "clip_added s s' \<and> (\<forall>out. r = Inr out \<longrightarrow> to_status out \<noteq> TR_RUNNING
     \<and> (keys_distinct sd_id (db_documents s) \<longrightarrow> good_answer W s' q out))"
  using assms(1)
proof (cases rule: default_tool_kinds)
  case 1
  then have "inspect_clip W q s = (r, s')" using assms(2) by simp
  from inspect_clip_good [OF this] show ?thesis by (simp add: good_answer_def)
next
  case (2 g)
  have p: "(g q s, s) = (r, s')" using assms(2) unfolding 2(1) reading_def .
  have "s' = s" "r = g q s" using arg_cong [OF p, of snd] arg_cong [OF p, of fst] by simp_all
  then show ?thesis using 2(2) by (simp add: good_reader_def clip_added_def)
qed

text \<open>What the executor and the engine rely on of tools holds of the built-in ones.\<close>

lemma default_tools_tame:
  assumes "registered (default_tools W) n = Some f"
  shows "tame_tool f"
  unfolding tame_tool_def
proof (intro allI)
  fix q s
  obtain r s' where f: "f q s = (r, s')" by fastforce
  note g = default_tool_good [OF assms f]
  then have "clip_added s s'" ..
  then have "db_tools s' = db_tools s \<and> db_runs s' = db_runs s \<and> db_steps s' = db_steps s \<and> db_cases s' = db_cases s
      \<and> db_requirements s' = db_requirements s \<and> db_evidence s' = db_evidence s \<and> db_calls s' = db_calls s \<and> db_jobs s' = db_jobs s"
    by (auto simp: clip_added_def)
  then show "case f q s of (out, s') \<Rightarrow> db_tools s' = db_tools s \<and> db_runs s' = db_runs s \<and> db_steps s' = db_steps s
      \<and> db_cases s' = db_cases s \<and> db_requirements s' = db_requirements s \<and> db_evidence s' = db_evidence s
      \<and> db_calls s' = db_calls s \<and> db_jobs s' = db_jobs s \<and> (\<forall>x. out = Inr x \<longrightarrow> to_status x \<noteq> TR_RUNNING)"
    using g by (simp add: f)
qed

lemma default_world_tame: "wd_registry W = registered (default_tools T) \<Longrightarrow> tame_world W"
  by (simp add: tame_world_def default_tools_tame)


text \<open>
  A clip is cut once: after an answer with a clip, the same range of the same case is answered with the
  same item by any later call, without ffmpeg and without a change of the database.
\<close>

theorem clip_cut_once:
  assumes "inspect_clip W q s = (Inr out, s')" and "to_items out \<noteq> []"
    and "tq_case_id q2 = tq_case_id q" and "tq_start_ms q2 = tq_start_ms q" and "tq_end_ms q2 = tq_end_ms q"
  shows "inspect_clip (W\<lparr>cw_clip := clip2, cw_hex := hex2, cw_now := now2\<rparr>) q2 s' = (Inr out, s')"
  using assms(1)
proof (cases rule: inspect_clip_cases)
  case (failed code)
  then show ?thesis using assms(2) by (simp add: output_failed_def)
next
  case (clip a b c v key uri rec)
  let ?W = "W\<lparr>cw_clip := clip2, cw_hex := hex2, cw_now := now2\<rparr>"
  obtain path where path: "resolve (cw_store W) (vd_artifact_uri v) = Inr path" using clip(13) by blast
  have id: "vd_id v = ca_video_id c" using t_get_Some [OF clip(3)] by simp
  have key: "clip_key ?W (vd_id v) a b = key" by (simp add: clip_key_def clip(6) id)
  have range: "asserted_range q2 = Inr (a, b)" using clip(1) assms(4,5) by (simp add: asserted_range_def)
  have "clip_lookup ?W q2 a b s' = Inr (Inl out)"
    using clip(2-4,7-11) clip_added_media [OF clip(12)] path assms(3) key
    by (simp add: clip_lookup_def clip_item_def make_item_def Let_def)
  then show ?thesis using range clip(5) by (simp add: inspect_clip_def)
qed simp

section \<open>A worked clip\<close>

definition demo_tools :: tool_world where
  "demo_tools = \<lparr> cw_retrieval = demo_retrieval\<lparr>tw_env := demo_env\<lparr>sha := (\<lambda>t. ''hash'')\<rparr>\<rparr>, cw_store = demo_store,
     cw_clip = (\<lambda>source target a b. Inr ()), cw_hex = (\<lambda>q. ''1''), cw_now = (\<lambda>q. 5), cw_text = (\<lambda>j. []) \<rparr>"

definition clip_db :: db where
  "clip_db = demo_case_db\<lparr>db_videos := [demo_video\<lparr>vd_artifact_uri := ''artifact://v.mp4''\<rparr>]\<rparr>"

definition clip_request :: ToolRequest where
  "clip_request = demo_tool_request\<lparr>tq_start_ms := Some 0, tq_end_ms := Some 1000\<rparr>"

lemma demo_clip_uri:
  "clip_key demo_tools ''v1'' a b = ''videos/v1/clips/hash.mp4''"
  "uri_for_key ''videos/v1/clips/hash.mp4'' = Inr ''artifact://videos/v1/clips/hash.mp4''"
  "resolve demo_store ''artifact://v.mp4'' = Inr [''data'', ''v.mp4'']"
  "path_for_key demo_store ''videos/v1/clips/hash.mp4'' = Inr [''data'', ''videos'', ''v1'', ''clips'', ''hash.mp4'']"
proof -
  show k: "clip_key demo_tools ''v1'' a b = ''videos/v1/clips/hash.mp4''"
    by (simp add: clip_key_def demo_tools_def demo_retrieval_def)
  have r: "safe_relative ''videos/v1/clips/hash.mp4'' = Inr [''videos'', ''v1'', ''clips'', ''hash.mp4'']"
    by (simp add: safe_relative_def path_parts_def)
  then show "uri_for_key ''videos/v1/clips/hash.mp4'' = Inr ''artifact://videos/v1/clips/hash.mp4''"
    by (simp add: uri_for_key_def scheme_def as_posix_def join_def)
  show "path_for_key demo_store ''videos/v1/clips/hash.mp4'' = Inr [''data'', ''videos'', ''v1'', ''clips'', ''hash.mp4'']"
    using r by (simp add: path_for_key_def demo_store_def)
  show "resolve demo_store ''artifact://v.mp4'' = Inr [''data'', ''v.mp4'']"
    by (simp add: resolve_def scheme_def path_for_key_def safe_relative_def path_parts_def demo_store_def)
qed

definition demo_clip :: ArtifactRecord where
  "demo_clip = new_clip demo_tools clip_request ''v1'' ''artifact://videos/v1/clips/hash.mp4'' 0 1000"

lemma demo_inspect_clip:
  "\<exists>out. inspect_clip demo_tools clip_request clip_db = (Inr out, clip_db\<lparr>db_artifacts := [demo_artifact, demo_clip]\<rparr>)
    \<and> length (to_items out) = 1"
proof -
  let ?uri = "''artifact://videos/v1/clips/hash.mp4''"
  have c: "t_get ca_id ''c1'' (db_cases clip_db) = Some demo_case" "ca_video_id demo_case = ''v1''"
    by (simp_all add: clip_db_def t_get_Cons demo_case_def new_case_row_def)
  have v: "t_get vd_id ''v1'' (db_videos clip_db) = Some (demo_video\<lparr>vd_artifact_uri := ''artifact://v.mp4''\<rparr>)"
    by (simp add: clip_db_def t_get_Cons)
  have none: "find_uri ?uri clip_db = None" by (simp add: find_uri_def clip_db_def demo_artifact_def)
  have q: "asserted_range clip_request = Inr (0, 1000)" "tq_case_id clip_request = ''c1''"
    by (simp_all add: asserted_range_def clip_request_def demo_tool_request_def)
  have w: "cw_store demo_tools = demo_store" "cw_clip demo_tools x y a b = Inr ()"
    "cfg_tool_clip_max_seconds (tw_settings (cw_retrieval demo_tools)) = 30" for x y a b
    by (simp_all add: demo_tools_def demo_retrieval_def default_settings_def)
  have l: "clip_lookup demo_tools clip_request 0 1000 clip_db = Inr (Inr (''v1'', ''videos/v1/clips/hash.mp4'', [''data'', ''v.mp4''], ?uri))"
    by (simp add: clip_lookup_def q c v w demo_clip_uri none Let_def) (simp add: demo_video_def)
  have a: "t_add ar_id demo_clip (db_artifacts clip_db) = Inr [demo_artifact, demo_clip]"
    by (simp add: t_add_def clip_db_def demo_clip_def new_clip_def demo_artifact_def)
  have st: "clip_store demo_tools clip_request ''v1'' ?uri 0 1000 clip_db
    = bindE (clip_item demo_clip 0 1000) (\<lambda>i. Inr (output_items [i], clip_db\<lparr>db_artifacts := [demo_artifact, demo_clip]\<rparr>))"
    by (simp add: clip_store_def none a [unfolded demo_clip_def] demo_clip_def)
  show ?thesis
    by (simp add: inspect_clip_def q w l demo_clip_uri run_session_def st clip_item_def make_item_def output_items_def)
qed

lemma clip_cut_once_witness:
  "\<exists>out s'. inspect_clip demo_tools clip_request clip_db = (Inr out, s') \<and> length (to_items out) = 1
    \<and> inspect_clip (demo_tools\<lparr>cw_clip := (\<lambda>source target a b. Inl RuntimeErr), cw_hex := (\<lambda>q. ''2''), cw_now := (\<lambda>q. 9)\<rparr>) clip_request s'
      = (Inr out, s')"
proof -
  obtain out s' where o: "inspect_clip demo_tools clip_request clip_db = (Inr out, s')" "length (to_items out) = 1"
    using demo_inspect_clip by blast
  then have "to_items out \<noteq> []" by auto
  from clip_cut_once [OF o(1) this refl refl refl] show ?thesis using o by blast
qed


end
