(* ===== verification/MediaService.thy ===== *)
theory MediaService
  imports ArtifactStore RetrievalIndex
begin

text \<open>
  \<open>evistream/media/service.py\<close> and \<open>segmenter.py\<close>: videos are registered once, and their preprocessing is
  a job that is claimed, cuts the video into segments with keyframes, observations and a transcript in one
  session, and is completed or failed. The processes and adapters (ffprobe, ffmpeg, OCR, vision, speech)
  are parameters that answer or raise; uuids are numbered in the order the code takes them.
\<close>

section \<open>What the adapters answer\<close>

record MediaProbeResult =
  mp_duration_ms :: int
  mp_width :: int
  mp_height :: int
  mp_container :: string
  mp_video_codec :: string
  mp_has_audio :: bool
  mp_audio_codec :: "string option"

record TextObservation =
  ob_text :: utext
  ob_confidence :: "rat option"
  ob_model :: string

record ASRSegment =
  sp_start_ms :: int
  sp_end_ms :: int
  sp_text :: utext

record ASRResponse =
  ap_segments :: "ASRSegment list"
  ap_model :: string

text \<open>A file that is to be registered: \<open>sf_size\<close> is None where there is no such file.\<close>

record source_file =
  sf_size :: "int option"
  sf_name :: utext
  sf_suffix :: string
  sf_sha256 :: string
  sf_probe :: "MediaProbeResult res"

text \<open>
  \<open>mw_scene_times\<close> are the times the scene filter of ffmpeg printed, times 1000; \<open>mw_message\<close> is \<open>str\<close> of
  an exception and \<open>mw_db_code\<close> the \<open>code\<close> attribute SQLAlchemy gives its integrity errors.
\<close>

record media_world =
  mw_env :: env
  mw_nfkc :: "utext \<Rightarrow> utext"
  mw_store :: artifact_store
  mw_settings :: Settings
  mw_scene_times :: "path \<Rightarrow> rat list res"
  mw_keyframe :: "path \<Rightarrow> path \<Rightarrow> int \<Rightarrow> unit res"
  mw_ocr :: "path \<Rightarrow> TextObservation list res"
  mw_vision :: "path \<Rightarrow> TextObservation res"
  mw_asr :: "path \<Rightarrow> ASRResponse res"
  mw_hex :: "nat \<Rightarrow> string"
  mw_now :: "nat \<Rightarrow> time"
  mw_message :: "exn \<Rightarrow> utext"
  mw_db_code :: string

section \<open>Segmenters\<close>

text \<open>Python's \<open>round\<close>: to the nearest integer, ties to the even one.\<close>

definition py_round :: "rat \<Rightarrow> int" where
  "py_round x = (let f = \<lfloor>x\<rfloor>; d = x - of_int f in
     if d < 1 / 2 then f else if 1 / 2 < d then f + 1 else if even f then f else f + 1)"

fun pairwise :: "int list \<Rightarrow> (int \<times> int) list" where
  "pairwise (a # b # xs) = (a, b) # pairwise (b # xs)"
| "pairwise xs = []"

definition scene_cuts :: "int \<Rightarrow> rat list \<Rightarrow> int list" where
  "scene_cuts duration_ms ts = sorted_uniq (filter (\<lambda>c. 0 < c \<and> c < duration_ms) (map py_round ts))"

definition scene_boundaries :: "int \<Rightarrow> rat list \<Rightarrow> SegmentBoundary list res" where
  "scene_boundaries duration_ms ts = map_res (\<lambda>(a, b). make_boundary a b)
     (filter (\<lambda>(a, b). a < b) (pairwise (0 # scene_cuts duration_ms ts @ [duration_ms])))"

definition scene_segments :: "media_world \<Rightarrow> path \<Rightarrow> int \<Rightarrow> SegmentBoundary list res" where
  "scene_segments W path duration_ms = bindE (mw_scene_times W path) (scene_boundaries duration_ms)"

text \<open>\<open>range(start, stop, step)\<close>, and the windows that start at its values.\<close>

definition py_range :: "int \<Rightarrow> int \<Rightarrow> int \<Rightarrow> int list res" where
  "py_range a b step = (if step = 0 then Inl ValueError
     else if 0 < step then Inr (map (\<lambda>i. a + int i * step) [0..<nat ((b - a + step - 1) div step)])
     else Inr (map (\<lambda>i. a + int i * step) [0..<nat ((a - b - step - 1) div (- step))]))"

definition fixed_windows :: "int \<Rightarrow> int \<Rightarrow> SegmentBoundary list res" where
  "fixed_windows window_ms duration_ms = bindE (py_range 0 duration_ms window_ms)
     (map_res (\<lambda>start. make_boundary start (min (start + window_ms) duration_ms)))"

section \<open>Rows\<close>

definition insert_segment :: "SegmentRecord \<Rightarrow> db \<Rightarrow> db res" where
  "insert_segment g s =
    (if \<exists>x\<in>set (db_segments s). sg_id x = sg_id g
          \<or> (sg_video_id x = sg_video_id g \<and> sg_start_ms x = sg_start_ms g \<and> sg_end_ms x = sg_end_ms g)
     then Inl IntegrityError else Inr (s\<lparr>db_segments := db_segments s @ [g]\<rparr>))"

definition insert_artifact :: "ArtifactRecord \<Rightarrow> db \<Rightarrow> db res" where
  "insert_artifact a s = (if \<exists>x\<in>set (db_artifacts s). ar_id x = ar_id a \<or> ar_uri x = ar_uri a
     then Inl IntegrityError else Inr (s\<lparr>db_artifacts := db_artifacts s @ [a]\<rparr>))"

definition insert_document :: "SearchDocumentRecord \<Rightarrow> db \<Rightarrow> db res" where
  "insert_document d s = bindE (t_add sd_id d (db_documents s)) (\<lambda>t. Inr (s\<lparr>db_documents := t\<rparr>))"

definition insert_video :: "VideoRecord \<Rightarrow> db \<Rightarrow> db res" where
  "insert_video v s = (if \<exists>x\<in>set (db_videos s). vd_id x = vd_id v \<or> vd_artifact_uri x = vd_artifact_uri v
     then Inl IntegrityError else Inr (s\<lparr>db_videos := db_videos s @ [v]\<rparr>))"

definition update_video :: "string \<Rightarrow> (VideoRecord \<Rightarrow> VideoRecord) \<Rightarrow> db \<Rightarrow> db" where
  "update_video i f s = s\<lparr>db_videos := t_upd vd_id i f (db_videos s)\<rparr>"

text \<open>An assignment of the status; the row is written only when it changes.\<close>

definition set_video_status :: "time \<Rightarrow> VideoStatus \<Rightarrow> VideoRecord \<Rightarrow> VideoRecord" where
  "set_video_status now st v = (if vd_status v = st then v else v\<lparr>vd_status := st, vd_updated_at := now\<rparr>)"

record MediaJob =
  mj_job_id :: string
  mj_video_id :: string
  mj_request_key :: string
  mj_status :: JobStatus
  mj_attempt :: int
  mj_error_code :: "string option"
  mj_error_message :: "utext option"
  mj_retryable :: bool

definition media_job :: "ProcessingJobRecord \<Rightarrow> MediaJob" where
  "media_job r = \<lparr> mj_job_id = jb_id r, mj_video_id = jb_subject_id r, mj_request_key = jb_request_key r,
     mj_status = jb_status r, mj_attempt = jb_attempt r, mj_error_code = jb_error_code r,
     mj_error_message = jb_error_message r, mj_retryable = jb_retryable r \<rparr>"

section \<open>Registration\<close>

definition media_request_key :: "media_world \<Rightarrow> string \<Rightarrow> string" where
  "media_request_key W fingerprint = sha (mw_env W) (''MEDIA_PREPROCESS:'' @ fingerprint)"

definition check_file :: "Settings \<Rightarrow> source_file \<Rightarrow> MediaProbeResult res" where
  "check_file C f = (case sf_size f of None \<Rightarrow> Inl (OtherErr ''FileNotFoundError'')
   | Some bytes \<Rightarrow> if cfg_upload_max_bytes C < bytes then Inl ValueError
     else bindE (sf_probe f) (\<lambda>p.
       if cfg_video_max_duration_seconds C * 1000 < mp_duration_ms p then Inl ValueError
       else if cfg_video_max_width C < mp_width p \<or> cfg_video_max_height C < mp_height p then Inl ValueError
       else Inr p))"

text \<open>The first session: a job or a video of the same content, if there is one.\<close>

definition known_media :: "media_world \<Rightarrow> string \<Rightarrow> string \<Rightarrow> db \<Rightarrow> (VideoRecord \<times> MediaJob) option res" where
  "known_media W fingerprint profile s =
    (case find (\<lambda>j. jb_request_key j = media_request_key W fingerprint) (db_jobs s) of
       Some job \<Rightarrow> (case t_get vd_id (jb_subject_id job) (db_videos s) of
           None \<Rightarrow> Inl RuntimeErr
         | Some v \<Rightarrow> if jb_type job \<noteq> ''MEDIA_PREPROCESS'' then Inl RuntimeErr
             else if vd_model_profile v \<noteq> profile then Inl (JobHandlerError ''VIDEO_PROFILE_CONFLICT'' False)
             else Inr (Some (v, media_job job)))
     | None \<Rightarrow> (case find (\<lambda>v. vd_fingerprint v = Some fingerprint) (db_videos s) of
           None \<Rightarrow> Inr None
         | Some v \<Rightarrow> if vd_model_profile v \<noteq> profile then Inl (JobHandlerError ''VIDEO_PROFILE_CONFLICT'' False)
             else (case find (\<lambda>j. jb_subject_id j = vd_id v \<and> jb_type j = ''MEDIA_PREPROCESS'') (db_jobs s) of
               None \<Rightarrow> Inl RuntimeErr | Some job \<Rightarrow> Inr (Some (v, media_job job)))))"

definition new_video :: "source_file \<Rightarrow> utext option \<Rightarrow> string \<Rightarrow> MediaProbeResult \<Rightarrow> string \<Rightarrow> string \<Rightarrow> time \<Rightarrow> VideoRecord" where
  "new_video f original_name profile p video_id uri now = \<lparr> vd_id = video_id,
     vd_original_name = (if truthy original_name then the original_name else sf_name f), vd_artifact_uri = uri,
     vd_fingerprint = Some (sf_sha256 f), vd_duration_ms = mp_duration_ms p, vd_width = mp_width p, vd_height = mp_height p,
     vd_container = mp_container p, vd_video_codec = mp_video_codec p, vd_has_audio = mp_has_audio p,
     vd_audio_codec = mp_audio_codec p, vd_status = VS_UPLOADED, vd_model_profile = profile, vd_triage_status = ''PENDING'',
     vd_created_at = now, vd_updated_at = now \<rparr>"

definition new_media_job :: "media_world \<Rightarrow> string \<Rightarrow> string \<Rightarrow> string \<Rightarrow> time \<Rightarrow> ProcessingJobRecord" where
  "new_media_job W fingerprint video_id profile now = \<lparr> jb_id = ''job_'' @ mw_hex W 1, jb_type = ''MEDIA_PREPROCESS'',
     jb_subject_id = video_id, jb_request_key = media_request_key W fingerprint, jb_correlation_id = ''corr_'' @ mw_hex W 2,
     jb_status = JS_PENDING, jb_attempt = 0, jb_max_attempts = cfg_job_max_attempts (mw_settings W), jb_error_code = None,
     jb_error_message = None, jb_retryable = False,
     jb_payload = [(''video_id'', JStr video_id), (''model_profile'', JStr profile)], jb_next_attempt_at = None,
     jb_last_enqueued_at = None, jb_lease_until = None, jb_started_at = None, jb_finished_at = None,
     jb_created_at = now, jb_updated_at = now \<rparr>"

definition source_artifact :: "media_world \<Rightarrow> string \<Rightarrow> string \<Rightarrow> string \<Rightarrow> time \<Rightarrow> ArtifactRecord" where
  "source_artifact W video_id uri fingerprint now = \<lparr> ar_id = ''art_'' @ mw_hex W 3, ar_video_id = video_id, ar_segment_id = None,
     ar_type = AT_SOURCE_VIDEO, ar_uri = uri, ar_metadata = JObj [(''sha256'', JStr fingerprint)],
     ar_created_at = now, ar_updated_at = now \<rparr>"

definition register_file :: "media_world \<Rightarrow> source_file \<Rightarrow> utext option \<Rightarrow> string option \<Rightarrow> db \<Rightarrow> (VideoRecord \<times> MediaJob) res \<times> db" where
  "register_file W f original_name model_profile s =
    (case check_file (mw_settings W) f of Inl e \<Rightarrow> (Inl e, s)
     | Inr p \<Rightarrow>
       (let profile = (if truthy model_profile then the model_profile else cfg_model_profile (mw_settings W)) in
        case known_media W (sf_sha256 f) profile s of
          Inl e \<Rightarrow> (Inl e, s)
        | Inr (Some known) \<Rightarrow> (Inr known, s)
        | Inr None \<Rightarrow>
          (let video_id = ''vid_'' @ mw_hex W 0; now = mw_now W 0 in
           case put_artifact (mw_store W) (''videos/'' @ video_id @ ''/source'' @ (if sf_suffix f = [] then ''.bin'' else sf_suffix f)) of
             Inl e \<Rightarrow> (Inl e, s)
           | Inr uri \<Rightarrow>
             (let v = new_video f original_name profile p video_id uri now; j = new_media_job W (sf_sha256 f) video_id profile now in
              run_session (\<lambda>s. bindE (insert_video v s) (\<lambda>s1.
                bindE (insert_artifact (source_artifact W video_id uri (sf_sha256 f) now) s1) (\<lambda>s2.
                bindE (insert_job j s2) (\<lambda>s3. Inr ((v, media_job j), s3))))) s))))"

section \<open>Extraction\<close>

text \<open>The state of the extraction: the next uuid and the database of the session.\<close>

type_synonym extraction = "nat \<times> db"

definition pad4 :: "nat \<Rightarrow> string" where
  "pad4 n = replicate (4 - length (digits n)) CHR ''0'' @ digits n"

definition new_document ::
    "media_world \<Rightarrow> string \<Rightarrow> string \<Rightarrow> string option \<Rightarrow> string \<Rightarrow> string \<Rightarrow> int \<Rightarrow> int \<Rightarrow> utext \<Rightarrow> time \<Rightarrow> SearchDocumentRecord" where
  "new_document W i video_id seg artifact_id modality a b text now = \<lparr> sd_id = i, sd_video_id = video_id, sd_segment_id = seg,
     sd_artifact_id = artifact_id, sd_modality = modality, sd_start_ms = a, sd_end_ms = b, sd_text = text,
     sd_normalized_text = normalize_text (mw_nfkc W) text, sd_keyword_lexemes = search_lexemes (mw_nfkc W) text,
     sd_embedding = None, sd_embedding_space = None, sd_embedding_model = None, sd_embedding_source_sha256 = None,
     sd_embedding_updated_at = None, sd_created_at = now, sd_updated_at = now \<rparr>"

definition new_artifact ::
    "string \<Rightarrow> string \<Rightarrow> string option \<Rightarrow> ArtifactType \<Rightarrow> string \<Rightarrow> json \<Rightarrow> time \<Rightarrow> ArtifactRecord" where
  "new_artifact i video_id seg type uri metadata now = \<lparr> ar_id = i, ar_video_id = video_id, ar_segment_id = seg, ar_type = type,
     ar_uri = uri, ar_metadata = metadata, ar_created_at = now, ar_updated_at = now \<rparr>"

text \<open>One observation of a keyframe: its JSON in the store, an artifact and a document.\<close>

definition store_observation ::
    "media_world \<Rightarrow> time \<Rightarrow> string \<Rightarrow> string \<Rightarrow> nat \<Rightarrow> SegmentBoundary \<Rightarrow> string \<times> TextObservation \<Rightarrow> extraction \<Rightarrow> extraction res" where
  "store_observation W now video_id seg_id sequence b = (\<lambda>(modality, ob) (n, s).
    bindE (put_artifact (mw_store W) (''videos/'' @ video_id @ ''/'' @ modality @ ''/'' @ pad4 sequence @ ''-'' @ mw_hex W (n + 1) @ ''.json''))
      (\<lambda>uri. let artifact_id = ''art_'' @ mw_hex W n in
        bindE (insert_artifact (new_artifact artifact_id video_id (Some seg_id)
            (if modality = ''ocr'' then AT_OCR else AT_VISUAL_DESCRIPTION) uri (JObj [(''model'', JStr (ob_model ob))]) now) s)
      (\<lambda>s1. bindE (insert_document (new_document W (''doc_'' @ mw_hex W (n + 2)) video_id (Some seg_id) artifact_id modality
            (sb_start_ms b) (sb_end_ms b) (ob_text ob) now) s1)
      (\<lambda>s2. Inr (n + 3, s2)))))"

fun fold_res :: "('a \<Rightarrow> 's \<Rightarrow> 's res) \<Rightarrow> 'a list \<Rightarrow> 's \<Rightarrow> 's res" where
  "fold_res f [] st = Inr st"
| "fold_res f (x # xs) st = bindE (f x st) (fold_res f xs)"

definition middle :: "SegmentBoundary \<Rightarrow> int" where
  "middle b = (sb_start_ms b + sb_end_ms b) div 2"

definition new_segment :: "string \<Rightarrow> string \<Rightarrow> SegmentBoundary \<Rightarrow> nat \<Rightarrow> time \<Rightarrow> SegmentRecord" where
  "new_segment i video_id b sequence now = \<lparr> sg_id = i, sg_video_id = video_id, sg_start_ms = sb_start_ms b, sg_end_ms = sb_end_ms b,
     sg_sequence = int sequence, sg_created_at = now, sg_updated_at = now \<rparr>"

definition extract_segment ::
    "media_world \<Rightarrow> time \<Rightarrow> string \<Rightarrow> path \<Rightarrow> nat \<times> SegmentBoundary \<Rightarrow> extraction \<Rightarrow> extraction res" where
  "extract_segment W now video_id source = (\<lambda>(sequence, b) (n, s).
    let seg_id = ''seg_'' @ mw_hex W n; key = ''videos/'' @ video_id @ ''/keyframes/'' @ pad4 sequence @ ''.jpg'' in
    bindE (insert_segment (new_segment seg_id video_id b sequence now) s) (\<lambda>s1.
    bindE (path_for_key (mw_store W) key) (\<lambda>target.
    bindE (mw_keyframe W source target (middle b)) (\<lambda>_.
    bindE (uri_for_key key) (\<lambda>uri.
    bindE (insert_artifact (new_artifact (''art_'' @ mw_hex W (n + 1)) video_id (Some seg_id) AT_KEYFRAME uri
        (JObj [(''at_ms'', JInt (middle b))]) now) s1) (\<lambda>s2.
    bindE (mw_ocr W target) (\<lambda>observations.
    bindE (mw_vision W target) (\<lambda>description.
    fold_res (store_observation W now video_id seg_id sequence b)
      (map (\<lambda>ob. (''ocr'', ob)) observations @ [(''vision'', description)]) (n + 2, s2)))))))))"

definition store_speech :: "media_world \<Rightarrow> time \<Rightarrow> string \<Rightarrow> string \<Rightarrow> ASRSegment \<Rightarrow> extraction \<Rightarrow> extraction res" where
  "store_speech W now video_id artifact_id = (\<lambda>item (n, s).
    bindE (insert_document (new_document W (''doc_'' @ mw_hex W n) video_id None artifact_id ''transcript''
        (sp_start_ms item) (sp_end_ms item) (sp_text item) now) s) (\<lambda>s1. Inr (n + 1, s1)))"

definition extract_transcript :: "media_world \<Rightarrow> time \<Rightarrow> string \<Rightarrow> path \<Rightarrow> bool \<Rightarrow> extraction \<Rightarrow> extraction res" where
  "extract_transcript W now video_id source has_audio = (\<lambda>(n, s).
    bindE (if has_audio then mw_asr W source else Inr \<lparr> ap_segments = [], ap_model = ''none'' \<rparr>) (\<lambda>transcript.
    bindE (put_artifact (mw_store W) (''videos/'' @ video_id @ ''/transcript.json'')) (\<lambda>uri.
    let artifact_id = ''art_'' @ mw_hex W n in
    bindE (insert_artifact (new_artifact artifact_id video_id None AT_TRANSCRIPT uri (JObj [(''model'', JStr (ap_model transcript))]) now) s) (\<lambda>s1.
    fold_res (store_speech W now video_id artifact_id) (ap_segments transcript) (n + 1, s1)))))"

text \<open>\<open>_extract\<close>: the scenes are found first; the rows are written in one session.\<close>

definition extract_body :: "media_world \<Rightarrow> time \<Rightarrow> string \<Rightarrow> path \<Rightarrow> bool \<Rightarrow> SegmentBoundary list \<Rightarrow> db \<Rightarrow> (unit \<times> db) res" where
  "extract_body W now video_id source has_audio boundaries s =
    bindE (fold_res (extract_segment W now video_id source) (enumerate 0 boundaries) (0, s)) (\<lambda>st.
    bindE (extract_transcript W now video_id source has_audio st) (\<lambda>(n, s1). Inr ((), s1)))"

definition extract_media :: "media_world \<Rightarrow> string \<Rightarrow> path \<Rightarrow> int \<Rightarrow> bool \<Rightarrow> db \<Rightarrow> unit res \<times> db" where
  "extract_media W video_id source duration_ms has_audio s = (case scene_segments W source duration_ms of
     Inl e \<Rightarrow> (Inl e, s)
   | Inr boundaries \<Rightarrow> run_session (extract_body W (mw_now W 2) video_id source has_audio boundaries) s)"

section \<open>The job\<close>

text \<open>\<open>now\<close> is read before the claim and again for it.\<close>

definition claimable :: "time \<Rightarrow> ProcessingJobRecord \<Rightarrow> bool" where
  "claimable now j \<longleftrightarrow> (jb_status j \<in> {JS_PENDING, JS_RETRY_WAIT}
       \<or> (jb_status j = JS_RUNNING \<and> (case jb_lease_until j of None \<Rightarrow> False | Some t \<Rightarrow> t < now)))
     \<and> jb_attempt j < jb_max_attempts j"

definition claimed_job :: "Settings \<Rightarrow> time \<Rightarrow> ProcessingJobRecord \<Rightarrow> ProcessingJobRecord" where
  "claimed_job C now j = j\<lparr>jb_status := JS_RUNNING, jb_attempt := jb_attempt j + 1, jb_started_at := Some now, jb_finished_at := None,
     jb_error_code := None, jb_lease_until := Some (now + seconds (cfg_media_job_lease_seconds C)), jb_updated_at := now\<rparr>"

definition claim_media_body :: "media_world \<Rightarrow> string \<Rightarrow> db \<Rightarrow> ((MediaJob + VideoRecord \<times> path) \<times> db) res" where
  "claim_media_body W job_id s = (case t_get jb_id job_id (db_jobs s) of
     None \<Rightarrow> Inl LookupErr
   | Some job \<Rightarrow>
      if jb_status job = JS_SUCCEEDED then Inr (Inl (media_job job), s)
      else if jb_status job = JS_RUNNING \<and> (case jb_lease_until job of None \<Rightarrow> False | Some t \<Rightarrow> mw_now W 0 < t)
      then Inl (JobHandlerError ''JOB_ALREADY_RUNNING'' False)
      else if jb_status job \<in> {JS_FAILED, JS_CANCELLED} \<or> jb_max_attempts job \<le> jb_attempt job
      then Inl (JobHandlerError ''JOB_NOT_RETRYABLE'' False)
      else if \<not> claimable (mw_now W 1) job then Inl (JobHandlerError ''JOB_ALREADY_RUNNING'' False)
      else (case t_get vd_id (jb_subject_id job) (db_videos s) of
        None \<Rightarrow> Inl LookupErr
      | Some v \<Rightarrow> bindE (resolve (mw_store W) (vd_artifact_uri v)) (\<lambda>source_path.
          Inr (Inr (v, source_path),
            update_video (vd_id v) (set_video_status (mw_now W 1) (if vd_status v = VS_READY then VS_READY else VS_PROCESSING))
              (update_job job_id (claimed_job (mw_settings W) (mw_now W 1)) s)))))"

definition failed_extraction :: "media_world \<Rightarrow> string \<Rightarrow> string \<Rightarrow> db \<Rightarrow> db" where
  "failed_extraction W job_id video_id s = update_video video_id (set_video_status (mw_now W 3) VS_FAILED)
     (update_job job_id (\<lambda>j. j\<lparr>jb_status := JS_FAILED, jb_error_code := Some ''MEDIA_DECODE_FAILED'',
        jb_finished_at := Some (mw_now W 3), jb_lease_until := None, jb_updated_at := mw_now W 3\<rparr>) s)"

definition ready_body :: "media_world \<Rightarrow> bool \<Rightarrow> string \<Rightarrow> string \<Rightarrow> db \<Rightarrow> (MediaJob \<times> db) res" where
  "ready_body W finalize job_id video_id s =
    (let s1 = update_video video_id (set_video_status (mw_now W 4) VS_READY)
           (if finalize then update_job job_id (\<lambda>j. j\<lparr>jb_status := JS_SUCCEEDED, jb_finished_at := Some (mw_now W 4), jb_lease_until := None,
                jb_updated_at := mw_now W 4\<rparr>) s
            else s)
     in if t_get vd_id video_id (db_videos s) = None then Inl RuntimeErr
        else case t_get jb_id job_id (db_jobs s1) of None \<Rightarrow> Inl RuntimeErr | Some j \<Rightarrow> Inr (media_job j, s1))"

definition process_job :: "media_world \<Rightarrow> bool \<Rightarrow> string \<Rightarrow> db \<Rightarrow> MediaJob res \<times> db" where
  "process_job W finalize job_id s = (case run_session (claim_media_body W job_id) s of
     (Inl e, s1) \<Rightarrow> (Inl e, s1)
   | (Inr (Inl job), s1) \<Rightarrow> (Inr job, s1)
   | (Inr (Inr (v, source_path)), s1) \<Rightarrow>
      (case (if vd_status v = VS_READY then (Inr (), s1)
             else extract_media W (vd_id v) source_path (vd_duration_ms v) (vd_has_audio v) s1) of
         (Inl e, s2) \<Rightarrow> (Inl e, failed_extraction W job_id (vd_id v) s2)
       | (Inr _, s2) \<Rightarrow> run_session (ready_body W finalize job_id (vd_id v)) s2))"

definition complete_media :: "media_world \<Rightarrow> string \<Rightarrow> db \<Rightarrow> (MediaJob \<times> db) res" where
  "complete_media W job_id s =
    (let s1 = update_job job_id (\<lambda>j. j\<lparr>jb_status := JS_SUCCEEDED, jb_finished_at := Some (mw_now W 5), jb_lease_until := None,
         jb_next_attempt_at := None, jb_retryable := False, jb_error_code := None, jb_error_message := None,
         jb_updated_at := mw_now W 5\<rparr>) s
     in case t_get jb_id job_id (db_jobs s1) of None \<Rightarrow> Inl LookupErr | Some j \<Rightarrow> Inr (media_job j, s1))"

definition failed_job :: "media_world \<Rightarrow> string \<Rightarrow> utext \<Rightarrow> bool \<Rightarrow> ProcessingJobRecord \<Rightarrow> ProcessingJobRecord" where
  "failed_job W code message retryable j =
    (let can_retry = retryable \<and> jb_attempt j < jb_max_attempts j in
     j\<lparr>jb_status := (if can_retry then JS_RETRY_WAIT else JS_FAILED), jb_retryable := can_retry, jb_error_code := Some code,
       jb_error_message := Some (take 2000 message), jb_lease_until := None,
       jb_finished_at := (if can_retry then None else Some (mw_now W 6)),
       jb_next_attempt_at := (if can_retry then Some (mw_now W 6 + seconds (retry_delay (mw_settings W) (jb_attempt j))) else None)\<rparr>)"

definition fail_media :: "media_world \<Rightarrow> string \<Rightarrow> string \<Rightarrow> utext \<Rightarrow> bool \<Rightarrow> db \<Rightarrow> (MediaJob \<times> db) res" where
  "fail_media W job_id code message retryable s =
    (let s1 = update_job job_id (failed_job W code message retryable) s
     in case t_get jb_id job_id (db_jobs s1) of None \<Rightarrow> Inl LookupErr | Some j \<Rightarrow> Inr (media_job j, s1))"

definition build_job_request :: "string \<Rightarrow> db \<Rightarrow> JobRequest res" where
  "build_job_request job_id s = (case t_get jb_id job_id (db_jobs s) of
     None \<Rightarrow> Inl LookupErr
   | Some r \<Rightarrow> Inr \<lparr> jq_job_id = jb_id r, jq_job_type = jb_type r, jq_request_key = jb_request_key r,
       jq_correlation_id = jb_correlation_id r, jq_payload = (if jb_payload r = []
         then [(''video_id'', JStr (jb_subject_id r)), (''model_profile'', JStr ''mock'')] else jb_payload r) \<rparr>)"

definition get_video :: "string \<Rightarrow> db \<Rightarrow> VideoRecord res" where
  "get_video video_id s = (case t_get vd_id video_id (db_videos s) of None \<Rightarrow> Inl LookupErr | Some v \<Rightarrow> Inr v)"

definition get_media_job :: "string \<Rightarrow> db \<Rightarrow> MediaJob res" where
  "get_media_job job_id s = (case t_get jb_id job_id (db_jobs s) of None \<Rightarrow> Inl LookupErr | Some j \<Rightarrow> Inr (media_job j))"

definition simulate_stream :: "Settings \<Rightarrow> string \<Rightarrow> db \<Rightarrow> SegmentBoundary list res" where
  "simulate_stream C video_id s = bindE (get_video video_id s)
     (\<lambda>v. fixed_windows (cfg_simulated_stream_segment_seconds C * 1000) (vd_duration_ms v))"

section \<open>The handler\<close>

text \<open>\<open>getattr(error, "code", "MEDIA_DECODE_FAILED")\<close> and the retry flag that counts.\<close>

definition media_error :: "media_world \<Rightarrow> exn \<Rightarrow> string \<times> bool" where
  "media_error W e = (case e of
     JobHandlerError c b \<Rightarrow> (c, b) | ModelError c b \<Rightarrow> (str_model_error c, b) | TriageError c b \<Rightarrow> (c, b)
   | GovernanceError c \<Rightarrow> (c, False) | AgentRuntimeError c \<Rightarrow> (c, False) | PolicyVersionError c \<Rightarrow> (c, False)
   | JobServiceError c \<Rightarrow> (c, False) | MediaProbeError c \<Rightarrow> (c, False) | IntegrityError \<Rightarrow> (mw_db_code W, False)
   | _ \<Rightarrow> (''MEDIA_DECODE_FAILED'', False))"

type_synonym indexer = "string \<Rightarrow> db \<Rightarrow> IndexSummary res \<times> db"
type_synonym triager = "string \<Rightarrow> string \<Rightarrow> string \<Rightarrow> db \<Rightarrow> int res \<times> db"

definition index_step :: "indexer option \<Rightarrow> string \<Rightarrow> db \<Rightarrow> unit res \<times> db" where
  "index_step ix video_id s = (case ix of None \<Rightarrow> (Inr (), s)
   | Some f \<Rightarrow> (case f video_id s of
       (Inl e, s1) \<Rightarrow> (Inl e, s1)
     | (Inr x, s1) \<Rightarrow> if xs_status x = TR_SUCCESS then (Inr (), s1)
         else (Inl (JobHandlerError (if truthy (xs_error_code x) then the (xs_error_code x) else ''EMBEDDING_INDEX_FAILED'')
                (list_ex if_retryable (xs_failures x))), s1)))"

definition triage_step :: "triager option \<Rightarrow> string \<Rightarrow> string \<Rightarrow> string \<Rightarrow> db \<Rightarrow> unit res \<times> db" where
  "triage_step tg job_id video_id profile s = (case tg of None \<Rightarrow> (Inr (), s)
   | Some f \<Rightarrow> (case f job_id video_id profile s of (Inl e, s1) \<Rightarrow> (Inl e, s1) | (Inr _, s1) \<Rightarrow> (Inr (), s1)))"

definition media_steps ::
    "media_world \<Rightarrow> indexer option \<Rightarrow> triager option \<Rightarrow> string \<Rightarrow> string \<Rightarrow> string \<Rightarrow> db \<Rightarrow> MediaJob res \<times> db" where
  "media_steps W ix tg job_id video_id profile s = (case process_job W False job_id s of
     (Inl e, s1) \<Rightarrow> (Inl e, s1)
   | (Inr _, s1) \<Rightarrow> (case index_step ix video_id s1 of
       (Inl e, s2) \<Rightarrow> (Inl e, s2)
     | (Inr _, s2) \<Rightarrow> (case triage_step tg job_id video_id profile s2 of
         (Inl e, s3) \<Rightarrow> (Inl e, s3)
       | (Inr _, s3) \<Rightarrow> run_session (complete_media W job_id) s3)))"

definition payload_text :: "string \<Rightarrow> string \<Rightarrow> payload \<Rightarrow> string" where
  "payload_text k other p = (case dict_get k p of Some (JStr t) \<Rightarrow> t | _ \<Rightarrow> other)"

definition handle_media ::
    "media_world \<Rightarrow> indexer option \<Rightarrow> triager option \<Rightarrow> JobRequest \<Rightarrow> db \<Rightarrow> MediaJob res \<times> db" where
  "handle_media W ix tg q s =
    (if jq_job_type q \<noteq> ''MEDIA_PREPROCESS'' then (Inl (JobHandlerError ''JOB_INVALID'' False), s)
     else case build_job_request (jq_job_id q) s of
       Inl e \<Rightarrow> (Inl e, s)
     | Inr stored \<Rightarrow>
       if jq_job_type stored \<noteq> jq_job_type q \<or> jq_request_key stored \<noteq> jq_request_key q
           \<or> jq_correlation_id stored \<noteq> jq_correlation_id q
           \<or> dict_get ''video_id'' (jq_payload stored) \<noteq> dict_get ''video_id'' (jq_payload q)
       then (Inl (JobHandlerError ''JOB_INVALID'' False), s)
       else case media_steps W ix tg (jq_job_id q) (payload_text ''video_id'' [] (jq_payload q))
                 (payload_text ''model_profile'' ''mock'' (jq_payload q)) s of
         (Inr job, s1) \<Rightarrow> (Inr job, s1)
       | (Inl e, s1) \<Rightarrow> (case run_session (fail_media W (jq_job_id q) (fst (media_error W e)) (mw_message W e) (snd (media_error W e))) s1 of
           (Inl e', s2) \<Rightarrow> (Inl e', s2)
         | (Inr _, s2) \<Rightarrow> (Inl (JobHandlerError (fst (media_error W e)) (snd (media_error W e))), s2)))"

section \<open>Windows partition the video\<close>

text \<open>Boundaries that follow on each other from one time to another.\<close>

fun chained :: "int \<Rightarrow> SegmentBoundary list \<Rightarrow> int \<Rightarrow> bool" where
  "chained a [] b \<longleftrightarrow> a = b"
| "chained a (x # xs) b \<longleftrightarrow> sb_start_ms x = a \<and> a < sb_end_ms x \<and> chained (sb_end_ms x) xs b"

lemma pairwise_chained:
  "sorted_wrt (<) (p # ps) \<Longrightarrow> 0 \<le> p \<Longrightarrow>
    \<exists>bs. map_res (\<lambda>(a, b). make_boundary a b) (filter (\<lambda>(a, b). a < b) (pairwise (p # ps))) = Inr bs \<and> chained p bs (last (p # ps))"
proof (induction ps arbitrary: p)
  case (Cons q ps)
  have "p < q" "0 \<le> q" "sorted_wrt (<) (q # ps)" using Cons.prems by auto
  then show ?case using Cons.IH [of q] Cons.prems(2) by (auto simp: make_boundary_def)
qed simp

lemma scene_boundaries_chained:
  assumes "0 \<le> duration_ms"
  shows "\<exists>bs. scene_boundaries duration_ms ts = Inr bs \<and> chained 0 bs duration_ms"
proof (cases "duration_ms = 0")
  case True
  have "scene_cuts 0 ts = []" by (simp add: scene_cuts_def filter_False)
  then show ?thesis using True by (simp add: scene_boundaries_def)
next
  case False
  have "sorted_wrt (<) (0 # scene_cuts duration_ms ts @ [duration_ms])"
    using assms False by (auto simp: sorted_wrt_append scene_cuts_def strict_sorted_iff)
  from pairwise_chained [OF this] show ?thesis by (simp add: scene_boundaries_def)
qed

text \<open>The windows that are left from the \<open>i\<close>-th on.\<close>

lemma windows_chained:
  assumes "0 < w" and "\<forall>i. i < n \<longleftrightarrow> int i * w < d"
  shows "i < n \<Longrightarrow> \<exists>bs. map_res (\<lambda>start. make_boundary start (min (start + w) d)) (map (\<lambda>i. int i * w) [i..<n]) = Inr bs
    \<and> chained (int i * w) bs d"
proof (induction "n - i" arbitrary: i)
  case (Suc k)
  let ?b = "\<lparr> sb_start_ms = int i * w, sb_end_ms = min (int i * w + w) d \<rparr>"
  have lt: "int i * w < d" and up: "[i..<n] = i # [Suc i..<n]" using Suc.prems assms(2) by (simp_all add: upt_conv_Cons)
  have pos: "0 \<le> int i * w" using assms(1) by simp
  have b: "make_boundary (int i * w) (min (int i * w + w) d) = Inr ?b"
    using lt pos assms(1) unfolding make_boundary_def by (smt (verit))
  show ?case
  proof (cases "Suc i < n")
    case True
    then have "int (Suc i) * w < d" using assms(2) by blast
    then have e: "min (int i * w + w) d = int (Suc i) * w" by (simp add: algebra_simps)
    have "k = n - Suc i" using Suc.hyps(2) by simp
    from Suc.hyps(1) [OF this True] obtain bs
      where "map_res (\<lambda>start. make_boundary start (min (start + w) d)) (map (\<lambda>i. int i * w) [Suc i..<n]) = Inr bs"
        and "chained (int (Suc i) * w) bs d" by blast
    then have "map_res (\<lambda>start. make_boundary start (min (start + w) d)) (map (\<lambda>i. int i * w) [i..<n]) = Inr (?b # bs)
        \<and> chained (int i * w) (?b # bs) d"
      unfolding up using b lt e assms(1) by simp
    then show ?thesis by blast
  next
    case False
    then have "Suc i = n" using Suc.prems by simp
    moreover have "\<not> int (Suc i) * w < d" using False assms(2) [rule_format, of "Suc i"] by blast
    ultimately have "[Suc i..<n] = []" "min (int i * w + w) d = d" by (auto simp: algebra_simps)
    then show ?thesis unfolding up using b lt by auto
  qed
qed simp

lemma le_div_iff_mult:
  fixes w :: int
  assumes "0 < w"
  shows "k \<le> x div w \<longleftrightarrow> k * w \<le> x"
proof
  assume "k \<le> x div w"
  then have "k * w \<le> x div w * w" using assms by (simp add: mult_right_mono)
  also have "\<dots> \<le> x" using pos_mod_sign [OF assms, of x] div_mult_mod_eq [of x w] by linarith
  finally show "k * w \<le> x" .
next
  assume "k * w \<le> x"
  then have "k * w div w \<le> x div w" using assms by (rule zdiv_mono1)
  then show "k \<le> x div w" using assms by simp
qed

lemma fixed_windows_chained:
  assumes "0 < w" and "0 \<le> d"
  shows "\<exists>bs. fixed_windows w d = Inr bs \<and> chained 0 bs d"
proof -
  let ?n = "nat ((d - 0 + w - 1) div w)"
  have i: "i < ?n \<longleftrightarrow> int i * w < d" for i
  proof -
    have "i < ?n \<longleftrightarrow> int i < (d + w - 1) div w" by (simp add: zless_nat_eq_int_zless)
    also have "\<dots> \<longleftrightarrow> int i + 1 \<le> (d + w - 1) div w" by linarith
    also have "\<dots> \<longleftrightarrow> (int i + 1) * w \<le> d + w - 1" by (rule le_div_iff_mult [OF assms(1)])
    also have "\<dots> \<longleftrightarrow> int i * w < d" by (simp add: algebra_simps) linarith
    finally show ?thesis .
  qed
  have r: "py_range 0 d w = Inr (map (\<lambda>i. int i * w) [0..<?n])" using assms(1) by (simp add: py_range_def)
  show ?thesis
  proof (cases "?n = 0")
    case True
    then have "\<not> 0 < d" using i [of 0] by simp
    then show ?thesis using r True assms(2) by (simp add: fixed_windows_def)
  next
    case False
    then have "0 < ?n" by blast
    from windows_chained [OF assms(1) _ this, of d] i
    obtain bs where "map_res (\<lambda>start. make_boundary start (min (start + w) d)) (map (\<lambda>i. int i * w) [0..<?n]) = Inr bs"
      "chained (int 0 * w) bs d" by blast
    then show ?thesis by (simp add: fixed_windows_def r)
  qed
qed

end
