(* ===== verification/MediaExtract.thy ===== *)
theory MediaExtract
  imports MediaService
begin

text \<open>
  What the extraction of a video writes: rows of that video only, its segments one after the other, or
  nothing.
\<close>

section \<open>Rows of one video\<close>

definition grown :: "db \<Rightarrow> SegmentRecord list \<Rightarrow> ArtifactRecord list \<Rightarrow> SearchDocumentRecord list \<Rightarrow> db" where
  "grown s gs ars ds = s\<lparr>db_segments := db_segments s @ gs, db_artifacts := db_artifacts s @ ars, db_documents := db_documents s @ ds\<rparr>"

lemma grown_grown [simp]: "grown (grown s g a d) g' a' d' = grown s (g @ g') (a @ a') (d @ d')"
  by (simp add: grown_def)

lemma grown_Nil [simp]: "grown s [] [] [] = s"
  by (simp add: grown_def)

lemma grown_simps [simp]:
  "db_segments (grown s g a d) = db_segments s @ g" "db_artifacts (grown s g a d) = db_artifacts s @ a"
  "db_documents (grown s g a d) = db_documents s @ d" "db_jobs (grown s g a d) = db_jobs s" "db_videos (grown s g a d) = db_videos s"
  by (simp_all add: grown_def)

definition document_in :: "SegmentRecord list \<Rightarrow> SearchDocumentRecord \<Rightarrow> bool" where
  "document_in gs d \<longleftrightarrow> (case sd_segment_id d of None \<Rightarrow> sd_modality d = ''transcript''
     | Some x \<Rightarrow> \<exists>g\<in>set gs. sg_id g = x \<and> sd_start_ms d = sg_start_ms g \<and> sd_end_ms d = sg_end_ms g)"

definition rows_of_video :: "string \<Rightarrow> SegmentRecord list \<Rightarrow> ArtifactRecord list \<Rightarrow> SearchDocumentRecord list \<Rightarrow> bool" where
  "rows_of_video vid gs ars ds \<longleftrightarrow> (\<forall>g\<in>set gs. sg_video_id g = vid)
     \<and> (\<forall>a\<in>set ars. ar_video_id a = vid \<and> (\<forall>x. ar_segment_id a = Some x \<longrightarrow> x \<in> sg_id ` set gs))
     \<and> (\<forall>d\<in>set ds. sd_video_id d = vid \<and> sd_artifact_id d \<in> ar_id ` set ars \<and> document_in gs d)"

lemma document_in_mono: "document_in gs d \<Longrightarrow> set gs \<subseteq> set gs' \<Longrightarrow> document_in gs' d"
  by (auto simp: document_in_def split: option.splits)

lemma rows_of_video_append:
  assumes "rows_of_video vid g a d" and "rows_of_video vid g' a' d'"
  shows "rows_of_video vid (g @ g') (a @ a') (d @ d')"
proof -
  have "document_in (g @ g') x" if "x \<in> set d \<union> set d'" for x
    using that assms document_in_mono [of g x "g @ g'"] document_in_mono [of g' x "g @ g'"] by (auto simp: rows_of_video_def)
  then show ?thesis using assms unfolding rows_of_video_def by (auto simp: image_Un)
qed

lemma rows_of_video_Nil [simp]: "rows_of_video vid [] [] []"
  by (simp add: rows_of_video_def)

section \<open>Step by step\<close>

lemma insert_artifact_grown: "insert_artifact a s = Inr s' \<Longrightarrow> s' = grown s [] [a] []"
  by (auto simp: insert_artifact_def grown_def split: if_splits)

lemma insert_document_grown: "insert_document d s = Inr s' \<Longrightarrow> s' = grown s [] [] [d]"
  by (auto simp: insert_document_def grown_def bindE_Inr_iff t_add_def split: if_splits)

lemma insert_segment_grown: "insert_segment g s = Inr s' \<Longrightarrow> s' = grown s [g] [] []"
  by (auto simp: insert_segment_def grown_def split: if_splits)

lemma store_observation_grown:
  assumes "store_observation W now vid (sg_id g) k b x (n, s) = Inr (n', s')"
    and "sg_start_ms g = sb_start_ms b" and "sg_end_ms g = sb_end_ms b"
  shows "\<exists>a d. s' = grown s [] [a] [d] \<and> ar_video_id a = vid \<and> ar_segment_id a = Some (sg_id g)
    \<and> sd_video_id d = vid \<and> sd_artifact_id d = ar_id a \<and> document_in [g] d"
proof -
  obtain m ob where x: "x = (m, ob)" by fastforce
  obtain uri s1 s2 where 1: "insert_artifact (new_artifact (''art_'' @ mw_hex W n) vid (Some (sg_id g))
            (if m = ''ocr'' then AT_OCR else AT_VISUAL_DESCRIPTION) uri (JObj [(''model'', JStr (ob_model ob))]) now) s = Inr s1"
    and 2: "insert_document (new_document W (''doc_'' @ mw_hex W (n + 2)) vid (Some (sg_id g)) (''art_'' @ mw_hex W n) m
            (sb_start_ms b) (sb_end_ms b) (ob_text ob) now) s1 = Inr s2" and "s' = s2"
    using assms(1) by (auto simp: store_observation_def x bindE_Inr_iff Let_def)
  then show ?thesis
    using insert_artifact_grown [OF 1] insert_document_grown [OF 2] assms(2,3)
    by (intro exI conjI) (auto simp: new_artifact_def new_document_def document_in_def)
qed

lemma store_observations_grown:
  assumes "fold_res (store_observation W now vid (sg_id g) k b) xs (n, s) = Inr (n', s')"
    and "sg_start_ms g = sb_start_ms b" and "sg_end_ms g = sb_end_ms b"
  shows "\<exists>ars ds. s' = grown s [] ars ds \<and> (\<forall>a\<in>set ars. ar_video_id a = vid \<and> ar_segment_id a = Some (sg_id g))
    \<and> (\<forall>d\<in>set ds. sd_video_id d = vid \<and> sd_artifact_id d \<in> ar_id ` set ars \<and> document_in [g] d)"
  using assms(1)
proof (induction xs arbitrary: n s)
  case Nil
  then have "s' = grown s [] [] []" by simp
  then show ?case by (metis empty_iff list.set(1))
next
  case (Cons x xs)
  obtain n1 s1 where 1: "store_observation W now vid (sg_id g) k b x (n, s) = Inr (n1, s1)"
    and 2: "fold_res (store_observation W now vid (sg_id g) k b) xs (n1, s1) = Inr (n', s')"
    using Cons.prems by (auto simp: bindE_Inr_iff)
  obtain a d where a: "s1 = grown s [] [a] [d]" "ar_video_id a = vid" "ar_segment_id a = Some (sg_id g)"
    "sd_video_id d = vid" "sd_artifact_id d = ar_id a" "document_in [g] d"
    using store_observation_grown [OF 1 assms(2,3)] by blast
  obtain ars ds where r: "s' = grown s1 [] ars ds" "\<forall>a\<in>set ars. ar_video_id a = vid \<and> ar_segment_id a = Some (sg_id g)"
    "\<forall>d\<in>set ds. sd_video_id d = vid \<and> sd_artifact_id d \<in> ar_id ` set ars \<and> document_in [g] d"
    using Cons.IH [OF 2] by blast
  have "s' = grown s [] (a # ars) (d # ds)" by (simp add: r(1) a(1))
  then show ?case using a r by (intro exI [of _ "a # ars"] exI [of _ "d # ds"]) auto
qed

lemma extract_segment_grown:
  assumes "extract_segment W now vid source (k, b) (n, s) = Inr (n', s')"
  shows "\<exists>g ars ds. s' = grown s [g] ars ds \<and> rows_of_video vid [g] ars ds \<and> sg_sequence g = int k
    \<and> sg_start_ms g = sb_start_ms b \<and> sg_end_ms g = sb_end_ms b"
proof -
  let ?g = "new_segment (''seg_'' @ mw_hex W n) vid b k now"
  obtain uri s1 s2 xs where 1: "insert_segment ?g s = Inr s1"
    and 2: "insert_artifact (new_artifact (''art_'' @ mw_hex W (n + 1)) vid (Some (sg_id ?g)) AT_KEYFRAME uri
        (JObj [(''at_ms'', JInt (middle b))]) now) s1 = Inr s2"
    and 3: "fold_res (store_observation W now vid (sg_id ?g) k b) xs (n + 2, s2) = Inr (n', s')"
    using assms by (auto simp: extract_segment_def bindE_Inr_iff Let_def new_segment_def)
  have bounds: "sg_start_ms ?g = sb_start_ms b" "sg_end_ms ?g = sb_end_ms b" by (simp_all add: new_segment_def)
  let ?a = "new_artifact (''art_'' @ mw_hex W (n + 1)) vid (Some (sg_id ?g)) AT_KEYFRAME uri (JObj [(''at_ms'', JInt (middle b))]) now"
  obtain ars ds where r: "s' = grown s2 [] ars ds" "\<forall>a\<in>set ars. ar_video_id a = vid \<and> ar_segment_id a = Some (sg_id ?g)"
    "\<forall>d\<in>set ds. sd_video_id d = vid \<and> sd_artifact_id d \<in> ar_id ` set ars \<and> document_in [?g] d"
    using store_observations_grown [OF 3 bounds] by blast
  have "s' = grown s [?g] (?a # ars) ds" by (simp add: r(1) insert_artifact_grown [OF 2] insert_segment_grown [OF 1])
  moreover have "rows_of_video vid [?g] (?a # ars) ds"
    using r(2,3) by (auto simp: rows_of_video_def new_artifact_def new_segment_def)
  moreover have "sg_sequence ?g = int k" by (simp add: new_segment_def)
  ultimately show ?thesis using bounds by blast
qed

text \<open>The segments of a list of boundaries, numbered from \<open>k\<close>.\<close>

definition segments_of :: "nat \<Rightarrow> SegmentBoundary list \<Rightarrow> SegmentRecord list \<Rightarrow> bool" where
  "segments_of k bs gs \<longleftrightarrow> map (\<lambda>g. (sg_sequence g, sg_start_ms g, sg_end_ms g)) gs
     = map (\<lambda>(i, b). (int i, sb_start_ms b, sb_end_ms b)) (enumerate k bs)"

lemma extract_segments_grown:
  assumes "fold_res (extract_segment W now vid source) (enumerate k bs) (n, s) = Inr (n', s')"
  shows "\<exists>gs ars ds. s' = grown s gs ars ds \<and> rows_of_video vid gs ars ds \<and> segments_of k bs gs"
  using assms
proof (induction bs arbitrary: k n s)
  case Nil
  then have "s' = grown s [] [] []" by simp
  moreover have "segments_of k [] []" by (simp add: segments_of_def)
  ultimately show ?case using rows_of_video_Nil by blast
next
  case (Cons b bs)
  obtain n1 s1 where 1: "extract_segment W now vid source (k, b) (n, s) = Inr (n1, s1)"
    and 2: "fold_res (extract_segment W now vid source) (enumerate (Suc k) bs) (n1, s1) = Inr (n', s')"
    using Cons.prems by (auto simp: bindE_Inr_iff)
  obtain g ars ds where g: "s1 = grown s [g] ars ds" "rows_of_video vid [g] ars ds" "sg_sequence g = int k"
    "sg_start_ms g = sb_start_ms b" "sg_end_ms g = sb_end_ms b" using extract_segment_grown [OF 1] by blast
  obtain gs ars' ds' where r: "s' = grown s1 gs ars' ds'" "rows_of_video vid gs ars' ds'" "segments_of (Suc k) bs gs"
    using Cons.IH [OF 2] by blast
  have "s' = grown s (g # gs) (ars @ ars') (ds @ ds')" by (simp add: r(1) g(1))
  moreover have "segments_of k (b # bs) (g # gs)" using g r(3) by (simp add: segments_of_def)
  moreover have "rows_of_video vid (g # gs) (ars @ ars') (ds @ ds')" using rows_of_video_append [OF g(2) r(2)] by simp
  ultimately show ?case by blast
qed

lemma store_speech_grown:
  assumes "fold_res (store_speech W now vid i) xs (n, s) = Inr (n', s')"
  shows "\<exists>ds. s' = grown s [] [] ds \<and> (\<forall>d\<in>set ds. sd_video_id d = vid \<and> sd_artifact_id d = i \<and> document_in [] d)"
  using assms
proof (induction xs arbitrary: n s)
  case Nil
  then have "s' = grown s [] [] []" by simp
  then show ?case by (metis empty_iff list.set(1))
next
  case (Cons x xs)
  let ?d = "new_document W (''doc_'' @ mw_hex W n) vid None i ''transcript'' (sp_start_ms x) (sp_end_ms x) (sp_text x) now"
  obtain s1 where 1: "insert_document ?d s = Inr s1" and 2: "fold_res (store_speech W now vid i) xs (n + 1, s1) = Inr (n', s')"
    using Cons.prems by (auto simp: store_speech_def bindE_Inr_iff)
  obtain ds where r: "s' = grown s1 [] [] ds" "\<forall>d\<in>set ds. sd_video_id d = vid \<and> sd_artifact_id d = i \<and> document_in [] d"
    using Cons.IH [OF 2] by blast
  have "s' = grown s [] [] (?d # ds)" by (simp add: r(1) insert_document_grown [OF 1])
  moreover have "sd_video_id ?d = vid \<and> sd_artifact_id ?d = i \<and> document_in [] ?d" by (simp add: new_document_def document_in_def)
  ultimately show ?case using r(2) by (metis set_ConsD)
qed

lemma extract_transcript_grown:
  assumes "extract_transcript W now vid source has_audio (n, s) = Inr (n', s')"
  shows "\<exists>ars ds. s' = grown s [] ars ds \<and> rows_of_video vid [] ars ds"
proof -
  obtain t :: ASRResponse and uri s1 where 1: "insert_artifact (new_artifact (''art_'' @ mw_hex W n) vid None AT_TRANSCRIPT uri (JObj [(''model'', JStr (ap_model t))]) now) s = Inr s1"
    and 2: "fold_res (store_speech W now vid (''art_'' @ mw_hex W n)) (ap_segments t) (n + 1, s1) = Inr (n', s')"
    using assms unfolding extract_transcript_def by (simp add: bindE_Inr_iff Let_def) blast
  let ?a = "new_artifact (''art_'' @ mw_hex W n) vid None AT_TRANSCRIPT uri (JObj [(''model'', JStr (ap_model t))]) now"
  obtain ds where r: "s' = grown s1 [] [] ds"
    "\<forall>d\<in>set ds. sd_video_id d = vid \<and> sd_artifact_id d = ''art_'' @ mw_hex W n \<and> document_in [] d"
    using store_speech_grown [OF 2] by blast
  have "s' = grown s [] [?a] ds" by (simp add: r(1) insert_artifact_grown [OF 1])
  moreover have "rows_of_video vid [] [?a] ds" using r(2) by (simp add: rows_of_video_def new_artifact_def)
  ultimately show ?thesis by blast
qed

lemma extract_body_grown:
  assumes "extract_body W now vid source has_audio bs s = Inr (u', s')"
  shows "\<exists>gs ars ds. s' = grown s gs ars ds \<and> rows_of_video vid gs ars ds \<and> segments_of 0 bs gs"
proof -
  obtain n1 s1 n2 where 1: "fold_res (extract_segment W now vid source) (enumerate 0 bs) (0, s) = Inr (n1, s1)"
    and 2: "extract_transcript W now vid source has_audio (n1, s1) = Inr (n2, s')"
    using assms by (auto simp: extract_body_def bindE_Inr_iff)
  obtain gs ars ds where g: "s1 = grown s gs ars ds" "rows_of_video vid gs ars ds" "segments_of 0 bs gs"
    using extract_segments_grown [OF 1] by blast
  obtain ars' ds' where t: "s' = grown s1 [] ars' ds'" "rows_of_video vid [] ars' ds'" using extract_transcript_grown [OF 2] by blast
  have "s' = grown s gs (ars @ ars') (ds @ ds')" by (simp add: t(1) g(1))
  then show ?thesis using rows_of_video_append [OF g(2) t(2)] g(3) by fastforce
qed

end
