(* ===== verification/MediaJobs.thy ===== *)
theory MediaJobs
  imports MediaExtract
begin

text \<open>
  The life of a preprocessing job: what one delivery leaves behind, what a second delivery does to a job
  that is running, and what becomes of a job that died after its extraction.
\<close>

section \<open>One call of \<open>process_job\<close>\<close>

lemma claim_media_InrE:
  assumes "claim_media_body W jid s = Inr (Inr (v, path), s1)"
  obtains j where "t_get jb_id jid (db_jobs s) = Some j" and "claimable (mw_now W 1) j" and "jb_status j \<noteq> JS_SUCCEEDED"
    and "t_get vd_id (jb_subject_id j) (db_videos s) = Some v" and "resolve (mw_store W) (vd_artifact_uri v) = Inr path"
    and "s1 = update_video (vd_id v) (set_video_status (mw_now W 1) (if vd_status v = VS_READY then VS_READY else VS_PROCESSING))
              (update_job jid (claimed_job (mw_settings W) (mw_now W 1)) s)"
  using assms unfolding claim_media_body_def by (auto simp: bindE_Inr_iff split: option.splits if_splits)

lemma claim_media_known:
  assumes "claim_media_body W jid s = Inr (Inl m, s1)"
  shows "s1 = s \<and> (\<exists>j. t_get jb_id jid (db_jobs s) = Some j \<and> jb_status j = JS_SUCCEEDED \<and> m = media_job j)"
  using assms unfolding claim_media_body_def by (auto simp: bindE_Inr_iff split: option.splits if_splits)

lemma job_updates [simp]:
  "db_jobs (update_job i f s) = t_upd jb_id i f (db_jobs s)" "db_videos (update_job i f s) = db_videos s"
  "db_segments (update_job i f s) = db_segments s" "db_artifacts (update_job i f s) = db_artifacts s"
  "db_documents (update_job i f s) = db_documents s"
  by (simp_all add: update_job_def)

lemma video_updates [simp]:
  "db_videos (update_video i f s) = t_upd vd_id i f (db_videos s)" "db_jobs (update_video i f s) = db_jobs s"
  "db_segments (update_video i f s) = db_segments s" "db_artifacts (update_video i f s) = db_artifacts s"
  "db_documents (update_video i f s) = db_documents s"
  by (simp_all add: update_video_def)

lemma set_video_status_simps [simp]:
  "vd_id (set_video_status now st v) = vd_id v" "vd_status (set_video_status now st v) = st"
  "vd_duration_ms (set_video_status now st v) = vd_duration_ms v" "vd_artifact_uri (set_video_status now st v) = vd_artifact_uri v"
  "vd_has_audio (set_video_status now st v) = vd_has_audio v"
  by (simp_all add: set_video_status_def)

lemma extract_media_cases:
  assumes "extract_media W vid source d has_audio s = (r, s')"
  obtains (error) e where "r = Inl e" and "s' = s"
  | (ok) bs gs ars ds where "r = Inr ()" and "scene_segments W source d = Inr bs" and "s' = grown s gs ars ds"
      and "rows_of_video vid gs ars ds" and "segments_of 0 bs gs"
proof (cases "scene_segments W source d")
  case (Inl e)
  then have "r = Inl e" "s' = s" using assms by (simp_all add: extract_media_def)
  then show ?thesis by (rule error)
next
  case (Inr bs)
  show ?thesis
  proof (cases "extract_body W (mw_now W 2) vid source has_audio bs s")
    case (Inl e)
    then have "r = Inl e" "s' = s" using assms Inr by (simp_all add: extract_media_def run_session_def)
    then show ?thesis by (rule error)
  next
    case b: (Inr x)
    have r: "r = Inr ()" "x = ((), s')" using assms Inr b by (cases x; simp add: extract_media_def run_session_def)+
    then obtain gs ars ds where "s' = grown s gs ars ds" "rows_of_video vid gs ars ds" "segments_of 0 bs gs"
      using extract_body_grown [of W "mw_now W 2" vid source has_audio bs s "()" s'] b by blast
    then show ?thesis using ok r(1) Inr by blast
  qed
qed

text \<open>Every way \<open>process_job\<close> can go; \<open>extracted\<close> is the database after the extraction.\<close>

lemma process_job_cases:
  assumes "process_job W fin jid s = (r, s')"
  obtains (refused) e where "claim_media_body W jid s = Inl e" and "r = Inl e" and "s' = s"
  | (known) j where "t_get jb_id jid (db_jobs s) = Some j" and "jb_status j = JS_SUCCEEDED" and "r = Inr (media_job j)" and "s' = s"
  | (broken) v path s1 e where "claim_media_body W jid s = Inr (Inr (v, path), s1)" and "vd_status v \<noteq> VS_READY"
      and "extract_media W (vd_id v) path (vd_duration_ms v) (vd_has_audio v) s1 = (Inl e, s1)"
      and "r = Inl e" and "s' = failed_extraction W jid (vd_id v) s1"
  | (done_) v path s1 extracted where "claim_media_body W jid s = Inr (Inr (v, path), s1)"
      and "if vd_status v = VS_READY then extracted = s1
           else extract_media W (vd_id v) path (vd_duration_ms v) (vd_has_audio v) s1 = (Inr (), extracted)"
      and "run_session (ready_body W fin jid (vd_id v)) extracted = (r, s')"
proof (cases "claim_media_body W jid s")
  case (Inl e)
  then have "r = Inl e" "s' = s" using assms by (simp_all add: process_job_def run_session_def)
  then show ?thesis using refused [OF Inl] by blast
next
  case (Inr x)
  obtain y s1 where x: "x = (y, s1)" by fastforce
  show ?thesis
  proof (cases y)
    case (Inl m)
    note k = claim_media_known [OF Inr [unfolded x Inl]]
    then have "r = Inr m" "s' = s" using assms Inr x Inl by (simp_all add: process_job_def run_session_def)
    then show ?thesis using k known by blast
  next
    case y: (Inr z)
    obtain v path where z: "z = (v, path)" by fastforce
    note claim = Inr [unfolded x y z]
    show ?thesis
    proof (cases "vd_status v = VS_READY")
      case True
      then have "run_session (ready_body W fin jid (vd_id v)) s1 = (r, s')"
        using assms claim by (simp add: process_job_def run_session_def)
      then show ?thesis using done_ [OF claim] True by simp
    next
      case False
      obtain a s2 where e: "extract_media W (vd_id v) path (vd_duration_ms v) (vd_has_audio v) s1 = (a, s2)" by fastforce
      show ?thesis
      proof (cases a)
        case (Inl e')
        have "s2 = s1" using extract_media_cases [OF e] Inl by blast
        moreover from this have "r = Inl e'" "s' = failed_extraction W jid (vd_id v) s1"
          using assms claim False e Inl by (simp_all add: process_job_def run_session_def)
        ultimately show ?thesis using broken [OF claim False] e Inl by blast
      next
        case (Inr a')
        then have "run_session (ready_body W fin jid (vd_id v)) s2 = (r, s')"
          using assms claim False e by (simp add: process_job_def run_session_def)
        then show ?thesis using done_ [OF claim, of s2] False e Inr by simp
      qed
    qed
  qed
qed

section \<open>A delivery leaves the job at rest\<close>

text \<open>What every step keeps of the row of a job: it is there, and its attempt counts claims.\<close>

definition job_goes_on :: "ProcessingJobRecord \<Rightarrow> ProcessingJobRecord \<Rightarrow> bool" where
  "job_goes_on j j' \<longleftrightarrow> jb_max_attempts j' = jb_max_attempts j \<and> jb_attempt j \<le> jb_attempt j' \<and> jb_attempt j' \<le> jb_attempt j + 1
     \<and> (jb_attempt j' \<noteq> jb_attempt j \<longrightarrow> jb_attempt j < jb_max_attempts j)"

lemma t_get_job_upd: "t_get jb_id jid js = Some j \<Longrightarrow> (\<And>j. jb_id (f j) = jb_id j) \<Longrightarrow> t_get jb_id jid (t_upd jb_id jid f js) = Some (f j)"
  by (simp add: t_get_upd)

lemma ready_body_job:
  assumes "run_session (ready_body W fin jid vid) s = (r, s')" and "t_get jb_id jid (db_jobs s) = Some j"
  shows "\<exists>j'. t_get jb_id jid (db_jobs s') = Some j' \<and> jb_attempt j' = jb_attempt j \<and> jb_max_attempts j' = jb_max_attempts j"
proof -
  let ?f = "\<lambda>j. j\<lparr>jb_status := JS_SUCCEEDED, jb_finished_at := Some (mw_now W 4), jb_lease_until := None, jb_updated_at := mw_now W 4\<rparr>"
  have "t_get jb_id jid (t_upd jb_id jid ?f (db_jobs s)) = Some (?f j)" by (rule t_get_job_upd [OF assms(2)]) simp
  then have "db_jobs s' = db_jobs s \<or> db_jobs s' = t_upd jb_id jid ?f (db_jobs s)"
    using assms by (auto simp: run_session_def ready_body_def Let_def split: if_splits)
  then show ?thesis using assms(2) \<open>t_get jb_id jid (t_upd jb_id jid ?f (db_jobs s)) = Some (?f j)\<close> by auto
qed

lemma claim_media_job:
  assumes "claim_media_body W jid s = Inr (Inr (v, path), s1)" and "t_get jb_id jid (db_jobs s) = Some j"
  shows "t_get jb_id jid (db_jobs s1) = Some (claimed_job (mw_settings W) (mw_now W 1) j) \<and> jb_attempt j < jb_max_attempts j"
  using assms(1)
proof (rule claim_media_InrE)
  fix j' assume j: "t_get jb_id jid (db_jobs s) = Some j'" and "claimable (mw_now W 1) j'"
    and s1: "s1 = update_video (vd_id v) (set_video_status (mw_now W 1) (if vd_status v = VS_READY then VS_READY else VS_PROCESSING))
              (update_job jid (claimed_job (mw_settings W) (mw_now W 1)) s)"
  moreover have "j' = j" using j assms(2) by simp
  moreover have "t_get jb_id jid (t_upd jb_id jid (claimed_job (mw_settings W) (mw_now W 1)) (db_jobs s))
      = Some (claimed_job (mw_settings W) (mw_now W 1) j)"
    by (rule t_get_job_upd [OF assms(2)]) (simp add: claimed_job_def)
  ultimately show ?thesis by (simp add: claimable_def)
qed

lemma extracted_jobs:
  assumes "if b then s2 = s1 else extract_media W vid path d a s1 = (Inr (), s2)"
  shows "db_jobs s2 = db_jobs s1 \<and> db_videos s2 = db_videos s1"
proof (cases b)
  case False
  then have "extract_media W vid path d a s1 = (Inr (), s2)" using assms by simp
  then show ?thesis by (cases rule: extract_media_cases) simp_all
qed (use assms in simp)

lemma process_job_keeps_job:
  assumes "process_job W fin jid s = (r, s')" and "t_get jb_id jid (db_jobs s) = Some j"
  shows "\<exists>j'. t_get jb_id jid (db_jobs s') = Some j' \<and> job_goes_on j j'"
  using assms(1)
proof (cases rule: process_job_cases)
  case (refused e)
  then show ?thesis using assms(2) by (simp add: job_goes_on_def)
next
  case (known k)
  then show ?thesis using assms(2) by (simp add: job_goes_on_def)
next
  case (broken v path s1 e)
  note c = claim_media_job [OF broken(1) assms(2)]
  have "t_get jb_id jid (db_jobs s') = Some ((claimed_job (mw_settings W) (mw_now W 1) j)\<lparr>jb_status := JS_FAILED,
      jb_error_code := Some ''MEDIA_DECODE_FAILED'', jb_finished_at := Some (mw_now W 3), jb_lease_until := None, jb_updated_at := mw_now W 3\<rparr>)"
    unfolding broken(5) failed_extraction_def video_updates job_updates by (rule t_get_job_upd [OF conjunct1 [OF c]]) simp
  then show ?thesis using c by (simp add: job_goes_on_def claimed_job_def)
next
  case (done_ v path s1 s2)
  note c = claim_media_job [OF done_(1) assms(2)]
  have "t_get jb_id jid (db_jobs s2) = Some (claimed_job (mw_settings W) (mw_now W 1) j)"
    using extracted_jobs [OF done_(2)] c by simp
  from ready_body_job [OF done_(3) this] show ?thesis using c by (auto simp: job_goes_on_def claimed_job_def)
qed

text \<open>What indexing and triage are relied on for: they leave the jobs alone.\<close>

definition keeps_jobs :: "(db \<Rightarrow> 'a \<times> db) \<Rightarrow> bool" where
  "keeps_jobs f \<longleftrightarrow> (\<forall>s. db_jobs (snd (f s)) = db_jobs s)"

definition steps_keep_jobs :: "indexer option \<Rightarrow> triager option \<Rightarrow> bool" where
  "steps_keep_jobs ix tg \<longleftrightarrow> (\<forall>f vid. ix = Some f \<longrightarrow> keeps_jobs (f vid)) \<and> (\<forall>g jid vid p. tg = Some g \<longrightarrow> keeps_jobs (g jid vid p))"

lemma index_step_jobs:
  assumes "steps_keep_jobs ix tg" and "index_step ix vid s = (r, s')"
  shows "db_jobs s' = db_jobs s"
proof (cases ix)
  case None
  then show ?thesis using assms(2) by (simp add: index_step_def)
next
  case (Some f)
  obtain a s1 where f: "f vid s = (a, s1)" by fastforce
  have "db_jobs (snd (f vid s)) = db_jobs s" using assms(1) Some by (simp add: steps_keep_jobs_def keeps_jobs_def)
  then show ?thesis using assms(2) Some f by (auto simp: index_step_def split: sum.splits if_splits)
qed

lemma triage_step_jobs:
  assumes "steps_keep_jobs ix tg" and "triage_step tg jid vid p s = (r, s')"
  shows "db_jobs s' = db_jobs s"
proof (cases tg)
  case None
  then show ?thesis using assms(2) by (simp add: triage_step_def)
next
  case (Some f)
  obtain a s1 where f: "f jid vid p s = (a, s1)" by fastforce
  have "db_jobs (snd (f jid vid p s)) = db_jobs s" using assms(1) Some by (simp add: steps_keep_jobs_def keeps_jobs_def)
  then show ?thesis using assms(2) Some f by (auto simp: triage_step_def split: sum.splits)
qed

text \<open>The steps of a delivery: an error with the job still there, or the job completed.\<close>

definition completed :: "media_world \<Rightarrow> ProcessingJobRecord \<Rightarrow> ProcessingJobRecord" where
  "completed W j = j\<lparr>jb_status := JS_SUCCEEDED, jb_finished_at := Some (mw_now W 5), jb_lease_until := None, jb_next_attempt_at := None,
     jb_retryable := False, jb_error_code := None, jb_error_message := None, jb_updated_at := mw_now W 5\<rparr>"

lemma complete_media_job:
  assumes "t_get jb_id jid (db_jobs s) = Some j"
  shows "complete_media W jid s = Inr (media_job (completed W j), update_job jid (completed W) s)"
    and "t_get jb_id jid (t_upd jb_id jid (completed W) (db_jobs s)) = Some (completed W j)"
proof -
  show t: "t_get jb_id jid (t_upd jb_id jid (completed W) (db_jobs s)) = Some (completed W j)"
    by (rule t_get_job_upd [OF assms]) (simp add: completed_def)
  then show "complete_media W jid s = Inr (media_job (completed W j), update_job jid (completed W) s)"
    by (simp add: complete_media_def Let_def completed_def [abs_def])
qed

lemma fail_media_job:
  assumes "t_get jb_id jid (db_jobs s) = Some j"
  shows "fail_media W jid code message retryable s
      = Inr (media_job (failed_job W code message retryable j), update_job jid (failed_job W code message retryable) s)"
    and "t_get jb_id jid (t_upd jb_id jid (failed_job W code message retryable) (db_jobs s)) = Some (failed_job W code message retryable j)"
proof -
  show t: "t_get jb_id jid (t_upd jb_id jid (failed_job W code message retryable) (db_jobs s)) = Some (failed_job W code message retryable j)"
    by (rule t_get_job_upd [OF assms]) (simp add: failed_job_def Let_def)
  then show "fail_media W jid code message retryable s
      = Inr (media_job (failed_job W code message retryable j), update_job jid (failed_job W code message retryable) s)"
    by (simp add: fail_media_def Let_def)
qed

lemma media_steps_job:
  assumes "media_steps W ix tg jid vid p s = (r, s')" and "t_get jb_id jid (db_jobs s) = Some j" and "steps_keep_jobs ix tg"
  obtains (error) e j' where "r = Inl e" and "t_get jb_id jid (db_jobs s') = Some j'" and "job_goes_on j j'"
  | (ok) j' where "r = Inr (media_job (completed W j'))" and "t_get jb_id jid (db_jobs s') = Some (completed W j')" and "job_goes_on j j'"
proof -
  obtain r1 s1 where 1: "process_job W False jid s = (r1, s1)" by fastforce
  obtain j1 where j1: "t_get jb_id jid (db_jobs s1) = Some j1" "job_goes_on j j1" using process_job_keeps_job [OF 1 assms(2)] by blast
  show ?thesis
  proof (cases r1)
    case (Inl e)
    then have "r = Inl e" "s' = s1" using assms(1) 1 by (simp_all add: media_steps_def)
    then show ?thesis using error j1 by blast
  next
    case a: (Inr m)
    obtain r2 s2 where 2: "index_step ix vid s1 = (r2, s2)" by fastforce
    note k2 = index_step_jobs [OF assms(3) 2]
    show ?thesis
    proof (cases r2)
      case (Inl e)
      then have "r = Inl e" "s' = s2" using assms(1) 1 a 2 by (simp_all add: media_steps_def)
      then show ?thesis using error j1 k2 by simp
    next
      case b: (Inr x)
      obtain r3 s3 where 3: "triage_step tg jid vid p s2 = (r3, s3)" by fastforce
      note k3 = triage_step_jobs [OF assms(3) 3]
      show ?thesis
      proof (cases r3)
        case (Inl e)
        then have "r = Inl e" "s' = s3" using assms(1) 1 a 2 b 3 by (simp_all add: media_steps_def)
        then show ?thesis using error j1 k2 k3 by simp
      next
        case (Inr y)
        have g: "t_get jb_id jid (db_jobs s3) = Some j1" using j1 k2 k3 by simp
        have "r = Inr (media_job (completed W j1))" "s' = update_job jid (completed W) s3"
          using assms(1) 1 a 2 b 3 Inr complete_media_job(1) [OF g, of W] by (simp_all add: media_steps_def run_session_def)
        then show ?thesis using ok complete_media_job(2) [OF g, of W] j1(2) by simp
      qed
    qed
  qed
qed

text \<open>A request that is delivered for a job.\<close>

definition delivered :: "JobRequest \<Rightarrow> db \<Rightarrow> ProcessingJobRecord \<Rightarrow> bool" where
  "delivered q s j \<longleftrightarrow> jq_job_type q = ''MEDIA_PREPROCESS'' \<and> t_get jb_id (jq_job_id q) (db_jobs s) = Some j
     \<and> jb_type j = jq_job_type q \<and> jb_request_key j = jq_request_key q \<and> jb_correlation_id j = jq_correlation_id q
     \<and> jb_payload j \<noteq> [] \<and> dict_get ''video_id'' (jb_payload j) = dict_get ''video_id'' (jq_payload q)"

lemma handle_media_delivered:
  assumes "delivered q s j"
  shows "handle_media W ix tg q s = (case media_steps W ix tg (jq_job_id q) (payload_text ''video_id'' [] (jq_payload q))
                 (payload_text ''model_profile'' ''mock'' (jq_payload q)) s of
         (Inr job, s1) \<Rightarrow> (Inr job, s1)
       | (Inl e, s1) \<Rightarrow> (case run_session (fail_media W (jq_job_id q) (fst (media_error W e)) (mw_message W e) (snd (media_error W e))) s1 of
           (Inl e', s2) \<Rightarrow> (Inl e', s2)
         | (Inr _, s2) \<Rightarrow> (Inl (JobHandlerError (fst (media_error W e)) (snd (media_error W e))), s2)))"
  using assms by (simp add: handle_media_def delivered_def build_job_request_def)

definition job_at_rest :: "media_world \<Rightarrow> MediaJob res \<Rightarrow> ProcessingJobRecord \<Rightarrow> bool" where
  "job_at_rest W r j \<longleftrightarrow> jb_lease_until j = None \<and> (case r of
     Inr m \<Rightarrow> jb_status j = JS_SUCCEEDED \<and> m = media_job j \<and> jb_error_code j = None
   | Inl e \<Rightarrow> \<exists>c b. e = JobHandlerError c b \<and> jb_error_code j = Some c
       \<and> (if b \<and> jb_attempt j < jb_max_attempts j
          then jb_status j = JS_RETRY_WAIT \<and> jb_next_attempt_at j = Some (mw_now W 6 + seconds (retry_delay (mw_settings W) (jb_attempt j)))
          else jb_status j = JS_FAILED \<and> jb_finished_at j \<noteq> None \<and> \<not> jb_retryable j))"

text \<open>
  A delivered preprocessing job is at rest afterwards, whatever the adapters, the index and the triage
  did: succeeded with the handler's result, or failed with the code the handler raises, or waiting for its
  next attempt after the configured delay, which needs a retryable error and an attempt that is left. A
  delivery counts at most one attempt, and none above the maximum.
\<close>

theorem media_delivery_settles:
  assumes "handle_media W ix tg q s = (r, s')" and "delivered q s j" and "steps_keep_jobs ix tg"
  shows "\<exists>j'. t_get jb_id (jq_job_id q) (db_jobs s') = Some j' \<and> job_at_rest W r j' \<and> job_goes_on j j'"
proof -
  let ?jid = "jq_job_id q" and ?vid = "payload_text ''video_id'' [] (jq_payload q)"
    and ?p = "payload_text ''model_profile'' ''mock'' (jq_payload q)"
  obtain r1 s1 where m: "media_steps W ix tg ?jid ?vid ?p s = (r1, s1)" by fastforce
  have "t_get jb_id ?jid (db_jobs s) = Some j" using assms(2) by (simp add: delivered_def)
  with m show ?thesis
    using assms(3)
  proof (cases rule: media_steps_job)
    case (error e j')
    let ?c = "fst (media_error W e)" and ?b = "snd (media_error W e)"
    let ?f = "failed_job W ?c (mw_message W e) ?b"
    have "(r, s') = (Inl (JobHandlerError ?c ?b), update_job ?jid ?f s1)"
      using assms(1) unfolding handle_media_delivered [OF assms(2)] m error(1) by (simp add: run_session_def fail_media_job(1) [OF error(2)])
    then have "r = Inl (JobHandlerError ?c ?b)" "s' = update_job ?jid ?f s1" by simp_all
    moreover have "job_at_rest W (Inl (JobHandlerError ?c ?b)) (?f j')" by (simp add: job_at_rest_def failed_job_def Let_def)
    moreover have "job_goes_on j (?f j')" using error(3) by (simp add: job_goes_on_def failed_job_def Let_def)
    ultimately show ?thesis using fail_media_job(2) [OF error(2), of W ?c "mw_message W e" ?b] by simp
  next
    case (ok j')
    have "(r, s') = (Inr (media_job (completed W j')), s1)"
      using assms(1) unfolding handle_media_delivered [OF assms(2)] m ok(1) by simp
    moreover have "job_at_rest W (Inr (media_job (completed W j'))) (completed W j')" by (simp add: job_at_rest_def completed_def)
    moreover have "job_goes_on j (completed W j')" using ok(3) by (simp add: job_goes_on_def completed_def)
    ultimately show ?thesis using ok(2) by simp
  qed
qed

section \<open>A second delivery\<close>

text \<open>
  A second delivery of a job that is running fails it: while the worker that claimed it still works
  under its lease, the other delivery takes the lease away and marks the job FAILED and not retryable.
  Nothing else of the database changes, so the video is still PROCESSING.
\<close>

theorem second_delivery_fails_running_job:
  assumes "delivered q s j" and "jb_status j = JS_RUNNING" and "jb_lease_until j = Some t" and "mw_now W 0 < t"
  shows "\<exists>j' js. handle_media W ix tg q s = (Inl (JobHandlerError ''JOB_ALREADY_RUNNING'' False), s\<lparr>db_jobs := js\<rparr>)
    \<and> t_get jb_id (jq_job_id q) js = Some j' \<and> jb_status j' = JS_FAILED
    \<and> jb_error_code j' = Some ''JOB_ALREADY_RUNNING'' \<and> jb_lease_until j' = None \<and> \<not> jb_retryable j'"
proof -
  let ?jid = "jq_job_id q" and ?e = "JobHandlerError ''JOB_ALREADY_RUNNING'' False"
  have g: "t_get jb_id ?jid (db_jobs s) = Some j" using assms(1) by (simp add: delivered_def)
  have "claim_media_body W ?jid s = Inl ?e" using assms(2-4) g by (simp add: claim_media_body_def)
  then have "process_job W False ?jid s = (Inl ?e, s)" by (simp add: process_job_def run_session_def)
  then have m: "media_steps W ix tg ?jid vid p s = (Inl ?e, s)" for vid p by (simp add: media_steps_def)
  let ?f = "failed_job W ''JOB_ALREADY_RUNNING'' (mw_message W ?e) False"
  have h: "handle_media W ix tg q s = (Inl ?e, update_job ?jid ?f s)"
    unfolding handle_media_delivered [OF assms(1)] m by (simp add: media_error_def run_session_def fail_media_job(1) [OF g])
  have u: "update_job ?jid ?f s = s\<lparr>db_jobs := t_upd jb_id ?jid ?f (db_jobs s)\<rparr>" by (simp add: update_job_def)
  have "t_get jb_id ?jid (t_upd jb_id ?jid ?f (db_jobs s)) = Some (?f j)" by (rule fail_media_job(2) [OF g])
  moreover have "jb_status (?f j) = JS_FAILED \<and> jb_error_code (?f j) = Some ''JOB_ALREADY_RUNNING'' \<and> jb_lease_until (?f j) = None
      \<and> \<not> jb_retryable (?f j)" by (simp add: failed_job_def Let_def)
  ultimately show ?thesis unfolding h u by blast
qed

text \<open>A second delivery of a job that succeeded runs the index again, and a failure of it fails the job.\<close>

lemma second_delivery_reindexes:
  assumes "delivered q s j" and "jb_status j = JS_SUCCEEDED"
    and "f (payload_text ''video_id'' [] (jq_payload q)) s = (Inl (ModelError c False), s)"
  shows "\<exists>j'. t_get jb_id (jq_job_id q) (db_jobs (snd (handle_media W (Some f) tg q s))) = Some j' \<and> jb_status j' = JS_FAILED"
proof -
  let ?jid = "jq_job_id q" and ?e = "ModelError c False"
  have g: "t_get jb_id ?jid (db_jobs s) = Some j" using assms(1) by (simp add: delivered_def)
  have "process_job W False ?jid s = (Inr (media_job j), s)" using assms(2) g by (simp add: process_job_def claim_media_body_def run_session_def)
  then have m: "media_steps W (Some f) tg ?jid (payload_text ''video_id'' [] (jq_payload q)) p s = (Inl ?e, s)" for p
    using assms(3) by (simp add: media_steps_def index_step_def)
  let ?f = "failed_job W (str_model_error c) (mw_message W ?e) False"
  have "handle_media W (Some f) tg q s = (Inl (JobHandlerError (str_model_error c) False), update_job ?jid ?f s)"
    unfolding handle_media_delivered [OF assms(1)] m by (simp add: media_error_def run_session_def fail_media_job(1) [OF g])
  then show ?thesis using fail_media_job(2) [OF g, of W "str_model_error c" "mw_message W ?e" False] by (simp add: failed_job_def Let_def)
qed

section \<open>Extraction is all or nothing, and happens once\<close>

definition same_media :: "db \<Rightarrow> db \<Rightarrow> bool" where
  "same_media s s' \<longleftrightarrow> db_segments s' = db_segments s \<and> db_artifacts s' = db_artifacts s \<and> db_documents s' = db_documents s"

lemma ready_body_done:
  assumes "run_session (ready_body W fin jid vid) s = (r, s')" and "t_get jb_id jid (db_jobs s) = Some j"
    and "t_get vd_id vid (db_videos s) = Some v"
  shows "same_media s s' \<and> (\<exists>m. r = Inr m) \<and> t_get vd_id vid (db_videos s') = Some (set_video_status (mw_now W 4) VS_READY v)"
proof -
  let ?f = "\<lambda>j. j\<lparr>jb_status := JS_SUCCEEDED, jb_finished_at := Some (mw_now W 4), jb_lease_until := None, jb_updated_at := mw_now W 4\<rparr>"
  let ?s1 = "update_video vid (set_video_status (mw_now W 4) VS_READY) (if fin then update_job jid ?f s else s)"
  have "t_get jb_id jid (t_upd jb_id jid ?f (db_jobs s)) = Some (?f j)" by (rule t_get_job_upd [OF assms(2)]) simp
  then have "\<exists>j'. t_get jb_id jid (db_jobs ?s1) = Some j'" using assms(2) by (cases fin) simp_all
  then obtain j' where j': "t_get jb_id jid (db_jobs ?s1) = Some j'" by blast
  have "ready_body W fin jid vid s = Inr (media_job j', ?s1)" unfolding ready_body_def Let_def by (simp only: j' assms(3)) simp
  then have "r = Inr (media_job j')" "s' = ?s1" using assms(1) by (simp_all add: run_session_def)
  moreover have "same_media s ?s1" by (simp add: same_media_def)
  moreover have "t_get vd_id vid (db_videos ?s1) = Some (set_video_status (mw_now W 4) VS_READY v)"
    using assms(3) by (simp add: t_get_upd)
  ultimately show ?thesis by blast
qed

lemma claim_media_media:
  assumes "claim_media_body W jid s = Inr (Inr (v, path), s1)"
  shows "same_media s s1 \<and> t_get vd_id (vd_id v) (db_videos s) = Some v
    \<and> (\<exists>j v'. t_get jb_id jid (db_jobs s1) = Some j \<and> t_get vd_id (vd_id v) (db_videos s1) = Some v')"
  using assms
proof (rule claim_media_InrE)
  fix j assume j: "t_get jb_id jid (db_jobs s) = Some j" and v: "t_get vd_id (jb_subject_id j) (db_videos s) = Some v"
    and s1: "s1 = update_video (vd_id v) (set_video_status (mw_now W 1) (if vd_status v = VS_READY then VS_READY else VS_PROCESSING))
              (update_job jid (claimed_job (mw_settings W) (mw_now W 1)) s)"
  have "vd_id v = jb_subject_id j" using t_get_Some [OF v] by simp
  then show ?thesis using v claim_media_job [OF assms j] by (simp add: s1 same_media_def t_get_upd)
qed

lemma failed_extraction_media: "same_media s (failed_extraction W jid vid s)"
  by (simp add: failed_extraction_def same_media_def)

text \<open>The rows a video gets, and what they are.\<close>

definition extracted :: "VideoRecord \<Rightarrow> db \<Rightarrow> db \<Rightarrow> bool" where
  "extracted v s s' \<longleftrightarrow> (\<exists>bs gs ars ds. db_segments s' = db_segments s @ gs \<and> db_artifacts s' = db_artifacts s @ ars
     \<and> db_documents s' = db_documents s @ ds \<and> rows_of_video (vd_id v) gs ars ds \<and> segments_of 0 bs gs
     \<and> (0 \<le> vd_duration_ms v \<longrightarrow> chained 0 bs (vd_duration_ms v)))"

lemma extract_media_extracted:
  assumes "extract_media W (vd_id v) path (vd_duration_ms v) a s = (Inr (), s')"
  shows "extracted v s s'"
  using assms
proof (cases rule: extract_media_cases)
  case (ok bs gs ars ds)
  obtain ts where t: "scene_boundaries (vd_duration_ms v) ts = Inr bs" using ok(2) by (auto simp: scene_segments_def bindE_Inr_iff)
  have "chained 0 bs (vd_duration_ms v)" if "0 \<le> vd_duration_ms v" using scene_boundaries_chained [OF that, of ts] t by simp
  moreover have "db_segments s' = db_segments s @ gs" "db_artifacts s' = db_artifacts s @ ars" "db_documents s' = db_documents s @ ds"
    by (simp_all add: ok(3))
  ultimately show ?thesis using ok(4,5) unfolding extracted_def by blast
qed simp


section \<open>A worker that dies after the extraction\<close>

lemma extract_again_fails:
  assumes "extract_media W vid path d has s1 = (Inr (), s2)" and "0 < d" and "mw_scene_times W2 = mw_scene_times W"
    and "db_segments s = db_segments s2"
  shows "extract_media W2 vid path d has s = (Inl IntegrityError, s)"
  using assms(1)
proof (cases rule: extract_media_cases)
  case (ok bs gs ars ds)
  obtain ts where t: "scene_boundaries d ts = Inr bs" using ok(2) by (auto simp: scene_segments_def bindE_Inr_iff)
  have "chained 0 bs d" using scene_boundaries_chained [of d ts] assms(2) t by simp
  then obtain b bs' where bs: "bs = b # bs'" using assms(2) by (cases bs) auto
  then obtain g gs' where g: "gs = g # gs'" "sg_start_ms g = sb_start_ms b" "sg_end_ms g = sb_end_ms b"
    using ok(5) by (cases gs) (auto simp: segments_of_def)
  have "g \<in> set (db_segments s)" "sg_video_id g = vid" using assms(4) ok(3,4) g(1) by (simp_all add: rows_of_video_def)
  then have "insert_segment (new_segment i vid b 0 now) s = Inl IntegrityError" for i now
    using g(2,3) by (auto simp: insert_segment_def new_segment_def)
  then have "extract_body W2 (mw_now W2 2) vid path has bs s = Inl IntegrityError"
    by (simp add: extract_body_def bs extract_segment_def Let_def)
  moreover have "scene_segments W2 path d = Inr bs" using ok(2) assms(3) by (simp add: scene_segments_def)
  ultimately show ?thesis by (simp add: extract_media_def run_session_def)
qed simp

text \<open>
  Extraction is not resumed. When a worker dies after the session of its extraction has ended and before
  the video is READY, the job is claimed again once its lease has ended, extracts the same scenes, runs into
  the segments that are already there, and both the job and the video are FAILED for good.
\<close>

theorem interrupted_extraction_fails_job:
  assumes "claim_media_body W jid s = Inr (Inr (v, path), s1)" and "vd_status v \<noteq> VS_READY" and "0 < vd_duration_ms v"
    and "extract_media W (vd_id v) path (vd_duration_ms v) (vd_has_audio v) s1 = (Inr (), s2)"
    and "t_get jb_id jid (db_jobs s) = Some j" and "jb_attempt j + 1 < jb_max_attempts j"
    and "mw_now W 1 + seconds (cfg_media_job_lease_seconds (mw_settings W)) < mw_now W2 0" and "mw_now W2 0 \<le> mw_now W2 1"
    and "mw_store W2 = mw_store W" and "mw_scene_times W2 = mw_scene_times W"
  shows "\<exists>s3 j'. process_job W2 fin jid s2 = (Inl IntegrityError, s3) \<and> same_media s2 s3
    \<and> t_get jb_id jid (db_jobs s3) = Some j' \<and> jb_status j' = JS_FAILED
    \<and> process_job W3 fin3 jid s3 = (Inl (JobHandlerError ''JOB_NOT_RETRYABLE'' False), s3)"
proof -
  let ?j1 = "claimed_job (mw_settings W) (mw_now W 1) j"
  let ?v1 = "set_video_status (mw_now W 1) VS_PROCESSING v"
  have s1: "t_get jb_id jid (db_jobs s1) = Some ?j1" using claim_media_job [OF assms(1,5)] by blast
  have v1: "t_get vd_id (vd_id v) (db_videos s1) = Some ?v1" and path: "resolve (mw_store W) (vd_artifact_uri v) = Inr path"
    and sub: "jb_subject_id j = vd_id v"
    using assms(1) by (rule claim_media_InrE; use assms(2,5) t_get_Some in \<open>fastforce simp: t_get_upd\<close>)+
  have "if False then s2 = s1 else extract_media W (vd_id v) path (vd_duration_ms v) (vd_has_audio v) s1 = (Inr (), s2)"
    using assms(4) by simp
  note same = extracted_jobs [OF this]
  let ?s3 = "update_video (vd_id v) (set_video_status (mw_now W2 1) VS_PROCESSING) (update_job jid (claimed_job (mw_settings W2) (mw_now W2 1)) s2)"
  have claim: "claim_media_body W2 jid s2 = Inr (Inr (?v1, path), ?s3)"
    unfolding claim_media_body_def using s1 v1 same path sub assms(2,6-9)
    by (simp add: claimed_job_def claimable_def)
  have "extract_media W2 (vd_id v) path (vd_duration_ms v) (vd_has_audio v) ?s3 = (Inl IntegrityError, ?s3)"
    by (rule extract_again_fails [OF assms(4,3,10)]) simp
  then have p: "process_job W2 fin jid s2 = (Inl IntegrityError, failed_extraction W2 jid (vd_id v) ?s3)"
    using claim by (simp add: process_job_def run_session_def)
  let ?j2 = "claimed_job (mw_settings W2) (mw_now W2 1) ?j1"
  let ?j3 = "?j2\<lparr>jb_status := JS_FAILED, jb_error_code := Some ''MEDIA_DECODE_FAILED'', jb_finished_at := Some (mw_now W2 3),
      jb_lease_until := None, jb_updated_at := mw_now W2 3\<rparr>"
  have 2: "t_get jb_id jid (db_jobs ?s3) = Some ?j2" using claim_media_job [OF claim] s1 same by simp
  have 3: "t_get jb_id jid (db_jobs (failed_extraction W2 jid (vd_id v) ?s3)) = Some ?j3"
    unfolding failed_extraction_def video_updates job_updates by (rule t_get_job_upd [OF 2 [unfolded video_updates job_updates]]) simp
  then have "process_job W3 fin3 jid (failed_extraction W2 jid (vd_id v) ?s3)
      = (Inl (JobHandlerError ''JOB_NOT_RETRYABLE'' False), failed_extraction W2 jid (vd_id v) ?s3)"
    by (simp add: process_job_def claim_media_body_def run_session_def)
  moreover have "same_media s2 (failed_extraction W2 jid (vd_id v) ?s3)" by (simp add: same_media_def failed_extraction_def)
  ultimately show ?thesis using p 3 by (intro exI [of _ "failed_extraction W2 jid (vd_id v) ?s3"] exI [of _ ?j3]) simp
qed

section \<open>Registration happens once\<close>

lemma find_append_new: "find P xs = None \<Longrightarrow> P x \<Longrightarrow> find P (xs @ [x]) = Some x"
  by (induction xs) auto

lemma three_rows:
  assumes "run_session (\<lambda>s. bindE (A s) (\<lambda>s1. bindE (B s1) (\<lambda>s2. bindE (C s2) (\<lambda>s3. Inr (y, s3))))) s = (Inr x, s')"
  shows "\<exists>s1 s2. A s = Inr s1 \<and> B s1 = Inr s2 \<and> C s2 = Inr s' \<and> x = y"
  using assms by (auto simp: run_session_def bindE_def split: sum.splits)

lemma register_file_InrE:
  assumes "register_file W f nm p s = (Inr (v, m), s')"
  obtains (known) "known_media W (sf_sha256 f) (if truthy p then the p else cfg_model_profile (mw_settings W)) s = Inr (Some (v, m))" and "s' = s"
  | (fresh) j a probe uri where "known_media W (sf_sha256 f) (if truthy p then the p else cfg_model_profile (mw_settings W)) s = Inr None"
      and "v = new_video f nm (if truthy p then the p else cfg_model_profile (mw_settings W)) probe (''vid_'' @ mw_hex W 0) uri (mw_now W 0)"
      and "j = new_media_job W (sf_sha256 f) (vd_id v) (if truthy p then the p else cfg_model_profile (mw_settings W)) (mw_now W 0)"
      and "m = media_job j" and "t_get vd_id (vd_id v) (db_videos s) = None"
      and "s' = s\<lparr>db_videos := db_videos s @ [v], db_artifacts := db_artifacts s @ [a], db_jobs := db_jobs s @ [j]\<rparr>"
proof -
  let ?p = "if truthy p then the p else cfg_model_profile (mw_settings W)"
  obtain probe where probe: "check_file (mw_settings W) f = Inr probe"
    using assms by (cases "check_file (mw_settings W) f") (simp_all add: register_file_def)
  obtain k where k: "known_media W (sf_sha256 f) ?p s = Inr k"
    using assms probe by (cases "known_media W (sf_sha256 f) ?p s") (simp_all add: register_file_def Let_def)
  show ?thesis
  proof (cases k)
    case (Some x)
    then have "x = (v, m)" "s' = s" using assms probe k by (simp_all add: register_file_def Let_def)
    then show ?thesis using known k Some by simp
  next
    case None
    let ?vid = "''vid_'' @ mw_hex W 0"
    let ?key = "''videos/'' @ ?vid @ ''/source'' @ (if sf_suffix f = [] then ''.bin'' else sf_suffix f)"
    obtain uri where uri: "put_artifact (mw_store W) ?key = Inr uri"
      using assms probe k None by (cases "put_artifact (mw_store W) ?key") (simp_all add: register_file_def Let_def)
    let ?v = "new_video f nm ?p probe ?vid uri (mw_now W 0)" and ?j = "new_media_job W (sf_sha256 f) ?vid ?p (mw_now W 0)"
      and ?a = "source_artifact W ?vid uri (sf_sha256 f) (mw_now W 0)"
    have run: "run_session (\<lambda>s. bindE (insert_video ?v s) (\<lambda>s1. bindE (insert_artifact ?a s1) (\<lambda>s2.
        bindE (insert_job ?j s2) (\<lambda>s3. Inr ((?v, media_job ?j), s3))))) s = (Inr (v, m), s')"
      using assms probe k None uri by (simp add: register_file_def Let_def)
    obtain s1 s2 where 1: "insert_video ?v s = Inr s1" and 2: "insert_artifact ?a s1 = Inr s2" and 3: "insert_job ?j s2 = Inr s'"
      and vm: "v = ?v" "m = media_job ?j"
      using three_rows [OF run] by blast
    have v: "s1 = s\<lparr>db_videos := db_videos s @ [?v]\<rparr>" "t_get vd_id (vd_id ?v) (db_videos s) = None"
      using 1 by (auto simp: insert_video_def t_get_None split: if_splits)
    have a: "s2 = s1\<lparr>db_artifacts := db_artifacts s1 @ [?a]\<rparr>" using 2 by (auto simp: insert_artifact_def split: if_splits)
    have j: "s' = s2\<lparr>db_jobs := db_jobs s2 @ [?j]\<rparr>"
      using 3 by (auto simp: insert_job_def bindE_Inr_iff t_add_def split: if_splits)
    have id: "vd_id ?v = ?vid" by (simp add: new_video_def)
    show ?thesis
      by (rule fresh [of probe uri ?j ?a]) (use k None vm v a j id in simp_all)
  qed
qed

lemma known_media_None:
  "known_media W key profile s = Inr None \<Longrightarrow> find (\<lambda>j. jb_request_key j = media_request_key W key) (db_jobs s) = None"
  unfolding known_media_def by (auto split: option.splits if_splits)

lemma known_media_profile:
  "known_media W key profile s = Inr (Some (v, m)) \<Longrightarrow> vd_model_profile v = profile"
  unfolding known_media_def by (auto split: option.splits if_splits)

lemma known_media_same:
  assumes "known_media W key profile s = Inr (Some (v, m))" and "mw_env W2 = mw_env W"
  shows "known_media W2 key profile2 s = (if profile2 = profile then Inr (Some (v, m)) else Inl (JobHandlerError ''VIDEO_PROFILE_CONFLICT'' False))"
  using assms unfolding known_media_def media_request_key_def by (auto split: option.splits if_splits)

text \<open>
  A file is registered once. After a registration, every later one of the same content, under whatever
  name, gives the same video and the same job and leaves the database alone; asking for another model
  profile is refused and leaves it alone too.
\<close>

theorem registration_idempotent:
  assumes "register_file W f name1 p s = (Inr (v, m), s')" and "mw_env W2 = mw_env W" and "sf_sha256 f2 = sf_sha256 f"
    and "check_file (mw_settings W2) f2 = Inr probe" and "profile2 \<noteq> []"
  shows "register_file W2 f2 name2 (Some profile2) s' = (if profile2 = vd_model_profile v then (Inr (v, m), s')
    else (Inl (JobHandlerError ''VIDEO_PROFILE_CONFLICT'' False), s'))"
proof -
  let ?profile = "if truthy p then the p else cfg_model_profile (mw_settings W)"
  have known: "known_media W (sf_sha256 f) ?profile s' = Inr (Some (v, m)) \<and> vd_model_profile v = ?profile"
    using assms(1)
  proof (cases rule: register_file_InrE)
    case known
    then show ?thesis using known_media_profile by blast
  next
    case (fresh j a pr uri)
    have j: "jb_request_key j = media_request_key W (sf_sha256 f)" "jb_subject_id j = vd_id v" "jb_type j = ''MEDIA_PREPROCESS''"
      by (simp_all add: fresh(3) new_media_job_def)
    have "find (\<lambda>j. jb_request_key j = media_request_key W (sf_sha256 f)) (db_jobs s) = None" by (rule known_media_None [OF fresh(1)])
    then have "find (\<lambda>j. jb_request_key j = media_request_key W (sf_sha256 f)) (db_jobs s') = Some j"
      using j(1) find_append_new [of "\<lambda>j. jb_request_key j = media_request_key W (sf_sha256 f)"] by (simp add: fresh(6))
    moreover have "t_get vd_id (vd_id v) (db_videos s') = Some v" using fresh(5) by (simp add: fresh(6) t_get_append t_get_Cons)
    moreover have "vd_model_profile v = ?profile" unfolding fresh(2) new_video_def by simp
    ultimately show ?thesis using j(2,3) fresh(4) by (simp add: known_media_def)
  qed
  have "known_media W2 (sf_sha256 f2) profile2 s' = (if profile2 = vd_model_profile v then Inr (Some (v, m))
      else Inl (JobHandlerError ''VIDEO_PROFILE_CONFLICT'' False))"
    using known_media_same [OF conjunct1 [OF known] assms(2)] known assms(3) by simp
  then show ?thesis using assms(4,5) by (simp add: register_file_def truthy_def)
qed

end
