(* ===== verification/MediaDemo.thy ===== *)
theory MediaDemo
  imports MediaJobs
begin

text \<open>
  A worked preprocessing: a video of ten seconds without cuts and without sound, whose only segment gets a
  keyframe and a description. The theorems of MediaJobs are instantiated on it.
\<close>

definition demo_media :: media_world where
  "demo_media = \<lparr> mw_env = demo_env, mw_nfkc = id, mw_store = demo_store, mw_settings = default_settings,
     mw_scene_times = (\<lambda>p. Inr []), mw_keyframe = (\<lambda>p q t. Inr ()), mw_ocr = (\<lambda>p. Inr []),
     mw_vision = (\<lambda>p. Inr \<lparr> ob_text = u ''a knife'', ob_confidence = None, ob_model = ''eye'' \<rparr>),
     mw_asr = (\<lambda>p. Inl RuntimeErr), mw_hex = (\<lambda>n. [''abcdefgh'' ! n]), mw_now = (\<lambda>n. 10 + int n),
     mw_message = (\<lambda>e. u ''failed''), mw_db_code = ''gkpj'' \<rparr>"

lemma demo_media_simps [simp]:
  "mw_store demo_media = demo_store" "mw_settings demo_media = default_settings" "mw_scene_times demo_media p = Inr []"
  "mw_keyframe demo_media p q t = Inr ()" "mw_ocr demo_media p = Inr []" "mw_now demo_media n = 10 + int n"
  "mw_hex demo_media n = [''abcdefgh'' ! n]"
  "mw_vision demo_media p = Inr \<lparr> ob_text = u ''a knife'', ob_confidence = None, ob_model = ''eye'' \<rparr>"
  by (simp_all add: demo_media_def)

definition new_upload :: VideoRecord where
  "new_upload = demo_video\<lparr>vd_status := VS_UPLOADED, vd_artifact_uri := ''artifact://v.mp4''\<rparr>"

definition upload_job :: ProcessingJobRecord where
  "upload_job = \<lparr> jb_id = ''j1'', jb_type = ''MEDIA_PREPROCESS'', jb_subject_id = ''v1'', jb_request_key = ''k'', jb_correlation_id = ''c'',
     jb_status = JS_PENDING, jb_attempt = 0, jb_max_attempts = 3, jb_error_code = None, jb_error_message = None, jb_retryable = False,
     jb_payload = [(''video_id'', JStr ''v1''), (''model_profile'', JStr ''mock'')], jb_next_attempt_at = None, jb_last_enqueued_at = None,
     jb_lease_until = None, jb_started_at = None, jb_finished_at = None, jb_created_at = 0, jb_updated_at = 0 \<rparr>"

definition upload_request :: JobRequest where
  "upload_request = \<lparr> jq_job_id = ''j1'', jq_job_type = ''MEDIA_PREPROCESS'', jq_request_key = ''k'', jq_correlation_id = ''c'',
     jq_payload = [(''video_id'', JStr ''v1''), (''model_profile'', JStr ''mock'')] \<rparr>"

definition upload_db :: db where
  "upload_db = empty_db\<lparr>db_videos := [new_upload], db_jobs := [upload_job]\<rparr>"

definition claimed_db :: db where
  "claimed_db = empty_db\<lparr>db_videos := [set_video_status 11 VS_PROCESSING new_upload],
     db_jobs := [claimed_job default_settings 11 upload_job]\<rparr>"

lemma upload_simps [simp]:
  "vd_id new_upload = ''v1''" "vd_status new_upload = VS_UPLOADED" "vd_duration_ms new_upload = 10000" "vd_has_audio new_upload = False"
  "vd_artifact_uri new_upload = ''artifact://v.mp4''" "jb_id upload_job = ''j1''" "jb_status upload_job = JS_PENDING"
  "jb_attempt upload_job = 0" "jb_max_attempts upload_job = 3" "jb_subject_id upload_job = ''v1''"
  "db_jobs upload_db = [upload_job]" "db_videos upload_db = [new_upload]"
  by (simp_all add: new_upload_def demo_video_def upload_job_def upload_db_def)

lemma demo_keys:
  "resolve demo_store ''artifact://v.mp4'' = Inr [''data'', ''v.mp4'']"
  "\<exists>p. path_for_key demo_store ''videos/v1/keyframes/0000.jpg'' = Inr p"
  "uri_for_key ''videos/v1/keyframes/0000.jpg'' = Inr ''artifact://videos/v1/keyframes/0000.jpg''"
  "put_artifact demo_store ''videos/v1/vision/0000-d.json'' = Inr ''artifact://videos/v1/vision/0000-d.json''"
  "put_artifact demo_store ''videos/v1/transcript.json'' = Inr ''artifact://videos/v1/transcript.json''"
proof -
  have k: "safe_relative ''videos/v1/keyframes/0000.jpg'' = Inr [''videos'', ''v1'', ''keyframes'', ''0000.jpg'']"
    "safe_relative ''videos/v1/vision/0000-d.json'' = Inr [''videos'', ''v1'', ''vision'', ''0000-d.json'']"
    "safe_relative ''videos/v1/transcript.json'' = Inr [''videos'', ''v1'', ''transcript.json'']"
    "safe_relative ''v.mp4'' = Inr [''v.mp4'']"
    by (simp_all add: safe_relative_def path_parts_def)
  note d = path_for_key_def uri_for_key_def scheme_def as_posix_def join_def demo_store_def
  show "\<exists>p. path_for_key demo_store ''videos/v1/keyframes/0000.jpg'' = Inr p" by (simp add: path_for_key_def k demo_store_def)
  show "uri_for_key ''videos/v1/keyframes/0000.jpg'' = Inr ''artifact://videos/v1/keyframes/0000.jpg''"
    by (simp add: uri_for_key_def k scheme_def as_posix_def join_def)
  show "put_artifact demo_store ''videos/v1/vision/0000-d.json'' = Inr ''artifact://videos/v1/vision/0000-d.json''"
    "put_artifact demo_store ''videos/v1/transcript.json'' = Inr ''artifact://videos/v1/transcript.json''"
    by (simp_all add: put_artifact_def k d)
  show "resolve demo_store ''artifact://v.mp4'' = Inr [''data'', ''v.mp4'']"
    by (simp add: resolve_def scheme_def path_for_key_def k demo_store_def)
qed

lemma upload_claim: "claim_media_body demo_media ''j1'' upload_db = Inr (Inr (new_upload, [''data'', ''v.mp4'']), claimed_db)"
  unfolding claim_media_body_def by (simp add: t_get_Cons claimable_def demo_keys(1)) (simp add: update_video_def update_job_def
    t_upd_def upload_db_def claimed_db_def)

lemma demo_scenes: "scene_segments demo_media p 10000 = Inr [\<lparr> sb_start_ms = 0, sb_end_ms = 10000 \<rparr>]"
  by (simp add: scene_segments_def scene_boundaries_def scene_cuts_def sorted_uniq_def make_boundary_def)

lemma demo_pad: "pad4 0 = ''0000''"
proof -
  have "digits 0 = ''0''" by (simp add: digits.simps char_of_def bit_iff_odd)
  moreover have "replicate 3 CHR ''0'' = ''000''" by (simp add: numeral_3_eq_3)
  ultimately show ?thesis by (simp add: pad4_def)
qed

lemma demo_extract: "\<exists>s. extract_media demo_media ''v1'' [''data'', ''v.mp4''] 10000 False claimed_db = (Inr (), s)"
proof -
  obtain p where p: "path_for_key demo_store ''videos/v1/keyframes/0000.jpg'' = Inr p" using demo_keys(2) by blast
  have t: "db_segments claimed_db = []" "db_artifacts claimed_db = []" "db_documents claimed_db = []"
    by (simp_all add: claimed_db_def empty_db_def)
  have "\<exists>x. extract_body demo_media (mw_now demo_media 2) ''v1'' [''data'', ''v.mp4''] False [\<lparr> sb_start_ms = 0, sb_end_ms = 10000 \<rparr>] claimed_db = Inr ((), x)"
    by (simp add: extract_body_def extract_segment_def extract_transcript_def store_observation_def Let_def demo_pad p demo_keys(3-5)
        insert_segment_def insert_artifact_def insert_document_def t_add_def t new_artifact_def new_document_def numeral_nat)
  then show ?thesis by (auto simp: extract_media_def demo_scenes run_session_def)
qed

section \<open>The instances\<close>

definition demo_extracted :: db where
  "demo_extracted = snd (extract_media demo_media ''v1'' [''data'', ''v.mp4''] 10000 False claimed_db)"

lemma demo_extracted_eq: "extract_media demo_media ''v1'' [''data'', ''v.mp4''] 10000 False claimed_db = (Inr (), demo_extracted)"
  using demo_extract by (auto simp: demo_extracted_def)

lemma demo_process:
  "\<exists>m s'. process_job demo_media False ''j1'' upload_db = (Inr m, s')"
proof -
  have "extract_media demo_media (vd_id new_upload) [''data'', ''v.mp4''] (vd_duration_ms new_upload) (vd_has_audio new_upload) claimed_db
      = (Inr (), demo_extracted)" using demo_extracted_eq by simp
  moreover have "db_videos demo_extracted = db_videos claimed_db \<and> db_jobs demo_extracted = db_jobs claimed_db"
    using extracted_jobs [of False demo_extracted claimed_db demo_media "''v1''" "[''data'', ''v.mp4'']" 10000 False] demo_extracted_eq by simp
  moreover have "t_get vd_id ''v1'' (db_videos claimed_db) = Some (set_video_status 11 VS_PROCESSING new_upload)"
    "t_get jb_id ''j1'' (db_jobs claimed_db) = Some (claimed_job default_settings 11 upload_job)"
    by (simp_all add: claimed_db_def t_get_Cons claimed_job_def)
  ultimately show ?thesis
    by (simp add: process_job_def upload_claim run_session_def ready_body_def Let_def)
qed

lemma demo_delivered: "delivered upload_request upload_db upload_job"
  by (simp add: delivered_def upload_request_def t_get_Cons) (simp add: upload_job_def)


lemma media_delivery_settles_witness:
  "\<exists>m s' j'. handle_media demo_media None None upload_request upload_db = (Inr m, s')
    \<and> t_get jb_id ''j1'' (db_jobs s') = Some j' \<and> jb_status j' = JS_SUCCEEDED \<and> jb_attempt j' \<le> 1"
proof -
  obtain m s' where p: "process_job demo_media False ''j1'' upload_db = (Inr m, s')" using demo_process by blast
  obtain j1 where j1: "t_get jb_id ''j1'' (db_jobs s') = Some j1"
    using process_job_keeps_job [OF p, of upload_job] by (auto simp: t_get_Cons)
  have "media_steps demo_media None None ''j1'' x y upload_db
      = (Inr (media_job (completed demo_media j1)), update_job ''j1'' (completed demo_media) s')" for x y
    by (simp add: media_steps_def p index_step_def triage_step_def complete_media_job(1) [OF j1] run_session_def)
  then have h: "handle_media demo_media None None upload_request upload_db
      = (Inr (media_job (completed demo_media j1)), update_job ''j1'' (completed demo_media) s')"
    unfolding handle_media_delivered [OF demo_delivered] by (simp add: upload_request_def)
  have "steps_keep_jobs None None" by (simp add: steps_keep_jobs_def)
  from media_delivery_settles [OF h demo_delivered this] h show ?thesis
    by (auto simp: job_at_rest_def job_goes_on_def upload_request_def)
qed

lemma second_delivery_fails_running_job_witness:
  "\<exists>j' js. handle_media demo_media None None upload_request claimed_db
      = (Inl (JobHandlerError ''JOB_ALREADY_RUNNING'' False), claimed_db\<lparr>db_jobs := js\<rparr>)
    \<and> t_get jb_id ''j1'' js = Some j' \<and> jb_status j' = JS_FAILED"
proof -
  have d: "delivered upload_request claimed_db (claimed_job default_settings 11 upload_job)"
    by (simp add: delivered_def upload_request_def claimed_db_def t_get_Cons claimed_job_def) (simp add: upload_job_def)
  have "jb_status (claimed_job default_settings 11 upload_job) = JS_RUNNING"
    "jb_lease_until (claimed_job default_settings 11 upload_job) = Some (11 + seconds 3600)"
    "mw_now demo_media 0 < 11 + seconds 3600"
    by (simp_all add: claimed_job_def default_settings_def seconds_def)
  from second_delivery_fails_running_job [OF d this, of None None] show ?thesis by (auto simp: upload_request_def)
qed

lemma interrupted_extraction_fails_job_witness:
  "\<exists>s3 j'. process_job (demo_media\<lparr>mw_now := (\<lambda>n. 20 + seconds 3600)\<rparr>) False ''j1'' demo_extracted = (Inl IntegrityError, s3)
    \<and> t_get jb_id ''j1'' (db_jobs s3) = Some j' \<and> jb_status j' = JS_FAILED"
proof -
  let ?W2 = "demo_media\<lparr>mw_now := (\<lambda>n. 20 + seconds 3600)\<rparr>"
  have e: "extract_media demo_media (vd_id new_upload) [''data'', ''v.mp4''] (vd_duration_ms new_upload) (vd_has_audio new_upload) claimed_db
      = (Inr (), demo_extracted)" using demo_extracted_eq by simp
  have j: "t_get jb_id ''j1'' (db_jobs upload_db) = Some upload_job" "jb_attempt upload_job + 1 < jb_max_attempts upload_job"
    by (simp_all add: t_get_Cons)
  have t: "mw_now demo_media 1 + seconds (cfg_media_job_lease_seconds (mw_settings demo_media)) < mw_now ?W2 0" "mw_now ?W2 0 \<le> mw_now ?W2 1"
    by (simp_all add: default_settings_def)
  have "\<exists>s3 j'. process_job ?W2 False ''j1'' demo_extracted = (Inl IntegrityError, s3) \<and> same_media demo_extracted s3
      \<and> t_get jb_id ''j1'' (db_jobs s3) = Some j' \<and> jb_status j' = JS_FAILED
      \<and> process_job ?W2 False ''j1'' s3 = (Inl (JobHandlerError ''JOB_NOT_RETRYABLE'' False), s3)"
    by (rule interrupted_extraction_fails_job [OF upload_claim _ _ e j t]) simp_all
  then show ?thesis by blast
qed

definition upload_file :: source_file where
  "upload_file = \<lparr> sf_size = Some 100, sf_name = u ''a.mp4'', sf_suffix = ''.mp4'', sf_sha256 = ''f0'',
     sf_probe = Inr \<lparr> mp_duration_ms = 10000, mp_width = 16, mp_height = 9, mp_container = ''mp4'', mp_video_codec = ''h264'',
       mp_has_audio = False, mp_audio_codec = None \<rparr> \<rparr>"

lemma demo_check: "\<exists>p. check_file default_settings upload_file = Inr p"
  by (simp add: check_file_def upload_file_def default_settings_def)

lemma demo_register: "\<exists>v m s'. register_file demo_media upload_file None None empty_db = (Inr (v, m), s') \<and> vd_model_profile v = ''mock''"
proof -
  obtain p where c: "check_file default_settings upload_file = Inr p" using demo_check by blast
  have k: "safe_relative ''videos/vid_a/source.mp4'' = Inr [''videos'', ''vid_a'', ''source.mp4'']"
    by (simp add: safe_relative_def path_parts_def)
  then have put: "put_artifact demo_store ''videos/vid_a/source.mp4'' = Inr ''artifact://videos/vid_a/source.mp4''"
    by (simp add: put_artifact_def path_for_key_def uri_for_key_def scheme_def as_posix_def join_def demo_store_def)
  have f: "sf_suffix upload_file = ''.mp4''" "cfg_model_profile default_settings = ''mock''" by (simp_all add: upload_file_def default_settings_def)
  have k: "known_media demo_media x y empty_db = Inr None" for x y by (simp add: known_media_def empty_db_def)
  have t: "db_videos empty_db = []" "db_artifacts empty_db = []" "db_jobs empty_db = []" by (simp_all add: empty_db_def)
  have p: "vd_model_profile (new_video upload_file None ''mock'' p i r n) = ''mock''" for i r n by (simp add: new_video_def)
  show ?thesis
    by (simp add: register_file_def c k f put truthy_def Let_def run_session_def insert_video_def insert_artifact_def insert_job_def
        t_add_def t p)
qed

lemma registration_idempotent_witness:
  "\<exists>v m s'. register_file demo_media upload_file None None empty_db = (Inr (v, m), s')
    \<and> register_file demo_media (upload_file\<lparr>sf_name := u ''b.mp4''\<rparr>) None (Some ''mock'') s' = (Inr (v, m), s')
    \<and> register_file demo_media upload_file None (Some ''other'') s' = (Inl (JobHandlerError ''VIDEO_PROFILE_CONFLICT'' False), s')"
proof -
  obtain v m s' where r: "register_file demo_media upload_file None None empty_db = (Inr (v, m), s')" "vd_model_profile v = ''mock''"
    using demo_register by blast
  obtain p where c: "check_file (mw_settings demo_media) upload_file = Inr p" using demo_check by auto
  have c2: "check_file (mw_settings demo_media) (upload_file\<lparr>sf_name := u ''b.mp4''\<rparr>) = Inr p"
    using c by (auto simp: check_file_def upload_file_def default_settings_def)
  have "sf_sha256 (upload_file\<lparr>sf_name := u ''b.mp4''\<rparr>) = sf_sha256 upload_file" by simp
  from registration_idempotent [OF r(1) refl this c2, of "''mock''"] registration_idempotent [OF r(1) refl refl c, of "''other''"] r
  show ?thesis by auto
qed

end
