(* ===== verification/Gateways.thy ===== *)
theory Gateways
  imports ModelAudit Retrieval ArtifactStore
begin

text \<open>
  The model gateways: \<open>models/profiles.py\<close> and \<open>factory.py\<close> (which provider a profile names),
  \<open>openai_compatible.py\<close>, \<open>openai_embedding.py\<close> and \<open>mock.py\<close> (how one is asked, with its retries). The client
  of the OpenAI library, the reading of a profile and the validation of JSON by a schema are parameters;
  the waits between attempts are not modelled.
\<close>

section \<open>Profiles\<close>

record ModelCapability =
  cy_text :: bool
  cy_image :: bool
  cy_video :: bool
  cy_structured_output :: bool

record ProfileModels =
  pm_agent_env :: string
  pm_triage_env :: string
  pm_verifier_env :: string
  pm_judge_env :: string
  pm_embedding_env :: "string option"

fun environment_name :: "ProfileModels \<Rightarrow> ModelRole \<Rightarrow> string" where
  "environment_name m MR_AGENT = pm_agent_env m"
| "environment_name m MR_TRIAGE = pm_triage_env m"
| "environment_name m MR_VERIFIER = pm_verifier_env m"
| "environment_name m MR_JUDGE = pm_judge_env m"

record ProfileDefaults =
  df_temperature :: rat
  df_timeout_seconds :: rat
  df_structured_output :: bool
  df_max_attempts :: nat
  df_embedding_dimensions :: int
  df_embedding_batch_size :: nat

definition valid_ProfileDefaults :: "ProfileDefaults \<Rightarrow> bool" where
  "valid_ProfileDefaults d \<longleftrightarrow> 0 \<le> df_temperature d \<and> df_temperature d \<le> 2 \<and> 0 < df_timeout_seconds d \<and> df_timeout_seconds d \<le> 600
     \<and> 1 \<le> df_max_attempts d \<and> df_max_attempts d \<le> 5 \<and> 0 < df_embedding_dimensions d \<and> df_embedding_dimensions d \<le> 4096
     \<and> 1 \<le> df_embedding_batch_size d \<and> df_embedding_batch_size d \<le> 100"

record ModelProfile =
  pf_name :: string
  pf_gateway :: string
  pf_base_url_env :: "string option"
  pf_api_key_env :: "string option"
  pf_models :: ProfileModels
  pf_defaults :: ProfileDefaults
  pf_capabilities :: ModelCapability

text \<open>\<open>[a-z0-9][a-z0-9-]*\<close>, the whole text.\<close>

definition lower_or_digit :: "char \<Rightarrow> bool" where
  "lower_or_digit c \<longleftrightarrow> (CHR ''a'' \<le> c \<and> c \<le> CHR ''z'') \<or> (CHR ''0'' \<le> c \<and> c \<le> CHR ''9'')"

definition profile_name_ok :: "string \<Rightarrow> bool" where
  "profile_name_ok s = (case s of [] \<Rightarrow> False | c # cs \<Rightarrow> lower_or_digit c \<and> list_all (\<lambda>x. lower_or_digit x \<or> x = CHR ''-'') cs)"

definition valid_ModelProfile :: "ModelProfile \<Rightarrow> bool" where
  "valid_ModelProfile p \<longleftrightarrow> profile_name_ok (pf_name p) \<and> pf_gateway p \<in> {''mock'', ''openai_compatible''} \<and> valid_ProfileDefaults (pf_defaults p)"

record ResolvedModelProfile =
  vp_name :: string
  vp_gateway :: string
  vp_base_url :: "string option"
  vp_api_key :: "string option"
  vp_model :: string
  vp_defaults :: ProfileDefaults
  vp_capabilities :: ModelCapability

text \<open>The profile of the embeddings, with what only the gateway reads.\<close>

record EmbeddingConnection = ResolvedEmbeddingProfile +
  ep_api_key :: "string option"
  ep_timeout_seconds :: rat
  ep_max_attempts :: nat

text \<open>
  The directory of the profiles: its resolved path, where symbolic links lead, which paths are files, and what
  reading, parsing and validating one gives (None where any of them fails).
\<close>

record config_dir =
  cd_root :: path
  cd_real :: "path \<Rightarrow> path"
  cd_is_file :: "path \<Rightarrow> bool"
  cd_read :: "path \<Rightarrow> ModelProfile option"

definition unavailable :: "'a res" where
  "unavailable = Inl (ModelError ME_UNAVAILABLE False)"

definition load_model_profile :: "config_dir \<Rightarrow> string \<Rightarrow> ModelProfile res" where
  "load_model_profile D name =
    (if \<not> profile_name_ok name then unavailable
     else let candidate = cd_real D (cd_root D @ [name @ ''.yaml'']) in
       if \<not> (length (cd_root D) < length candidate \<and> take (length (cd_root D)) candidate = cd_root D) then unavailable
       else if \<not> cd_is_file D candidate then unavailable
       else (case cd_read D candidate of
           None \<Rightarrow> unavailable
         | Some p \<Rightarrow> if valid_ModelProfile p then Inr p else unavailable))"

type_synonym environment = "string \<rightharpoonup> string"

definition strip_text :: "string \<Rightarrow> string" where
  "strip_text s = map char_of (py_strip (map of_char s))"

definition required_value :: "environment \<Rightarrow> string option \<Rightarrow> string res" where
  "required_value values variable =
    (if \<not> truthy variable then unavailable
     else let value = strip_text (case values (the variable) of None \<Rightarrow> [] | Some v \<Rightarrow> v)
          in if value = [] then unavailable else Inr value)"

definition resolve_model_profile :: "ModelProfile \<Rightarrow> ModelRole \<Rightarrow> environment \<Rightarrow> ResolvedModelProfile res" where
  "resolve_model_profile p role values =
    (if pf_gateway p = ''mock''
     then Inr \<lparr> vp_name = pf_name p, vp_gateway = pf_gateway p, vp_base_url = None, vp_api_key = None, vp_model = ''mock-stage0'',
       vp_defaults = pf_defaults p, vp_capabilities = pf_capabilities p \<rparr>
     else bindE (required_value values (pf_base_url_env p)) (\<lambda>url.
       bindE (required_value values (pf_api_key_env p)) (\<lambda>key.
       bindE (required_value values (Some (environment_name (pf_models p) role))) (\<lambda>model.
         Inr \<lparr> vp_name = pf_name p, vp_gateway = pf_gateway p, vp_base_url = Some url, vp_api_key = Some key, vp_model = model,
           vp_defaults = pf_defaults p, vp_capabilities = pf_capabilities p \<rparr>))))"

definition resolve_embedding_profile :: "ModelProfile \<Rightarrow> environment \<Rightarrow> EmbeddingConnection res" where
  "resolve_embedding_profile p values =
    (let d = pf_defaults p in
     if pf_gateway p = ''mock''
     then Inr \<lparr> ep_name = pf_name p, ep_gateway = pf_gateway p, ep_base_url = None, ep_model = ''mock-embedding-v1'',
       ep_dimensions = df_embedding_dimensions d, ep_batch_size = df_embedding_batch_size d, ep_api_key = None,
       ep_timeout_seconds = df_timeout_seconds d, ep_max_attempts = 1 \<rparr>
     else bindE (required_value values (pf_base_url_env p)) (\<lambda>url.
       bindE (required_value values (pf_api_key_env p)) (\<lambda>key.
       bindE (required_value values (pm_embedding_env (pf_models p))) (\<lambda>model.
         Inr \<lparr> ep_name = pf_name p, ep_gateway = pf_gateway p, ep_base_url = Some url, ep_model = model,
           ep_dimensions = df_embedding_dimensions d, ep_batch_size = df_embedding_batch_size d, ep_api_key = Some key,
           ep_timeout_seconds = df_timeout_seconds d, ep_max_attempts = df_max_attempts d \<rparr>))))"

section \<open>Asking with retries\<close>

text \<open>
  The loop of both gateways: attempt \<open>n\<close> of \<open>k\<close> that are left. It returns the answer with the number of
  attempts made.
\<close>

fun attempts :: "(nat \<Rightarrow> 'a res) \<Rightarrow> nat \<Rightarrow> nat \<Rightarrow> 'a res \<times> nat" where
  "attempts once 0 n = (Inl RuntimeErr, n)"
| "attempts once (Suc k) n = (case once n of
     Inl (ModelError code retryable) \<Rightarrow> if \<not> retryable \<or> k = 0 then (Inl (ModelError code retryable), Suc n) else attempts once k (Suc n)
   | r \<Rightarrow> (r, Suc n))"

section \<open>Chat completions\<close>

datatype chat_content = Plain string | Parts "(string \<times> string) list"

record chat_message =
  cm_role :: string
  cm_content :: chat_content

record chat_arguments =
  ca_model :: string
  ca_messages :: "chat_message list"
  ca_temperature :: rat
  ca_timeout :: rat
  ca_json_object :: bool
  ca_request_id :: "string option"

text \<open>What the client of the library raises, most special first, and what it answers.\<close>

datatype api_error = API_Timeout | API_RateLimit | API_Connection | API_Status int | API_Other exn

record completion =
  co_choices :: "(string option \<times> string option) list"
  co_model :: string
  co_id :: "string option"
  co_usage :: "(int \<times> int \<times> int) option"

record openai_gateway =
  og_model :: string
  og_capability :: ModelCapability
  og_temperature :: rat
  og_structured_output :: bool
  og_max_attempts :: nat
  og_client :: "nat \<Rightarrow> chat_arguments \<Rightarrow> api_error + completion"
  og_elapsed_ms :: "nat \<Rightarrow> int"
  og_loads :: "string \<Rightarrow> json option"
  og_validate :: "string \<Rightarrow> json \<Rightarrow> ModelData option"

definition api_model_error :: "api_error \<Rightarrow> exn" where
  "api_model_error e = (case e of
     API_Timeout \<Rightarrow> ModelError ME_TIMEOUT True
   | API_RateLimit \<Rightarrow> ModelError ME_RATE_LIMITED True
   | API_Connection \<Rightarrow> ModelError ME_UNAVAILABLE True
   | API_Status code \<Rightarrow> ModelError ME_UNAVAILABLE (500 \<le> code)
   | API_Other x \<Rightarrow> x)"

definition plain_messages :: "ModelRequest \<Rightarrow> chat_message list" where
  "plain_messages q = map (\<lambda>m. \<lparr> cm_role = mm_role m, cm_content = Plain (mm_content m) \<rparr>) (mq_messages q)"

definition media_part :: "ModelCapability \<Rightarrow> MediaReference \<Rightarrow> (string \<times> string) res" where
  "media_part c m = (if mf_kind m = ''image'' then (if cy_image c then Inr (''image_url'', mf_uri m) else unavailable)
     else if cy_video c then Inr (''video_url'', mf_uri m) else unavailable)"

fun media_parts :: "ModelCapability \<Rightarrow> MediaReference list \<Rightarrow> (string \<times> string) list res" where
  "media_parts c [] = Inr []"
| "media_parts c (m # ms) = bindE (media_part c m) (\<lambda>p. bindE (media_parts c ms) (\<lambda>ps. Inr (p # ps)))"

text \<open>The media go into the last message of the user.\<close>

definition build_messages :: "ModelCapability \<Rightarrow> ModelRequest \<Rightarrow> chat_message list res" where
  "build_messages c q =
    (let messages = plain_messages q;
         user_indexes = filter (\<lambda>i. cm_role (messages ! i) = ''user'') [0..<length messages]
     in if mq_media q = [] then Inr messages
        else if user_indexes = [] then unavailable
        else let target = last user_indexes in
          bindE (media_parts c (mq_media q)) (\<lambda>ps.
            Inr (messages[target := (messages ! target)\<lparr>cm_content :=
              Parts ((''text'', mm_content (mq_messages q ! target)) # ps)\<rparr>])))"

definition output_invalid :: "'a res" where
  "output_invalid = Inl (ModelError ME_OUTPUT_INVALID False)"

definition completion_response :: "openai_gateway \<Rightarrow> nat \<Rightarrow> ModelRequest \<Rightarrow> completion \<Rightarrow> ModelResponse res" where
  "completion_response G n q c = (case co_choices c of
     [] \<Rightarrow> output_invalid
   | (content, finish) # _ \<Rightarrow>
     if content = None \<or> strip_text (the content) = [] then output_invalid
     else (case Option.bind (og_loads G (the content)) (og_validate G (mq_response_schema q)) of
         None \<Rightarrow> output_invalid
       | Some d \<Rightarrow> Inr \<lparr> mr_data = d, mr_actual_model = (if co_model c = [] then og_model G else co_model c),
           mr_prompt_tokens = (case co_usage c of None \<Rightarrow> 0 | Some (a, _, _) \<Rightarrow> a),
           mr_completion_tokens = (case co_usage c of None \<Rightarrow> 0 | Some (_, b, _) \<Rightarrow> b),
           mr_total_tokens = (case co_usage c of None \<Rightarrow> 0 | Some (_, _, t) \<Rightarrow> t),
           mr_latency_ms = max 0 (og_elapsed_ms G n), mr_finish_reason = finish, mr_provider_request_id = co_id c \<rparr>))"

definition generate_once :: "openai_gateway \<Rightarrow> ModelRequest \<Rightarrow> nat \<Rightarrow> ModelResponse res" where
  "generate_once G q n = bindE (build_messages (og_capability G) q) (\<lambda>messages.
     case og_client G n \<lparr> ca_model = og_model G, ca_messages = messages, ca_temperature = og_temperature G,
         ca_timeout = mq_timeout_seconds q, ca_json_object = og_structured_output G,
         ca_request_id = (if mq_trace_id q = [] then None else Some (mq_trace_id q)) \<rparr> of
       Inl e \<Rightarrow> Inl (api_model_error e)
     | Inr c \<Rightarrow> completion_response G n q c)"

definition openai_generate :: "openai_gateway \<Rightarrow> gateway" where
  "openai_generate G q = fst (attempts (generate_once G q) (og_max_attempts G) 0)"

section \<open>Embeddings\<close>

record embedding_arguments =
  ea_model :: string
  ea_input :: "utext list"
  ea_dimensions :: int
  ea_timeout :: rat
  ea_request_id :: "string option"

text \<open>A value of a vector is None where it is not finite.\<close>

record embedding_answer =
  en_data :: "(int \<times> rat option list) list"
  en_model :: string
  en_prompt_tokens :: "int option"

record embedding_gateway =
  eg_model :: string
  eg_timeout_seconds :: rat
  eg_max_attempts :: nat
  eg_client :: "nat \<Rightarrow> embedding_arguments \<Rightarrow> api_error + embedding_answer"

definition read_vector :: "int \<Rightarrow> rat option list \<Rightarrow> rat list res" where
  "read_vector dimensions vs = (if int (length vs) \<noteq> dimensions \<or> None \<in> set vs then output_invalid else Inr (map the vs))"

fun read_vectors :: "int \<Rightarrow> (int \<times> rat option list) list \<Rightarrow> rat list list res" where
  "read_vectors dimensions [] = Inr []"
| "read_vectors dimensions ((i, vs) # xs) = bindE (read_vector dimensions vs) (\<lambda>v. bindE (read_vectors dimensions xs) (\<lambda>rest. Inr (v # rest)))"

definition embedding_response :: "embedding_gateway \<Rightarrow> EmbeddingRequest \<Rightarrow> embedding_answer \<Rightarrow> EmbeddingResponse res" where
  "embedding_response G q a =
    (let ordered = sort_key fst (en_data a) in
     if length ordered \<noteq> length (eq_texts q) \<or> map fst ordered \<noteq> map int [0..<length (eq_texts q)] then output_invalid
     else bindE (read_vectors (eq_dimensions q) ordered) (\<lambda>vs. Inr \<lparr> er_vectors = vs,
       er_actual_model = (if en_model a = [] then eg_model G else en_model a),
       er_prompt_tokens = (case en_prompt_tokens a of None \<Rightarrow> 0 | Some t \<Rightarrow> t) \<rparr>))"

definition embed_once :: "embedding_gateway \<Rightarrow> EmbeddingRequest \<Rightarrow> nat \<Rightarrow> EmbeddingResponse res" where
  "embed_once G q n =
    (if eq_texts q = [] \<or> list_ex is_blank (eq_texts q) then output_invalid
     else case eg_client G n \<lparr> ea_model = eg_model G, ea_input = eq_texts q, ea_dimensions = eq_dimensions q, ea_timeout = eg_timeout_seconds G,
         ea_request_id = (if eq_trace_id q = [] then None else Some (eq_trace_id q)) \<rparr> of
       Inl e \<Rightarrow> Inl (api_model_error e)
     | Inr a \<Rightarrow> embedding_response G q a)"

definition openai_embed :: "embedding_gateway \<Rightarrow> EmbeddingRequest \<Rightarrow> EmbeddingResponse res" where
  "openai_embed G q = fst (attempts (embed_once G q) (eg_max_attempts G) 0)"

section \<open>The stand-in, and which gateway a profile builds\<close>

definition mock_payload :: json where
  "mock_payload = JObj [(''ok'', JBool True), (''summary'', JStr ''stage0'')]"

definition mock_generate :: "(string \<Rightarrow> json \<Rightarrow> ModelData option) \<Rightarrow> string \<Rightarrow> int \<Rightarrow> gateway" where
  "mock_generate validate model_name elapsed q = (case validate (mq_response_schema q) mock_payload of
     None \<Rightarrow> output_invalid
   | Some d \<Rightarrow> Inr \<lparr> mr_data = d, mr_actual_model = model_name, mr_prompt_tokens = 0, mr_completion_tokens = 0, mr_total_tokens = 0,
       mr_latency_ms = max 0 elapsed, mr_finish_reason = Some ''stop'', mr_provider_request_id = Some ''mock-request'' \<rparr>)"

text \<open>What the gateways take from outside: the clients by endpoint and key, the clocks, JSON and schemas.\<close>

record provider =
  pv_client :: "string \<Rightarrow> string \<Rightarrow> nat \<Rightarrow> chat_arguments \<Rightarrow> api_error + completion"
  pv_elapsed_ms :: "nat \<Rightarrow> int"
  pv_loads :: "string \<Rightarrow> json option"
  pv_validate :: "string \<Rightarrow> json \<Rightarrow> ModelData option"

definition openai_of :: "provider \<Rightarrow> ResolvedModelProfile \<Rightarrow> string \<Rightarrow> string \<Rightarrow> openai_gateway" where
  "openai_of P p url key = \<lparr> og_model = vp_model p, og_capability = vp_capabilities p, og_temperature = df_temperature (vp_defaults p),
     og_structured_output = df_structured_output (vp_defaults p), og_max_attempts = df_max_attempts (vp_defaults p),
     og_client = pv_client P url key, og_elapsed_ms = pv_elapsed_ms P, og_loads = pv_loads P, og_validate = pv_validate P \<rparr>"

definition build_model_gateway :: "provider \<Rightarrow> config_dir \<Rightarrow> string \<Rightarrow> ModelRole \<Rightarrow> environment \<Rightarrow> gateway res" where
  "build_model_gateway P D name role values =
    bindE (load_model_profile D name) (\<lambda>profile. bindE (resolve_model_profile profile role values) (\<lambda>p.
      if vp_gateway p = ''mock'' then Inr (mock_generate (pv_validate P) (vp_model p) (pv_elapsed_ms P 0))
      else (case (vp_base_url p, vp_api_key p) of
          (Some url, Some key) \<Rightarrow> Inr (openai_generate (openai_of P p url key))
        | _ \<Rightarrow> Inl RuntimeErr)))"

section \<open>What the loop returns\<close>

definition retryable_error :: "'a res \<Rightarrow> bool" where
  "retryable_error r = (case r of Inl (ModelError _ b) \<Rightarrow> b | _ \<Rightarrow> False)"

lemma attempts_Suc: "attempts once (Suc k) n = (if retryable_error (once n) \<and> k \<noteq> 0 then attempts once k (Suc n) else (once n, Suc n))"
  by (auto simp: retryable_error_def split: sum.split exn.split)

declare attempts.simps(2) [simp del]

text \<open>The reference: the first answer that is not a retryable error, else the last answer.\<close>

definition first_final :: "'a res list \<Rightarrow> 'a res" where
  "first_final rs = (case find (\<lambda>r. \<not> retryable_error r) rs of Some r \<Rightarrow> r | None \<Rightarrow> last rs)"

lemma attempts_first_final: "0 < k \<Longrightarrow> fst (attempts once k n) = first_final (map once [n..<n + k])"
proof (induction k arbitrary: n)
  case (Suc k)
  show ?case
  proof (cases "k = 0")
    case True
    show ?thesis unfolding True by (simp add: attempts_Suc first_final_def)
  next
    case False
    then have ih: "fst (attempts once k (Suc n)) = first_final (map once [Suc n..<Suc n + k])" using Suc.IH by blast
    have "[n..<n + Suc k] = n # [Suc n..<Suc n + k]" by (subst upt_conv_Cons) simp_all
    moreover have "map once [Suc n..<Suc n + k] \<noteq> []" using False by simp
    ultimately show ?thesis using ih False by (simp only: attempts_Suc) (simp add: first_final_def split: option.split)
  qed
qed simp

lemma attempts_count: "0 < k \<Longrightarrow> n < snd (attempts once k n) \<and> snd (attempts once k n) \<le> n + k"
proof (induction k arbitrary: n)
  case (Suc k)
  show ?case
  proof (cases "retryable_error (once n) \<and> k \<noteq> 0")
    case True
    then show ?thesis using Suc.IH [of "Suc n"] by (simp add: attempts_Suc)
  qed (auto simp: attempts_Suc)
qed simp

lemma first_final_member: "rs \<noteq> [] \<Longrightarrow> first_final rs \<in> set rs"
  by (auto simp: first_final_def find_Some_iff split: option.split)

lemma attempts_member:
  assumes "0 < k"
  obtains m where "m < k" and "fst (attempts once k 0) = once m"
  using first_final_member [of "map once [0..<k]"] attempts_first_final [OF assms, of once 0] assms by auto

text \<open>The client of the library raises nothing but its own errors.\<close>

definition client_errors_only :: "(nat \<Rightarrow> 'a \<Rightarrow> api_error + 'b) \<Rightarrow> bool" where
  "client_errors_only c \<longleftrightarrow> (\<forall>n a e. c n a = Inl e \<longrightarrow> (\<nexists>x. e = API_Other x))"

definition is_model_error :: "exn \<Rightarrow> bool" where
  "is_model_error e = (case e of ModelError _ _ \<Rightarrow> True | _ \<Rightarrow> False)"

lemma unavailable_simps [simp]: "unavailable \<noteq> Inr x" "(unavailable = Inl e) = (e = ModelError ME_UNAVAILABLE False)"
  "output_invalid \<noteq> Inr x" "(output_invalid = Inl e) = (e = ModelError ME_OUTPUT_INVALID False)"
  by (auto simp: unavailable_def output_invalid_def)

lemma media_parts_Inl: "media_parts c ms = Inl e \<Longrightarrow> e = ModelError ME_UNAVAILABLE False"
  by (induction ms) (auto simp: bindE_Inl_iff media_part_def split: if_splits)

lemma build_messages_Inl: "build_messages c q = Inl e \<Longrightarrow> e = ModelError ME_UNAVAILABLE False"
  by (auto simp: build_messages_def Let_def bindE_Inl_iff dest: media_parts_Inl split: if_splits)

lemma completion_response_Inl: "completion_response G n q c = Inl e \<Longrightarrow> e = ModelError ME_OUTPUT_INVALID False"
  by (auto simp: completion_response_def split: list.splits prod.splits if_splits option.splits)

lemma completion_response_Inr:
  "completion_response G n q c = Inr r \<Longrightarrow> \<exists>j. og_validate G (mq_response_schema q) j = Some (mr_data r)"
  by (auto simp: completion_response_def bind_eq_Some_conv split: list.splits prod.splits if_splits option.splits)

lemma generate_once_Inl:
  assumes "generate_once G q n = Inl e" and "client_errors_only (og_client G)"
  shows "is_model_error e"
proof (cases "build_messages (og_capability G) q")
  case (Inl e')
  then have "e = ModelError ME_UNAVAILABLE False" using assms(1) build_messages_Inl [OF Inl] by (simp add: generate_once_def)
  then show ?thesis by (simp add: is_model_error_def)
next
  case (Inr ms)
  define a where "a = \<lparr> ca_model = og_model G, ca_messages = ms, ca_temperature = og_temperature G,
      ca_timeout = mq_timeout_seconds q, ca_json_object = og_structured_output G,
      ca_request_id = (if mq_trace_id q = [] then None else Some (mq_trace_id q)) \<rparr>"
  show ?thesis
  proof (cases "og_client G n a")
    case (Inl x)
    then have "e = api_model_error x" using assms(1) Inr by (simp add: generate_once_def a_def)
    moreover have "\<nexists>y. x = API_Other y" using assms(2) Inl unfolding client_errors_only_def by blast
    ultimately show ?thesis by (cases x) (simp_all add: api_model_error_def is_model_error_def)
  next
    case c: (Inr c)
    then have "completion_response G n q c = Inl e" using assms(1) Inr by (simp add: generate_once_def a_def)
    then have "e = ModelError ME_OUTPUT_INVALID False" by (rule completion_response_Inl)
    then show ?thesis by (simp add: is_model_error_def)
  qed
qed

lemma generate_once_Inr:
  assumes "generate_once G q n = Inr r"
  shows "\<exists>j. og_validate G (mq_response_schema q) j = Some (mr_data r)"
proof -
  obtain ms where "build_messages (og_capability G) q = Inr ms"
    using assms by (cases "build_messages (og_capability G) q") (simp_all add: generate_once_def)
  then obtain c where "completion_response G n q c = Inr r"
    using assms by (simp add: generate_once_def split: sum.splits)
  then show ?thesis by (rule completion_response_Inr)
qed


lemma read_vectors_Inr: "read_vectors d xs = Inr vs \<Longrightarrow> map (map Some) vs = map snd xs \<and> (\<forall>v\<in>set vs. int (length v) = d)"
proof (induction xs arbitrary: vs)
  case (Cons x xs)
  obtain i ws where x: "x = (i, ws)" by fastforce
  obtain v rest where v: "read_vector d ws = Inr v" "read_vectors d xs = Inr rest" "vs = v # rest"
    using Cons.prems by (auto simp: x bindE_Inr_iff)
  have "None \<notin> set ws \<Longrightarrow> map Some (map the ws) = ws" by (induction ws) auto
  then have "map Some v = ws \<and> int (length v) = d" using v(1) by (auto simp: read_vector_def split: if_splits)
  then show ?case using Cons.IH [OF v(2)] v(3) x by simp
qed simp

text \<open>
  An answer of the embedding gateway has one vector for every text, of the requested dimension, each
  the finite vector the provider sent for that position, in whatever order it sent them.
\<close>

theorem embedding_answer_matches:
  assumes "openai_embed G q = Inr r"
  shows "length (er_vectors r) = length (eq_texts q) \<and> (\<forall>v\<in>set (er_vectors r). int (length v) = eq_dimensions q)
    \<and> (\<exists>n a args. eg_client G n args = Inr a \<and> n < eg_max_attempts G
         \<and> (\<forall>i<length (eq_texts q). (int i, map Some (er_vectors r ! i)) \<in> set (en_data a)))"
proof -
  have "0 < eg_max_attempts G" using assms by (cases "eg_max_attempts G") (simp_all add: openai_embed_def)
  then obtain m where m: "m < eg_max_attempts G" "fst (attempts (embed_once G q) (eg_max_attempts G) 0) = embed_once G q m"
    by (rule attempts_member)
  then have once: "embed_once G q m = Inr r" using assms by (simp add: openai_embed_def)
  obtain args a where c: "eg_client G m args = Inr a" and e: "embedding_response G q a = Inr r"
    using once by (auto simp: embed_once_def split: if_splits sum.splits)
  define o' where "o' = sort_key fst (en_data a)"
  have k: "length o' = length (eq_texts q)" "map fst o' = map int [0..<length (eq_texts q)]"
    using e by (simp_all add: embedding_response_def Let_def o'_def [symmetric] split: if_splits)
  obtain vs where vs: "read_vectors (eq_dimensions q) o' = Inr vs" "er_vectors r = vs"
    using e k by (auto simp: embedding_response_def Let_def o'_def [symmetric] bindE_Inr_iff)
  have v: "map (map Some) vs = map snd o'" and dims: "\<forall>v\<in>set vs. int (length v) = eq_dimensions q"
    using read_vectors_Inr [OF vs(1)] by simp_all
  have len: "length vs = length (eq_texts q)" using arg_cong [OF v, of length] k(1) by simp
  have "(int i, map Some (vs ! i)) \<in> set (en_data a)" if i: "i < length (eq_texts q)" for i
  proof -
    have "fst (o' ! i) = int i" using arg_cong [OF k(2), of "\<lambda>xs. xs ! i"] k(1) i by simp
    moreover have "snd (o' ! i) = map Some (vs ! i)" using arg_cong [OF v, of "\<lambda>xs. xs ! i"] k(1) i len by simp
    ultimately have "o' ! i = (int i, map Some (vs ! i))" by (simp add: prod_eq_iff)
    moreover have "o' ! i \<in> set (en_data a)" using i k(1) nth_mem [of i o'] by (simp add: o'_def)
    ultimately show ?thesis by simp
  qed
  then show ?thesis using m(1) c len dims vs(2) by blast
qed

section \<open>Profiles that cannot be used\<close>

lemma load_model_profile_cases:
  assumes "load_model_profile D name = r"
  obtains (none) "r = unavailable"
  | (found) f p where "r = Inr p" and "cd_read D f = Some p" and "valid_ModelProfile p" and "cd_is_file D f"
      and "length (cd_root D) < length f" and "take (length (cd_root D)) f = cd_root D"
  using assms by (auto simp: load_model_profile_def Let_def split: if_splits option.splits)

lemma required_value_cases:
  obtains (none) "required_value values v = unavailable" | (found) x where "required_value values v = Inr x" and "x \<noteq> []"
  by (cases "required_value values v = unavailable") (auto simp: required_value_def Let_def split: if_splits)

lemma resolve_model_profile_cases:
  obtains (none) "resolve_model_profile p role values = unavailable"
  | (mock) q where "pf_gateway p = ''mock''" and "resolve_model_profile p role values = Inr q" and "vp_gateway q = ''mock''"
  | (remote) q url key where "pf_gateway p \<noteq> ''mock''" and "resolve_model_profile p role values = Inr q" and "vp_gateway q = pf_gateway p"
      and "vp_base_url q = Some url" and "vp_api_key q = Some key" and "url \<noteq> []" and "key \<noteq> []" and "vp_model q \<noteq> []"
      and "vp_defaults q = pf_defaults p"
proof (cases "pf_gateway p = ''mock''")
  case True
  then have "\<exists>q. resolve_model_profile p role values = Inr q \<and> vp_gateway q = ''mock''" by (simp add: resolve_model_profile_def)
  then show ?thesis using True mock by blast
next
  case False
  show ?thesis
  proof (cases rule: required_value_cases [of "values" "pf_base_url_env p"])
    case a: (found url)
    show ?thesis
    proof (cases rule: required_value_cases [of "values" "pf_api_key_env p"])
      case b: (found key)
      show ?thesis
      proof (cases rule: required_value_cases [of "values" "Some (environment_name (pf_models p) role)"])
        case (found model)
        then have "\<exists>q. resolve_model_profile p role values = Inr q \<and> vp_gateway q = pf_gateway p \<and> vp_base_url q = Some url
            \<and> vp_api_key q = Some key \<and> vp_model q \<noteq> [] \<and> vp_defaults q = pf_defaults p"
          using False a b by (simp add: resolve_model_profile_def)
        then show ?thesis using remote [OF False _ _ _ _ a(2) b(2)] by blast
      qed (use False a b none in \<open>simp add: resolve_model_profile_def unavailable_def\<close>)
    qed (use False a none in \<open>simp add: resolve_model_profile_def unavailable_def\<close>)
  qed (use False none in \<open>simp add: resolve_model_profile_def unavailable_def\<close>)
qed

text \<open>
  A gateway is built or the model is unavailable, for good: there is no other error, in particular
  none for missing connection values. One that is built comes from a valid profile in a file below the
  directory of the profiles, and unless it is the stand-in it has an endpoint, a key and a model that
  are not blank, and asks at least once.
\<close>

theorem gateway_built_or_unavailable:
  shows "(\<forall>e. build_model_gateway P D name role values = Inl e \<longrightarrow> e = ModelError ME_UNAVAILABLE False)
    \<and> (\<forall>gw. build_model_gateway P D name role values = Inr gw \<longrightarrow> profile_name_ok name \<and>
        (\<exists>f p. cd_read D f = Some p \<and> valid_ModelProfile p \<and> length (cd_root D) < length f
          \<and> take (length (cd_root D)) f = cd_root D
          \<and> (pf_gateway p = ''mock'' \<or> (\<exists>q url key. gw = openai_generate (openai_of P q url key) \<and> url \<noteq> [] \<and> key \<noteq> []
               \<and> vp_model q \<noteq> [] \<and> 1 \<le> og_max_attempts (openai_of P q url key)))))"
proof -
  obtain l where l: "load_model_profile D name = l" by blast
  then show ?thesis
  proof (cases rule: load_model_profile_cases)
    case none
    then show ?thesis using l by (simp add: build_model_gateway_def unavailable_def)
  next
    case (found f p)
    have name: "profile_name_ok name" using found(1) l by (auto simp: load_model_profile_def split: if_splits)
    show ?thesis
    proof (cases rule: resolve_model_profile_cases [of p role "values"])
      case none
      then show ?thesis using found(1) l by (simp add: build_model_gateway_def unavailable_def)
    next
      case (mock q)
      then show ?thesis using found name l by (auto simp: build_model_gateway_def)
    next
      case (remote q url key)
      have b: "build_model_gateway P D name role values = Inr (openai_generate (openai_of P q url key))"
        using found(1) remote l by (simp add: build_model_gateway_def)
      have "1 \<le> og_max_attempts (openai_of P q url key)"
        using found(3) remote by (simp add: openai_of_def valid_ModelProfile_def valid_ProfileDefaults_def)
      moreover have "\<forall>gw. build_model_gateway P D name role values = Inr gw \<longrightarrow> gw = openai_generate (openai_of P q url key)"
        using b by simp
      ultimately show ?thesis using b found(2-) name remote(6-8) by (simp del: fun_upd_apply) blast
    qed
  qed
qed

section \<open>Worked instances\<close>

lemma strip_text_plain: "list_all (\<lambda>c. \<not> py_isspace (of_char c)) s \<Longrightarrow> strip_text s = s"
proof -
  assume s: "list_all (\<lambda>c. \<not> py_isspace (of_char c)) s"
  have d: "dropWhile py_isspace xs = xs" if "list_all (\<lambda>x. \<not> py_isspace x) xs" for xs using that by (cases xs) simp_all
  have "py_strip (map of_char s) = map of_char s"
    using s by (simp add: py_strip_def d list_all_iff)
  then show ?thesis by (simp add: strip_text_def comp_def)
qed

text \<open>
  A profile of each kind; a client that times out once and then answers, and whose embeddings come out of order.
\<close>

definition demo_profile :: "string \<Rightarrow> ModelProfile" where
  "demo_profile g = \<lparr> pf_name = ''demo'', pf_gateway = g, pf_base_url_env = Some ''URL'', pf_api_key_env = Some ''KEY'',
     pf_models = \<lparr> pm_agent_env = ''M'', pm_triage_env = ''M'', pm_verifier_env = ''M'', pm_judge_env = ''M'', pm_embedding_env = None \<rparr>,
     pf_defaults = \<lparr> df_temperature = 0, df_timeout_seconds = 30, df_structured_output = True, df_max_attempts = 2,
       df_embedding_dimensions = 2, df_embedding_batch_size = 10 \<rparr>,
     pf_capabilities = \<lparr> cy_text = True, cy_image = False, cy_video = False, cy_structured_output = True \<rparr> \<rparr>"

definition demo_config :: "string \<Rightarrow> config_dir" where
  "demo_config g = \<lparr> cd_root = [''configs''], cd_real = id, cd_is_file = (\<lambda>p. True), cd_read = (\<lambda>p. Some (demo_profile g)) \<rparr>"

definition demo_environment :: environment where
  "demo_environment = (\<lambda>k. Some ''value'')"

definition demo_skip :: TriageOutput where
  "demo_skip = \<lparr> tg_action = TA_SKIP, tg_confidence = 1, tg_reason_code = ''NONE'', tg_matched_terms = [],
     tg_matched_requirement_keys = [], tg_summary = u ''nothing'' \<rparr>"

definition demo_provider :: provider where
  "demo_provider = \<lparr> pv_client = (\<lambda>url key n args. if n = 0 then Inl API_Timeout
       else Inr \<lparr> co_choices = [(Some ''{}'', Some ''stop'')], co_model = ''m'', co_id = None, co_usage = Some (1, 2, 3) \<rparr>),
     pv_elapsed_ms = (\<lambda>n. 5), pv_loads = (\<lambda>t. Some (JObj [])),
     pv_validate = (\<lambda>schema j. if schema = ''TriageOutput'' then Some (MD_Triage demo_skip) else None) \<rparr>"

definition demo_question :: ModelRequest where
  "demo_question = \<lparr> mq_role = MR_TRIAGE, mq_messages = [\<lparr> mm_role = ''user'', mm_content = ''text'' \<rparr>],
     mq_response_schema = ''TriageOutput'', mq_media = [], mq_timeout_seconds = 30, mq_trace_id = [] \<rparr>"

definition demo_resolved :: ResolvedModelProfile where
  "demo_resolved = \<lparr> vp_name = ''demo'', vp_gateway = ''openai_compatible'', vp_base_url = Some ''value'', vp_api_key = Some ''value'',
     vp_model = ''value'', vp_defaults = pf_defaults (demo_profile ''openai_compatible''),
     vp_capabilities = pf_capabilities (demo_profile ''openai_compatible'') \<rparr>"


definition demo_embeddings :: embedding_gateway where
  "demo_embeddings = \<lparr> eg_model = ''e'', eg_timeout_seconds = 30, eg_max_attempts = 1,
     eg_client = (\<lambda>n args. Inr \<lparr> en_data = [(1, [Some 0, Some 1]), (0, [Some 1, Some 0])], en_model = [], en_prompt_tokens = None \<rparr>) \<rparr>"

lemma embedding_answer_matches_witness:
  "\<exists>r. openai_embed demo_embeddings \<lparr> eq_texts = [u ''a'', u ''b''], eq_dimensions = 2, eq_trace_id = [] \<rparr> = Inr r \<and> length (er_vectors r) = 2"
proof -
  let ?q = "\<lparr> eq_texts = [u ''a'', u ''b''], eq_dimensions = 2, eq_trace_id = [] \<rparr>"
  have "\<exists>r. openai_embed demo_embeddings ?q = Inr r"
    by (simp add: openai_embed_def attempts_Suc embed_once_def demo_embeddings_def embedding_response_def read_vector_def is_blank_def
        py_strip_def u_def py_isspace_def retryable_error_def upt_rec)
  then obtain r where "openai_embed demo_embeddings ?q = Inr r" by blast
  then show ?thesis using embedding_answer_matches [of demo_embeddings ?q r] by simp
qed

lemma demo_loads: "profile_name_ok name \<Longrightarrow> g \<in> {''mock'', ''openai_compatible''} \<Longrightarrow>
    load_model_profile (demo_config g) name = Inr (demo_profile g)"
  by (auto simp: load_model_profile_def demo_config_def demo_profile_def profile_name_ok_def lower_or_digit_def less_eq_char_def
      valid_ModelProfile_def valid_ProfileDefaults_def)

lemma demo_resolves: "resolve_model_profile (demo_profile ''openai_compatible'') MR_TRIAGE demo_environment = Inr demo_resolved"
proof -
  have strip: "strip_text ''value'' = ''value''" by (rule strip_text_plain) (simp add: py_isspace_def)
  show ?thesis
    by (simp add: resolve_model_profile_def required_value_def truthy_def demo_environment_def strip demo_resolved_def demo_profile_def)
qed

lemma demo_names: "profile_name_ok ''demo''" "profile_name_ok ''mock''" "\<not> profile_name_ok ''../demo''"
  by (simp_all add: profile_name_ok_def lower_or_digit_def less_eq_char_def)

lemma demo_builds: "profile_name_ok name \<Longrightarrow>
    build_model_gateway P (demo_config ''openai_compatible'') name MR_TRIAGE demo_environment
      = Inr (openai_generate (openai_of P demo_resolved ''value'' ''value''))"
  by (simp add: build_model_gateway_def demo_loads demo_resolves) (simp add: demo_resolved_def)

lemma gateway_built_or_unavailable_witness:
  "build_model_gateway demo_provider (demo_config ''openai_compatible'') ''demo'' MR_TRIAGE demo_environment
      = Inr (openai_generate (openai_of demo_provider demo_resolved ''value'' ''value''))
   \<and> build_model_gateway demo_provider (demo_config ''openai_compatible'') ''../demo'' MR_TRIAGE demo_environment
      = Inl (ModelError ME_UNAVAILABLE False)"
proof -
  let ?b = "build_model_gateway demo_provider (demo_config ''openai_compatible'') ''../demo'' MR_TRIAGE demo_environment"
  have "?b = Inl (ModelError ME_UNAVAILABLE False)"
    using gateway_built_or_unavailable [of demo_provider "demo_config ''openai_compatible''" "''../demo''" MR_TRIAGE demo_environment] demo_names(3)
    by (cases ?b) simp_all
  then show ?thesis using demo_builds [OF demo_names(1), of demo_provider] by blast
qed

end
