(* ===== verification/Triage.thy ===== *)
theory Triage
  imports MediaJobs Gateways "HOL-Library.Sublist"
begin

text \<open>
  \<open>evistream/triage/service.py\<close>: after its preprocessing a video is checked once against the latest version
  of every published and enabled policy. A check asks a model (or the deterministic stand-in) whether a case
  is to be opened, opens it, and is recorded; a failed check is retried by the next triage. The provider behind the
  gateway, the reading of a file and the guess of its media type are parameters.
\<close>

section \<open>What triage depends on\<close>

text \<open>
  \<open>tgw_hex i k n\<close> are the uuids and \<open>tgw_now i k\<close> the clock of the \<open>i\<close>-th check: \<open>k = 0\<close> for the check, 1 for the
  model call, 2 for the case, 3 for its decision, 4 for the end of the check. \<open>tgw_video_now\<close> is the clock of the
  two updates of the video. \<open>tgw_str\<close> is the text \<open>str\<close> gives of a text, list or dictionary in an f-string.
\<close>

record triage_world =
  tgw_env :: env
  tgw_nfkc :: "utext \<Rightarrow> utext"
  tgw_settings :: Settings
  tgw_store :: artifact_store
  tgw_config :: config_dir
  tgw_environment :: environment
  tgw_provider :: provider
  tgw_read :: "path \<Rightarrow> nat list res"
  tgw_mime :: "string \<Rightarrow> string option"
  tgw_str :: "json \<Rightarrow> string"
  tgw_hex :: "nat \<Rightarrow> nat \<Rightarrow> nat \<Rightarrow> string"
  tgw_now :: "nat \<Rightarrow> nat \<Rightarrow> time"
  tgw_video_now :: "nat \<Rightarrow> time"

section \<open>Which policies are checked\<close>

definition policy_le :: "env \<Rightarrow> PolicyRecord \<Rightarrow> PolicyRecord \<Rightarrow> bool" where
  "policy_le E a b \<longleftrightarrow> coll E (pc_policy_id a) (pc_policy_id b)
     \<and> (coll E (pc_policy_id b) (pc_policy_id a) \<longrightarrow> pc_version b \<le> pc_version a)"

definition triable :: "PolicyRecord \<Rightarrow> bool" where
  "triable r \<longleftrightarrow> pc_lifecycle r = PL_PUBLISHED \<and> pc_enabled r"

text \<open>\<open>latest.setdefault(policy_id, record)\<close>: the first record of every policy, in order.\<close>

fun first_of_each :: "string list \<Rightarrow> PolicyRecord list \<Rightarrow> PolicyRecord list" where
  "first_of_each seen [] = []"
| "first_of_each seen (r # rs) = (if pc_policy_id r \<in> set seen then first_of_each seen rs
     else r # first_of_each (pc_policy_id r # seen) rs)"

definition latest_enabled_policies :: "env \<Rightarrow> db \<Rightarrow> PolicyRecord list" where
  "latest_enabled_policies E s = first_of_each [] (sort_by (policy_le E) (filter triable (db_policies s)))"

section \<open>What the model is shown\<close>

definition document_le :: "env \<Rightarrow> SearchDocumentRecord \<Rightarrow> SearchDocumentRecord \<Rightarrow> bool" where
  "document_le E a b \<longleftrightarrow> sd_start_ms a < sd_start_ms b \<or> sd_start_ms a = sd_start_ms b \<and> coll E (sd_id a) (sd_id b)"

fun join_lines :: "utext list \<Rightarrow> utext" where
  "join_lines [] = []"
| "join_lines [t] = t"
| "join_lines (t # ts) = t @ 10 # join_lines ts"

definition video_text :: "triage_world \<Rightarrow> string \<Rightarrow> db \<Rightarrow> utext" where
  "video_text W video_id s = take (nat (cfg_triage_max_text_chars (tgw_settings W))) (join_lines (map sd_text
     (sort_by (document_le (tgw_env W)) (filter (\<lambda>d. sd_video_id d = video_id) (db_documents s)))))"

text \<open>Which of \<open>n\<close> keyframes are shown when \<open>k\<close> may be.\<close>

definition frame_indexes :: "nat \<Rightarrow> nat \<Rightarrow> nat list" where
  "frame_indexes k n = (if k = 1 then [0]
     else map (\<lambda>i. nat (py_round (of_nat (i * (n - 1)) / of_nat (k - 1)))) [0..<k])"

definition base64_char :: "nat \<Rightarrow> char" where
  "base64_char n = char_of (if n < 26 then 65 + n else if n < 52 then 71 + n else if n < 62 then n - 4
     else if n = 62 then 43 else 47)"

fun base64 :: "nat list \<Rightarrow> string" where
  "base64 [] = []"
| "base64 [a] = [base64_char (a div 4), base64_char (a mod 4 * 16), CHR ''='', CHR ''='']"
| "base64 [a, b] = [base64_char (a div 4), base64_char (a mod 4 * 16 + b div 16), base64_char (b mod 16 * 4), CHR ''='']"
| "base64 (a # b # c # bs) = [base64_char (a div 4), base64_char (a mod 4 * 16 + b div 16),
     base64_char (b mod 16 * 4 + c div 64), base64_char (c mod 64)] @ base64 bs"

definition path_name :: "path \<Rightarrow> string" where
  "path_name p = (if p = [] then [] else last p)"

definition image_reference :: "triage_world \<Rightarrow> ArtifactRecord \<Rightarrow> MediaReference res" where
  "image_reference W a = bindE (resolve (tgw_store W) (ar_uri a)) (\<lambda>p. bindE (tgw_read W p) (\<lambda>bs.
     Inr \<lparr> mf_kind = ''image'', mf_uri = ''data:'' @ (case tgw_mime W (path_name p) of Some m \<Rightarrow> m | None \<Rightarrow> ''image/jpeg'')
       @ '';base64,'' @ base64 bs \<rparr>))"

definition keyframe_le :: "env \<Rightarrow> ArtifactRecord \<Rightarrow> ArtifactRecord \<Rightarrow> bool" where
  "keyframe_le E a b \<longleftrightarrow> ar_created_at a < ar_created_at b \<or> ar_created_at a = ar_created_at b \<and> coll E (ar_id a) (ar_id b)"

definition keyframes_of :: "env \<Rightarrow> string \<Rightarrow> db \<Rightarrow> ArtifactRecord list" where
  "keyframes_of E video_id s = sort_by (keyframe_le E)
     (filter (\<lambda>a. ar_video_id a = video_id \<and> ar_type a = AT_KEYFRAME) (db_artifacts s))"

definition representative_frames :: "triage_world \<Rightarrow> string \<Rightarrow> db \<Rightarrow> MediaReference list res" where
  "representative_frames W video_id s =
    (let records = keyframes_of (tgw_env W) video_id s; most = nat (cfg_triage_max_frames (tgw_settings W))
     in if most = 0 \<or> records = [] then Inr []
        else map_res (\<lambda>i. image_reference W (records ! i)) (frame_indexes (min most (length records)) (length records)))"

definition newline :: string where
  "newline = [char_of (10 :: nat)]"

definition triage_prompt :: "triage_world \<Rightarrow> CompiledPolicy \<Rightarrow> utext \<Rightarrow> string" where
  "triage_prompt W policy text = ''Policy: '' @ pol_policy_id policy @ '' v'' @ str_int (pol_version policy) @ newline
     @ ''Trigger terms: '' @ tgw_str W (JList (map JText (pol_trigger_terms policy))) @ newline
     @ ''Requirements: '' @ tgw_str W (JList (map (\<lambda>r. JObj [(''key'', JStr (tp_requirement_key r)),
         (''description'', JText (tp_description r)), (''source_kind'', JStr (str_kind (tp_source_kind r)))])
         (pol_requirements policy))) @ newline
     @ ''Video summary:'' @ newline @ tgw_str W (JText text)"

definition triage_instruction :: string where
  "triage_instruction = ''Classify this video summary for exactly one policy. Return ''
     @ ''JSON with action, confidence, reason_code, matched_terms, matched_requirement_keys and summary.''"

definition triage_request ::
    "triage_world \<Rightarrow> ResolvedModelProfile \<Rightarrow> string \<Rightarrow> CompiledPolicy \<Rightarrow> utext \<Rightarrow> MediaReference list \<Rightarrow> ModelRequest" where
  "triage_request W p video_id policy text frames = \<lparr> mq_role = MR_TRIAGE,
     mq_messages = [\<lparr> mm_role = ''system'', mm_content = triage_instruction \<rparr>,
                    \<lparr> mm_role = ''user'', mm_content = triage_prompt W policy text \<rparr>],
     mq_response_schema = ''TriageOutput'', mq_media = frames, mq_timeout_seconds = df_timeout_seconds (vp_defaults p),
     mq_trace_id = ''triage-'' @ video_id @ ''-'' @ pol_policy_id policy \<rparr>"

section \<open>What the model answers\<close>

text \<open>The \<open>Field\<close> bounds of \<open>TriageOutput\<close>.\<close>

definition valid_TriageOutput :: "TriageOutput \<Rightarrow> bool" where
  "valid_TriageOutput o' \<longleftrightarrow> 0 \<le> tg_confidence o' \<and> tg_confidence o' \<le> 1 \<and> tg_reason_code o' \<noteq> [] \<and> length (tg_reason_code o') \<le> 64
     \<and> tg_summary o' \<noteq> [] \<and> length (tg_summary o') \<le> 2000"

definition as_triage :: "ModelData \<Rightarrow> TriageOutput res" where
  "as_triage d = (case d of MD_Triage t \<Rightarrow> if valid_TriageOutput t then Inr t else Inl ValueError | _ \<Rightarrow> Inl ValueError)"

definition mock_output :: "(utext \<Rightarrow> utext) \<Rightarrow> CompiledPolicy \<Rightarrow> utext \<Rightarrow> TriageOutput" where
  "mock_output nfkc policy text =
    (let normalized = normalize_text nfkc text;
         matched = filter (\<lambda>t. sublist (normalize_text nfkc t) normalized) (pol_trigger_terms policy)
     in \<lparr> tg_action = (if matched \<noteq> [] then TA_CREATE_CASE else TA_SKIP), tg_confidence = 1,
          tg_reason_code = (if matched \<noteq> [] then ''TRIGGER_TERM_MATCHED'' else ''NO_TRIGGER_TERM_MATCH''),
          tg_matched_terms = matched,
          tg_matched_requirement_keys = (if matched \<noteq> [] then map tp_requirement_key
             (filter (\<lambda>r. tp_source_kind r = SK_requirement) (pol_requirements policy)) else []),
          tg_summary = u ''Deterministic Mock triage result.'' \<rparr>)"

definition validate_output :: "CompiledPolicy \<Rightarrow> TriageOutput \<Rightarrow> unit res" where
  "validate_output policy o' =
    (if \<not> set (tg_matched_terms o') \<subseteq> set (pol_trigger_terms policy) then Inl (TriageError ''MODEL_OUTPUT_INVALID'' False)
     else if \<not> set (tg_matched_requirement_keys o') \<subseteq> set (map tp_requirement_key (pol_requirements policy))
     then Inl (TriageError ''MODEL_OUTPUT_INVALID'' False) else Inr ())"

section \<open>Rows\<close>

definition vt_key :: "VideoTriageCheckRecord \<Rightarrow> string \<times> string \<times> int" where
  "vt_key c = (vt_video_id c, vt_policy_id c, vt_policy_version c)"

definition triage_request_key :: "env \<Rightarrow> string \<Rightarrow> CompiledPolicy \<Rightarrow> string \<Rightarrow> string" where
  "triage_request_key E video_id policy profile = sha E (''TRIAGE:'' @ video_id @ '':'' @ pol_policy_id policy @ '':''
     @ str_int (pol_version policy) @ '':'' @ profile)"

definition new_check :: "triage_world \<Rightarrow> nat \<Rightarrow> string \<Rightarrow> string \<Rightarrow> string \<Rightarrow> CompiledPolicy \<Rightarrow> VideoTriageCheckRecord" where
  "new_check W i job_id video_id profile policy = \<lparr> vt_id = ''triage_'' @ tgw_hex W i 0 0, vt_job_id = job_id,
     vt_video_id = video_id, vt_policy_id = pol_policy_id policy, vt_policy_version = pol_version policy,
     vt_model_profile = profile, vt_request_key = triage_request_key (tgw_env W) video_id policy profile,
     vt_status = TS_RUNNING, vt_action = None, vt_confidence = None, vt_reason_code = None, vt_matched_terms = [],
     vt_matched_requirement_keys = [], vt_summary = None, vt_case_id = None, vt_model_call_id = None, vt_attempt = 1,
     vt_error_code = None, vt_created_at = tgw_now W i 0, vt_updated_at = tgw_now W i 0 \<rparr>"

text \<open>The unique keys of \<open>video_triage_checks\<close> and its references to the job, the video and the policy.\<close>

definition insert_check :: "VideoTriageCheckRecord \<Rightarrow> db \<Rightarrow> db res" where
  "insert_check c s = (if list_ex (\<lambda>x. vt_id x = vt_id c \<or> vt_key x = vt_key c \<or> vt_request_key x = vt_request_key c) (db_checks s)
       \<or> t_get jb_id (vt_job_id c) (db_jobs s) = None \<or> t_get vd_id (vt_video_id c) (db_videos s) = None
       \<or> t_get pc_key (vt_policy_id c, vt_policy_version c) (db_policies s) = None
     then Inl IntegrityError else Inr (s\<lparr>db_checks := db_checks s @ [c]\<rparr>))"

definition update_check ::
    "string \<Rightarrow> CompiledPolicy \<Rightarrow> (VideoTriageCheckRecord \<Rightarrow> VideoTriageCheckRecord) \<Rightarrow> db \<Rightarrow> db" where
  "update_check video_id policy f s =
     s\<lparr>db_checks := t_upd vt_key (video_id, pol_policy_id policy, pol_version policy) f (db_checks s)\<rparr>"

definition find_check :: "string \<Rightarrow> CompiledPolicy \<Rightarrow> db \<Rightarrow> VideoTriageCheckRecord option" where
  "find_check video_id policy s = t_get vt_key (video_id, pol_policy_id policy, pol_version policy) (db_checks s)"

definition restarted :: "time \<Rightarrow> VideoTriageCheckRecord \<Rightarrow> VideoTriageCheckRecord" where
  "restarted now c = c\<lparr>vt_status := TS_RUNNING, vt_attempt := vt_attempt c + 1, vt_error_code := None, vt_updated_at := now\<rparr>"

text \<open>The first session of a check: False where the check succeeded before.\<close>

definition start_check ::
    "triage_world \<Rightarrow> nat \<Rightarrow> string \<Rightarrow> string \<Rightarrow> string \<Rightarrow> CompiledPolicy \<Rightarrow> db \<Rightarrow> (bool \<times> db) res" where
  "start_check W i job_id video_id profile policy s = (case find_check video_id policy s of
     Some c \<Rightarrow> if vt_status c = TS_SUCCEEDED then Inr (False, s)
       else Inr (True, update_check video_id policy (restarted (tgw_now W i 0)) s)
   | None \<Rightarrow> bindE (insert_check (new_check W i job_id video_id profile policy) s) (\<lambda>s1. Inr (True, s1)))"

definition fail_check :: "triage_world \<Rightarrow> nat \<Rightarrow> string \<Rightarrow> CompiledPolicy \<Rightarrow> string \<Rightarrow> db \<Rightarrow> db" where
  "fail_check W i video_id policy code s = update_check video_id policy
     (\<lambda>c. c\<lparr>vt_status := TS_FAILED, vt_error_code := Some code, vt_updated_at := tgw_now W i 4\<rparr>) s"

definition finished :: "triage_world \<Rightarrow> nat \<Rightarrow> TriageOutput \<Rightarrow> string option \<Rightarrow> string option \<Rightarrow> VideoTriageCheckRecord \<Rightarrow> VideoTriageCheckRecord" where
  "finished W i o' case_id call_id c = c\<lparr>vt_status := TS_SUCCEEDED, vt_action := Some (tg_action o'), vt_confidence := Some (tg_confidence o'),
     vt_reason_code := Some (tg_reason_code o'), vt_matched_terms := tg_matched_terms o',
     vt_matched_requirement_keys := tg_matched_requirement_keys o', vt_summary := Some (tg_summary o'), vt_case_id := case_id,
     vt_model_call_id := call_id, vt_updated_at := tgw_now W i 4\<rparr>"

definition finish_check ::
    "triage_world \<Rightarrow> nat \<Rightarrow> string \<Rightarrow> CompiledPolicy \<Rightarrow> TriageOutput \<Rightarrow> string option \<Rightarrow> string option \<Rightarrow> db \<Rightarrow> bool res \<times> db" where
  "finish_check W i video_id policy o' case_id call_id s = (case find_check video_id policy s of
     None \<Rightarrow> (Inl RuntimeErr, s)
   | Some _ \<Rightarrow> (Inr True, update_check video_id policy (finished W i o' case_id call_id) s))"

text \<open>The outcome columns of a model call: an answer, or the error of the provider.\<close>

definition call_outcome :: "time \<Rightarrow> ModelResponse + ModelErrorCode \<Rightarrow> ModelCallRecord \<Rightarrow> ModelCallRecord" where
  "call_outcome now x m = (case x of
     Inl r \<Rightarrow> m\<lparr>ml_actual_model := Some (mr_actual_model r), ml_status := MC_SUCCESS, ml_prompt_tokens := mr_prompt_tokens r,
       ml_completion_tokens := mr_completion_tokens r, ml_total_tokens := mr_total_tokens r, ml_latency_ms := mr_latency_ms r,
       ml_provider_request_id := mr_provider_request_id r, ml_error_code := None, ml_updated_at := now\<rparr>
   | Inr code \<Rightarrow> m\<lparr>ml_actual_model := None, ml_status := MC_FAILED, ml_prompt_tokens := 0, ml_completion_tokens := 0,
       ml_total_tokens := 0, ml_latency_ms := 0, ml_provider_request_id := None, ml_error_code := Some code, ml_updated_at := now\<rparr>)"

definition new_triage_call ::
    "triage_world \<Rightarrow> nat \<Rightarrow> string \<Rightarrow> string \<Rightarrow> string \<Rightarrow> ResolvedModelProfile \<Rightarrow> CompiledPolicy \<Rightarrow> bool \<Rightarrow> ModelCallRecord" where
  "new_triage_call W i job_id video_id profile p policy has_images = \<lparr> ml_id = ''model_call_'' @ tgw_hex W i 1 0, ml_job_id = Some job_id,
     ml_run_id = None, ml_case_id = None, ml_video_id = Some video_id, ml_node = ''TRIAGE'', ml_state_version = 0,
     ml_role = ''triage'', ml_profile = profile, ml_requested_model = vp_model p, ml_actual_model = None,
     ml_request_key = triage_request_key (tgw_env W) video_id policy profile,
     ml_request_summary = JObj [(''schema'', JStr ''TriageOutput''), (''policy_id'', JStr (pol_policy_id policy)),
       (''policy_version'', JInt (pol_version policy)),
       (''media_types'', JList (if has_images then [JStr ''text'', JStr ''image''] else [JStr ''text'']))],
     ml_response_payload = None, ml_status = MC_FAILED, ml_attempt = 1, ml_lease_until = None, ml_prompt_tokens = 0,
     ml_completion_tokens = 0, ml_total_tokens = 0, ml_latency_ms = 0, ml_provider_request_id = None, ml_error_code = None,
     ml_created_at = tgw_now W i 1, ml_updated_at = tgw_now W i 1 \<rparr>"

definition find_triage_call :: "string \<Rightarrow> string \<Rightarrow> db \<Rightarrow> ModelCallRecord option" where
  "find_triage_call video_id key s = find (\<lambda>m. ml_video_id m = Some video_id \<and> ml_request_key m = key) (db_calls s)"

definition record_model_call ::
    "triage_world \<Rightarrow> nat \<Rightarrow> string \<Rightarrow> string \<Rightarrow> string \<Rightarrow> ResolvedModelProfile \<Rightarrow> CompiledPolicy \<Rightarrow> bool
       \<Rightarrow> ModelResponse + ModelErrorCode \<Rightarrow> db \<Rightarrow> string res \<times> db" where
  "record_model_call W i job_id video_id profile p policy has_images x s =
    (case find_triage_call video_id (triage_request_key (tgw_env W) video_id policy profile) s of
       Some m \<Rightarrow> (Inr (ml_id m), s\<lparr>db_calls := t_upd ml_id (ml_id m)
          (\<lambda>m. (call_outcome (tgw_now W i 1) x m)\<lparr>ml_attempt := ml_attempt m + 1\<rparr>) (db_calls s)\<rparr>)
     | None \<Rightarrow> (let m = call_outcome (tgw_now W i 1) x (new_triage_call W i job_id video_id profile p policy has_images)
         in run_session (\<lambda>s. if t_get jb_id job_id (db_jobs s) = None \<or> t_get vd_id video_id (db_videos s) = None then Inl IntegrityError
              else bindE (t_add ml_id m (db_calls s)) (\<lambda>t. Inr (ml_id m, s\<lparr>db_calls := t\<rparr>))) s))"

section \<open>One check\<close>

definition resolved_profile :: "triage_world \<Rightarrow> string \<Rightarrow> ResolvedModelProfile res" where
  "resolved_profile W profile = bindE (load_model_profile (tgw_config W) profile)
     (\<lambda>p. resolve_model_profile p MR_TRIAGE (tgw_environment W))"

text \<open>The body of the \<open>try\<close>: the validated answer with the identifier of its model call.\<close>

definition ask_model ::
    "triage_world \<Rightarrow> nat \<Rightarrow> string \<Rightarrow> string \<Rightarrow> string \<Rightarrow> ResolvedModelProfile \<Rightarrow> CompiledPolicy \<Rightarrow> utext \<Rightarrow> MediaReference list
       \<Rightarrow> db \<Rightarrow> (TriageOutput \<times> string option) res \<times> db" where
  "ask_model W i job_id video_id profile p policy text frames s =
    (if vp_gateway p = ''mock''
     then (let o' = mock_output (tgw_nfkc W) policy text in (bindE (validate_output policy o') (\<lambda>_. Inr (o', None)), s))
     else case bindE (build_model_gateway (tgw_provider W) (tgw_config W) profile MR_TRIAGE (tgw_environment W)) (\<lambda>gw. gw (triage_request W p video_id policy text frames)) of
       Inl e \<Rightarrow> (Inl e, s)
     | Inr r \<Rightarrow> (case as_triage (mr_data r) of
         Inl e \<Rightarrow> (Inl e, s)
       | Inr o' \<Rightarrow> (case record_model_call W i job_id video_id profile p policy (frames \<noteq> []) (Inl r) s of
           (Inl e, s1) \<Rightarrow> (Inl e, s1)
         | (Inr call_id, s1) \<Rightarrow> (bindE (validate_output policy o') (\<lambda>_. Inr (o', Some call_id)), s1))))"

text \<open>The two handlers of the \<open>try\<close>.\<close>

definition triage_failed ::
    "triage_world \<Rightarrow> nat \<Rightarrow> string \<Rightarrow> string \<Rightarrow> string \<Rightarrow> ResolvedModelProfile \<Rightarrow> CompiledPolicy \<Rightarrow> bool \<Rightarrow> exn \<Rightarrow> db \<Rightarrow> exn \<times> db" where
  "triage_failed W i job_id video_id profile p policy has_images e s = (case e of
     ModelError code retryable \<Rightarrow>
       (case (if vp_gateway p = ''mock'' then (Inr [], s)
              else record_model_call W i job_id video_id profile p policy has_images (Inr code) s) of
          (Inl e', s1) \<Rightarrow> (e', s1)
        | (Inr _, s1) \<Rightarrow> (TriageError (str_model_error code) retryable, fail_check W i video_id policy (str_model_error code) s1))
   | TriageError code retryable \<Rightarrow> (e, fail_check W i video_id policy code s)
   | _ \<Rightarrow> (e, s))"

definition open_case ::
    "triage_world \<Rightarrow> nat \<Rightarrow> string \<Rightarrow> string \<Rightarrow> CompiledPolicy \<Rightarrow> TriageAction \<Rightarrow> db \<Rightarrow> string option res \<times> db" where
  "open_case W i video_id profile policy action s =
    (if action = TA_SKIP then (Inr None, s)
     else case create_case_session (tgw_env W) (tgw_now W i 2) (tgw_hex W i 2) video_id (pol_policy_id policy) (pol_version policy)
            profile None s of
       (Inl e, s1) \<Rightarrow> (Inl e, s1)
     | (Inr bundle, s1) \<Rightarrow> (let case_id = cm_case_id (cb_case bundle) in
         if action = TA_NEEDS_HUMAN_REVIEW
         then (case finalize_case (tgw_env W) (tgw_now W i 3) (tgw_hex W i 3 0) case_id None True Map.empty s1 of
             (Inl e, s2) \<Rightarrow> (Inl e, s2) | (Inr _, s2) \<Rightarrow> (Inr (Some case_id), s2))
         else (Inr (Some case_id), s1)))"

definition check_policy ::
    "triage_world \<Rightarrow> nat \<Rightarrow> string \<Rightarrow> string \<Rightarrow> string \<Rightarrow> PolicyRecord \<Rightarrow> db \<Rightarrow> bool res \<times> db" where
  "check_policy W i job_id video_id profile rec s =
    (let policy = pc_compiled_policy rec in
     case run_session (start_check W i job_id video_id profile policy) s of
       (Inl e, s1) \<Rightarrow> (Inl e, s1)
     | (Inr False, s1) \<Rightarrow> (Inr False, s1)
     | (Inr True, s1) \<Rightarrow>
    (case resolved_profile W profile of Inl e \<Rightarrow> (Inl e, s1) | Inr p \<Rightarrow>
    (case (if cy_image (vp_capabilities p) \<and> vp_gateway p \<noteq> ''mock'' then representative_frames W video_id s1 else Inr []) of
       Inl e \<Rightarrow> (Inl e, s1) | Inr frames \<Rightarrow>
    (case ask_model W i job_id video_id profile p policy (video_text W video_id s1) frames s1 of
       (Inl e, s2) \<Rightarrow> (case triage_failed W i job_id video_id profile p policy (frames \<noteq> []) e s2 of (e', s3) \<Rightarrow> (Inl e', s3))
     | (Inr (o', call_id), s2) \<Rightarrow>
    (case open_case W i video_id profile policy (tg_action o') s2 of
       (Inl e, s3) \<Rightarrow> (Inl e, s3)
     | (Inr case_id, s3) \<Rightarrow> finish_check W i video_id policy o' case_id call_id s3)))))"

section \<open>Triage of a video\<close>

definition set_triage_status :: "time \<Rightarrow> string \<Rightarrow> VideoRecord \<Rightarrow> VideoRecord" where
  "set_triage_status now st v = (if vd_triage_status v = st then v else v\<lparr>vd_triage_status := st, vd_updated_at := now\<rparr>)"

fun check_policies ::
    "triage_world \<Rightarrow> string \<Rightarrow> string \<Rightarrow> string \<Rightarrow> nat \<Rightarrow> PolicyRecord list \<Rightarrow> int \<Rightarrow> db \<Rightarrow> int res \<times> db" where
  "check_policies W job_id video_id profile i [] n s = (Inr n, s)"
| "check_policies W job_id video_id profile i (r # rs) n s = (case check_policy W i job_id video_id profile r s of
     (Inl e, s1) \<Rightarrow> (Inl e, s1)
   | (Inr new, s1) \<Rightarrow> check_policies W job_id video_id profile (Suc i) rs (if new then n + 1 else n) s1)"

definition triage :: "triage_world \<Rightarrow> string \<Rightarrow> string \<Rightarrow> string \<Rightarrow> db \<Rightarrow> int res \<times> db" where
  "triage W job_id video_id profile s =
    (if \<not> cfg_auto_triage (tgw_settings W)
     then (Inr 0, update_video video_id (set_triage_status (tgw_video_now W 1) ''SUCCEEDED'') s)
     else case check_policies W job_id video_id profile 0 (latest_enabled_policies (tgw_env W) s) 0
            (update_video video_id (set_triage_status (tgw_video_now W 0) ''RUNNING'') s) of
       (Inl e, s1) \<Rightarrow> (Inl e, update_video video_id (set_triage_status (tgw_video_now W 1) ''FAILED'') s1)
     | (Inr n, s1) \<Rightarrow> (Inr n, update_video video_id (set_triage_status (tgw_video_now W 1) ''SUCCEEDED'') s1))"

end
