(* ===== verification/TriageRuns.thy ===== *)
theory TriageRuns
  imports Triage
begin

text \<open>
  What a triage leaves behind: every latest policy checked once, successful checks that name the case they
  opened, and failed checks that the next triage takes up.
\<close>

section \<open>What a check changes\<close>

text \<open>Cases stay, with their video and their policy.\<close>

definition cases_kept :: "db \<Rightarrow> db \<Rightarrow> bool" where
  "cases_kept s s' \<longleftrightarrow> (keys_distinct ca_id (db_cases s) \<longrightarrow> keys_distinct ca_id (db_cases s')) \<and> (\<forall>i c. t_get ca_id i (db_cases s) = Some c \<longrightarrow> (\<exists>c'. t_get ca_id i (db_cases s') = Some c'
     \<and> ca_video_id c' = ca_video_id c \<and> ca_policy_id c' = ca_policy_id c \<and> ca_policy_version c' = ca_policy_version c))"

text \<open>Everything but the check with key \<open>k\<close> is as before, as far as triage reads it.\<close>

definition only :: "string \<times> string \<times> int \<Rightarrow> db \<Rightarrow> db \<Rightarrow> bool" where
  "only k s s' \<longleftrightarrow> db_policies s' = db_policies s \<and> db_jobs s' = db_jobs s \<and> db_videos s' = db_videos s \<and> cases_kept s s'
     \<and> (\<forall>k'. k' \<noteq> k \<longrightarrow> t_get vt_key k' (db_checks s') = t_get vt_key k' (db_checks s))"

definition beside :: "db \<Rightarrow> db \<Rightarrow> bool" where
  "beside s s' \<longleftrightarrow> db_policies s' = db_policies s \<and> db_jobs s' = db_jobs s \<and> db_videos s' = db_videos s \<and> cases_kept s s'
     \<and> db_checks s' = db_checks s"

lemma cases_keptD:
  assumes "cases_kept s s'" and "t_get ca_id i (db_cases s) = Some c"
  obtains c' where "t_get ca_id i (db_cases s') = Some c'" and "ca_video_id c' = ca_video_id c"
    and "ca_policy_id c' = ca_policy_id c" and "ca_policy_version c' = ca_policy_version c"
  using assms by (auto simp: cases_kept_def)

lemma only_other: "only k s s' \<Longrightarrow> k' \<noteq> k \<Longrightarrow> t_get vt_key k' (db_checks s') = t_get vt_key k' (db_checks s)"
  unfolding only_def by blast

lemma cases_kept_same: "db_cases s' = db_cases s \<Longrightarrow> cases_kept s s'"
  by (simp add: cases_kept_def)

lemma cases_kept_trans: 
  assumes "cases_kept s s1" and "cases_kept s1 s2"
  shows "cases_kept s s2"
proof -
  have "\<exists>c'. t_get ca_id i (db_cases s2) = Some c' \<and> ca_video_id c' = ca_video_id c \<and> ca_policy_id c' = ca_policy_id c
      \<and> ca_policy_version c' = ca_policy_version c" if c: "t_get ca_id i (db_cases s) = Some c" for i c
  proof -
    obtain c1 where c1: "t_get ca_id i (db_cases s1) = Some c1" "ca_video_id c1 = ca_video_id c" "ca_policy_id c1 = ca_policy_id c"
        "ca_policy_version c1 = ca_policy_version c"
      using assms(1) c by (auto simp: cases_kept_def)
    moreover obtain c2 where "t_get ca_id i (db_cases s2) = Some c2" "ca_video_id c2 = ca_video_id c1" "ca_policy_id c2 = ca_policy_id c1"
        "ca_policy_version c2 = ca_policy_version c1"
      using assms(2) c1(1) by (auto simp: cases_kept_def)
    ultimately show ?thesis by simp
  qed
  then show ?thesis using assms by (simp add: cases_kept_def)
qed

lemma beside_refl [simp]: "beside s s"
  by (simp add: beside_def cases_kept_same)

lemma beside_trans: "beside s s1 \<Longrightarrow> beside s1 s2 \<Longrightarrow> beside s s2"
  unfolding beside_def by (metis cases_kept_trans)

lemma only_refl [simp]: "only k s s"
  by (simp add: only_def cases_kept_same)

lemma only_trans: "only k s s1 \<Longrightarrow> only k s1 s2 \<Longrightarrow> only k s s2"
  unfolding only_def by (metis cases_kept_trans)

lemma beside_only: "beside s s' \<Longrightarrow> only k s s'"
  by (simp add: only_def beside_def)

lemma cases_kept_upd:
  assumes "db_cases s' = t_upd ca_id i f (db_cases s)"
    and "\<And>c. ca_id (f c) = ca_id c \<and> ca_video_id (f c) = ca_video_id c \<and> ca_policy_id (f c) = ca_policy_id c
      \<and> ca_policy_version (f c) = ca_policy_version c"
  shows "cases_kept s s'"
  using assms(2) by (auto simp: cases_kept_def assms(1) t_get_upd keys_distinct_def map_key_upd)

lemma cases_kept_snoc: "db_cases s' = db_cases s @ [c] \<Longrightarrow> t_get ca_id (ca_id c) (db_cases s) = None \<Longrightarrow> cases_kept s s'"
  by (auto simp: cases_kept_def t_get_append keys_distinct_def t_get_None)

section \<open>The sessions of a check\<close>

lemma record_model_call_beside:
  "record_model_call W i jid vid prof p pol b x s = (r, s') \<Longrightarrow> beside s s'"
  unfolding record_model_call_def
  by (auto simp: beside_def cases_kept_same run_session_def Let_def bindE_def t_add_def split: option.splits if_splits sum.splits)

lemma ask_model_beside:
  assumes "ask_model W i jid vid prof p pol text fs s = (r, s')"
  shows "beside s s' \<and> (\<forall>o' c. r = Inr (o', c) \<longrightarrow> validate_output pol o' = Inr ())"
  using assms unfolding ask_model_def Let_def
  by (auto simp: bindE_Inr_iff split: if_splits sum.splits prod.splits dest: record_model_call_beside)

lemma create_case_session_beside:
  assumes "create_case_session E now hex vid pid v prof cid s = (r, s')" and "keys_distinct ca_id (db_cases s)"
  shows "beside s s' \<and> (\<forall>b. r = Inr b \<longrightarrow> (\<exists>c. t_get ca_id (cm_case_id (cb_case b)) (db_cases s') = Some c
    \<and> ca_video_id c = vid \<and> ca_policy_id c = pid \<and> ca_policy_version c = v))"
proof (cases r)
  case (Inl e)
  then have "s' = s" using assms(1) run_session_rollback [of "create_case E now hex vid pid v prof cid" s e]
    by (simp add: create_case_session_def)
  then show ?thesis using Inl by simp
next
  case (Inr b)
  then have "create_case E now hex vid pid v prof cid s = Inr (b, s')"
    using assms(1) by (simp add: create_case_session_def run_session_Inr_iff)
  then show ?thesis
  proof (cases rule: create_case_cases)
    case (found c)
    have "c \<in> set (db_cases s) \<and> ca_video_id c = vid \<and> ca_policy_id c = pid \<and> ca_policy_version c = v"
      using found(1) by (auto simp: find_case_def find_Some_iff)
    then show ?thesis using t_get_complete [OF assms(2)] by (simp add: found(2,3) Inr case_from_record_def)
  next
    case (created p)
    note k = instantiate_case_Inr [OF created(4)]
    let ?c = "new_case_row (fresh_case_id hex cid) vid pid v prof now"
    have "db_cases s' = db_cases s @ [?c]" and b: "cm_case_id (cb_case b) = ca_id ?c" and "beside s s'"
      using k cases_kept_snoc [of s' s ?c] by (auto simp: Let_def beside_def case_from_record_def)
    then show ?thesis using k by (simp add: Inr t_get_append t_get_Cons)
  qed
qed

lemma aggregate_all_beside:
  "aggregate_all E now cfg org i rs s = Inr (os, s') \<Longrightarrow> beside s s'"
proof (induction rs arbitrary: s os)
  case Nil
  then show ?case by simp
next
  case (Cons r rs)
  then obtain out s1 os' where a: "aggregate E now r cfg (org (rm_requirement_key r)) i s = Inr (out, s1)"
    and b: "aggregate_all E now cfg org i rs s1 = Inr (os', s')"
    by (auto simp: bindE_Inr_iff)
  have "beside s s1" using a by (cases rule: aggregate_cases) (simp_all add: beside_def cases_kept_same)
  then show ?case using Cons.IH [OF b] beside_trans by blast
qed

lemma conclude_case_beside:
  assumes "conclude_case E now hex c run os ev item s = Inr (d, s')"
  shows "beside s s'"
proof -
  have kept: "cases_kept s s'" using conclude_case_frame [OF assms] by (auto intro: cases_kept_upd)
  from assms show ?thesis
  proof (cases rule: conclude_case_cases)
    case (reused existing)
    then show ?thesis using kept by (simp add: beside_def)
  next
    case (written rec)
    then show ?thesis using kept by (simp add: beside_def store_decision_Inr(1) [OF written(4)])
  qed
qed

lemma finalize_case_beside:
  assumes "finalize_case E now hex cid item allow org s = (r, s')"
  shows "beside s s'"
proof (cases r)
  case (Inl e)
  then have "s' = s" using assms run_session_rollback [of "finalize_body E now hex cid item allow org" s e]
    by (simp add: finalize_case_def)
  then show ?thesis by simp
next
  case (Inr d)
  then have "finalize_body E now hex cid item allow org s = Inr (d, s')"
    using assms by (simp add: finalize_case_def run_session_Inr_iff)
  then show ?thesis
    by (cases rule: finalize_body_cases) (meson aggregate_all_beside conclude_case_beside beside_trans)
qed

lemma open_case_beside:
  assumes "open_case W i vid prof pol action s = (r, s')" and "keys_distinct ca_id (db_cases s)"
  shows "beside s s' \<and> (\<forall>k. r = Inr k \<longrightarrow> (if action = TA_SKIP then k = None else \<exists>cid c. k = Some cid
    \<and> t_get ca_id cid (db_cases s') = Some c \<and> ca_video_id c = vid \<and> ca_policy_id c = pol_policy_id pol
    \<and> ca_policy_version c = pol_version pol))"
proof (cases "action = TA_SKIP")
  case True
  then show ?thesis using assms(1) by (auto simp: open_case_def)
next
  case False
  obtain a s1 where 1: "create_case_session (tgw_env W) (tgw_now W i 2) (tgw_hex W i 2) vid (pol_policy_id pol) (pol_version pol) prof None s = (a, s1)"
    by fastforce
  note k = create_case_session_beside [OF 1 assms(2)]
  show ?thesis
  proof (cases a)
    case (Inl e)
    then show ?thesis using assms(1) 1 False k by (auto simp: open_case_def)
  next
    case (Inr b)
    then obtain c where c: "t_get ca_id (cm_case_id (cb_case b)) (db_cases s1) = Some c" "ca_video_id c = vid"
        "ca_policy_id c = pol_policy_id pol" "ca_policy_version c = pol_version pol"
      using k by blast
    show ?thesis
    proof (cases "action = TA_NEEDS_HUMAN_REVIEW")
      case no: False
      then have "r = Inr (Some (cm_case_id (cb_case b)))" "s' = s1" using assms(1) 1 False Inr by (simp_all add: open_case_def)
      then show ?thesis using k c False by simp
    next
      case yes: True
      obtain d s2 where 2: "finalize_case (tgw_env W) (tgw_now W i 3) (tgw_hex W i 3 0) (cm_case_id (cb_case b)) None True Map.empty s1 = (d, s2)"
        by fastforce
      have r: "r = (case d of Inl e \<Rightarrow> Inl e | Inr _ \<Rightarrow> Inr (Some (cm_case_id (cb_case b))))" "s' = s2"
        using assms(1) 1 2 Inr yes by (auto simp: open_case_def split: sum.splits)
      have b2: "beside s1 s2" by (rule finalize_case_beside [OF 2])
      then obtain c' where "t_get ca_id (cm_case_id (cb_case b)) (db_cases s2) = Some c'" "ca_video_id c' = ca_video_id c"
          "ca_policy_id c' = ca_policy_id c" "ca_policy_version c' = ca_policy_version c"
        using c(1) by (auto simp: beside_def cases_kept_def)
      then show ?thesis using r c False beside_trans [OF _ b2] k by (auto split: sum.splits)
    qed
  qed
qed

lemma find_check_upd:
  "(\<And>c. vt_key (f c) = vt_key c) \<Longrightarrow> find_check vid pol (update_check vid pol f s) = map_option f (find_check vid pol s)"
  by (simp add: find_check_def update_check_def t_get_upd)

lemma only_update:
  "(\<And>c. vt_key (f c) = vt_key c) \<Longrightarrow> only (vid, pol_policy_id pol, pol_version pol) s (update_check vid pol f s)"
  by (simp add: only_def update_check_def t_get_upd cases_kept_same)

lemma vt_key_simps [simp]:
  "vt_key (c\<lparr>vt_status := st, vt_attempt := n, vt_error_code := e, vt_updated_at := t\<rparr>) = vt_key c"
  "vt_key (c\<lparr>vt_status := st, vt_error_code := e, vt_updated_at := t\<rparr>) = vt_key c"
  "vt_key (restarted t c) = vt_key c" "vt_key (finished W i o' k m c) = vt_key c"
  by (simp_all add: vt_key_def restarted_def finished_def)

lemma find_check_beside: "beside s s' \<Longrightarrow> find_check vid pol s' = find_check vid pol s"
  by (simp add: beside_def find_check_def)

text \<open>Whether the video has passed the check against a policy.\<close>

definition passed :: "string \<Rightarrow> CompiledPolicy \<Rightarrow> db \<Rightarrow> bool" where
  "passed vid pol s \<longleftrightarrow> (case find_check vid pol s of None \<Rightarrow> False | Some c \<Rightarrow> vt_status c = TS_SUCCEEDED)"

lemma start_check_Inr:
  assumes "start_check W i jid vid prof pol s = Inr (b, s1)"
  shows "(\<not> b \<and> s1 = s \<and> passed vid pol s) \<or> (b \<and> \<not> passed vid pol s \<and> only (vid, pol_policy_id pol, pol_version pol) s s1
    \<and> db_cases s1 = db_cases s \<and> (\<exists>c. find_check vid pol s1 = Some c \<and> vt_status c = TS_RUNNING))"
proof (cases "find_check vid pol s")
  case None
  let ?c = "new_check W i jid vid prof pol"
  have b: "b" and s1: "s1 = s\<lparr>db_checks := db_checks s @ [?c]\<rparr>"
    using assms None by (auto simp: start_check_def insert_check_def bindE_Inr_iff split: if_splits)
  have k: "vt_key ?c = (vid, pol_policy_id pol, pol_version pol)" "vt_status ?c = TS_RUNNING" by (simp_all add: vt_key_def new_check_def)
  have "find_check vid pol s1 = Some ?c" using None k by (simp add: s1 find_check_def t_get_append t_get_Cons)
  moreover have "only (vid, pol_policy_id pol, pol_version pol) s s1"
    using k by (auto simp: only_def s1 cases_kept_same t_get_append t_get_Cons split: option.splits)
  ultimately show ?thesis using b k None by (simp add: s1 passed_def)
next
  case (Some c)
  show ?thesis
  proof (cases "vt_status c = TS_SUCCEEDED")
    case True
    then show ?thesis using assms Some by (simp add: start_check_def passed_def)
  next
    case False
    then have b: "b" and s1: "s1 = update_check vid pol (restarted (tgw_now W i 0)) s"
      using assms Some by (simp_all add: start_check_def)
    have "find_check vid pol s1 = Some (restarted (tgw_now W i 0) c)" unfolding s1 by (subst find_check_upd) (simp_all add: Some)
    moreover have "db_cases s1 = db_cases s" by (simp add: s1 update_check_def)
    moreover have "only (vid, pol_policy_id pol, pol_version pol) s s1" unfolding s1 by (rule only_update) simp
    ultimately show ?thesis using b False Some by (simp add: passed_def restarted_def)
  qed
qed

text \<open>The handlers leave the check running, or failed with the code of the error they raise.\<close>

definition unfinished_check :: "exn \<Rightarrow> VideoTriageCheckRecord \<Rightarrow> bool" where
  "unfinished_check e c \<longleftrightarrow> vt_status c = TS_RUNNING
     \<or> vt_status c = TS_FAILED \<and> (\<exists>code b. e = TriageError code b \<and> vt_error_code c = Some code)"

lemma fail_check_result:
  assumes "find_check vid pol s = Some c"
  shows "only (vid, pol_policy_id pol, pol_version pol) s (fail_check W i vid pol code s)
    \<and> (\<exists>c'. find_check vid pol (fail_check W i vid pol code s) = Some c' \<and> unfinished_check (TriageError code b) c')"
  unfolding fail_check_def using assms by (auto simp: find_check_upd unfinished_check_def intro!: only_update)

lemma triage_failed_result:
  assumes "triage_failed W i jid vid prof p pol im e s = (e', s')" and "find_check vid pol s = Some c" and "vt_status c = TS_RUNNING"
  shows "only (vid, pol_policy_id pol, pol_version pol) s s' \<and> (\<exists>c'. find_check vid pol s' = Some c' \<and> unfinished_check e' c')"
proof -
  have still: ?thesis if "s' = s" using assms(2,3) that by (auto simp: unfinished_check_def)
  show ?thesis
  proof (cases e)
    case (ModelError code b)
    obtain x s1 where 1: "(if vp_gateway p = ''mock'' then (Inr [], s) else record_model_call W i jid vid prof p pol im (Inr code) s) = (x, s1)"
      by fastforce
    then have b1: "beside s s1" using record_model_call_beside by (auto split: if_splits)
    then have c1: "find_check vid pol s1 = Some c" using assms(2) find_check_beside by simp
    show ?thesis
    proof (cases x)
      case (Inl e1)
      then have "s' = s1" using assms(1) 1 ModelError by (simp add: triage_failed_def)
      then show ?thesis using b1 c1 assms(3) by (auto simp: unfinished_check_def beside_only)
    next
      case (Inr y)
      then have "e' = TriageError (str_model_error code) b" "s' = fail_check W i vid pol (str_model_error code) s1"
        using assms(1) 1 ModelError by (simp_all add: triage_failed_def)
      then show ?thesis using fail_check_result [OF c1, of W i "str_model_error code" b] only_trans [OF beside_only [OF b1]] by auto
    qed
  next
    case (TriageError code b)
    then have "e' = e" "s' = fail_check W i vid pol code s" using assms(1) by (simp_all add: triage_failed_def)
    then show ?thesis using fail_check_result [OF assms(2), of W i code b] TriageError by simp
  qed (use assms(1) still in \<open>simp_all add: triage_failed_def\<close>)
qed

text \<open>Every way a check can go.\<close>

definition records_answer :: "TriageOutput \<Rightarrow> VideoTriageCheckRecord \<Rightarrow> bool" where
  "records_answer o' c \<longleftrightarrow> vt_status c = TS_SUCCEEDED \<and> vt_action c = Some (tg_action o')
     \<and> vt_matched_terms c = tg_matched_terms o' \<and> vt_matched_requirement_keys c = tg_matched_requirement_keys o'"

definition case_opened :: "VideoTriageCheckRecord \<Rightarrow> db \<Rightarrow> bool" where
  "case_opened c s \<longleftrightarrow> (if vt_action c = Some TA_SKIP then vt_case_id c = None
     else \<exists>i x. vt_case_id c = Some i \<and> t_get ca_id i (db_cases s) = Some x \<and> ca_video_id x = vt_video_id c
       \<and> ca_policy_id x = vt_policy_id c \<and> ca_policy_version x = vt_policy_version c)"

lemma check_policy_cases:
  assumes "check_policy W i jid vid prof rec s = (r, s')" and "keys_distinct ca_id (db_cases s)" and "pol = pc_compiled_policy rec"
  obtains (known) "passed vid pol s" and "r = Inr False" and "s' = s"
  | (refused) e where "find_check vid pol s = None" and "r = Inl e" and "s' = s"
  | (raised) e c where "\<not> passed vid pol s" and "r = Inl e" and "only (vid, pol_policy_id pol, pol_version pol) s s'"
      and "find_check vid pol s' = Some c" and "unfinished_check e c"
  | (answered) o' c where "\<not> passed vid pol s" and "r = Inr True" and "only (vid, pol_policy_id pol, pol_version pol) s s'"
      and "find_check vid pol s' = Some c" and "records_answer o' c" and "validate_output pol o' = Inr ()" and "case_opened c s'"
proof (cases "start_check W i jid vid prof pol s")
  case (Inl e)
  then have "r = Inl e" "s' = s" "find_check vid pol s = None"
    using assms(1,3) by (auto simp: check_policy_def run_session_def start_check_def passed_def split: option.splits if_splits)
  then show ?thesis using refused by blast
next
  case (Inr x)
  obtain b s1 where x: "x = (b, s1)" by fastforce
  note st = start_check_Inr [OF Inr [unfolded x]]
  show ?thesis
  proof (cases b)
    case False
    then show ?thesis using st known assms(1,3) Inr x by (simp add: check_policy_def run_session_def)
  next
    case True
    then obtain c1 where np: "\<not> passed vid pol s" and o1: "only (vid, pol_policy_id pol, pol_version pol) s s1"
        and cs: "db_cases s1 = db_cases s" and c1: "find_check vid pol s1 = Some c1" "vt_status c1 = TS_RUNNING"
      using st by auto
    have stuck: ?thesis if "r = Inl e" "s' = s1" for e
      using that raised [OF np that(1)] o1 c1 by (simp add: unfinished_check_def)
    show ?thesis
    proof (cases "resolved_profile W prof")
      case (Inl e)
      then show ?thesis using stuck [of e] assms(1,3) Inr x True by (simp add: check_policy_def run_session_def)
    next
      case p: (Inr p)
      define fr where "fr = (if cy_image (vp_capabilities p) \<and> vp_gateway p \<noteq> ''mock'' then representative_frames W vid s1 else Inr [])"
      show ?thesis
      proof (cases fr)
        case (Inl e)
        then show ?thesis using stuck [of e] assms(1,3) Inr x True p
          by (simp add: check_policy_def run_session_def fr_def [symmetric])
      next
        case fs: (Inr fs)
        obtain a s2 where a: "ask_model W i jid vid prof p pol (video_text W vid s1) fs s1 = (a, s2)" by fastforce
        note k2 = ask_model_beside [OF a]
        have c2: "find_check vid pol s2 = Some c1" using find_check_beside [OF conjunct1 [OF k2]] c1 by simp
        show ?thesis
        proof (cases a)
          case (Inl e)
          obtain e' s3 where f: "triage_failed W i jid vid prof p pol (fs \<noteq> []) e s2 = (e', s3)" by fastforce
          have "r = Inl e'" "s' = s3" using assms(1,3) Inr x True p fs a Inl f
            by (simp_all add: check_policy_def run_session_def fr_def [symmetric])
          then show ?thesis using raised [OF np] triage_failed_result [OF f c2 c1(2)] only_trans [OF o1 only_trans [OF beside_only]] k2 by blast
        next
          case y: (Inr y)
          obtain o' m where y': "y = (o', m)" by fastforce
          obtain k s3 where o: "open_case W i vid prof pol (tg_action o') s2 = (k, s3)" by fastforce
          have kd: "keys_distinct ca_id (db_cases s2)" using k2 cs assms(2) by (simp add: beside_def cases_kept_def)
          note k3 = open_case_beside [OF o kd]
          have c3: "find_check vid pol s3 = Some c1" using find_check_beside [OF conjunct1 [OF k3]] c2 by simp
          have o3: "only (vid, pol_policy_id pol, pol_version pol) s s3"
            using only_trans [OF o1] only_trans [OF beside_only beside_only] k2 k3 by blast
          show ?thesis
          proof (cases k)
            case (Inl e)
            then have "r = Inl e" "s' = s3" using assms(1,3) Inr x True p fs a y y' o
              by (simp_all add: check_policy_def run_session_def fr_def [symmetric])
            then show ?thesis using raised [OF np] o3 c3 c1(2) by (simp add: unfinished_check_def)
          next
            case k: (Inr k')
            let ?f = "finished W i o' k' m"
            have r: "r = Inr True" and s': "s' = update_check vid pol ?f s3" using assms(1,3) Inr x True p fs a y y' o k c3
              by (simp_all add: check_policy_def run_session_def fr_def [symmetric] finish_check_def)
            have f: "find_check vid pol s' = Some (?f c1)" unfolding s' by (subst find_check_upd) (simp_all add: c3)
            have key: "vt_video_id c1 = vid" "vt_policy_id c1 = pol_policy_id pol" "vt_policy_version c1 = pol_version pol"
              using t_get_Some [OF c1(1) [unfolded find_check_def]] by (simp_all add: vt_key_def)
            have "db_cases s' = db_cases s3" by (simp add: s' update_check_def)
            then have "case_opened (?f c1) s'" using k3 k key by (auto simp: case_opened_def finished_def split: if_splits)
            moreover have "only (vid, pol_policy_id pol, pol_version pol) s s'" unfolding s' by (rule only_trans [OF o3 only_update]) simp
            moreover have "records_answer o' (?f c1)" by (simp add: records_answer_def finished_def)
            ultimately show ?thesis using answered [OF np r _ f] k2 y y' by blast
          qed
        qed
      qed
    qed
  qed
qed

section \<open>Successful checks are grounded\<close>

text \<open>
  Published policies are stored under the identifier and the version of their compiled form
  (\<open>save_version\<close> writes them so).
\<close>

definition policies_named :: "db \<Rightarrow> bool" where
  "policies_named s \<longleftrightarrow> keys_distinct pc_key (db_policies s) \<and> (\<forall>r\<in>set (db_policies s).
     pol_policy_id (pc_compiled_policy r) = pc_policy_id r \<and> pol_version (pc_compiled_policy r) = pc_version r)"

definition checks_grounded :: "db \<Rightarrow> bool" where
  "checks_grounded s \<longleftrightarrow> (\<forall>k c. t_get vt_key k (db_checks s) = Some c \<and> vt_status c = TS_SUCCEEDED \<longrightarrow> case_opened c s
     \<and> (\<exists>r o'. t_get pc_key (vt_policy_id c, vt_policy_version c) (db_policies s) = Some r \<and> records_answer o' c
         \<and> validate_output (pc_compiled_policy r) o' = Inr ()))"

lemma case_opened_kept:
  assumes "case_opened c s" and "cases_kept s s'"
  shows "case_opened c s'"
proof (cases "vt_action c = Some TA_SKIP")
  case False
  then obtain i x where "vt_case_id c = Some i" "t_get ca_id i (db_cases s) = Some x" "ca_video_id x = vt_video_id c"
      "ca_policy_id x = vt_policy_id c" "ca_policy_version x = vt_policy_version c"
    using assms(1) by (auto simp: case_opened_def)
  moreover from this obtain y where "t_get ca_id i (db_cases s') = Some y" "ca_video_id y = ca_video_id x"
      "ca_policy_id y = ca_policy_id x" "ca_policy_version y = ca_policy_version x"
    using cases_keptD [OF assms(2)] by blast
  ultimately show ?thesis using False by (auto simp: case_opened_def)
qed (use assms(1) in \<open>simp add: case_opened_def\<close>)

lemma check_policy_grounded:
  assumes "check_policy W i jid vid prof rec s = (r, s')" and "keys_distinct ca_id (db_cases s)" and "policies_named s"
    and "rec \<in> set (db_policies s)" and "checks_grounded s"
  shows "checks_grounded s'"
proof -
  let ?pol = "pc_compiled_policy rec"
  let ?K = "(vid, pol_policy_id ?pol, pol_version ?pol)"
  have step: "checks_grounded s'" if o: "only ?K s s'" and c: "find_check vid ?pol s' = Some c"
      and g: "vt_status c = TS_SUCCEEDED \<Longrightarrow> case_opened c s' \<and> (\<exists>o'. records_answer o' c \<and> validate_output ?pol o' = Inr ())" for c
    unfolding checks_grounded_def
  proof (intro allI impI)
    fix k d assume d: "t_get vt_key k (db_checks s') = Some d \<and> vt_status d = TS_SUCCEEDED"
    have pols: "db_policies s' = db_policies s" and kept: "cases_kept s s'" using o by (simp_all add: only_def)
    show "case_opened d s' \<and> (\<exists>r o'. t_get pc_key (vt_policy_id d, vt_policy_version d) (db_policies s') = Some r
        \<and> records_answer o' d \<and> validate_output (pc_compiled_policy r) o' = Inr ())"
    proof (cases "k = ?K")
      case True
      then have dc: "d = c" using c d by (simp add: find_check_def)
      have "vt_key c = ?K" using t_get_Some c by (fastforce simp: find_check_def)
      moreover have "t_get pc_key (pc_key rec) (db_policies s) = Some rec"
        using assms(3,4) t_get_complete by (auto simp: policies_named_def)
      ultimately have "t_get pc_key (vt_policy_id c, vt_policy_version c) (db_policies s') = Some rec"
        using assms(3,4) pols by (simp add: policies_named_def vt_key_def pc_key_def)
      then show ?thesis using g d dc by blast
    next
      case False
      then have "t_get vt_key k (db_checks s) = Some d" using only_other [OF o False] d by simp
      then have "case_opened d s \<and> (\<exists>r o'. t_get pc_key (vt_policy_id d, vt_policy_version d) (db_policies s) = Some r
          \<and> records_answer o' d \<and> validate_output (pc_compiled_policy r) o' = Inr ())"
        using assms(5) d unfolding checks_grounded_def by blast
      then show ?thesis using case_opened_kept [OF _ kept] by (simp add: pols)
    qed
  qed
  from assms(1,2) refl show ?thesis
  proof (cases rule: check_policy_cases)
    case (raised e c)
    then show ?thesis using step by (auto simp: unfinished_check_def)
  next
    case (answered o' c)
    then show ?thesis using step by blast
  qed (use assms(5) in simp_all)
qed

lemma check_policy_only:
  assumes "check_policy W i jid vid prof rec s = (r, s')" and "keys_distinct ca_id (db_cases s)"
  shows "only (vid, pol_policy_id (pc_compiled_policy rec), pol_version (pc_compiled_policy rec)) s s'"
  by (rule check_policy_cases [OF assms refl]) simp_all

text \<open>What a run of checks keeps: the invariants, the passed checks, and all that is not triage's.\<close>

definition triage_ready :: "db \<Rightarrow> bool" where
  "triage_ready s \<longleftrightarrow> policies_named s \<and> keys_distinct ca_id (db_cases s)"

lemma triage_ready_only: "only k s s' \<Longrightarrow> triage_ready s \<Longrightarrow> triage_ready s'"
  by (simp add: triage_ready_def only_def policies_named_def cases_kept_def)

definition kept_by_triage :: "db \<Rightarrow> db \<Rightarrow> bool" where
  "kept_by_triage s s' \<longleftrightarrow> db_policies s' = db_policies s \<and> db_jobs s' = db_jobs s \<and> db_videos s' = db_videos s
     \<and> (\<forall>k c. t_get vt_key k (db_checks s) = Some c \<and> vt_status c = TS_SUCCEEDED \<longrightarrow> t_get vt_key k (db_checks s') = Some c)"

lemma kept_by_triage_refl [simp]: "kept_by_triage s s"
  by (simp add: kept_by_triage_def)

lemma kept_by_triage_trans: "kept_by_triage s s1 \<Longrightarrow> kept_by_triage s1 s2 \<Longrightarrow> kept_by_triage s s2"
  unfolding kept_by_triage_def by simp

lemma only_kept:
  assumes "only (vid, pol_policy_id pol, pol_version pol) s s'" and "\<not> passed vid pol s"
  shows "kept_by_triage s s'"
proof -
  have "t_get vt_key k (db_checks s') = Some c" if c: "t_get vt_key k (db_checks s) = Some c" "vt_status c = TS_SUCCEEDED" for k c
  proof -
    have "k \<noteq> (vid, pol_policy_id pol, pol_version pol)" using assms(2) c by (auto simp: passed_def find_check_def)
    then show ?thesis using only_other [OF assms(1)] c by simp
  qed
  then show ?thesis using assms(1) by (simp add: kept_by_triage_def only_def)
qed

lemma check_policy_kept:
  assumes "check_policy W i jid vid prof rec s = (r, s')" and "keys_distinct ca_id (db_cases s)"
  shows "kept_by_triage s s'"
  by (rule check_policy_cases [OF assms refl]) (auto intro: only_kept)

lemma kept_passed: "kept_by_triage s s' \<Longrightarrow> passed vid pol s \<Longrightarrow> passed vid pol s'"
  by (auto simp: kept_by_triage_def passed_def find_check_def split: option.splits)

lemma check_policies_invariant:
  assumes "check_policies W jid vid prof i rs n s = (r, s')" and "triage_ready s" and "set rs \<subseteq> set (db_policies s)"
  shows "triage_ready s' \<and> kept_by_triage s s' \<and> (checks_grounded s \<longrightarrow> checks_grounded s')"
  using assms
proof (induction rs arbitrary: i n s)
  case Nil
  then show ?case by simp
next
  case (Cons p rs)
  obtain a s1 where 1: "check_policy W i jid vid prof p s = (a, s1)" by fastforce
  have kd: "keys_distinct ca_id (db_cases s)" and nm: "policies_named s" using Cons.prems(2) by (simp_all add: triage_ready_def)
  have k: "triage_ready s1 \<and> kept_by_triage s s1 \<and> (checks_grounded s \<longrightarrow> checks_grounded s1)"
    using triage_ready_only [OF check_policy_only [OF 1 kd] Cons.prems(2)] check_policy_kept [OF 1 kd]
      check_policy_grounded [OF 1 kd nm] Cons.prems(3) by simp
  show ?case
  proof (cases a)
    case (Inl e)
    then show ?thesis using Cons.prems(1) 1 k by simp
  next
    case (Inr b)
    have "set rs \<subseteq> set (db_policies s1)" using Cons.prems(3) k by (simp add: kept_by_triage_def)
    from Cons.IH [OF _ conjunct1 [OF k] this] show ?thesis
      using Cons.prems(1) 1 Inr k kept_by_triage_trans by fastforce
  qed
qed

lemma check_policies_passed:
  assumes "check_policies W jid vid prof i rs n s = (Inr m, s')" and "triage_ready s" and "set rs \<subseteq> set (db_policies s)"
    and "distinct (map pc_policy_id rs)"
  shows "(\<forall>p\<in>set rs. passed vid (pc_compiled_policy p) s')
    \<and> m = n + int (length (filter (\<lambda>p. \<not> passed vid (pc_compiled_policy p) s) rs))"
  using assms
proof (induction rs arbitrary: i n s)
  case Nil
  then show ?case by simp
next
  case (Cons p rs)
  let ?pol = "pc_compiled_policy p"
  obtain a s1 where 1: "check_policy W i jid vid prof p s = (a, s1)" by fastforce
  obtain b where a: "a = Inr b" using Cons.prems(1) 1 by (cases a) simp_all
  have kd: "keys_distinct ca_id (db_cases s)" using Cons.prems(2) by (simp add: triage_ready_def)
  have o: "only (vid, pol_policy_id ?pol, pol_version ?pol) s s1" by (rule check_policy_only [OF 1 kd])
  have ready: "triage_ready s1" by (rule triage_ready_only [OF o Cons.prems(2)])
  have sub: "set rs \<subseteq> set (db_policies s1)" using Cons.prems(3) o by (simp add: only_def)
  have rest: "check_policies W jid vid prof (Suc i) rs (if b then n + 1 else n) s1 = (Inr m, s')" using Cons.prems(1) 1 a by simp
  have d: "distinct (map pc_policy_id rs)" using Cons.prems(4) by simp
  note ih = Cons.IH [OF rest ready sub d]
  have "passed vid ?pol s1 \<and> b = (\<not> passed vid ?pol s)"
    by (rule check_policy_cases [OF 1 kd refl]) (simp_all add: a passed_def records_answer_def)
  moreover have "kept_by_triage s1 s'" using check_policies_invariant [OF rest ready sub] by simp
  moreover have "passed vid (pc_compiled_policy q) s1 = passed vid (pc_compiled_policy q) s" if q: "q \<in> set rs" for q
  proof -
    have "q \<in> set (db_policies s)" "p \<in> set (db_policies s)" using q Cons.prems(3) by auto
    then have "pol_policy_id (pc_compiled_policy q) = pc_policy_id q" "pol_policy_id ?pol = pc_policy_id p"
      using Cons.prems(2) by (simp_all add: triage_ready_def policies_named_def)
    moreover have "pc_policy_id q \<noteq> pc_policy_id p" using q Cons.prems(4) by (auto simp: image_iff)
    ultimately have "t_get vt_key (vid, pol_policy_id (pc_compiled_policy q), pol_version (pc_compiled_policy q)) (db_checks s1)
        = t_get vt_key (vid, pol_policy_id (pc_compiled_policy q), pol_version (pc_compiled_policy q)) (db_checks s)"
      by (intro only_other [OF o]) simp
    then show ?thesis by (simp add: passed_def find_check_def)
  qed
  then have "filter (\<lambda>q. \<not> passed vid (pc_compiled_policy q) s1) rs = filter (\<lambda>q. \<not> passed vid (pc_compiled_policy q) s) rs"
    by (intro filter_cong) simp_all
  ultimately show ?case using ih kept_passed by auto
qed

lemma check_policies_again:
  assumes "\<forall>p\<in>set rs. passed vid (pc_compiled_policy p) s"
  shows "check_policies W jid vid prof i rs n s = (Inr n, s)"
  using assms
proof (induction rs arbitrary: i n)
  case Nil
  then show ?case by simp
next
  case (Cons p rs)
  then obtain c where "find_check vid (pc_compiled_policy p) s = Some c" "vt_status c = TS_SUCCEEDED"
    by (auto simp: passed_def split: option.splits)
  then have "check_policy W i jid vid prof p s = (Inr False, s)"
    by (simp add: check_policy_def run_session_def start_check_def)
  then show ?case using Cons by simp
qed

lemma check_policies_failed:
  assumes "check_policies W jid vid prof i rs n s = (Inl e, s')" and "triage_ready s"
  shows "\<exists>p\<in>set rs. \<not> passed vid (pc_compiled_policy p) s' \<and> opt_all (unfinished_check e) (find_check vid (pc_compiled_policy p) s')"
  using assms
proof (induction rs arbitrary: i n s)
  case Nil
  then show ?case by simp
next
  case (Cons p rs)
  obtain a s1 where 1: "check_policy W i jid vid prof p s = (a, s1)" by fastforce
  have kd: "keys_distinct ca_id (db_cases s)" using Cons.prems(2) by (simp add: triage_ready_def)
  show ?case
  proof (cases a)
    case (Inl e')
    then have e: "e' = e" "s' = s1" using Cons.prems(1) 1 by simp_all
    have "\<not> passed vid (pc_compiled_policy p) s1 \<and> opt_all (unfinished_check e) (find_check vid (pc_compiled_policy p) s1)"
      by (rule check_policy_cases [OF 1 kd refl]) (auto simp: Inl e passed_def unfinished_check_def)
    then show ?thesis using e by simp
  next
    case (Inr b)
    have "check_policies W jid vid prof (Suc i) rs (if b then n + 1 else n) s1 = (Inl e, s')" using Cons.prems(1) 1 Inr by simp
    from Cons.IH [OF this triage_ready_only [OF check_policy_only [OF 1 kd] Cons.prems(2)]] show ?thesis by simp
  qed
qed

section \<open>The latest policies\<close>

lemma total_policy_le:
  assumes "total_preorder (coll E)"
  shows "total_preorder (policy_le E)"
proof -
  have tot: "coll E a b \<or> coll E b a" and trans: "coll E a b \<Longrightarrow> coll E b c \<Longrightarrow> coll E a c" for a b c
    using assms unfolding total_preorder_def by blast+
  have "policy_le E x z" if "policy_le E x y" "policy_le E y z" for x y z
    using that trans [of "pc_policy_id z" "pc_policy_id x" "pc_policy_id y"] trans [of "pc_policy_id y" "pc_policy_id z" "pc_policy_id x"]
      trans [of "pc_policy_id x" "pc_policy_id y" "pc_policy_id z"] by (auto simp: policy_le_def)
  moreover have "policy_le E x y \<or> policy_le E y x" for x y
    using tot [of "pc_policy_id x" "pc_policy_id y"] by (auto simp: policy_le_def)
  ultimately show ?thesis unfolding total_preorder_def by blast
qed

lemma first_of_each_set: "set (first_of_each seen rs) \<subseteq> {r \<in> set rs. pc_policy_id r \<notin> set seen}"
  by (induction seen rs rule: first_of_each.induct) (auto split: if_splits)

lemma first_of_each_distinct: "distinct (map pc_policy_id (first_of_each seen rs))"
proof (induction seen rs rule: first_of_each.induct)
  case (2 seen r rs)
  then show ?case using first_of_each_set [of "pc_policy_id r # seen" rs] by auto
qed simp

lemma first_of_each_represents:
  "q \<in> set rs \<Longrightarrow> pc_policy_id q \<notin> set seen \<Longrightarrow> \<exists>r\<in>set (first_of_each seen rs). pc_policy_id r = pc_policy_id q"
proof (induction seen rs rule: first_of_each.induct)
  case (2 seen r rs)
  then show ?case by (cases "pc_policy_id r \<in> set seen"; cases "pc_policy_id q = pc_policy_id r") auto
qed simp

lemma first_of_each_greatest:
  assumes "sorted_wrt (policy_le E) rs" and "total_preorder (coll E)" and "r \<in> set (first_of_each seen rs)" and "q \<in> set rs"
    and "pc_policy_id q = pc_policy_id r"
  shows "pc_version q \<le> pc_version r"
  using assms(1,3-5)
proof (induction seen rs rule: first_of_each.induct)
  case (2 seen p rs)
  have refl: "coll E x x" for x using assms(2) unfolding total_preorder_def by blast
  show ?case
  proof (cases "pc_policy_id p \<in> set seen")
    case True
    then have r: "r \<in> set (first_of_each seen rs)" using "2.prems"(2) by simp
    then have "q \<noteq> p" using first_of_each_set [of seen rs] True "2.prems"(4) by auto
    then show ?thesis using "2.IH"(1) [OF True] "2.prems" r by simp
  next
    case False
    show ?thesis
    proof (cases "r = p")
      case True
      then show ?thesis using "2.prems" refl by (auto simp: policy_le_def)
    next
      case np: False
      then have r: "r \<in> set (first_of_each (pc_policy_id p # seen) rs)" using "2.prems"(2) False by simp
      then have "q \<noteq> p" using first_of_each_set [of "pc_policy_id p # seen" rs] "2.prems"(4) by auto
      then show ?thesis using "2.IH"(2) [OF False] "2.prems" r by simp
    qed
  qed
qed simp

lemma latest_sub: "set (latest_enabled_policies E s) \<subseteq> set (db_policies s)"
  unfolding latest_enabled_policies_def using first_of_each_set [of "[]" "sort_by (policy_le E) (filter triable (db_policies s))"] by auto

text \<open>A version that triage considers: published, enabled, and none such is later.\<close>

definition is_latest :: "PolicyRecord \<Rightarrow> db \<Rightarrow> bool" where
  "is_latest r s \<longleftrightarrow> r \<in> set (db_policies s) \<and> triable r
     \<and> (\<forall>q\<in>set (db_policies s). triable q \<and> pc_policy_id q = pc_policy_id r \<longrightarrow> pc_version q \<le> pc_version r)"

lemma latest_iff:
  assumes "total_preorder (coll E)" and "keys_distinct pc_key (db_policies s)"
  shows "r \<in> set (latest_enabled_policies E s) \<longleftrightarrow> is_latest r s"
proof -
  let ?rs = "sort_by (policy_le E) (filter triable (db_policies s))"
  have sorted: "sorted_wrt (policy_le E) ?rs" by (rule sorted_sort_by [OF total_policy_le [OF assms(1)]])
  have set: "set ?rs = {r \<in> set (db_policies s). triable r}" by auto
  have member: "r \<in> set (db_policies s) \<and> triable r" if r: "r \<in> set (first_of_each [] ?rs)" for r
    using subsetD [OF first_of_each_set r] set by blast
  have greatest: "pc_version q \<le> pc_version r"
    if r: "r \<in> set (first_of_each [] ?rs)" and q: "q \<in> set (db_policies s)" "triable q" "pc_policy_id q = pc_policy_id r" for r q
  proof -
    have "q \<in> set ?rs" using set q by blast
    then show ?thesis by (rule first_of_each_greatest [OF sorted assms(1) r _ q(3)])
  qed
  have conv: "r \<in> set (first_of_each [] ?rs)" if l: "is_latest r s"
  proof -
    have m: "r \<in> set (db_policies s)" "triable r" using l by (simp_all add: is_latest_def)
    then have "r \<in> set ?rs" using set by blast
    then obtain q where q: "q \<in> set (first_of_each [] ?rs)" "pc_policy_id q = pc_policy_id r"
      using first_of_each_represents [of r ?rs "[]"] by auto
    have "pc_version r \<le> pc_version q" using greatest [OF q(1) m] q(2) by simp
    moreover have "pc_version q \<le> pc_version r" using l member [OF q(1)] q(2) unfolding is_latest_def by blast
    ultimately have key: "pc_key q = pc_key r" using q(2) by (simp add: pc_key_def)
    have "Some q = t_get pc_key (pc_key q) (db_policies s)" by (rule t_get_complete [OF assms(2) conjunct1 [OF member [OF q(1)]], symmetric])
    also have "\<dots> = Some r" unfolding key by (rule t_get_complete [OF assms(2) m(1)])
    finally show ?thesis using q(1) by simp
  qed
  have "is_latest r s" if "r \<in> set (first_of_each [] ?rs)"
    unfolding is_latest_def using member [OF that] greatest [OF that] by blast
  then show ?thesis using conv unfolding latest_enabled_policies_def by blast
qed

section \<open>Which keyframes are shown\<close>

text \<open>The frames shown are the first, the last and others between them, in order and none twice.\<close>

lemma py_round_int [simp]: "py_round (of_int m) = m"
  by (simp add: py_round_def Let_def)

lemma py_round_near: "of_int (py_round x) - 1 / 2 \<le> x \<and> x \<le> of_int (py_round x) + 1 / 2"
proof -
  have "of_int \<lfloor>x\<rfloor> \<le> x" "x < of_int \<lfloor>x\<rfloor> + 1" by linarith+
  then show ?thesis unfolding py_round_def Let_def by (cases "x - of_int \<lfloor>x\<rfloor> < 1 / 2"; cases "1 / 2 < x - of_int \<lfloor>x\<rfloor>"; cases "even \<lfloor>x\<rfloor>"; simp; linarith)
qed

lemma py_round_strict: "x + 1 < y \<Longrightarrow> py_round x < py_round y"
  using py_round_near [of x] py_round_near [of y] by linarith

lemma frame_indexes_bounds:
  assumes "1 \<le> k" and "k \<le> n"
  shows "length (frame_indexes k n) = k \<and> sorted_wrt (<) (frame_indexes k n) \<and> hd (frame_indexes k n) = 0
    \<and> (2 \<le> k \<longrightarrow> last (frame_indexes k n) = n - 1) \<and> (\<forall>i\<in>set (frame_indexes k n). i < n)"
proof (cases "k = 1")
  case True
  then show ?thesis using assms by (simp add: frame_indexes_def)
next
  case False
  then have k: "2 \<le> k" using assms by simp
  define x where "x i = (of_nat (i * (n - 1)) / of_nat (k - 1) :: rat)" for i
  define f where "f i = py_round (x i)" for i
  have idx: "frame_indexes k n = map (\<lambda>i. nat (f i)) [0..<k]" using False by (simp add: frame_indexes_def f_def x_def)
  have step: "x (Suc i) = x i + of_nat (n - 1) / of_nat (k - 1)" for i 
    unfolding x_def by (simp only: mult_Suc of_nat_add add_divide_distrib add.commute)
  have up: "f i < f (Suc i)" for i
  proof (cases "n = k")
    case True
    then have "x j = of_int (int j)" for j using k by (simp add: x_def)
    then show ?thesis by (simp only: f_def py_round_int)
  next
    case False
    then have "(1::rat) < of_nat (n - 1) / of_nat (k - 1)" using assms k by (simp add: less_divide_eq)
    then show ?thesis unfolding f_def step by (intro py_round_strict) simp
  qed
  have x0: "x 0 = of_int 0" and xk: "x (k - 1) = of_int (int (n - 1))" using k by (simp_all add: x_def)
  have f0: "f 0 = 0" unfolding f_def x0 by (rule py_round_int)
  have fk: "f (k - 1) = int (n - 1)" unfolding f_def xk by (rule py_round_int)
  have mono: "i < j \<Longrightarrow> f i < f j" for i j by (rule lift_Suc_mono_less [of f, OF up])
  have low: "0 \<le> f i" for i using mono [of 0 i] f0 by (cases "i = 0") auto
  have high: "f i \<le> int (n - 1)" if "i < k" for i 
  proof (cases "i = k - 1")
    case False
    then have "f i < f (k - 1)" using that by (intro mono) simp
    then show ?thesis using fk by simp
  qed (use fk in simp)
  have "nat (f i) < nat (f j)" if "i < j" for i j using mono [OF that] low [of i] by simp
  then have "sorted_wrt (<) (frame_indexes k n)" by (simp add: idx sorted_wrt_iff_nth_less)
  moreover have "hd (frame_indexes k n) = 0" using k f0 by (simp add: idx hd_map upt_conv_Cons)
  moreover have "last (frame_indexes k n) = n - 1" using k fk by (simp add: idx last_map)
  moreover have "\<forall>i\<in>set (frame_indexes k n). i < n" using high k assms by (fastforce simp: idx)
  ultimately show ?thesis by (simp add: idx)
qed

section \<open>A triage\<close>

lemma triage_status_frame [simp]:
  "db_policies (update_video i f s) = db_policies s" "db_cases (update_video i f s) = db_cases s"
  "db_checks (update_video i f s) = db_checks s"
  by (simp_all add: update_video_def)

lemma set_triage_status_simps [simp]:
  "vd_id (set_triage_status now st v) = vd_id v" "vd_triage_status (set_triage_status now st v) = st"
  by (simp_all add: set_triage_status_def)

lemma triage_ready_video [simp]: "triage_ready (update_video i f s) = triage_ready s"
  by (simp add: triage_ready_def policies_named_def)

lemma checks_grounded_video [simp]: "checks_grounded (update_video i f s) = checks_grounded s"
  by (simp add: checks_grounded_def case_opened_def)

lemma passed_video [simp]: "passed vid pol (update_video i f s) = passed vid pol s"
  by (simp add: passed_def find_check_def)

lemma latest_video [simp]: "latest_enabled_policies E (update_video i f s) = latest_enabled_policies E s"
  by (simp add: latest_enabled_policies_def)

lemma triage_runs:
  assumes "triage W jid vid prof s = (r, s')" and "cfg_auto_triage (tgw_settings W)"
  obtains s1 where "check_policies W jid vid prof 0 (latest_enabled_policies (tgw_env W) s) 0
      (update_video vid (set_triage_status (tgw_video_now W 0) ''RUNNING'') s) = (r, s1)"
    and "s' = update_video vid (set_triage_status (tgw_video_now W 1) (case r of Inl _ \<Rightarrow> ''FAILED'' | Inr _ \<Rightarrow> ''SUCCEEDED'')) s1"
proof -
  obtain a s1 where "check_policies W jid vid prof 0 (latest_enabled_policies (tgw_env W) s) 0
      (update_video vid (set_triage_status (tgw_video_now W 0) ''RUNNING'') s) = (a, s1)" by fastforce
  then show ?thesis using that assms by (cases a) (auto simp: triage_def)
qed

text \<open>A triage leaves the jobs alone, as the handler of media jobs relies on.\<close>

lemma triage_jobs:
  assumes "triage W jid vid prof s = (r, s')" and "triage_ready s"
  shows "db_jobs s' = db_jobs s \<and> triage_ready s' \<and> (checks_grounded s \<longrightarrow> checks_grounded s')"
proof (cases "cfg_auto_triage (tgw_settings W)")
  case True
  let ?s = "update_video vid (set_triage_status (tgw_video_now W 0) ''RUNNING'') s"
  obtain s1 where 1: "check_policies W jid vid prof 0 (latest_enabled_policies (tgw_env W) s) 0 ?s = (r, s1)"
    and s': "s' = update_video vid (set_triage_status (tgw_video_now W 1) (case r of Inl _ \<Rightarrow> ''FAILED'' | Inr _ \<Rightarrow> ''SUCCEEDED'')) s1"
    using triage_runs [OF assms(1) True] by blast
  have "triage_ready ?s" using assms(2) by simp
  from check_policies_invariant [OF 1 this] latest_sub show ?thesis by (simp add: s' kept_by_triage_def)
qed (use assms in \<open>auto simp: triage_def\<close>)

text \<open>
  C33. A triage that ends well has checked the video against the latest version of every published and
  enabled policy, each once: it counts the policies the video had not passed before, and every later triage
  of the video, under any profile and with any models, finds nothing to do and only writes the video's status.
\<close>

theorem triage_complete:
  assumes "triage W jid vid prof s = (Inr n, s')" and "cfg_auto_triage (tgw_settings W)" and "triage_ready s"
    and "total_preorder (coll (tgw_env W))" and "total_preorder (coll (tgw_env W2))" and "cfg_auto_triage (tgw_settings W2)"
  shows "(\<forall>r. is_latest r s \<longrightarrow> passed vid (pc_compiled_policy r) s')
    \<and> n = int (card {r. is_latest r s \<and> \<not> passed vid (pc_compiled_policy r) s})
    \<and> triage W2 jid2 vid prof2 s' = (Inr 0, update_video vid (set_triage_status (tgw_video_now W2 1) ''SUCCEEDED'')
        (update_video vid (set_triage_status (tgw_video_now W2 0) ''RUNNING'') s'))"
proof -
  let ?rs = "latest_enabled_policies (tgw_env W) s" and ?s = "update_video vid (set_triage_status (tgw_video_now W 0) ''RUNNING'') s"
  obtain s1 where 1: "check_policies W jid vid prof 0 ?rs 0 ?s = (Inr n, s1)"
    and s': "s' = update_video vid (set_triage_status (tgw_video_now W 1) ''SUCCEEDED'') s1"
    using triage_runs [OF assms(1,2)] by (auto split: sum.splits)
  have ready: "triage_ready ?s" and sub: "set ?rs \<subseteq> set (db_policies ?s)" and kd: "keys_distinct pc_key (db_policies s)"
    using assms(3) latest_sub by (simp_all add: triage_ready_def policies_named_def)
  have dist: "distinct (map pc_policy_id ?rs)" by (simp add: latest_enabled_policies_def first_of_each_distinct)
  have set: "set ?rs = {r. is_latest r s}" using latest_iff [OF assms(4) kd] by auto
  note p = check_policies_passed [OF 1 ready sub dist]
  have all: "\<forall>r. is_latest r s \<longrightarrow> passed vid (pc_compiled_policy r) s'" using p set by (simp add: s')
  have "distinct (filter (\<lambda>r. \<not> passed vid (pc_compiled_policy r) s) ?rs)" using dist by (simp add: distinct_map)
  then have n: "n = int (card {r. is_latest r s \<and> \<not> passed vid (pc_compiled_policy r) s})"
    using p set distinct_card [of "filter (\<lambda>r. \<not> passed vid (pc_compiled_policy r) s) ?rs"] by simp
  have pols: "db_policies s' = db_policies s"
    using check_policies_invariant [OF 1 ready sub] by (simp add: s' kept_by_triage_def)
  then have "set (latest_enabled_policies (tgw_env W2) s') = {r. is_latest r s}"
    using latest_iff [OF assms(5), of s'] kd by (auto simp: is_latest_def)
  then have "check_policies W2 jid2 vid prof2 0 (latest_enabled_policies (tgw_env W2) s') 0
      (update_video vid (set_triage_status (tgw_video_now W2 0) ''RUNNING'') s')
      = (Inr 0, update_video vid (set_triage_status (tgw_video_now W2 0) ''RUNNING'') s')"
    using all by (intro check_policies_again) simp
  then show ?thesis using all n assms(6) by (simp add: triage_def)
qed

text \<open>
  C34. Whatever a triage ends with, the successful checks are grounded: what they recorded names trigger terms
  and requirements of their policy only, and unless the policy was skipped there is a case of that video under
  that version of that policy.
\<close>

theorem triage_checks_grounded:
  assumes "triage W jid vid prof s = (r, s')" and "triage_ready s" and "checks_grounded s"
  shows "checks_grounded s' \<and> triage_ready s'"
  using triage_jobs [OF assms(1,2)] assms(3) by simp

text \<open>
  C35. A triage that raises marks the video failed, keeps every check that had passed, and leaves an
  unfinished check of a policy that it was to check: absent, still running, or failed with the code of
  the \<open>TriageError\<close> that is raised. Jobs and policies are untouched.
\<close>

theorem triage_failure:
  assumes "triage W jid vid prof s = (Inl e, s')" and "triage_ready s"
  shows "(\<forall>v. t_get vd_id vid (db_videos s') = Some v \<longrightarrow> vd_triage_status v = ''FAILED'')
    \<and> (\<forall>k c. t_get vt_key k (db_checks s) = Some c \<and> vt_status c = TS_SUCCEEDED \<longrightarrow> t_get vt_key k (db_checks s') = Some c)
    \<and> (\<exists>r\<in>set (db_policies s). triable r \<and> opt_all (unfinished_check e) (find_check vid (pc_compiled_policy r) s'))
    \<and> db_jobs s' = db_jobs s \<and> db_policies s' = db_policies s"
proof -
  let ?rs = "latest_enabled_policies (tgw_env W) s" and ?s = "update_video vid (set_triage_status (tgw_video_now W 0) ''RUNNING'') s"
  have auto: "cfg_auto_triage (tgw_settings W)" using assms(1) by (auto simp: triage_def split: if_splits)
  obtain s1 where 1: "check_policies W jid vid prof 0 ?rs 0 ?s = (Inl e, s1)"
    and s': "s' = update_video vid (set_triage_status (tgw_video_now W 1) ''FAILED'') s1"
    using triage_runs [OF assms(1) auto] by (auto split: sum.splits)
  have ready: "triage_ready ?s" and sub: "set ?rs \<subseteq> set (db_policies ?s)"
    using assms(2) latest_sub by simp_all
  have kept: "kept_by_triage ?s s1" using check_policies_invariant [OF 1 ready sub] by simp
  obtain p where "p \<in> set ?rs" and u: "opt_all (unfinished_check e) (find_check vid (pc_compiled_policy p) s1)"
    using check_policies_failed [OF 1 ready] by blast
  then have p: "p \<in> set (db_policies s) \<and> triable p"
    using first_of_each_set [of "[]" "sort_by (policy_le (tgw_env W)) (filter triable (db_policies s))"]
    by (auto simp: latest_enabled_policies_def)
  have "opt_all (unfinished_check e) (find_check vid (pc_compiled_policy p) s')" using u by (simp add: s' find_check_def)
  moreover have "\<forall>v. t_get vd_id vid (db_videos s') = Some v \<longrightarrow> vd_triage_status v = ''FAILED''"
    by (auto simp: s' t_get_upd)
  ultimately show ?thesis using p kept by (auto simp: s' kept_by_triage_def)
qed

end
