(* ===== verification/TriageDemo.thy ===== *)
theory TriageDemo
  imports TriageRuns MediaDemo
begin

text \<open>
  A worked triage: a ready video whose description names the trigger term of the only policy. The
  stand-in opens a case; a provider that times out fails the check, with the call recorded.
\<close>

definition spoken_knife :: SearchDocumentRecord where
  "spoken_knife = \<lparr> sd_id = ''d1'', sd_video_id = ''v1'', sd_segment_id = None, sd_artifact_id = ''a1'', sd_modality = ''vision'',
     sd_start_ms = 0, sd_end_ms = 1000, sd_text = u ''a knife'', sd_normalized_text = u ''a knife'',
     sd_keyword_lexemes = u ''a knife'', sd_embedding = None, sd_embedding_space = None, sd_embedding_model = None,
     sd_embedding_source_sha256 = None, sd_embedding_updated_at = None, sd_created_at = 0, sd_updated_at = 0 \<rparr>"

definition triage_db :: db where
  "triage_db = demo_db\<lparr>db_jobs := [upload_job], db_documents := [spoken_knife]\<rparr>"

definition triage_demo :: "string \<Rightarrow> triage_world" where
  "triage_demo gateway = \<lparr> tgw_env = demo_env, tgw_nfkc = id, tgw_settings = default_settings, tgw_store = demo_store,
     tgw_config = demo_config gateway, tgw_environment = demo_environment,
     tgw_provider = demo_provider\<lparr>pv_client := (\<lambda>url key n args. Inl API_Timeout)\<rparr>, tgw_read = (\<lambda>p. Inr []), tgw_mime = (\<lambda>n. None),
     tgw_str = (\<lambda>j. ''text''), tgw_hex = (\<lambda>i k n. [''abcdefgh'' ! n]), tgw_now = (\<lambda>i k. 20), tgw_video_now = (\<lambda>k. 20) \<rparr>"

lemma triage_demo_simps [simp]:
  "tgw_env (triage_demo g) = demo_env" "tgw_nfkc (triage_demo g) = id" "tgw_settings (triage_demo g) = default_settings"
  "tgw_config (triage_demo g) = demo_config g" "tgw_environment (triage_demo g) = demo_environment"
  "tgw_provider (triage_demo g) = demo_provider\<lparr>pv_client := (\<lambda>url key n args. Inl API_Timeout)\<rparr>" "tgw_hex (triage_demo g) i k = (\<lambda>n. [''abcdefgh'' ! n])"
  "tgw_now (triage_demo g) i k = 20" "tgw_video_now (triage_demo g) k = 20"
  by (simp_all add: triage_demo_def)

definition demo_policy_row :: PolicyRecord where
  "demo_policy_row = new_policy_row 0 demo_source demo_policy PL_PUBLISHED"

lemma triage_db_simps [simp]:
  "db_policies triage_db = [demo_policy_row]" "db_checks triage_db = []" "db_cases triage_db = []" "db_calls triage_db = []"
  "db_jobs triage_db = [upload_job]" "db_videos triage_db = [demo_video]" "db_documents triage_db = [spoken_knife]" "db_requirements triage_db = []"
  by (simp_all add: triage_db_def demo_db_def demo_policy_row_def empty_db_def)

lemma demo_policy_row_simps [simp]:
  "pc_policy_id demo_policy_row = ''safety.weapon''" "pc_version demo_policy_row = 1" "pc_compiled_policy demo_policy_row = demo_policy"
  "pc_key demo_policy_row = (''safety.weapon'', 1)" "triable demo_policy_row" "pc_lifecycle demo_policy_row = PL_PUBLISHED"
  "pol_policy_id demo_policy = ''safety.weapon''" "pol_version demo_policy = 1" "pol_trigger_terms demo_policy = [u ''knife'']"
  by (simp_all add: demo_policy_row_def new_policy_row_def demo_policy_def pc_key_def triable_def)

lemma demo_coll_total: "total_preorder (coll demo_env)"
  by (auto simp: total_preorder_def demo_env_def)

lemma triage_db_ready: "triage_ready triage_db" "checks_grounded triage_db"
  by (simp_all add: triage_ready_def policies_named_def keys_distinct_def checks_grounded_def)

lemma demo_auto_triage: "cfg_auto_triage default_settings"
  by (simp add: default_settings_def)

lemma demo_latest: "latest_enabled_policies demo_env triage_db = [demo_policy_row]"
  by (simp add: latest_enabled_policies_def)

definition demo_check :: "string \<Rightarrow> VideoTriageCheckRecord" where
  "demo_check g = new_check (triage_demo g) 0 ''j1'' ''v1'' ''mock'' demo_policy"

definition started_db :: "string \<Rightarrow> db" where
  "started_db g = (update_video ''v1'' (set_triage_status 20 ''RUNNING'') triage_db)\<lparr>db_checks := [demo_check g]\<rparr>"

lemma started_db_simps [simp]:
  "db_policies (started_db g) = [demo_policy_row]" "db_checks (started_db g) = [demo_check g]" "db_cases (started_db g) = []"
  "db_calls (started_db g) = []" "db_jobs (started_db g) = [upload_job]" "db_documents (started_db g) = [spoken_knife]"
  "db_videos (started_db g) = [set_triage_status 20 ''RUNNING'' demo_video]" "db_requirements (started_db g) = []"
  by (simp_all add: started_db_def update_video_def t_upd_Cons demo_video_def)

lemma demo_check_simps [simp]: "vt_key (demo_check g) = (''v1'', ''safety.weapon'', 1)" "vt_status (demo_check g) = TS_RUNNING"
  by (simp_all add: demo_check_def new_check_def vt_key_def)

lemma demo_started: "start_check (triage_demo g) 0 ''j1'' ''v1'' ''mock'' demo_policy (update_video ''v1'' (set_triage_status 20 ''RUNNING'') triage_db)
    = Inr (True, started_db g)"
proof -
  have "t_get vd_id ''v1'' (t_upd vd_id ''v1'' (set_triage_status 20 ''RUNNING'') [demo_video]) \<noteq> None"
    by (simp add: t_get_upd t_get_Cons demo_video_def)
  then have "insert_check (demo_check g) (update_video ''v1'' (set_triage_status 20 ''RUNNING'') triage_db) = Inr (started_db g)"
    by (simp add: insert_check_def started_db_def t_get_Cons) (simp add: demo_check_def new_check_def)
  then show ?thesis by (simp add: start_check_def find_check_def demo_check_def [symmetric])
qed

lemma demo_shown: "video_text (triage_demo g) ''v1'' (started_db h) = u ''a knife''"
  by (simp add: video_text_def default_settings_def spoken_knife_def u_def)

definition opened_output :: TriageOutput where
  "opened_output = \<lparr> tg_action = TA_CREATE_CASE, tg_confidence = 1, tg_reason_code = ''TRIGGER_TERM_MATCHED'',
     tg_matched_terms = [u ''knife''], tg_matched_requirement_keys = [''weapon_visible''],
     tg_summary = u ''Deterministic Mock triage result.'' \<rparr>"

lemma demo_normal: "normalize_text id (u ''a knife'') = u ''a knife''" "normalize_text id (u ''knife'') = u ''knife''"
  by (simp_all add: normalize_text_def u_def py_isspace_def py_strip_def)

definition mock_profile :: ResolvedModelProfile where
  "mock_profile = \<lparr> vp_name = ''demo'', vp_gateway = ''mock'', vp_base_url = None, vp_api_key = None, vp_model = ''mock-stage0'',
     vp_defaults = pf_defaults (demo_profile ''mock''), vp_capabilities = pf_capabilities (demo_profile ''mock'') \<rparr>"

lemma demo_profiles:
  "resolved_profile (triage_demo ''mock'') ''mock'' = Inr mock_profile" "vp_gateway mock_profile = ''mock''"
  "resolved_profile (triage_demo ''openai_compatible'') ''mock'' = Inr demo_resolved" "vp_gateway demo_resolved = ''openai_compatible''"
  "\<not> cy_image (vp_capabilities demo_resolved)"
  by (simp_all add: resolved_profile_def demo_loads demo_names demo_resolves)
    (simp_all add: resolve_model_profile_def mock_profile_def demo_resolved_def demo_profile_def)

lemma demo_asked: "ask_model (triage_demo ''mock'') 0 ''j1'' ''v1'' ''mock'' mock_profile
    demo_policy (u ''a knife'') [] s = (Inr (opened_output, None), s)"
proof -
  have "sublist (u ''knife'') (u ''a knife'')" by (simp add: u_def sublist_code)
  then have "mock_output id demo_policy (u ''a knife'') = opened_output"
    by (simp add: mock_output_def demo_normal opened_output_def) (simp add: demo_policy_def compile_ordinary_def seal_template_def)
  moreover have "validate_output demo_policy opened_output = Inr ()"
    by (simp add: validate_output_def opened_output_def) (simp add: demo_policy_def compile_ordinary_def seal_template_def)
  ultimately show ?thesis by (simp add: ask_model_def demo_profiles)
qed

lemma demo_opened: "\<exists>c s2. open_case (triage_demo ''mock'') 0 ''v1'' ''mock'' demo_policy TA_CREATE_CASE (started_db g) = (Inr (Some c), s2)
    \<and> find_check ''v1'' demo_policy s2 = Some (demo_check g)"
proof -
  have "\<exists>b s2. create_case demo_env 20 (\<lambda>n. [''abcdefgh'' ! n]) ''v1'' ''safety.weapon'' 1 ''mock'' None (started_db g) = Inr (b, s2)"
    by (simp add: create_case_def t_get_Cons find_case_def instantiate_case_def t_add_def requirement_rows_def Let_def demo_video_def
        set_triage_status_def)
      (simp add: demo_policy_def t_add_def)
  then obtain b s2 where c: "create_case_session demo_env 20 (\<lambda>n. [''abcdefgh'' ! n]) ''v1'' ''safety.weapon'' 1 ''mock'' None (started_db g) = (Inr b, s2)"
    by (auto simp: create_case_session_def run_session_def)
  have "beside (started_db g) s2" using create_case_session_beside [OF c] by (simp add: keys_distinct_def)
  then have "find_check ''v1'' demo_policy s2 = find_check ''v1'' demo_policy (started_db g)" by (rule find_check_beside)
  then have "find_check ''v1'' demo_policy s2 = Some (demo_check g)" by (simp add: find_check_def t_get_Cons)
  moreover have "open_case (triage_demo ''mock'') 0 ''v1'' ''mock'' demo_policy TA_CREATE_CASE (started_db g)
      = (Inr (Some (cm_case_id (cb_case b))), s2)"
    using c by (simp add: open_case_def Let_def)
  ultimately show ?thesis by blast
qed

lemma demo_checked: "\<exists>s'. check_policy (triage_demo ''mock'') 0 ''j1'' ''v1'' ''mock'' demo_policy_row
    (update_video ''v1'' (set_triage_status 20 ''RUNNING'') triage_db) = (Inr True, s')"
proof -
  obtain c s2 where o: "open_case (triage_demo ''mock'') 0 ''v1'' ''mock'' demo_policy TA_CREATE_CASE (started_db ''mock'') = (Inr (Some c), s2)"
    and f: "find_check ''v1'' demo_policy s2 = Some (demo_check ''mock'')"
    using demo_opened by blast
  have "tg_action opened_output = TA_CREATE_CASE" by (simp add: opened_output_def)
  then show ?thesis using o f
    by (simp add: check_policy_def run_session_def demo_started demo_shown demo_asked finish_check_def demo_profiles)
qed

lemma demo_triage: "\<exists>s'. triage (triage_demo ''mock'') ''j1'' ''v1'' ''mock'' triage_db = (Inr 1, s')"
proof -
  obtain s' where "check_policy (triage_demo ''mock'') 0 ''j1'' ''v1'' ''mock'' demo_policy_row
      (update_video ''v1'' (set_triage_status 20 ''RUNNING'') triage_db) = (Inr True, s')"
    using demo_checked by blast
  then show ?thesis by (simp add: triage_def demo_auto_triage demo_latest)
qed

lemma demo_times_out: "openai_generate (openai_of (demo_provider\<lparr>pv_client := (\<lambda>url key n args. Inl API_Timeout)\<rparr>) demo_resolved a b)
    (triage_request W p vid pol t []) = Inl (ModelError ME_TIMEOUT True)"
proof -
  let ?G = "openai_of (demo_provider\<lparr>pv_client := (\<lambda>url key n args. Inl API_Timeout)\<rparr>) demo_resolved a b"
  have "generate_once ?G (triage_request W p vid pol t []) n = Inl (ModelError ME_TIMEOUT True)" for n
    by (simp add: generate_once_def build_messages_def triage_request_def openai_of_def api_model_error_def)
  moreover have "og_max_attempts ?G = Suc (Suc 0)" by (simp add: openai_of_def demo_resolved_def demo_profile_def)
  ultimately show ?thesis by (simp add: openai_generate_def attempts_Suc)
qed

lemma demo_recorded: "\<exists>i s2. record_model_call (triage_demo g) 0 ''j1'' ''v1'' ''mock'' p demo_policy False (Inr code) (started_db h) = (Inr i, s2)
    \<and> find_check ''v1'' demo_policy s2 = Some (demo_check h)"
proof -
  have v: "t_get vd_id ''v1'' (db_videos (started_db h)) \<noteq> None" by (simp add: t_get_Cons demo_video_def)
  have "\<exists>i s2. record_model_call (triage_demo g) 0 ''j1'' ''v1'' ''mock'' p demo_policy False (Inr code) (started_db h) = (Inr i, s2)"
    using v by (simp add: record_model_call_def find_triage_call_def run_session_def t_get_Cons t_add_def Let_def)
  then obtain i s2 where r: "record_model_call (triage_demo g) 0 ''j1'' ''v1'' ''mock'' p demo_policy False (Inr code) (started_db h) = (Inr i, s2)"
    by blast
  have "find_check ''v1'' demo_policy s2 = Some (demo_check h)"
    using find_check_beside [OF record_model_call_beside [OF r], of "''v1''" demo_policy] by (simp add: find_check_def t_get_Cons)
  then show ?thesis using r by blast
qed

lemma demo_triage_fails: "\<exists>s'. triage (triage_demo ''openai_compatible'') ''j1'' ''v1'' ''mock'' triage_db = (Inl (TriageError ''MODEL_TIMEOUT'' True), s')"
proof -
  let ?p = demo_resolved
  obtain i s2 where r: "record_model_call (triage_demo ''openai_compatible'') 0 ''j1'' ''v1'' ''mock'' ?p demo_policy False (Inr ME_TIMEOUT) (started_db ''openai_compatible'') = (Inr i, s2)"
    using demo_recorded by blast
  have "ask_model (triage_demo ''openai_compatible'') 0 ''j1'' ''v1'' ''mock'' ?p demo_policy (u ''a knife'') [] (started_db ''openai_compatible'')
      = (Inl (ModelError ME_TIMEOUT True), started_db ''openai_compatible'')"
    by (simp add: ask_model_def demo_profiles demo_builds demo_names demo_times_out)
  then have "\<exists>s'. check_policy (triage_demo ''openai_compatible'') 0 ''j1'' ''v1'' ''mock'' demo_policy_row
      (update_video ''v1'' (set_triage_status 20 ''RUNNING'') triage_db) = (Inl (TriageError ''MODEL_TIMEOUT'' True), s')"
    using r by (simp add: check_policy_def run_session_def demo_started demo_shown triage_failed_def demo_profiles)
  then show ?thesis by (auto simp: triage_def demo_auto_triage demo_latest)
qed

lemma triage_complete_witness:
  "\<exists>s'. triage (triage_demo ''mock'') ''j1'' ''v1'' ''mock'' triage_db = (Inr 1, s') \<and> passed ''v1'' demo_policy s'
     \<and> fst (triage (triage_demo ''openai_compatible'') ''j2'' ''v1'' ''other'' s') = Inr 0"
proof -
  obtain s' where t: "triage (triage_demo ''mock'') ''j1'' ''v1'' ''mock'' triage_db = (Inr 1, s')" using demo_triage by blast
  have "is_latest demo_policy_row triage_db" by (simp add: is_latest_def)
  moreover have "total_preorder (coll (tgw_env (triage_demo g)))" "cfg_auto_triage (tgw_settings (triage_demo g))" for g
    by (simp_all add: demo_coll_total demo_auto_triage)
  ultimately show ?thesis
    using t triage_complete [OF t _ triage_db_ready(1), of "triage_demo ''openai_compatible''" "''j2''" "''other''"] by fastforce
qed

lemma triage_checks_grounded_witness:
  "checks_grounded (snd (triage (triage_demo ''mock'') ''j1'' ''v1'' ''mock'' triage_db))"
  using triage_checks_grounded [OF _ triage_db_ready] prod.collapse by metis

lemma triage_failure_witness:
  "\<exists>s'. triage (triage_demo ''openai_compatible'') ''j1'' ''v1'' ''mock'' triage_db = (Inl (TriageError ''MODEL_TIMEOUT'' True), s')
     \<and> db_jobs s' = db_jobs triage_db"
proof -
  obtain s' where t: "triage (triage_demo ''openai_compatible'') ''j1'' ''v1'' ''mock'' triage_db = (Inl (TriageError ''MODEL_TIMEOUT'' True), s')"
    using demo_triage_fails by blast
  then show ?thesis using triage_failure [OF t triage_db_ready(1)] by blast
qed

end
