(* ===== verification/Timeline.thy ===== *)
theory Timeline
  imports AgentHandler ReplayPlan
begin

text \<open>
  \<open>evistream/governance/timeline.py\<close>: the timeline of a case, all its rows in one list ordered by the text of
  their time. \<open>datetime.isoformat\<close> is modelled for times in UTC, in microseconds since 1970-01-01.
\<close>

section \<open>Dates and their text\<close>

definition leap_year :: "nat \<Rightarrow> bool" where
  "leap_year y \<longleftrightarrow> y mod 4 = 0 \<and> (y mod 100 \<noteq> 0 \<or> y mod 400 = 0)"

definition month_lengths :: "nat \<Rightarrow> nat list" where
  "month_lengths y = [31, if leap_year y then 29 else 28, 31, 30, 31, 30, 31, 31, 30, 31, 30, 31]"

definition year_length :: "nat \<Rightarrow> nat" where
  "year_length y = (if leap_year y then 366 else 365)"

text \<open>The year and the day of the year, and the month and the day of the month, counted off.\<close>

function year_day :: "nat \<Rightarrow> nat \<Rightarrow> nat \<times> nat" where
  "year_day y n = (if n < year_length y then (y, n) else year_day (Suc y) (n - year_length y))"
  by pat_completeness auto
termination
  by (relation "measure snd") (auto simp: year_length_def split: if_splits)

declare year_day.simps [simp del]

fun month_day :: "nat \<Rightarrow> nat list \<Rightarrow> nat \<Rightarrow> nat \<times> nat" where
  "month_day m [] n = (m, n + 1)"
| "month_day m (l # ls) n = (if n < l then (m, n + 1) else month_day (Suc m) ls (n - l))"

text \<open>Year, month, day, hour, minute, second; \<open>719162\<close> days lie between 0001-01-01 and 1970-01-01.\<close>

definition day_number :: "time \<Rightarrow> nat" where
  "day_number t = nat (t div 86400000000 + 719162)"

definition micro_of_day :: "time \<Rightarrow> nat" where
  "micro_of_day t = nat (t mod 86400000000)"

definition date_fields :: "nat \<Rightarrow> nat list" where
  "date_fields n = (case year_day 1 n of (y, d) \<Rightarrow> case month_day 1 (month_lengths y) d of (m, dd) \<Rightarrow> [y, m, dd])"

definition clock_fields :: "nat \<Rightarrow> nat list" where
  "clock_fields x = [x div 3600000000, x mod 3600000000 div 60000000, x mod 3600000000 mod 60000000 div 1000000]"

fun pad_digits :: "nat \<Rightarrow> nat \<Rightarrow> string" where
  "pad_digits 0 n = []"
| "pad_digits (Suc k) n = pad_digits k (n div 10) @ [char_of (48 + n mod 10)]"

definition second_text :: "nat list \<Rightarrow> nat list \<Rightarrow> string" where
  "second_text d c = pad_digits 4 (d ! 0) @ ''-'' @ pad_digits 2 (d ! 1) @ ''-'' @ pad_digits 2 (d ! 2) @ ''T''
     @ pad_digits 2 (c ! 0) @ '':'' @ pad_digits 2 (c ! 1) @ '':'' @ pad_digits 2 (c ! 2)"

definition fraction_text :: "nat \<Rightarrow> string" where
  "fraction_text f = (if f = 0 then [] else ''.'' @ pad_digits 6 f) @ ''+00:00''"

definition isoformat :: "time \<Rightarrow> string" where
  "isoformat t = second_text (date_fields (day_number t)) (clock_fields (micro_of_day t)) @ fraction_text (micro_of_day t mod 1000000)"

text \<open>What a \<open>datetime\<close> can be: years 1 to 9999.\<close>

definition is_datetime :: "time \<Rightarrow> bool" where
  "is_datetime t \<longleftrightarrow> 0 \<le> t div 86400000000 + 719162 \<and> fst (year_day 1 (day_number t)) \<le> 9999"

section \<open>Events\<close>

datatype TimelineType = TL_AGENT_STEP | TL_TOOL_RUN | TL_MODEL_CALL | TL_EVIDENCE | TL_REQUIREMENT_RESULT | TL_DECISION
  | TL_REVIEW | TL_APPEAL | TL_REPLAY

fun timeline_order :: "TimelineType \<Rightarrow> nat" where
  "timeline_order TL_AGENT_STEP = 10"
| "timeline_order TL_TOOL_RUN = 20"
| "timeline_order TL_MODEL_CALL = 30"
| "timeline_order TL_EVIDENCE = 40"
| "timeline_order TL_REQUIREMENT_RESULT = 50"
| "timeline_order TL_DECISION = 60"
| "timeline_order TL_REVIEW = 70"
| "timeline_order TL_APPEAL = 80"
| "timeline_order TL_REPLAY = 90"

record timeline_event =
  te_type :: TimelineType
  te_id :: string
  te_created_at :: string
  te_payload :: json

definition event :: "TimelineType \<Rightarrow> string \<Rightarrow> time \<Rightarrow> (string \<times> json) list \<Rightarrow> timeline_event" where
  "event ty i t p = \<lparr> te_type = ty, te_id = i, te_created_at = isoformat t, te_payload = JObj p \<rparr>"

definition jstr :: "string option \<Rightarrow> json" where
  "jstr = jopt JStr"

fun str_appeal_event :: "AppealEventType \<Rightarrow> string" where
  "str_appeal_event AE_SUBMITTED = ''SUBMITTED''"
| "str_appeal_event AE_RESOLVED = ''RESOLVED''"

fun str_decision_source :: "DecisionSource \<Rightarrow> string" where
  "str_decision_source DS_MACHINE = ''MACHINE''"
| "str_decision_source DS_HUMAN = ''HUMAN''"

fun str_replay_item_status :: "ReplayItemStatus \<Rightarrow> string" where
  "str_replay_item_status RI_PENDING = ''PENDING''"
| "str_replay_item_status RI_MATERIALIZED = ''MATERIALIZED''"
| "str_replay_item_status RI_INVESTIGATING = ''INVESTIGATING''"
| "str_replay_item_status RI_COMPLETED = ''COMPLETED''"
| "str_replay_item_status RI_NEEDS_HUMAN_REVIEW = ''NEEDS_HUMAN_REVIEW''"
| "str_replay_item_status RI_FAILED = ''FAILED''"

definition step_event :: "AgentStepRecord \<Rightarrow> timeline_event" where
  "step_event r = event TL_AGENT_STEP (st_id r) (st_created_at r) [(''run_id'', JStr (st_run_id r)), (''node'', JStr (str_node (st_node r))),
     (''iteration'', JInt (st_iteration r)), (''status'', JStr (st_status r)), (''error_code'', jstr (st_error_code r))]"

definition tool_event :: "ToolRunRecord \<Rightarrow> timeline_event" where
  "tool_event r = event TL_TOOL_RUN (tr_id r) (tr_created_at r) [(''tool_name'', JStr (tr_tool_name r)),
     (''status'', JStr (str_tool_status (tr_status r))), (''latency_ms'', JInt (tr_latency_ms r)), (''error_code'', jstr (tr_error_code r))]"

definition call_event :: "ModelCallRecord \<Rightarrow> timeline_event" where
  "call_event r = event TL_MODEL_CALL (ml_id r) (ml_created_at r) [(''role'', JStr (ml_role r)), (''profile'', JStr (ml_profile r)),
     (''actual_model'', jstr (ml_actual_model r)), (''status'', JStr (str_model_status (ml_status r))),
     (''total_tokens'', JInt (ml_total_tokens r)), (''latency_ms'', JInt (ml_latency_ms r)),
     (''error_code'', jopt (\<lambda>c. JStr (str_model_error c)) (ml_error_code r))]"

definition evidence_event :: "EvidenceRecord \<Rightarrow> timeline_event" where
  "evidence_event r = event TL_EVIDENCE (ev_id r) (ev_created_at r) [(''requirement_id'', JStr (ev_requirement_id r)),
     (''stance'', JStr (str_stance (ev_stance r))), (''modality'', JStr (ev_modality r)), (''start_ms'', JInt (ev_start_ms r)),
     (''end_ms'', JInt (ev_end_ms r)), (''source_ref'', JStr (ev_source_ref r)), (''origin_evidence_id'', jstr (ev_origin_evidence_id r))]"

definition result_event :: "RequirementResultRecord \<Rightarrow> timeline_event" where
  "result_event r = event TL_REQUIREMENT_RESULT (rs_id r) (rs_created_at r) [(''requirement_id'', JStr (rs_requirement_id r)),
     (''status'', JStr (str_requirement_status (rs_status r))), (''reason_code'', JStr (rs_reason_code r)),
     (''sequence'', JInt (rs_sequence r)), (''origin_result_id'', jstr (rs_origin_result_id r))]"

definition decision_event :: "DecisionRecord \<Rightarrow> timeline_event" where
  "decision_event r = event TL_DECISION (dc_id r) (dc_created_at r) [(''verdict'', JStr (str_verdict (dc_verdict r))),
     (''reason_code'', JStr (dc_reason_code r)), (''source'', JStr (str_decision_source (dc_source r))),
     (''sequence'', JInt (dc_sequence r)), (''supersedes_decision_id'', jstr (dc_supersedes_decision_id r))]"

definition review_event :: "ReviewRecord \<Rightarrow> timeline_event" where
  "review_event r = event TL_REVIEW (rw_id r) (rw_created_at r) [(''reviewer'', JText (rw_reviewer r)),
     (''reviewed_decision_id'', jstr (rw_reviewed_decision_id r)), (''decision_id'', JStr (rw_decision_id r)), (''note'', JText (rw_note r))]"

definition appeal_event :: "AppealEventRecord \<Rightarrow> timeline_event" where
  "appeal_event r = event TL_APPEAL (ae_id r) (ae_created_at r) [(''appeal_id'', JStr (ae_appeal_id r)), (''sequence'', JInt (ae_sequence r)),
     (''event_type'', JStr (str_appeal_event (ae_event_type r))), (''actor'', JText (ae_actor r)), (''note'', JText (ae_note r)),
     (''decision_id'', jstr (ae_decision_id r))]"

definition replay_event :: "ReplayItemRecord \<Rightarrow> timeline_event" where
  "replay_event r = event TL_REPLAY (rp_id r) (rp_created_at r) [(''mode'', JStr (str_replay_mode (rp_mode r))),
     (''status'', JStr (str_replay_item_status (rp_status r))), (''source_case_id'', JStr (rp_source_case_id r)),
     (''target_case_id'', jstr (rp_target_case_id r)), (''source_decision_id'', jstr (rp_source_decision_id r)),
     (''target_decision_id'', jstr (rp_target_decision_id r))]"

section \<open>The timeline\<close>

text \<open>The events in the order the source collects them.\<close>

definition case_events :: "string \<Rightarrow> db \<Rightarrow> timeline_event list" where
  "case_events cid s =
    (let run_ids = map rn_id (filter (\<lambda>r. rn_case_id r = cid) (db_runs s));
         requirement_ids = map rm_id (filter (\<lambda>r. rm_case_id r = cid) (db_requirements s));
         appeal_ids = map ap_id (filter (\<lambda>a. ap_case_id a = cid) (db_appeals s))
     in (if run_ids = [] then [] else map step_event (filter (\<lambda>r. st_run_id r \<in> set run_ids) (db_steps s)))
      @ map tool_event (filter (\<lambda>r. tr_case_id r = cid) (db_tools s))
      @ map call_event (filter (\<lambda>r. ml_case_id r = Some cid) (db_calls s))
      @ map evidence_event (filter (\<lambda>r. ev_case_id r = cid) (db_evidence s))
      @ (if requirement_ids = [] then [] else map result_event (filter (\<lambda>r. rs_requirement_id r \<in> set requirement_ids) (db_results s)))
      @ map decision_event (filter (\<lambda>r. dc_case_id r = cid) (db_decisions s))
      @ map review_event (filter (\<lambda>r. rw_case_id r = cid) (db_reviews s))
      @ (if appeal_ids = [] then [] else map appeal_event (filter (\<lambda>r. ae_appeal_id r \<in> set appeal_ids) (db_appeal_events s)))
      @ map replay_event (filter (\<lambda>r. rp_source_case_id r = cid \<or> rp_target_case_id r = Some cid) (db_replay_items s)))"

definition event_key :: "timeline_event \<Rightarrow> string \<times> nat \<times> string" where
  "event_key e = (te_created_at e, timeline_order (te_type e), te_id e)"

definition timeline :: "string \<Rightarrow> db \<Rightarrow> timeline_event list res" where
  "timeline cid s = (if t_get ca_id cid (db_cases s) = None then Inl (GovernanceError ''CASE_NOT_FOUND'')
     else Inr (sort_key event_key (case_events cid s)))"

section \<open>The text of a time grows with the time\<close>

lemma append_less: "length a = length a' \<Longrightarrow> a @ b < a' @ b' \<longleftrightarrow> a < a' \<or> a = a' \<and> b < (b' :: string)"
  by (induction a a' rule: list_induct2) auto

lemma length_pad_digits [simp]: "length (pad_digits k n) = k"
  by (induction k n rule: pad_digits.induct) auto

lemma digit_less: "a < 10 \<Longrightarrow> b < 10 \<Longrightarrow> (char_of (48 + a) :: char) < char_of (48 + b) \<longleftrightarrow> a < (b :: nat)"
  by (simp add: less_char_def)

lemma pad_digits_less: "n < 10 ^ k \<Longrightarrow> m < 10 ^ k \<Longrightarrow> n < m \<Longrightarrow> pad_digits k n < pad_digits k m"
proof (induction k arbitrary: n m)
  case 0
  then show ?case by simp
next
  case (Suc k)
  have b: "n div 10 < 10 ^ k" "m div 10 < 10 ^ k" using Suc.prems(1,2) by (simp_all add: less_mult_imp_div_less mult.commute)
  show ?case
  proof (cases "n div 10 < m div 10")
    case True
    then show ?thesis using Suc.IH [OF b] by (simp add: append_less)
  next
    case False
    then have e: "n div 10 = m div 10" using Suc.prems(3) div_le_mono [of n m 10] by simp
    then have "n mod 10 < m mod 10" using Suc.prems(3) by (metis mult_div_mod_eq nat_add_left_cancel_less)
    then show ?thesis using e by (simp add: append_less digit_less)
  qed
qed

lemma year_day_range: "y \<le> fst (year_day y n) \<and> snd (year_day y n) < year_length (fst (year_day y n))"
proof (induction y n rule: year_day.induct)
  case (1 y n)
  then show ?case by (subst (1 2 3) year_day.simps) auto
qed

lemma year_day_less: "n < n' \<Longrightarrow> fst (year_day y n) < fst (year_day y n')
    \<or> fst (year_day y n) = fst (year_day y n') \<and> snd (year_day y n) < snd (year_day y n')"
proof (induction y n arbitrary: n' rule: year_day.induct)
  case (1 y n)
  show ?case
  proof (cases "n < year_length y")
    case True
    then have n: "year_day y n = (y, n)" by (simp add: year_day.simps [of y n])
    show ?thesis
    proof (cases "n' < year_length y")
      case True
      then show ?thesis using n 1(2) by (simp add: year_day.simps [of y n'])
    next
      case False
      then have "year_day y n' = year_day (Suc y) (n' - year_length y)" by (simp add: year_day.simps [of y n'])
      then show ?thesis using n year_day_range [of "Suc y" "n' - year_length y"] by auto
    qed
  next
    case False
    then have "n - year_length y < n' - year_length y" using 1(2) by simp
    from 1(1) [OF False this] show ?thesis using False 1(2) by (simp add: year_day.simps [of y n] year_day.simps [of y n'])
  qed
qed

lemma month_day_range:
  "n < sum_list ls \<Longrightarrow> \<forall>l\<in>set ls. l \<le> b \<Longrightarrow>
     m \<le> fst (month_day m ls n) \<and> fst (month_day m ls n) < m + length ls \<and> snd (month_day m ls n) \<le> b"
proof (induction m ls n rule: month_day.induct)
  case (2 m l ls n)
  show ?case
  proof (cases "n < l")
    case True
    then show ?thesis using 2(3) by simp
  next
    case False
    then have "n - l < sum_list ls" using 2(2) by simp
    from 2(1) [OF False this] show ?thesis using 2(3) False by simp
  qed
qed simp

lemma month_day_after: "n < sum_list ls \<Longrightarrow> m \<le> fst (month_day m ls n)"
  by (induction m ls n rule: month_day.induct) force+

lemma month_day_less: "n < n' \<Longrightarrow> n' < sum_list ls \<Longrightarrow> fst (month_day m ls n) < fst (month_day m ls n')
    \<or> fst (month_day m ls n) = fst (month_day m ls n') \<and> snd (month_day m ls n) < snd (month_day m ls n')"
proof (induction m ls n arbitrary: n' rule: month_day.induct)
  case (2 m l ls n)
  show ?case
  proof (cases "n < l")
    case True
    show ?thesis
    proof (cases "n' < l")
      case False
      then have "n' - l < sum_list ls" using 2(3) by simp
      then show ?thesis using True False month_day_after [of "n' - l" ls "Suc m"] by simp
    qed (use True 2(2) in simp)
  next
    case False
    then have "n - l < n' - l" "n' - l < sum_list ls" using 2(2,3) by auto
    from 2(1) [OF False this] show ?thesis using False 2(2) by simp
  qed
qed simp

lemma month_lengths_sum: "sum_list (month_lengths y) = year_length y"
  by (simp add: month_lengths_def year_length_def)

text \<open>Fields that fit their columns.\<close>

definition date_fits :: "nat list \<Rightarrow> bool" where
  "date_fits d \<longleftrightarrow> (\<exists>y m a. d = [y, m, a] \<and> y < 10000 \<and> m < 100 \<and> a < 100)"

definition clock_fits :: "nat list \<Rightarrow> bool" where
  "clock_fits c \<longleftrightarrow> (\<exists>h m a. c = [h, m, a] \<and> h < 100 \<and> m < 100 \<and> a < 100)"

lemma date_fields_fit: "fst (year_day 1 n) \<le> 9999 \<Longrightarrow> date_fits (date_fields n)"
proof -
  assume y: "fst (year_day 1 n) \<le> 9999"
  obtain a b where ab: "year_day 1 n = (a, b)" by fastforce
  obtain m d where md: "month_day 1 (month_lengths a) b = (m, d)" by fastforce
  have "b < sum_list (month_lengths a)" using year_day_range [of 1 n] ab by (simp add: month_lengths_sum)
  moreover have "\<forall>l\<in>set (month_lengths a). l \<le> 31" "length (month_lengths a) = 12" by (simp_all add: month_lengths_def)
  ultimately have "m < 13" "d \<le> 31" using month_day_range [of b "month_lengths a" 31 1] md by auto
  then show ?thesis using y ab md by (simp add: date_fits_def date_fields_def)
qed

lemma date_fields_less: "n < n' \<Longrightarrow> date_fields n < date_fields n'"
proof -
  assume n: "n < n'"
  obtain a b where ab: "year_day 1 n = (a, b)" by fastforce
  obtain a' b' where ab': "year_day 1 n' = (a', b')" by fastforce
  obtain m d where md: "month_day 1 (month_lengths a) b = (m, d)" by fastforce
  obtain m' d' where md': "month_day 1 (month_lengths a') b' = (m', d')" by fastforce
  have "a < a' \<or> a = a' \<and> b < b'" using year_day_less [OF n, of 1] ab ab' by simp
  moreover have "m < m' \<or> m = m' \<and> d < d'" if "a = a'" "b < b'"
  proof -
    have "b' < sum_list (month_lengths a)" using year_day_range [of 1 n'] ab' that by (simp add: month_lengths_sum)
    from month_day_less [OF that(2) this, of 1] show ?thesis using md md' that by simp
  qed
  ultimately show ?thesis using ab ab' md md' by (auto simp: date_fields_def)
qed

lemma clock_fields_fit: "x < 86400000000 \<Longrightarrow> clock_fits (clock_fields x)"
  by (simp add: clock_fits_def clock_fields_def less_mult_imp_div_less)

lemma div_or_mod_less: "(x :: nat) < y \<Longrightarrow> x div k < y div k \<or> x div k = y div k \<and> x mod k < y mod k"
  by (metis div_le_mono le_neq_implies_less less_imp_le mult_div_mod_eq nat_add_left_cancel_less)

lemma clock_fields_less:
  assumes "x < x'"
  shows "clock_fields x < clock_fields x' \<or> clock_fields x = clock_fields x' \<and> x mod 1000000 < x' mod 1000000"
proof -
  have m: "x mod 3600000000 mod 60000000 mod 1000000 = x mod 1000000" for x :: nat by (simp add: mod_mod_cancel)
  show ?thesis
    using div_or_mod_less [OF assms, of 3600000000] div_or_mod_less [of "x mod 3600000000" "x' mod 3600000000" 60000000]
      div_or_mod_less [of "x mod 3600000000 mod 60000000" "x' mod 3600000000 mod 60000000" 1000000]
    unfolding m by (auto simp: clock_fields_def)
qed

lemma second_text_length: "length (second_text d c) = 19"
  by (simp add: second_text_def)

lemma pad_less [simp]: "n < 10000 \<Longrightarrow> m < 10000 \<Longrightarrow> n < m \<Longrightarrow> pad_digits 4 n < pad_digits 4 m"
    "n < 100 \<Longrightarrow> m < 100 \<Longrightarrow> n < m \<Longrightarrow> pad_digits 2 n < pad_digits 2 m"
  by (rule pad_digits_less; simp)+

lemma second_text_less:
  assumes "date_fits d" and "date_fits d'" and "clock_fits c" and "clock_fits c'" and "d < d' \<or> d = d' \<and> c < c'"
  shows "second_text d c < second_text d' c'"
proof -
  obtain y m a where d: "d = [y, m, a]" "y < 10000" "m < 100" "a < 100" using assms(1) by (auto simp: date_fits_def)
  obtain y' m' a' where d': "d' = [y', m', a']" "y' < 10000" "m' < 100" "a' < 100" using assms(2) by (auto simp: date_fits_def)
  obtain h i x where c: "c = [h, i, x]" "h < 100" "i < 100" "x < 100" using assms(3) by (auto simp: clock_fits_def)
  obtain h' i' x' where c': "c' = [h', i', x']" "h' < 100" "i' < 100" "x' < 100" using assms(4) by (auto simp: clock_fits_def)
  consider "y < y'" | "y = y'" "m < m'" | "y = y'" "m = m'" "a < a'" | "y = y'" "m = m'" "a = a'" "h < h'"
    | "y = y'" "m = m'" "a = a'" "h = h'" "i < i'" | "y = y'" "m = m'" "a = a'" "h = h'" "i = i'" "x < x'"
    using assms(5) unfolding d(1) d'(1) c(1) c'(1) by auto
  then show ?thesis unfolding d(1) d'(1) c(1) c'(1) second_text_def
    by cases (use d d' c c' in \<open>simp_all add: append_less\<close>)
qed

lemma fraction_text_less: "f < f' \<Longrightarrow> f' < 1000000 \<Longrightarrow> fraction_text f < fraction_text f'"
proof -
  assume f: "f < f'" "f' < 1000000"
  show ?thesis
  proof (cases "f = 0")
    case True
    then show ?thesis using f by (simp add: fraction_text_def less_char_def)
  next
    case False
    have "pad_digits 6 f < pad_digits 6 f'" by (rule pad_digits_less) (use f in simp_all)
    then show ?thesis using f False by (simp add: fraction_text_def append_less)
  qed
qed

lemma isoformat_less:
  assumes "t < t'" and "is_datetime t" and "is_datetime t'"
  shows "isoformat t < isoformat t'"
proof -
  let ?n = "day_number t" and ?n' = "day_number t'" and ?x = "micro_of_day t" and ?x' = "micro_of_day t'"
  have pos: "0 \<le> t div 86400000000 + 719162" "0 \<le> t' div 86400000000 + 719162" using assms(2,3) by (simp_all add: is_datetime_def)
  have x: "?x < 86400000000" "?x' < 86400000000" by (simp_all add: micro_of_day_def nat_less_iff)
  note fit = date_fields_fit [of ?n] date_fields_fit [of ?n'] clock_fields_fit [OF x(1)] clock_fields_fit [OF x(2)]
  have dates: "date_fits (date_fields ?n)" "date_fits (date_fields ?n')" using fit assms(2,3) by (simp_all add: is_datetime_def)
  have "t div 86400000000 \<le> t' div 86400000000" using assms(1) by (simp add: zdiv_mono1)
  then consider "?n < ?n'" | "t div 86400000000 = t' div 86400000000" using pos by (fastforce simp: day_number_def nat_less_eq_zless)
  then show ?thesis
  proof cases
    case 1
    then have "second_text (date_fields ?n) (clock_fields ?x) < second_text (date_fields ?n') (clock_fields ?x')"
      using second_text_less [OF dates fit(3,4)] date_fields_less by blast
    then show ?thesis by (simp add: isoformat_def append_less second_text_length)
  next
    case 2
    then have n: "?n = ?n'" by (simp add: day_number_def)
    have "t mod 86400000000 < t' mod 86400000000" using 2 assms(1) div_mult_mod_eq [of t 86400000000] div_mult_mod_eq [of t' 86400000000] by linarith
    then have "?x < ?x'" unfolding micro_of_day_def by (simp add: nat_less_eq_zless)
    from clock_fields_less [OF this] show ?thesis
    proof
      assume "clock_fields ?x < clock_fields ?x'"
      then have "second_text (date_fields ?n) (clock_fields ?x) < second_text (date_fields ?n') (clock_fields ?x')"
        using second_text_less [OF dates fit(3,4)] n by simp
      then show ?thesis by (simp add: isoformat_def append_less second_text_length)
    next
      assume c: "clock_fields ?x = clock_fields ?x' \<and> ?x mod 1000000 < ?x' mod 1000000"
      then have "fraction_text (?x mod 1000000) < fraction_text (?x' mod 1000000)" by (intro fraction_text_less) simp_all
      then show ?thesis using c n by (simp add: isoformat_def append_less)
    qed
  qed
qed

section \<open>The timeline is chronological and independent of the order of the rows\<close>

lemma event_simps [simp]:
  "te_type (event ty i t p) = ty" "te_id (event ty i t p) = i" "te_created_at (event ty i t p) = isoformat t"
  by (simp_all add: event_def)

text \<open>Where the events come from: a row of the case, with the time it was created.\<close>

definition row_event :: "string \<Rightarrow> db \<Rightarrow> timeline_event \<Rightarrow> time \<Rightarrow> bool" where
  "row_event cid s e t \<longleftrightarrow>
     (\<exists>r q. r \<in> set (db_steps s) \<and> q \<in> set (db_runs s) \<and> rn_case_id q = cid \<and> st_run_id r = rn_id q \<and> e = step_event r \<and> t = st_created_at r)
   \<or> (\<exists>r. r \<in> set (db_tools s) \<and> tr_case_id r = cid \<and> e = tool_event r \<and> t = tr_created_at r)
   \<or> (\<exists>r. r \<in> set (db_calls s) \<and> ml_case_id r = Some cid \<and> e = call_event r \<and> t = ml_created_at r)
   \<or> (\<exists>r. r \<in> set (db_evidence s) \<and> ev_case_id r = cid \<and> e = evidence_event r \<and> t = ev_created_at r)
   \<or> (\<exists>r q. r \<in> set (db_results s) \<and> q \<in> set (db_requirements s) \<and> rm_case_id q = cid \<and> rs_requirement_id r = rm_id q
        \<and> e = result_event r \<and> t = rs_created_at r)
   \<or> (\<exists>r. r \<in> set (db_decisions s) \<and> dc_case_id r = cid \<and> e = decision_event r \<and> t = dc_created_at r)
   \<or> (\<exists>r. r \<in> set (db_reviews s) \<and> rw_case_id r = cid \<and> e = review_event r \<and> t = rw_created_at r)
   \<or> (\<exists>r q. r \<in> set (db_appeal_events s) \<and> q \<in> set (db_appeals s) \<and> ap_case_id q = cid \<and> ae_appeal_id r = ap_id q
        \<and> e = appeal_event r \<and> t = ae_created_at r)
   \<or> (\<exists>r. r \<in> set (db_replay_items s) \<and> (rp_source_case_id r = cid \<or> rp_target_case_id r = Some cid) \<and> e = replay_event r
        \<and> t = rp_created_at r)"

lemmas event_defs = step_event_def tool_event_def call_event_def evidence_event_def result_event_def decision_event_def
  review_event_def appeal_event_def replay_event_def

lemma row_event_created: "row_event cid s e t \<Longrightarrow> te_created_at e = isoformat t"
  unfolding row_event_def by (elim disjE exE conjE) (simp_all add: event_defs)

lemma guarded_map: "(if xs = [] then [] else map f (filter (\<lambda>r. g r \<in> set xs) ys)) = map f (filter (\<lambda>r. g r \<in> set xs) ys)"
  by simp

lemma mapped_rows: "e \<in> set (map f (filter P xs)) \<longleftrightarrow> (\<exists>r. r \<in> set xs \<and> P r \<and> e = f r)"
  by auto

lemma mapped_children:
  "e \<in> set (map f (filter (\<lambda>r. g r \<in> set (map key (filter Q qs))) xs)) \<longleftrightarrow> (\<exists>r q. r \<in> set xs \<and> q \<in> set qs \<and> Q q \<and> g r = key q \<and> e = f r)"
  by auto

lemma case_events_rows: "e \<in> set (case_events cid s) \<longleftrightarrow> (\<exists>t. row_event cid s e t)"
  unfolding case_events_def Let_def guarded_map set_append Un_iff mapped_children mapped_rows row_event_def ex_disj_distrib
  by (intro arg_cong2 [where f = "(\<or>)"]) auto

text \<open>With unique row identifiers an event is found again by its type and its identifier.\<close>

definition rows_unique :: "db \<Rightarrow> bool" where
  "rows_unique s \<longleftrightarrow> keys_distinct st_id (db_steps s) \<and> keys_distinct tr_id (db_tools s) \<and> keys_distinct ml_id (db_calls s)
     \<and> keys_distinct ev_id (db_evidence s) \<and> keys_distinct rs_id (db_results s) \<and> keys_distinct dc_id (db_decisions s)
     \<and> keys_distinct rw_id (db_reviews s) \<and> keys_distinct ae_id (db_appeal_events s) \<and> keys_distinct rp_id (db_replay_items s)"

fun event_of :: "db \<Rightarrow> TimelineType \<Rightarrow> string \<Rightarrow> timeline_event option" where
  "event_of s TL_AGENT_STEP i = map_option step_event (t_get st_id i (db_steps s))"
| "event_of s TL_TOOL_RUN i = map_option tool_event (t_get tr_id i (db_tools s))"
| "event_of s TL_MODEL_CALL i = map_option call_event (t_get ml_id i (db_calls s))"
| "event_of s TL_EVIDENCE i = map_option evidence_event (t_get ev_id i (db_evidence s))"
| "event_of s TL_REQUIREMENT_RESULT i = map_option result_event (t_get rs_id i (db_results s))"
| "event_of s TL_DECISION i = map_option decision_event (t_get dc_id i (db_decisions s))"
| "event_of s TL_REVIEW i = map_option review_event (t_get rw_id i (db_reviews s))"
| "event_of s TL_APPEAL i = map_option appeal_event (t_get ae_id i (db_appeal_events s))"
| "event_of s TL_REPLAY i = map_option replay_event (t_get rp_id i (db_replay_items s))"

lemma event_types [simp]:
  "te_type (step_event a) = TL_AGENT_STEP" "te_id (step_event a) = st_id a" "te_type (tool_event b) = TL_TOOL_RUN" "te_id (tool_event b) = tr_id b"
  "te_type (call_event c) = TL_MODEL_CALL" "te_id (call_event c) = ml_id c" "te_type (evidence_event d) = TL_EVIDENCE"
  "te_id (evidence_event d) = ev_id d" "te_type (result_event e) = TL_REQUIREMENT_RESULT" "te_id (result_event e) = rs_id e"
  "te_type (decision_event f) = TL_DECISION" "te_id (decision_event f) = dc_id f" "te_type (review_event g) = TL_REVIEW"
  "te_id (review_event g) = rw_id g" "te_type (appeal_event h) = TL_APPEAL" "te_id (appeal_event h) = ae_id h"
  "te_type (replay_event i) = TL_REPLAY" "te_id (replay_event i) = rp_id i"
  by (simp_all add: event_defs)

lemma event_found: "rows_unique s \<Longrightarrow> row_event cid s e t \<Longrightarrow> event_of s (te_type e) (te_id e) = Some e"
  unfolding row_event_def rows_unique_def by (elim disjE exE conjE) (simp_all add: t_get_complete)

lemma timeline_order_inj: "timeline_order a = timeline_order b \<Longrightarrow> a = b"
  by (cases a; cases b) simp_all

lemma event_key_inj: "rows_unique s \<Longrightarrow> inj_on event_key (set (case_events cid s))"
proof (rule inj_onI)
  fix e e' assume s: "rows_unique s" and "e \<in> set (case_events cid s)" "e' \<in> set (case_events cid s)" and k: "event_key e = event_key e'"
  then obtain t t' where e: "row_event cid s e t" "row_event cid s e' t'" unfolding case_events_rows by blast
  have ty: "te_type e = te_type e'" by (rule timeline_order_inj) (use k in \<open>simp add: event_key_def\<close>)
  have i: "te_id e = te_id e'" using k by (simp add: event_key_def)
  have "Some e = event_of s (te_type e) (te_id e)" by (rule event_found [OF s e(1), symmetric])
  also have "\<dots> = Some e'" unfolding ty i by (rule event_found [OF s e(2)])
  finally show "e = e'" by simp
qed

text \<open>The same rows in whatever order.\<close>

definition same_rows :: "db \<Rightarrow> db \<Rightarrow> bool" where
  "same_rows s s' \<longleftrightarrow> mset (db_steps s') = mset (db_steps s) \<and> mset (db_tools s') = mset (db_tools s) \<and> mset (db_calls s') = mset (db_calls s)
     \<and> mset (db_evidence s') = mset (db_evidence s) \<and> mset (db_results s') = mset (db_results s)
     \<and> mset (db_decisions s') = mset (db_decisions s) \<and> mset (db_reviews s') = mset (db_reviews s)
     \<and> mset (db_appeal_events s') = mset (db_appeal_events s) \<and> mset (db_replay_items s') = mset (db_replay_items s)
     \<and> set (db_runs s') = set (db_runs s) \<and> set (db_requirements s') = set (db_requirements s) \<and> set (db_appeals s') = set (db_appeals s)
     \<and> set (db_cases s') = set (db_cases s)"

lemma same_part: "mset xs = mset ys \<Longrightarrow> (\<And>r. P r = Q r) \<Longrightarrow> mset (map f (filter P xs)) = mset (map f (filter Q ys))"
  by simp

lemma case_events_same: "same_rows s s' \<Longrightarrow> mset (case_events cid s') = mset (case_events cid s)"
  unfolding case_events_def Let_def guarded_map mset_append same_rows_def
  by (elim conjE) (intro arg_cong2 [where f = "(+)"] same_part; simp)

text \<open>
  C36. The timeline of a case holds the events of exactly the rows that belong to it, through whichever table,
  an event of an earlier time before an event of a later one; and it is a function of the rows: the order in
  which the database returns them does not matter.
\<close>

theorem timeline_chronological:
  assumes "timeline cid s = Inr es"
  shows "(\<forall>e. e \<in> set es \<longleftrightarrow> (\<exists>t. row_event cid s e t))
    \<and> (\<forall>i j t t'. i < length es \<and> j < length es \<and> row_event cid s (es ! i) t \<and> row_event cid s (es ! j) t'
         \<and> is_datetime t \<and> is_datetime t' \<and> t < t' \<longrightarrow> i < j)
    \<and> (\<forall>s'. rows_unique s \<and> same_rows s s' \<longrightarrow> timeline cid s' = Inr es)"
proof (intro conjI allI impI)
  have es: "es = sort_key event_key (case_events cid s)" and c: "t_get ca_id cid (db_cases s) \<noteq> None"
    using assms by (auto simp: timeline_def split: if_splits)
  show "e \<in> set es \<longleftrightarrow> (\<exists>t. row_event cid s e t)" for e by (simp add: es case_events_rows)
  show "i < j" if "i < length es \<and> j < length es \<and> row_event cid s (es ! i) t \<and> row_event cid s (es ! j) t'
      \<and> is_datetime t \<and> is_datetime t' \<and> t < t'" for i j t t'
  proof (rule ccontr)
    assume "\<not> i < j"
    then have "event_key (es ! j) \<le> event_key (es ! i)"
      using sorted_nth_mono [of "map event_key es" j i] that by (simp add: es)
    then have "isoformat t' \<le> isoformat t" using row_event_created that by (auto simp: event_key_def)
    then show False using isoformat_less [of t t'] that by simp
  qed
  show "timeline cid s' = Inr es" if s': "rows_unique s \<and> same_rows s s'" for s'
  proof -
    have "sort_key event_key (case_events cid s) = sort_key event_key (case_events cid s')"
      by (rule sort_key_unique [OF case_events_same [symmetric] event_key_inj]) (use s' in simp_all)
    moreover have "t_get ca_id cid (db_cases s') \<noteq> None" using c s' by (simp add: t_get_None same_rows_def)
    ultimately show ?thesis by (simp add: timeline_def es)
  qed
qed

lemma timeline_chronological_witness:
  "\<exists>es. timeline ''c1'' demo_case_db = Inr es \<and> (\<forall>r\<in>set demo_evidence. evidence_event r \<in> set es)
     \<and> timeline ''c1'' (demo_case_db\<lparr>db_evidence := rev demo_evidence\<rparr>) = Inr es"
proof -
  obtain es where t: "timeline ''c1'' demo_case_db = Inr es" by (simp add: timeline_def t_get_Cons)
  have "db_steps demo_case_db = []" "db_replay_items demo_case_db = []" by (simp_all add: demo_case_db_def demo_db_def empty_db_def)
  then have "rows_unique demo_case_db" by (simp add: rows_unique_def keys_distinct_def demo_evidence_def)
  moreover have "same_rows demo_case_db (demo_case_db\<lparr>db_evidence := rev demo_evidence\<rparr>)" by (simp add: same_rows_def)
  moreover have "row_event ''c1'' demo_case_db (evidence_event r) (ev_created_at r)" if "r \<in> set demo_evidence" for r
    using that by (auto simp: row_event_def demo_evidence_def)
  ultimately show ?thesis using t timeline_chronological [OF t] by blast
qed

end
