(* ===== verification/Worker.thy ===== *)
theory Worker
  imports TriageRuns ReplayRun
begin

text \<open>
  \<open>evistream/jobs/runtime.py\<close>, \<open>jobs/worker.py\<close> and \<open>jobs/types.py\<close>: the factory that executes a job of
  any type, the dispatcher that executes it at once or puts it on the queue, and the function the queue
  calls. The three runtimes are built by \<open>build_media_runtime\<close>, \<open>build_agent_runtime\<close> and
  \<open>build_governance_runtime\<close>, which read the configuration; what they build is a parameter per profile,
  and building may raise. The queue is Redis: a parameter says what it accepts.
\<close>

section \<open>The runtimes\<close>

datatype DispatchState = DISPATCH_INLINE_COMPLETED | DISPATCH_QUEUED | DISPATCH_DEFERRED

datatype job_output =
    OutMedia MediaJob
  | OutAgent InvestigationResult
  | OutReplay ReplayResult
  | OutState DispatchState

text \<open>What \<open>build_media_runtime\<close> puts together: the service, the indexer and the triage.\<close>

record media_runtime =
  md_media :: media_world
  md_index :: retrieval_world
  md_triage :: triage_world

text \<open>
  \<open>jr_str\<close> is \<open>str\<close> on the values of a payload. \<open>jr_now\<close> gives the times of a claim, of a failure, of a
  finalization and of the note that a job was put on the queue.
\<close>

record job_runtimes =
  jr_env :: env
  jr_settings :: Settings
  jr_str :: "json \<Rightarrow> string"
  jr_media :: "string \<Rightarrow> media_runtime res"
  jr_agent :: "string \<Rightarrow> (nat \<times> world) res"
  jr_replay :: "string \<Rightarrow> replay_world res"
  jr_now :: "nat \<Rightarrow> time"
  jr_hex :: string
  jr_accepts :: "string \<Rightarrow> bool"

section \<open>Executing a job\<close>

text \<open>\<open>bool\<close> of a value of a payload.\<close>

definition truthy_json :: "json \<Rightarrow> bool" where
  "truthy_json j = (case j of JNull \<Rightarrow> False | JBool b \<Rightarrow> b | JInt i \<Rightarrow> i \<noteq> 0 | JNum x \<Rightarrow> x \<noteq> 0 | JStr t \<Rightarrow> t \<noteq> []
     | JText t \<Rightarrow> t \<noteq> [] | JList xs \<Rightarrow> xs \<noteq> [] | JObj fs \<Rightarrow> fs \<noteq> [])"

definition job_profile :: "job_runtimes \<Rightarrow> JobRequest \<Rightarrow> string" where
  "job_profile RT q = (case dict_get ''model_profile'' (jq_payload q) of
     Some j \<Rightarrow> if truthy_json j then jr_str RT j else cfg_model_profile (jr_settings RT)
   | None \<Rightarrow> cfg_model_profile (jr_settings RT))"

definition map_execution :: "('a \<Rightarrow> 'b) \<Rightarrow> 'a JobExecution \<Rightarrow> 'b JobExecution" where
  "map_execution f x = \<lparr> jx_job_id = jx_job_id x, jx_job_type = jx_job_type x, jx_status = jx_status x,
     jx_result = map_option f (jx_result x), jx_error_code = jx_error_code x \<rparr>"

text \<open>The handlers the three runtimes register, each alone in its registry.\<close>

definition media_handler :: "media_runtime \<Rightarrow> MediaJob handler" where
  "media_handler m = (\<lambda>q s. Some (handle_media (md_media m) (Some (\<lambda>video_id. index_video (md_index m) video_id False))
     (Some (triage (md_triage m))) q s))"

definition agent_handler :: "job_runtimes \<Rightarrow> nat \<times> world \<Rightarrow> InvestigationResult handler" where
  "agent_handler RT a = (\<lambda>q s. handle_agent (fst a) (snd a) (jr_now RT 0) (jr_now RT 1) q s)"

definition replay_handler :: "job_runtimes \<Rightarrow> replay_world \<Rightarrow> ReplayResult handler" where
  "replay_handler RT y = (\<lambda>q s. Some (handle_replay y (jr_now RT 0) (jr_now RT 1) q s))"

text \<open>\<open>RuntimeFactory.execute\<close>. None is an engine without enough fuel.\<close>

definition factory_execute :: "job_runtimes \<Rightarrow> JobRequest \<Rightarrow> db \<Rightarrow> (job_output JobExecution res \<times> db) option" where
  "factory_execute RT q s =
    (if jq_job_type q = ''MEDIA_PREPROCESS'' then
       (case jr_media RT (job_profile RT q) of
          Inl e \<Rightarrow> Some (Inl e, s)
        | Inr m \<Rightarrow> map_option (\<lambda>(x, s'). (Inr (map_execution OutMedia x), s')) (dispatch_inline [''MEDIA_PREPROCESS'' \<mapsto> media_handler m] q s))
     else if jq_job_type q = ''AGENT_INVESTIGATION'' then
       (case jr_agent RT (job_profile RT q) of
          Inl e \<Rightarrow> Some (Inl e, s)
        | Inr a \<Rightarrow> map_option (\<lambda>(r, s'). (bindE r (\<lambda>x. Inr (map_execution OutAgent x)), s'))
            (execute_agent_job (jr_env RT) [''AGENT_INVESTIGATION'' \<mapsto> agent_handler RT a] (jr_now RT 2) (jr_hex RT) q s))
     else if jq_job_type q = ''POLICY_REPLAY'' then
       (case jr_replay RT (job_profile RT q) of
          Inl e \<Rightarrow> Some (Inl e, s)
        | Inr y \<Rightarrow> map_option (\<lambda>(x, s'). (Inr (map_execution OutReplay x), s')) (dispatch_inline [''POLICY_REPLAY'' \<mapsto> replay_handler RT y] q s))
     else Some (Inl LookupErr, s))"

section \<open>Dispatching a job\<close>

text \<open>What \<open>_enqueue\<close> puts on the queue; the delays of RQ's own retries are there when a second attempt is allowed.\<close>

record queue_entry =
  qe_job_id :: string
  qe_job_timeout :: int
  qe_result_ttl :: int
  qe_retry :: "(int \<times> int list) option"

definition queue_entry_of :: "Settings \<Rightarrow> string \<Rightarrow> queue_entry" where
  "queue_entry_of C job_id = \<lparr> qe_job_id = job_id, qe_job_timeout = cfg_rq_job_timeout_seconds C,
     qe_result_ttl = cfg_rq_result_ttl_seconds C,
     qe_retry = (if 1 < cfg_job_max_attempts C then Some (cfg_job_max_attempts C - 1, cfg_job_retry_intervals C) else None) \<rparr>"

definition enqueue :: "job_runtimes \<Rightarrow> string \<Rightarrow> queue_entry res" where
  "enqueue RT job_id = (if jr_accepts RT job_id then Inr (queue_entry_of (jr_settings RT) job_id) else Inl RuntimeErr)"

definition dispatched :: "JobRequest \<Rightarrow> DispatchState \<Rightarrow> job_output JobExecution" where
  "dispatched q d = \<lparr> jx_job_id = jq_job_id q, jx_job_type = jq_job_type q, jx_status = JS_PENDING,
     jx_result = Some (OutState d), jx_error_code = None \<rparr>"

text \<open>\<open>ApplicationDispatcher.dispatch\<close>, with what it adds to the queue.\<close>

definition dispatch_job ::
    "job_runtimes \<Rightarrow> JobRequest \<Rightarrow> db \<Rightarrow> (job_output JobExecution res \<times> queue_entry list \<times> db) option" where
  "dispatch_job RT q s =
    (if cfg_task_dispatcher (jr_settings RT) = ''inline''
     then map_option (\<lambda>(r, s'). (r, [], s')) (factory_execute RT q s)
     else (case enqueue RT (jq_job_id q) of
       Inl _ \<Rightarrow> Some (Inr (dispatched q DISPATCH_DEFERRED), [], s)
     | Inr x \<Rightarrow> Some (Inr (dispatched q DISPATCH_QUEUED), [x],
         update_job (jq_job_id q) (\<lambda>j. j\<lparr>jb_last_enqueued_at := Some (jr_now RT 3)\<rparr>) s)))"

record JobSubmission =
  js_job :: JobView
  js_dispatch_state :: DispatchState

definition dispatch_state :: "Settings \<Rightarrow> job_output JobExecution \<Rightarrow> DispatchState" where
  "dispatch_state C x = (if cfg_task_dispatcher C = ''inline'' then DISPATCH_INLINE_COMPLETED
     else (case jx_result x of Some (OutState d) \<Rightarrow> d | _ \<Rightarrow> DISPATCH_DEFERRED))"

definition submit_job ::
    "job_runtimes \<Rightarrow> JobRequest \<Rightarrow> db \<Rightarrow> (JobSubmission res \<times> queue_entry list \<times> db) option" where
  "submit_job RT q s = map_option (\<lambda>(r, queue, s').
     (bindE r (\<lambda>x. bindE (job_get (jq_job_id q) s')
        (\<lambda>v. Inr \<lparr> js_job = v, js_dispatch_state = dispatch_state (jr_settings RT) x \<rparr>)), queue, s')) (dispatch_job RT q s)"

section \<open>The worker\<close>

definition execute_persisted_job :: "job_runtimes \<Rightarrow> string \<Rightarrow> db \<Rightarrow> (job_output JobExecution res \<times> db) option" where
  "execute_persisted_job RT job_id s = (case persisted_request job_id s of
     Inl e \<Rightarrow> Some (Inl e, s) | Inr q \<Rightarrow> factory_execute RT q s)"

text \<open>The worker raises what the execution raises, or asks RQ for a retry.\<close>

datatype worker_error = RetryableJobError string | WorkerRaises exn

definition execute_job :: "job_runtimes \<Rightarrow> string \<Rightarrow> db \<Rightarrow> ((worker_error + job_output JobExecution) \<times> db) option" where
  "execute_job RT job_id s = (case execute_persisted_job RT job_id s of
     None \<Rightarrow> None
   | Some (Inl e, s1) \<Rightarrow> Some (Inl (WorkerRaises e), s1)
   | Some (Inr x, s1) \<Rightarrow> (case job_get job_id s1 of
       Inl e \<Rightarrow> Some (Inl (WorkerRaises e), s1)
     | Inr persisted \<Rightarrow>
         if jv_status persisted = JS_RETRY_WAIT
         then Some (Inl (RetryableJobError (if truthy (jv_error_code persisted) then the (jv_error_code persisted) else ''JOB_RETRY_WAIT'')), s1)
         else Some (Inr x, s1)))"

section \<open>Indexing and triage leave the jobs alone\<close>

text \<open>What the handler of preprocessing jobs relies on holds of the indexer and the triage of the runtime.\<close>

lemma index_video_jobs: "db_jobs (snd (index_video W vid force s)) = db_jobs s"
  by (auto simp: index_video_def Let_def split: sum.split prod.split)

lemma run_start_check_jobs:
  "run_session (start_check W i jid vid prof pol) s = (r, s') \<Longrightarrow> db_jobs s' = db_jobs s"
  by (auto simp: run_session_def start_check_def insert_check_def update_check_def split: option.splits if_splits sum.splits)

lemma open_case_jobs:
  assumes "open_case W i vid prof pol action s = (r, s')"
  shows "db_jobs s' = db_jobs s"
proof -
  have c: "db_jobs s1 = db_jobs s" if "create_case_session E now hex vid pid v prof cid s = (x, s1)" for E now hex vid pid v prof cid x s1
  proof (cases x)
    case (Inl e)
    then show ?thesis using that run_session_rollback [of "create_case E now hex vid pid v prof cid" s e]
      by (simp add: create_case_session_def)
  next
    case (Inr b)
    then have "create_case E now hex vid pid v prof cid s = Inr (b, s1)"
      using that by (simp add: create_case_session_def run_session_Inr_iff)
    from create_case_appends [OF this] show ?thesis by auto
  qed
  have f: "db_jobs s2 = db_jobs s1" if "finalize_case E now hex cid None True Map.empty s1 = (x, s2)" for E now hex cid x s1 s2
    using finalize_case_beside [OF that] by (simp add: beside_def)
  show ?thesis
    using assms by (auto simp: open_case_def Let_def split: if_splits prod.splits sum.splits dest!: f dest!: c)
qed

lemma triage_failed_jobs:
  "triage_failed W i jid vid prof p pol b e s = (e', s') \<Longrightarrow> db_jobs s' = db_jobs s"
  by (auto simp: triage_failed_def fail_check_def update_check_def beside_def
      split: exn.splits if_splits prod.splits sum.splits dest!: record_model_call_beside)

lemma check_policy_jobs:
  assumes "check_policy W i jid vid prof rec s = (r, s')"
  shows "db_jobs s' = db_jobs s"
proof -
  let ?pol = "pc_compiled_policy rec"
  obtain x s1 where 1: "run_session (start_check W i jid vid prof ?pol) s = (x, s1)" by fastforce
  note j1 = run_start_check_jobs [OF 1]
  have rest: "db_jobs s' = db_jobs s1"
    if "(case ask_model W i jid vid prof p ?pol t fs s1 of
        (Inl e, s2) \<Rightarrow> (case triage_failed W i jid vid prof p ?pol (fs \<noteq> []) e s2 of (e', s3) \<Rightarrow> (Inl e', s3))
      | (Inr (o', call_id), s2) \<Rightarrow> (case open_case W i vid prof ?pol (tg_action o') s2 of
          (Inl e, s3) \<Rightarrow> (Inl e, s3) | (Inr case_id, s3) \<Rightarrow> finish_check W i vid ?pol o' case_id call_id s3)) = (r, s')" for p t fs
  proof -
    obtain y s2 where 2: "ask_model W i jid vid prof p ?pol t fs s1 = (y, s2)" by fastforce
    have "db_jobs s2 = db_jobs s1" using ask_model_beside [OF 2] by (simp add: beside_def)
    then show ?thesis
      using that 2 by (auto simp: finish_check_def update_check_def split: sum.splits prod.splits option.splits
          dest!: triage_failed_jobs open_case_jobs)
  qed
  show ?thesis
  proof (cases "x = Inr True")
    case True
    show ?thesis using assms 1 True j1 rest
      by (auto simp: check_policy_def Let_def split: sum.splits)
  next
    case False
    then show ?thesis using assms 1 j1 by (auto simp: check_policy_def Let_def split: sum.splits bool.splits)
  qed
qed

lemma check_policies_jobs:
  "check_policies W jid vid prof i rs n s = (r, s') \<Longrightarrow> db_jobs s' = db_jobs s"
proof (induction rs arbitrary: i n s)
  case (Cons p rs)
  then show ?case by (auto split: prod.splits sum.splits dest: check_policy_jobs)
qed simp

lemma triage_keeps_jobs: "db_jobs (snd (triage W jid vid prof s)) = db_jobs s"
proof -
  obtain r s1 where c: "check_policies W jid vid prof 0 (latest_enabled_policies (tgw_env W) s) 0
      (update_video vid (set_triage_status (tgw_video_now W 0) ''RUNNING'') s) = (r, s1)" by fastforce
  then show ?thesis using check_policies_jobs [OF c] c by (auto simp: triage_def update_video_def split: sum.splits)
qed

lemma runtime_keeps_jobs:
  "steps_keep_jobs (Some (\<lambda>video_id. index_video R video_id False)) (Some (triage T))"
  by (simp add: steps_keep_jobs_def keeps_jobs_def index_video_jobs triage_keeps_jobs)

section \<open>A preprocessing job at the worker\<close>

definition persisted :: "ProcessingJobRecord \<Rightarrow> JobRequest" where
  "persisted j = \<lparr> jq_job_id = jb_id j, jq_job_type = jb_type j, jq_request_key = jb_request_key j,
     jq_correlation_id = jb_correlation_id j, jq_payload = jb_payload j \<rparr>"

lemma persisted_request_get: "t_get jb_id i (db_jobs s) = Some j \<Longrightarrow> persisted_request i s = Inr (persisted j)"
  by (simp add: persisted_request_def persisted_def)

text \<open>What the worker reads from the job is a delivery of that job.\<close>

lemma persisted_delivered:
  assumes "t_get jb_id i (db_jobs s) = Some j" and "jb_type j = ''MEDIA_PREPROCESS''" and "jb_payload j \<noteq> []"
  shows "delivered (persisted j) s j" and "jq_job_id (persisted j) = i"
  using assms t_get_Some [OF assms(1)] by (simp_all add: delivered_def persisted_def)

lemma factory_media:
  assumes "jq_job_type q = ''MEDIA_PREPROCESS''" and "jr_media RT (job_profile RT q) = Inr m"
    and "handle_media (md_media m) (Some (\<lambda>video_id. index_video (md_index m) video_id False)) (Some (triage (md_triage m))) q s = (r, s')"
  shows "factory_execute RT q s = Some (Inr (map_execution OutMedia (execution q r)), s')"
  using assms by (simp add: factory_execute_def dispatch_inline_def get_handler_def media_handler_def)

lemma job_get_of: "t_get jb_id i (db_jobs s) = Some j \<Longrightarrow> job_get i s = Inr (job_view j)"
  by (simp add: job_get_def)

definition worker_at_rest :: "(worker_error + job_output JobExecution) \<Rightarrow> ProcessingJobRecord \<Rightarrow> bool" where
  "worker_at_rest r j \<longleftrightarrow> jb_lease_until j = None \<and> (case r of
     Inr x \<Rightarrow> jx_status x = jb_status j \<and> jx_error_code x = jb_error_code j
       \<and> (if jb_status j = JS_SUCCEEDED then jx_result x = Some (OutMedia (media_job j))
          else jb_status j = JS_FAILED \<and> jb_finished_at j \<noteq> None \<and> jx_result x = None)
   | Inl e \<Rightarrow> jb_status j = JS_RETRY_WAIT \<and> jb_attempt j < jb_max_attempts j \<and> jb_next_attempt_at j \<noteq> None
       \<and> (\<exists>c. jb_error_code j = Some c \<and> e = RetryableJobError (if c = [] then ''JOB_RETRY_WAIT'' else c)))"

text \<open>
  C38. When the queue delivers a preprocessing job, the worker and the stored job agree: the worker returns
  SUCCEEDED with the job's result, or FAILED with the code the job failed with, or it raises
  \<open>RetryableJobError\<close> exactly when the job waits for an attempt that is left, after a stored time. No lease
  is left, and the delivery counts at most one attempt, none above the maximum. The indexer and the triage
  are those of the program.
\<close>

theorem worker_settles_media:
  assumes "t_get jb_id i (db_jobs s) = Some j" and "jb_type j = ''MEDIA_PREPROCESS''" and "jb_payload j \<noteq> []"
    and "jr_media RT (job_profile RT (persisted j)) = Inr m"
  shows "\<exists>r s' j'. execute_job RT i s = Some (r, s') \<and> t_get jb_id i (db_jobs s') = Some j'
    \<and> worker_at_rest r j' \<and> job_goes_on j j'"
proof -
  let ?q = "persisted j" and ?W = "md_media m"
  obtain r s' where h: "handle_media ?W (Some (\<lambda>video_id. index_video (md_index m) video_id False)) (Some (triage (md_triage m))) ?q s = (r, s')"
    by fastforce
  note d = persisted_delivered [OF assms(1-3)]
  obtain j' where j': "t_get jb_id i (db_jobs s') = Some j'" and rest: "job_at_rest ?W r j'" and go: "job_goes_on j j'"
    using media_delivery_settles [OF h d(1) runtime_keeps_jobs] d(2) by auto
  have type: "jq_job_type ?q = ''MEDIA_PREPROCESS''" using assms(2) by (simp add: persisted_def)
  let ?x = "map_execution OutMedia (execution ?q r)"
  have e: "execute_job RT i s = (if jb_status j' = JS_RETRY_WAIT
      then Some (Inl (RetryableJobError (if truthy (jb_error_code j') then the (jb_error_code j') else ''JOB_RETRY_WAIT'')), s') else Some (Inr ?x, s'))"
    by (simp add: execute_job_def execute_persisted_job_def persisted_request_get [OF assms(1)]
        factory_media [OF type assms(4) h] job_get_of [OF j']) (simp add: job_view_def)
  have "\<exists>y. execute_job RT i s = Some (y, s') \<and> worker_at_rest y j'"
  proof (cases r)
    case (Inr v)
    then have "worker_at_rest (Inr ?x) j'" and "jb_status j' \<noteq> JS_RETRY_WAIT"
      using rest by (simp_all add: job_at_rest_def worker_at_rest_def execution_def map_execution_def)
    then show ?thesis using e by simp
  next
    case (Inl x)
    then obtain c b where r: "r = Inl (JobHandlerError c b)" and c: "jb_error_code j' = Some c" "jb_lease_until j' = None"
      and b: "if b \<and> jb_attempt j' < jb_max_attempts j'
          then jb_status j' = JS_RETRY_WAIT \<and> jb_next_attempt_at j' = Some (mw_now ?W 6 + seconds (retry_delay (mw_settings ?W) (jb_attempt j')))
          else jb_status j' = JS_FAILED \<and> jb_finished_at j' \<noteq> None \<and> \<not> jb_retryable j'"
      using rest by (auto simp: job_at_rest_def)
    show ?thesis
    proof (cases "b \<and> jb_attempt j' < jb_max_attempts j'")
      case True
      then have "worker_at_rest (Inl (RetryableJobError (if c = [] then ''JOB_RETRY_WAIT'' else c))) j'"
        using b c by (simp add: worker_at_rest_def)
      then show ?thesis using e b c True by (cases "c = []") (simp_all add: truthy_def)
    next
      case False
      then have "jb_status j' = JS_FAILED" "jb_finished_at j' \<noteq> None" using b by (simp_all split: if_splits)
      then have "worker_at_rest (Inr ?x) j'" using c by (simp add: worker_at_rest_def r execution_def map_execution_def)
      then show ?thesis using e \<open>jb_status j' = JS_FAILED\<close> by simp
    qed
  qed
  then show ?thesis using j' go by blast
qed

text \<open>A runtime that cannot be built leaves the job as it is: the worker raises, and no attempt is counted.\<close>

lemma unbuilt_runtime_counts_nothing:
  assumes "t_get jb_id i (db_jobs s) = Some j" and "jb_type j = ''MEDIA_PREPROCESS''"
    and "jr_media RT (job_profile RT (persisted j)) = Inl e"
  shows "execute_job RT i s = Some (Inl (WorkerRaises e), s)"
  using assms by (simp add: execute_job_def execute_persisted_job_def persisted_request_get factory_execute_def)
    (simp add: persisted_def)

section \<open>A submission is not lost\<close>

lemma mark_enqueued_ok: "t_get jb_id i (db_jobs s) = Some j \<Longrightarrow> \<exists>s'. mark_enqueued now i s = (Inr (), s')"
  by (simp add: mark_enqueued_def mark_enqueued_body_def run_session_def)

lemma same_jobs_ids: "same_jobs s s' \<Longrightarrow> jb_id ` set (db_jobs s') = jb_id ` set (db_jobs s)"
proof -
  assume "same_jobs s s'"
  then have "map fst (map (\<lambda>j. (jb_id j, jb_status j, jb_attempt j, jb_lease_until j, jb_next_attempt_at j)) (db_jobs s))
    = map fst (map (\<lambda>j. (jb_id j, jb_status j, jb_attempt j, jb_lease_until j, jb_next_attempt_at j)) (db_jobs s'))"
    by (simp add: same_jobs_def)
  then have "map jb_id (db_jobs s) = map jb_id (db_jobs s')" by (simp add: comp_def)
  then show ?thesis by (metis list.set_map)
qed

lemma enqueue_all_total:
  assumes "\<forall>i. push i" and "jv_job_id ` set js \<subseteq> jb_id ` set (db_jobs s)"
  shows "\<exists>s'. enqueue_all push clock js s queue = (Inr (), queue @ map jv_job_id js, s')"
  using assms(2)
proof (induction js arbitrary: clock s queue)
  case (Cons v js)
  have "t_get jb_id (jv_job_id v) (db_jobs s) \<noteq> None" using Cons.prems by (auto simp: t_get_None)
  then obtain s1 where m: "mark_enqueued (clock 0) (jv_job_id v) s = (Inr (), s1)" using mark_enqueued_ok by blast
  have "same_jobs s s1" using mark_enqueued_Inr [OF m] same_jobs_mark by simp
  then have "jv_job_id ` set js \<subseteq> jb_id ` set (db_jobs s1)" using Cons.prems same_jobs_ids by auto
  from Cons.IH [OF this, of "\<lambda>n. clock (Suc n)" "queue @ [jv_job_id v]"] show ?case using m assms(1) by simp
qed simp

text \<open>With a queue that accepts, requeueing puts every runnable job of a batch on it.\<close>

lemma requeue_pushes:
  assumes "\<forall>i. push i" and "int (length (db_jobs s)) \<le> cfg_job_requeue_batch_size C" and "j \<in> set (db_jobs s)" and "runnable (clock 0) j"
  shows "\<exists>n queue s'. requeue_due E C push clock True s = (Inr n, queue, s') \<and> jb_id j \<in> set queue"
proof -
  let ?js = "due E (cfg_job_requeue_batch_size C) (clock 0) s"
  have "set ?js = job_view ` {r \<in> set (db_jobs s). is_due (clock 0) r}" by (rule set_due_all [OF assms(2)])
  then have "jv_job_id ` set ?js \<subseteq> jb_id ` set (db_jobs s)" and "jb_id j \<in> jv_job_id ` set ?js"
    using assms(3,4) by (auto simp: job_view_def image_iff is_due_runnable)
  with enqueue_all_total [OF assms(1), where js = ?js and s = s and clock = "\<lambda>n. clock (Suc n)" and queue = "[]"] show ?thesis
    by (auto simp: requeue_due_def Let_def)
qed


end
