(* ===== verification/WorkerDemo.thy ===== *)
theory WorkerDemo
  imports Worker TriageDemo RetrievalDemo
begin

text \<open>
  Worked instances for the worker and the dispatcher: the uploaded video of MediaDemo, with the indexer of
  RetrievalDemo and the triage of TriageDemo, and a queue that accepts nothing.
\<close>

definition demo_runtimes :: "(string \<Rightarrow> bool) \<Rightarrow> job_runtimes" where
  "demo_runtimes accepts = \<lparr> jr_env = demo_env, jr_settings = default_settings\<lparr>cfg_task_dispatcher := ''rq''\<rparr>, jr_str = (\<lambda>j. ''mock''),
     jr_media = (\<lambda>p. Inr \<lparr> md_media = demo_media, md_index = demo_retrieval, md_triage = triage_demo ''mock'' \<rparr>),
     jr_agent = (\<lambda>p. Inl RuntimeErr), jr_replay = (\<lambda>p. Inl RuntimeErr), jr_now = (\<lambda>n. 40), jr_hex = ''x'', jr_accepts = accepts \<rparr>"

lemma upload_job_delivery: "t_get jb_id ''j1'' (db_jobs upload_db) = Some upload_job" "jb_type upload_job = ''MEDIA_PREPROCESS''"
  "jb_payload upload_job \<noteq> []"
  by (simp_all add: t_get_Cons) (simp_all add: upload_job_def)

lemma worker_settles_media_witness:
  "\<exists>r s' j'. execute_job (demo_runtimes (\<lambda>i. True)) ''j1'' upload_db = Some (r, s') \<and> t_get jb_id ''j1'' (db_jobs s') = Some j'
     \<and> worker_at_rest r j' \<and> job_goes_on upload_job j'"
proof (rule worker_settles_media [OF upload_job_delivery])
  show "jr_media (demo_runtimes (\<lambda>i. True)) p = Inr \<lparr> md_media = demo_media, md_index = demo_retrieval, md_triage = triage_demo ''mock'' \<rparr>" for p
    by (simp only: demo_runtimes_def job_runtimes.simps)
qed


end
