(* ===== verification/Seeds.thy ===== *)
theory Seeds
  imports PolicyVersions
begin

text \<open>
  \<open>evistream/policies/seeds.py\<close>: the manifest of demonstration cases, its validation against the bundled
  policies, and the transaction that publishes the policies and creates the cases. What \<open>load_policy\<close> makes
  of the policy files, in the order of their paths, and what the YAML parser makes of the manifest and the
  video map (None where it is malformed) are parameters.
\<close>

section \<open>The manifest\<close>

datatype Scenario = CLEAR_VIOLATION | CONTEXT_EXCEPTION | INSUFFICIENT_EVIDENCE

datatype AnnotationStatus = METADATA_ONLY | HUMAN_VERIFIED

record CaseSeed =
  cs_case_key :: string
  cs_scenario :: Scenario
  cs_fixture_ref :: string
  cs_policy_id :: string
  cs_policy_version :: int
  cs_expected_verdict :: Verdict
  cs_expected_requirement_results :: "(string \<times> RequirementStatus) list"
  cs_reason :: utext
  cs_annotation_status :: AnnotationStatus

text \<open>\<open>^[a-z][a-z0-9_.-]+$\<close> and the other \<open>Field\<close> bounds.\<close>

definition case_key_pattern :: "string \<Rightarrow> bool" where
  "case_key_pattern t = (case t of [] \<Rightarrow> False
     | c # cs \<Rightarrow> is_lower c \<and> cs \<noteq> [] \<and> list_all (\<lambda>d. is_word d \<or> d = CHR ''.'' \<or> d = CHR ''-'') cs)"

definition valid_CaseSeed :: "CaseSeed \<Rightarrow> bool" where
  "valid_CaseSeed c \<longleftrightarrow> case_key_pattern (cs_case_key c) \<and> cs_fixture_ref c \<noteq> [] \<and> 1 \<le> cs_policy_version c \<and> cs_reason c \<noteq> []"

record SeedSummary =
  ss_policy_count :: int
  ss_case_count :: int
  ss_scenarios :: "(Scenario \<times> int) list"
  ss_materialized_case_ids :: "string list"

definition load_case_seeds :: "CaseSeed list option \<Rightarrow> CaseSeed list res" where
  "load_case_seeds manifest = (case manifest of
     None \<Rightarrow> Inl PolicyError | Some items \<Rightarrow> if list_all valid_CaseSeed items then Inr items else Inl PolicyError)"

section \<open>Validation\<close>

text \<open>A dictionary keeps the first position of a key and its last value.\<close>

definition first_positions :: "'a list \<Rightarrow> 'a list" where
  "first_positions xs = rev (remdups (rev xs))"

definition occurrences :: "'a \<Rightarrow> 'a list \<Rightarrow> int" where
  "occurrences x xs = int (count_list xs x)"

definition counter :: "'a list \<Rightarrow> ('a \<times> int) list" where
  "counter xs = map (\<lambda>x. (x, occurrences x xs)) (first_positions xs)"

definition compile_file :: "env \<Rightarrow> LoadedPolicy res \<Rightarrow> CompiledPolicy res" where
  "compile_file E f = bindE f (\<lambda>source. compile_policy E (lp_document source))"

definition policy_of :: "CompiledPolicy list \<Rightarrow> string \<Rightarrow> CompiledPolicy option" where
  "policy_of ps policy_id = find (\<lambda>p. pol_policy_id p = policy_id) (rev ps)"

definition expected_verdict :: "Scenario \<Rightarrow> Verdict" where
  "expected_verdict sc = (case sc of CLEAR_VIOLATION \<Rightarrow> V_REJECT | CONTEXT_EXCEPTION \<Rightarrow> V_APPROVE
     | INSUFFICIENT_EVIDENCE \<Rightarrow> V_NEEDS_HUMAN_REVIEW)"

definition check_seed :: "CompiledPolicy list \<Rightarrow> CaseSeed \<Rightarrow> unit res" where
  "check_seed ps item = (case policy_of ps (cs_policy_id item) of
     None \<Rightarrow> Inl PolicyError
   | Some p \<Rightarrow>
       if pol_version p \<noteq> cs_policy_version item then Inl PolicyError
       else if \<not> set (map fst (cs_expected_requirement_results item)) \<subseteq> set (policy_keys p) then Inl PolicyError
       else if cs_expected_verdict item \<noteq> expected_verdict (cs_scenario item) then Inl PolicyError
       else Inr ())"

fun check_seeds :: "CompiledPolicy list \<Rightarrow> CaseSeed list \<Rightarrow> unit res" where
  "check_seeds ps [] = Inr ()"
| "check_seeds ps (item # items) = bindE (check_seed ps item) (\<lambda>_. check_seeds ps items)"

text \<open>A \<open>Counter\<close> equals a dictionary when both give every scenario three.\<close>

definition validate_demo_seeds :: "env \<Rightarrow> LoadedPolicy res list \<Rightarrow> CaseSeed list option \<Rightarrow> SeedSummary res" where
  "validate_demo_seeds E files manifest =
    bindE (map_res (compile_file E) files) (\<lambda>ps.
    bindE (load_case_seeds manifest) (\<lambda>items.
      let ids = first_positions (map pol_policy_id ps); scenarios = map cs_scenario items in
      if length ids \<noteq> 3 \<or> length items \<noteq> 9 then Inl PolicyError
      else if \<not> distinct (map cs_case_key items) then Inl PolicyError
      else if list_ex (\<lambda>sc. occurrences sc scenarios \<noteq> 3) [CLEAR_VIOLATION, CONTEXT_EXCEPTION, INSUFFICIENT_EVIDENCE] then Inl PolicyError
      else if list_ex (\<lambda>i. occurrences i (map cs_policy_id items) \<noteq> 3) ids then Inl PolicyError
      else bindE (check_seeds ps items) (\<lambda>_. Inr \<lparr> ss_policy_count = int (length ids), ss_case_count = int (length items),
             ss_scenarios = counter scenarios, ss_materialized_case_ids = [] \<rparr>)))"

section \<open>The transaction\<close>

fun save_policies :: "env \<Rightarrow> (nat \<Rightarrow> time) \<Rightarrow> nat \<Rightarrow> LoadedPolicy list \<Rightarrow> db \<Rightarrow> db res" where
  "save_policies E now i [] s = Inr s"
| "save_policies E now i (source # sources) s = bindE (compile_policy E (lp_document source)) (\<lambda>p.
     bindE (save_policy (now i) source p PL_PUBLISHED s) (\<lambda>(_, s1). save_policies E now (Suc i) sources s1))"

type_synonym video_map = "(string \<times> string) list"

fun create_cases ::
    "env \<Rightarrow> (nat \<Rightarrow> time) \<Rightarrow> (nat \<Rightarrow> nat \<Rightarrow> string) \<Rightarrow> video_map \<Rightarrow> string \<Rightarrow> nat \<Rightarrow> CaseSeed list \<Rightarrow> db \<Rightarrow> (string list \<times> db) res" where
  "create_cases E now hex videos profile i [] s = Inr ([], s)"
| "create_cases E now hex videos profile i (item # items) s = (case map_of videos (cs_fixture_ref item) of
     None \<Rightarrow> Inl KeyErr
   | Some video_id \<Rightarrow> bindE (create_case E (now i) (hex i) video_id (cs_policy_id item) (cs_policy_version item) profile
         (Some (cs_case_key item)) s) (\<lambda>(bundle, s1).
       bindE (create_cases E now hex videos profile (Suc i) items s1) (\<lambda>(ids, s2). Inr (cm_case_id (cb_case bundle) # ids, s2))))"

definition ready_videos :: "video_map \<Rightarrow> db \<Rightarrow> bool" where
  "ready_videos videos s \<longleftrightarrow> list_all (\<lambda>i. list_ex (\<lambda>v. vd_id v = i \<and> vd_status v = VS_READY) (db_videos s)) (map snd videos)"

definition seeds_body ::
    "env \<Rightarrow> (nat \<Rightarrow> time) \<Rightarrow> (nat \<Rightarrow> nat \<Rightarrow> string) \<Rightarrow> video_map \<Rightarrow> string \<Rightarrow> LoadedPolicy list \<Rightarrow> CaseSeed list \<Rightarrow> db
       \<Rightarrow> (string list \<times> db) res" where
  "seeds_body E now hex videos profile sources items s =
    (if \<not> ready_videos videos s then Inl PolicyError
     else bindE (save_policies E now 0 sources s) (\<lambda>s1. create_cases E now hex videos profile (length sources) items s1))"

definition apply_demo_seeds ::
    "env \<Rightarrow> LoadedPolicy res list \<Rightarrow> CaseSeed list option \<Rightarrow> video_map option \<Rightarrow> (nat \<Rightarrow> time) \<Rightarrow> (nat \<Rightarrow> nat \<Rightarrow> string)
       \<Rightarrow> string \<Rightarrow> db \<Rightarrow> SeedSummary res \<times> db" where
  "apply_demo_seeds E files manifest video_map now hex profile s =
    (case bindE (validate_demo_seeds E files manifest) (\<lambda>summary. bindE (load_case_seeds manifest) (\<lambda>items.
       case video_map of None \<Rightarrow> Inl PolicyError
       | Some videos \<Rightarrow>
         if \<not> set (map cs_fixture_ref items) \<subseteq> set (map fst videos) then Inl PolicyError
         else bindE (map_res id files) (\<lambda>sources. Inr (summary, items, videos, sources)))) of
       Inl e \<Rightarrow> (Inl e, s)
     | Inr (summary, items, videos, sources) \<Rightarrow>
        (case run_session (seeds_body E now hex videos profile sources items) s of
           (Inl e, s1) \<Rightarrow> (Inl e, s1)
         | (Inr ids, s1) \<Rightarrow> (Inr (summary\<lparr>ss_materialized_case_ids := ids\<rparr>), s1)))"

section \<open>Published policies stay published\<close>

definition published_as :: "CompiledPolicy \<Rightarrow> db \<Rightarrow> bool" where
  "published_as p s \<longleftrightarrow> (\<exists>r. t_get pc_key (pol_policy_id p, pol_version p) (db_policies s) = Some r
     \<and> pc_lifecycle r = PL_PUBLISHED \<and> pc_semantic_sha256 r = pol_semantic_sha256 p)"

lemma save_policy_tables:
  "save_policy now source p lc s = Inr (r, s') \<Longrightarrow> db_videos s' = db_videos s \<and> db_cases s' = db_cases s"
  by (erule save_policy_cases) simp_all

lemma save_policy_again: "published_as p s \<Longrightarrow> \<exists>r. save_policy now source p PL_PUBLISHED s = Inr (r, s)"
  by (auto simp: published_as_def save_policy_def Let_def)

lemma save_policy_publishes:
  assumes "save_policy now source p PL_PUBLISHED s = Inr (r, s')"
  shows "published_as p s'"
  using assms
proof (cases rule: save_policy_cases)
  case same
  then show ?thesis using assms by (auto simp: published_as_def save_policy_def Let_def split: if_splits)
next
  case (redraft old)
  then show ?thesis by (simp add: published_as_def t_get_upd fill_policy_def pc_key_def)
next
  case fresh
  then show ?thesis by (simp add: published_as_def t_get_append t_get_Cons) (simp add: new_policy_row_def)
qed

lemma save_policy_keeps_published:
  assumes "save_policy now source p lc s = Inr (r, s')" and "published_as q s"
  shows "published_as q s'"
  using assms(1)
proof (cases rule: save_policy_cases)
  case same
  then show ?thesis using assms(2) by simp
next
  case (redraft old)
  obtain x where x: "t_get pc_key (pol_policy_id q, pol_version q) (db_policies s) = Some x" "pc_lifecycle x = PL_PUBLISHED"
    "pc_semantic_sha256 x = pol_semantic_sha256 q" using assms(2) by (auto simp: published_as_def)
  then have "(pol_policy_id q, pol_version q) \<noteq> (pol_policy_id p, pol_version p)" using redraft(1,2) by auto
  then show ?thesis using x by (auto simp: published_as_def redraft(4) t_get_upd)
next
  case fresh
  then show ?thesis using assms(2) by (auto simp: published_as_def t_get_append split: option.splits)
qed

lemma save_policies_run:
  assumes "save_policies E now i sources s = Inr s'"
  shows "db_videos s' = db_videos s \<and> db_cases s' = db_cases s \<and> (\<forall>q. published_as q s \<longrightarrow> published_as q s')
    \<and> (\<forall>x\<in>set sources. \<exists>p. compile_policy E (lp_document x) = Inr p \<and> published_as p s')"
  using assms
proof (induction sources arbitrary: i s)
  case (Cons x sources)
  from Cons.prems obtain p r s1 where p: "compile_policy E (lp_document x) = Inr p"
    and sv: "save_policy (now i) x p PL_PUBLISHED s = Inr (r, s1)" and rest: "save_policies E now (Suc i) sources s1 = Inr s'"
    by (auto simp: bindE_Inr_iff)
  note ih = Cons.IH [OF rest]
  then have "published_as p s'" using save_policy_publishes [OF sv] by blast
  then show ?case using ih p save_policy_tables [OF sv] save_policy_keeps_published [OF sv] by auto
qed simp

lemma save_policies_again:
  "\<forall>x\<in>set sources. \<exists>p. compile_policy E (lp_document x) = Inr p \<and> published_as p s \<Longrightarrow>
     save_policies E now i sources s = Inr s"
proof (induction sources arbitrary: i)
  case (Cons x sources)
  then obtain p where p: "compile_policy E (lp_document x) = Inr p" "published_as p s" by auto
  obtain r where "save_policy (now i) x p PL_PUBLISHED s = Inr (r, s)" using save_policy_again [OF p(2)] by blast
  then show ?case using p(1) Cons by simp
qed simp

section \<open>Created cases stay\<close>

lemma find_first: "find P xs = Some y \<Longrightarrow> find P (xs @ ys) = Some y"
  by (induction xs) auto

lemma find_case_append:
  "db_cases s' = db_cases s @ cs \<Longrightarrow> find_case v p n s = Some c \<Longrightarrow> find_case v p n s' = Some c"
  unfolding find_case_def by (simp add: find_first)

lemma find_case_target: "find_case v p n s = Some c \<Longrightarrow> c \<in> set (db_cases s) \<and> ca_video_id c = v \<and> ca_policy_id c = p \<and> ca_policy_version c = n"
  by (auto simp: find_case_def find_Some_iff)

text \<open>What a successful creation leaves: the case is found, and a later creation finds it again.\<close>

lemma create_case_leaves:
  assumes "create_case E now hex vid pid n prof cid s = Inr (b, s')"
  shows "db_videos s' = db_videos s \<and> db_policies s' = db_policies s \<and> (\<exists>cs. db_cases s' = db_cases s @ cs)
    \<and> (keys_distinct ca_id (db_cases s) \<longrightarrow> keys_distinct ca_id (db_cases s'))
    \<and> (\<exists>c. find_case vid pid n s' = Some c \<and> ca_id c = cm_case_id (cb_case b))"
  using assms
proof (cases rule: create_case_cases)
  case (found c)
  then show ?thesis by (simp add: case_from_record_def)
next
  case (created p)
  let ?c = "new_case_row (fresh_case_id hex cid) vid pid n prof now"
  have i: "t_get ca_id (ca_id ?c) (db_cases s) = None" "db_videos s' = db_videos s" "db_policies s' = db_policies s"
    "db_cases s' = db_cases s @ [?c]" "cb_case b = case_from_record ?c"
    using instantiate_case_Inr [OF created(4)] by (auto simp: Let_def)
  have "find_case vid pid n s' = Some ?c"
    using created(1) unfolding find_case_def i(4) by (simp add: find_append_Cons)
  moreover have "ca_id ?c = cm_case_id (cb_case b)" by (simp add: i(5) case_from_record_def)
  moreover have "keys_distinct ca_id (db_cases s) \<Longrightarrow> keys_distinct ca_id (db_cases s')"
    using i(1) by (auto simp: i(4) keys_distinct_def t_get_None)
  ultimately show ?thesis using i(2-4) by blast
qed

text \<open>The case a seed stands for, on a ready video and with its policy published.\<close>

definition seed_case :: "video_map \<Rightarrow> db \<Rightarrow> CaseSeed \<Rightarrow> string \<Rightarrow> bool" where
  "seed_case videos s item i \<longleftrightarrow> (\<exists>vid c v p. map_of videos (cs_fixture_ref item) = Some vid
     \<and> find_case vid (cs_policy_id item) (cs_policy_version item) s = Some c \<and> ca_id c = i
     \<and> t_get vd_id vid (db_videos s) = Some v \<and> vd_status v = VS_READY
     \<and> t_get pc_key (cs_policy_id item, cs_policy_version item) (db_policies s) = Some p \<and> pc_lifecycle p = PL_PUBLISHED)"

lemma seed_case_stays:
  assumes "seed_case videos s item i" and "db_videos s' = db_videos s" and "db_policies s' = db_policies s" and "db_cases s' = db_cases s @ cs"
  shows "seed_case videos s' item i"
  using assms find_case_append [OF assms(4)] unfolding seed_case_def by metis

lemma create_seed_case:
  assumes "create_case E now hex vid (cs_policy_id item) (cs_policy_version item) prof cid s = Inr (b, s')"
    and "map_of videos (cs_fixture_ref item) = Some vid"
  shows "seed_case videos s' item (cm_case_id (cb_case b))"
  using create_case_leaves [OF assms(1)] create_case_guards [OF assms(1)] assms(2) unfolding seed_case_def by auto

lemma create_cases_run:
  assumes "create_cases E now hex videos prof i items s = Inr (ids, s')"
  shows "db_videos s' = db_videos s \<and> db_policies s' = db_policies s \<and> (\<exists>cs. db_cases s' = db_cases s @ cs)
    \<and> (keys_distinct ca_id (db_cases s) \<longrightarrow> keys_distinct ca_id (db_cases s')) \<and> list_all2 (seed_case videos s') items ids"
  using assms
proof (induction items arbitrary: i s ids)
  case (Cons item items)
  from Cons.prems obtain vid b s1 ids' where v: "map_of videos (cs_fixture_ref item) = Some vid"
    and c: "create_case E (now i) (hex i) vid (cs_policy_id item) (cs_policy_version item) prof (Some (cs_case_key item)) s = Inr (b, s1)"
    and rest: "create_cases E now hex videos prof (Suc i) items s1 = Inr (ids', s')" and ids: "ids = cm_case_id (cb_case b) # ids'"
    by (auto simp: bindE_Inr_iff split: option.splits)
  note ih = Cons.IH [OF rest] and l = create_case_leaves [OF c]
  then obtain cs where "db_cases s' = db_cases s1 @ cs" by blast
  then have "seed_case videos s' item (cm_case_id (cb_case b))"
    using seed_case_stays [OF create_seed_case [OF c v]] ih by blast
  moreover have "\<exists>cs. db_cases s' = db_cases s @ cs" using ih l by (metis append.assoc)
  ultimately show ?case using ih l by (simp add: ids)
qed simp

lemma create_cases_again:
  "list_all2 (seed_case videos s) items ids \<Longrightarrow> create_cases E now hex videos prof i items s = Inr (ids, s)"
proof (induction items arbitrary: i ids)
  case (Cons item items)
  then obtain x ids' where ids: "ids = x # ids'" and sc: "seed_case videos s item x" and rest: "list_all2 (seed_case videos s) items ids'"
    by (auto simp: list_all2_Cons1)
  show ?case using sc Cons.IH [OF rest] by (auto simp: ids seed_case_def create_case_def case_from_record_def)
qed simp

section \<open>What the transaction comes to\<close>

definition seed_target :: "video_map \<Rightarrow> CaseSeed \<Rightarrow> string option \<times> string \<times> int" where
  "seed_target videos item = (map_of videos (cs_fixture_ref item), cs_policy_id item, cs_policy_version item)"

lemma seed_case_same:
  assumes "seed_case videos s a i" and "seed_case videos s b j" and "keys_distinct ca_id (db_cases s)"
  shows "i = j \<longleftrightarrow> seed_target videos a = seed_target videos b"
proof -
  obtain v c where a: "map_of videos (cs_fixture_ref a) = Some v" "find_case v (cs_policy_id a) (cs_policy_version a) s = Some c" "ca_id c = i"
    using assms(1) by (auto simp: seed_case_def)
  obtain w d where b: "map_of videos (cs_fixture_ref b) = Some w" "find_case w (cs_policy_id b) (cs_policy_version b) s = Some d" "ca_id d = j"
    using assms(2) by (auto simp: seed_case_def)
  note ta = find_case_target [OF a(2)] and tb = find_case_target [OF b(2)]
  have "c = d" if "i = j"
  proof -
    have "t_get ca_id (ca_id c) (db_cases s) = Some c" using t_get_complete [OF assms(3)] ta by blast
    moreover have "t_get ca_id (ca_id d) (db_cases s) = Some d" using t_get_complete [OF assms(3)] tb by blast
    ultimately show ?thesis using a(3) b(3) that by simp
  qed
  then have "seed_target videos a = seed_target videos b" if "i = j"
    using that ta tb a(1) b(1) by (simp add: seed_target_def)
  moreover have "i = j" if "seed_target videos a = seed_target videos b"
  proof -
    have "v = w" "cs_policy_id a = cs_policy_id b" "cs_policy_version a = cs_policy_version b"
      using that a(1) b(1) by (simp_all add: seed_target_def)
    then have "c = d" using a(2) b(2) by simp
    then show ?thesis using a(3) b(3) by simp
  qed
  ultimately show ?thesis by blast
qed

lemma validate_demo_seeds_Inr:
  assumes "validate_demo_seeds E files manifest = Inr summary"
  shows "ss_materialized_case_ids summary = [] \<and> (\<exists>items. load_case_seeds manifest = Inr items \<and> length items = 9)"
  using assms by (auto simp: validate_demo_seeds_def bindE_Inr_iff Let_def split: if_splits)

lemma apply_demo_seeds_Inr:
  assumes "apply_demo_seeds E files manifest vm now hex profile s = (Inr summary, s')"
  obtains sm items videos sources ids where "validate_demo_seeds E files manifest = Inr sm" and "load_case_seeds manifest = Inr items"
    and "vm = Some videos" and "set (map cs_fixture_ref items) \<subseteq> set (map fst videos)" and "map_res id files = Inr sources"
    and "seeds_body E now hex videos profile sources items s = Inr (ids, s')" and "summary = sm\<lparr>ss_materialized_case_ids := ids\<rparr>"
proof -
  from assms obtain sm items videos sources where 1: "validate_demo_seeds E files manifest = Inr sm" "load_case_seeds manifest = Inr items"
    "vm = Some videos" "set (map cs_fixture_ref items) \<subseteq> set (map fst videos)" "map_res id files = Inr sources"
    unfolding apply_demo_seeds_def by (auto simp: bindE_Inr_iff bindE_Inl_iff split: sum.splits option.splits if_splits)
  then have "(case run_session (seeds_body E now hex videos profile sources items) s of
      (Inl e, s1) \<Rightarrow> (Inl e, s1) | (Inr ids, s1) \<Rightarrow> (Inr (sm\<lparr>ss_materialized_case_ids := ids\<rparr>), s1)) = (Inr summary, s')"
    using assms by (simp add: apply_demo_seeds_def)
  then obtain ids where 2: "run_session (seeds_body E now hex videos profile sources items) s = (Inr ids, s')"
    "summary = sm\<lparr>ss_materialized_case_ids := ids\<rparr>" by (auto split: sum.splits prod.splits)
  show thesis by (rule that [OF 1 _ 2(2)]) (use 2(1) in \<open>simp add: run_session_Inr_iff\<close>)
qed

lemma apply_demo_seeds_intro:
  assumes "validate_demo_seeds E files manifest = Inr sm" and "load_case_seeds manifest = Inr items"
    and "set (map cs_fixture_ref items) \<subseteq> set (map fst videos)" and "map_res id files = Inr sources"
    and "seeds_body E now hex videos profile sources items s = Inr (ids, s')"
  shows "apply_demo_seeds E files manifest (Some videos) now hex profile s = (Inr (sm\<lparr>ss_materialized_case_ids := ids\<rparr>), s')"
  using assms by (simp add: apply_demo_seeds_def)

lemma apply_demo_seeds_Inl:
  "apply_demo_seeds E files manifest vm now hex profile s = (Inl e, s') \<Longrightarrow> s' = s"
  by (auto simp: apply_demo_seeds_def run_session_def split: sum.splits prod.splits)

text \<open>
  C40. The demonstration data are applied as one transaction. When it fails the database is as it was. When it
  succeeds, the nine seeds of the manifest stand for the returned cases in order: each is the case of the video
  mapped to its fixture under its policy version, with the video ready and the policy published; two seeds
  share a case exactly when they name the same video and policy version. Applying the data again, at any
  time, with any fresh identifiers and for any profile, gives the same summary and changes nothing.
\<close>

theorem seeds_applied_once:
  assumes "apply_demo_seeds E files manifest vm now hex profile s = (r, s')" and "keys_distinct ca_id (db_cases s)"
  shows "case r of Inl e \<Rightarrow> s' = s
    | Inr summary \<Rightarrow> \<exists>items videos. manifest = Some items \<and> vm = Some videos \<and> length items = 9
        \<and> list_all2 (seed_case videos s') items (ss_materialized_case_ids summary)
        \<and> (\<forall>i<9. \<forall>j<9. ss_materialized_case_ids summary ! i = ss_materialized_case_ids summary ! j
             \<longleftrightarrow> seed_target videos (items ! i) = seed_target videos (items ! j))
        \<and> (\<forall>now2 hex2 profile2. apply_demo_seeds E files manifest vm now2 hex2 profile2 s' = (Inr summary, s'))"
proof (cases r)
  case (Inl e)
  then show ?thesis using assms(1) apply_demo_seeds_Inl by simp
next
  case (Inr summary)
  obtain sm items videos sources ids where sm: "validate_demo_seeds E files manifest = Inr sm" and items: "load_case_seeds manifest = Inr items"
    and vm: "vm = Some videos" and fx: "set (map cs_fixture_ref items) \<subseteq> set (map fst videos)" and src: "map_res id files = Inr sources"
    and body: "seeds_body E now hex videos profile sources items s = Inr (ids, s')" and sum: "summary = sm\<lparr>ss_materialized_case_ids := ids\<rparr>"
    by (rule apply_demo_seeds_Inr [OF assms(1) [unfolded Inr]])
  obtain s1 where ready: "ready_videos videos s" and sv: "save_policies E now 0 sources s = Inr s1"
    and cr: "create_cases E now hex videos profile (length sources) items s1 = Inr (ids, s')"
    using body by (auto simp: seeds_body_def bindE_Inr_iff split: if_splits)
  note v = save_policies_run [OF sv] and c = create_cases_run [OF cr]
  have n: "length items = 9" using validate_demo_seeds_Inr [OF sm] items by simp
  have m: "manifest = Some items" using items by (auto simp: load_case_seeds_def split: option.splits if_splits)
  have kd: "keys_distinct ca_id (db_cases s')" using c v assms(2) by simp
  have all: "list_all2 (seed_case videos s') items ids" using c by blast
  have len: "length ids = 9" using all n by (simp add: list_all2_lengthD)
  have same: "ids ! i = ids ! j \<longleftrightarrow> seed_target videos (items ! i) = seed_target videos (items ! j)" if "i < 9" "j < 9" for i j
    using seed_case_same [OF _ _ kd] list_all2_nthD [OF all] that n by metis
  have "ready_videos videos s'" using ready c v by (simp add: ready_videos_def)
  moreover have "save_policies E now2 0 sources s' = Inr s'" for now2
  proof (rule save_policies_again)
    have "published_as p s1 \<Longrightarrow> published_as p s'" for p using c by (simp add: published_as_def)
    then show "\<forall>x\<in>set sources. \<exists>p. compile_policy E (lp_document x) = Inr p \<and> published_as p s'" using v by blast
  qed
  ultimately have "seeds_body E now2 hex2 videos profile2 sources items s' = Inr (ids, s')" for now2 hex2 profile2
    using create_cases_again [OF all] by (simp add: seeds_body_def)
  then have "apply_demo_seeds E files manifest vm now2 hex2 profile2 s' = (Inr summary, s')" for now2 hex2 profile2
    unfolding vm sum by (rule apply_demo_seeds_intro [OF sm items fx src])
  moreover have "ss_materialized_case_ids summary = ids" by (simp add: sum)
  ultimately show ?thesis using m vm n all same unfolding Inr sum.case by (intro exI [of _ items] exI [of _ videos]) simp
qed

text \<open>
  The number of cases the summary reports counts the seeds: where two fixtures of a policy are mapped to one
  video, one case stands for both.
\<close>

lemma seeds_share_a_case:
  assumes "seed_case videos s a i" and "seed_case videos s b j" and "keys_distinct ca_id (db_cases s)"
    and "map_of videos (cs_fixture_ref a) = map_of videos (cs_fixture_ref b)"
    and "cs_policy_id a = cs_policy_id b" and "cs_policy_version a = cs_policy_version b"
  shows "i = j"
  using seed_case_same [OF assms(1-3)] assms(4-6) by (simp add: seed_target_def)

end
