(* ===== verification/SeedsDemo.thy ===== *)
theory SeedsDemo
  imports Seeds
begin

text \<open>
  A worked manifest for the theorem of theory Seeds: three policies of one requirement each, and nine seeds
  on one video, so that a case stands for each three.
\<close>

definition seed_source :: "string \<Rightarrow> LoadedPolicy" where
  "seed_source i = demo_source\<lparr>lp_document := demo_document\<lparr>doc_id := i, doc_exceptions := []\<rparr>\<rparr>"

definition demo_seed :: "string \<Rightarrow> Scenario \<Rightarrow> string \<Rightarrow> CaseSeed" where
  "demo_seed policy sc key = \<lparr> cs_case_key = key, cs_scenario = sc, cs_fixture_ref = ''f'', cs_policy_id = policy, cs_policy_version = 1,
     cs_expected_verdict = expected_verdict sc, cs_expected_requirement_results = [], cs_reason = u ''why'', cs_annotation_status = METADATA_ONLY \<rparr>"

definition demo_seeds :: "CaseSeed list" where
  "demo_seeds = [demo_seed ''a'' CLEAR_VIOLATION ''a1'', demo_seed ''a'' CONTEXT_EXCEPTION ''a2'', demo_seed ''a'' INSUFFICIENT_EVIDENCE ''a3'',
    demo_seed ''b'' CLEAR_VIOLATION ''b1'', demo_seed ''b'' CONTEXT_EXCEPTION ''b2'', demo_seed ''b'' INSUFFICIENT_EVIDENCE ''b3'',
    demo_seed ''c'' CLEAR_VIOLATION ''c1'', demo_seed ''c'' CONTEXT_EXCEPTION ''c2'', demo_seed ''c'' INSUFFICIENT_EVIDENCE ''c3'']"

definition demo_files :: "LoadedPolicy res list" where
  "demo_files = map (\<lambda>i. Inr (seed_source i)) [''a'', ''b'', ''c'']"

definition demo_hex :: "nat \<Rightarrow> nat \<Rightarrow> string" where
  "demo_hex i n = [''abcdefghijklmnop'' ! i]"

lemma demo_seed_simps [simp]:
  "cs_case_key (demo_seed p sc k) = k" "cs_scenario (demo_seed p sc k) = sc" "cs_fixture_ref (demo_seed p sc k) = ''f''"
  "cs_policy_id (demo_seed p sc k) = p" "cs_policy_version (demo_seed p sc k) = 1" "cs_expected_requirement_results (demo_seed p sc k) = []"
  "cs_expected_verdict (demo_seed p sc k) = expected_verdict sc" "cs_reason (demo_seed p sc k) = u ''why''"
  by (simp_all add: demo_seed_def)

lemma demo_compiled:
  "\<exists>p. compile_policy demo_env (lp_document (seed_source i)) = Inr p \<and> pol_policy_id p = i \<and> pol_version p = 1 \<and> length (pol_requirements p) = 1"
  by (simp add: seed_source_def demo_document_def compile_policy_def Let_def)

definition seed_policy :: "string \<Rightarrow> CompiledPolicy" where
  "seed_policy i = projr (compile_policy demo_env (lp_document (seed_source i)))"

lemma seed_policy [simp]:
  "compile_policy demo_env (lp_document (seed_source i)) = Inr (seed_policy i)" "pol_policy_id (seed_policy i) = i" "pol_version (seed_policy i) = 1"
  "length (pol_requirements (seed_policy i)) = 1"
  using demo_compiled [of i] by (auto simp: seed_policy_def)

lemma demo_validated: "\<exists>sm. validate_demo_seeds demo_env demo_files (Some demo_seeds) = Inr sm"
proof -
  have "map_res (compile_file demo_env) demo_files = Inr [seed_policy ''a'', seed_policy ''b'', seed_policy ''c'']"
    by (simp add: demo_files_def compile_file_def)
  moreover have "load_case_seeds (Some demo_seeds) = Inr demo_seeds"
    by (simp add: load_case_seeds_def demo_seeds_def valid_CaseSeed_def u_def case_key_pattern_def is_lower_def is_word_def)
  moreover have "check_seeds [seed_policy ''a'', seed_policy ''b'', seed_policy ''c''] demo_seeds = Inr ()"
    by (simp add: demo_seeds_def check_seed_def policy_of_def)
  ultimately show ?thesis
    by (simp add: validate_demo_seeds_def Let_def first_positions_def occurrences_def) (simp add: demo_seeds_def)
qed

definition seed_row :: "string \<Rightarrow> PolicyRecord" where
  "seed_row i = new_policy_row 5 (seed_source i) (seed_policy i) PL_PUBLISHED"

lemma seed_row [simp]:
  "pc_policy_id (seed_row i) = i" "pc_version (seed_row i) = 1" "pc_key (seed_row i) = (i, 1)" "pc_lifecycle (seed_row i) = PL_PUBLISHED"
  "pc_compiled_policy (seed_row i) = seed_policy i"
  by (simp_all add: seed_row_def) (simp_all add: new_policy_row_def)

lemma save_seed:
  assumes "versions_of i s = []"
  shows "save_policy 5 (seed_source i) (seed_policy i) PL_PUBLISHED s = Inr (seed_row i, s\<lparr>db_policies := db_policies s @ [seed_row i]\<rparr>)"
proof -
  have "t_get pc_key (i, 1) (db_policies s) = None"
    using assms by (auto simp: t_get_None versions_of_def filter_empty_conv pc_key_def)
  then have "t_add pc_key (seed_row i) (db_policies s) = Inr (db_policies s @ [seed_row i])" by (simp add: t_add_Inr)
  then show ?thesis using assms \<open>t_get pc_key (i, 1) (db_policies s) = None\<close>
    by (simp add: save_policy_def Let_def expected_version_def flip: seed_row_def)
qed

lemma versions_seed: "versions_of p (s\<lparr>db_policies := db_policies s @ [seed_row i]\<rparr>) = versions_of p s @ (if i = p then [1] else [])"
  by (simp add: versions_of_def)

definition saved_db :: db where
  "saved_db = demo_db\<lparr>db_policies := db_policies demo_db @ [seed_row ''a'', seed_row ''b'', seed_row ''c'']\<rparr>"

lemma demo_saved: "save_policies demo_env (\<lambda>i. 5) 0 (map seed_source [''a'', ''b'', ''c'']) demo_db = Inr saved_db"
proof -
  have v: "versions_of ''a'' demo_db = []" "versions_of ''b'' demo_db = []" "versions_of ''c'' demo_db = []"
    by (simp_all add: versions_of_def demo_db_def new_policy_row_def demo_policy_def)
  let ?s = "demo_db\<lparr>db_policies := db_policies demo_db @ [seed_row ''a'']\<rparr>"
  have "save_policy 5 (seed_source ''a'') (seed_policy ''a'') PL_PUBLISHED demo_db = Inr (seed_row ''a'', ?s)"
    by (rule save_seed [OF v(1)])
  moreover have "save_policy 5 (seed_source ''b'') (seed_policy ''b'') PL_PUBLISHED ?s
      = Inr (seed_row ''b'', demo_db\<lparr>db_policies := db_policies demo_db @ [seed_row ''a'', seed_row ''b'']\<rparr>)"
    using save_seed [of "''b''" ?s] v by (simp add: versions_seed)
  moreover have "save_policy 5 (seed_source ''c'') (seed_policy ''c'') PL_PUBLISHED (demo_db\<lparr>db_policies := db_policies demo_db @ [seed_row ''a'', seed_row ''b'']\<rparr>)
      = Inr (seed_row ''c'', saved_db)"
    using save_seed [of "''c''" "demo_db\<lparr>db_policies := db_policies demo_db @ [seed_row ''a'', seed_row ''b'']\<rparr>"] v
    by (simp add: versions_of_def saved_db_def)
  ultimately show ?thesis by simp
qed

lemma saved_db_simps [simp]: "db_videos saved_db = [demo_video]" "db_cases saved_db = []" "db_requirements saved_db = []"
  "t_get pc_key (''a'', 1) (db_policies saved_db) = Some (seed_row ''a'')" "t_get pc_key (''b'', 1) (db_policies saved_db) = Some (seed_row ''b'')"
  "t_get pc_key (''c'', 1) (db_policies saved_db) = Some (seed_row ''c'')"
  by (simp_all add: saved_db_def demo_db_def empty_db_def t_get_Cons new_policy_row_def demo_policy_def pc_key_def)

definition seed_requirements :: "nat \<Rightarrow> string \<Rightarrow> string \<Rightarrow> RequirementRecord list" where
  "seed_requirements i p k = requirement_rows (demo_hex i) k 5 (pol_requirements (seed_policy p))"

lemma seed_requirements_ids: "map rm_id (seed_requirements i p k) = [''req_'' @ [''abcdefghijklmnop'' ! i]]"
proof -
  obtain t where "pol_requirements (seed_policy p) = [t]" using seed_policy(4) [of p] by (metis One_nat_def length_0_conv length_Suc_conv)
  then show ?thesis by (simp add: seed_requirements_def requirement_rows_def demo_hex_def)
qed

definition seeded :: "nat \<Rightarrow> string \<Rightarrow> string \<Rightarrow> db \<Rightarrow> db" where
  "seeded i p k s = s\<lparr>db_cases := db_cases s @ [new_case_row k ''v1'' p 1 ''mock'' 5], db_requirements := db_requirements s @ seed_requirements i p k\<rparr>"

text \<open>The first seed of a policy creates its case, the others find it.\<close>

lemma create_three:
  assumes "db_videos s = [demo_video]" and "t_get pc_key (p, 1) (db_policies s) = Some (seed_row p)" and "find_case ''v1'' p 1 s = None"
    and "t_get ca_id k (db_cases s) = None" and "''req_'' @ [''abcdefghijklmnop'' ! i] \<notin> rm_id ` set (db_requirements s)" and "k \<noteq> []"
  shows "create_cases demo_env (\<lambda>i. 5) demo_hex [(''f'', ''v1'')] ''mock'' i (demo_seed p sa k # demo_seed p sb k2 # demo_seed p sc k3 # items) s
    = bindE (create_cases demo_env (\<lambda>i. 5) demo_hex [(''f'', ''v1'')] ''mock'' (Suc (Suc (Suc i))) items (seeded i p k s)) (\<lambda>(ids, s2). Inr (k # k # k # ids, s2))"
proof -
  have ready: "t_get vd_id ''v1'' [demo_video] = Some demo_video" "vd_status demo_video = VS_READY" by (simp_all add: demo_video_def t_get_Cons)
  have "t_add_all rm_id (seed_requirements i p k) (db_requirements s) = Inr (db_requirements s @ seed_requirements i p k)"
  proof -
    have "\<exists>t. t_add_all rm_id (seed_requirements i p k) (db_requirements s) = Inr t"
      unfolding t_add_all_ok_iff seed_requirements_ids using assms(5) by auto
    then show ?thesis using t_add_all_Inr by blast
  qed
  moreover have "t_add ca_id (new_case_row k ''v1'' p 1 ''mock'' 5) (db_cases s) = Inr (db_cases s @ [new_case_row k ''v1'' p 1 ''mock'' 5])"
    using assms(4) by (simp add: t_add_Inr)
  ultimately have 1: "\<exists>b. create_case demo_env 5 (demo_hex i) ''v1'' p 1 ''mock'' (Some k) s = Inr (b, seeded i p k s) \<and> cm_case_id (cb_case b) = k"
    using assms ready by (simp add: create_case_def instantiate_case_def fresh_case_id_def truthy_def Let_def
        seeded_def case_from_record_def flip: seed_requirements_def)
  have "find_case ''v1'' p 1 (seeded i p k s) = Some (new_case_row k ''v1'' p 1 ''mock'' 5)"
    using assms(3) by (simp add: find_case_def seeded_def find_append_Cons)
  moreover have "db_videos (seeded i p k s) = [demo_video]" "t_get pc_key (p, 1) (db_policies (seeded i p k s)) = Some (seed_row p)"
    using assms(1,2) by (simp_all add: seeded_def)
  ultimately have 2: "\<exists>b. create_case demo_env 5 h ''v1'' p 1 ''mock'' c (seeded i p k s) = Inr (b, seeded i p k s) \<and> cm_case_id (cb_case b) = k" for h c
    using ready by (simp add: create_case_def case_from_record_def)
  obtain b1 where b1: "create_case demo_env 5 (demo_hex i) ''v1'' p 1 ''mock'' (Some k) s = Inr (b1, seeded i p k s)" "cm_case_id (cb_case b1) = k"
    using 1 by blast
  obtain b2 where b2: "create_case demo_env 5 (demo_hex (Suc i)) ''v1'' p 1 ''mock'' (Some k2) (seeded i p k s) = Inr (b2, seeded i p k s)" "cm_case_id (cb_case b2) = k"
    using 2 by blast
  obtain b3 where b3: "create_case demo_env 5 (demo_hex (Suc (Suc i))) ''v1'' p 1 ''mock'' (Some k3) (seeded i p k s) = Inr (b3, seeded i p k s)" "cm_case_id (cb_case b3) = k"
    using 2 by blast
  show ?thesis
    by (cases "create_cases demo_env (\<lambda>i. 5) demo_hex [(''f'', ''v1'')] ''mock'' (Suc (Suc (Suc i))) items (seeded i p k s)") (auto simp: b1 b2 b3)
qed

lemma seeded_simps [simp]:
  "db_videos (seeded i p k s) = db_videos s" "db_policies (seeded i p k s) = db_policies s"
  "db_cases (seeded i p k s) = db_cases s @ [new_case_row k ''v1'' p 1 ''mock'' 5]"
  "rm_id ` set (db_requirements (seeded i p k s)) = rm_id ` set (db_requirements s) \<union> {''req_'' @ [''abcdefghijklmnop'' ! i]}"
  using arg_cong [OF seed_requirements_ids [of i p k], of set] by (simp_all add: seeded_def image_Un)

lemma seeds_created:
  "\<exists>s. create_cases demo_env (\<lambda>i. 5) demo_hex [(''f'', ''v1'')] ''mock'' 3 demo_seeds saved_db
     = Inr ([''a1'', ''a1'', ''a1'', ''b1'', ''b1'', ''b1'', ''c1'', ''c1'', ''c1''], s)"
  unfolding demo_seeds_def
  by (simp add: create_three find_case_def t_get_append t_get_Cons numeral_nat del: create_cases.simps(2))

lemma seeds_applied_once_witness:
  "\<exists>sm s'. apply_demo_seeds demo_env demo_files (Some demo_seeds) (Some [(''f'', ''v1'')]) (\<lambda>i. 5) demo_hex ''mock'' demo_db = (Inr sm, s')
     \<and> ss_materialized_case_ids sm = [''a1'', ''a1'', ''a1'', ''b1'', ''b1'', ''b1'', ''c1'', ''c1'', ''c1'']
     \<and> apply_demo_seeds demo_env demo_files (Some demo_seeds) (Some [(''f'', ''v1'')]) (\<lambda>i. 9) demo_hex ''other'' s' = (Inr sm, s')"
proof -
  obtain sm where sm: "validate_demo_seeds demo_env demo_files (Some demo_seeds) = Inr sm" using demo_validated by blast
  have items: "load_case_seeds (Some demo_seeds) = Inr demo_seeds" using sm by (auto simp: validate_demo_seeds_def load_case_seeds_def bindE_Inr_iff split: if_splits)
  obtain s' where c: "create_cases demo_env (\<lambda>i. 5) demo_hex [(''f'', ''v1'')] ''mock'' 3 demo_seeds saved_db
     = Inr ([''a1'', ''a1'', ''a1'', ''b1'', ''b1'', ''b1'', ''c1'', ''c1'', ''c1''], s')" using seeds_created by blast
  have src: "map_res id demo_files = Inr (map seed_source [''a'', ''b'', ''c''])" by (simp add: demo_files_def)
  have "ready_videos [(''f'', ''v1'')] demo_db" by (simp add: ready_videos_def demo_db_def demo_video_def)
  then have b: "seeds_body demo_env (\<lambda>i. 5) demo_hex [(''f'', ''v1'')] ''mock'' (map seed_source [''a'', ''b'', ''c'']) demo_seeds demo_db
      = Inr ([''a1'', ''a1'', ''a1'', ''b1'', ''b1'', ''b1'', ''c1'', ''c1'', ''c1''], s')"
    unfolding seeds_body_def demo_saved using c by (simp add: numeral_nat)
  have fx: "set (map cs_fixture_ref demo_seeds) \<subseteq> set (map fst [(''f'', ''v1'')])" by (simp add: demo_seeds_def)
  note a = apply_demo_seeds_intro [OF sm items fx src b]
  have "keys_distinct ca_id (db_cases demo_db)" by (simp add: keys_distinct_def demo_db_def empty_db_def)
  from seeds_applied_once [OF a this] a show ?thesis by (auto simp del: fun_upd_apply)
qed

end
