(* ===== verification/Spec2Isabelle.thy ===== *)
theory Spec2Isabelle
  imports EviPrelude DomainModels PolicySchema AgentTypes Records Store PolicyVersions Evidence Demo
    Aggregation RuleEval Finalize HumanReview Jobs Leases AgentService AgentMachine ToolExecutor
    ModelAudit AgentEngine EngineRuns AgentHandler EngineDemo ReplayPlan ReplayRun ReplaySettle ReplayDemo
    TextSearch Retrieval RetrievalIndex RetrievalDemo ArtifactStore CoreTools
    MediaService MediaExtract MediaJobs MediaDemo
    Gateways Triage TriageRuns TriageDemo Timeline
    Worker WorkerDemo Seeds SeedsDemo
begin

text \<open>
  EviStream: a verification development of the investigation and governance core of the Python
  package \<open>evistream\<close>.

  The program. EviStream judges videos against written policies. A policy document is validated and
  compiled into requirements (\<open>policies/\<close>); a case instantiates them for one video. An agent
  investigates the case: it plans, searches by tools, lets models look at what was found, verifies,
  challenges and decides (\<open>agent/\<close>, \<open>tools/\<close>), as a persisted job that may be retried, recovered and
  delivered twice (\<open>jobs/\<close>, \<open>application/\<close>). What it leaves behind is evidence. From the evidence,
  and never from the agent's own opinion, \<open>governance/\<close> derives a status for every requirement and a
  verdict by the rules of the policy, which auditors may review and appeal against.

  How it is modelled. Every table is a list of records (theories Records and Store, from
  \<open>storage/models.py\<close>), the database a record of tables (\<open>db\<close>), a session a function from a database to
  a result and a database: an exception rolls back (\<open>run_session\<close>). Errors are values of \<open>exn\<close>, a
  fallible operation returns \<open>exn + 'a\<close> (\<open>res\<close>). Hashing, JSON text and the text order of the database
  are the fields of an environment (\<open>env\<close>); clocks, fresh identifiers, model providers, tools, frame
  extraction and the queue are parameters, indexed so that they may answer differently at each use.
  Integers are Python's, hence \<open>int\<close>; confidences are rational; text that is inspected by characters
  is a list of code points.

  Theories, in the order of the imports.

  \<^item> EviPrelude: results, sessions, tables with unique keys (\<open>t_get\<close>, \<open>t_add\<close>, \<open>t_upd\<close>), sorting by
    the order of the database, decimal and JSON helpers, and their lemmas.
  \<^item> DomainModels, AgentTypes, Records, Store: \<open>domain/models.py\<close>, \<open>governance/types.py\<close>, \<open>agent/types.py\<close>,
    \<open>tools/types.py\<close>, \<open>storage/models.py\<close> and the check constraints and triggers on evidence of the
    migrations.
  \<^item> PolicySchema: \<open>policies/schema.py\<close>, \<open>catalog.py\<close>, \<open>compiler.py\<close>; what validation accepts compiles to
    unique requirement keys that the expressions refer to.
  \<^item> PolicyVersions: \<open>policies/versioning.py\<close>; published versions never change, versions are numbered
    without gaps, a case is created once.
  \<^item> Evidence, Aggregation, RuleEval, Finalize: \<open>governance/evidence.py\<close>, \<open>aggregation.py\<close>,
    \<open>rule_evaluator.py\<close>, \<open>service.py\<close>; which evidence counts, what a status means, three-valued
    soundness and monotonicity of the rules, groundedness and idempotence of the decision.
  \<^item> HumanReview: \<open>governance/review.py\<close>; the chain of decisions only grows, appeals are resolved once,
    requests are idempotent.
  \<^item> Jobs: \<open>config.py\<close>, \<open>jobs/service.py\<close>, the repository of \<open>jobs/runtime.py\<close>.
  \<^item> Leases: the locale \<open>lease_contract\<close>, a claim that is exclusive until its lease has ended. It is
    interpreted on the claim of a run (AgentService) and on the claim of a model call (ModelAudit).
  \<^item> AgentService: \<open>agent/service.py\<close>; prepare, claim, checkpoint, complete, fail, defer_retry.
    AgentMachine: these as an inductive step relation over the database and the states executors hold,
    with the invariant that makes the history of every run a legal walk of the transition table.
  \<^item> ToolExecutor: \<open>tools/executor.py\<close>. ModelAudit: \<open>agent/audit.py\<close>. Both answer a repeated request
    from its record.
  \<^item> AgentEngine: \<open>agent/engine.py\<close> and \<open>agent/media.py\<close>, node by node; how every node ends
    (\<open>run_node_ends\<close>), and that the loop ends. EngineRuns: whole runs; the engine refines the machine of
    AgentMachine, keeps its budgets, writes only evidence that lies within recorded tool answers, and
    gives conclusive verdicts only on resolved, consistent evidence.
  \<^item> AgentHandler: \<open>application/job_handlers.py\<close> (the investigation handler) and \<open>dispatcher.py\<close>, the
    composition with finalization, and what recovery makes of a crash.
  \<^item> ReplayPlan: \<open>replay/planner.py\<close>; a plan covers the target version. ReplayRun: \<open>replay/service.py\<close> and
    its handler; an item copies evidence and changes nothing else. ReplaySettle: whole executions; every
    item ends on a machine decision, the stored result reads back, a reevaluation investigates nothing, a
    case is replayed to a version once.
  \<^item> TextSearch: \<open>retrieval/text.py\<close> and \<open>temporal.py\<close>; lexemes split back, merged ranges cover the same.
    Retrieval: \<open>retrieval/service.py\<close>; a search is reciprocal rank fusion of the two lists of candidates.
    RetrievalIndex: \<open>retrieval/indexing.py\<close>; a successful run leaves nothing to index.
  \<^item> ArtifactStore: \<open>storage/artifacts.py\<close>; a URI leads back to the path of its key, below the root. CoreTools:
    \<open>tools/core.py\<close> and \<open>registry.py\<close>; the built-in tools stay in their case and add at most one clip, as
    the executor and the engine rely on.
  \<^item> MediaService, MediaExtract, MediaJobs: \<open>media/service.py\<close>, \<open>segmenter.py\<close> and the handler of
    preprocessing jobs; an extraction is all or nothing, a delivery leaves the job at rest, a file is
    registered once, and what a second delivery and a crash after the extraction do.
  \<^item> Gateways: \<open>models/profiles.py\<close>, \<open>factory.py\<close>, \<open>openai_compatible.py\<close>, \<open>openai_embedding.py\<close>, \<open>mock.py\<close>; the
    retries are the first final answer, what a gateway returns fits its request, a gateway is built or unavailable.
  \<^item> Triage, TriageRuns: \<open>triage/service.py\<close>; a triage that ends well has checked every latest policy once,
    successful checks are grounded, a failed one leaves what had passed. It keeps the jobs, as MediaJobs assumes.
  \<^item> Timeline: \<open>governance/timeline.py\<close>; the timeline of a case is complete, chronological and independent
    of the order of the rows.
  \<^item> Worker: \<open>jobs/runtime.py\<close> and \<open>worker.py\<close>; the factory that runs a job of any type with its handler, the
    dispatcher and the worker. The worker and the stored job agree after a preprocessing job, with the indexer and
    the triage of the program, which leave the jobs alone; a submission is not lost with the queue.
  \<^item> Seeds: \<open>policies/seeds.py\<close>; the demonstration data are applied as a whole, and once.
  \<^item> Demo, EngineDemo, ReplayDemo, RetrievalDemo, MediaDemo, TriageDemo, WorkerDemo, SeedsDemo: a small database,
    worked runs, a worked replay, search, preprocessing, triage, delivery and manifest, on which the theorems are instantiated.

  Fuel. Only \<open>run_engine\<close> takes fuel, one unit a node. \<open>engine_terminates\<close> shows that five units for
  every round the settings still allow and five more are always enough, and that more changes nothing.

  Not modelled. The HTTP application, the command line, scripts and the DDL of the migrations; how a runtime is built
  from the configuration (the runtime per profile is a parameter that may raise); adapters
  that run processes or call services (probe, extraction, speech, OCR, the OpenAI client, Redis), which are parameters that answer or raise; the bytes of stored files; row locks: sessions are atomic here, as the locks and the unique constraints
  make them; the text of error messages; elapsed times, which are parameters where they are stored.
\<close>

end
